(* ===== verification/Prelude.thy ===== *)
theory Prelude
  imports Main "HOL-Library.Sublist"
begin

text \<open>
  Shared vocabulary of the development: the exceptions the program raises, the part of
  Python's string library that the modelled functions call, and the generic lemmas on
  ordered tables that the queue, the scheduler and the ledgers share.

  Text is modelled as \<^typ>\<open>string\<close>, a list of ASCII characters. Case folding,
  white space and word characters are the ASCII ones, so a label or a source name with
  characters beyond ASCII is outside the model.
\<close>

named_theorems guard_simps \<open>unfolding rules for the guards of the modelled handlers\<close>
named_theorems inv_intros \<open>preservation of the components' invariants\<close>

section \<open>Exceptions as values\<close>

datatype py_exn =
    ValueError string
  | KeyError string
  | RuntimeError string
  | TypeError string
  | AttributeError string
  | ConnectionError string
  | DuplicateSubmissionError string
  | UnknownOutcomeFrozenError string
  | CapacityBlocked string

type_synonym 'a result = "py_exn + 'a"

section \<open>Python strings\<close>

definition py_lower_char :: "char \<Rightarrow> char" where
  "py_lower_char c =
     (let n = (of_char c :: nat) in if 65 \<le> n \<and> n \<le> 90 then char_of (n + 32) else c)"

definition py_lower :: "string \<Rightarrow> string" where
  "py_lower s = map py_lower_char s"

definition py_upper_char :: "char \<Rightarrow> char" where
  "py_upper_char c =
     (let n = (of_char c :: nat) in if 97 \<le> n \<and> n \<le> 122 then char_of (n - 32) else c)"

definition py_upper :: "string \<Rightarrow> string" where
  "py_upper s = map py_upper_char s"

text \<open>\<open>a or b\<close> for strings; \<open>s.replace(c, d)\<close> for single characters.\<close>

definition py_or :: "string \<Rightarrow> string \<Rightarrow> string" where
  "py_or a b = (if a = [] then b else a)"

definition py_replace :: "char \<Rightarrow> char \<Rightarrow> string \<Rightarrow> string" where
  "py_replace c d s = map (\<lambda>x. if x = c then d else x) s"

definition py_isspace :: "char \<Rightarrow> bool" where
  "py_isspace c = (let n = (of_char c :: nat) in n = 32 \<or> (9 \<le> n \<and> n \<le> 13) \<or> (28 \<le> n \<and> n \<le> 31))"

definition py_isdigit :: "char \<Rightarrow> bool" where
  "py_isdigit c = (let n = (of_char c :: nat) in 48 \<le> n \<and> n \<le> 57)"

definition py_isalpha :: "char \<Rightarrow> bool" where
  "py_isalpha c = (let n = (of_char c :: nat) in (65 \<le> n \<and> n \<le> 90) \<or> (97 \<le> n \<and> n \<le> 122))"

definition py_isalnum :: "char \<Rightarrow> bool" where
  "py_isalnum c \<longleftrightarrow> py_isalpha c \<or> py_isdigit c"

text \<open>\<open>s.title()\<close>: the first letter of every run of letters in upper case, the others in lower case.\<close>

fun py_title_aux :: "bool \<Rightarrow> string \<Rightarrow> string" where
  "py_title_aux inside [] = []"
| "py_title_aux inside (c # cs) =
     (if py_isalpha c
      then (if inside then py_lower_char c else py_upper_char c) # py_title_aux True cs
      else c # py_title_aux False cs)"

definition py_title :: "string \<Rightarrow> string" where
  "py_title s = py_title_aux False s"

text \<open>Word characters of the regular expression engine (\<open>\w\<close>).\<close>

definition py_isword :: "char \<Rightarrow> bool" where
  "py_isword c \<longleftrightarrow> py_isalnum c \<or> c = CHR ''_''"

text \<open>\<open>k in s\<close> for strings.\<close>

fun py_in :: "string \<Rightarrow> string \<Rightarrow> bool" where
  "py_in k [] = (k = [])"
| "py_in k (c # cs) = (prefix k (c # cs) \<or> py_in k cs)"

text \<open>\<open>any(k in s for k in ks)\<close>.\<close>

definition py_any_in :: "string list \<Rightarrow> string \<Rightarrow> bool" where
  "py_any_in ks s = list_ex (\<lambda>k. py_in k s) ks"

text \<open>\<open>s.split()\<close>: the maximal runs of non-space characters.\<close>

fun py_words_aux :: "string \<Rightarrow> string \<Rightarrow> string list" where
  "py_words_aux acc [] = (if acc = [] then [] else [rev acc])"
| "py_words_aux acc (c # cs) =
     (if py_isspace c
      then (if acc = [] then py_words_aux [] cs else rev acc # py_words_aux [] cs)
      else py_words_aux (c # acc) cs)"

definition py_words :: "string \<Rightarrow> string list" where
  "py_words s = py_words_aux [] s"

text \<open>\<open>sep.join(xs)\<close>.\<close>

fun py_join :: "string \<Rightarrow> string list \<Rightarrow> string" where
  "py_join sep [] = []"
| "py_join sep [x] = x"
| "py_join sep (x # y # xs) = x @ sep @ py_join sep (y # xs)"

text \<open>\<open>s.strip()\<close>.\<close>

definition py_strip :: "string \<Rightarrow> string" where
  "py_strip s = rev (dropWhile py_isspace (rev (dropWhile py_isspace s)))"

text \<open>\<open>s.split(c)[0]\<close> for a one-character separator.\<close>

definition py_split_head :: "char \<Rightarrow> string \<Rightarrow> string" where
  "py_split_head c s = takeWhile (\<lambda>d. d \<noteq> c) s"

text \<open>\<open>s.split(c)\<close> for a one-character separator.\<close>

fun py_split :: "char \<Rightarrow> string \<Rightarrow> string list" where
  "py_split c [] = [[]]"
| "py_split c (d # ds) =
     (if d = c then [] # py_split c ds
      else (case py_split c ds of [] \<Rightarrow> [[d]] | w # ws \<Rightarrow> (d # w) # ws))"

text \<open>\<open>s.rsplit(".", 1)[-1]\<close>.\<close>

definition py_leaf :: "string \<Rightarrow> string" where
  "py_leaf s = rev (takeWhile (\<lambda>c. c \<noteq> CHR ''.'') (rev s))"

text \<open>\<open>str(n)\<close> for an integer.\<close>

definition digit_char :: "nat \<Rightarrow> char" where
  "digit_char n = char_of (48 + n)"

fun nat_str :: "nat \<Rightarrow> string" where
  "nat_str n = (if n < 10 then [digit_char n] else nat_str (n div 10) @ [digit_char (n mod 10)])"

declare nat_str.simps [simp del]

definition int_str :: "int \<Rightarrow> string" where
  "int_str i = (if i < 0 then CHR ''-'' # nat_str (nat (- i)) else nat_str (nat i))"

text \<open>\<open>int(s)\<close> for a string of digits.\<close>

definition digits_value :: "string \<Rightarrow> nat" where
  "digits_value s = foldl (\<lambda>n c. 10 * n + (of_char c - 48)) 0 s"

definition quoted :: "string \<Rightarrow> string" where
  "quoted s = CHR 0x27 # s @ [CHR 0x27]"

text \<open>\<open>str(e)\<close> for an exception.\<close>

fun exn_text :: "py_exn \<Rightarrow> string" where
  "exn_text (ValueError m) = m"
| "exn_text (KeyError m) = quoted m"
| "exn_text (RuntimeError m) = m"
| "exn_text (TypeError m) = m"
| "exn_text (AttributeError m) = m"
| "exn_text (ConnectionError m) = m"
| "exn_text (DuplicateSubmissionError m) = m"
| "exn_text (UnknownOutcomeFrozenError m) = m"
| "exn_text (CapacityBlocked m) = m"

lemma py_in_sublist: "py_in k s \<longleftrightarrow> sublist k s"
proof (induction s)
  case Nil
  show ?case by simp
next
  case (Cons c cs)
  then show ?case by (simp add: sublist_Cons_right)
qed

lemma py_in_refl [simp]: "py_in s s"
  by (simp add: py_in_sublist)

lemma py_any_in_iff: "py_any_in ks s \<longleftrightarrow> (\<exists>k\<in>set ks. sublist k s)"
  by (simp add: py_any_in_def list_ex_iff py_in_sublist)

lemma py_split_head_absent: "c \<notin> set s \<Longrightarrow> py_split_head c s = s"
  by (auto simp: py_split_head_def takeWhile_eq_all_conv)

lemma py_split_head_append: "c \<notin> set s \<Longrightarrow> py_split_head c (s @ c # t) = s"
  by (induction s) (auto simp: py_split_head_def)

lemma nat_str_nonempty [simp]: "nat_str n \<noteq> []"
  by (subst nat_str.simps) simp

section \<open>Characters bit by bit\<close>

text \<open>Code equations for the character functions, so that runs on concrete text evaluate fast.\<close>

lemma of_char_nat: "(of_char (Char b0 b1 b2 b3 b4 b5 b6 b7) :: nat) =
   of_bool b0 + 2 * of_bool b1 + 4 * of_bool b2 + 8 * of_bool b3 + 16 * of_bool b4 + 32 * of_bool b5 + 64 * of_bool b6 + 128 * of_bool b7"
  by (simp add: of_char_Char)

definition letter_bits :: "bool \<Rightarrow> bool \<Rightarrow> bool \<Rightarrow> bool \<Rightarrow> bool \<Rightarrow> bool" where
  "letter_bits b0 b1 b2 b3 b4 \<longleftrightarrow> (b0 \<or> b1 \<or> b2 \<or> b3 \<or> b4) \<and> \<not> (b4 \<and> b3 \<and> (b2 \<or> b1 \<and> b0))"

lemma py_isalpha_code [code]:
  "py_isalpha (Char b0 b1 b2 b3 b4 b5 b6 b7) \<longleftrightarrow> \<not> b7 \<and> b6 \<and> letter_bits b0 b1 b2 b3 b4"
  unfolding py_isalpha_def Let_def of_char_nat letter_bits_def
  by (cases b7; cases b6; cases b5; cases b4; cases b3; cases b2; cases b1; cases b0) simp_all

lemma py_lower_char_code [code]:
  "py_lower_char (Char b0 b1 b2 b3 b4 b5 b6 b7) =
     Char b0 b1 b2 b3 b4 (b5 \<or> \<not> b7 \<and> b6 \<and> letter_bits b0 b1 b2 b3 b4) b6 b7"
  unfolding py_lower_char_def Let_def letter_bits_def
  by (cases b7; cases b6; cases b5; cases b4; cases b3; cases b2; cases b1; cases b0) (simp_all add: char_of_def bit_0)

lemma py_upper_char_code [code]:
  "py_upper_char (Char b0 b1 b2 b3 b4 b5 b6 b7) =
     Char b0 b1 b2 b3 b4 (b5 \<and> \<not> (\<not> b7 \<and> b6 \<and> letter_bits b0 b1 b2 b3 b4)) b6 b7"
  unfolding py_upper_char_def Let_def letter_bits_def
  by (cases b7; cases b6; cases b5; cases b4; cases b3; cases b2; cases b1; cases b0) (simp_all add: char_of_def bit_0)

lemma py_isspace_code [code]:
  "py_isspace (Char b0 b1 b2 b3 b4 b5 b6 b7) \<longleftrightarrow> \<not> b7 \<and> \<not> b6 \<and>
     (if b5 then \<not> b4 \<and> \<not> b3 \<and> \<not> b2 \<and> \<not> b1 \<and> \<not> b0
      else b3 \<and> (if b4 then b2 else (b0 \<or> b1 \<or> b2) \<and> \<not> (b2 \<and> b1)))"
  unfolding py_isspace_def Let_def of_char_nat
  by (cases b7; cases b6; cases b5; cases b4; cases b3; cases b2; cases b1; cases b0) simp_all

lemma py_isdigit_code [code]:
  "py_isdigit (Char b0 b1 b2 b3 b4 b5 b6 b7) \<longleftrightarrow> \<not> b7 \<and> \<not> b6 \<and> b5 \<and> b4 \<and> (b3 \<longrightarrow> \<not> b2 \<and> \<not> b1)"
  unfolding py_isdigit_def Let_def of_char_nat
  by (cases b7; cases b6; cases b5; cases b4; cases b3; cases b2; cases b1; cases b0) simp_all

section \<open>Ordered tables\<close>

text \<open>
  \<open>ORDER BY key ASC ... first()\<close>: the first row of the result in key order. Rows with
  equal keys come in table order, one of the orders the database is free to return.
\<close>

definition first_by :: "('a \<Rightarrow> 'k::linorder) \<Rightarrow> 'a list \<Rightarrow> 'a option" where
  "first_by key xs = (case sort_key key xs of [] \<Rightarrow> None | x # _ \<Rightarrow> Some x)"

lemma first_by_None [simp]: "first_by key xs = None \<longleftrightarrow> xs = []"
  by (metis first_by_def length_0_conv length_sort list.case_eq_if option.distinct(1))

lemma first_by_Nil [simp]: "first_by key [] = None"
  by simp

lemma first_by_SomeD:
  assumes "first_by key xs = Some x"
  shows "x \<in> set xs" and "y \<in> set xs \<Longrightarrow> key x \<le> key y"
proof -
  from assms obtain r where r: "sort_key key xs = x # r"
    by (auto simp: first_by_def split: list.splits)
  then have s: "set xs = insert x (set r)"
    by (metis list.simps(15) set_sort)
  then show "x \<in> set xs" by simp
  have "sorted (map key (x # r))" using r by (metis sorted_sort_key)
  with s show "y \<in> set xs \<Longrightarrow> key x \<le> key y" by auto
qed

text \<open>An \<open>UPDATE ... WHERE\<close>: the rows a guard selects are rewritten, the others kept.\<close>

definition update_where :: "('a \<Rightarrow> bool) \<Rightarrow> ('a \<Rightarrow> 'a) \<Rightarrow> 'a list \<Rightarrow> 'a list" where
  "update_where P f xs = map (\<lambda>x. if P x then f x else x) xs"

lemma length_update_where [simp]: "length (update_where P f xs) = length xs"
  by (simp add: update_where_def)

lemma in_update_whereE:
  assumes "y \<in> set (update_where P f xs)"
  obtains x where "x \<in> set xs" and "y = (if P x then f x else x)"
  using assms by (auto simp: update_where_def)

lemma update_where_none: "\<not> list_ex P xs \<Longrightarrow> update_where P f xs = xs"
  by (auto simp: update_where_def list_ex_iff intro: map_idI)

lemma map_update_where:
  "(\<And>x. x \<in> set xs \<Longrightarrow> P x \<Longrightarrow> g (f x) = g x) \<Longrightarrow> map g (update_where P f xs) = map g xs"
  by (simp add: update_where_def)

lemma update_where_mem:
  "x \<in> set xs \<Longrightarrow> (if P x then f x else x) \<in> set (update_where P f xs)"
  by (auto simp: update_where_def)

lemma update_where_nth:
  "n < length xs \<Longrightarrow> update_where P f xs ! n = (if P (xs ! n) then f (xs ! n) else xs ! n)"
  by (simp add: update_where_def)

lemma distinct_map_unique:
  "distinct (map g xs) \<Longrightarrow> x \<in> set xs \<Longrightarrow> y \<in> set xs \<Longrightarrow> g x = g y \<Longrightarrow> x = y"
  by (auto simp: distinct_map inj_on_def)

end
