(* ===== verification/Json.thy ===== *)
theory Json
  imports Complex_Main Prelude
begin

text \<open>
  JSON documents, the values \<open>json.dumps\<close> writes and \<open>json.loads\<close> reads. A column
  that holds JSON text is modelled by what \<open>json.loads\<close> makes of it: nothing (the empty
  string), text that does not parse, or a document. On documents built from strings,
  booleans, finite numbers, lists and string-keyed objects the two library calls are
  inverse, which \<open>loads_dumps\<close> records; Python tuples are written as lists.
\<close>

datatype json =
    JNull
  | JBool bool
  | JInt int
  | JFloat real
  | JStr string
  | JArr "json list"
  | JObj "(string \<times> json) list"

datatype json_text = EmptyText | MalformedText string | JsonText json

definition json_dumps :: "json \<Rightarrow> json_text" where
  "json_dumps j = JsonText j"

fun json_loads :: "json_text \<Rightarrow> json result" where
  "json_loads EmptyText = Inl (ValueError ''Expecting value'')"
| "json_loads (MalformedText e) = Inl (ValueError e)"
| "json_loads (JsonText j) = Inr j"

lemma loads_dumps [simp]: "json_loads (json_dumps j) = Inr j"
  by (simp add: json_dumps_def)

section \<open>Reading an object's fields\<close>

text \<open>\<open>d[k]\<close> raises \<open>KeyError\<close> on a missing key; \<open>d.get(k, v)\<close> returns the default.\<close>

definition obj_item :: "(string \<times> json) list \<Rightarrow> string \<Rightarrow> json result" where
  "obj_item d k = (case map_of d k of None \<Rightarrow> Inl (KeyError k) | Some v \<Rightarrow> Inr v)"

definition obj_get :: "(string \<times> json) list \<Rightarrow> string \<Rightarrow> json \<Rightarrow> json" where
  "obj_get d k v = (case map_of d k of None \<Rightarrow> v | Some w \<Rightarrow> w)"

text \<open>Sequencing of fallible reads: the first exception ends the computation.\<close>

definition bind :: "'a result \<Rightarrow> ('a \<Rightarrow> 'b result) \<Rightarrow> 'b result" where
  "bind r f = (case r of Inl e \<Rightarrow> Inl e | Inr x \<Rightarrow> f x)"

lemma bind_simps [simp]:
  "bind (Inl e) f = Inl e"
  "bind (Inr x) f = f x"
  by (simp_all add: bind_def)

lemma bind_Inr_iff [simp]: "bind r f = Inr y \<longleftrightarrow> (\<exists>x. r = Inr x \<and> f x = Inr y)"
  by (cases r) simp_all

text \<open>A list of fallible values, evaluated in order.\<close>

fun collect :: "'a result list \<Rightarrow> 'a list result" where
  "collect [] = Inr []"
| "collect (r # rs) = bind r (\<lambda>x. bind (collect rs) (\<lambda>xs. Inr (x # xs)))"

lemma collect_map:
  "(\<And>x. x \<in> set xs \<Longrightarrow> f x = Inr (g x)) \<Longrightarrow> collect (map f xs) = Inr (map g xs)"
  by (induction xs) auto

lemma collect_Inr: "collect rs = Inr xs \<longleftrightarrow> rs = map Inr xs"
proof (induction rs arbitrary: xs)
  case (Cons r rs)
  then show ?case by (cases r; cases xs) (auto)
qed auto

section \<open>Truth value of a decoded document\<close>

fun json_truthy :: "json \<Rightarrow> bool" where
  "json_truthy JNull = False"
| "json_truthy (JBool b) = b"
| "json_truthy (JInt i) = (i \<noteq> 0)"
| "json_truthy (JFloat r) = (r \<noteq> 0)"
| "json_truthy (JStr s) = (s \<noteq> [])"
| "json_truthy (JArr xs) = (xs \<noteq> [])"
| "json_truthy (JObj fs) = (fs \<noteq> [])"

end
