(* ===== verification/Capacity.thy ===== *)
theory Capacity
  imports Prelude
begin

text \<open>
  The database capacity guard of \<open>scripts/db_capacity_guard.py\<close>: thresholds, the
  snapshot with its status word, and the fail-closed assertion that heavy work runs
  before it enqueues anything. The three facts a connection is asked for (size,
  read-only, in recovery) are the arguments of \<open>inspect_connection\<close>.
\<close>

definition MIB :: int where "MIB = 1024 * 1024"
definition PREFERRED_BYTES :: int where "PREFERRED_BYTES = 300 * MIB"
definition WARN_BYTES :: int where "WARN_BYTES = 350 * MIB"
definition BLOCK_BYTES :: int where "BLOCK_BYTES = 400 * MIB"
definition HARD_STOP_BYTES :: int where "HARD_STOP_BYTES = 425 * MIB"
definition PROVIDER_LIMIT_BYTES :: int where "PROVIDER_LIMIT_BYTES = 500000000"

lemmas threshold_defs = MIB_def PREFERRED_BYTES_def WARN_BYTES_def BLOCK_BYTES_def
  HARD_STOP_BYTES_def PROVIDER_LIMIT_BYTES_def

datatype capacity_status =
  READ_ONLY | IN_RECOVERY | HARD_STOP_CAPACITY | HEAVY_WORK_PAUSED
  | WARN_CAPACITY | MONITOR_CAPACITY | NORMAL

record capacity_snapshot =
  database_size_bytes :: int
  read_only :: bool
  in_recovery :: bool
  cap_status :: capacity_status

definition pauses_heavy_work :: "capacity_snapshot \<Rightarrow> bool" where
  "pauses_heavy_work s \<longleftrightarrow>
     read_only s \<or> in_recovery s \<or> database_size_bytes s \<ge> BLOCK_BYTES"

definition inspect_connection :: "int \<Rightarrow> bool \<Rightarrow> bool \<Rightarrow> capacity_snapshot" where
  "inspect_connection sz ro rec =
     \<lparr>database_size_bytes = sz, read_only = ro, in_recovery = rec,
      cap_status =
        (if ro then READ_ONLY
         else if rec then IN_RECOVERY
         else if sz \<ge> HARD_STOP_BYTES then HARD_STOP_CAPACITY
         else if sz \<ge> BLOCK_BYTES then HEAVY_WORK_PAUSED
         else if sz \<ge> WARN_BYTES then WARN_CAPACITY
         else if sz \<ge> PREFERRED_BYTES then MONITOR_CAPACITY
         else NORMAL)\<rparr>"

text \<open>\<open>assert_heavy_work_allowed\<close>, on the snapshot its first line takes.\<close>

definition assert_heavy_work_allowed :: "capacity_snapshot \<Rightarrow> capacity_snapshot result" where
  "assert_heavy_work_allowed s =
     (if read_only s \<or> in_recovery s
      then Inl (CapacityBlocked ''database is read-only or in recovery; heavy work is paused'')
      else if database_size_bytes s \<ge> HARD_STOP_BYTES
      then Inl (CapacityBlocked ''database reached the OpportunityOS 425 MiB internal hard stop'')
      else if database_size_bytes s \<ge> BLOCK_BYTES
      then Inl (CapacityBlocked ''heavy work is paused at the OpportunityOS 400 MiB boundary'')
      else Inr s)"

lemma thresholds_ordered:
  "0 < PREFERRED_BYTES" "PREFERRED_BYTES < WARN_BYTES" "WARN_BYTES < BLOCK_BYTES"
  "BLOCK_BYTES < HARD_STOP_BYTES" "HARD_STOP_BYTES < PROVIDER_LIMIT_BYTES"
  by (simp_all add: threshold_defs)

text \<open>
  The property the worker relies on: the assertion passes exactly on the snapshots that
  do not pause heavy work, so the two spellings of the rule in the source agree.
\<close>

lemma assert_heavy_work_allowed_iff:
  "assert_heavy_work_allowed s = Inr t \<longleftrightarrow> t = s \<and> \<not> pauses_heavy_work s"
  using thresholds_ordered(4)
  by (auto simp: assert_heavy_work_allowed_def pauses_heavy_work_def)

lemma assert_heavy_work_allowed_Inl:
  "(\<exists>e. assert_heavy_work_allowed s = Inl e) \<longleftrightarrow> pauses_heavy_work s"
  using thresholds_ordered(4)
  by (auto simp: assert_heavy_work_allowed_def pauses_heavy_work_def)

text \<open>The status word determines the pause decision, for every reading of the database.\<close>

lemma pauses_iff_status:
  "pauses_heavy_work (inspect_connection sz ro rec) \<longleftrightarrow>
     cap_status (inspect_connection sz ro rec)
       \<in> {READ_ONLY, IN_RECOVERY, HARD_STOP_CAPACITY, HEAVY_WORK_PAUSED}"
  using thresholds_ordered
  by (auto simp: pauses_heavy_work_def inspect_connection_def)

end
