(* ===== verification/Job_Queue.thy ===== *)
theory Job_Queue
  imports Json Capacity
begin

text \<open>
  The transactional job queue of \<open>worker/queue.py\<close> over the table \<open>worker_jobs\<close>
  (\<open>storage/models.py\<close>, \<open>WorkerJobRecord\<close>). A table is the list of its rows;
  times are microseconds. Every operation takes the clock readings it makes and returns
  the table after its last commit. The columns \<open>created_at\<close> and \<open>updated_at\<close>, which
  no operation reads, are left out.

  The rows other sessions hold locked, which \<open>FOR UPDATE SKIP LOCKED\<close> passes over on
  PostgreSQL, are the argument \<open>locked\<close>.
\<close>

section \<open>Rows and tables\<close>

datatype job_status = PENDING | RUNNING | RETRY | COMPLETED | DEAD_LETTER

record worker_job =
  job_id :: string
  job_type :: string
  payload_json :: json_text
  job_status :: job_status
  run_after :: int
  retry_count :: int
  max_retries :: int
  lease_owner :: "string option"
  lease_expires_at :: "int option"
  error_message :: "string option"

type_synonym jobs = "worker_job list"

definition seconds :: "int \<Rightarrow> int" where
  "seconds n = n * 1000000"

definition HEAVY_JOB_TYPES :: "string list" where
  "HEAVY_JOB_TYPES = [''poll_source'', ''evaluate_new'']"

section \<open>Enqueueing\<close>

text \<open>
  \<open>enqueue_job\<close>. \<open>pg\<close> says whether the session is bound to PostgreSQL, \<open>cap\<close> is the
  capacity snapshot the guard takes there, \<open>jid\<close> the fresh identifier
  \<open>job-<uuid>\<close>. Whether the row is committed or only flushed (\<open>commit\<close>) does not
  change the table the surrounding transaction ends with.
\<close>

definition new_job ::
  "string \<Rightarrow> string \<Rightarrow> json \<Rightarrow> int option \<Rightarrow> int \<Rightarrow> int \<Rightarrow> worker_job" where
  "new_job jid jtype payload after now maxr =
     \<lparr>job_id = jid, job_type = jtype, payload_json = json_dumps payload, job_status = PENDING,
      run_after = (case after of Some t \<Rightarrow> t | None \<Rightarrow> now), retry_count = 0,
      max_retries = maxr, lease_owner = None, lease_expires_at = None, error_message = None\<rparr>"

definition enqueue_job ::
  "bool \<Rightarrow> capacity_snapshot \<Rightarrow> string \<Rightarrow> string \<Rightarrow> json \<Rightarrow> int option \<Rightarrow> int \<Rightarrow> int
     \<Rightarrow> jobs \<Rightarrow> (jobs \<times> string) result" where
  "enqueue_job pg cap jid jtype payload after now maxr tbl =
     (let insert = Inr (tbl @ [new_job jid jtype payload after now maxr], jid)
      in if jtype \<in> set HEAVY_JOB_TYPES \<and> pg
         then (case assert_heavy_work_allowed cap of Inl e \<Rightarrow> Inl e | Inr _ \<Rightarrow> insert)
         else insert)"

text \<open>
  \<open>enqueue_evaluate_new_coalesced\<close>. On PostgreSQL the capacity assertion and a
  transaction-wide advisory lock precede the two status queries, so check and insert are
  one step.
\<close>

definition has_evaluate_new :: "job_status list \<Rightarrow> jobs \<Rightarrow> bool" where
  "has_evaluate_new sts tbl =
     list_ex (\<lambda>j. job_type j = ''evaluate_new'' \<and> job_status j \<in> set sts) tbl"

definition enqueue_evaluate_new_coalesced ::
  "bool \<Rightarrow> capacity_snapshot \<Rightarrow> string \<Rightarrow> int \<Rightarrow> jobs \<Rightarrow> (jobs \<times> string option) result" where
  "enqueue_evaluate_new_coalesced pg cap jid now tbl =
     (let go =
        (let running = has_evaluate_new [RUNNING] tbl;
             pending = has_evaluate_new [PENDING, RETRY] tbl
         in if running \<and> pending then Inr (tbl, None)
            else if \<not> running \<and> pending then Inr (tbl, None)
            else (case enqueue_job pg cap jid ''evaluate_new'' (JObj []) None now 3 tbl of
                    Inl e \<Rightarrow> Inl e
                  | Inr (tbl', i) \<Rightarrow> Inr (tbl', Some i)))
      in if pg
         then (case assert_heavy_work_allowed cap of Inl e \<Rightarrow> Inl e | Inr _ \<Rightarrow> go)
         else go)"

section \<open>Claiming\<close>

text \<open>
  A claim is the row as handed to the worker together with the four attributes
  \<open>_opos_capacity_restore_*\<close> that \<open>claim_next_job\<close> hangs on the returned object.
\<close>

record claim =
  claimed_job :: worker_job
  restore_status :: job_status
  restore_retry_count :: int
  restore_error_message :: "string option"
  restore_run_after :: int

definition type_allowed :: "string list option \<Rightarrow> worker_job \<Rightarrow> bool" where
  "type_allowed allowed j = (case allowed of None \<Rightarrow> True | Some ts \<Rightarrow> job_type j \<in> set ts)"

definition is_stale :: "int \<Rightarrow> worker_job \<Rightarrow> bool" where
  "is_stale now j \<longleftrightarrow>
     job_status j = RUNNING \<and> (case lease_expires_at j of None \<Rightarrow> False | Some e \<Rightarrow> e < now)"

definition is_due :: "int \<Rightarrow> worker_job \<Rightarrow> bool" where
  "is_due now j \<longleftrightarrow> job_status j \<in> {PENDING, RETRY} \<and> run_after j \<le> now"

definition lease_key :: "worker_job \<Rightarrow> int" where
  "lease_key j = (case lease_expires_at j of None \<Rightarrow> 0 | Some e \<Rightarrow> e)"

definition stale_jobs ::
  "bool \<Rightarrow> (string \<Rightarrow> bool) \<Rightarrow> string list option \<Rightarrow> int \<Rightarrow> jobs \<Rightarrow> jobs" where
  "stale_jobs pg locked allowed now tbl =
     filter (\<lambda>j. is_stale now j \<and> type_allowed allowed j \<and> \<not> (pg \<and> locked (job_id j))) tbl"

definition due_jobs ::
  "bool \<Rightarrow> (string \<Rightarrow> bool) \<Rightarrow> string list option \<Rightarrow> int \<Rightarrow> jobs \<Rightarrow> jobs" where
  "due_jobs pg locked allowed now tbl =
     filter (\<lambda>j. is_due now j \<and> type_allowed allowed j \<and> \<not> (pg \<and> locked (job_id j))) tbl"

definition put_job :: "worker_job \<Rightarrow> jobs \<Rightarrow> jobs" where
  "put_job j tbl = update_where (\<lambda>r. job_id r = job_id j) (\<lambda>_. j) tbl"

definition lease_to :: "string \<Rightarrow> int \<Rightarrow> int \<Rightarrow> worker_job \<Rightarrow> worker_job" where
  "lease_to w now dur j =
     j\<lparr>job_status := RUNNING, lease_owner := Some w, lease_expires_at := Some (now + seconds dur)\<rparr>"

definition dead_letter_stale :: "worker_job \<Rightarrow> worker_job" where
  "dead_letter_stale j =
     j\<lparr>retry_count := retry_count j + 1, job_status := DEAD_LETTER, lease_owner := None,
       lease_expires_at := None,
       error_message := Some
         (''Lease expired without completion (worker presumed dead); retry_count ''
          @ int_str (retry_count j + 1) @ '' reached max_retries '' @ int_str (max_retries j))\<rparr>"

text \<open>One pass through the body of the \<open>while True\<close> loop, up to the claim hook.\<close>

datatype claim_step =
    DeadLettered worker_job
  | Claimed claim
  | NothingDue

definition claim_body ::
  "string \<Rightarrow> bool \<Rightarrow> (string \<Rightarrow> bool) \<Rightarrow> string list option \<Rightarrow> int \<Rightarrow> int \<Rightarrow> jobs \<Rightarrow> claim_step" where
  "claim_body w pg locked allowed dur now tbl =
     (case first_by lease_key (stale_jobs pg locked allowed now tbl) of
        Some j \<Rightarrow>
          (if retry_count j + 1 \<ge> max_retries j then DeadLettered (dead_letter_stale j)
           else Claimed
             \<lparr>claimed_job = lease_to w now dur (j\<lparr>retry_count := retry_count j + 1\<rparr>),
              restore_status = RETRY, restore_retry_count = retry_count j + 1,
              restore_error_message = error_message j, restore_run_after = now\<rparr>)
      | None \<Rightarrow>
          (case first_by run_after (due_jobs pg locked allowed now tbl) of
             Some j \<Rightarrow> Claimed
               \<lparr>claimed_job = lease_to w now dur j,
                restore_status = job_status j, restore_retry_count = retry_count j,
                restore_error_message = error_message j, restore_run_after = run_after j\<rparr>
           | None \<Rightarrow> NothingDue))"

text \<open>
  \<open>claim_next_job\<close>. The k-th pass reads the clock at \<open>clock k\<close>, sees the locks
  \<open>locked k\<close> and calls the hook, whose exception, if it raises one, is \<open>hook k\<close>: the
  session is then rolled back, which leaves the table of the last commit. A pass that
  dead-letters a row commits and goes round again.
\<close>

definition running_count :: "jobs \<Rightarrow> nat" where
  "running_count tbl = length (filter (\<lambda>j. job_status j = RUNNING) tbl)"

lemma dead_letter_stale_simps [simp]:
  "job_id (dead_letter_stale j) = job_id j"
  "job_status (dead_letter_stale j) = DEAD_LETTER"
  "retry_count (dead_letter_stale j) = retry_count j + 1"
  "max_retries (dead_letter_stale j) = max_retries j"
  "lease_owner (dead_letter_stale j) = None"
  "lease_expires_at (dead_letter_stale j) = None"
  "job_type (dead_letter_stale j) = job_type j"
  by (simp_all add: dead_letter_stale_def)

lemma lease_to_simps [simp]:
  "job_id (lease_to w now dur j) = job_id j"
  "job_status (lease_to w now dur j) = RUNNING"
  "retry_count (lease_to w now dur j) = retry_count j"
  "max_retries (lease_to w now dur j) = max_retries j"
  "lease_owner (lease_to w now dur j) = Some w"
  "lease_expires_at (lease_to w now dur j) = Some (now + seconds dur)"
  "job_type (lease_to w now dur j) = job_type j"
  "payload_json (lease_to w now dur j) = payload_json j"
  by (simp_all add: lease_to_def)

lemma in_stale_jobs [simp]:
  "j \<in> set (stale_jobs pg locked allowed now tbl) \<longleftrightarrow>
     j \<in> set tbl \<and> is_stale now j \<and> type_allowed allowed j \<and> \<not> (pg \<and> locked (job_id j))"
  by (auto simp: stale_jobs_def)

lemma in_due_jobs [simp]:
  "j \<in> set (due_jobs pg locked allowed now tbl) \<longleftrightarrow>
     j \<in> set tbl \<and> is_due now j \<and> type_allowed allowed j \<and> \<not> (pg \<and> locked (job_id j))"
  by (auto simp: due_jobs_def)

lemma put_job_running_less:
  assumes "r \<in> set tbl" "job_id r = job_id j" "job_status r = RUNNING" "job_status j \<noteq> RUNNING"
  shows "running_count (put_job j tbl) < running_count tbl"
  using assms(1)
proof (induction tbl)
  case Nil
  then show ?case by simp
next
  case (Cons x xs)
  have le: "running_count (put_job j xs) \<le> running_count xs"
    using assms(4) by (induction xs) (auto simp: running_count_def put_job_def update_where_def)
  show ?case
  proof (cases "x = r")
    case True
    with assms le show ?thesis
      by (simp add: running_count_def put_job_def update_where_def)
  next
    case False
    with Cons have "running_count (put_job j xs) < running_count xs" by simp
    with assms(4) show ?thesis
      by (auto simp: running_count_def put_job_def update_where_def)
  qed
qed

lemma claim_body_DeadLettered:
  assumes "claim_body w pg locked allowed dur now tbl = DeadLettered d"
  obtains j where "j \<in> set tbl" "is_stale now j" "type_allowed allowed j" "d = dead_letter_stale j"
    "max_retries j \<le> retry_count j + 1" "\<not> (pg \<and> locked (job_id j))"
  using assms
  by (auto simp: claim_body_def split: option.splits if_splits dest!: first_by_SomeD(1))

lemma claim_body_dead_decreases:
  assumes "claim_body w pg locked allowed dur now tbl = DeadLettered d"
  shows "running_count (put_job d tbl) < running_count tbl"
  using assms
proof (rule claim_body_DeadLettered)
  fix j assume "j \<in> set tbl" "is_stale now j" "d = dead_letter_stale j"
  then show ?thesis by (intro put_job_running_less [of j]) (auto simp: is_stale_def)
qed

function claim_loop ::
  "string \<Rightarrow> bool \<Rightarrow> (nat \<Rightarrow> string \<Rightarrow> bool) \<Rightarrow> string list option \<Rightarrow> int \<Rightarrow> (nat \<Rightarrow> int)
     \<Rightarrow> (nat \<Rightarrow> py_exn option) \<Rightarrow> nat \<Rightarrow> jobs \<Rightarrow> claim option result \<times> jobs" where
  "claim_loop w pg locked allowed dur clock hook k tbl =
     (if allowed = Some []
      then (Inl (ValueError ''allowed_job_types must be non-empty when provided''), tbl)
      else
        (case claim_body w pg (locked k) allowed dur (clock k) tbl of
           NothingDue \<Rightarrow> (Inr None, tbl)
         | Claimed c \<Rightarrow>
             (case hook k of
                Some e \<Rightarrow> (Inl e, tbl)
              | None \<Rightarrow> (Inr (Some c), put_job (claimed_job c) tbl))
         | DeadLettered d \<Rightarrow>
             (case hook k of
                Some e \<Rightarrow> (Inl e, tbl)
              | None \<Rightarrow> claim_loop w pg locked allowed dur clock hook (Suc k) (put_job d tbl))))"
  by pat_completeness auto
termination
  by (relation "measure (\<lambda>(w, pg, locked, allowed, dur, clock, hook, k, tbl). running_count tbl)")
    (auto dest: claim_body_dead_decreases)

declare claim_loop.simps [simp del]

definition claim_next_job ::
  "string \<Rightarrow> bool \<Rightarrow> (nat \<Rightarrow> string \<Rightarrow> bool) \<Rightarrow> string list option \<Rightarrow> int \<Rightarrow> (nat \<Rightarrow> int)
     \<Rightarrow> (nat \<Rightarrow> py_exn option) \<Rightarrow> jobs \<Rightarrow> claim option result \<times> jobs" where
  "claim_next_job w pg locked allowed dur clock hook tbl =
     claim_loop w pg locked allowed dur clock hook 0 tbl"

section \<open>Outcomes\<close>

text \<open>The \<open>WHERE\<close> clause shared by every guarded write of a worker.\<close>

definition holds_lease :: "string \<Rightarrow> string \<Rightarrow> worker_job \<Rightarrow> bool" where
  "holds_lease w i j \<longleftrightarrow> job_id j = i \<and> lease_owner j = Some w \<and> job_status j = RUNNING"

definition guarded_update ::
  "string \<Rightarrow> string \<Rightarrow> (worker_job \<Rightarrow> worker_job) \<Rightarrow> jobs \<Rightarrow> bool \<times> jobs" where
  "guarded_update w i f tbl =
     (list_ex (holds_lease w i) tbl, update_where (holds_lease w i) f tbl)"

definition release_after_capacity_pause :: "string \<Rightarrow> claim \<Rightarrow> jobs \<Rightarrow> bool \<times> jobs" where
  "release_after_capacity_pause w c tbl =
     guarded_update w (job_id (claimed_job c))
       (\<lambda>j. j\<lparr>job_status := restore_status c, retry_count := restore_retry_count c,
              error_message := restore_error_message c, run_after := restore_run_after c,
              lease_owner := None, lease_expires_at := None\<rparr>) tbl"

definition complete_job :: "string \<Rightarrow> string \<Rightarrow> jobs \<Rightarrow> bool \<times> jobs" where
  "complete_job w i tbl =
     guarded_update w i
       (\<lambda>j. j\<lparr>job_status := COMPLETED, lease_owner := None, lease_expires_at := None\<rparr>) tbl"

definition backoff_delay :: "int \<Rightarrow> int \<Rightarrow> int" where
  "backoff_delay base new_retry = (if base > 0 then base * 2 ^ nat (new_retry - 1) else 0)"

definition fail_job ::
  "string \<Rightarrow> string \<Rightarrow> string \<Rightarrow> int \<Rightarrow> int option \<Rightarrow> int \<Rightarrow> jobs \<Rightarrow> bool \<times> jobs" where
  "fail_job w i msg base_backoff backoff now tbl =
     (case find (\<lambda>j. job_id j = i) tbl of
        None \<Rightarrow> (False, tbl)
      | Some row \<Rightarrow>
          (let n = retry_count row + 1 in
           if n \<ge> max_retries row
           then guarded_update w i
                  (\<lambda>j. j\<lparr>retry_count := n, error_message := Some msg, job_status := DEAD_LETTER,
                         lease_owner := None, lease_expires_at := None\<rparr>) tbl
           else (let base = (case backoff of Some b \<Rightarrow> b | None \<Rightarrow> base_backoff) in
                 guarded_update w i
                   (\<lambda>j. j\<lparr>retry_count := n, error_message := Some msg, job_status := RETRY,
                          run_after := now + seconds (backoff_delay base n),
                          lease_owner := None, lease_expires_at := None\<rparr>) tbl)))"

end
