(* ===== verification/Runner.thy ===== *)
theory Runner
  imports Job_Queue
begin

text \<open>
  The worker runner of \<open>worker/runner.py\<close>: the capacity probe before a claim, the
  lease fence before an outcome is written, the heartbeat, one dispatch (\<open>run_once\<close>) and
  the polling loop. Registered handlers are an argument: a handler takes the parsed
  payload and the job table, returns or raises, and leaves a table that also carries
  whatever other sessions committed while it ran. Log records are the list of the event
  names the runner emits.
\<close>

section \<open>Capacity probe\<close>

text \<open>
  \<open>_read_capacity_snapshot\<close>. \<open>opened\<close>: a session could be opened; \<open>injected\<close>: the
  result of the injected inspector, if one was given; \<open>probe\<close>: the result of
  \<open>inspect_connection\<close>. The second component is the flag \<open>inspected\<close>.
\<close>

definition read_capacity_snapshot ::
  "bool \<Rightarrow> bool \<Rightarrow> capacity_snapshot result option \<Rightarrow> capacity_snapshot result
     \<Rightarrow> capacity_snapshot option \<times> bool" where
  "read_capacity_snapshot opened pg injected probe =
     (if \<not> opened then (None, False)
      else if \<not> pg \<and> injected = None then (None, True)
      else (case (case injected of Some r \<Rightarrow> r | None \<Rightarrow> probe) of
              Inr s \<Rightarrow> (Some s, True)
            | Inl _ \<Rightarrow> (None, False)))"

definition capacity_allows_claim ::
  "capacity_snapshot option \<times> bool \<Rightarrow> bool \<times> capacity_snapshot option" where
  "capacity_allows_claim p =
     (case p of (snapshot, inspected) \<Rightarrow>
        if \<not> inspected then (False, None)
        else (case snapshot of
                None \<Rightarrow> (True, None)
              | Some s \<Rightarrow> if pauses_heavy_work s then (False, Some s) else (True, Some s)))"

section \<open>Lease fence and heartbeat\<close>

definition has_valid_lease :: "string \<Rightarrow> string \<Rightarrow> int \<Rightarrow> jobs \<Rightarrow> bool" where
  "has_valid_lease w i now tbl =
     (case find (\<lambda>j. job_id j = i) tbl of
        None \<Rightarrow> False
      | Some row \<Rightarrow>
          if lease_owner row \<noteq> Some w then False
          else (case lease_expires_at row of Some e \<Rightarrow> \<not> (e < now) | None \<Rightarrow> True))"

text \<open>
  The two fenced writes. \<open>mid\<close> is what other sessions commit between the fence's read
  and the guarded write.
\<close>

definition complete_job_fenced ::
  "string \<Rightarrow> string \<Rightarrow> int \<Rightarrow> (jobs \<Rightarrow> jobs) \<Rightarrow> jobs \<Rightarrow> string list \<times> jobs" where
  "complete_job_fenced w i now mid tbl =
     (if \<not> has_valid_lease w i now tbl then ([''worker.lease_lost''], tbl)
      else ([''worker.job_completed''], snd (complete_job w i (mid tbl))))"

definition fail_job_fenced ::
  "string \<Rightarrow> string \<Rightarrow> string \<Rightarrow> int option \<Rightarrow> int \<Rightarrow> (jobs \<Rightarrow> jobs) \<Rightarrow> jobs
     \<Rightarrow> string list \<times> jobs" where
  "fail_job_fenced w i msg backoff now mid tbl =
     (if \<not> has_valid_lease w i now tbl then ([''worker.lease_lost''], tbl)
      else ([''worker.job_failed''], snd (fail_job w i msg 30 backoff now (mid tbl))))"

text \<open>One turn of \<open>_heartbeat_loop\<close>: the guarded renewal and whether it applied.\<close>

definition heartbeat_renew :: "string \<Rightarrow> string \<Rightarrow> int \<Rightarrow> int \<Rightarrow> jobs \<Rightarrow> bool \<times> jobs" where
  "heartbeat_renew w i lease_seconds now tbl =
     guarded_update w i (\<lambda>j. j\<lparr>lease_expires_at := Some (now + seconds lease_seconds)\<rparr>) tbl"

section \<open>One dispatch\<close>

type_synonym handler = "json \<Rightarrow> jobs \<Rightarrow> unit result \<times> jobs"

definition UNKNOWN_JOB_TYPE_MARKER :: string where
  "UNKNOWN_JOB_TYPE_MARKER = ''UNKNOWN_JOB_TYPE''"

definition parse_payload :: "json_text \<Rightarrow> json result" where
  "parse_payload t = (case t of EmptyText \<Rightarrow> Inr (JObj []) | _ \<Rightarrow> json_loads t)"

text \<open>
  \<open>_safe_payload_summary\<close>, computed for the log before the handler runs: membership tests,
  subscripts and \<open>keys()\<close> that only an object supports. The summary itself is dropped, its
  exceptions are not.
\<close>

definition LOGGABLE_PAYLOAD_KEYS :: "string list" where
  "LOGGABLE_PAYLOAD_KEYS = [''source_id'', ''marker'']"

definition no_keys :: "string \<Rightarrow> py_exn" where
  "no_keys t = AttributeError (quoted t @ '' object has no attribute '' @ quoted ''keys'')"

definition not_iterable :: "string \<Rightarrow> py_exn" where
  "not_iterable t = TypeError (''argument of type '' @ quoted t @ '' is not iterable'')"

fun safe_payload_summary :: "json \<Rightarrow> unit result" where
  "safe_payload_summary (JObj fs) = Inr ()"
| "safe_payload_summary (JArr xs) =
     (if list_ex (\<lambda>k. JStr k \<in> set xs) LOGGABLE_PAYLOAD_KEYS
      then Inl (TypeError ''list indices must be integers or slices, not str'')
      else Inl (no_keys ''list''))"
| "safe_payload_summary (JStr s) =
     (if list_ex (\<lambda>k. py_in k s) LOGGABLE_PAYLOAD_KEYS
      then Inl (TypeError (''string indices must be integers, not '' @ quoted ''str''))
      else Inl (no_keys ''str''))"
| "safe_payload_summary JNull = Inl (not_iterable ''NoneType'')"
| "safe_payload_summary (JBool b) = Inl (not_iterable ''bool'')"
| "safe_payload_summary (JInt i) = Inl (not_iterable ''int'')"
| "safe_payload_summary (JFloat r) = Inl (not_iterable ''float'')"

text \<open>
  \<open>dispatch_job\<close> is \<open>run_once\<close> after a successful claim: \<open>now\<close> is the clock reading of
  the fence, \<open>mid\<close> the interference around the final write.
\<close>

definition dispatch_job ::
  "string \<Rightarrow> (string \<rightharpoonup> handler) \<Rightarrow> int \<Rightarrow> (jobs \<Rightarrow> jobs) \<Rightarrow> claim \<Rightarrow> jobs
     \<Rightarrow> bool result \<times> string list \<times> jobs" where
  "dispatch_job w handlers now mid c tbl =
     (let i = job_id (claimed_job c); t = job_type (claimed_job c) in
      case parse_payload (payload_json (claimed_job c)) of
        Inl e \<Rightarrow>
          (case fail_job_fenced w i (''Malformed payload_json: '' @ exn_text e) (Some 0) now mid tbl of
             (ev, tbl') \<Rightarrow> (Inr True, ''worker.job_payload_malformed'' # ev, tbl'))
      | Inr payload \<Rightarrow>
         (case safe_payload_summary payload of
            Inl e \<Rightarrow> (Inl e, [], tbl)
          | Inr _ \<Rightarrow>
             (case handlers t of
                None \<Rightarrow>
                  (case fail_job_fenced w i
                          (UNKNOWN_JOB_TYPE_MARKER @ '': no handler registered for job_type '' @ quoted t)
                          (Some 0) now mid tbl of
                     (ev, tbl') \<Rightarrow> (Inr True, [''worker.job_claimed'', ''worker.job_unknown_type''] @ ev, tbl'))
              | Some h \<Rightarrow>
                  (case h payload tbl of
                     (Inl (CapacityBlocked m), tbl1) \<Rightarrow>
                       (Inr False, [''worker.job_claimed'', ''worker.capacity_pause_after_claim''],
                        snd (release_after_capacity_pause w c tbl1))
                   | (Inl e, tbl1) \<Rightarrow>
                       (case fail_job_fenced w i (''Handler raised: '' @ exn_text e) None now mid tbl1 of
                          (ev, tbl') \<Rightarrow> (Inr True, ''worker.job_claimed'' # ev, tbl'))
                   | (Inr _, tbl1) \<Rightarrow>
                       (case complete_job_fenced w i now mid tbl1 of
                          (ev, tbl') \<Rightarrow> (Inr True, ''worker.job_claimed'' # ev, tbl'))))))"

definition run_once ::
  "string \<Rightarrow> (string \<rightharpoonup> handler) \<Rightarrow> capacity_snapshot option \<times> bool \<Rightarrow> bool
     \<Rightarrow> (nat \<Rightarrow> string \<Rightarrow> bool) \<Rightarrow> string list option \<Rightarrow> int \<Rightarrow> (nat \<Rightarrow> int) \<Rightarrow> int
     \<Rightarrow> (jobs \<Rightarrow> jobs) \<Rightarrow> jobs \<Rightarrow> bool result \<times> string list \<times> jobs" where
  "run_once w handlers probe pg locked allowed dur clock now mid tbl =
     (if \<not> fst (capacity_allows_claim probe) then (Inr False, [], tbl)
      else
        (case claim_next_job w pg locked allowed dur clock (\<lambda>_. None) tbl of
           (Inl e, tbl') \<Rightarrow> (Inl e, [], tbl')
         | (Inr None, tbl') \<Rightarrow> (Inr False, [''worker.idle_poll''], tbl')
         | (Inr (Some c), tbl') \<Rightarrow> dispatch_job w handlers now mid c tbl'))"

section \<open>The polling loop\<close>

text \<open>
  What the \<open>n\<close>-th turn of \<open>run_forever\<close> finds: the stop event, the capacity probe, the rows other
  sessions have locked, the clock of the claim and of the fence, what other sessions commit around
  the final write, and what they commit while this worker waits (\<open>t_between\<close>).
\<close>

record turn =
  t_stopped :: bool
  t_probe :: "capacity_snapshot option \<times> bool"
  t_locked :: "nat \<Rightarrow> string \<Rightarrow> bool"
  t_clock :: "nat \<Rightarrow> int"
  t_now :: int
  t_mid :: "jobs \<Rightarrow> jobs"
  t_between :: "jobs \<Rightarrow> jobs"

record worker =
  worker_id :: string
  wk_handlers :: "string \<rightharpoonup> handler"
  on_postgres :: bool
  allowed_job_types :: "string list option"
  wk_lease_seconds :: int

definition take_turn :: "worker \<Rightarrow> turn \<Rightarrow> jobs \<Rightarrow> bool result \<times> string list \<times> jobs" where
  "take_turn k t tbl =
     run_once (worker_id k) (wk_handlers k) (t_probe t) (on_postgres k) (t_locked t)
       (allowed_job_types k) (wk_lease_seconds k) (t_clock t) (t_now t) (t_mid t) (t_between t tbl)"

text \<open>
  \<open>run_forever\<close>: an exception of a turn is logged and the loop goes on. The loop may run for ever,
  so its value is an option: the number of processed jobs and the table.
\<close>

partial_function (option) run_forever ::
  "worker \<Rightarrow> (nat \<Rightarrow> turn) \<Rightarrow> int option \<Rightarrow> nat \<Rightarrow> int \<Rightarrow> jobs \<Rightarrow> (int \<times> jobs) option" where
  "run_forever k turns max_jobs n processed tbl =
     (if t_stopped (turns n) then Some (processed, tbl)
      else if (case max_jobs of None \<Rightarrow> False | Some m \<Rightarrow> processed \<ge> m) then Some (processed, tbl)
      else (case take_turn k (turns n) tbl of
              (res, _, tbl') \<Rightarrow>
                run_forever k turns max_jobs (Suc n)
                  (if res = Inr True then processed + 1 else processed) tbl'))"

end
