(* ===== verification/Queue_System.thy ===== *)
theory Queue_System
  imports Runner
begin

text \<open>
  Many workers over one job table: every operation of the queue and the heartbeat as a
  step of one system, in any order and by any worker. Beside the table the system keeps
  the claim object the latest claimer of each job holds, and two counters used only by
  the specification: how often each job was handed out and how often it was given back
  by a capacity pause.
\<close>

section \<open>Steps\<close>

record qsys =
  rows :: jobs
  held :: "string \<rightharpoonup> string \<times> claim"
  grants :: "string \<Rightarrow> nat"
  releases :: "string \<Rightarrow> nat"

definition init_qsys :: qsys where
  "init_qsys = \<lparr>rows = [], held = Map.empty, grants = (\<lambda>_. 0), releases = (\<lambda>_. 0)\<rparr>"

definition grant :: "string \<Rightarrow> claim \<Rightarrow> jobs \<Rightarrow> qsys \<Rightarrow> qsys" where
  "grant w c tbl s =
     (let i = job_id (claimed_job c) in
      s\<lparr>rows := tbl, held := (held s)(i \<mapsto> (w, c)), grants := (grants s)(i := Suc (grants s i))\<rparr>)"

definition give_back :: "string \<Rightarrow> bool \<times> jobs \<Rightarrow> qsys \<Rightarrow> qsys" where
  "give_back i r s =
     (if fst r then s\<lparr>rows := snd r, releases := (releases s)(i := Suc (releases s i))\<rparr>
      else s\<lparr>rows := snd r\<rparr>)"

inductive queue_step :: "qsys \<Rightarrow> qsys \<Rightarrow> bool" where
  enqueue: "enqueue_job pg cap jid t p after now maxr (rows s) = Inr (tbl, i) \<Longrightarrow>
    jid \<notin> job_id ` set (rows s) \<Longrightarrow> 0 < maxr \<Longrightarrow> queue_step s (s\<lparr>rows := tbl\<rparr>)"
| enqueue_coalesced: "enqueue_evaluate_new_coalesced pg cap jid now (rows s) = Inr (tbl, r) \<Longrightarrow>
    jid \<notin> job_id ` set (rows s) \<Longrightarrow> queue_step s (s\<lparr>rows := tbl\<rparr>)"
| claim: "claim_next_job w pg locked allowed dur clock hook (rows s) = (Inr (Some c), tbl) \<Longrightarrow>
    queue_step s (grant w c tbl s)"
| no_claim: "claim_next_job w pg locked allowed dur clock hook (rows s) = (Inr None, tbl) \<Longrightarrow>
    queue_step s (s\<lparr>rows := tbl\<rparr>)"
| claim_raises: "claim_next_job w pg locked allowed dur clock hook (rows s) = (Inl e, tbl) \<Longrightarrow>
    queue_step s (s\<lparr>rows := tbl\<rparr>)"
| complete: "queue_step s (s\<lparr>rows := snd (complete_job w i (rows s))\<rparr>)"
| fail: "queue_step s (s\<lparr>rows := snd (fail_job w i msg base backoff now (rows s))\<rparr>)"
| release: "held s (job_id (claimed_job c)) = Some (w, c) \<Longrightarrow>
    queue_step s (give_back (job_id (claimed_job c)) (release_after_capacity_pause w c (rows s)) s)"
| renew: "queue_step s (s\<lparr>rows := snd (heartbeat_renew w i dur now (rows s))\<rparr>)"

inductive queue_reachable :: "qsys \<Rightarrow> bool" where
  start: "queue_reachable init_qsys"
| step: "queue_reachable s \<Longrightarrow> queue_step s t \<Longrightarrow> queue_reachable t"

section \<open>The invariant\<close>

text \<open>
  What the code keeps true of one row: retries never pass the limit and a row is dead
  exactly when they reach it, a lease is present exactly while the row runs and is the
  latest claimer's, and the number of hand-outs is paid for by the retry count, the
  capacity releases and the current run.
\<close>

definition live_run :: "worker_job \<Rightarrow> int" where
  "live_run j = (if job_status j = RUNNING \<or> job_status j = COMPLETED then 1 else 0)"

definition retry_ok :: "worker_job \<Rightarrow> bool" where
  "retry_ok j \<longleftrightarrow> 0 < max_retries j \<and> 0 \<le> retry_count j \<and>
     (if job_status j = DEAD_LETTER then retry_count j = max_retries j
      else retry_count j < max_retries j)"

definition lease_ok :: "(string \<times> claim) option \<Rightarrow> worker_job \<Rightarrow> bool" where
  "lease_ok h j \<longleftrightarrow>
     (if job_status j = RUNNING
      then (\<exists>w c. h = Some (w, c) \<and> lease_owner j = Some w \<and> lease_expires_at j \<noteq> None \<and>
              restore_status c \<in> {PENDING, RETRY} \<and> restore_retry_count c = retry_count j \<and>
              job_id (claimed_job c) = job_id j)
      else lease_owner j = None \<and> lease_expires_at j = None)"

definition row_inv :: "(string \<times> claim) option \<Rightarrow> nat \<Rightarrow> nat \<Rightarrow> worker_job \<Rightarrow> bool" where
  "row_inv h g r j \<longleftrightarrow>
     retry_ok j \<and> lease_ok h j \<and> int g \<le> retry_count j + int r + live_run j"

definition sys_inv :: "qsys \<Rightarrow> bool" where
  "sys_inv s \<longleftrightarrow>
     distinct (map job_id (rows s)) \<and>
     (\<forall>j\<in>set (rows s). row_inv (held s (job_id j)) (grants s (job_id j)) (releases s (job_id j)) j) \<and>
     (\<forall>i. i \<notin> job_id ` set (rows s) \<longrightarrow> grants s i = 0)"

lemmas row_inv_defs = row_inv_def retry_ok_def lease_ok_def live_run_def

lemma sys_invD:
  assumes "sys_inv s" "j \<in> set (rows s)"
  shows "row_inv (held s (job_id j)) (grants s (job_id j)) (releases s (job_id j)) j"
  using assms by (auto simp: sys_inv_def)

text \<open>
  One job's row changes, by a rewriting that keeps identifiers, and the rest of the
  system stays as it is for every other job: the shape of every step but the inserts.
\<close>

lemma sys_inv_one_row:
  assumes inv: "sys_inv s"
    and tbl: "rows t = update_where P f (rows s)"
    and keep: "\<And>j. j \<in> set (rows s) \<Longrightarrow> P j \<Longrightarrow> job_id j = i \<and> job_id (f j) = i"
    and frame: "\<And>k. k \<noteq> i \<Longrightarrow> held t k = held s k \<and> grants t k = grants s k \<and> releases t k = releases s k"
    and new: "\<And>j. j \<in> set (rows s) \<Longrightarrow> job_id j = i \<Longrightarrow>
      row_inv (held t i) (grants t i) (releases t i) (if P j then f j else j)"
    and absent: "i \<notin> job_id ` set (rows s) \<Longrightarrow> grants t i = grants s i"
  shows "sys_inv t"
proof -
  have ids: "map job_id (rows t) = map job_id (rows s)"
    unfolding tbl by (rule map_update_where) (use keep in auto)
  then have idset: "job_id ` set (rows t) = job_id ` set (rows s)"
    by (metis image_set)
  have "row_inv (held t (job_id y)) (grants t (job_id y)) (releases t (job_id y)) y"
    if "y \<in> set (rows t)" for y
  proof -
    from that obtain j where j: "j \<in> set (rows s)" "y = (if P j then f j else j)"
      unfolding tbl by (rule in_update_whereE)
    show ?thesis
    proof (cases "job_id j = i")
      case True
      with j keep have "job_id y = i" by auto
      with True j new show ?thesis by metis
    next
      case False
      with j keep have "y = j" by auto
      with False j sys_invD [OF inv j(1)] frame show ?thesis by metis
    qed
  qed
  moreover have "grants t k = 0" if "k \<notin> job_id ` set (rows t)" for k
    using that inv frame absent unfolding idset sys_inv_def by (cases "k = i") auto
  moreover have "distinct (map job_id (rows t))"
    using inv ids by (simp add: sys_inv_def)
  ultimately show ?thesis by (simp add: sys_inv_def)
qed

lemma sys_inv_guarded:
  assumes inv: "sys_inv s"
    and f: "\<And>j. j \<in> set (rows s) \<Longrightarrow> holds_lease w i j \<Longrightarrow>
      row_inv (held s i) (grants s i) (releases s i) j \<Longrightarrow>
      job_id (f j) = i \<and> row_inv (held s i) (grants s i) (releases s i) (f j)"
  shows "sys_inv (s\<lparr>rows := snd (guarded_update w i f (rows s))\<rparr>)"
proof (rule sys_inv_one_row [OF inv, where P = "holds_lease w i" and f = f and i = i])
  fix j assume j: "j \<in> set (rows s)"
  note r = sys_invD [OF inv j]
  show "job_id j = i \<and> job_id (f j) = i" if "holds_lease w i j"
    using f [OF j that] r that by (simp add: holds_lease_def)
  show "row_inv (held (s\<lparr>rows := snd (guarded_update w i f (rows s))\<rparr>) i)
      (grants (s\<lparr>rows := snd (guarded_update w i f (rows s))\<rparr>) i)
      (releases (s\<lparr>rows := snd (guarded_update w i f (rows s))\<rparr>) i)
      (if holds_lease w i j then f j else j)" if "job_id j = i"
    using f [OF j] r that by auto
qed (auto simp: guarded_update_def)

section \<open>Every operation keeps the invariant\<close>

lemma complete_job_inv [inv_intros]:
  "sys_inv s \<Longrightarrow> sys_inv (s\<lparr>rows := snd (complete_job w i (rows s))\<rparr>)"
  unfolding complete_job_def
  by (rule sys_inv_guarded) (auto simp: row_inv_defs holds_lease_def)

lemma heartbeat_inv [inv_intros]:
  "sys_inv s \<Longrightarrow> sys_inv (s\<lparr>rows := snd (heartbeat_renew w i dur now (rows s))\<rparr>)"
  unfolding heartbeat_renew_def
  by (rule sys_inv_guarded) (auto simp: row_inv_defs holds_lease_def)

lemma find_row:
  assumes "find (\<lambda>j. job_id j = i) tbl = Some row" "distinct (map job_id tbl)"
    "j \<in> set tbl" "job_id j = i"
  shows "row = j"
  using assms by (metis (mono_tags, lifting) distinct_map_unique find_Some_iff nth_mem)

lemma fail_job_inv [inv_intros]:
  assumes "sys_inv s"
  shows "sys_inv (s\<lparr>rows := snd (fail_job w i msg base backoff now (rows s))\<rparr>)"
proof (cases "find (\<lambda>j. job_id j = i) (rows s)")
  case None
  with assms show ?thesis by (simp add: fail_job_def)
next
  case (Some row)
  have eq: "row = j" if "j \<in> set (rows s)" "holds_lease w i j" for j
    using find_row [OF Some _ that(1)] assms that(2) by (simp add: sys_inv_def holds_lease_def)
  show ?thesis
  proof (cases "retry_count row + 1 \<ge> max_retries row")
    case True
    with Some show ?thesis
      by (simp add: fail_job_def Let_def)
        (rule sys_inv_guarded [OF assms], use eq in \<open>auto simp: row_inv_defs holds_lease_def\<close>)
  next
    case False
    with Some show ?thesis
      by (simp add: fail_job_def Let_def)
        (rule sys_inv_guarded [OF assms], use eq in \<open>auto simp: row_inv_defs holds_lease_def\<close>)
  qed
qed

lemma release_inv [inv_intros]:
  assumes inv: "sys_inv s" and h: "held s (job_id (claimed_job c)) = Some (w, c)"
  shows "sys_inv (give_back (job_id (claimed_job c)) (release_after_capacity_pause w c (rows s)) s)"
proof (cases "list_ex (holds_lease w (job_id (claimed_job c))) (rows s)")
  case False
  then show ?thesis
    using inv by (simp add: give_back_def release_after_capacity_pause_def guarded_update_def
        update_where_none)
next
  case True
  let ?i = "job_id (claimed_job c)"
  let ?f = "\<lambda>j. j\<lparr>job_status := restore_status c, retry_count := restore_retry_count c,
              error_message := restore_error_message c, run_after := restore_run_after c,
              lease_owner := None, lease_expires_at := None\<rparr>"
  have all: "holds_lease w ?i j" if "j \<in> set (rows s)" "job_id j = ?i" for j
  proof -
    from True obtain k where k: "k \<in> set (rows s)" "holds_lease w ?i k" by (auto simp: list_ex_iff)
    then have "k = j"
      using that inv by (auto simp: sys_inv_def holds_lease_def dest: distinct_map_unique)
    with k show ?thesis by simp
  qed
  show ?thesis
  proof (rule sys_inv_one_row [OF inv, where P = "holds_lease w ?i" and f = ?f and i = ?i])
    fix j assume j: "j \<in> set (rows s)" "job_id j = ?i"
    then show "row_inv
        (held (give_back ?i (release_after_capacity_pause w c (rows s)) s) ?i)
        (grants (give_back ?i (release_after_capacity_pause w c (rows s)) s) ?i)
        (releases (give_back ?i (release_after_capacity_pause w c (rows s)) s) ?i)
        (if holds_lease w ?i j then ?f j else j)"
      using sys_invD [OF inv j(1)] all [OF j] True h
      by (auto simp: give_back_def release_after_capacity_pause_def guarded_update_def row_inv_defs
          holds_lease_def)
  qed (auto simp: give_back_def release_after_capacity_pause_def guarded_update_def holds_lease_def)
qed

lemma claim_body_Claimed:
  assumes "claim_body w pg locked allowed dur now tbl = Claimed c"
  obtains (stale) j where "j \<in> set tbl" "is_stale now j" "retry_count j + 1 < max_retries j"
      "claimed_job c = lease_to w now dur (j\<lparr>retry_count := retry_count j + 1\<rparr>)"
      "restore_status c = RETRY" "restore_retry_count c = retry_count j + 1"
      "type_allowed allowed j" "\<not> (pg \<and> locked (job_id j))"
      "\<And>k. k \<in> set (stale_jobs pg locked allowed now tbl) \<Longrightarrow> lease_key j \<le> lease_key k"
  | (due) j where "j \<in> set tbl" "is_due now j" "claimed_job c = lease_to w now dur j"
      "restore_status c = job_status j" "restore_retry_count c = retry_count j"
      "type_allowed allowed j" "\<not> (pg \<and> locked (job_id j))"
      "stale_jobs pg locked allowed now tbl = []"
      "\<And>k. k \<in> set (due_jobs pg locked allowed now tbl) \<Longrightarrow> run_after j \<le> run_after k"
proof (cases "first_by lease_key (stale_jobs pg locked allowed now tbl)")
  case None
  with assms obtain j where j: "first_by run_after (due_jobs pg locked allowed now tbl) = Some j"
    and c: "claimed_job c = lease_to w now dur j" "restore_status c = job_status j"
      "restore_retry_count c = retry_count j"
    by (auto simp: claim_body_def split: option.splits)
  with None first_by_SomeD [OF j] show ?thesis by (intro due) auto
next
  case (Some j)
  with assms have c: "retry_count j + 1 < max_retries j"
    "claimed_job c = lease_to w now dur (j\<lparr>retry_count := retry_count j + 1\<rparr>)"
    "restore_status c = RETRY" "restore_retry_count c = retry_count j + 1"
    by (auto simp: claim_body_def split: if_splits)
  with Some first_by_SomeD [OF Some] show ?thesis by (intro stale) auto
qed

lemma unique_row:
  "sys_inv s \<Longrightarrow> j \<in> set (rows s) \<Longrightarrow> k \<in> set (rows s) \<Longrightarrow> job_id j = job_id k \<Longrightarrow> j = k"
  by (auto simp: sys_inv_def dest: distinct_map_unique)

lemma dead_letter_pass_inv:
  assumes inv: "sys_inv s"
    and body: "claim_body w pg locked allowed dur now (rows s) = DeadLettered d"
  shows "sys_inv (s\<lparr>rows := put_job d (rows s)\<rparr>)"
  using body
proof (rule claim_body_DeadLettered)
  fix j assume j: "j \<in> set (rows s)" "is_stale now j" "d = dead_letter_stale j"
    "max_retries j \<le> retry_count j + 1"
  show ?thesis
  proof (rule sys_inv_one_row [OF inv, where P = "\<lambda>r. job_id r = job_id j" and f = "\<lambda>_. d"
        and i = "job_id j"])
    fix k assume k: "k \<in> set (rows s)" "job_id k = job_id j"
    then have "k = j" using unique_row [OF inv] j by blast
    then show "row_inv (held (s\<lparr>rows := put_job d (rows s)\<rparr>) (job_id j))
        (grants (s\<lparr>rows := put_job d (rows s)\<rparr>) (job_id j))
        (releases (s\<lparr>rows := put_job d (rows s)\<rparr>) (job_id j))
        (if job_id k = job_id j then d else k)"
      using j sys_invD [OF inv j(1)] by (auto simp: row_inv_defs is_stale_def)
  qed (auto simp: put_job_def j(3))
qed

lemma claimed_row:
  assumes inv: "row_inv h g r j"
    and pre: "is_stale now j \<and> j' = j\<lparr>retry_count := retry_count j + 1\<rparr> \<and>
        retry_count j + 1 < max_retries j \<and> restore_status c = RETRY
      \<or> is_due now j \<and> j' = j \<and> restore_status c = job_status j"
    and c: "restore_retry_count c = retry_count j'" "job_id (claimed_job c) = job_id j"
  shows "row_inv (Some (w, c)) (Suc g) r (lease_to w now dur j')"
  using assms by (auto simp: row_inv_defs is_stale_def is_due_def)

lemma grant_row_inv:
  assumes inv: "sys_inv s" and j: "j \<in> set (rows s)"
    and c: "claimed_job c = lease_to w now dur j'" "restore_retry_count c = retry_count j'"
      "job_id j' = job_id j"
    and pre: "is_stale now j \<and> j' = j\<lparr>retry_count := retry_count j + 1\<rparr> \<and>
        retry_count j + 1 < max_retries j \<and> restore_status c = RETRY
      \<or> is_due now j \<and> j' = j \<and> restore_status c = job_status j"
  shows "sys_inv (grant w c (put_job (claimed_job c) (rows s)) s)"
proof (rule sys_inv_one_row [OF inv, where P = "\<lambda>r. job_id r = job_id j"
      and f = "\<lambda>_. claimed_job c" and i = "job_id j"])
  fix k assume k: "k \<in> set (rows s)" "job_id k = job_id j"
  then have "k = j" using unique_row [OF inv] j by blast
  then show "row_inv (held (grant w c (put_job (claimed_job c) (rows s)) s) (job_id j))
      (grants (grant w c (put_job (claimed_job c) (rows s)) s) (job_id j))
      (releases (grant w c (put_job (claimed_job c) (rows s)) s) (job_id j))
      (if job_id k = job_id j then claimed_job c else k)"
    using claimed_row [OF sys_invD [OF inv j] pre] c by (simp add: grant_def Let_def)
qed (use j c in \<open>auto simp: grant_def Let_def put_job_def\<close>)

lemma claim_pass_inv:
  assumes inv: "sys_inv s"
    and body: "claim_body w pg locked allowed dur now (rows s) = Claimed c"
  shows "sys_inv (grant w c (put_job (claimed_job c) (rows s)) s)"
  using body
proof (cases rule: claim_body_Claimed)
  case (stale j)
  then show ?thesis
    by (intro grant_row_inv [OF inv stale(1) stale(4)]) auto
next
  case (due j)
  then show ?thesis
    by (intro grant_row_inv [OF inv due(1) due(3)]) auto
qed

lemma claim_loop_inv:
  assumes "sys_inv (s\<lparr>rows := tbl\<rparr>)"
    and "claim_loop w pg locked allowed dur clock hook k tbl = (r, tbl')"
  shows "case r of Inr (Some c) \<Rightarrow> sys_inv (grant w c tbl' s) | _ \<Rightarrow> sys_inv (s\<lparr>rows := tbl'\<rparr>)"
  using assms
proof (induction w pg locked allowed dur clock hook k tbl arbitrary: tbl' r rule: claim_loop.induct)
  case (1 w pg locked allowed dur clock hook k tbl)
  note eq = "1.prems"(2) [unfolded claim_loop.simps [of w pg locked allowed dur clock hook k tbl]]
  show ?case
  proof (cases "allowed = Some [] \<or> hook k \<noteq> None \<or>
      claim_body w pg (locked k) allowed dur (clock k) tbl = NothingDue")
    case True
    with eq "1.prems"(1) show ?thesis
      by (auto split: claim_step.splits option.splits if_splits)
  next
    case False
    show ?thesis
    proof (cases "claim_body w pg (locked k) allowed dur (clock k) tbl")
      case (DeadLettered d)
      from dead_letter_pass_inv [OF "1.prems"(1)] DeadLettered
      have "sys_inv (s\<lparr>rows := put_job d tbl\<rparr>)" by simp
      with "1.IH" [OF _ DeadLettered _ this] DeadLettered False eq show ?thesis by auto
    next
      case (Claimed c)
      from claim_pass_inv [OF "1.prems"(1)] Claimed
      have "sys_inv (grant w c (put_job (claimed_job c) tbl) s)" by (simp add: grant_def)
      with Claimed False eq show ?thesis by auto
    qed (use False in auto)
  qed
qed

lemma enqueue_job_rows:
  "enqueue_job pg cap jid t p after now maxr tbl = Inr (tbl', i) \<Longrightarrow>
     tbl' = tbl @ [new_job jid t p after now maxr] \<and> i = jid"
  by (auto simp: enqueue_job_def Let_def split: if_splits sum.splits)

lemma insert_inv:
  assumes "sys_inv s" "jid \<notin> job_id ` set (rows s)" "0 < maxr"
  shows "sys_inv (s\<lparr>rows := rows s @ [new_job jid t p after now maxr]\<rparr>)"
proof -
  have "row_inv (held s jid) (grants s jid) (releases s jid) (new_job jid t p after now maxr)"
    using assms by (auto simp: sys_inv_def row_inv_defs new_job_def)
  moreover have "job_id (new_job jid t p after now maxr) = jid" by (simp add: new_job_def)
  ultimately show ?thesis using assms by (auto simp: sys_inv_def)
qed

lemma coalesced_rows:
  assumes "enqueue_evaluate_new_coalesced pg cap jid now tbl = Inr (tbl', r)"
  shows "tbl' = tbl \<and> r = None \<or>
    tbl' = tbl @ [new_job jid ''evaluate_new'' (JObj []) None now 3] \<and> r = Some jid \<and>
    \<not> has_evaluate_new [PENDING, RETRY] tbl"
  using assms
  by (auto simp: enqueue_evaluate_new_coalesced_def Let_def split: if_splits sum.splits
      dest: enqueue_job_rows)

theorem queue_step_inv: "queue_step s t \<Longrightarrow> sys_inv s \<Longrightarrow> sys_inv t"
proof (induction rule: queue_step.induct)
  case (enqueue pg cap jid t p after now maxr s tbl i)
  then show ?case using enqueue_job_rows insert_inv by blast
next
  case (enqueue_coalesced pg cap jid now s tbl r)
  from coalesced_rows [OF enqueue_coalesced.hyps(1)] enqueue_coalesced.prems
    insert_inv [OF enqueue_coalesced.prems enqueue_coalesced.hyps(2), of 3]
  show ?case by fastforce
next
  case (claim w pg locked allowed dur clock hook s c tbl)
  then show ?case using claim_loop_inv [where s = s and tbl = "rows s"] by (fastforce simp: claim_next_job_def)
next
  case (no_claim w pg locked allowed dur clock hook s tbl)
  then show ?case using claim_loop_inv [where s = s and tbl = "rows s"] by (fastforce simp: claim_next_job_def)
next
  case (claim_raises w pg locked allowed dur clock hook s e tbl)
  then show ?case using claim_loop_inv [where s = s and tbl = "rows s"] by (fastforce simp: claim_next_job_def)
qed (auto intro: inv_intros)

theorem queue_reachable_inv: "queue_reachable s \<Longrightarrow> sys_inv s"
proof (induction rule: queue_reachable.induct)
  case start
  show ?case by (simp add: sys_inv_def init_qsys_def)
next
  case (step s t)
  then show ?case by (blast intro: queue_step_inv)
qed

end
