(* ===== verification/Queue_Properties.thy ===== *)
theory Queue_Properties
  imports Queue_System
begin

text \<open>
  What the job queue and its runner promise, over every interleaving of workers
  (\<open>queue_reachable\<close>) and for each operation on its own: bounded hand-outs of poison
  jobs, the lease discipline, final statuses that stay final, fenced writes, the claim
  order, progress of the claim loop, the exact effect of a failure and the round trip of a
  capacity pause.
\<close>

section \<open>Lemmas on single operations\<close>

lemma guarded_update_no_lease:
  "\<not> list_ex (holds_lease w i) tbl \<Longrightarrow> guarded_update w i f tbl = (False, tbl)"
  by (simp add: guarded_update_def update_where_none)

lemma guarded_update_keeps:
  "j \<in> set tbl \<Longrightarrow> job_status j \<noteq> RUNNING \<Longrightarrow> j \<in> set (snd (guarded_update w i f tbl))"
  using update_where_mem [of j tbl "holds_lease w i" f]
  by (simp add: guarded_update_def holds_lease_def)

lemma fail_job_keeps:
  "j \<in> set tbl \<Longrightarrow> job_status j \<noteq> RUNNING \<Longrightarrow>
     j \<in> set (snd (fail_job w i msg base backoff now tbl))"
  by (auto simp: fail_job_def Let_def guarded_update_keeps split: option.splits)

lemma put_job_keeps:
  "j \<in> set tbl \<Longrightarrow> job_id j \<noteq> job_id d \<Longrightarrow> j \<in> set (put_job d tbl)"
  using update_where_mem [of j tbl "\<lambda>r. job_id r = job_id d" "\<lambda>_. d"] by (simp add: put_job_def)

definition final :: "worker_job \<Rightarrow> bool" where
  "final j \<longleftrightarrow> job_status j \<in> {COMPLETED, DEAD_LETTER}"

lemma put_job_ids: "map job_id (put_job d tbl) = map job_id tbl"
  unfolding put_job_def by (rule map_update_where) simp

lemma claim_body_source:
  assumes "claim_body w pg locked allowed dur now tbl = DeadLettered d \<or>
      (\<exists>c. claim_body w pg locked allowed dur now tbl = Claimed c \<and> d = claimed_job c)"
  obtains j where "j \<in> set tbl" "job_id j = job_id d" "\<not> final j"
  using assms
proof (elim disjE exE conjE)
  assume "claim_body w pg locked allowed dur now tbl = DeadLettered d"
  then show ?thesis
    by (rule claim_body_DeadLettered) (auto intro!: that simp: is_stale_def final_def)
next
  fix c assume "claim_body w pg locked allowed dur now tbl = Claimed c" "d = claimed_job c"
  then show ?thesis
  proof (cases rule: claim_body_Claimed)
    case (stale j)
    with \<open>d = claimed_job c\<close> show ?thesis by (intro that [of j]) (auto simp: is_stale_def final_def)
  next
    case (due j)
    with \<open>d = claimed_job c\<close> show ?thesis by (intro that [of j]) (auto simp: is_due_def final_def)
  qed
qed

lemma claim_pass_keeps_final:
  assumes "distinct (map job_id tbl)" "j \<in> set tbl" "final j"
    and "claim_body w pg locked allowed dur now tbl = DeadLettered d \<or>
      (\<exists>c. claim_body w pg locked allowed dur now tbl = Claimed c \<and> d = claimed_job c)"
  shows "j \<in> set (put_job d tbl)"
  using assms(4)
proof (rule claim_body_source)
  fix k assume "k \<in> set tbl" "job_id k = job_id d" "\<not> final k"
  with assms(1-3) have "job_id j \<noteq> job_id d" by (metis distinct_map_unique)
  with assms(2) show ?thesis by (rule put_job_keeps)
qed

lemma claim_loop_keeps_final:
  assumes "distinct (map job_id tbl)" "j \<in> set tbl" "final j"
    and "claim_loop w pg locked allowed dur clock hook k tbl = (r, tbl')"
  shows "j \<in> set tbl'"
  using assms
proof (induction w pg locked allowed dur clock hook k tbl arbitrary: tbl' r rule: claim_loop.induct)
  case (1 w pg locked allowed dur clock hook k tbl)
  note eq = "1.prems"(4) [unfolded claim_loop.simps [of w pg locked allowed dur clock hook k tbl]]
  show ?case
  proof (cases "allowed = Some [] \<or> hook k \<noteq> None \<or>
      claim_body w pg (locked k) allowed dur (clock k) tbl = NothingDue")
    case True
    with eq "1.prems"(2) show ?thesis by (auto split: claim_step.splits option.splits if_splits)
  next
    case False
    show ?thesis
    proof (cases "claim_body w pg (locked k) allowed dur (clock k) tbl")
      case (DeadLettered d)
      with "1.prems" have "j \<in> set (put_job d tbl)" by (intro claim_pass_keeps_final) auto
      with "1.IH" [OF _ DeadLettered, of r tbl'] DeadLettered False eq "1.prems"(1,3) put_job_ids
      show ?thesis by auto
    next
      case (Claimed c)
      with "1.prems" have "j \<in> set (put_job (claimed_job c) tbl)"
        by (intro claim_pass_keeps_final) auto
      with Claimed False eq show ?thesis by auto
    qed (use False in auto)
  qed
qed

lemma claim_next_job_keeps_final:
  "distinct (map job_id tbl) \<Longrightarrow> j \<in> set tbl \<Longrightarrow> final j \<Longrightarrow>
     claim_next_job w pg locked allowed dur clock hook tbl = (r, tbl') \<Longrightarrow> j \<in> set tbl'"
  unfolding claim_next_job_def by (rule claim_loop_keeps_final)

text \<open>How the loop ends when no hook raises: with the pass that found nothing or claimed.\<close>

lemma claim_loop_end:
  assumes "claim_loop w pg locked allowed dur clock hook k tbl = (Inr r, tbl')"
  shows "\<exists>n tbl0. k \<le> n \<and>
    (case r of
       None \<Rightarrow> tbl' = tbl0 \<and> claim_body w pg (locked n) allowed dur (clock n) tbl0 = NothingDue
     | Some c \<Rightarrow> claim_body w pg (locked n) allowed dur (clock n) tbl0 = Claimed c \<and>
         tbl' = put_job (claimed_job c) tbl0)"
  using assms
proof (induction w pg locked allowed dur clock hook k tbl arbitrary: tbl' r rule: claim_loop.induct)
  case (1 w pg locked allowed dur clock hook k tbl)
  note eq = "1.prems" [unfolded claim_loop.simps [of w pg locked allowed dur clock hook k tbl]]
  show ?case
  proof (cases "claim_body w pg (locked k) allowed dur (clock k) tbl")
    case (DeadLettered d)
    with "1.IH" [OF _ DeadLettered] eq show ?thesis
      by (fastforce split: if_splits option.splits dest: Suc_leD)
  next
    case (Claimed c)
    with eq show ?thesis by (auto split: if_splits option.splits)
  next
    case NothingDue
    with eq show ?thesis by (auto split: if_splits)
  qed
qed

lemma claim_loop_no_hook_Inr:
  assumes "allowed \<noteq> Some []" "hook = (\<lambda>_. None)"
  shows "\<exists>r tbl'. claim_loop w pg locked allowed dur clock hook k tbl = (Inr r, tbl')"
  using assms
proof (induction w pg locked allowed dur clock hook k tbl rule: claim_loop.induct)
  case (1 w pg locked allowed dur clock hook k tbl)
  show ?case
    using "1.IH" [OF "1.prems"(1) _ _ "1.prems"] "1.prems"
    by (subst claim_loop.simps) (auto split: claim_step.splits)
qed

lemma NothingDue_iff:
  "claim_body w pg locked allowed dur now tbl = NothingDue \<longleftrightarrow>
     stale_jobs pg locked allowed now tbl = [] \<and> due_jobs pg locked allowed now tbl = []"
  by (cases "stale_jobs pg locked allowed now tbl = []"; cases "due_jobs pg locked allowed now tbl = []")
    (auto simp: claim_body_def split: option.splits)

lemma due_row_survives_pass:
  assumes "distinct (map job_id tbl)" "j \<in> set tbl" "job_status j \<in> {PENDING, RETRY}"
    "claim_body w pg locked allowed dur now tbl = DeadLettered d"
  shows "j \<in> set (put_job d tbl)"
  using assms(4)
proof (rule claim_body_DeadLettered)
  fix k assume k: "k \<in> set tbl" "is_stale now k" "d = dead_letter_stale k"
  then have "job_status k = RUNNING" "job_id d = job_id k" by (simp_all add: is_stale_def)
  with assms(1-3) k(1) have "job_id j \<noteq> job_id d" using distinct_map_unique [of job_id tbl j k] by auto
  with assms(2) show ?thesis by (rule put_job_keeps)
qed

lemma claim_loop_progress:
  assumes "distinct (map job_id tbl)" "j \<in> set tbl" "job_status j \<in> {PENDING, RETRY}"
    and "type_allowed allowed j" "allowed \<noteq> Some []" "hook = (\<lambda>_. None)"
    and "\<forall>n. run_after j \<le> clock n" "\<forall>n. \<not> (pg \<and> locked n (job_id j))"
  shows "\<exists>c tbl'. claim_loop w pg locked allowed dur clock hook k tbl = (Inr (Some c), tbl')"
  using assms
proof (induction w pg locked allowed dur clock hook k tbl rule: claim_loop.induct)
  case (1 w pg locked allowed dur clock hook k tbl)
  show ?case
  proof (cases "claim_body w pg (locked k) allowed dur (clock k) tbl")
    case (DeadLettered d)
    with "1.prems" have "j \<in> set (put_job d tbl)" by (intro due_row_survives_pass) auto
    with "1.IH" [OF "1.prems"(5) DeadLettered] "1.prems" put_job_ids DeadLettered show ?thesis
      by (subst claim_loop.simps) auto
  next
    case (Claimed c)
    with "1.prems" show ?thesis by (subst claim_loop.simps) auto
  next
    case NothingDue
    with "1.prems" have "j \<notin> set (due_jobs pg (locked k) allowed (clock k) tbl)"
      by (simp add: NothingDue_iff)
    with "1.prems" show ?thesis by (auto simp: is_due_def)
  qed
qed

section \<open>Guarantees over every interleaving\<close>

text \<open>C11: a job is handed to workers at most \<open>max_retries\<close> times, not counting the hand-outs
  that a capacity pause gave back, whatever the workers do: a job whose process reliably dies
  is bounded instead of being retried for ever.\<close>

theorem poison_job_bounded:
  assumes "queue_reachable s" "j \<in> set (rows s)"
  shows "int (grants s (job_id j)) \<le> max_retries j + int (releases s (job_id j))"
  using sys_invD [OF queue_reachable_inv [OF assms(1)] assms(2)]
  by (auto simp: row_inv_defs split: if_splits)

definition sample_job :: worker_job where
  "sample_job = new_job ''job-1'' ''reverify_stale'' (JObj []) None 0 3"

definition sample_sys :: qsys where
  "sample_sys = init_qsys\<lparr>rows := [sample_job]\<rparr>"

lemma sample_reachable: "queue_reachable sample_sys"
proof -
  have "enqueue_job False (inspect_connection 0 False False) ''job-1'' ''reverify_stale'' (JObj [])
      None 0 3 (rows init_qsys) = Inr ([sample_job], ''job-1'')"
    by (simp add: enqueue_job_def init_qsys_def sample_job_def)
  then have "queue_step init_qsys (init_qsys\<lparr>rows := [sample_job]\<rparr>)"
    by (rule queue_step.enqueue) (simp_all add: init_qsys_def)
  then show ?thesis
    unfolding sample_sys_def by (rule queue_reachable.step [OF queue_reachable.start])
qed

lemma sample_in: "sample_job \<in> set (rows sample_sys)"
  by (simp add: sample_sys_def)

theorem poison_job_bounded_witness:
  "int (grants sample_sys ''job-1'') \<le> 3"
  using poison_job_bounded [OF sample_reachable sample_in]
  by (simp add: sample_job_def new_job_def sample_sys_def init_qsys_def)

text \<open>C27: in every reachable table identifiers are unique, a lease (owner and expiry) is present
  exactly on the rows that run, retries stay between zero and the limit, and a row is a dead
  letter exactly when its retries have reached the limit.\<close>

theorem leases_and_retries:
  assumes "queue_reachable s"
  shows "distinct (map job_id (rows s)) \<and>
    (\<forall>j\<in>set (rows s).
       (job_status j = RUNNING \<longleftrightarrow> lease_owner j \<noteq> None) \<and>
       (job_status j = RUNNING \<longleftrightarrow> lease_expires_at j \<noteq> None) \<and>
       0 \<le> retry_count j \<and> retry_count j \<le> max_retries j \<and>
       (job_status j = DEAD_LETTER \<longleftrightarrow> retry_count j = max_retries j))"
proof (intro conjI ballI)
  note inv = queue_reachable_inv [OF assms]
  then show "distinct (map job_id (rows s))" by (simp add: sys_inv_def)
  fix j assume "j \<in> set (rows s)"
  note r = sys_invD [OF inv this]
  show "job_status j = RUNNING \<longleftrightarrow> lease_owner j \<noteq> None"
    and "job_status j = RUNNING \<longleftrightarrow> lease_expires_at j \<noteq> None"
    using r by (auto simp: row_inv_def lease_ok_def split: if_splits)
  show "0 \<le> retry_count j" and "retry_count j \<le> max_retries j"
    and "job_status j = DEAD_LETTER \<longleftrightarrow> retry_count j = max_retries j"
    using r by (auto simp: row_inv_def retry_ok_def split: if_splits)
qed

theorem leases_and_retries_witness:
  "distinct (map job_id (rows sample_sys)) \<and> lease_owner sample_job = None \<and>
     retry_count sample_job \<le> 3"
  using leases_and_retries [OF sample_reachable] sample_in
  by (auto simp: sample_job_def new_job_def)

text \<open>final statuses are final. No step of any worker changes or removes a row that is
  \<open>COMPLETED\<close> or \<open>DEAD_LETTER\<close>.\<close>

theorem final_rows_stay:
  assumes "queue_reachable s" "queue_step s t" "j \<in> set (rows s)"
    and "job_status j \<in> {COMPLETED, DEAD_LETTER}"
  shows "j \<in> set (rows t)"
proof -
  have d: "distinct (map job_id (rows s))"
    using queue_reachable_inv [OF assms(1)] by (simp add: sys_inv_def)
  have f: "final j" and nr: "job_status j \<noteq> RUNNING"
    using assms(4) by (auto simp: final_def)
  note claims = claim_next_job_keeps_final [OF d assms(3) f]
  note writes = guarded_update_keeps [OF assms(3) nr] fail_job_keeps [OF assms(3) nr]
  from assms(2,3) show ?thesis
    by cases (auto simp: grant_def give_back_def Let_def release_after_capacity_pause_def
        complete_job_def heartbeat_renew_def writes dest: claims enqueue_job_rows coalesced_rows)
qed

definition sample_claim :: claim where
  "sample_claim = \<lparr>claimed_job = lease_to ''w'' 5 60 sample_job, restore_status = PENDING,
     restore_retry_count = 0, restore_error_message = None, restore_run_after = 0\<rparr>"

lemma sample_claims:
  "claim_next_job ''w'' False (\<lambda>_ _. False) None 60 (\<lambda>_. 5) (\<lambda>_. None) [sample_job]
     = (Inr (Some sample_claim), [claimed_job sample_claim])"
  by (simp add: claim_next_job_def claim_loop.simps claim_body_def stale_jobs_def due_jobs_def
      is_stale_def is_due_def sample_job_def new_job_def type_allowed_def first_by_def
      sample_claim_def put_job_def update_where_def lease_to_def)

definition sample_running :: qsys where
  "sample_running = grant ''w'' sample_claim [claimed_job sample_claim] sample_sys"

lemma sample_running_reachable: "queue_reachable sample_running"
proof -
  have "queue_step sample_sys sample_running"
    unfolding sample_running_def
    by (rule queue_step.claim) (unfold sample_sys_def, simp, rule sample_claims)
  then show ?thesis by (rule queue_reachable.step [OF sample_reachable])
qed

definition sample_done :: worker_job where
  "sample_done = sample_job\<lparr>job_status := COMPLETED\<rparr>"

lemma sample_completes: "snd (complete_job ''w'' ''job-1'' (rows sample_running)) = [sample_done]"
  by (simp add: complete_job_def guarded_update_def update_where_def holds_lease_def
      sample_running_def grant_def Let_def sample_claim_def sample_job_def new_job_def
      sample_done_def lease_to_def)

definition sample_completed :: qsys where
  "sample_completed = sample_running\<lparr>rows := [sample_done]\<rparr>"

lemma sample_completed_reachable: "queue_reachable sample_completed"
  using queue_step.complete [of sample_running "''w''" "''job-1''"] sample_completes
  by (auto simp: sample_completed_def intro: queue_reachable.step [OF sample_running_reachable])

theorem final_rows_stay_witness:
  "sample_done \<in> set (snd (fail_job ''w'' ''job-1'' ''late'' 30 None 7 [sample_done]))"
  using final_rows_stay [OF sample_completed_reachable
      queue_step.fail [of sample_completed "''w''" "''job-1''" "''late''" 30 None 7], of sample_done]
  by (simp add: sample_completed_def sample_done_def)

section \<open>Guarantees of single operations\<close>

text \<open>fencing. A worker that no longer holds the lease of a job (its row has another owner,
  another status, or is gone) changes nothing and is told so by \<open>False\<close>, whichever of the four
  guarded writes it attempts.\<close>

theorem lost_lease_writes_nothing:
  assumes "\<forall>j\<in>set tbl. \<not> (job_id j = i \<and> lease_owner j = Some w \<and> job_status j = RUNNING)"
    and "job_id (claimed_job c) = i"
  shows "complete_job w i tbl = (False, tbl) \<and>
    fail_job w i msg base backoff now tbl = (False, tbl) \<and>
    release_after_capacity_pause w c tbl = (False, tbl) \<and>
    heartbeat_renew w i dur now tbl = (False, tbl)"
proof -
  have "\<not> list_ex (holds_lease w i) tbl"
    using assms(1) by (auto simp: list_ex_iff holds_lease_def)
  note none = guarded_update_no_lease [OF this]
  show ?thesis
    using assms(2)
    by (simp add: complete_job_def fail_job_def release_after_capacity_pause_def
        heartbeat_renew_def none Let_def split: option.split)
qed

theorem lost_lease_writes_nothing_witness:
  "complete_job ''other'' ''job-1'' [claimed_job sample_claim] = (False, [claimed_job sample_claim])"
  using lost_lease_writes_nothing [of "[claimed_job sample_claim]" "''job-1''" "''other''" sample_claim]
  by (simp add: sample_claim_def sample_job_def new_job_def)

text \<open>progress of the claim loop. If some job of an allowed type is due at every clock
  reading of the call and never locked by another session, the loop ends and hands out a job,
  however many expired leases it has to dead-letter on the way.\<close>

theorem due_job_is_claimed:
  assumes "distinct (map job_id tbl)" "j \<in> set tbl" "job_status j \<in> {PENDING, RETRY}"
    and "type_allowed allowed j" "allowed \<noteq> Some []"
    and "\<forall>n. run_after j \<le> clock n" "\<forall>n. \<not> (pg \<and> locked n (job_id j))"
  shows "\<exists>c tbl'. claim_next_job w pg locked allowed dur clock (\<lambda>_. None) tbl = (Inr (Some c), tbl')"
  unfolding claim_next_job_def
  by (rule claim_loop_progress [where j = j]) (use assms in auto)

theorem due_job_is_claimed_witness:
  "\<exists>c tbl'. claim_next_job ''w'' False (\<lambda>_ _. False) None 60 (\<lambda>_. 5) (\<lambda>_. None) [sample_job]
     = (Inr (Some c), tbl')"
  by (rule due_job_is_claimed [where j = sample_job])
    (simp_all add: sample_job_def new_job_def type_allowed_def)

text \<open>the claim order. A claimed job is the expired lease with the earliest expiry; only when
  the pass saw no eligible expired lease is it the due job with the earliest \<open>run_after\<close>. The new
  row runs under the claimer's lease, and an expired lease costs one retry.\<close>

theorem claim_order:
  assumes "claim_next_job w pg locked allowed dur clock hook tbl = (Inr (Some c), tbl')"
  shows "\<exists>n tbl0 j. j \<in> set tbl0 \<and> tbl' = put_job (claimed_job c) tbl0 \<and>
    job_status (claimed_job c) = RUNNING \<and> lease_owner (claimed_job c) = Some w \<and>
    lease_expires_at (claimed_job c) = Some (clock n + seconds dur) \<and>
    (if stale_jobs pg (locked n) allowed (clock n) tbl0 \<noteq> []
     then j \<in> set (stale_jobs pg (locked n) allowed (clock n) tbl0) \<and>
       (\<forall>k\<in>set (stale_jobs pg (locked n) allowed (clock n) tbl0). lease_key j \<le> lease_key k) \<and>
       retry_count (claimed_job c) = retry_count j + 1 \<and> retry_count j + 1 < max_retries j
     else j \<in> set (due_jobs pg (locked n) allowed (clock n) tbl0) \<and>
       (\<forall>k\<in>set (due_jobs pg (locked n) allowed (clock n) tbl0). run_after j \<le> run_after k) \<and>
       retry_count (claimed_job c) = retry_count j)"
proof -
  from claim_loop_end [OF assms [unfolded claim_next_job_def]] obtain n tbl0
    where b: "claim_body w pg (locked n) allowed dur (clock n) tbl0 = Claimed c"
      and t: "tbl' = put_job (claimed_job c) tbl0" by auto
  from b show ?thesis
  proof (cases rule: claim_body_Claimed)
    case (stale j)
    then have "j \<in> set (stale_jobs pg (locked n) allowed (clock n) tbl0)" by simp
    then have "stale_jobs pg (locked n) allowed (clock n) tbl0 \<noteq> []" by force
    with stale t show ?thesis by (intro exI [of _ n] exI [of _ tbl0] exI [of _ j]) simp
  next
    case (due j)
    with t show ?thesis by (intro exI [of _ n] exI [of _ tbl0] exI [of _ j]) simp
  qed
qed

theorem claim_order_witness:
  "\<exists>n tbl0 j. j \<in> set tbl0 \<and> [claimed_job sample_claim] = put_job (claimed_job sample_claim) tbl0 \<and>
     lease_expires_at (claimed_job sample_claim) = Some ((\<lambda>_. 5) (n :: nat) + seconds 60)"
  using claim_order [OF sample_claims] by blast

lemma guarded_update_row:
  assumes "distinct (map job_id tbl)" "j \<in> set tbl" "holds_lease w (job_id j) j"
    and "\<And>k. job_id (f k) = job_id k"
  shows "guarded_update w (job_id j) f tbl = (True, put_job (f j) tbl)"
proof -
  have "holds_lease w (job_id j) k \<longleftrightarrow> job_id k = job_id j" if "k \<in> set tbl" for k
    using that assms distinct_map_unique [of job_id tbl k j] by (auto simp: holds_lease_def)
  moreover have "k = j" if "k \<in> set tbl" "job_id k = job_id j" for k
    using that assms distinct_map_unique [of job_id tbl k j] by auto
  ultimately show ?thesis
    using assms(2-4) by (auto simp: guarded_update_def put_job_def update_where_def list_ex_iff)
qed

lemma find_by_id:
  "distinct (map job_id tbl) \<Longrightarrow> j \<in> set tbl \<Longrightarrow> find (\<lambda>r. job_id r = job_id j) tbl = Some j"
  by (induction tbl) auto

text \<open>the exact effect of a failure reported by the lease holder. The retry count grows by one
  and the lease is dropped; at the limit the row becomes a dead letter, below it the row is due
  again after the base delay doubled once per earlier retry.\<close>

theorem fail_job_effect:
  assumes "distinct (map job_id tbl)" "j \<in> set tbl" "lease_owner j = Some w" "job_status j = RUNNING"
    and "0 \<le> retry_count j" "0 < base"
  shows "fail_job w (job_id j) msg base None now tbl = (True, put_job
    (if retry_count j + 1 \<ge> max_retries j
     then j\<lparr>retry_count := retry_count j + 1, error_message := Some msg, job_status := DEAD_LETTER,
            lease_owner := None, lease_expires_at := None\<rparr>
     else j\<lparr>retry_count := retry_count j + 1, error_message := Some msg, job_status := RETRY,
            run_after := now + seconds (base * 2 ^ nat (retry_count j)),
            lease_owner := None, lease_expires_at := None\<rparr>) tbl)"
proof -
  have h: "holds_lease w (job_id j) j" using assms by (simp add: holds_lease_def)
  show ?thesis
    using guarded_update_row [OF assms(1,2) h] assms(6)
    by (simp add: fail_job_def find_by_id [OF assms(1,2)] Let_def backoff_delay_def)
qed

theorem fail_job_effect_witness:
  "run_after (hd (snd (fail_job ''w'' ''job-1'' ''boom'' 30 None 9 [claimed_job sample_claim])))
     = 9 + 30000000"
  using fail_job_effect [of "[claimed_job sample_claim]" "claimed_job sample_claim" "''w''" 30 "''boom''" 9]
  by (simp add: sample_claim_def sample_job_def new_job_def put_job_def update_where_def seconds_def)

lemma claim_fresh_due:
  assumes "claim_next_job w pg locked allowed dur clock (\<lambda>_. None) tbl = (Inr (Some c), tbl')"
    and "stale_jobs pg (locked 0) allowed (clock 0) tbl = []"
  obtains j where "j \<in> set tbl" "is_due (clock 0) j" "tbl' = put_job (lease_to w (clock 0) dur j) tbl"
    "c = \<lparr>claimed_job = lease_to w (clock 0) dur j, restore_status = job_status j,
          restore_retry_count = retry_count j, restore_error_message = error_message j,
          restore_run_after = run_after j\<rparr>"
proof (cases "first_by run_after (due_jobs pg (locked 0) allowed (clock 0) tbl)")
  case None
  then have "claim_body w pg (locked 0) allowed dur (clock 0) tbl = NothingDue"
    using assms(2) by (simp add: claim_body_def)
  with assms(1) show ?thesis
    unfolding claim_next_job_def by (subst (asm) claim_loop.simps) (simp split: if_splits)
next
  case (Some j)
  then have "claim_body w pg (locked 0) allowed dur (clock 0) tbl = Claimed
      \<lparr>claimed_job = lease_to w (clock 0) dur j, restore_status = job_status j,
       restore_retry_count = retry_count j, restore_error_message = error_message j,
       restore_run_after = run_after j\<rparr>"
    using assms(2) by (simp add: claim_body_def)
  with assms(1) first_by_SomeD(1) [OF Some] show ?thesis
    unfolding claim_next_job_def
    by (subst (asm) claim_loop.simps) (auto split: if_splits intro: that)
qed

lemma release_undoes_lease:
  assumes "distinct (map job_id tbl)" "j \<in> set tbl" "lease_owner j = None" "lease_expires_at j = None"
  shows "release_after_capacity_pause w
      \<lparr>claimed_job = lease_to w now dur j, restore_status = job_status j,
       restore_retry_count = retry_count j, restore_error_message = error_message j,
       restore_run_after = run_after j\<rparr> (put_job (lease_to w now dur j) tbl) = (True, tbl)"
proof -
  let ?l = "lease_to w now dur j"
  have uniq: "k = j" if "k \<in> set tbl" "job_id k = job_id j" for k
    using that assms distinct_map_unique [of job_id tbl k j] by auto
  have self: "j\<lparr>lease_owner := None, lease_expires_at := None\<rparr> = j"
    using assms(3,4) by (cases j) simp
  have "?l \<in> set (put_job ?l tbl)"
    using update_where_mem [OF assms(2), of "\<lambda>r. job_id r = job_id ?l" "\<lambda>_. ?l"]
    by (simp add: put_job_def)
  then have "list_ex (holds_lease w (job_id j)) (put_job ?l tbl)"
    by (auto simp: list_ex_iff holds_lease_def intro!: bexI [of _ ?l])
  then show ?thesis
    using uniq self
    by (auto simp: release_after_capacity_pause_def guarded_update_def put_job_def update_where_def
        holds_lease_def lease_to_def intro!: map_idI uniq [symmetric])
qed

text \<open>a capacity pause gives a freshly claimed due job back as it was. Claiming a job whose row
  is well formed, when no expired lease competes, and releasing it before anything else happens
  restores the whole table: no retry is consumed and no failure recorded.\<close>

theorem capacity_pause_round_trip:
  assumes "claim_next_job w pg locked allowed dur clock (\<lambda>_. None) tbl = (Inr (Some c), tbl')"
    and "distinct (map job_id tbl)" "stale_jobs pg (locked 0) allowed (clock 0) tbl = []"
    and "\<forall>j\<in>set tbl. job_status j \<noteq> RUNNING \<longrightarrow> lease_owner j = None \<and> lease_expires_at j = None"
  shows "release_after_capacity_pause w c tbl' = (True, tbl)"
  using assms(1,3)
proof (rule claim_fresh_due)
  fix j assume j: "j \<in> set tbl" "is_due (clock 0) j" "tbl' = put_job (lease_to w (clock 0) dur j) tbl"
    "c = \<lparr>claimed_job = lease_to w (clock 0) dur j, restore_status = job_status j,
          restore_retry_count = retry_count j, restore_error_message = error_message j,
          restore_run_after = run_after j\<rparr>"
  then have "lease_owner j = None" "lease_expires_at j = None"
    using assms(4) by (auto simp: is_due_def)
  from release_undoes_lease [OF assms(2) j(1) this] j(3,4) show ?thesis by simp
qed

theorem capacity_pause_round_trip_witness:
  "release_after_capacity_pause ''w'' sample_claim [claimed_job sample_claim] = (True, [sample_job])"
  by (rule capacity_pause_round_trip [OF sample_claims])
    (simp_all add: stale_jobs_def is_stale_def sample_job_def new_job_def)

section \<open>Coalescing\<close>

definition waiting_evaluations :: "jobs \<Rightarrow> nat" where
  "waiting_evaluations tbl =
     length (filter (\<lambda>j. job_type j = ''evaluate_new'' \<and> job_status j \<in> {PENDING, RETRY}) tbl)"

lemma waiting_evaluations_none:
  "\<not> has_evaluate_new [PENDING, RETRY] tbl \<longleftrightarrow> waiting_evaluations tbl = 0"
  by (auto simp: has_evaluate_new_def waiting_evaluations_def list_ex_iff filter_empty_conv)

text \<open>the coalesced enqueue adds an \<open>evaluate_new\<close> job exactly when none is waiting, so it
  never takes the number of waiting ones above one, and with capacity available it succeeds.\<close>

theorem coalesced_enqueue_effect:
  assumes "enqueue_evaluate_new_coalesced pg cap jid now tbl = Inr (tbl', r)"
  shows "(if waiting_evaluations tbl = 0
     then r = Some jid \<and> waiting_evaluations tbl' = 1
     else r = None \<and> tbl' = tbl)"
proof (cases "waiting_evaluations tbl = 0")
  case True
  then have n: "\<not> has_evaluate_new [PENDING, RETRY] tbl" by (simp add: waiting_evaluations_none)
  with assms have "r \<noteq> None"
    by (auto simp: enqueue_evaluate_new_coalesced_def Let_def split: if_splits sum.splits)
  with coalesced_rows [OF assms] True show ?thesis
    by (auto simp: waiting_evaluations_def new_job_def)
next
  case False
  with coalesced_rows [OF assms] show ?thesis by (auto simp: waiting_evaluations_none)
qed

theorem coalesced_enqueue_effect_witness:
  "waiting_evaluations [new_job ''job-9'' ''evaluate_new'' (JObj []) None 4 3] = 1"
  using coalesced_enqueue_effect [of False "inspect_connection 0 False False" "''job-9''" 4 "[]"
      "[new_job ''job-9'' ''evaluate_new'' (JObj []) None 4 3]" "Some ''job-9''"]
  by (simp add: enqueue_evaluate_new_coalesced_def enqueue_job_def Let_def has_evaluate_new_def
      waiting_evaluations_def)

text \<open>the bound of one waiting successor is not kept by the other operations: an evaluation
  that runs while its successor waits goes back to \<open>RETRY\<close> when it fails, and then two
  \<open>evaluate_new\<close> jobs wait although every one was enqueued through the coalescing call.\<close>

theorem failure_breaks_coalescing:
  "\<exists>t1 c t2 t3.
     enqueue_evaluate_new_coalesced False cap ''job-a'' 0 [] = Inr (t1, Some ''job-a'') \<and>
     claim_next_job ''w'' False (\<lambda>_ _. False) None 60 (\<lambda>_. 1) (\<lambda>_. None) t1 = (Inr (Some c), t2) \<and>
     enqueue_evaluate_new_coalesced False cap ''job-b'' 2 t2 = Inr (t3, Some ''job-b'') \<and>
     waiting_evaluations (snd (fail_job ''w'' ''job-a'' ''boom'' 30 None 3 t3)) = 2"
  by (simp add: enqueue_evaluate_new_coalesced_def enqueue_job_def Let_def has_evaluate_new_def
      claim_next_job_def claim_loop.simps claim_body_def stale_jobs_def due_jobs_def is_stale_def
      is_due_def type_allowed_def first_by_def put_job_def update_where_def lease_to_def
      fail_job_def guarded_update_def holds_lease_def backoff_delay_def waiting_evaluations_def
      new_job_def)

section \<open>The runner\<close>

text \<open>a capacity pause, or a capacity probe that fails, claims nothing: \<open>run_once\<close> reports no
  work, writes nothing and leaves the table as it found it.\<close>

theorem paused_worker_claims_nothing:
  assumes "probe = read_capacity_snapshot opened pg injected db"
    and "\<not> opened \<or> (\<exists>s. probe = (Some s, True) \<and> pauses_heavy_work s) \<or> snd probe = False"
  shows "run_once w handlers probe pg locked allowed dur clock now mid tbl = (Inr False, [], tbl)"
proof -
  have "(\<exists>s. probe = (Some s, True) \<and> pauses_heavy_work s) \<or> snd probe = False"
    using assms by (auto simp: read_capacity_snapshot_def)
  then have "\<not> fst (capacity_allows_claim probe)"
    by (cases probe) (auto simp: capacity_allows_claim_def)
  then show ?thesis by (simp add: run_once_def)
qed

theorem paused_worker_claims_nothing_witness:
  "run_once ''w'' Map.empty (Some (inspect_connection 419430400 False False), True) True
     (\<lambda>_ _. False) None 60 (\<lambda>_. 5) 6 id [sample_job] = (Inr False, [], [sample_job])"
  by (rule paused_worker_claims_nothing [where opened = True and injected = None
        and db = "Inr (inspect_connection 419430400 False False)"])
    (simp_all add: read_capacity_snapshot_def pauses_heavy_work_def inspect_connection_def
      BLOCK_BYTES_def MIB_def)

text \<open>a worker whose lease expired or was taken while its handler ran records nothing for the
  job: whatever the handler's result, short of a capacity pause, the table stays as the handler
  and the other sessions left it.\<close>

theorem lost_lease_after_handler:
  assumes "handlers (job_type (claimed_job c)) = Some h"
    and "parse_payload (payload_json (claimed_job c)) = Inr (JObj fs)"
    and "h (JObj fs) tbl = (r, tbl1)" "\<forall>m. r \<noteq> Inl (CapacityBlocked m)"
    and "\<not> has_valid_lease w (job_id (claimed_job c)) now tbl1"
  shows "dispatch_job w handlers now mid c tbl = (Inr True, [''worker.job_claimed'', ''worker.lease_lost''], tbl1)"
  using assms
  by (auto simp: dispatch_job_def Let_def complete_job_fenced_def fail_job_fenced_def
      split: sum.splits py_exn.splits)

theorem lost_lease_after_handler_witness:
  "dispatch_job ''w'' [''reverify_stale'' \<mapsto> (\<lambda>_ t. (Inr (), []))] 6 id sample_claim
     [claimed_job sample_claim] = (Inr True, [''worker.job_claimed'', ''worker.lease_lost''], [])"
  by (rule lost_lease_after_handler [where h = "\<lambda>_ t. (Inr (), [])" and fs = "[]"
        and r = "Inr ()"])
    (auto simp: sample_claim_def sample_job_def new_job_def parse_payload_def json_dumps_def
      has_valid_lease_def)

text \<open>the completion event is not evidence of completion. The fenced write ignores whether the
  guarded update applied, so a lease lost between the fence and the write is logged as
  \<open>worker.job_completed\<close> although the row is another worker's and not completed.\<close>

theorem completion_logged_without_write:
  "\<exists>mid tbl'. complete_job_fenced ''w'' ''job-1'' 6 mid [claimed_job sample_claim]
       = ([''worker.job_completed''], tbl') \<and>
     (\<forall>j\<in>set tbl'. job_status j \<noteq> COMPLETED)"
proof (intro exI conjI)
  let ?mid = "\<lambda>_. [lease_to ''other'' 6 60 sample_job]"
  show "complete_job_fenced ''w'' ''job-1'' 6 ?mid [claimed_job sample_claim]
       = ([''worker.job_completed''], [lease_to ''other'' 6 60 sample_job])"
    by (simp add: complete_job_fenced_def has_valid_lease_def sample_claim_def sample_job_def
        new_job_def complete_job_def guarded_update_def update_where_def holds_lease_def seconds_def)
qed simp

text \<open>A payload that parses but is not an object makes the logging before the handler raise: the job
  is neither failed nor dead-lettered, as a malformed payload would be, but stays \<open>RUNNING\<close> under its
  lease until that expires.\<close>

theorem non_object_payload_left_running:
  "safe_payload_summary v = Inr () \<longleftrightarrow> (\<exists>fs. v = JObj fs)"
  "payload_json (claimed_job c) = json_dumps v \<Longrightarrow> \<forall>fs. v \<noteq> JObj fs \<Longrightarrow>
     \<exists>e. dispatch_job w hs now mid c tbl = (Inl e, [], tbl)"
proof -
  show a: "safe_payload_summary v = Inr () \<longleftrightarrow> (\<exists>fs. v = JObj fs)" by (cases v) auto
  assume "payload_json (claimed_job c) = json_dumps v" "\<forall>fs. v \<noteq> JObj fs"
  with a show "\<exists>e. dispatch_job w hs now mid c tbl = (Inl e, [], tbl)"
    by (cases "safe_payload_summary v") (auto simp: dispatch_job_def Let_def parse_payload_def json_dumps_def)
qed

lemma run_forever_bound:
  assumes "run_forever k turns max_jobs n p tbl = Some r"
  shows "p \<le> fst r \<and> (\<forall>m. max_jobs = Some m \<longrightarrow> p \<le> m \<longrightarrow> fst r \<le> m)"
proof (rule run_forever.raw_induct [where P = "\<lambda>k turns max_jobs n p tbl r.
      p \<le> fst r \<and> (\<forall>m. max_jobs = Some m \<longrightarrow> p \<le> m \<longrightarrow> fst r \<le> m)", OF _ assms])
  fix f :: "worker \<Rightarrow> (nat \<Rightarrow> turn) \<Rightarrow> int option \<Rightarrow> nat \<Rightarrow> int \<Rightarrow> jobs \<Rightarrow> (int \<times> jobs) option"
  fix k :: worker and turns :: "nat \<Rightarrow> turn" and max_jobs n p tbl r
  assume IH: "\<And>k turns max_jobs n p tbl r. f k turns max_jobs n p tbl = Some r \<Longrightarrow>
      p \<le> fst r \<and> (\<forall>m. max_jobs = Some m \<longrightarrow> p \<le> m \<longrightarrow> fst r \<le> m)"
    and eq: "(if t_stopped (turns n) then Some (p, tbl)
      else if (case max_jobs of None \<Rightarrow> False | Some m \<Rightarrow> p \<ge> m) then Some (p, tbl)
      else (case take_turn k (turns n) tbl of
              (res, _, tbl') \<Rightarrow>
                f k turns max_jobs (Suc n) (if res = Inr True then p + 1 else p) tbl')) = Some r"
  from eq show "p \<le> fst r \<and> (\<forall>m. max_jobs = Some m \<longrightarrow> p \<le> m \<longrightarrow> fst r \<le> m)"
    by (auto split: if_splits option.splits prod.splits dest!: IH)
qed

lemma run_forever_paused:
  assumes "\<And>i. \<not> fst (capacity_allows_claim (t_probe (turns i)))" "\<And>i. t_between (turns i) = id"
    and "run_forever k turns max_jobs n p tbl = Some r"
  shows "r = (p, tbl)"
proof (rule run_forever.raw_induct [where P = "\<lambda>k turns max_jobs n p tbl r.
      (\<forall>i. \<not> fst (capacity_allows_claim (t_probe (turns i))) \<and> t_between (turns i) = id) \<longrightarrow> r = (p, tbl)",
      OF _ assms(3), THEN mp])
  fix f :: "worker \<Rightarrow> (nat \<Rightarrow> turn) \<Rightarrow> int option \<Rightarrow> nat \<Rightarrow> int \<Rightarrow> jobs \<Rightarrow> (int \<times> jobs) option"
  fix k :: worker and turns :: "nat \<Rightarrow> turn" and max_jobs n p tbl r
  assume IH: "\<And>k turns max_jobs n p tbl r. f k turns max_jobs n p tbl = Some r \<Longrightarrow>
      (\<forall>i. \<not> fst (capacity_allows_claim (t_probe (turns i))) \<and> t_between (turns i) = id) \<longrightarrow> r = (p, tbl)"
    and eq: "(if t_stopped (turns n) then Some (p, tbl)
      else if (case max_jobs of None \<Rightarrow> False | Some m \<Rightarrow> p \<ge> m) then Some (p, tbl)
      else (case take_turn k (turns n) tbl of
              (res, _, tbl') \<Rightarrow>
                f k turns max_jobs (Suc n) (if res = Inr True then p + 1 else p) tbl')) = Some r"
  show "(\<forall>i. \<not> fst (capacity_allows_claim (t_probe (turns i))) \<and> t_between (turns i) = id) \<longrightarrow> r = (p, tbl)"
  proof
    assume a: "\<forall>i. \<not> fst (capacity_allows_claim (t_probe (turns i))) \<and> t_between (turns i) = id"
    then have "take_turn k (turns n) tbl = (Inr False, [], tbl)" by (simp add: take_turn_def run_once_def)
    with eq IH [of k turns max_jobs "Suc n" p tbl r] a show "r = (p, tbl)" by (auto split: if_splits)
  qed
qed (use assms in auto)

text \<open>C33: the polling loop returns once the stop event is set, whatever its turns do or raise; it
  never processes more jobs than it was asked to; and a loop that only sees capacity pauses leaves
  the table as it is and reports no work.\<close>

theorem run_forever_stops:
  assumes "t_stopped (turns k)" "n \<le> k" "0 \<le> p"
  shows "\<exists>q tbl'. run_forever w turns max_jobs n p tbl = Some (q, tbl') \<and> p \<le> q \<and>
    (\<forall>m. max_jobs = Some m \<longrightarrow> p \<le> m \<longrightarrow> q \<le> m) \<and>
    ((\<forall>i. \<not> fst (capacity_allows_claim (t_probe (turns i))) \<and> t_between (turns i) = id) \<longrightarrow>
       q = p \<and> tbl' = tbl)"
proof -
  have "\<exists>r. run_forever w turns max_jobs n p tbl = Some r"
    using assms(2)
  proof (induction "k - n" arbitrary: n p tbl)
    case 0
    with assms(1) show ?case by (subst run_forever.simps) simp
  next
    case (Suc d)
    then have "d = k - Suc n" "Suc n \<le> k" by auto
    from Suc.hyps(1) [OF this] show ?case
      by (subst run_forever.simps) (auto split: prod.splits option.splits)
  qed
  then obtain q tbl' where r: "run_forever w turns max_jobs n p tbl = Some (q, tbl')" by auto
  with run_forever_bound [OF r] run_forever_paused [of turns w max_jobs n p tbl "(q, tbl')"]
  show ?thesis by auto
qed

definition sample_turn :: "nat \<Rightarrow> turn" where
  "sample_turn n = \<lparr>t_stopped = (n = 3), t_probe = (None, True), t_locked = (\<lambda>_ _. False),
     t_clock = (\<lambda>_. 5), t_now = 6, t_mid = id, t_between = id\<rparr>"

definition sample_worker :: worker where
  "sample_worker = \<lparr>worker_id = ''w'', wk_handlers = Map.empty, on_postgres = False,
     allowed_job_types = None, wk_lease_seconds = 60\<rparr>"

theorem run_forever_stops_witness:
  "\<exists>q tbl'. run_forever sample_worker sample_turn (Some 2) 0 0 [sample_job] = Some (q, tbl') \<and> q \<le> 2"
  using run_forever_stops [of sample_turn 3 0 0 sample_worker "Some 2" "[sample_job]"]
  by (auto simp: sample_turn_def)

end
