(* ===== verification/Scheduler.thy ===== *)
theory Scheduler
  imports Job_Queue
begin

text \<open>
  The poll scheduler of \<open>worker/scheduler.py\<close> over the tables \<open>source_schedules\<close>,
  \<open>source_poll_runs\<close> and \<open>worker_jobs\<close>. Times and cadences are microseconds (a
  cadence is what \<open>timedelta(hours=cadence_hours)\<close> makes of the column). The source
  registry is the ordered list of its entries with their read permission
  (\<open>opportunity/registry.py\<close>, \<open>SourceRegistry\<close>); the text of
  \<open>docs/SOURCE_REGISTRY.yaml\<close> and its parsing are not modelled.
\<close>

section \<open>State\<close>

record source_schedule =
  sched_source :: string
  cadence :: int
  last_attempt_at :: "int option"
  last_success_at :: "int option"
  next_due_at :: int
  cooldown_until :: "int option"
  consecutive_failures :: int
  last_status :: "string option"
  sched_updated_at :: int

record poll_run =
  run_source :: string
  run_started_at :: int
  run_status :: string

record sched_db =
  sched_jobs :: jobs
  schedules :: "source_schedule list"
  poll_runs :: "poll_run list"

type_synonym source_registry = "(string \<times> bool) list"

definition is_read_allowed :: "source_registry \<Rightarrow> string \<Rightarrow> bool" where
  "is_read_allowed reg sid = (case map_of reg sid of Some b \<Rightarrow> b | None \<Rightarrow> False)"

definition HOUR :: int where "HOUR = 3600 * 1000000"

definition BLOCKED_POLL_STATUS :: string where "BLOCKED_POLL_STATUS = ''blocked''"

section \<open>Active polls\<close>

text \<open>
  The \<open>source_id\<close> a payload names, if it names one; text that does not parse is skipped. The
  value goes into a Python set, so that a list or an object in its place raises.
\<close>

fun hashable :: "json \<Rightarrow> json result" where
  "hashable (JArr xs) = Inl (TypeError (''unhashable type: '' @ quoted ''list''))"
| "hashable (JObj fs) = Inl (TypeError (''unhashable type: '' @ quoted ''dict''))"
| "hashable v = Inr v"

definition payload_source :: "json_text \<Rightarrow> json option result" where
  "payload_source t =
     (case (case t of EmptyText \<Rightarrow> Inr (JObj []) | _ \<Rightarrow> json_loads t) of
        Inl _ \<Rightarrow> Inr None
      | Inr (JObj fs) \<Rightarrow>
          (case map_of fs ''source_id'' of
             Some v \<Rightarrow> if json_truthy v then bind (hashable v) (\<lambda>u. Inr (Some u)) else Inr None
           | None \<Rightarrow> Inr None)
      | Inr _ \<Rightarrow> Inr None)"

definition is_active :: "worker_job \<Rightarrow> bool" where
  "is_active j \<longleftrightarrow> job_status j \<in> {PENDING, RETRY, RUNNING}"

fun active_poll_source_ids :: "jobs \<Rightarrow> json list result" where
  "active_poll_source_ids [] = Inr []"
| "active_poll_source_ids (j # js) =
     (if job_type j = ''poll_source'' \<and> is_active j
      then bind (payload_source (payload_json j)) (\<lambda>v.
           bind (active_poll_source_ids js) (\<lambda>vs.
             Inr (case v of Some u \<Rightarrow> u # vs | None \<Rightarrow> vs)))
      else active_poll_source_ids js)"

section \<open>Schedules\<close>

definition put_schedule :: "source_schedule \<Rightarrow> source_schedule list \<Rightarrow> source_schedule list" where
  "put_schedule s ss = update_where (\<lambda>r. sched_source r = sched_source s) (\<lambda>_. s) ss"

definition find_schedule :: "string \<Rightarrow> source_schedule list \<Rightarrow> source_schedule option" where
  "find_schedule sid ss = find (\<lambda>s. sched_source s = sid) ss"

text \<open>
  \<open>get_or_create_source_schedule\<close>: an existing row keeps everything but a changed
  cadence; a new row is derived from the recorded poll runs, the latest first.
\<close>

definition bootstrap_schedule :: "string \<Rightarrow> int \<Rightarrow> int \<Rightarrow> poll_run list \<Rightarrow> source_schedule" where
  "bootstrap_schedule sid cad now runs =
     (let mine = filter (\<lambda>r. run_source r = sid) runs in
      case first_by (\<lambda>r. - run_started_at r) mine of
        Some r \<Rightarrow>
          (let ok = first_by (\<lambda>q. - run_started_at q) (filter (\<lambda>q. run_status q = ''ok'') mine);
               due = run_started_at r + cad;
               blocked = run_status r = BLOCKED_POLL_STATUS;
               cool = run_started_at r + 24 * HOUR
           in \<lparr>sched_source = sid, cadence = cad, last_attempt_at = Some (run_started_at r),
               last_success_at = map_option run_started_at ok,
               next_due_at = (if blocked then max due cool else due),
               cooldown_until = (if blocked then Some cool else None),
               consecutive_failures = 0, last_status = Some (run_status r),
               sched_updated_at = now\<rparr>)
      | None \<Rightarrow>
          \<lparr>sched_source = sid, cadence = cad, last_attempt_at = None, last_success_at = None,
           next_due_at = now, cooldown_until = None, consecutive_failures = 0,
           last_status = None, sched_updated_at = now\<rparr>)"

definition get_or_create_source_schedule ::
  "string \<Rightarrow> int \<Rightarrow> int \<Rightarrow> sched_db \<Rightarrow> source_schedule \<times> sched_db" where
  "get_or_create_source_schedule sid cad now db =
     (case find_schedule sid (schedules db) of
        Some r \<Rightarrow>
          (let r' = (if cadence r \<noteq> cad then r\<lparr>cadence := cad\<rparr> else r)
           in (r', db\<lparr>schedules := put_schedule r' (schedules db)\<rparr>))
      | None \<Rightarrow>
          (let r = bootstrap_schedule sid cad now (poll_runs db)
           in (r, db\<lparr>schedules := schedules db @ [r]\<rparr>)))"

section \<open>Enqueueing due sources\<close>

record tick_result =
  enqueued :: "(string \<times> string) list"
  skipped :: "(string \<times> string) list"

definition skip :: "string \<Rightarrow> string \<Rightarrow> tick_result \<Rightarrow> tick_result" where
  "skip sid reason r = r\<lparr>skipped := skipped r @ [(sid, reason)]\<rparr>"

definition is_cooling :: "int \<Rightarrow> source_schedule \<Rightarrow> bool" where
  "is_cooling now s = (case cooldown_until s of Some t \<Rightarrow> t > now | None \<Rightarrow> False)"

definition poll_payload :: "string \<Rightarrow> json" where
  "poll_payload sid = JObj [(''source_id'', JStr sid)]"

text \<open>
  The insert of one \<open>poll_source\<close> job and the advance of its schedule row. \<open>cap\<close> is the
  snapshot the queue's own guard takes, \<open>jid\<close> the fresh job identifier.
\<close>

definition enqueue_poll ::
  "bool \<Rightarrow> capacity_snapshot \<Rightarrow> string \<Rightarrow> int \<Rightarrow> source_schedule \<Rightarrow> sched_db \<Rightarrow> sched_db result" where
  "enqueue_poll pg cap jid now s db =
     (case enqueue_job pg cap jid ''poll_source'' (poll_payload (sched_source s)) None now 3 (sched_jobs db) of
        Inl e \<Rightarrow> Inl e
      | Inr (tbl, i) \<Rightarrow>
          Inr (db\<lparr>sched_jobs := tbl,
                  schedules := put_schedule
                    (s\<lparr>last_attempt_at := Some now, next_due_at := now + cadence s,
                       sched_updated_at := now\<rparr>) (schedules db)\<rparr>))"

text \<open>The loop over the locked schedule rows; \<open>k\<close> counts the jobs inserted so far.\<close>

fun enqueue_loop ::
  "bool \<Rightarrow> (nat \<Rightarrow> capacity_snapshot) \<Rightarrow> (nat \<Rightarrow> string) \<Rightarrow> int \<Rightarrow> bool \<Rightarrow> source_schedule list
     \<Rightarrow> nat \<Rightarrow> json list \<Rightarrow> sched_db \<Rightarrow> tick_result \<Rightarrow> (tick_result \<times> sched_db) result" where
  "enqueue_loop pg caps jids now warning [] k active db r = Inr (r, db)"
| "enqueue_loop pg caps jids now warning (s # ss) k active db r =
     (let sid = sched_source s in
      if is_cooling now s then enqueue_loop pg caps jids now warning ss k active db (skip sid ''cooling_down'' r)
      else if JStr sid \<in> set active
      then enqueue_loop pg caps jids now warning ss k active db (skip sid ''already_queued'' r)
      else if next_due_at s > now
      then enqueue_loop pg caps jids now warning ss k active db (skip sid ''not_due'' r)
      else (case enqueue_poll pg (caps k) (jids k) now s db of
              Inl e \<Rightarrow> Inl e
            | Inr db' \<Rightarrow>
                (let r' = r\<lparr>enqueued := enqueued r @ [(sid, jids k)]\<rparr> in
                 if warning then Inr (r', db')
                 else enqueue_loop pg caps jids now warning ss (Suc k) (JStr sid # active) db' r')))"

definition empty_result :: tick_result where
  "empty_result = \<lparr>enqueued = [], skipped = []\<rparr>"

definition warning_band :: "capacity_snapshot option \<Rightarrow> bool" where
  "warning_band cap = (case cap of Some c \<Rightarrow> database_size_bytes c \<ge> WARN_BYTES | None \<Rightarrow> False)"

text \<open>The single-source request.\<close>

definition enqueue_single ::
  "bool \<Rightarrow> (nat \<Rightarrow> capacity_snapshot) \<Rightarrow> (nat \<Rightarrow> string) \<Rightarrow> source_registry \<Rightarrow> int \<Rightarrow> (string \<Rightarrow> int)
     \<Rightarrow> bool \<Rightarrow> string \<Rightarrow> sched_db \<Rightarrow> (tick_result \<times> sched_db) result" where
  "enqueue_single pg caps jids reg now cadence_for force sid db =
     (if \<not> is_read_allowed reg sid
      then Inr (skip sid ''read_disabled_by_policy'' empty_result, db)
      else
        (case get_or_create_source_schedule sid (cadence_for sid) now db of
           (s, db1) \<Rightarrow>
             if is_cooling now s then Inr (skip sid ''cooling_down'' empty_result, db1)
             else bind (active_poll_source_ids (sched_jobs db1)) (\<lambda>active.
               if JStr sid \<in> set active then Inr (skip sid ''already_queued'' empty_result, db1)
               else if \<not> force \<and> next_due_at s > now
               then Inr (skip sid ''not_due'' empty_result, db1)
               else (case enqueue_poll pg (caps 0) (jids 0) now s db1 of
                       Inl e \<Rightarrow> Inl e
                     | Inr db2 \<Rightarrow> Inr (empty_result\<lparr>enqueued := [(sid, jids 0)]\<rparr>, db2)))))"

text \<open>The sources a generic or bounded request may read, and the skips it records first.\<close>

fun select_sources :: "source_registry \<Rightarrow> string list \<Rightarrow> tick_result \<Rightarrow> string list \<times> tick_result" where
  "select_sources reg [] r = ([], r)"
| "select_sources reg (s # ss) r =
     (if map_of reg s = None then select_sources reg ss (skip s ''unregistered_source'' r)
      else if \<not> is_read_allowed reg s
      then select_sources reg ss (skip s ''read_disabled_by_policy'' r)
      else (case select_sources reg ss r of (xs, r') \<Rightarrow> (s # xs, r')))"

definition requested_sources ::
  "source_registry \<Rightarrow> string list option \<Rightarrow> string list \<times> tick_result" where
  "requested_sources reg ids =
     (case ids of
        None \<Rightarrow>
          (filter (is_read_allowed reg) (map fst reg),
           empty_result\<lparr>skipped := map (\<lambda>s. (s, ''read_disabled_by_policy''))
                          (filter (\<lambda>s. \<not> is_read_allowed reg s) (map fst reg))\<rparr>)
      | Some sids \<Rightarrow> select_sources reg (rev (remdups (rev sids))) empty_result)"

fun ensure_schedules :: "(string \<Rightarrow> int) \<Rightarrow> int \<Rightarrow> string list \<Rightarrow> sched_db \<Rightarrow> sched_db" where
  "ensure_schedules cadence_for now [] db = db"
| "ensure_schedules cadence_for now (s # ss) db =
     ensure_schedules cadence_for now ss
       (snd (get_or_create_source_schedule s (cadence_for s) now db))"

definition enqueue_many ::
  "bool \<Rightarrow> (nat \<Rightarrow> capacity_snapshot) \<Rightarrow> (nat \<Rightarrow> string) \<Rightarrow> (string \<Rightarrow> bool) \<Rightarrow> source_registry \<Rightarrow> int
     \<Rightarrow> (string \<Rightarrow> int) \<Rightarrow> bool \<Rightarrow> string list option \<Rightarrow> bool \<Rightarrow> sched_db
     \<Rightarrow> (tick_result \<times> sched_db) result" where
  "enqueue_many pg caps jids locked reg now cadence_for warning ids create_missing db =
     (case requested_sources reg ids of
        (read_allowed, r) \<Rightarrow>
          if read_allowed = [] then Inr (r, db)
          else
            (let db1 = (if create_missing then ensure_schedules cadence_for now read_allowed db else db);
                 ss = filter (\<lambda>s. sched_source s \<in> set read_allowed \<and> \<not> (pg \<and> locked (sched_source s)))
                        (schedules db1)
             in bind (active_poll_source_ids (sched_jobs db1)) (\<lambda>active.
                  enqueue_loop pg caps jids now warning ss 0 active db1 r)))"

text \<open>
  \<open>enqueue_due_sources\<close>. \<open>cap\<close> is \<open>None\<close> away from PostgreSQL. Above the heavy-work
  boundary the session is rolled back and nothing is touched; in the warning band nothing
  is added to a backlog of polls.
\<close>

definition enqueue_due_sources ::
  "capacity_snapshot option \<Rightarrow> (nat \<Rightarrow> capacity_snapshot) \<Rightarrow> (nat \<Rightarrow> string) \<Rightarrow> (string \<Rightarrow> bool)
     \<Rightarrow> source_registry \<Rightarrow> int \<Rightarrow> (string \<Rightarrow> int) \<Rightarrow> string option \<Rightarrow> string list option
     \<Rightarrow> bool \<Rightarrow> bool \<Rightarrow> sched_db \<Rightarrow> (tick_result \<times> sched_db) result" where
  "enqueue_due_sources cap caps jids locked reg now cadence_for source_id source_ids force
     create_missing db =
     (let pg = (cap \<noteq> None);
          who = (case source_id of Some s \<Rightarrow> (if s = [] then ''*'' else s) | None \<Rightarrow> ''*'');
          pause = (case cap of Some c \<Rightarrow> pauses_heavy_work c | None \<Rightarrow> False)
      in if source_id \<noteq> None \<and> source_ids \<noteq> None
         then Inl (ValueError ''source_id and source_ids are mutually exclusive'')
         else if pause
         then Inr (skip who
                (case cap of Some c \<Rightarrow> if read_only c \<or> in_recovery c
                                      then ''database_read_only_or_recovery'' else ''capacity_pause''
                           | None \<Rightarrow> ''capacity_pause'') empty_result, db)
         else bind (if warning_band cap then active_poll_source_ids (sched_jobs db) else Inr []) (\<lambda>active.
           if active \<noteq> []
           then Inr (skip who ''warning_capacity_poll_work_already_active'' empty_result, db)
           else (case source_id of
                   Some sid \<Rightarrow> enqueue_single pg caps jids reg now cadence_for force sid db
                 | None \<Rightarrow> enqueue_many pg caps jids locked reg now cadence_for (warning_band cap)
                             source_ids create_missing db)))"

section \<open>The supervised catch-up wave\<close>

definition OVERNIGHT_CATCHUP_MAX_SOURCES :: nat where "OVERNIGHT_CATCHUP_MAX_SOURCES = 5"

definition OVERNIGHT_CATCHUP_CEILING_BYTES :: int where
  "OVERNIGHT_CATCHUP_CEILING_BYTES = 390 * 1024 * 1024"

definition controlled_catchup_capacity_allowed :: "capacity_snapshot option \<Rightarrow> bool" where
  "controlled_catchup_capacity_allowed snap =
     (case snap of
        None \<Rightarrow> False
      | Some s \<Rightarrow> \<not> read_only s \<and> \<not> in_recovery s \<and>
                  database_size_bytes s < OVERNIGHT_CATCHUP_CEILING_BYTES)"

text \<open>
  The argument checks, in the order of the code. \<open>frozen\<close> is the manifest's due times
  (a value may be \<open>None\<close>), \<open>manifest\<close> the manifest's creation time.
\<close>

definition check_wave ::
  "source_registry \<Rightarrow> string list \<Rightarrow> (string \<times> int option) list option \<Rightarrow> int option \<Rightarrow> unit result" where
  "check_wave reg selected frozen manifest =
     (if \<not> (1 \<le> length selected \<and> length selected \<le> OVERNIGHT_CATCHUP_MAX_SOURCES)
      then Inl (ValueError ''controlled catch-up wave must contain one to five sources'')
      else if \<not> distinct selected
      then Inl (ValueError ''controlled catch-up wave contains duplicate sources'')
      else if list_ex (\<lambda>s. map_of reg s = None) selected
      then Inl (ValueError ''controlled catch-up wave contains unregistered sources'')
      else if list_ex (\<lambda>s. \<not> is_read_allowed reg s) selected
      then Inl (ValueError ''controlled catch-up wave contains a read-disabled source'')
      else if (frozen = None) \<noteq> (manifest = None)
      then Inl (ValueError ''controlled catch-up requires both frozen due timestamps and manifest time'')
      else (case (frozen, manifest) of
              (Some fd, Some m) \<Rightarrow>
                if set (map fst fd) \<noteq> set selected
                then Inl (ValueError ''controlled catch-up frozen manifest does not match the selected wave'')
                else if list_ex (\<lambda>s. case map_of fd s of
                                       Some (Some d) \<Rightarrow> d > m
                                     | _ \<Rightarrow> True) selected
                then Inl (ValueError ''controlled catch-up source was not due at manifest creation'')
                else Inr ()
            | _ \<Rightarrow> Inr ()))"

fun check_schedules :: "bool \<Rightarrow> int \<Rightarrow> string list \<Rightarrow> source_schedule list \<Rightarrow> unit result" where
  "check_schedules frozen now [] ss = Inr ()"
| "check_schedules frozen now (sid # sids) ss =
     (case find_schedule sid ss of
        None \<Rightarrow> Inl (RuntimeError ''controlled catch-up manifest source has no durable schedule'')
      | Some s \<Rightarrow>
          if is_cooling now s
          then Inl (RuntimeError ''controlled catch-up manifest source is cooling'')
          else if \<not> frozen \<and> next_due_at s > now
          then Inl (RuntimeError ''controlled catch-up manifest source is no longer due'')
          else check_schedules frozen now sids ss)"

fun enqueue_wave ::
  "(nat \<Rightarrow> capacity_snapshot) \<Rightarrow> (nat \<Rightarrow> string) \<Rightarrow> int \<Rightarrow> string list \<Rightarrow> nat \<Rightarrow> sched_db
     \<Rightarrow> ((string \<times> string) list \<times> sched_db) result" where
  "enqueue_wave caps jids now [] k db = Inr ([], db)"
| "enqueue_wave caps jids now (sid # sids) k db =
     (case find_schedule sid (schedules db) of
        None \<Rightarrow> Inl (KeyError sid)
      | Some s \<Rightarrow>
          (case enqueue_poll True (caps k) (jids k) now s db of
             Inl e \<Rightarrow> Inl e
           | Inr db1 \<Rightarrow>
               (case enqueue_wave caps jids now sids (Suc k) db1 of
                  Inl e \<Rightarrow> Inl e
                | Inr (es, db2) \<Rightarrow> Inr ((sid, jids k) # es, db2))))"

text \<open>
  \<open>enqueue_due_catchup_sources\<close>: \<open>cap1\<close> and \<open>cap2\<close> are the two inspections, before and
  after the advisory lock. Every exception rolls the session back.
\<close>

definition enqueue_due_catchup_sources ::
  "bool \<Rightarrow> capacity_snapshot \<Rightarrow> capacity_snapshot \<Rightarrow> (nat \<Rightarrow> capacity_snapshot) \<Rightarrow> (nat \<Rightarrow> string)
     \<Rightarrow> source_registry \<Rightarrow> int \<Rightarrow> (string \<times> int option) list option \<Rightarrow> int option \<Rightarrow> string list
     \<Rightarrow> sched_db \<Rightarrow> (string \<times> string) list result \<times> sched_db" where
  "enqueue_due_catchup_sources pg cap1 cap2 caps jids reg now frozen manifest selected db =
     (case check_wave reg selected frozen manifest of
        Inl e \<Rightarrow> (Inl e, db)
      | Inr _ \<Rightarrow>
          if \<not> pg then (Inl (RuntimeError ''controlled catch-up requires PostgreSQL''), db)
          else if \<not> controlled_catchup_capacity_allowed (Some cap1)
          then (Inl (RuntimeError
                 ''controlled catch-up capacity ceiling or database state blocks the wave''), db)
          else if \<not> controlled_catchup_capacity_allowed (Some cap2)
          then (Inl (RuntimeError ''controlled catch-up capacity changed before wave enqueue''), db)
          else if list_ex is_active (sched_jobs db)
          then (Inl (RuntimeError ''controlled catch-up requires a globally empty runnable queue''), db)
          else if \<not> list_all (\<lambda>s. find_schedule s (schedules db) \<noteq> None) selected
          then (Inl (RuntimeError ''controlled catch-up manifest source has no durable schedule''), db)
          else (case check_schedules (frozen \<noteq> None) now selected (schedules db) of
                  Inl e \<Rightarrow> (Inl e, db)
                | Inr _ \<Rightarrow>
                    (case enqueue_wave caps jids now selected 0 db of
                       Inl e \<Rightarrow> (Inl e, db)
                     | Inr (es, db') \<Rightarrow> (Inr es, db'))))"

section \<open>One tick of the scheduler\<close>

definition reverify_is_due :: "int \<Rightarrow> jobs \<Rightarrow> bool" where
  "reverify_is_due now tbl =
     (let mine = filter (\<lambda>j. job_type j = ''reverify_stale'') tbl in
      if mine = [] then True
      else if list_ex is_active mine then False
      else (case first_by (\<lambda>j. - run_after j) mine of
              None \<Rightarrow> True
            | Some j \<Rightarrow> now - run_after j \<ge> seconds 86400))"

text \<open>\<open>PollScheduler.run_once\<close>: both enqueues commit together, an exception rolls back.\<close>

definition scheduler_run_once ::
  "capacity_snapshot option \<Rightarrow> (nat \<Rightarrow> capacity_snapshot) \<Rightarrow> (nat \<Rightarrow> string) \<Rightarrow> string
     \<Rightarrow> (string \<Rightarrow> bool) \<Rightarrow> source_registry \<Rightarrow> int \<Rightarrow> (string \<Rightarrow> int) \<Rightarrow> bool \<Rightarrow> sched_db
     \<Rightarrow> string list result \<times> sched_db" where
  "scheduler_run_once cap caps jids rjid locked reg now cadence_for init_missing db =
     (case enqueue_due_sources cap caps jids locked reg now cadence_for None None False
             init_missing db of
        Inl e \<Rightarrow> (Inl e, db)
      | Inr (r, db1) \<Rightarrow>
          (if reverify_is_due now (sched_jobs db1)
           then (case enqueue_job (cap \<noteq> None) (caps 0) rjid ''reverify_stale'' (JObj []) (Some now)
                        now 3 (sched_jobs db1) of
                   Inl e \<Rightarrow> (Inl e, db)
                 | Inr (tbl, _) \<Rightarrow> (Inr (map fst (enqueued r)), db1\<lparr>sched_jobs := tbl\<rparr>))
           else (Inr (map fst (enqueued r)), db1)))"

end
