(* ===== verification/Scheduler_Properties.thy ===== *)
theory Scheduler_Properties
  imports Scheduler
begin

text \<open>
  What the scheduler promises: no second poll while one is in flight, only readable, due
  sources, every due source served, nothing touched under a capacity pause, at most one
  poll in the warning band, schedules that survive a restart, and an all-or-nothing
  catch-up wave.
\<close>

section \<open>Active polls of one source\<close>

definition polls_source :: "string \<Rightarrow> worker_job \<Rightarrow> bool" where
  "polls_source sid j \<longleftrightarrow>
     job_type j = ''poll_source'' \<and> is_active j \<and> payload_source (payload_json j) = Inr (Some (JStr sid))"

definition active_polls :: "string \<Rightarrow> jobs \<Rightarrow> nat" where
  "active_polls sid tbl = length (filter (polls_source sid) tbl)"

definition poll_job :: "int \<Rightarrow> string \<times> string \<Rightarrow> worker_job" where
  "poll_job now e = new_job (snd e) ''poll_source'' (poll_payload (fst e)) None now 3"

lemma in_active_poll_source_ids:
  assumes "active_poll_source_ids tbl = Inr vs"
  shows "v \<in> set vs \<longleftrightarrow>
     (\<exists>j\<in>set tbl. job_type j = ''poll_source'' \<and> is_active j \<and> payload_source (payload_json j) = Inr (Some v))"
  using assms by (induction tbl arbitrary: vs) (fastforce split: if_splits option.splits)+

lemma active_iff_polls:
  assumes "active_poll_source_ids tbl = Inr vs"
  shows "JStr sid \<in> set vs \<longleftrightarrow> active_polls sid tbl \<noteq> 0"
  using in_active_poll_source_ids [OF assms, of "JStr sid"]
  by (auto simp: active_polls_def filter_empty_conv polls_source_def)

lemma active_polls_append [simp]:
  "active_polls sid (xs @ ys) = active_polls sid xs + active_polls sid ys"
  by (simp add: active_polls_def)

lemma polls_source_poll_job:
  "polls_source sid (poll_job now e) \<longleftrightarrow> fst e = sid \<and> sid \<noteq> []"
  by (auto simp: polls_source_def poll_job_def new_job_def is_active_def payload_source_def
      poll_payload_def json_dumps_def)

lemma active_polls_new:
  assumes "distinct (map fst es)" "sid \<noteq> []"
  shows "active_polls sid (map (poll_job now) es) = (if sid \<in> set (map fst es) then 1 else 0)"
  using assms(1)
proof (induction es)
  case Nil
  then show ?case by (simp add: active_polls_def)
next
  case (Cons e es)
  have "active_polls sid (map (poll_job now) (e # es)) =
      (if fst e = sid then 1 else 0) + active_polls sid (map (poll_job now) es)"
    by (simp add: active_polls_def polls_source_poll_job assms(2))
  with Cons show ?case by auto
qed

section \<open>The loop\<close>

lemma enqueue_poll_Inr:
  assumes "enqueue_poll pg cap jid now s db = Inr db'"
  shows "sched_jobs db' = sched_jobs db @ [poll_job now (sched_source s, jid)]"
    and "schedules db' = put_schedule (s\<lparr>last_attempt_at := Some now, next_due_at := now + cadence s,
      sched_updated_at := now\<rparr>) (schedules db)"
    and "poll_runs db' = poll_runs db"
  using assms
  by (auto simp: enqueue_poll_def poll_job_def enqueue_job_def Let_def split: sum.splits if_splits)

text \<open>What one run of the loop adds.\<close>

lemma enqueue_loop_adds:
  assumes "enqueue_loop pg caps jids now warning ss k active db r = Inr (r', db')"
  shows "\<exists>es. enqueued r' = enqueued r @ es \<and>
    sched_jobs db' = sched_jobs db @ map (poll_job now) es \<and>
    distinct (map fst es) \<and>
    (\<forall>e\<in>set es. JStr (fst e) \<notin> set active \<and>
       (\<exists>s\<in>set ss. sched_source s = fst e \<and> \<not> is_cooling now s \<and> next_due_at s \<le> now)) \<and>
    (warning \<longrightarrow> length es \<le> 1)"
  using assms
proof (induction ss arbitrary: k active db r)
  case Nil
  then show ?case by (intro exI [of _ "[]"]) simp
next
  case (Cons s ss)
  let ?sid = "sched_source s"
  show ?case
  proof (cases "is_cooling now s \<or> JStr ?sid \<in> set active \<or> next_due_at s > now")
    case True
    with Cons.prems obtain reason where
      "enqueue_loop pg caps jids now warning ss k active db (skip ?sid reason r) = Inr (r', db')"
      by (auto simp: Let_def split: if_splits)
    from Cons.IH [OF this] show ?thesis by (fastforce simp: skip_def)
  next
    case False
    with Cons.prems obtain db1 where p: "enqueue_poll pg (caps k) (jids k) now s db = Inr db1"
      by (auto simp: Let_def split: sum.splits)
    let ?r1 = "r\<lparr>enqueued := enqueued r @ [(?sid, jids k)]\<rparr>"
    note jobs = enqueue_poll_Inr(1) [OF p]
    show ?thesis
    proof (cases warning)
      case True
      with False p Cons.prems have "r' = ?r1" "db' = db1" by (auto simp: Let_def)
      with jobs False show ?thesis by (intro exI [of _ "[(?sid, jids k)]"]) auto
    next
      case nw: False
      with False p Cons.prems
      have "enqueue_loop pg caps jids now warning ss (Suc k) (JStr ?sid # active) db1 ?r1 = Inr (r', db')"
        by (auto simp: Let_def)
      from Cons.IH [OF this] obtain es where es: "enqueued r' = enqueued ?r1 @ es"
        "sched_jobs db' = sched_jobs db1 @ map (poll_job now) es" "distinct (map fst es)"
        "\<forall>e\<in>set es. JStr (fst e) \<notin> set (JStr ?sid # active) \<and>
          (\<exists>s\<in>set ss. sched_source s = fst e \<and> \<not> is_cooling now s \<and> next_due_at s \<le> now)"
        by blast
      then have "?sid \<notin> set (map fst es)" by auto
      with es jobs False nw show ?thesis
        by (intro exI [of _ "(?sid, jids k) # es"]) auto
    qed
  qed
qed

text \<open>Outside the warning band every eligible row is served.\<close>

lemma enqueue_loop_serves:
  assumes "enqueue_loop pg caps jids now False ss k active db r = Inr (r', db')"
    and "s \<in> set ss" "\<not> is_cooling now s" "next_due_at s \<le> now"
  shows "JStr (sched_source s) \<in> set active \<or> sched_source s \<in> fst ` set (enqueued r')"
  using assms
proof (induction ss arbitrary: k active db r)
  case Nil
  then show ?case by simp
next
  case (Cons t ss)
  let ?tid = "sched_source t"
  show ?case
  proof (cases "is_cooling now t \<or> JStr ?tid \<in> set active \<or> next_due_at t > now")
    case True
    with Cons.prems(1) obtain reason where
      l: "enqueue_loop pg caps jids now False ss k active db (skip ?tid reason r) = Inr (r', db')"
      by (auto simp: Let_def split: if_splits)
    show ?thesis
    proof (cases "s = t")
      case True
      with \<open>is_cooling now t \<or> _\<close> Cons.prems show ?thesis by auto
    next
      case False
      with Cons.IH [OF l] Cons.prems show ?thesis by auto
    qed
  next
    case False
    with Cons.prems(1) obtain db1 where
      l: "enqueue_loop pg caps jids now False ss (Suc k) (JStr ?tid # active) db1
        (r\<lparr>enqueued := enqueued r @ [(?tid, jids k)]\<rparr>) = Inr (r', db')"
      by (auto simp: Let_def split: sum.splits)
    have t: "?tid \<in> fst ` set (enqueued r')"
      using enqueue_loop_adds [OF l] by force
    show ?thesis
    proof (cases "sched_source s = ?tid")
      case True
      with t show ?thesis by simp
    next
      case False
      with Cons.prems have "s \<in> set ss" by auto
      with Cons.IH [OF l] Cons.prems False show ?thesis by auto
    qed
  qed
qed

section \<open>Preparation of the request\<close>

lemma get_or_create_jobs [simp]:
  "sched_jobs (snd (get_or_create_source_schedule sid cad now db)) = sched_jobs db"
  by (auto simp: get_or_create_source_schedule_def Let_def split: option.splits)

lemma ensure_schedules_jobs [simp]: "sched_jobs (ensure_schedules cf now ss db) = sched_jobs db"
  by (induction ss arbitrary: db) auto

lemma select_sources_result:
  assumes "select_sources reg ids r = (xs, r')"
  shows "(\<forall>s\<in>set xs. is_read_allowed reg s \<and> s \<in> set ids) \<and> enqueued r' = enqueued r"
  using assms
proof (induction ids arbitrary: xs r r')
  case Nil
  then show ?case by simp
next
  case (Cons s ss)
  obtain ys r1 where ss: "select_sources reg ss r = (ys, r1)" by fastforce
  show ?case
  proof (cases "is_read_allowed reg s")
    case True
    then have "map_of reg s \<noteq> None" by (auto simp: is_read_allowed_def split: option.splits)
    with Cons.prems True ss have "xs = s # ys" "r' = r1" by auto
    with Cons.IH [OF ss] True show ?thesis by auto
  next
    case False
    with Cons.prems obtain reason where "select_sources reg ss (skip s reason r) = (xs, r')"
      by (auto split: if_splits)
    from Cons.IH [OF this] show ?thesis by (auto simp: skip_def)
  qed
qed

lemma requested_sources_result:
  assumes "requested_sources reg ids = (xs, r)"
  shows "(\<forall>s\<in>set xs. is_read_allowed reg s) \<and> enqueued r = []"
  using assms select_sources_result [of reg "rev (remdups (rev (the ids)))" empty_result xs r]
  by (auto simp: requested_sources_def empty_result_def split: option.splits)

lemma get_or_create_source:
  "sched_source (fst (get_or_create_source_schedule sid cad now db)) = sid"
  by (auto simp: get_or_create_source_schedule_def bootstrap_schedule_def find_schedule_def
      find_Some_iff Let_def split: option.splits)

lemma enqueue_single_adds:
  assumes "enqueue_single pg caps jids reg now cf force sid db = Inr (r, db')"
  shows "\<exists>es. enqueued r = es \<and> sched_jobs db' = sched_jobs db @ map (poll_job now) es \<and>
    distinct (map fst es) \<and> length es \<le> 1 \<and>
    (\<forall>e\<in>set es. is_read_allowed reg (fst e) \<and> active_polls (fst e) (sched_jobs db) = 0)"
proof (cases "is_read_allowed reg sid")
  case False
  with assms show ?thesis by (auto simp: enqueue_single_def skip_def empty_result_def)
next
  case True
  obtain s db1 where g: "get_or_create_source_schedule sid (cf sid) now db = (s, db1)" by fastforce
  have j: "sched_jobs db1 = sched_jobs db" and sid: "sched_source s = sid"
    using get_or_create_jobs [of sid "cf sid" now db] get_or_create_source [of sid "cf sid" now db] g
    by auto
  show ?thesis
  proof (cases "is_cooling now s")
    case True
    with assms g j \<open>is_read_allowed reg sid\<close> show ?thesis
      by (auto simp: enqueue_single_def skip_def empty_result_def)
  next
    case False
    with assms g True obtain active where a: "active_poll_source_ids (sched_jobs db) = Inr active"
      by (auto simp: enqueue_single_def j)
    show ?thesis
    proof (cases "JStr sid \<in> set active \<or> \<not> force \<and> next_due_at s > now")
      case True
      with assms g j a False show ?thesis
        by (auto simp: enqueue_single_def skip_def empty_result_def split: if_splits)
    next
      case new: False
      with assms g True a False obtain db2 where p: "enqueue_poll pg (caps 0) (jids 0) now s db1 = Inr db2"
        and r: "r = empty_result\<lparr>enqueued := [(sid, jids 0)]\<rparr>" "db' = db2"
        by (auto simp: enqueue_single_def j split: sum.splits)
      with enqueue_poll_Inr(1) [OF p] new True j sid active_iff_polls [OF a, of sid] show ?thesis by auto
    qed
  qed
qed

lemma enqueue_many_adds:
  assumes "enqueue_many pg caps jids locked reg now cf warning ids create db = Inr (r, db')"
  shows "\<exists>es. enqueued r = es \<and> sched_jobs db' = sched_jobs db @ map (poll_job now) es \<and>
    distinct (map fst es) \<and> (warning \<longrightarrow> length es \<le> 1) \<and>
    (\<forall>e\<in>set es. is_read_allowed reg (fst e) \<and> active_polls (fst e) (sched_jobs db) = 0)"
proof -
  obtain xs r0 where q: "requested_sources reg ids = (xs, r0)" by fastforce
  note req = requested_sources_result [OF q]
  show ?thesis
  proof (cases "xs = []")
    case True
    with assms q req show ?thesis by (auto simp: enqueue_many_def)
  next
    case False
    let ?db1 = "if create then ensure_schedules cf now xs db else db"
    have j: "sched_jobs ?db1 = sched_jobs db" by simp
    from assms q False obtain active where a: "active_poll_source_ids (sched_jobs db) = Inr active" and
      l: "enqueue_loop pg caps jids now warning
        (filter (\<lambda>s. sched_source s \<in> set xs \<and> \<not> (pg \<and> locked (sched_source s))) (schedules ?db1))
        0 active ?db1 r0 = Inr (r, db')"
      by (simp add: enqueue_many_def Let_def j) blast
    from enqueue_loop_adds [OF l] req j active_iff_polls [OF a] show ?thesis by fastforce
  qed
qed

lemma enqueue_due_sources_adds:
  assumes "enqueue_due_sources cap caps jids locked reg now cf sid ids force create db = Inr (r, db')"
  shows "\<exists>es. enqueued r = es \<and> sched_jobs db' = sched_jobs db @ map (poll_job now) es \<and>
    distinct (map fst es) \<and> (warning_band cap \<longrightarrow> length es \<le> 1) \<and>
    (\<forall>e\<in>set es. is_read_allowed reg (fst e) \<and> active_polls (fst e) (sched_jobs db) = 0)"
proof -
  from assms consider "enqueued r = []" "db' = db"
    | s where "enqueue_single (cap \<noteq> None) caps jids reg now cf force s db = Inr (r, db')"
    | "enqueue_many (cap \<noteq> None) caps jids locked reg now cf (warning_band cap) ids create db = Inr (r, db')"
    by (cases sid) (auto simp: enqueue_due_sources_def Let_def skip_def empty_result_def split: if_splits)
  then show ?thesis
  proof cases
    case 1
    then show ?thesis by simp
  next
    case 2
    from enqueue_single_adds [OF this] show ?thesis by blast
  next
    case 3
    from enqueue_many_adds [OF this] show ?thesis by blast
  qed
qed

section \<open>Schedules survive\<close>

definition sched_wf :: "sched_db \<Rightarrow> bool" where
  "sched_wf db \<longleftrightarrow> distinct (map sched_source (schedules db))"

lemma map_source_put [simp]:
  "map sched_source (put_schedule s ss) = map sched_source ss"
  by (induction ss) (auto simp: put_schedule_def update_where_def)

lemma find_schedule_in:
  assumes "distinct (map sched_source ss)" "s \<in> set ss"
  shows "find_schedule (sched_source s) ss = Some s"
  using assms by (induction ss) (auto simp: find_schedule_def)

lemma find_schedule_SomeD:
  assumes "find_schedule sid ss = Some s"
  shows "s \<in> set ss" "sched_source s = sid"
  using assms by (auto simp: find_schedule_def find_Some_iff)

lemma find_schedule_None:
  "find_schedule sid ss = None \<longleftrightarrow> sid \<notin> sched_source ` set ss"
  by (auto simp: find_schedule_def find_None_iff)

text \<open>A row's identity, due time, cooldown and history; only the cadence may be refreshed.\<close>

definition same_schedule :: "source_schedule \<Rightarrow> source_schedule \<Rightarrow> bool" where
  "same_schedule s t \<longleftrightarrow> t = s\<lparr>cadence := cadence t\<rparr>"

lemma same_schedule_refl [simp]: "same_schedule s s"
  by (simp add: same_schedule_def)

lemma same_schedule_trans:
  assumes "same_schedule s t" "same_schedule t u"
  shows "same_schedule s u"
proof -
  from assms have "t = s\<lparr>cadence := cadence t\<rparr>" "u = t\<lparr>cadence := cadence u\<rparr>"
    by (simp_all add: same_schedule_def)
  then show ?thesis by (metis same_schedule_def source_schedule.surjective
        source_schedule.update_convs(2))
qed

lemma same_scheduleD:
  assumes "same_schedule s t"
  shows "sched_source t = sched_source s" "next_due_at t = next_due_at s"
    "cooldown_until t = cooldown_until s" "last_attempt_at t = last_attempt_at s"
  using assms
  by (metis same_schedule_def source_schedule.select_convs source_schedule.surjective
      source_schedule.update_convs(2))+

lemma get_or_create_wf:
  assumes "sched_wf db"
  shows "sched_wf (snd (get_or_create_source_schedule sid cad now db))"
  using assms
  by (auto simp: sched_wf_def get_or_create_source_schedule_def Let_def find_schedule_None
      bootstrap_schedule_def split: option.splits)

lemma get_or_create_keeps:
  assumes "sched_wf db" "s \<in> set (schedules db)"
  shows "\<exists>t\<in>set (schedules (snd (get_or_create_source_schedule sid cad now db))). same_schedule s t"
proof (cases "find_schedule sid (schedules db)")
  case None
  with assms show ?thesis by (auto simp: get_or_create_source_schedule_def Let_def intro!: bexI [of _ s])
next
  case (Some r)
  let ?r = "if cadence r \<noteq> cad then r\<lparr>cadence := cad\<rparr> else r"
  have db': "schedules (snd (get_or_create_source_schedule sid cad now db)) = put_schedule ?r (schedules db)"
    using Some by (simp add: get_or_create_source_schedule_def Let_def)
  note r = find_schedule_SomeD [OF Some]
  show ?thesis
  proof (cases "sched_source s = sid")
    case True
    with find_schedule_in [of "schedules db" s] assms Some have "s = r" by (simp add: sched_wf_def)
    with r have "?r \<in> set (put_schedule ?r (schedules db))"
      by (auto simp: put_schedule_def update_where_def)
    moreover have "same_schedule r ?r" by (simp add: same_schedule_def)
    ultimately show ?thesis using db' \<open>s = r\<close> by metis
  next
    case False
    with r assms have "s \<in> set (put_schedule ?r (schedules db))"
      by (auto simp: put_schedule_def update_where_def)
    with db' show ?thesis by (metis same_schedule_refl)
  qed
qed

lemma ensure_schedules_keeps:
  assumes "sched_wf db" "s \<in> set (schedules db)"
  shows "\<exists>t\<in>set (schedules (ensure_schedules cf now ids db)). same_schedule s t"
  using assms
proof (induction ids arbitrary: db s)
  case Nil
  then show ?case by (auto intro: bexI [of _ s])
next
  case (Cons i ids)
  let ?db = "snd (get_or_create_source_schedule i (cf i) now db)"
  from get_or_create_keeps [OF Cons.prems] obtain t where
    t: "t \<in> set (schedules ?db)" "same_schedule s t" by blast
  from Cons.IH [OF get_or_create_wf [OF Cons.prems(1)] t(1)] t(2) show ?case
    using same_schedule_trans by auto
qed

section \<open>The catch-up wave\<close>

lemma enqueue_wave_adds:
  assumes "enqueue_wave caps jids now sids k db = Inr (es, db')"
  shows "map fst es = sids \<and> sched_jobs db' = sched_jobs db @ map (poll_job now) es"
  using assms
proof (induction sids arbitrary: k db es)
  case Nil
  then show ?case by simp
next
  case (Cons sid sids)
  from Cons.prems obtain s db1 es1 where
    s: "find_schedule sid (schedules db) = Some s" and
    p: "enqueue_poll True (caps k) (jids k) now s db = Inr db1" and
    w: "enqueue_wave caps jids now sids (Suc k) db1 = Inr (es1, db')" and
    es: "es = (sid, jids k) # es1"
    by (auto split: option.splits sum.splits prod.splits)
  from Cons.IH [OF w] enqueue_poll_Inr(1) [OF p] find_schedule_SomeD(2) [OF s] es
  show ?case by simp
qed

lemma check_wave_ok:
  assumes "check_wave reg selected frozen manifest = Inr u"
  shows "1 \<le> length selected \<and> length selected \<le> 5 \<and> distinct selected \<and>
    (\<forall>s\<in>set selected. is_read_allowed reg s)"
  using assms
  by (auto simp: check_wave_def OVERNIGHT_CATCHUP_MAX_SOURCES_def list_ex_iff split: if_splits)

lemma check_schedules_ok:
  assumes "check_schedules frozen now sids ss = Inr u" "sid \<in> set sids"
  shows "\<exists>s. find_schedule sid ss = Some s \<and> \<not> is_cooling now s \<and> (frozen \<or> next_due_at s \<le> now)"
  using assms by (induction sids) (auto split: option.splits if_splits)

section \<open>Concrete data\<close>

definition demo_cap :: capacity_snapshot where
  "demo_cap = inspect_connection 1048576 False False"

definition demo_sched :: source_schedule where
  "demo_sched = \<lparr>sched_source = ''a'', cadence = 5, last_attempt_at = None, last_success_at = None,
     next_due_at = 3, cooldown_until = None, consecutive_failures = 0, last_status = None,
     sched_updated_at = 0\<rparr>"

definition demo_db :: sched_db where
  "demo_db = \<lparr>sched_jobs = [], schedules = [demo_sched], poll_runs = []\<rparr>"

definition demo_polled :: sched_db where
  "demo_polled = \<lparr>sched_jobs = [poll_job 10 (''a'', ''j0'')],
     schedules = [demo_sched\<lparr>last_attempt_at := Some 10, next_due_at := 15, sched_updated_at := 10\<rparr>],
     poll_runs = []\<rparr>"

definition demo_warn :: capacity_snapshot where
  "demo_warn = inspect_connection (360 * 1024 * 1024) False False"

definition demo_full :: capacity_snapshot where
  "demo_full = inspect_connection (410 * 1024 * 1024) False False"

lemmas demo_defs = demo_cap_def demo_warn_def demo_full_def demo_sched_def demo_db_def demo_polled_def
  inspect_connection_def threshold_defs

lemmas tick_defs = enqueue_due_sources_def enqueue_many_def requested_sources_def
  get_or_create_source_schedule_def find_schedule_def put_schedule_def update_where_def
  empty_result_def skip_def is_read_allowed_def is_cooling_def enqueue_poll_def enqueue_job_def
  poll_job_def poll_payload_def warning_band_def pauses_heavy_work_def
  assert_heavy_work_allowed_def

lemma demo_tick:
  "enqueue_due_sources (Some demo_cap) (\<lambda>_. demo_cap) (\<lambda>_. ''j0'') (\<lambda>_. False) [(''a'', True)] 10
     (\<lambda>_. 5) None None False True demo_db
   = Inr (\<lparr>enqueued = [(''a'', ''j0'')], skipped = []\<rparr>, demo_polled)"
  by (simp add: tick_defs demo_defs Let_def List.map_filter_simps)

lemma demo_warn_tick:
  "enqueue_due_sources (Some demo_warn) (\<lambda>_. demo_warn) (\<lambda>_. ''j0'') (\<lambda>_. False) [(''a'', True)] 10
     (\<lambda>_. 5) None None False True demo_db
   = Inr (\<lparr>enqueued = [(''a'', ''j0'')], skipped = []\<rparr>, demo_polled)"
  by (simp add: tick_defs demo_defs Let_def List.map_filter_simps)

section \<open>The scheduler's promises\<close>

text \<open>C14: one poll at a time. Whatever the request (one source, a bounded list or the whole
  registry, forced or not), a successful enqueue adds exactly one active poll for each source it
  reports and none for any other, and it reports a source only when the registry lets it be read
  and no poll of it was pending, waiting for a retry or running.\<close>

theorem no_duplicate_polls:
  assumes "enqueue_due_sources cap caps jids locked reg now cf source_id source_ids force create db = Inr (r, db')"
    and "sid \<noteq> []"
  shows "active_polls sid (sched_jobs db') =
      active_polls sid (sched_jobs db) + (if sid \<in> fst ` set (enqueued r) then 1 else 0) \<and>
    (sid \<in> fst ` set (enqueued r) \<longrightarrow> is_read_allowed reg sid \<and> active_polls sid (sched_jobs db) = 0)"
proof -
  from enqueue_due_sources_adds [OF assms(1)] have
    jobs: "sched_jobs db' = sched_jobs db @ map (poll_job now) (enqueued r)" and
    d: "distinct (map fst (enqueued r))" and
    e: "\<forall>e\<in>set (enqueued r). is_read_allowed reg (fst e) \<and>
      active_polls (fst e) (sched_jobs db) = 0" by auto
  from active_polls_new [OF d assms(2)] jobs e show ?thesis by auto
qed

theorem no_duplicate_polls_witness:
  "active_polls ''a'' (sched_jobs demo_polled) = active_polls ''a'' (sched_jobs demo_db) + 1 \<and>
   active_polls ''a'' (sched_jobs demo_db) = 0"
  using no_duplicate_polls [OF demo_tick, of "''a''"] by simp

text \<open>the warning band. From 350 MiB of database size on, one request adds at most one poll,
  and it adds one only when no poll of any source is pending, waiting or running.\<close>

theorem warning_band_one_poll:
  assumes "enqueue_due_sources (Some c) caps jids locked reg now cf source_id source_ids force create db
      = Inr (r, db')"
    and "database_size_bytes c \<ge> 350 * 1024 * 1024"
  shows "length (enqueued r) \<le> 1 \<and>
    length (sched_jobs db') = length (sched_jobs db) + length (enqueued r) \<and>
    (enqueued r \<noteq> [] \<longrightarrow> (\<forall>sid. active_polls sid (sched_jobs db) = 0))"
proof -
  have w: "warning_band (Some c)" using assms(2) by (simp add: warning_band_def threshold_defs)
  from enqueue_due_sources_adds [OF assms(1)] w have
    l: "length (enqueued r) \<le> 1" "sched_jobs db' = sched_jobs db @ map (poll_job now) (enqueued r)" by auto
  have "active_poll_source_ids (sched_jobs db) = Inr []" if "enqueued r \<noteq> []"
    using assms(1) w that
    by (auto simp: enqueue_due_sources_def Let_def skip_def empty_result_def split: if_splits)
  then have "active_polls sid (sched_jobs db) = 0" if "enqueued r \<noteq> []" for sid
    using that active_iff_polls [of "sched_jobs db" "[]" sid] by auto
  with l show ?thesis by simp
qed

theorem warning_band_one_poll_witness:
  "length (sched_jobs demo_polled) = length (sched_jobs demo_db) + 1 \<and>
   active_polls ''zz'' (sched_jobs demo_db) = 0"
  using warning_band_one_poll [OF demo_warn_tick] by (simp add: demo_defs)

text \<open>a tick under a capacity pause (400 MiB, read-only, in recovery) enqueues no poll and
  touches no schedule; the one thing it may still add is the daily \<open>reverify_stale\<close> job, which is
  not heavy work, when that is due.\<close>

theorem paused_tick_adds_no_poll:
  assumes "pauses_heavy_work c"
  shows "scheduler_run_once (Some c) caps jids rjid locked reg now cf create db =
    (Inr [],
     if reverify_is_due now (sched_jobs db)
     then db\<lparr>sched_jobs := sched_jobs db @ [new_job rjid ''reverify_stale'' (JObj []) (Some now) now 3]\<rparr>
     else db)"
proof -
  have "\<exists>r. enqueued r = [] \<and>
      enqueue_due_sources (Some c) caps jids locked reg now cf None None False create db = Inr (r, db)"
    using assms(1) by (simp add: enqueue_due_sources_def skip_def empty_result_def)
  then show ?thesis
    by (auto simp: scheduler_run_once_def enqueue_job_def HEAVY_JOB_TYPES_def Let_def)
qed

theorem paused_tick_adds_no_poll_witness:
  "schedules (snd (scheduler_run_once (Some demo_full) (\<lambda>_. demo_full) (\<lambda>_. ''j'') ''r'' (\<lambda>_. False)
     [(''a'', True)] 10 (\<lambda>_. 5) True demo_db)) = [demo_sched]"
  using paused_tick_adds_no_poll [of demo_full "\<lambda>_. demo_full"]
  by (simp add: demo_defs pauses_heavy_work_def)

text \<open>C31: no due source is forgotten. Below the warning band and outside a pause, after a full
  tick's enqueue every source whose schedule was due and not cooling, which the registry lets be
  read and no other session has locked, has an active poll.\<close>

theorem due_sources_are_polled:
  assumes "enqueue_due_sources cap caps jids locked reg now cf None None force create db = Inr (r, db')"
    and "\<not> warning_band cap" "distinct (map sched_source (schedules db))"
    and "\<forall>c. cap = Some c \<longrightarrow> \<not> pauses_heavy_work c"
    and "s \<in> set (schedules db)" "next_due_at s \<le> now" "\<not> is_cooling now s"
    and "is_read_allowed reg (sched_source s)" "\<not> locked (sched_source s)" "sched_source s \<noteq> []"
  shows "active_polls (sched_source s) (sched_jobs db') > 0"
proof -
  let ?ra = "filter (is_read_allowed reg) (map fst reg)"
  let ?db1 = "if create then ensure_schedules cf now ?ra db else db"
  let ?pg = "cap \<noteq> None"
  have ra: "sched_source s \<in> set ?ra" using assms(8)
    by (auto simp: is_read_allowed_def split: option.splits dest!: map_of_SomeD intro: rev_image_eqI)
  from assms(3,5) ensure_schedules_keeps [of db s cf now ?ra] obtain t where
    t: "t \<in> set (schedules ?db1)" "same_schedule s t"
    by (cases create) (auto simp: sched_wf_def intro: bexI [of _ s])
  note ts = same_scheduleD [OF t(2)]
  have "\<exists>r0 active. active_poll_source_ids (sched_jobs ?db1) = Inr active \<and>
      enqueue_loop ?pg caps jids now False
        (filter (\<lambda>s. sched_source s \<in> set ?ra \<and> \<not> (?pg \<and> locked (sched_source s))) (schedules ?db1))
        0 active ?db1 r0 = Inr (r, db')"
  proof -
    have "?ra \<noteq> []" using ra by (metis empty_iff list.set(1))
    moreover have "\<not> (case cap of Some c \<Rightarrow> pauses_heavy_work c | None \<Rightarrow> False)"
      using assms(4) by (auto split: option.splits)
    ultimately show ?thesis
      using assms(1,2)
      by (simp only: enqueue_due_sources_def enqueue_many_def requested_sources_def Let_def
          option.case prod.case if_False simp_thms bind_simps bind_Inr_iff) blast
  qed
  then obtain r0 active where a: "active_poll_source_ids (sched_jobs ?db1) = Inr active"
    and l: "enqueue_loop ?pg caps jids now False
        (filter (\<lambda>s. sched_source s \<in> set ?ra \<and> \<not> (?pg \<and> locked (sched_source s))) (schedules ?db1))
        0 active ?db1 r0 = Inr (r, db')" by blast
  have tin: "t \<in> set (filter (\<lambda>s. sched_source s \<in> set ?ra \<and> \<not> (?pg \<and> locked (sched_source s)))
      (schedules ?db1))" using t(1) ra ts assms(9) by simp
  have "sched_jobs ?db1 = sched_jobs db" by simp
  with enqueue_loop_serves [OF l tin] ts assms(6,7) active_iff_polls [OF a, of "sched_source s"]
  have *: "active_polls (sched_source s) (sched_jobs db) \<noteq> 0 \<or>
      sched_source s \<in> fst ` set (enqueued r)" by (simp add: is_cooling_def)
  from enqueue_due_sources_adds [OF assms(1)] have
    jobs: "sched_jobs db' = sched_jobs db @ map (poll_job now) (enqueued r)" and
    d: "distinct (map fst (enqueued r))" by auto
  from * active_polls_new [OF d assms(10), of now] jobs show ?thesis by auto
qed

theorem due_sources_are_polled_witness: "active_polls ''a'' (sched_jobs demo_polled) > 0"
  using due_sources_are_polled [OF demo_tick, of demo_sched]
  by (simp add: demo_defs warning_band_def pauses_heavy_work_def is_cooling_def is_read_allowed_def)

text \<open>a restart is not a fresh start. Bringing the schedules of any list of sources up to date
  keeps every existing row with its due time, cooldown and attempt history; at most its cadence is
  refreshed.\<close>

theorem schedules_survive_restart:
  assumes "distinct (map sched_source (schedules db))" "s \<in> set (schedules db)"
  shows "\<exists>t\<in>set (schedules (ensure_schedules cf now ids db)).
    sched_source t = sched_source s \<and> next_due_at t = next_due_at s \<and>
    cooldown_until t = cooldown_until s \<and> last_attempt_at t = last_attempt_at s"
  using ensure_schedules_keeps [of db s cf now ids] assms same_scheduleD
  by (fastforce simp: sched_wf_def)

theorem schedules_survive_restart_witness:
  "\<exists>t\<in>set (schedules (ensure_schedules (\<lambda>_. 7) 99 [''a'', ''b''] demo_db)). next_due_at t = 3"
  using schedules_survive_restart [of demo_db demo_sched "\<lambda>_. 7" 99 "[''a'', ''b'']"]
  by (auto simp: demo_db_def demo_sched_def)

text \<open>the catch-up wave is all or nothing. If it succeeds, it enqueues exactly the selected
  one to five distinct readable sources, in order, on a database below 390 MiB whose runnable queue
  was empty, and each of them had a schedule that was not cooling; if it raises, the database is
  as before.\<close>

theorem catchup_all_or_nothing:
  assumes "enqueue_due_catchup_sources pg cap1 cap2 caps jids reg now frozen manifest selected db = (res, db')"
  shows "case res of
      Inl e \<Rightarrow> db' = db
    | Inr es \<Rightarrow> map fst es = selected \<and> length selected \<in> {1..5} \<and> distinct selected \<and>
        sched_jobs db' = sched_jobs db @ map (poll_job now) es \<and>
        (\<forall>j\<in>set (sched_jobs db). \<not> is_active j) \<and> pg \<and>
        database_size_bytes cap2 < 390 * 1024 * 1024 \<and>
        (\<forall>sid\<in>set selected. is_read_allowed reg sid \<and>
           (\<exists>s. find_schedule sid (schedules db) = Some s \<and> \<not> is_cooling now s \<and>
              (frozen = None \<longrightarrow> next_due_at s \<le> now)))"
proof (cases res)
  case (Inl e)
  with assms show ?thesis
    by (auto simp: enqueue_due_catchup_sources_def split: sum.splits if_splits prod.splits)
next
  case (Inr es)
  with assms have
    c: "check_wave reg selected frozen manifest = Inr ()" and
    s: "check_schedules (frozen \<noteq> None) now selected (schedules db) = Inr ()" and
    w: "enqueue_wave caps jids now selected 0 db = Inr (es, db')" and
    g: "pg" "\<not> list_ex is_active (sched_jobs db)" "controlled_catchup_capacity_allowed (Some cap2)"
    by (auto simp: enqueue_due_catchup_sources_def split: sum.splits if_splits prod.splits)
  have "\<exists>s. find_schedule sid (schedules db) = Some s \<and> \<not> is_cooling now s \<and>
      (frozen = None \<longrightarrow> next_due_at s \<le> now)" if "sid \<in> set selected" for sid
    using check_schedules_ok [OF s that] by auto
  with check_wave_ok [OF c] enqueue_wave_adds [OF w] g Inr
  show ?thesis
    by (simp add: controlled_catchup_capacity_allowed_def OVERNIGHT_CATCHUP_CEILING_BYTES_def
        list_ex_iff)
qed

lemma demo_wave:
  "enqueue_due_catchup_sources True demo_cap demo_cap (\<lambda>_. demo_cap) (\<lambda>_. ''j0'') [(''a'', True)] 10
     None None [''a''] demo_db = (Inr [(''a'', ''j0'')], demo_polled)"
  by (simp add: enqueue_due_catchup_sources_def check_wave_def OVERNIGHT_CATCHUP_MAX_SOURCES_def
      OVERNIGHT_CATCHUP_CEILING_BYTES_def controlled_catchup_capacity_allowed_def tick_defs demo_defs Let_def)

theorem catchup_all_or_nothing_witness:
  "sched_jobs demo_polled = sched_jobs demo_db @ [poll_job 10 (''a'', ''j0'')]"
  using catchup_all_or_nothing [OF demo_wave] by simp

end
