(* ===== verification/Outbound_Models.thy ===== *)
theory Outbound_Models
  imports Json
begin

text \<open>
  The data of \<open>outbound/models.py\<close>: the enumerations with their wire values, and the frozen
  dataclasses with the checks of their \<open>__post_init__\<close> methods as fallible constructors.

  \<open>hashlib.sha256(...).hexdigest()\<close> is an argument \<open>sha\<close> of the definitions that use it;
  \<open>datetime.now(...)\<close> is an argument \<open>now\<close>. A value of type \<open>Any\<close> that the code only
  passes on or renders with \<open>str\<close> is kept as that text.
\<close>

section \<open>Enumerations\<close>

datatype ExecutionMode = DRY_RUN | ASSISTED | CONTROLLED_SUBMIT

datatype ActionStatus =
  PLANNED | PREPARED | AWAITING_REVIEW | SUBMITTING | SUBMITTED | UNDONE | CONFIRMED
  | FAILED | UNKNOWN_OUTCOME | BLOCKED

datatype AdapterLifecycleState =
  EXPERIMENTAL | SHADOW_TESTED | PROPOSED | DEVELOPED | TESTED_OFFLINE | SHADOW_RUN_PASSING
  | ASSISTED_VERIFIED | SUBMIT_ELIGIBLE | SUBMIT_ENABLED | DEPRECATED

datatype SourceActionPolicy =
  PROHIBITED | MANUAL_ONLY | DISCOVERY_ALLOWED | PREPARE_ALLOWED | BROWSER_FILL_ALLOWED
  | SUBMIT_ALLOWED | API_ACTION_ALLOWED

datatype FieldOntologyType =
  IDENTITY | CONTACT | ADDRESS_LOCATION | EDUCATION | EMPLOYMENT_HISTORY | LINKS | RESUME_CV
  | COVER_LETTER_FIELD | ATTACHMENT | WORK_AUTHORIZATION | SPONSORSHIP | AVAILABILITY
  | COMPENSATION | LOCATION_PREFERENCE | TRAVEL | RELOCATION | DEMOGRAPHIC_VOLUNTARY
  | CUSTOM_NARRATIVE | LEGAL_DECLARATION | SECURITY_CLEARANCE | CONFLICT_OF_INTEREST
  | OTHER_UNKNOWN

datatype AnswerClass = GREEN | YELLOW | RED

datatype ActionAuthorityDecision =
  ALLOW_PREPARE | ALLOW_FILL | ALLOW_SUBMIT | PAUSE_FOR_REVIEW | BLOCK

datatype QualificationDecision = QUALIFIED | INELIGIBLE | UNCERTAIN

datatype Track = EMPLOYMENT | CONTRACT | FREELANCE | PROCUREMENT | TUTORING

datatype ArtifactType =
  TAILORED_CV | APPLICATION_NARRATIVE | COVER_LETTER | FREELANCE_PROPOSAL
  | CAPABILITY_STATEMENT | EOI_RESPONSE | RFP_RESPONSE_SCAFFOLD

text \<open>Wire values (\<open>.value\<close>), and the reverse lookup an \<open>Enum\<close> call makes.\<close>

fun mode_value :: "ExecutionMode \<Rightarrow> string" where
  "mode_value DRY_RUN = ''dry_run''"
| "mode_value ASSISTED = ''assisted''"
| "mode_value CONTROLLED_SUBMIT = ''controlled_submit''"

fun status_value :: "ActionStatus \<Rightarrow> string" where
  "status_value PLANNED = ''planned''"
| "status_value PREPARED = ''prepared''"
| "status_value AWAITING_REVIEW = ''awaiting_review''"
| "status_value SUBMITTING = ''submitting''"
| "status_value SUBMITTED = ''submitted''"
| "status_value UNDONE = ''undone''"
| "status_value CONFIRMED = ''confirmed''"
| "status_value FAILED = ''failed''"
| "status_value UNKNOWN_OUTCOME = ''unknown_outcome''"
| "status_value BLOCKED = ''blocked''"

fun policy_value :: "SourceActionPolicy \<Rightarrow> string" where
  "policy_value PROHIBITED = ''prohibited''"
| "policy_value MANUAL_ONLY = ''manual_only''"
| "policy_value DISCOVERY_ALLOWED = ''discovery_allowed''"
| "policy_value PREPARE_ALLOWED = ''prepare_allowed''"
| "policy_value BROWSER_FILL_ALLOWED = ''browser_fill_allowed''"
| "policy_value SUBMIT_ALLOWED = ''submit_allowed''"
| "policy_value API_ACTION_ALLOWED = ''api_action_allowed''"

fun field_value :: "FieldOntologyType \<Rightarrow> string" where
  "field_value IDENTITY = ''identity''"
| "field_value CONTACT = ''contact''"
| "field_value ADDRESS_LOCATION = ''address_location''"
| "field_value EDUCATION = ''education''"
| "field_value EMPLOYMENT_HISTORY = ''employment''"
| "field_value LINKS = ''links''"
| "field_value RESUME_CV = ''resume_cv''"
| "field_value COVER_LETTER_FIELD = ''cover_letter''"
| "field_value ATTACHMENT = ''attachment''"
| "field_value WORK_AUTHORIZATION = ''work_authorization''"
| "field_value SPONSORSHIP = ''sponsorship''"
| "field_value AVAILABILITY = ''availability''"
| "field_value COMPENSATION = ''compensation''"
| "field_value LOCATION_PREFERENCE = ''location_preference''"
| "field_value TRAVEL = ''travel''"
| "field_value RELOCATION = ''relocation''"
| "field_value DEMOGRAPHIC_VOLUNTARY = ''demographic_voluntary''"
| "field_value CUSTOM_NARRATIVE = ''custom_narrative''"
| "field_value LEGAL_DECLARATION = ''legal_declaration''"
| "field_value SECURITY_CLEARANCE = ''security_clearance''"
| "field_value CONFLICT_OF_INTEREST = ''conflict_of_interest''"
| "field_value OTHER_UNKNOWN = ''other_unknown''"

fun class_value :: "AnswerClass \<Rightarrow> string" where
  "class_value GREEN = ''green''"
| "class_value YELLOW = ''yellow''"
| "class_value RED = ''red''"

fun qualification_value :: "QualificationDecision \<Rightarrow> string" where
  "qualification_value QUALIFIED = ''qualified''"
| "qualification_value INELIGIBLE = ''ineligible''"
| "qualification_value UNCERTAIN = ''uncertain''"

fun track_value :: "Track \<Rightarrow> string" where
  "track_value EMPLOYMENT = ''employment''"
| "track_value CONTRACT = ''contract''"
| "track_value FREELANCE = ''freelance''"
| "track_value PROCUREMENT = ''procurement''"
| "track_value TUTORING = ''tutoring''"

fun artifact_type_value :: "ArtifactType \<Rightarrow> string" where
  "artifact_type_value TAILORED_CV = ''tailored_cv''"
| "artifact_type_value APPLICATION_NARRATIVE = ''application_narrative''"
| "artifact_type_value COVER_LETTER = ''cover_letter''"
| "artifact_type_value FREELANCE_PROPOSAL = ''freelance_proposal''"
| "artifact_type_value CAPABILITY_STATEMENT = ''capability_statement''"
| "artifact_type_value EOI_RESPONSE = ''eoi_response''"
| "artifact_type_value RFP_RESPONSE_SCAFFOLD = ''rfp_response_scaffold''"

definition enum_of :: "('a \<Rightarrow> string) \<Rightarrow> 'a list \<Rightarrow> string \<Rightarrow> 'a result" where
  "enum_of val members s =
     (case find (\<lambda>m. val m = s) members of
        Some m \<Rightarrow> Inr m
      | None \<Rightarrow> Inl (ValueError (quoted s @ '' is not a valid member'')))"

definition mode_of :: "string \<Rightarrow> ExecutionMode result" where
  "mode_of = enum_of mode_value [DRY_RUN, ASSISTED, CONTROLLED_SUBMIT]"

definition status_of :: "string \<Rightarrow> ActionStatus result" where
  "status_of = enum_of status_value [PLANNED, PREPARED, AWAITING_REVIEW, SUBMITTING, SUBMITTED,
     UNDONE, CONFIRMED, FAILED, UNKNOWN_OUTCOME, BLOCKED]"

definition qualification_of :: "string \<Rightarrow> QualificationDecision result" where
  "qualification_of = enum_of qualification_value [QUALIFIED, INELIGIBLE, UNCERTAIN]"

definition track_of :: "string \<Rightarrow> Track result" where
  "track_of = enum_of track_value [EMPLOYMENT, CONTRACT, FREELANCE, PROCUREMENT, TUTORING]"

lemma enum_of_value [simp]:
  "mode_of (mode_value m) = Inr m"
  "status_of (status_value s) = Inr s"
  "qualification_of (qualification_value q) = Inr q"
  "track_of (track_value t) = Inr t"
  subgoal by (cases m) (simp_all add: mode_of_def enum_of_def)
  subgoal by (cases s) (simp_all add: status_of_def enum_of_def)
  subgoal by (cases q) (simp_all add: qualification_of_def enum_of_def)
  subgoal by (cases t) (simp_all add: track_of_def enum_of_def)
  done

lemma status_value_inj [simp]: "status_value s = status_value t \<longleftrightarrow> s = t"
  by (metis enum_of_value(2) sum.inject(2))

section \<open>Opportunities, artifacts, assertions and policy\<close>

text \<open>What outbound code reads of \<open>Opportunity\<close>.\<close>

record opportunity =
  opp_id :: string
  opp_track :: Track
  opp_source :: string
  content_hash :: string

text \<open>
  \<open>TailoredArtifact\<close>: the fields outbound code reads, and one document for those it only
  hands to the claim validator (sections, claims, commitments, versions).
\<close>

record tailored_artifact =
  artifact_id :: string
  artifact_type :: ArtifactType
  art_opportunity_id :: string
  art_content_hash :: string
  artifact_hash :: string
  art_body :: json

record bound_artifact =
  artifact :: tailored_artifact
  bound_candidate :: string
  bound_workspace :: string

definition BoundArtifact :: "tailored_artifact \<Rightarrow> string \<Rightarrow> string \<Rightarrow> bound_artifact result" where
  "BoundArtifact a cand ws =
     (if cand = [] \<or> py_strip cand = []
      then Inl (ValueError ''BoundArtifact requires explicit non-empty candidate_id'')
      else if ws = [] \<or> py_strip ws = []
      then Inl (ValueError ''BoundArtifact requires explicit non-empty workspace'')
      else Inr \<lparr>artifact = a, bound_candidate = cand, bound_workspace = ws\<rparr>)"

text \<open>\<open>Union[TailoredArtifact, BoundArtifact]\<close>.\<close>

datatype any_artifact = Raw tailored_artifact | Bound bound_artifact

fun inner_artifact :: "any_artifact \<Rightarrow> tailored_artifact" where
  "inner_artifact (Raw a) = a"
| "inner_artifact (Bound b) = artifact b"

datatype VerificationStatus = VERIFIED | APPROXIMATE | UNVERIFIED | EXPLICIT_NULL
datatype Polarity = POSITIVE | NEGATIVE

text \<open>An atomic assertion as the answer engine reads it; \<open>assertion_value\<close> is \<open>str(value)\<close>.\<close>

record atomic_assertion =
  assertion_id :: string
  predicate :: string
  assertion_value :: string
  verification_status :: VerificationStatus
  polarity :: Polarity

type_synonym truth_graph = "atomic_assertion list"

text \<open>The fields of \<open>TailoringPolicy\<close> outbound code reads; a rate is the text \<open>str\<close> gives it.\<close>

record tailoring_policy =
  policy_version :: string
  default_hourly_rate :: "string option"
  default_daily_rate :: "string option"
  default_currency :: "string option"
  default_notice_period_days :: "int option"
  default_sponsorship_required :: "bool option"

definition TailoringPolicy :: tailoring_policy where
  "TailoringPolicy = \<lparr>policy_version = ''1.0.0'', default_hourly_rate = None,
     default_daily_rate = None, default_currency = None, default_notice_period_days = None,
     default_sponsorship_required = None\<rparr>"

section \<open>Answers\<close>

record application_answer =
  ans_opportunity_id :: string
  ans_content_hash :: string
  ans_action_id :: string
  field_type :: FieldOntologyType
  original_label :: string
  normalized_question :: string
  answer :: "string option"
  answer_class :: AnswerClass
  answer_source :: string
  assertion_ids :: "string list"
  policy_source :: string
  generated_claim_ids :: "string list"
  ans_artifact_ids :: "string list"
  confidence :: real
  timestamp :: string
  disposition :: string

text \<open>\<open>ApplicationAnswer.__post_init__\<close> on a candidate record.\<close>

definition answer_post_init :: "string \<Rightarrow> application_answer \<Rightarrow> application_answer result" where
  "answer_post_init now a =
     (if ans_opportunity_id a = [] then Inl (ValueError ''opportunity_id is required'')
      else if ans_action_id a = [] then Inl (ValueError ''action_id is required'')
      else
        (let b = (if timestamp a = [] then a\<lparr>timestamp := now\<rparr> else a) in
         case answer_class a of
           GREEN \<Rightarrow>
             if assertion_ids a = [] \<or> \<not> prefix ''truth_graph:'' (answer_source a)
             then Inl (ValueError ''Green answers must have atomic assertion_ids and truth_graph source'')
             else if answer a = None then Inl (ValueError ''Green answers cannot have answer=None'')
             else Inr b
         | YELLOW \<Rightarrow>
             if policy_source a = [] then Inl (ValueError ''Yellow answers must specify policy_source'')
             else if answer a = None then Inl (ValueError ''Yellow answers cannot have answer=None'')
             else Inr b
         | RED \<Rightarrow>
             if answer a \<noteq> None \<and> disposition a = ''auto_fill''
             then Inl (ValueError ''Red answers cannot be auto_filled without explicit review/override'')
             else Inr b))"

text \<open>What every constructed answer satisfies.\<close>

definition answer_ok :: "application_answer \<Rightarrow> bool" where
  "answer_ok a \<longleftrightarrow>
     (case answer_class a of
        GREEN \<Rightarrow> assertion_ids a \<noteq> [] \<and> prefix ''truth_graph:'' (answer_source a) \<and> answer a \<noteq> None
      | YELLOW \<Rightarrow> policy_source a \<noteq> [] \<and> answer a \<noteq> None
      | RED \<Rightarrow> answer a = None \<or> disposition a \<noteq> ''auto_fill'')"

lemma answer_post_init_Inr:
  assumes "answer_post_init now a = Inr b"
  shows "answer_ok b" and "\<exists>t. b = a\<lparr>timestamp := t\<rparr>" and "ans_opportunity_id a \<noteq> []" "ans_action_id a \<noteq> []"
proof -
  let ?b = "if timestamp a = [] then a\<lparr>timestamp := now\<rparr> else a"
  have b: "b = ?b"
    using assms by (simp add: answer_post_init_def Let_def split: if_split_asm AnswerClass.split_asm)
  have ok: "answer_ok a"
    using assms
    by (simp add: answer_post_init_def answer_ok_def Let_def split: if_split_asm AnswerClass.split_asm)
  then show "answer_ok b"
    by (cases "answer_class a") (simp_all add: b answer_ok_def)
  show "\<exists>t. b = a\<lparr>timestamp := t\<rparr>"
  proof (cases "timestamp a = []")
    case True
    with b show ?thesis by auto
  next
    case False
    with b show ?thesis by (intro exI [of _ "timestamp a"]) simp
  qed
  show "ans_opportunity_id a \<noteq> []" "ans_action_id a \<noteq> []"
    using assms by (simp_all add: answer_post_init_def split: if_split_asm)
qed

record detected_field =
  field_id :: string
  fld_name :: string
  html_type :: string
  label :: string
  normalized_label :: string
  ontology_type :: FieldOntologyType
  required :: bool
  options :: "string list"
  step_index :: nat
  sensitivity_class :: AnswerClass

section \<open>Graduation, manifests, evidence and ledger records\<close>

record graduation_record =
  adapter_id :: string
  grad_version :: string
  lifecycle_state :: AdapterLifecycleState
  source_compatibility :: "string list"
  evidence_hash :: string
  verified_at :: string
  submit_enabled_by_founder :: bool

record pre_submit_manifest =
  pm_workspace :: string
  pm_candidate :: string
  pm_opportunity :: string
  pm_content_hash :: string
  pm_action_type :: string
  pm_adapter :: string
  pm_adapter_version :: string
  graduation_record_version :: string
  source_policy_version :: string
  pm_artifact_ids :: "string list"
  pm_artifact_hashes :: "string list"
  pm_answers :: "application_answer list"
  answers_hash :: string
  pm_qualification :: QualificationDecision
  unresolved_mandatory_count :: nat
  red_answers_count :: nat
  pm_idempotency_key :: string
  graduation_evidence_hash :: string
  tailoring_policy_version :: string
  compiled_at :: string
  manifest_hash :: string

text \<open>
  The document whose digest is the manifest hash, with its keys in sorted order. The answers
  enter through their own hash, the compilation time not at all.
\<close>

definition manifest_data :: "pre_submit_manifest \<Rightarrow> json" where
  "manifest_data m = JObj [
     (''action_type'', JStr (pm_action_type m)),
     (''adapter_name'', JStr (pm_adapter m)),
     (''adapter_version'', JStr (pm_adapter_version m)),
     (''answers_hash'', JStr (answers_hash m)),
     (''artifact_hashes'', JArr (map JStr (pm_artifact_hashes m))),
     (''artifact_ids'', JArr (map JStr (pm_artifact_ids m))),
     (''candidate_id'', JStr (pm_candidate m)),
     (''graduation_evidence_hash'', JStr (graduation_evidence_hash m)),
     (''graduation_record_version'', JStr (graduation_record_version m)),
     (''idempotency_key'', JStr (pm_idempotency_key m)),
     (''opportunity_content_hash'', JStr (pm_content_hash m)),
     (''opportunity_id'', JStr (pm_opportunity m)),
     (''qualification_decision'', JStr (qualification_value (pm_qualification m))),
     (''red_answers_count'', JInt (int (red_answers_count m))),
     (''source_policy_version'', JStr (source_policy_version m)),
     (''tailoring_policy_version'', JStr (tailoring_policy_version m)),
     (''unresolved_mandatory_count'', JInt (int (unresolved_mandatory_count m))),
     (''workspace'', JStr (pm_workspace m))]"

text \<open>\<open>PreSubmitManifest.__post_init__\<close>; \<open>digest\<close> is SHA-256 of the dumped document.\<close>

definition manifest_post_init ::
  "(json \<Rightarrow> string) \<Rightarrow> string \<Rightarrow> pre_submit_manifest \<Rightarrow> pre_submit_manifest" where
  "manifest_post_init digest now m =
     (let m1 = (if compiled_at m = [] then m\<lparr>compiled_at := now\<rparr> else m)
      in if manifest_hash m1 = [] then m1\<lparr>manifest_hash := digest (manifest_data m1)\<rparr> else m1)"

record confirmation_evidence =
  confirmed :: bool
  confirmation_text :: string
  application_id :: string
  receipt_reference :: string
  final_url :: string
  detected_at :: string
  evidence_checksum :: string

definition evidence_post_init :: "(string \<Rightarrow> string) \<Rightarrow> confirmation_evidence \<Rightarrow> confirmation_evidence" where
  "evidence_post_init sha e =
     (if confirmed e \<and> evidence_checksum e = []
      then e\<lparr>evidence_checksum := sha (py_join '':'' [confirmation_text e, application_id e,
              receipt_reference e, final_url e])\<rparr>
      else e)"

record outbound_action_record =
  action_id :: string
  oa_opportunity_id :: string
  oa_content_hash :: string
  oa_workspace :: string
  oa_candidate_id :: string
  oa_track :: Track
  oa_source :: string
  adapter_name :: string
  adapter_version :: string
  execution_mode :: ExecutionMode
  qualification_decision :: QualificationDecision
  match_score_snapshot :: real
  oa_artifact_ids :: "string list"
  oa_artifact_hashes :: "string list"
  oa_manifest_hash :: string
  action_status :: ActionStatus
  idempotency_key :: string
  created_at :: string
  updated_at :: string
  oa_evidence :: "confirmation_evidence option"
  blocker_reason :: string
  manual_edits :: "string list"
  external_reference_id :: string

end
