(* ===== verification/Ontology.thy ===== *)
theory Ontology
  imports Outbound_Models
begin

text \<open>
  \<open>outbound/ontology.py\<close>: label normalisation and the ordered keyword rules that place a
  form field in the ontology and give it a sensitivity class.
\<close>

section \<open>Normalisation\<close>

text \<open>\<open>re.sub(r"[^a-zA-Z0-9\s]", " ", label.lower())\<close>, then \<open>" ".join(norm.split())\<close>.\<close>

definition blank_other :: "char \<Rightarrow> char" where
  "blank_other c = (if py_isalnum c \<or> py_isspace c then c else CHR '' '')"

definition normalize_label :: "string \<Rightarrow> string" where
  "normalize_label l = py_join '' '' (py_words (map blank_other (py_lower l)))"

section \<open>Classification\<close>

text \<open>The branches after the attachment test, in the order of the code.\<close>

definition classification_rules :: "(string list \<times> FieldOntologyType \<times> AnswerClass) list" where
  "classification_rules = [
     ([''first name'', ''given name'', ''forename'', ''last name'', ''family name'', ''surname'',
       ''full name'', ''legal name'', ''preferred name'', ''your name''], IDENTITY, GREEN),
     ([''email'', ''e mail'', ''phone'', ''mobile'', ''telephone'', ''phone number'',
       ''contact number''], CONTACT, GREEN),
     ([''street address'', ''address line'', ''current location'', ''where are you located'',
       ''city'', ''postal code'', ''zip code'', ''zipcode'', ''country of residence'',
       ''residence address''], ADDRESS_LOCATION, GREEN),
     ([''linkedin'', ''github'', ''portfolio url'', ''website'', ''personal site'', ''twitter'',
       ''blog url'', ''online profile''], LINKS, GREEN),
     ([''university'', ''college'', ''school'', ''degree'', ''field of study'', ''major'', ''gpa'',
       ''graduation year'', ''education level''], EDUCATION, GREEN),
     ([''current company'', ''recent employer'', ''current title'', ''years of experience'',
       ''work experience''], EMPLOYMENT_HISTORY, GREEN),
     ([''authorized to work'', ''legally authorized'', ''work permit'', ''right to work'',
       ''work authorization'', ''eligible to work in''], WORK_AUTHORIZATION, YELLOW),
     ([''sponsorship'', ''visa sponsorship'', ''require sponsorship'', ''need sponsorship'',
       ''h1b''], SPONSORSHIP, YELLOW),
     ([''salary expectation'', ''expected compensation'', ''desired salary'',
       ''hourly rate expectation'', ''expected rate'', ''compensation expectations''],
      COMPENSATION, YELLOW),
     ([''notice period'', ''start date'', ''how soon can you start'', ''availability''],
      AVAILABILITY, YELLOW),
     ([''willing to travel'', ''travel percentage'', ''business travel''], TRAVEL, YELLOW),
     ([''willing to relocate'', ''relocation''], RELOCATION, YELLOW),
     ([''gender'', ''race'', ''ethnicity'', ''veteran'', ''disability'', ''equal opportunity'',
       ''voluntary disclosure'', ''eeo''], DEMOGRAPHIC_VOLUNTARY, RED),
     ([''why do you want to work'', ''why us'', ''cover letter text'', ''additional information'',
       ''describe your experience'', ''tell us about a project'', ''motivation''],
      CUSTOM_NARRATIVE, RED),
     ([''agree to terms'', ''non compete'', ''binding declaration'', ''background check consent'',
       ''certify that the information'', ''under penalty of perjury'', ''signature'',
       ''electronic signature'', ''legal declaration'', ''binding agreement'',
       ''acknowledge and agree''], LEGAL_DECLARATION, RED),
     ([''security clearance'', ''clearance level'', ''top secret'', ''polygraph'',
       ''active clearance''], SECURITY_CLEARANCE, RED),
     ([''conflict of interest'', ''relatives working'', ''governmental official'',
       ''sanctions declaration''], CONFLICT_OF_INTEREST, RED)]"

definition attachment_keywords :: "string list" where
  "attachment_keywords = [''resume'', ''cv'', ''curriculum vitae'', ''cover letter file'',
     ''portfolio upload'', ''attachment'', ''upload your'']"

definition classify_text :: "string \<Rightarrow> string \<Rightarrow> FieldOntologyType \<times> AnswerClass" where
  "classify_text ftype tx =
     (if ftype = ''file'' \<or> py_any_in attachment_keywords tx then (ATTACHMENT, GREEN)
      else (case find (\<lambda>r. py_any_in (fst r) tx) classification_rules of
              Some r \<Rightarrow> snd r
            | None \<Rightarrow> (OTHER_UNKNOWN, RED)))"

definition classify_field ::
  "string \<Rightarrow> string \<Rightarrow> string \<Rightarrow> string list \<Rightarrow> bool \<Rightarrow> string \<Rightarrow> nat \<Rightarrow> detected_field" where
  "classify_field lbl nm ftype opts req fid step =
     (let norm_label = normalize_label lbl;
          norm_name = normalize_label nm;
          c = classify_text ftype (norm_label @ '' '' @ norm_name)
      in \<lparr>field_id = (if fid \<noteq> [] then fid else if nm \<noteq> [] then nm else lbl),
          fld_name = nm, html_type = ftype, label = lbl, normalized_label = norm_label,
          ontology_type = fst c, required = req, options = opts, step_index = step,
          sensitivity_class = snd c\<rparr>)"

section \<open>Normal forms\<close>

definition word_ok :: "string \<Rightarrow> bool" where
  "word_ok w \<longleftrightarrow> w \<noteq> [] \<and> (\<forall>c\<in>set w. \<not> py_isspace c)"

lemma py_isspace_blank: "py_isspace (CHR '' '')"
  by (simp add: py_isspace_def)

lemma words_aux_run:
  assumes "\<forall>c\<in>set w. \<not> py_isspace c"
  shows "py_words_aux acc (w @ s) = py_words_aux (rev w @ acc) s"
  using assms by (induction w arbitrary: acc) auto

lemma words_join:
  assumes "\<forall>w\<in>set ws. word_ok w"
  shows "py_words (py_join '' '' ws) = ws"
  using assms unfolding py_words_def
proof (induction "'' ''" ws rule: py_join.induct)
  case (2 x)
  then show ?case using words_aux_run [of x "[]" "[]"] by (auto simp: word_ok_def)
next
  case (3 x y xs)
  have "py_words_aux [] (py_join '' '' (x # y # xs)) =
      py_words_aux (rev x @ []) ('' '' @ py_join '' '' (y # xs))"
    using 3 words_aux_run [of x "[]" "'' '' @ py_join '' '' (y # xs)"]
    by (simp add: word_ok_def)
  with 3 show ?case by (simp add: word_ok_def py_isspace_blank)
qed simp

lemma words_aux_set:
  assumes "w \<in> set (py_words_aux acc s)" "\<forall>c\<in>set acc. \<not> py_isspace c"
  shows "word_ok w \<and> set w \<subseteq> set acc \<union> set s"
  using assms
  by (induction acc s rule: py_words_aux.induct) (fastforce simp: word_ok_def split: if_splits)+

lemma words_ok: "w \<in> set (py_words s) \<Longrightarrow> word_ok w \<and> set w \<subseteq> set s"
  using words_aux_set [of w "[]" s] by (simp add: py_words_def)

lemma set_join: "set (py_join '' '' ws) \<subseteq> insert (CHR '' '') (\<Union> (set ` set ws))"
  by (induction "'' ''" ws rule: py_join.induct) auto

definition norm_char :: "char \<Rightarrow> bool" where
  "norm_char c \<longleftrightarrow> c = CHR '' '' \<or> py_isdigit c \<or> (py_isalpha c \<and> py_lower_char c = c)"

lemma of_char_lt: "(of_char c :: nat) < 256"
  using nat_of_char_less_256 by simp

lemma lower_upper:
  "py_lower_char c = c \<or> (65 \<le> (of_char c :: nat) \<and> (of_char c :: nat) \<le> 90 \<and>
     of_char (py_lower_char c) = (of_char c :: nat) + 32)"
  by (auto simp: py_lower_char_def Let_def of_char_of)

lemma lower_idem [simp]: "py_lower_char (py_lower_char c) = py_lower_char c"
  using lower_upper [of c] by (auto simp: py_lower_char_def Let_def of_char_of)

lemma blank_lower_norm: "\<not> py_isspace (blank_other (py_lower_char c)) \<Longrightarrow> norm_char (blank_other (py_lower_char c))"
  by (auto simp: blank_other_def norm_char_def py_isalnum_def py_isspace_blank split: if_splits)

lemma set_normalize: "c \<in> set (normalize_label l) \<Longrightarrow> norm_char c"
proof -
  assume c: "c \<in> set (normalize_label l)"
  let ?s = "map blank_other (py_lower l)"
  from c set_join [of "py_words ?s"] consider "c = CHR '' ''" | w where "w \<in> set (py_words ?s)" "c \<in> set w"
    by (auto simp: normalize_label_def)
  then show ?thesis
  proof cases
    case 1
    then show ?thesis by (simp add: norm_char_def)
  next
    case 2
    with words_ok [of w ?s] have "c \<in> set ?s" "\<not> py_isspace c" by (auto simp: word_ok_def)
    then show ?thesis using blank_lower_norm by (auto simp: py_lower_def)
  qed
qed

lemma norm_char_fixed: "norm_char c \<Longrightarrow> blank_other (py_lower_char c) = c"
  by (auto simp: norm_char_def blank_other_def py_isalnum_def py_isspace_def py_isdigit_def
      py_lower_char_def Let_def)

lemma normalize_words: "\<exists>ws. normalize_label l = py_join '' '' ws \<and> (\<forall>w\<in>set ws. word_ok w)"
  by (intro exI [of _ "py_words (map blank_other (py_lower l))"])
    (simp add: normalize_label_def words_ok)

lemma normalize_label_idem: "normalize_label (normalize_label l) = normalize_label l"
proof -
  obtain ws where ws: "normalize_label l = py_join '' '' ws" "\<forall>w\<in>set ws. word_ok w"
    using normalize_words by blast
  have "map blank_other (py_lower (normalize_label l)) = normalize_label l"
    using set_normalize norm_char_fixed by (auto simp: py_lower_def intro!: map_idI)
  with ws words_join [of ws] show ?thesis by (simp add: normalize_label_def)
qed

section \<open>The classes of the types\<close>

fun class_of_type :: "FieldOntologyType \<Rightarrow> AnswerClass" where
  "class_of_type t =
     (if t \<in> {ATTACHMENT, IDENTITY, CONTACT, ADDRESS_LOCATION, LINKS, EDUCATION, EMPLOYMENT_HISTORY}
      then GREEN
      else if t \<in> {WORK_AUTHORIZATION, SPONSORSHIP, COMPENSATION, AVAILABILITY, TRAVEL, RELOCATION}
      then YELLOW else RED)"

declare class_of_type.simps [simp del]

lemma rules_snd:
  "map snd classification_rules = [
     (IDENTITY, GREEN), (CONTACT, GREEN), (ADDRESS_LOCATION, GREEN), (LINKS, GREEN),
     (EDUCATION, GREEN), (EMPLOYMENT_HISTORY, GREEN), (WORK_AUTHORIZATION, YELLOW),
     (SPONSORSHIP, YELLOW), (COMPENSATION, YELLOW), (AVAILABILITY, YELLOW), (TRAVEL, YELLOW),
     (RELOCATION, YELLOW), (DEMOGRAPHIC_VOLUNTARY, RED), (CUSTOM_NARRATIVE, RED),
     (LEGAL_DECLARATION, RED), (SECURITY_CLEARANCE, RED), (CONFLICT_OF_INTEREST, RED)]"
  by (simp add: classification_rules_def)

lemma classify_text_in:
  "classify_text ft tx \<in> set ((ATTACHMENT, GREEN) # (OTHER_UNKNOWN, RED) # map snd classification_rules)"
proof (cases "find (\<lambda>r. py_any_in (fst r) tx) classification_rules")
  case None
  then show ?thesis by (simp add: classify_text_def)
next
  case (Some r)
  then have "r \<in> set classification_rules" by (metis find_Some_iff nth_mem)
  then have "snd r \<in> set (map snd classification_rules)" by simp
  with Some show ?thesis by (simp only: classify_text_def option.case) simp
qed

lemmas classify_text_values = classify_text_in [unfolded rules_snd]

lemma classify_text_class: "snd (classify_text ft tx) = class_of_type (fst (classify_text ft tx))"
  using classify_text_values [of ft tx] by (auto simp: class_of_type.simps)

text \<open>classification is a function of the normal form. A label's normal form is stable under
  normalising again, uses only lower-case letters, digits and single blanks, and two labels with
  the same normal form are classified alike; the class of a field is the class of its type.\<close>

theorem classification_of_normal_form:
  "normalize_label (normalize_label l) = normalize_label l \<and>
   ontology_type (classify_field (normalize_label l) (normalize_label n) ft os rq fid st) =
     ontology_type (classify_field l n ft os rq fid st) \<and>
   sensitivity_class (classify_field l n ft os rq fid st) =
     class_of_type (ontology_type (classify_field l n ft os rq fid st)) \<and>
   set (normalize_label l) \<subseteq> Collect norm_char"
  using set_normalize
  by (auto simp: classify_field_def Let_def normalize_label_idem classify_text_class)

end
