(* ===== verification/Artifact_Selector.thy ===== *)
theory Artifact_Selector
  imports Outbound_Models
begin

text \<open>
  \<open>outbound/artifact_selector.py\<close>. The claim validator is the dependency the selector is
  constructed with: a function from artifact, truth graph, opportunity and policy to a verdict
  with its errors.
\<close>

type_synonym validator =
  "tailored_artifact \<Rightarrow> truth_graph \<Rightarrow> opportunity \<Rightarrow> tailoring_policy option \<Rightarrow> bool \<times> string list"

fun owned_artifacts ::
  "string \<Rightarrow> string \<Rightarrow> any_artifact list \<Rightarrow> bound_artifact list \<times> string list" where
  "owned_artifacts cand ws [] = ([], [])"
| "owned_artifacts cand ws (Raw a # as) =
     (case owned_artifacts cand ws as of (bs, errs) \<Rightarrow>
        (bs, ''Raw unowned TailoredArtifact rejected; BoundArtifact required'' # errs))"
| "owned_artifacts cand ws (Bound b # as) =
     (case owned_artifacts cand ws as of (bs, errs) \<Rightarrow>
        if bound_candidate b \<noteq> cand
        then (bs, (''Artifact candidate '' @ quoted (bound_candidate b) @
               '' does not match requested candidate '' @ quoted cand) # errs)
        else if bound_workspace b \<noteq> ws
        then (bs, (''Artifact workspace '' @ quoted (bound_workspace b) @
               '' does not match requested workspace '' @ quoted ws) # errs)
        else (b # bs, errs))"

definition bound_to :: "opportunity \<Rightarrow> bound_artifact \<Rightarrow> bool" where
  "bound_to opp b \<longleftrightarrow>
     art_opportunity_id (artifact b) = opp_id opp \<and> art_content_hash (artifact b) = content_hash opp"

definition select_artifact ::
  "validator \<Rightarrow> string \<Rightarrow> opportunity \<Rightarrow> ArtifactType \<Rightarrow> any_artifact list \<Rightarrow> truth_graph
     \<Rightarrow> tailoring_policy option \<Rightarrow> string \<Rightarrow> bound_artifact option \<times> string list" where
  "select_artifact validate cand opp atype available tg pol ws =
     (let matching = filter (\<lambda>a. artifact_type (inner_artifact a) = atype) available in
      if matching = []
      then (None, [''No artifact found matching type '' @ quoted (artifact_type_value atype)])
      else
        (case owned_artifacts cand ws matching of (owned, errs) \<Rightarrow>
           if owned = [] then (None, errs)
           else
             (let bound = filter (bound_to opp) owned in
              if bound = [] then
                (case filter (\<lambda>b. art_opportunity_id (artifact b) = opp_id opp) owned of
                   s # _ \<Rightarrow> (None, errs @ [''Artifact opportunity content hash '' @
                     quoted (art_content_hash (artifact s)) @ '' is STALE compared to opportunity '' @
                     quoted (content_hash opp)])
                 | [] \<Rightarrow> (None, errs @ [''No artifact bound to target opportunity ID '' @
                     quoted (opp_id opp)]))
              else if length bound > 1
              then (None, errs @ [''Multiple ('' @ nat_str (length bound) @
                     '') plausible artifacts bound to opportunity; manual disambiguation required''])
              else
                (case validate (artifact (hd bound)) tg opp pol of (valid, verrs) \<Rightarrow>
                   if \<not> valid
                   then (None, errs @ map (\<lambda>e. ''Claim validator rejected artifact: '' @ e) verrs)
                   else (Some (hd bound), [])))))"

lemma owned_artifacts_fst:
  "fst (owned_artifacts cand ws as) =
     List.map_filter (\<lambda>a. case a of Raw _ \<Rightarrow> None
        | Bound b \<Rightarrow> if bound_candidate b = cand \<and> bound_workspace b = ws then Some b else None) as"
  by (induction cand ws as rule: owned_artifacts.induct)
    (auto simp: List.map_filter_simps split: prod.splits)

lemma owned_artifacts_iff:
  "b \<in> set (fst (owned_artifacts cand ws as)) \<longleftrightarrow>
     Bound b \<in> set as \<and> bound_candidate b = cand \<and> bound_workspace b = ws"
  by (induction cand ws as rule: owned_artifacts.induct) (auto split: prod.splits)

definition eligible :: "string \<Rightarrow> opportunity \<Rightarrow> ArtifactType \<Rightarrow> string \<Rightarrow> any_artifact \<Rightarrow> bool" where
  "eligible cand opp atype ws a \<longleftrightarrow>
     (case a of Raw _ \<Rightarrow> False
      | Bound b \<Rightarrow> artifact_type (artifact b) = atype \<and> bound_candidate b = cand \<and>
                   bound_workspace b = ws \<and> bound_to opp b)"

lemma eligible_filter:
  "map Bound (filter (bound_to opp) (fst (owned_artifacts cand ws
      (filter (\<lambda>a. artifact_type (inner_artifact a) = atype) as)))) =
   filter (eligible cand opp atype ws) as"
proof (induction as)
  case (Cons a as)
  then show ?case by (cases a) (auto simp: owned_artifacts_fst List.map_filter_simps eligible_def)
qed (simp add: eligible_def)

lemma owned_artifacts_reason:
  "fst (owned_artifacts cand ws as) = [] \<Longrightarrow> as \<noteq> [] \<Longrightarrow> snd (owned_artifacts cand ws as) \<noteq> []"
  by (induction cand ws as rule: owned_artifacts.induct) (auto split: prod.splits if_splits)

text \<open>The outcome, from the list of owned and bound artifacts.\<close>

lemma select_artifact_outcome:
  fixes cand ws opp atype as
  defines "bound \<equiv> filter (bound_to opp) (fst (owned_artifacts cand ws
      (filter (\<lambda>a. artifact_type (inner_artifact a) = atype) as)))"
  shows "fst (select_artifact validate cand opp atype as tg pol ws) =
    (case bound of [b] \<Rightarrow> if fst (validate (artifact b) tg opp pol) then Some b else None | _ \<Rightarrow> None)"
proof -
  obtain owned errs where o: "owned_artifacts cand ws
      (filter (\<lambda>a. artifact_type (inner_artifact a) = atype) as) = (owned, errs)" by force
  have b: "bound = filter (bound_to opp) owned" by (simp add: bound_def o)
  show ?thesis
  proof (cases "owned = []")
    case True
    with o b show ?thesis by (simp add: select_artifact_def Let_def)
  next
    case False
    then have m: "filter (\<lambda>a. artifact_type (inner_artifact a) = atype) as \<noteq> []" using o by auto
    show ?thesis
    proof (cases bound)
      case Nil
      with False m o b show ?thesis by (simp add: select_artifact_def Let_def split: list.split)
    next
      case (Cons x xs)
      obtain v es where v: "validate (artifact x) tg opp pol = (v, es)" by force
      show ?thesis
      proof (cases xs)
        case Nil
        with Cons False m o b v show ?thesis by (simp add: select_artifact_def Let_def)
      next
        case (Cons y ys)
        with \<open>bound = x # xs\<close> False m o b show ?thesis by (simp add: select_artifact_def Let_def)
      qed
    qed
  qed
qed

lemma select_artifact_reason:
  assumes "fst (select_artifact validate cand opp atype as tg pol ws) = None"
    and "\<forall>a. validate a tg opp pol \<noteq> (False, [])"
  shows "snd (select_artifact validate cand opp atype as tg pol ws) \<noteq> []"
proof -
  let ?m = "filter (\<lambda>a. artifact_type (inner_artifact a) = atype) as"
  obtain owned errs where o: "owned_artifacts cand ws ?m = (owned, errs)" by force
  obtain v es where v: "validate (artifact (hd (filter (bound_to opp) owned))) tg opp pol = (v, es)" by force
  with assms(2) have "v \<or> es \<noteq> []" by (metis (full_types))
  with assms(1) o v owned_artifacts_reason [of cand ws ?m] show ?thesis
    by (auto simp: select_artifact_def Let_def split: if_split_asm list.splits)
qed

text \<open>the selector returns an artifact exactly when one and only one of the available ones is
  a bound artifact of the requested type, owned by the candidate in the workspace and bound to this
  opportunity at its current content hash, and the claim validator accepts it; it returns that one.
  Otherwise it returns none and, unless the validator rejects without a word, at least one reason.\<close>

theorem select_artifact_exact:
  "(\<forall>b. fst (select_artifact validate cand opp atype as tg pol ws) = Some b \<longleftrightarrow>
      filter (eligible cand opp atype ws) as = [Bound b] \<and> fst (validate (artifact b) tg opp pol)) \<and>
   (fst (select_artifact validate cand opp atype as tg pol ws) = None \<and>
      (\<forall>a. validate a tg opp pol \<noteq> (False, [])) \<longrightarrow>
    snd (select_artifact validate cand opp atype as tg pol ws) \<noteq> [])"
proof -
  let ?bound = "filter (bound_to opp) (fst (owned_artifacts cand ws
      (filter (\<lambda>a. artifact_type (inner_artifact a) = atype) as)))"
  have "filter (eligible cand opp atype ws) as = [Bound b] \<longleftrightarrow> ?bound = [b]" for b
    unfolding eligible_filter [symmetric] by (auto simp: map_eq_Cons_conv)
  then show ?thesis
    using select_artifact_reason [of validate cand opp atype as tg pol ws]
    by (auto simp: select_artifact_outcome split: list.splits if_splits)
qed

definition demo_opp :: opportunity where
  "demo_opp = \<lparr>opp_id = ''opp-1'', opp_track = EMPLOYMENT, opp_source = ''greenhouse:acme'',
     content_hash = ''c1''\<rparr>"

definition demo_bound :: bound_artifact where
  "demo_bound = \<lparr>artifact = \<lparr>artifact_id = ''art-1'', artifact_type = TAILORED_CV,
       art_opportunity_id = ''opp-1'', art_content_hash = ''c1'', artifact_hash = ''h1'', art_body = JNull\<rparr>,
     bound_candidate = ''founder'', bound_workspace = ''default''\<rparr>"

theorem select_artifact_exact_witness:
  "fst (select_artifact (\<lambda>_ _ _ _. (True, [])) ''founder'' demo_opp TAILORED_CV
     [Raw (artifact demo_bound), Bound demo_bound] [] None ''default'') = Some demo_bound \<and>
   snd (select_artifact (\<lambda>_ _ _ _. (True, [])) ''founder'' demo_opp TAILORED_CV
     [Raw (artifact demo_bound)] [] None ''default'') \<noteq> []"
  using select_artifact_exact [of "\<lambda>_ _ _ _. (True, [])" "''founder''" demo_opp TAILORED_CV
      "[Raw (artifact demo_bound), Bound demo_bound]" "[]" None "''default''"]
    select_artifact_exact [of "\<lambda>_ _ _ _. (True, [])" "''founder''" demo_opp TAILORED_CV
      "[Raw (artifact demo_bound)]" "[]" None "''default''"]
  by (auto simp: eligible_def bound_to_def demo_bound_def demo_opp_def)

end
