(* ===== verification/Answer_Engine.thy ===== *)
theory Answer_Engine
  imports Ontology Artifact_Selector
begin

text \<open>
  \<open>outbound/answer_engine.py\<close>: \<open>ApplicationAnswerEngine.answer_field\<close>, one definition per
  branch. The engine's truth graph is the list of assertions in the order of
  \<open>assertions.values()\<close>. The argument \<open>now\<close> is the clock \<open>ApplicationAnswer\<close> reads.
\<close>

section \<open>Building answers\<close>

text \<open>The arguments every constructor call shares, with the dataclass defaults.\<close>

definition base_answer :: "detected_field \<Rightarrow> opportunity \<Rightarrow> string \<Rightarrow> application_answer" where
  "base_answer f opp act =
     \<lparr>ans_opportunity_id = opp_id opp, ans_content_hash = content_hash opp, ans_action_id = act,
      field_type = ontology_type f, original_label = label f,
      normalized_question = normalized_label f, answer = None, answer_class = RED,
      answer_source = [], assertion_ids = [], policy_source = [], generated_claim_ids = [],
      ans_artifact_ids = [], confidence = 1, timestamp = [], disposition = ''auto_fill''\<rparr>"

definition pause_answer ::
  "string \<Rightarrow> detected_field \<Rightarrow> opportunity \<Rightarrow> string \<Rightarrow> string \<Rightarrow> application_answer result" where
  "pause_answer now f opp act src =
     answer_post_init now ((base_answer f opp act)\<lparr>answer_source := src, disposition := ''pause''\<rparr>)"

definition asserted_answer ::
  "string \<Rightarrow> detected_field \<Rightarrow> opportunity \<Rightarrow> string \<Rightarrow> atomic_assertion \<Rightarrow> string
     \<Rightarrow> application_answer result" where
  "asserted_answer now f opp act s v =
     answer_post_init now ((base_answer f opp act)\<lparr>answer := Some v, answer_class := GREEN,
       answer_source := ''truth_graph:'' @ assertion_id s, assertion_ids := [assertion_id s]\<rparr>)"

definition policy_answer ::
  "string \<Rightarrow> detected_field \<Rightarrow> opportunity \<Rightarrow> string \<Rightarrow> string \<Rightarrow> string \<Rightarrow> string
     \<Rightarrow> application_answer result" where
  "policy_answer now f opp act v src pol_src =
     answer_post_init now ((base_answer f opp act)\<lparr>answer := Some v, answer_class := YELLOW,
       answer_source := src, policy_source := pol_src\<rparr>)"

definition verified_of :: "string list \<Rightarrow> truth_graph \<Rightarrow> truth_graph" where
  "verified_of preds tg =
     filter (\<lambda>a. predicate a \<in> set preds \<and> verification_status a = VERIFIED) tg"

section \<open>The branches\<close>

definition attachment_answer ::
  "string \<Rightarrow> detected_field \<Rightarrow> opportunity \<Rightarrow> string \<Rightarrow> bound_artifact option
     \<Rightarrow> application_answer result" where
  "attachment_answer now f opp act art =
     (case art of
        Some b \<Rightarrow>
          answer_post_init now ((base_answer f opp act)\<lparr>answer := Some (artifact_id (artifact b)),
            answer_class := GREEN, answer_source := ''matching_artifact'',
            ans_artifact_ids := [artifact_id (artifact b)]\<rparr>)
      | None \<Rightarrow> pause_answer now f opp act ''unattached_artifact'')"

definition identity_answer ::
  "string \<Rightarrow> truth_graph \<Rightarrow> detected_field \<Rightarrow> opportunity \<Rightarrow> string \<Rightarrow> application_answer result" where
  "identity_answer now tg f opp act =
     (case verified_of [''identity.name'', ''identity.full_name''] tg of
        [] \<Rightarrow> pause_answer now f opp act ''unasserted_identity''
      | s # _ \<Rightarrow>
          (let full = assertion_value s; parts = py_words full;
               v = (if py_any_in [''first name'', ''given name''] (normalized_label f)
                    then (if parts \<noteq> [] then hd parts else full)
                    else if py_any_in [''last name'', ''family name'', ''surname''] (normalized_label f)
                    then (if length parts > 1 then last parts else [])
                    else full)
           in asserted_answer now f opp act s v))"

text \<open>Contact: e-mail and phone pause when unasserted; country and city fall through.\<close>

definition contact_answer ::
  "string \<Rightarrow> truth_graph \<Rightarrow> detected_field \<Rightarrow> opportunity \<Rightarrow> string \<Rightarrow> application_answer result" where
  "contact_answer now tg f opp act =
     (let l = normalized_label f in
      if py_any_in [''email'', ''e-mail''] l then
        (case verified_of [''identity.email'', ''contact.email''] tg of
           [] \<Rightarrow> pause_answer now f opp act ''unasserted_email''
         | s # _ \<Rightarrow> asserted_answer now f opp act s (assertion_value s))
      else if py_any_in [''phone'', ''mobile'', ''telephone''] l then
        (case verified_of [''identity.phone'', ''contact.phone''] tg of
           [] \<Rightarrow> pause_answer now f opp act ''unasserted_phone''
         | s # _ \<Rightarrow> asserted_answer now f opp act s (assertion_value s))
      else
        (case (if py_in ''country'' l then verified_of [''identity.country'', ''location.country''] tg else []) of
           s # _ \<Rightarrow> asserted_answer now f opp act s (assertion_value s)
         | [] \<Rightarrow>
             (case (if py_in ''city'' l then verified_of [''identity.city'', ''location.city''] tg else []) of
                s # _ \<Rightarrow> asserted_answer now f opp act s (assertion_value s)
              | [] \<Rightarrow> pause_answer now f opp act ''unasserted_contact'')))"

definition links_answer ::
  "string \<Rightarrow> truth_graph \<Rightarrow> detected_field \<Rightarrow> opportunity \<Rightarrow> string \<Rightarrow> application_answer result" where
  "links_answer now tg f opp act =
     (let l = normalized_label f in
      case (if py_in ''linkedin'' l then verified_of [''link.linkedin'', ''profile.linkedin''] tg else []) of
        s # _ \<Rightarrow> asserted_answer now f opp act s (assertion_value s)
      | [] \<Rightarrow>
          (case (if py_in ''github'' l then verified_of [''link.github'', ''profile.github''] tg else []) of
             s # _ \<Rightarrow> asserted_answer now f opp act s (assertion_value s)
           | [] \<Rightarrow> pause_answer now f opp act ''unasserted_links''))"

definition location_preference_answer ::
  "string \<Rightarrow> truth_graph \<Rightarrow> detected_field \<Rightarrow> opportunity \<Rightarrow> string \<Rightarrow> application_answer result" where
  "location_preference_answer now tg f opp act =
     (case verified_of [''preference.remote'', ''location.remote_ok''] tg of
        s # _ \<Rightarrow> asserted_answer now f opp act s ''Remote / Worldwide''
      | [] \<Rightarrow> pause_answer now f opp act ''unasserted_location_preference'')"

text \<open>\<open>re.search(r"\b" + key + r"\b", s)\<close> for a key that begins and ends with word characters.\<close>

fun re_word_search :: "bool \<Rightarrow> string \<Rightarrow> string \<Rightarrow> bool" where
  "re_word_search prev key [] = False"
| "re_word_search prev key (c # cs) =
     ((prefix key (c # cs) \<and> \<not> prev \<and>
         (case drop (length key) (c # cs) of [] \<Rightarrow> True | d # _ \<Rightarrow> \<not> py_isword d)) \<or>
      re_word_search (py_isword c) key cs)"

definition jurisdictions :: "(string \<times> string) list" where
  "jurisdictions = [
     (''united states'', ''United States''), (''usa'', ''United States''), (''us'', ''United States''),
     (''egypt'', ''Egypt''), (''germany'', ''Germany''), (''united kingdom'', ''United Kingdom''),
     (''uk'', ''United Kingdom''), (''canada'', ''Canada''), (''france'', ''France''),
     (''uae'', ''United Arab Emirates'')]"

definition target_jurisdiction :: "string \<Rightarrow> string option" where
  "target_jurisdiction l = map_option snd (find (\<lambda>kc. re_word_search False (fst kc) l) jurisdictions)"

definition authorizations :: "Polarity \<Rightarrow> string \<Rightarrow> truth_graph \<Rightarrow> truth_graph" where
  "authorizations pol target tg =
     filter (\<lambda>a. prefix ''authorization.'' (predicate a) \<and> verification_status a = VERIFIED \<and>
       py_lower (assertion_value a) = py_lower target \<and> polarity a = pol) tg"

definition work_authorization_answer ::
  "string \<Rightarrow> truth_graph \<Rightarrow> detected_field \<Rightarrow> opportunity \<Rightarrow> string \<Rightarrow> application_answer result" where
  "work_authorization_answer now tg f opp act =
     (case target_jurisdiction (normalized_label f) of
        Some t \<Rightarrow>
          (case authorizations POSITIVE t tg of
             s # _ \<Rightarrow> asserted_answer now f opp act s ''Yes''
           | [] \<Rightarrow>
               (case authorizations NEGATIVE t tg of
                  s # _ \<Rightarrow> asserted_answer now f opp act s ''No''
                | [] \<Rightarrow> pause_answer now f opp act ''unresolved_work_authorization''))
      | None \<Rightarrow> pause_answer now f opp act ''unresolved_work_authorization'')"

definition policy_ref :: "tailoring_policy \<Rightarrow> string \<Rightarrow> string" where
  "policy_ref pol field = ''TailoringPolicy.'' @ policy_version pol @ ''.'' @ field"

definition sponsorship_answer ::
  "string \<Rightarrow> tailoring_policy \<Rightarrow> detected_field \<Rightarrow> opportunity \<Rightarrow> string \<Rightarrow> application_answer result" where
  "sponsorship_answer now pol f opp act =
     (case default_sponsorship_required pol of
        Some b \<Rightarrow> policy_answer now f opp act (if b then ''Yes'' else ''No'')
                    ''tailoring_policy:sponsorship'' (policy_ref pol ''default_sponsorship_required'')
      | None \<Rightarrow> pause_answer now f opp act ''unconfigured_sponsorship_policy'')"

definition availability_answer ::
  "string \<Rightarrow> tailoring_policy \<Rightarrow> detected_field \<Rightarrow> opportunity \<Rightarrow> string \<Rightarrow> application_answer result" where
  "availability_answer now pol f opp act =
     (case default_notice_period_days pol of
        Some d \<Rightarrow> policy_answer now f opp act (int_str d @ '' days'')
                    ''tailoring_policy:notice_period'' (policy_ref pol ''default_notice_period_days'')
      | None \<Rightarrow> pause_answer now f opp act ''unconfigured_notice_period_policy'')"

definition compensation_answer ::
  "string \<Rightarrow> tailoring_policy \<Rightarrow> detected_field \<Rightarrow> opportunity \<Rightarrow> string \<Rightarrow> application_answer result" where
  "compensation_answer now pol f opp act =
     (let cur = (case default_currency pol of Some c \<Rightarrow> c | None \<Rightarrow> []) in
      case (if cur = [] then None else default_hourly_rate pol) of
        Some r \<Rightarrow> policy_answer now f opp act (cur @ '' '' @ r @ ''/hr'')
                    ''tailoring_policy:compensation_hourly'' (policy_ref pol ''default_hourly_rate'')
      | None \<Rightarrow>
          (case (if cur = [] then None else default_daily_rate pol) of
             Some r \<Rightarrow> policy_answer now f opp act (cur @ '' '' @ r @ ''/day'')
                         ''tailoring_policy:compensation_daily'' (policy_ref pol ''default_daily_rate'')
           | None \<Rightarrow> pause_answer now f opp act ''unconfigured_compensation_policy''))"

definition answer_field ::
  "string \<Rightarrow> truth_graph \<Rightarrow> tailoring_policy \<Rightarrow> detected_field \<Rightarrow> opportunity \<Rightarrow> string
     \<Rightarrow> bound_artifact option \<Rightarrow> application_answer result" where
  "answer_field now tg pol f opp act art =
     (let t = ontology_type f in
      if t \<in> {RESUME_CV, COVER_LETTER_FIELD, ATTACHMENT} then attachment_answer now f opp act art
      else if t = IDENTITY then identity_answer now tg f opp act
      else if t = CONTACT then contact_answer now tg f opp act
      else if t = LINKS then links_answer now tg f opp act
      else if t = LOCATION_PREFERENCE then location_preference_answer now tg f opp act
      else if t = WORK_AUTHORIZATION then work_authorization_answer now tg f opp act
      else if t = SPONSORSHIP then sponsorship_answer now pol f opp act
      else if t = AVAILABILITY then availability_answer now pol f opp act
      else if t = COMPENSATION then compensation_answer now pol f opp act
      else pause_answer now f opp act ''red_question_policy'')"

section \<open>The three kinds of answer\<close>

lemma verified_of_Cons:
  assumes "verified_of preds tg = s # r"
  shows "s \<in> set tg" "predicate s \<in> set preds" "verification_status s = VERIFIED"
proof -
  have "s \<in> set (verified_of preds tg)" by (simp add: assms)
  then show "s \<in> set tg" "predicate s \<in> set preds" "verification_status s = VERIFIED"
    by (simp_all add: verified_of_def)
qed

lemma authorizations_Cons:
  assumes "authorizations p t tg = s # r"
  shows "s \<in> set tg" "prefix ''authorization.'' (predicate s)" "verification_status s = VERIFIED"
    "py_lower (assertion_value s) = py_lower t" "polarity s = p"
proof -
  have "s \<in> set (authorizations p t tg)" by (simp add: assms)
  then show "s \<in> set tg" "prefix ''authorization.'' (predicate s)" "verification_status s = VERIFIED"
    "py_lower (assertion_value s) = py_lower t" "polarity s = p"
    by (simp_all add: authorizations_def)
qed

definition request_ok :: "opportunity \<Rightarrow> string \<Rightarrow> bool" where
  "request_ok opp act \<longleftrightarrow> opp_id opp \<noteq> [] \<and> act \<noteq> []"

text \<open>Each builder either rejects a request without identifiers or succeeds, whatever it is given.\<close>

lemma builder_results:
  assumes "request_ok opp act"
  shows "\<exists>t. pause_answer now f opp act src = Inr ((base_answer f opp act)
      \<lparr>answer_source := src, disposition := ''pause'', timestamp := t\<rparr>)"
    and "\<exists>t. asserted_answer now f opp act s v = Inr ((base_answer f opp act)\<lparr>answer := Some v,
      answer_class := GREEN, answer_source := ''truth_graph:'' @ assertion_id s,
      assertion_ids := [assertion_id s], timestamp := t\<rparr>)"
    and "ps \<noteq> [] \<Longrightarrow> \<exists>t. policy_answer now f opp act v src ps = Inr ((base_answer f opp act)
      \<lparr>answer := Some v, answer_class := YELLOW, answer_source := src, policy_source := ps, timestamp := t\<rparr>)"
  using assms
  by (auto simp: pause_answer_def asserted_answer_def policy_answer_def answer_post_init_def
      base_answer_def request_ok_def Let_def)

lemma builder_needs_ids:
  assumes "\<not> request_ok opp act"
  shows "\<exists>e. pause_answer now f opp act src = Inl e" "\<exists>e. asserted_answer now f opp act s v = Inl e"
    "\<exists>e. policy_answer now f opp act v src ps = Inl e"
  using assms
  by (auto simp: pause_answer_def asserted_answer_def policy_answer_def answer_post_init_def
      base_answer_def request_ok_def)

lemma policy_ref_nonempty [simp]: "policy_ref pol x \<noteq> []"
  by (simp add: policy_ref_def)

text \<open>Which assertion may stand behind which answer text, by type of field.\<close>

fun supports :: "FieldOntologyType \<Rightarrow> atomic_assertion \<Rightarrow> string \<Rightarrow> bool" where
  "supports IDENTITY s v \<longleftrightarrow>
     predicate s \<in> {''identity.name'', ''identity.full_name''} \<and>
     (v = assertion_value s \<or> v \<in> set (py_words (assertion_value s)) \<or>
      v = [] \<and> length (py_words (assertion_value s)) \<le> 1)"
| "supports CONTACT s v \<longleftrightarrow>
     predicate s \<in> {''identity.email'', ''contact.email'', ''identity.phone'', ''contact.phone'',
       ''identity.country'', ''location.country'', ''identity.city'', ''location.city''} \<and>
     v = assertion_value s"
| "supports LINKS s v \<longleftrightarrow>
     predicate s \<in> {''link.linkedin'', ''profile.linkedin'', ''link.github'', ''profile.github''} \<and>
     v = assertion_value s"
| "supports LOCATION_PREFERENCE s v \<longleftrightarrow>
     predicate s \<in> {''preference.remote'', ''location.remote_ok''} \<and> v = ''Remote / Worldwide''"
| "supports WORK_AUTHORIZATION s v \<longleftrightarrow>
     prefix ''authorization.'' (predicate s) \<and>
     (v = ''Yes'' \<and> polarity s = POSITIVE \<or> v = ''No'' \<and> polarity s = NEGATIVE)"
| "supports _ s v \<longleftrightarrow> False"

text \<open>Which policy entry may stand behind which answer text.\<close>

fun policy_supports :: "FieldOntologyType \<Rightarrow> tailoring_policy \<Rightarrow> string \<Rightarrow> bool" where
  "policy_supports SPONSORSHIP pol v \<longleftrightarrow>
     default_sponsorship_required pol = Some True \<and> v = ''Yes'' \<or>
     default_sponsorship_required pol = Some False \<and> v = ''No''"
| "policy_supports AVAILABILITY pol v \<longleftrightarrow>
     (\<exists>d. default_notice_period_days pol = Some d \<and> v = int_str d @ '' days'')"
| "policy_supports COMPENSATION pol v \<longleftrightarrow>
     (\<exists>c r. default_currency pol = Some c \<and> c \<noteq> [] \<and>
        (default_hourly_rate pol = Some r \<and> v = c @ '' '' @ r @ ''/hr'' \<or>
         default_hourly_rate pol = None \<and> default_daily_rate pol = Some r \<and>
           v = c @ '' '' @ r @ ''/day''))"
| "policy_supports _ pol v \<longleftrightarrow> False"

datatype answer_kind = Paused string | Asserted atomic_assertion string | ByPolicy string string string

fun build :: "string \<Rightarrow> detected_field \<Rightarrow> opportunity \<Rightarrow> string \<Rightarrow> answer_kind \<Rightarrow> application_answer result" where
  "build now f opp act (Paused src) = pause_answer now f opp act src"
| "build now f opp act (Asserted s v) = asserted_answer now f opp act s v"
| "build now f opp act (ByPolicy v src ps) = policy_answer now f opp act v src ps"

fun kind_ok :: "truth_graph \<Rightarrow> tailoring_policy \<Rightarrow> FieldOntologyType \<Rightarrow> answer_kind \<Rightarrow> bool" where
  "kind_ok tg pol t (Paused src) \<longleftrightarrow> True"
| "kind_ok tg pol t (Asserted s v) \<longleftrightarrow> s \<in> set tg \<and> verification_status s = VERIFIED \<and> supports t s v"
| "kind_ok tg pol t (ByPolicy v src ps) \<longleftrightarrow> ps \<noteq> [] \<and> policy_supports t pol v"

definition builds_ok ::
  "string \<Rightarrow> truth_graph \<Rightarrow> tailoring_policy \<Rightarrow> detected_field \<Rightarrow> opportunity \<Rightarrow> string
     \<Rightarrow> application_answer result \<Rightarrow> bool" where
  "builds_ok now tg pol f opp act res \<longleftrightarrow>
     (\<exists>k. res = build now f opp act k \<and> kind_ok tg pol (ontology_type f) k)"

lemma builds_ok_intros:
  "builds_ok now tg pol f opp act (pause_answer now f opp act src)"
  "s \<in> set tg \<Longrightarrow> verification_status s = VERIFIED \<Longrightarrow> supports (ontology_type f) s v \<Longrightarrow>
     builds_ok now tg pol f opp act (asserted_answer now f opp act s v)"
  "ps \<noteq> [] \<Longrightarrow> policy_supports (ontology_type f) pol v \<Longrightarrow>
     builds_ok now tg pol f opp act (policy_answer now f opp act v src ps)"
  unfolding builds_ok_def
  by (rule exI [of _ "Paused src"], simp, rule exI [of _ "Asserted s v"], simp,
      rule exI [of _ "ByPolicy v src ps"], simp)

lemma identity_builds:
  assumes "ontology_type f = IDENTITY"
  shows "builds_ok now tg pol f opp act (identity_answer now tg f opp act)"
proof (cases "verified_of [''identity.name'', ''identity.full_name''] tg")
  case Nil
  then show ?thesis by (simp add: identity_answer_def builds_ok_intros)
next
  case (Cons s r)
  show ?thesis
    unfolding identity_answer_def Cons list.case Let_def
    using assms verified_of_Cons [OF Cons] by (intro builds_ok_intros(2)) auto
qed

lemma case_list_builds:
  assumes "xs = [] \<Longrightarrow> builds_ok now tg pol f opp act a"
    and "\<And>s r. xs = s # r \<Longrightarrow> builds_ok now tg pol f opp act (b s)"
  shows "builds_ok now tg pol f opp act (case xs of [] \<Rightarrow> a | s # r \<Rightarrow> b s)"
  using assms by (cases xs) simp_all

lemma fact_builds:
  assumes "verified_of preds tg = s # r"
    and "\<And>s. predicate s \<in> set preds \<Longrightarrow> supports (ontology_type f) s (v s)"
  shows "builds_ok now tg pol f opp act (asserted_answer now f opp act s (v s))"
  using verified_of_Cons [OF assms(1)] assms(2) by (intro builds_ok_intros) auto

lemma if_builds:
  assumes "c \<Longrightarrow> builds_ok now tg pol f opp act a" "\<not> c \<Longrightarrow> builds_ok now tg pol f opp act b"
  shows "builds_ok now tg pol f opp act (if c then a else b)"
  using assms by simp

lemma if_fact_builds:
  assumes "(if c then verified_of preds tg else []) = s # r"
    and "\<And>s. predicate s \<in> set preds \<Longrightarrow> supports (ontology_type f) s (v s)"
  shows "builds_ok now tg pol f opp act (asserted_answer now f opp act s (v s))"
  using assms by (cases c) (simp_all add: fact_builds)

lemmas builds_rules = builds_ok_intros(1) case_list_builds if_builds

lemma contact_builds:
  assumes "ontology_type f = CONTACT"
  shows "builds_ok now tg pol f opp act (contact_answer now tg f opp act)"
  unfolding contact_answer_def Let_def
  by (intro builds_rules; (erule fact_builds if_fact_builds); simp add: assms; blast)

lemma links_builds:
  assumes "ontology_type f = LINKS"
  shows "builds_ok now tg pol f opp act (links_answer now tg f opp act)"
  unfolding links_answer_def Let_def
  by (intro builds_rules; (erule if_fact_builds); simp add: assms; blast)

lemma location_builds:
  assumes "ontology_type f = LOCATION_PREFERENCE"
  shows "builds_ok now tg pol f opp act (location_preference_answer now tg f opp act)"
  unfolding location_preference_answer_def
  by (intro builds_rules; (erule fact_builds); simp add: assms)

lemma authorization_builds:
  assumes "authorizations p t tg = s # r" "ontology_type f = WORK_AUTHORIZATION"
    and "v = (case p of POSITIVE \<Rightarrow> ''Yes'' | NEGATIVE \<Rightarrow> ''No'')"
  shows "builds_ok now tg pol f opp act (asserted_answer now f opp act s v)"
  using authorizations_Cons [OF assms(1)] assms(2,3)
  by (cases p) (auto intro!: builds_ok_intros)

lemma work_builds:
  assumes "ontology_type f = WORK_AUTHORIZATION"
  shows "builds_ok now tg pol f opp act (work_authorization_answer now tg f opp act)"
proof (cases "target_jurisdiction (normalized_label f)")
  case None
  then show ?thesis by (simp add: work_authorization_answer_def builds_ok_intros)
next
  case (Some t)
  show ?thesis
    unfolding work_authorization_answer_def Some option.case
    by (intro builds_rules; erule authorization_builds; simp add: assms)
qed

lemma policy_builds:
  "ontology_type f = SPONSORSHIP \<Longrightarrow> builds_ok now tg pol f opp act (sponsorship_answer now pol f opp act)"
  "ontology_type f = AVAILABILITY \<Longrightarrow> builds_ok now tg pol f opp act (availability_answer now pol f opp act)"
  "ontology_type f = COMPENSATION \<Longrightarrow> builds_ok now tg pol f opp act (compensation_answer now pol f opp act)"
  by (auto simp: sponsorship_answer_def availability_answer_def compensation_answer_def Let_def
      intro!: builds_ok_intros split: option.split)

lemma answer_field_builds:
  assumes "ontology_type f \<in> {RESUME_CV, COVER_LETTER_FIELD, ATTACHMENT} \<Longrightarrow> art = None"
  shows "builds_ok now tg pol f opp act (answer_field now tg pol f opp act art)"
  unfolding answer_field_def Let_def
  by (intro if_builds builds_ok_intros(1) identity_builds contact_builds links_builds location_builds
      work_builds policy_builds; simp add: assms attachment_answer_def builds_ok_intros)

text \<open>With an artifact at hand the attachment branch builds a green answer without assertion.\<close>

lemma attachment_raises:
  assumes "ontology_type f \<in> {RESUME_CV, COVER_LETTER_FIELD, ATTACHMENT}"
  shows "\<exists>m. answer_field now tg pol f opp act (Some b) = Inl (ValueError m)"
  using assms
  by (simp add: answer_field_def attachment_answer_def answer_post_init_def base_answer_def Let_def)

lemma answer_field_kind:
  assumes "answer_field now tg pol f opp act art = Inr a"
  obtains k where "Inr a = build now f opp act k" "kind_ok tg pol (ontology_type f) k" "request_ok opp act"
proof -
  have "art = None" if t: "ontology_type f \<in> {RESUME_CV, COVER_LETTER_FIELD, ATTACHMENT}"
  proof (cases art)
    case (Some b)
    from attachment_raises [OF t, of now tg pol opp act b] assms Some show ?thesis by auto
  qed
  from answer_field_builds [of f art now tg pol opp act, OF this] assms obtain k where
    k: "Inr a = build now f opp act k" "kind_ok tg pol (ontology_type f) k"
    by (auto simp: builds_ok_def)
  have "request_ok opp act"
  proof (rule ccontr)
    assume "\<not> request_ok opp act"
    note bad = builder_needs_ids [OF this]
    show False using k(1)
      by (cases k) (use bad in \<open>metis build.simps sum.distinct(1)\<close>)+
  qed
  with k show ?thesis using that by blast
qed

text \<open>The shape of an answer that was returned.\<close>

lemma answer_field_cases:
  assumes "answer_field now tg pol f opp act art = Inr a"
  obtains (paused) "answer_class a = RED" "answer a = None" "disposition a = ''pause''" "request_ok opp act"
  | (asserted) s v where "s \<in> set tg" "verification_status s = VERIFIED" "supports (ontology_type f) s v"
      "answer_class a = GREEN" "answer a = Some v" "assertion_ids a = [assertion_id s]"
      "answer_source a = ''truth_graph:'' @ assertion_id s" "request_ok opp act"
  | (policy) v where "policy_supports (ontology_type f) pol v" "answer_class a = YELLOW"
      "answer a = Some v" "policy_source a \<noteq> []" "assertion_ids a = []" "request_ok opp act"
proof -
  obtain k where k: "Inr a = build now f opp act k" "kind_ok tg pol (ontology_type f) k"
    and ok: "request_ok opp act"
    by (rule answer_field_kind [OF assms])
  show ?thesis
  proof (cases k)
    case (Paused src)
    with builder_results(1) [OF ok, of now f src] k ok paused show ?thesis
      by (auto simp: base_answer_def)
  next
    case (Asserted s v)
    with builder_results(2) [OF ok, of now f s v] k ok asserted [of s v] show ?thesis
      by (auto simp: base_answer_def)
  next
    case (ByPolicy v src ps)
    with builder_results(3) [OF ok, of ps now f v src] k ok policy [of v] show ?thesis
      by (auto simp: base_answer_def)
  qed
qed

lemma answer_field_common:
  assumes "answer_field now tg pol f opp act art = Inr a"
  shows "field_type a = ontology_type f \<and> original_label a = label f \<and>
    ans_opportunity_id a = opp_id opp \<and> ans_action_id a = act"
proof -
  obtain k where k: "Inr a = build now f opp act k" "kind_ok tg pol (ontology_type f) k"
    and ok: "request_ok opp act"
    by (rule answer_field_kind [OF assms])
  show ?thesis
  proof (cases k)
    case (Paused src)
    with builder_results(1) [OF ok, of now f src] k show ?thesis by (auto simp: base_answer_def)
  next
    case (Asserted s v)
    with builder_results(2) [OF ok, of now f s v] k show ?thesis by (auto simp: base_answer_def)
  next
    case (ByPolicy v src ps)
    with builder_results(3) [OF ok, of ps now f v src] k show ?thesis by (auto simp: base_answer_def)
  qed
qed

lemma answer_field_returns:
  assumes "request_ok opp act"
    and "ontology_type f \<in> {RESUME_CV, COVER_LETTER_FIELD, ATTACHMENT} \<Longrightarrow> art = None"
  shows "\<exists>a. answer_field now tg pol f opp act art = Inr a"
proof -
  from answer_field_builds [of f art now tg pol opp act, OF assms(2)] obtain k where
    k: "answer_field now tg pol f opp act art = build now f opp act k" "kind_ok tg pol (ontology_type f) k"
    by (auto simp: builds_ok_def)
  then show ?thesis
    using builder_results [OF assms(1)] by (cases k) (simp_all, metis+)
qed

section \<open>Properties of the engine\<close>

definition demo_assertion :: atomic_assertion where
  "demo_assertion = \<lparr>assertion_id = ''a-1'', predicate = ''identity.name'',
     assertion_value = ''Ada Lovelace'', verification_status = VERIFIED, polarity = POSITIVE\<rparr>"

definition demo_field :: detected_field where
  "demo_field = classify_field ''First Name'' ''first_name'' ''text'' [] True ''first_name'' 0"

definition demo_answer :: application_answer where
  "demo_answer = \<lparr>ans_opportunity_id = ''opp-1'', ans_content_hash = ''c1'', ans_action_id = ''act-1'',
     field_type = IDENTITY, original_label = ''First Name'', normalized_question = ''first name'',
     answer = Some ''Ada'', answer_class = GREEN, answer_source = ''truth_graph:a-1'',
     assertion_ids = [''a-1''], policy_source = [], generated_claim_ids = [], ans_artifact_ids = [],
     confidence = 1, timestamp = ''t0'', disposition = ''auto_fill''\<rparr>"

lemma demo_field_eq:
  "demo_field = \<lparr>field_id = ''first_name'', fld_name = ''first_name'', html_type = ''text'',
     label = ''First Name'', normalized_label = ''first name'', ontology_type = IDENTITY,
     required = True, options = [], step_index = 0, sensitivity_class = GREEN\<rparr>"
  unfolding demo_field_def by code_simp

lemma demo_answered:
  "answer_field ''t0'' [demo_assertion] TailoringPolicy demo_field demo_opp ''act-1'' None = Inr demo_answer"
  unfolding demo_field_eq by code_simp



text \<open>open world for work authorization. For a question that names a known jurisdiction the
  answer is Yes or No exactly as a verified assertion of that polarity about that jurisdiction says,
  a positive one first; without any such assertion, or without a jurisdiction, it is left to a human.\<close>

theorem work_authorization_open_world:
  assumes "request_ok opp act" "ontology_type f = WORK_AUTHORIZATION"
  shows "\<exists>a. answer_field now tg pol f opp act art = Inr a \<and>
    answer a =
      (case target_jurisdiction (normalized_label f) of
         None \<Rightarrow> None
       | Some t \<Rightarrow>
           if authorizations POSITIVE t tg \<noteq> [] then Some ''Yes''
           else if authorizations NEGATIVE t tg \<noteq> [] then Some ''No'' else None) \<and>
    (answer a = None \<longleftrightarrow> answer_class a = RED)"
proof -
  note b = builder_results(1) [OF assms(1)] builder_results(2) [OF assms(1)]
  have e: "answer_field now tg pol f opp act art = work_authorization_answer now tg f opp act"
    using assms(2) by (simp add: answer_field_def)
  show ?thesis
  proof (cases "target_jurisdiction (normalized_label f)")
    case None
    with b(1) [of now f "''unresolved_work_authorization''"] e show ?thesis
      by (auto simp: work_authorization_answer_def base_answer_def)
  next
    case (Some t)
    show ?thesis
    proof (cases "authorizations POSITIVE t tg")
      case (Cons s r)
      with Some b(2) [of now f s "''Yes''"] e show ?thesis
        by (auto simp: work_authorization_answer_def base_answer_def)
    next
      case pos: Nil
      show ?thesis
      proof (cases "authorizations NEGATIVE t tg")
        case (Cons s r)
        with Some pos b(2) [of now f s "''No''"] e show ?thesis
          by (auto simp: work_authorization_answer_def base_answer_def)
      next
        case Nil
        with Some pos b(1) [of now f "''unresolved_work_authorization''"] e show ?thesis
          by (auto simp: work_authorization_answer_def base_answer_def)
      qed
    qed
  qed
qed

definition demo_work_field :: detected_field where
  "demo_work_field = demo_field\<lparr>ontology_type := WORK_AUTHORIZATION,
     normalized_label := ''are you legally authorized to work in egypt''\<rparr>"

theorem work_authorization_open_world_witness:
  "\<exists>a. answer_field ''t0'' [] TailoringPolicy demo_work_field demo_opp ''act-1'' None = Inr a \<and>
     answer a = None"
  using work_authorization_open_world [of demo_opp "''act-1''" demo_work_field "''t0''" "[]" TailoringPolicy None]
  by (auto simp: request_ok_def demo_opp_def demo_work_field_def authorizations_def split: option.splits)

text \<open>questions classified as sensitive (demographic, narrative, legal, clearance, conflict of
  interest, unknown) are never answered, whatever the truth graph and the policy hold; and the
  classifier gives every field it does not recognise to that class.\<close>

theorem sensitive_fields_never_answered:
  assumes "f = classify_field lbl nm ft os rq fid st" "sensitivity_class f = RED"
    and "opp_id opp \<noteq> []" "act \<noteq> []"
  shows "\<exists>a. answer_field now tg pol f opp act art = Inr a \<and> answer a = None \<and>
    answer_class a = RED \<and> disposition a = ''pause''"
proof -
  have c: "sensitivity_class f = class_of_type (ontology_type f)"
    by (simp add: assms(1) classify_field_def Let_def classify_text_class)
  have t: "ontology_type f \<notin> {RESUME_CV, COVER_LETTER_FIELD, LOCATION_PREFERENCE}"
    using classify_text_values [of ft "normalize_label lbl @ '' '' @ normalize_label nm"]
    by (auto simp: assms(1) classify_field_def Let_def)
  have "answer_field now tg pol f opp act art = pause_answer now f opp act ''red_question_policy''"
    using c t assms(2) by (cases "ontology_type f") (simp_all add: answer_field_def class_of_type.simps)
  with builder_results(1) [of opp act now f "''red_question_policy''"] assms(3,4) show ?thesis
    by (auto simp: request_ok_def base_answer_def)
qed

theorem sensitive_fields_never_answered_witness:
  "\<exists>a. answer_field ''t0'' [demo_assertion] TailoringPolicy
        (classify_field ''Gender'' ''gender'' ''text'' [] True ''g'' 0) demo_opp ''act-1'' None = Inr a \<and>
     answer a = None"
proof -
  have "sensitivity_class (classify_field ''Gender'' ''gender'' ''text'' [] True ''g'' 0) = RED"
    by code_simp
  from sensitive_fields_never_answered [OF refl this, of demo_opp "''act-1''" "''t0''"
      "[demo_assertion]" TailoringPolicy None]
  show ?thesis by (auto simp: demo_opp_def)
qed

text \<open>the engine returns an answer for every field of every request with identifiers, except for
  attachment fields when an artifact is bound: there it always raises, because the answer it builds
  is green without an assertion, which the answer's own constructor rejects.\<close>

theorem answer_field_returns_iff:
  assumes "opp_id opp \<noteq> []" "act \<noteq> []"
  shows "(\<exists>a. answer_field now tg pol f opp act art = Inr a) \<longleftrightarrow>
    \<not> (ontology_type f \<in> {RESUME_CV, COVER_LETTER_FIELD, ATTACHMENT} \<and> art \<noteq> None)"
proof (cases "ontology_type f \<in> {RESUME_CV, COVER_LETTER_FIELD, ATTACHMENT} \<and> art \<noteq> None")
  case True
  then obtain b where b: "art = Some b" by blast
  from attachment_raises [of f now tg pol opp act b] True b show ?thesis by auto
next
  case False
  with answer_field_returns [of opp act f art now tg pol] assms show ?thesis
    by (auto simp: request_ok_def)
qed

theorem answer_field_returns_iff_witness:
  "\<not> (\<exists>a. answer_field ''t0'' [] TailoringPolicy (demo_field\<lparr>ontology_type := ATTACHMENT\<rparr>) demo_opp ''act-1''
        (Some demo_bound) = Inr a)"
  using answer_field_returns_iff [of demo_opp "''act-1''" "''t0''" "[]" TailoringPolicy
      "demo_field\<lparr>ontology_type := ATTACHMENT\<rparr>" "Some demo_bound"]
  by (simp add: demo_opp_def)

end
