(* ===== verification/Outbound_Registry.thy ===== *)
theory Outbound_Registry
  imports Outbound_Models
begin

text \<open>
  \<open>outbound/registry.py\<close>: the per-source action policies with their fail-closed default, and
  the adapter graduation registry, which re-checks the evidence file behind a submit-capable
  record every time the record is read.
\<close>

section \<open>Source action policies\<close>

record action_registry =
  policies :: "string \<rightharpoonup> SourceActionPolicy"
  reg_version :: string

definition DEFAULT_POLICIES :: "string \<rightharpoonup> SourceActionPolicy" where
  "DEFAULT_POLICIES = map_of [
     (''greenhouse'', SUBMIT_ALLOWED), (''lever'', SUBMIT_ALLOWED), (''ashby'', SUBMIT_ALLOWED),
     (''generic_form'', BROWSER_FILL_ALLOWED), (''ungm'', MANUAL_ONLY),
     (''world_bank'', MANUAL_ONLY), (''eu_ted'', MANUAL_ONLY)]"

definition SourceActionRegistry ::
  "(string \<rightharpoonup> SourceActionPolicy) option \<Rightarrow> string \<Rightarrow> action_registry" where
  "SourceActionRegistry pols ver =
     \<lparr>policies = (case pols of None \<Rightarrow> DEFAULT_POLICIES | Some p \<Rightarrow> DEFAULT_POLICIES ++ p),
      reg_version = ver\<rparr>"

text \<open>\<open>s.split(":")[0] if ":" in s else s\<close>.\<close>

definition source_prefix :: "string \<Rightarrow> string" where
  "source_prefix s = (if CHR '':'' \<in> set s then py_split_head (CHR '':'') s else s)"

definition get_policy :: "string \<Rightarrow> action_registry \<Rightarrow> SourceActionPolicy" where
  "get_policy sid reg =
     (case policies reg sid of
        Some p \<Rightarrow> p
      | None \<Rightarrow> (case policies reg (source_prefix sid) of Some p \<Rightarrow> p | None \<Rightarrow> PROHIBITED))"

definition get_policy_version :: "(string \<Rightarrow> string) \<Rightarrow> string \<Rightarrow> action_registry \<Rightarrow> string" where
  "get_policy_version sha sid reg =
     take 16 (sha (reg_version reg @ '':'' @ sid @ '':'' @ policy_value (get_policy sid reg)))"

definition set_policy :: "string \<Rightarrow> SourceActionPolicy \<Rightarrow> action_registry \<Rightarrow> action_registry" where
  "set_policy sid p reg = reg\<lparr>policies := (policies reg)(sid \<mapsto> p)\<rparr>"

section \<open>Graduation records and their evidence\<close>

text \<open>
  The evidence directory: for an adapter, the bytes of its file and what \<open>json.loads\<close> makes
  of them (malformed text also stands for a read or decoding error).
\<close>

type_synonym evidence_dir = "string \<rightharpoonup> string \<times> json_text"

type_synonym adapter_registry = "string \<rightharpoonup> graduation_record"

definition compute_evidence_hash :: "(string \<Rightarrow> string) \<Rightarrow> evidence_dir \<Rightarrow> string \<Rightarrow> string \<times> bool" where
  "compute_evidence_hash sha files aid =
     (case files aid of
        None \<Rightarrow> ([], False)
      | Some (content, doc) \<Rightarrow>
          if content = [] then ([], False)
          else (case json_loads doc of
                  Inr (JObj fs) \<Rightarrow> if fs = [] then ([], False) else (sha content, True)
                | _ \<Rightarrow> ([], False)))"

definition register_adapter :: "graduation_record \<Rightarrow> adapter_registry \<Rightarrow> adapter_registry" where
  "register_adapter r reg = reg(adapter_id r \<mapsto> r)"

definition DEFAULT_ADAPTERS :: "(string \<times> string list) list" where
  "DEFAULT_ADAPTERS = [
     (''greenhouse'', [''greenhouse'']), (''lever'', [''lever'']), (''ashby'', [''ashby'']),
     (''generic_form'', [''generic_form'', ''web'']),
     (''procurement_package'', [''ungm'', ''world_bank'', ''eu_ted'', ''procurement'']),
     (''freelance_proposal'', [''direct'', ''freelance''])]"

definition default_graduation ::
  "(string \<Rightarrow> string) \<Rightarrow> evidence_dir \<Rightarrow> string \<times> string list \<Rightarrow> graduation_record" where
  "default_graduation sha files ac =
     (case compute_evidence_hash sha files (fst ac) of
        (h, valid) \<Rightarrow>
          \<lparr>adapter_id = fst ac, grad_version = ''1.0.0'',
           lifecycle_state = (if valid then SUBMIT_ELIGIBLE else ASSISTED_VERIFIED),
           source_compatibility = snd ac, evidence_hash = h,
           verified_at = (if valid then ''2026-08-30T00:00:00Z'' else []),
           submit_enabled_by_founder = False\<rparr>)"

definition AdapterRegistry :: "(string \<Rightarrow> string) \<Rightarrow> evidence_dir \<Rightarrow> adapter_registry" where
  "AdapterRegistry sha files =
     fold (\<lambda>ac. register_adapter (default_graduation sha files ac)) DEFAULT_ADAPTERS Map.empty"

text \<open>The check both the getter and \<open>enable_submit\<close> make of a record against its file.\<close>

definition evidence_matches :: "(string \<Rightarrow> string) \<Rightarrow> evidence_dir \<Rightarrow> string \<Rightarrow> graduation_record \<Rightarrow> bool" where
  "evidence_matches sha files aid r \<longleftrightarrow>
     snd (compute_evidence_hash sha files aid) \<and> evidence_hash r \<noteq> [] \<and>
     fst (compute_evidence_hash sha files aid) = evidence_hash r"

definition get_graduation_record ::
  "(string \<Rightarrow> string) \<Rightarrow> evidence_dir \<Rightarrow> string \<Rightarrow> adapter_registry
     \<Rightarrow> graduation_record option \<times> adapter_registry" where
  "get_graduation_record sha files aid reg =
     (case reg aid of
        None \<Rightarrow> (None, reg)
      | Some r \<Rightarrow>
          if lifecycle_state r \<in> {SUBMIT_ELIGIBLE, SUBMIT_ENABLED} \<and> \<not> evidence_matches sha files aid r
          then (let d = r\<lparr>lifecycle_state := ASSISTED_VERIFIED, evidence_hash := [],
                          verified_at := [], submit_enabled_by_founder := False\<rparr>
                in (Some d, reg(aid \<mapsto> d)))
          else (Some r, reg))"

definition enable_submit ::
  "(string \<Rightarrow> string) \<Rightarrow> evidence_dir \<Rightarrow> string \<Rightarrow> adapter_registry \<Rightarrow> unit result \<times> adapter_registry" where
  "enable_submit sha files aid reg =
     (case get_graduation_record sha files aid reg of
        (None, reg1) \<Rightarrow> (Inl (KeyError (''Adapter '' @ quoted aid @ '' is not registered'')), reg1)
      | (Some r, reg1) \<Rightarrow>
          if lifecycle_state r \<noteq> SUBMIT_ELIGIBLE \<or> \<not> evidence_matches sha files aid r
          then (Inl (ValueError (''Adapter '' @ quoted aid @
                  '' is not SUBMIT_ELIGIBLE with valid graduation evidence'')), reg1)
          else (Inr (), reg1(aid \<mapsto> r\<lparr>lifecycle_state := SUBMIT_ENABLED,
                                     submit_enabled_by_founder := True\<rparr>)))"

definition disable_submit ::
  "(string \<Rightarrow> string) \<Rightarrow> evidence_dir \<Rightarrow> string \<Rightarrow> adapter_registry \<Rightarrow> unit result \<times> adapter_registry" where
  "disable_submit sha files aid reg =
     (case get_graduation_record sha files aid reg of
        (None, reg1) \<Rightarrow> (Inl (KeyError (''Adapter '' @ quoted aid @ '' is not registered'')), reg1)
      | (Some r, reg1) \<Rightarrow>
          (let valid = snd (compute_evidence_hash sha files aid) in
           (Inr (), reg1(aid \<mapsto> r\<lparr>
              lifecycle_state := (if valid \<and> evidence_hash r \<noteq> [] then SUBMIT_ELIGIBLE else ASSISTED_VERIFIED),
              evidence_hash := (if valid then evidence_hash r else []),
              verified_at := (if valid then verified_at r else []),
              submit_enabled_by_founder := False\<rparr>))))"

section \<open>Lemmas\<close>

lemma get_policy_unknown:
  assumes "policies reg sid = None" "policies reg (source_prefix sid) = None"
  shows "get_policy sid reg = PROHIBITED"
  using assms by (simp add: get_policy_def)

lemma source_prefix_tagged:
  assumes "CHR '':'' \<notin> set p"
  shows "source_prefix (p @ '':'' @ rest) = p"
  using assms py_split_head_append [of "CHR '':''" p rest] by (simp add: source_prefix_def)

lemma evidence_matchesD:
  assumes "evidence_matches sha files aid r"
  shows "\<exists>content fs. files aid = Some (content, JsonText (JObj fs)) \<and> content \<noteq> [] \<and> fs \<noteq> [] \<and>
    evidence_hash r = sha content"
proof (cases "files aid")
  case None
  with assms show ?thesis by (simp add: evidence_matches_def compute_evidence_hash_def)
next
  case (Some cd)
  obtain content doc where cd: "cd = (content, doc)" by force
  show ?thesis
  proof (cases doc)
    case (JsonText j)
    with assms Some cd show ?thesis
      by (cases j)
        (simp_all add: evidence_matches_def compute_evidence_hash_def split: if_split_asm)
  qed (use assms Some cd in \<open>simp_all add: evidence_matches_def compute_evidence_hash_def split: if_split_asm\<close>)
qed

text \<open>The getter never shows a submit-capable record whose evidence does not match now.\<close>

lemma get_graduation_submit_capable:
  assumes "get_graduation_record sha files aid reg = (Some r, reg')"
    and "lifecycle_state r \<in> {SUBMIT_ELIGIBLE, SUBMIT_ENABLED}"
  shows "evidence_matches sha files aid r" "reg aid = Some r" "reg' = reg"
  using assms
  by (auto simp: get_graduation_record_def Let_def split: option.split_asm if_split_asm)

lemma get_graduation_result:
  "fst (get_graduation_record sha files aid reg) = (snd (get_graduation_record sha files aid reg)) aid"
  by (simp add: get_graduation_record_def Let_def split: option.split)

lemma get_graduation_others:
  "b \<noteq> aid \<Longrightarrow> snd (get_graduation_record sha files aid reg) b = reg b"
  by (simp add: get_graduation_record_def Let_def split: option.split)

lemma get_graduation_idem:
  "get_graduation_record sha files aid (snd (get_graduation_record sha files aid reg)) =
     get_graduation_record sha files aid reg"
  by (simp add: get_graduation_record_def Let_def split: option.split)

text \<open>
  Founder authorisation: a record that is \<open>SUBMIT_ENABLED\<close> carries the founder flag, and no
  other record does. The registry's own operations keep this; \<open>register_adapter\<close> keeps it
  when the record it is given satisfies it.
\<close>

definition founder_ok :: "graduation_record \<Rightarrow> bool" where
  "founder_ok r \<longleftrightarrow> (lifecycle_state r = SUBMIT_ENABLED \<longleftrightarrow> submit_enabled_by_founder r)"

definition registry_ok :: "adapter_registry \<Rightarrow> bool" where
  "registry_ok reg \<longleftrightarrow> (\<forall>aid r. reg aid = Some r \<longrightarrow> founder_ok r)"

lemma registry_ok_upd [inv_intros]:
  "registry_ok reg \<Longrightarrow> founder_ok r \<Longrightarrow> registry_ok (reg(aid \<mapsto> r))"
  by (simp add: registry_ok_def)

lemma registry_ok_get [inv_intros]:
  "registry_ok reg \<Longrightarrow> registry_ok (snd (get_graduation_record sha files aid reg))"
  by (auto simp: get_graduation_record_def Let_def founder_ok_def split: option.split
      intro!: registry_ok_upd)

lemma get_graduation_founder_ok:
  assumes "registry_ok reg" "fst (get_graduation_record sha files aid reg) = Some r"
  shows "founder_ok r"
  using registry_ok_get [OF assms(1), of sha files aid] assms(2)
  by (auto simp: registry_ok_def get_graduation_result)

lemma registry_ok_enable [inv_intros]:
  assumes "registry_ok reg"
  shows "registry_ok (snd (enable_submit sha files aid reg))"
proof (cases "get_graduation_record sha files aid reg")
  case (Pair o1 reg1)
  with registry_ok_get [OF assms, of sha files aid] have "registry_ok reg1" by simp
  with Pair show ?thesis
    by (auto simp: enable_submit_def founder_ok_def split: option.split intro!: registry_ok_upd)
qed

lemma registry_ok_disable [inv_intros]:
  assumes "registry_ok reg"
  shows "registry_ok (snd (disable_submit sha files aid reg))"
proof (cases "get_graduation_record sha files aid reg")
  case (Pair o1 reg1)
  with registry_ok_get [OF assms, of sha files aid] have "registry_ok reg1" by simp
  with Pair show ?thesis
    by (auto simp: disable_submit_def Let_def founder_ok_def split: option.split intro!: registry_ok_upd)
qed

lemma default_graduation_ok: "founder_ok (default_graduation sha files ac)"
  by (simp add: default_graduation_def founder_ok_def split: prod.split)

lemma registry_ok_fold:
  "registry_ok reg \<Longrightarrow>
   registry_ok (fold (\<lambda>ac. register_adapter (default_graduation sha files ac)) acs reg)"
  by (induction acs arbitrary: reg)
    (simp_all add: register_adapter_def default_graduation_ok registry_ok_upd)

lemma registry_ok_init: "registry_ok (AdapterRegistry sha files)"
  unfolding AdapterRegistry_def
  by (rule registry_ok_fold) (simp add: registry_ok_def)

section \<open>Registry properties\<close>

definition demo_files :: evidence_dir where
  "demo_files = [''greenhouse'' \<mapsto> (''evidence'', JsonText (JObj [(''runs'', JInt 3)]))]"

definition demo_enabled :: graduation_record where
  "demo_enabled = \<lparr>adapter_id = ''greenhouse'', grad_version = ''1.0.0'', lifecycle_state = SUBMIT_ENABLED,
     source_compatibility = [''greenhouse''], evidence_hash = ''evidence'',
     verified_at = ''2026-08-30T00:00:00Z'', submit_enabled_by_founder = True\<rparr>"

lemmas demo_registry_simps = demo_files_def demo_enabled_def evidence_matches_def
  compute_evidence_hash_def get_graduation_record_def

text \<open>C28: submit capability always rests on present evidence. Whenever a record is read as
  \<open>SUBMIT_ELIGIBLE\<close> or \<open>SUBMIT_ENABLED\<close>, the adapter's evidence file exists at that moment, is a
  non-empty JSON object, and its SHA-256 digest is the recorded one.\<close>

theorem submit_capability_needs_evidence:
  assumes "get_graduation_record sha files aid reg = (Some r, reg')"
    and "lifecycle_state r \<in> {SUBMIT_ELIGIBLE, SUBMIT_ENABLED}"
  shows "\<exists>content fs. files aid = Some (content, JsonText (JObj fs)) \<and> content \<noteq> [] \<and> fs \<noteq> [] \<and>
    evidence_hash r = sha content"
  by (rule evidence_matchesD, rule get_graduation_submit_capable(1) [OF assms])

theorem submit_capability_needs_evidence_witness:
  "\<exists>content fs. demo_files ''greenhouse'' = Some (content, JsonText (JObj fs)) \<and> content \<noteq> [] \<and> fs \<noteq> [] \<and>
     evidence_hash demo_enabled = id content"
  by (rule submit_capability_needs_evidence [of id demo_files "''greenhouse''"
        "[''greenhouse'' \<mapsto> demo_enabled]" demo_enabled "[''greenhouse'' \<mapsto> demo_enabled]"])
    (simp_all add: demo_registry_simps)

text \<open>a downgrade is durable. Once a submit-capable record has been read while its evidence did
  not match, it is \<open>ASSISTED_VERIFIED\<close> without founder authorisation, reading it again under any
  later state of the evidence directory does not restore it, and enabling submission fails.\<close>

theorem downgrade_is_durable:
  assumes "reg aid = Some r" "lifecycle_state r \<in> {SUBMIT_ELIGIBLE, SUBMIT_ENABLED}"
    and "\<not> evidence_matches sha files aid r"
    and "reg' = snd (get_graduation_record sha files aid reg)"
  shows "\<exists>d. get_graduation_record sha later aid reg' = (Some d, reg') \<and>
    lifecycle_state d = ASSISTED_VERIFIED \<and> \<not> submit_enabled_by_founder d \<and>
    (\<exists>e. fst (enable_submit sha later aid reg') = Inl e)"
  using assms
  by (auto simp: get_graduation_record_def enable_submit_def Let_def)

theorem downgrade_is_durable_witness:
  "\<exists>d. get_graduation_record id demo_files ''greenhouse''
        (snd (get_graduation_record id Map.empty ''greenhouse'' [''greenhouse'' \<mapsto> demo_enabled])) =
      (Some d, snd (get_graduation_record id Map.empty ''greenhouse'' [''greenhouse'' \<mapsto> demo_enabled])) \<and>
     lifecycle_state d = ASSISTED_VERIFIED"
  using downgrade_is_durable [of "[''greenhouse'' \<mapsto> demo_enabled]" "''greenhouse''" demo_enabled id
      Map.empty _ demo_files, OF _ _ _ refl]
  by (auto simp: demo_registry_simps)

text \<open>a kill by disabling does not always lower an adapter. An adapter registered as
  \<open>DEPRECATED\<close>, whose evidence file is valid, is made \<open>SUBMIT_ELIGIBLE\<close> by \<open>disable_submit\<close>, so that
  \<open>enable_submit\<close> then accepts it.\<close>

theorem disable_submit_promotes:
  "let old = demo_enabled\<lparr>lifecycle_state := DEPRECATED, submit_enabled_by_founder := False\<rparr>;
       reg1 = snd (disable_submit id demo_files ''greenhouse'' [''greenhouse'' \<mapsto> old])
   in fst (enable_submit id demo_files ''greenhouse'' [''greenhouse'' \<mapsto> old]) \<noteq> Inr () \<and>
      map_option lifecycle_state (reg1 ''greenhouse'') = Some SUBMIT_ELIGIBLE \<and>
      fst (enable_submit id demo_files ''greenhouse'' reg1) = Inr ()"
  by (simp add: disable_submit_def enable_submit_def demo_registry_simps)

end
