(* ===== verification/Authority.thy ===== *)
theory Authority
  imports Outbound_Registry Artifact_Selector
begin

text \<open>
  \<open>outbound/authority.py\<close>: the kill switch and the gate \<open>evaluate_action\<close> that every outbound
  action passes. The class variable of \<open>GlobalKillSwitch\<close>, the two registries and the evidence
  directory are explicit state; reading a graduation record may downgrade it, so the adapter
  registry is returned too.
\<close>

section \<open>State\<close>

record authority_env =
  kill_switch_enabled :: bool
  source_registry :: action_registry
  adapters :: adapter_registry
  evidence_files :: evidence_dir

definition kill_switch_disable :: "authority_env \<Rightarrow> authority_env" where
  "kill_switch_disable e = e\<lparr>kill_switch_enabled := False\<rparr>"

definition kill_switch_enable :: "authority_env \<Rightarrow> authority_env" where
  "kill_switch_enable e = e\<lparr>kill_switch_enabled := True\<rparr>"

text \<open>The arguments of \<open>evaluate_action\<close>.\<close>

record action_request =
  req_opportunity :: opportunity
  req_artifact :: "any_artifact option"
  req_answers :: "application_answer list"
  req_mode :: ExecutionMode
  req_adapter :: string
  req_workspace :: string
  req_candidate :: string
  req_qualification :: QualificationDecision
  req_truth :: truth_graph
  req_policy :: "tailoring_policy option"
  req_duplicate :: bool
  req_captcha :: bool
  req_mfa :: bool
  req_unresolved :: nat

section \<open>The gates\<close>

text \<open>Gates 1 to 5: kill switch, challenges, duplicates and qualification.\<close>

definition precondition_gates ::
  "authority_env \<Rightarrow> action_request \<Rightarrow> (ActionAuthorityDecision \<times> string list) option" where
  "precondition_gates env q =
     (if \<not> kill_switch_enabled env
      then Some (BLOCK, [''Global side-effect kill switch is ACTIVE; all outbound actions prohibited''])
      else if req_captcha q
      then Some (BLOCK, [''CAPTCHA challenge detected; automatic bypass is strictly prohibited''])
      else if req_mfa q
      then Some (PAUSE_FOR_REVIEW, [''MFA challenge detected; pausing for human interactive login''])
      else if req_duplicate q
      then Some (BLOCK, [''Duplicate submission detected in idempotency ledger''])
      else if req_qualification q = INELIGIBLE
      then Some (BLOCK, [''Opportunity is marked '' @ qualification_value (req_qualification q) @
             ''; outbound action prohibited''])
      else if req_qualification q = UNCERTAIN
      then Some (PAUSE_FOR_REVIEW,
             [''Opportunity qualification is UNCERTAIN; requires human review before action''])
      else None)"

text \<open>Gate 6: the source's policy against the execution mode.\<close>

definition source_policy_gate ::
  "authority_env \<Rightarrow> action_request \<Rightarrow> (ActionAuthorityDecision \<times> string list) option" where
  "source_policy_gate env q =
     (let src = opp_source (req_opportunity q); p = get_policy src (source_registry env) in
      if p = PROHIBITED
      then Some (BLOCK, [''Source '' @ quoted src @ '' policy is PROHIBITED''])
      else if p = MANUAL_ONLY \<and> req_mode q \<noteq> DRY_RUN
      then Some (BLOCK, [''Source '' @ quoted src @ '' policy is MANUAL_ONLY; automated actions blocked''])
      else if p = DISCOVERY_ALLOWED
      then Some (BLOCK, [''Source '' @ quoted src @
             '' policy is DISCOVERY_ALLOWED; prepare, fill, and submit prohibited''])
      else if req_mode q = ASSISTED \<and> p \<notin> {BROWSER_FILL_ALLOWED, SUBMIT_ALLOWED, API_ACTION_ALLOWED}
      then Some (BLOCK, [''Source policy '' @ quoted (policy_value p) @ '' prohibits assisted fill''])
      else if req_mode q = CONTROLLED_SUBMIT \<and> p \<notin> {SUBMIT_ALLOWED, API_ACTION_ALLOWED}
      then Some (BLOCK, [''Source policy '' @ quoted (policy_value p) @ '' prohibits controlled submit''])
      else None)"

text \<open>Gate 7: the adapter is registered and compatible with the source.\<close>

definition adapter_compatible :: "graduation_record \<Rightarrow> string \<Rightarrow> bool" where
  "adapter_compatible r src =
     list_ex (\<lambda>c. py_in c src \<or> py_in c (source_prefix src)) (source_compatibility r)"

definition adapter_gate ::
  "graduation_record option \<Rightarrow> action_request \<Rightarrow> (ActionAuthorityDecision \<times> string list) option" where
  "adapter_gate g q =
     (case g of
        None \<Rightarrow> Some (BLOCK, [''Adapter '' @ quoted (req_adapter q) @
                  '' is not registered in authoritative AdapterRegistry''])
      | Some r \<Rightarrow>
          if \<not> adapter_compatible r (opp_source (req_opportunity q))
          then Some (BLOCK, [''Adapter '' @ quoted (req_adapter q) @ '' is incompatible with source '' @
                 quoted (opp_source (req_opportunity q))])
          else None)"

text \<open>Gate 8: ownership, binding and validity of the artifact.\<close>

definition artifact_gate ::
  "validator \<Rightarrow> action_request \<Rightarrow> (ActionAuthorityDecision \<times> string list) option" where
  "artifact_gate validate q =
     (let opp = req_opportunity q in
      case req_artifact q of
        None \<Rightarrow> None
      | Some a \<Rightarrow>
          (let inner = inner_artifact a;
               owner_error =
                 (case a of
                    Raw _ \<Rightarrow>
                      if req_mode q \<in> {ASSISTED, CONTROLLED_SUBMIT}
                      then Some ''Raw unowned TailoredArtifact prohibited; BoundArtifact with explicit candidate_id and workspace required''
                      else None
                  | Bound b \<Rightarrow>
                      if bound_candidate b \<noteq> req_candidate q
                      then Some (''Artifact candidate '' @ quoted (bound_candidate b) @
                             '' does not match requested candidate '' @ quoted (req_candidate q))
                      else if bound_workspace b \<noteq> req_workspace q
                      then Some (''Artifact workspace '' @ quoted (bound_workspace b) @
                             '' does not match requested workspace '' @ quoted (req_workspace q))
                      else None)
           in case owner_error of
                Some e \<Rightarrow> Some (BLOCK, [e])
              | None \<Rightarrow>
                  if art_opportunity_id inner \<noteq> opp_id opp
                  then Some (BLOCK, [''Artifact opportunity ID '' @ quoted (art_opportunity_id inner) @
                         '' does not match target opportunity ID '' @ quoted (opp_id opp)])
                  else if art_content_hash inner \<noteq> content_hash opp
                  then Some (BLOCK, [''Artifact opportunity content hash '' @
                         quoted (art_content_hash inner) @
                         '' indicates stale artifact for target opportunity '' @
                         quoted (content_hash opp)])
                  else (case validate inner (req_truth q) opp (req_policy q) of
                          (valid, errs) \<Rightarrow>
                            if \<not> valid
                            then Some (BLOCK, map (\<lambda>e. ''Artifact validation failed: '' @ e) errs)
                            else None)))"

text \<open>Gates 9 to 11: what the mode allows, graduation, red answers and open questions.\<close>

definition unresolved_reason :: "nat \<Rightarrow> string" where
  "unresolved_reason n = nat_str n @ '' mandatory question(s) unresolved''"

definition mode_gate ::
  "graduation_record \<Rightarrow> action_request \<Rightarrow> ActionAuthorityDecision \<times> string list" where
  "mode_gate r q =
     (case req_mode q of
        DRY_RUN \<Rightarrow> (ALLOW_PREPARE, [''Dry run plan allowed''])
      | ASSISTED \<Rightarrow>
          if req_unresolved q > 0 then (PAUSE_FOR_REVIEW, [unresolved_reason (req_unresolved q)])
          else (ALLOW_FILL, [''Assisted fill allowed; submit prohibited''])
      | CONTROLLED_SUBMIT \<Rightarrow>
          (let red = filter (\<lambda>a. answer_class a = RED) (req_answers q) in
           if lifecycle_state r \<noteq> SUBMIT_ENABLED \<or> \<not> submit_enabled_by_founder r
           then (BLOCK, [''Adapter '' @ quoted (req_adapter q) @
                  '' requires SUBMIT_ENABLED lifecycle state and explicit founder authorization''])
           else if red \<noteq> []
           then (PAUSE_FOR_REVIEW, [''Found '' @ nat_str (length red) @
                  '' Red answer(s); human review required''])
           else if req_unresolved q > 0
           then (PAUSE_FOR_REVIEW, [unresolved_reason (req_unresolved q)])
           else (ALLOW_SUBMIT, [''Controlled submission authorized''])))"

definition evaluate_action ::
  "(string \<Rightarrow> string) \<Rightarrow> validator \<Rightarrow> action_request \<Rightarrow> authority_env
     \<Rightarrow> (ActionAuthorityDecision \<times> string list) \<times> authority_env" where
  "evaluate_action sha validate q env =
     (case precondition_gates env q of
        Some d \<Rightarrow> (d, env)
      | None \<Rightarrow>
          (case source_policy_gate env q of
             Some d \<Rightarrow> (d, env)
           | None \<Rightarrow>
               (case get_graduation_record sha (evidence_files env) (req_adapter q) (adapters env) of
                  (g, reg) \<Rightarrow>
                    (let env1 = env\<lparr>adapters := reg\<rparr> in
                     case adapter_gate g q of
                       Some d \<Rightarrow> (d, env1)
                     | None \<Rightarrow>
                         (case artifact_gate validate q of
                            Some d \<Rightarrow> (d, env1)
                          | None \<Rightarrow> (mode_gate (the g) q, env1))))))"

section \<open>What a permission means\<close>

lemma precondition_gates_None:
  "precondition_gates env q = None \<longleftrightarrow>
     kill_switch_enabled env \<and> \<not> req_captcha q \<and> \<not> req_mfa q \<and> \<not> req_duplicate q \<and>
     req_qualification q = QUALIFIED"
  by (cases "req_qualification q") (auto simp: precondition_gates_def)

lemma gates_never_allow:
  "precondition_gates env q = Some d \<Longrightarrow> fst d \<in> {BLOCK, PAUSE_FOR_REVIEW}"
  "source_policy_gate env q = Some d \<Longrightarrow> fst d = BLOCK"
  "adapter_gate g q = Some d \<Longrightarrow> fst d = BLOCK"
  "artifact_gate validate q = Some d \<Longrightarrow> fst d = BLOCK"
  by (auto simp: precondition_gates_def source_policy_gate_def adapter_gate_def artifact_gate_def
      Let_def split: if_split_asm option.split_asm prod.split_asm)

definition may_submit_policy :: "SourceActionPolicy \<Rightarrow> bool" where
  "may_submit_policy p \<longleftrightarrow> p \<in> {SUBMIT_ALLOWED, API_ACTION_ALLOWED}"

lemma source_policy_gate_submit:
  assumes "req_mode q = CONTROLLED_SUBMIT"
  shows "source_policy_gate env q = None \<longleftrightarrow>
    may_submit_policy (get_policy (opp_source (req_opportunity q)) (source_registry env))"
  using assms
  by (cases "get_policy (opp_source (req_opportunity q)) (source_registry env)")
    (auto simp: source_policy_gate_def may_submit_policy_def Let_def)

text \<open>The artifact, if any, is owned, bound and valid.\<close>

definition artifact_cleared :: "validator \<Rightarrow> action_request \<Rightarrow> bool" where
  "artifact_cleared validate q \<longleftrightarrow>
     (case req_artifact q of
        None \<Rightarrow> True
      | Some (Raw a) \<Rightarrow> False
      | Some (Bound b) \<Rightarrow>
          bound_candidate b = req_candidate q \<and> bound_workspace b = req_workspace q \<and>
          bound_to (req_opportunity q) b \<and>
          fst (validate (artifact b) (req_truth q) (req_opportunity q) (req_policy q)))"

lemma artifact_gate_submit:
  assumes "req_mode q \<noteq> DRY_RUN"
  shows "artifact_gate validate q = None \<longleftrightarrow> artifact_cleared validate q"
proof (cases "req_artifact q")
  case None
  then show ?thesis by (simp add: artifact_gate_def artifact_cleared_def)
next
  case (Some a)
  with assms show ?thesis
    by (cases a; cases "req_mode q")
      (simp_all add: artifact_gate_def artifact_cleared_def bound_to_def Let_def split: prod.split)
qed

lemma mode_gate_submit:
  "fst (mode_gate r q) = ALLOW_SUBMIT \<longleftrightarrow>
     req_mode q = CONTROLLED_SUBMIT \<and> lifecycle_state r = SUBMIT_ENABLED \<and>
     submit_enabled_by_founder r \<and> (\<forall>a\<in>set (req_answers q). answer_class a \<noteq> RED) \<and>
     req_unresolved q = 0"
  by (cases "req_mode q") (auto simp: mode_gate_def Let_def filter_empty_conv)

lemma mode_gate_mode:
  "fst (mode_gate r q) = ALLOW_PREPARE \<longleftrightarrow> req_mode q = DRY_RUN"
  "fst (mode_gate r q) = ALLOW_FILL \<longleftrightarrow> req_mode q = ASSISTED \<and> req_unresolved q = 0"
  by (cases "req_mode q"; auto simp: mode_gate_def Let_def)+

text \<open>The conjunction of the eleven dimensions.\<close>

definition submit_clear :: "(string \<Rightarrow> string) \<Rightarrow> validator \<Rightarrow> action_request \<Rightarrow> authority_env \<Rightarrow> bool" where
  "submit_clear sha validate q env \<longleftrightarrow>
     req_mode q = CONTROLLED_SUBMIT \<and> kill_switch_enabled env \<and> \<not> req_captcha q \<and> \<not> req_mfa q \<and>
     \<not> req_duplicate q \<and> req_qualification q = QUALIFIED \<and>
     may_submit_policy (get_policy (opp_source (req_opportunity q)) (source_registry env)) \<and>
     (\<exists>r. adapters env (req_adapter q) = Some r \<and> lifecycle_state r = SUBMIT_ENABLED \<and>
        submit_enabled_by_founder r \<and> evidence_matches sha (evidence_files env) (req_adapter q) r \<and>
        adapter_compatible r (opp_source (req_opportunity q))) \<and>
     artifact_cleared validate q \<and>
     (\<forall>a\<in>set (req_answers q). answer_class a \<noteq> RED) \<and> req_unresolved q = 0"

lemma evaluate_action_submit_iff:
  "fst (fst (evaluate_action sha validate q env)) = ALLOW_SUBMIT \<longleftrightarrow> submit_clear sha validate q env"
proof (cases "precondition_gates env q")
  case (Some d)
  with gates_never_allow(1) [OF Some] precondition_gates_None [of env q] show ?thesis
    by (auto simp: evaluate_action_def submit_clear_def)
next
  case pre: None
  show ?thesis
  proof (cases "source_policy_gate env q")
    case (Some d)
    with pre gates_never_allow(2) [OF Some] source_policy_gate_submit [of q env] show ?thesis
      by (auto simp: evaluate_action_def submit_clear_def)
  next
    case None
    obtain g reg where g: "get_graduation_record sha (evidence_files env) (req_adapter q) (adapters env) = (g, reg)"
      by force
    have sub: "g = Some r \<and> lifecycle_state r = SUBMIT_ENABLED \<longleftrightarrow>
        adapters env (req_adapter q) = Some r \<and> lifecycle_state r = SUBMIT_ENABLED \<and>
        evidence_matches sha (evidence_files env) (req_adapter q) r" for r
      using g by (auto simp: get_graduation_record_def Let_def split: option.split_asm if_split_asm)
    have "fst (fst (evaluate_action sha validate q env)) = ALLOW_SUBMIT \<longleftrightarrow>
        (\<exists>r. g = Some r \<and> adapter_compatible r (opp_source (req_opportunity q)) \<and>
           artifact_gate validate q = None \<and> fst (mode_gate r q) = ALLOW_SUBMIT)"
      using gates_never_allow(3) [of g q] gates_never_allow(4) [of validate q]
      by (auto simp: evaluate_action_def Let_def pre None g adapter_gate_def split: option.split)
    also have "\<dots> \<longleftrightarrow> (\<exists>r. (g = Some r \<and> lifecycle_state r = SUBMIT_ENABLED) \<and>
        adapter_compatible r (opp_source (req_opportunity q)) \<and> artifact_cleared validate q \<and>
        req_mode q = CONTROLLED_SUBMIT \<and> submit_enabled_by_founder r \<and>
        (\<forall>a\<in>set (req_answers q). answer_class a \<noteq> RED) \<and> req_unresolved q = 0)"
      using artifact_gate_submit [of q validate] by (auto simp: mode_gate_submit)
    finally show ?thesis
      unfolding sub submit_clear_def
      using pre None precondition_gates_None [of env q] source_policy_gate_submit [of q env] by blast
  qed
qed

lemma evaluate_action_env:
  "snd (evaluate_action sha validate q env) = env \<or>
   snd (evaluate_action sha validate q env) =
     env\<lparr>adapters := snd (get_graduation_record sha (evidence_files env) (req_adapter q) (adapters env))\<rparr>"
  by (auto simp: evaluate_action_def Let_def split: option.split prod.split)

lemma evaluate_action_modes:
  assumes "fst (fst (evaluate_action sha validate q env)) \<in> {ALLOW_PREPARE, ALLOW_FILL, ALLOW_SUBMIT}"
  shows "precondition_gates env q = None" "source_policy_gate env q = None"
    and "\<exists>r. fst (fst (evaluate_action sha validate q env)) = fst (mode_gate r q)"
  using assms gates_never_allow(1) [of env q] gates_never_allow(2) [of env q]
    gates_never_allow(3) [of _ q] gates_never_allow(4) [of validate q]
  by (force simp: evaluate_action_def Let_def split: option.split_asm prod.split_asm)+

section \<open>Properties of the gate\<close>

definition demo_env :: authority_env where
  "demo_env = \<lparr>kill_switch_enabled = True, source_registry = SourceActionRegistry None ''1.0.0'',
     adapters = [''greenhouse'' \<mapsto> demo_enabled], evidence_files = demo_files\<rparr>"

definition demo_request :: action_request where
  "demo_request = \<lparr>req_opportunity = demo_opp, req_artifact = Some (Bound demo_bound), req_answers = [],
     req_mode = CONTROLLED_SUBMIT, req_adapter = ''greenhouse'', req_workspace = ''default'',
     req_candidate = ''founder'', req_qualification = QUALIFIED, req_truth = [], req_policy = None,
     req_duplicate = False, req_captcha = False, req_mfa = False, req_unresolved = 0\<rparr>"

lemmas demo_authority_simps = demo_env_def demo_request_def demo_opp_def demo_bound_def
  SourceActionRegistry_def DEFAULT_POLICIES_def get_policy_def source_prefix_def py_split_head_def
  adapter_compatible_def artifact_cleared_def bound_to_def may_submit_policy_def demo_registry_simps

text \<open>C6: the gate permits a submission exactly when all eleven dimensions are clear: controlled
  submit mode, kill switch not thrown, no CAPTCHA, no MFA, no duplicate, a qualified opportunity, a
  source policy that allows submission, an adapter that is submit-enabled by the founder on
  evidence that matches at this moment and is compatible with the source, an artifact (if any)
  owned, bound and valid, no red answer and no open mandatory question.\<close>

theorem submit_permitted_iff:
  "fst (fst (evaluate_action sha validate q env)) = ALLOW_SUBMIT \<longleftrightarrow>
     req_mode q = CONTROLLED_SUBMIT \<and> kill_switch_enabled env \<and> \<not> req_captcha q \<and> \<not> req_mfa q \<and>
     \<not> req_duplicate q \<and> req_qualification q = QUALIFIED \<and>
     get_policy (opp_source (req_opportunity q)) (source_registry env) \<in> {SUBMIT_ALLOWED, API_ACTION_ALLOWED} \<and>
     (\<exists>r. adapters env (req_adapter q) = Some r \<and> lifecycle_state r = SUBMIT_ENABLED \<and>
        submit_enabled_by_founder r \<and> evidence_matches sha (evidence_files env) (req_adapter q) r \<and>
        adapter_compatible r (opp_source (req_opportunity q))) \<and>
     artifact_cleared validate q \<and>
     filter (\<lambda>a. answer_class a = RED) (req_answers q) = [] \<and> req_unresolved q = 0"
  unfolding evaluate_action_submit_iff submit_clear_def may_submit_policy_def filter_empty_conv
  by (rule refl)

text \<open>the gate fails closed. Without any permission for the source in the policy table, or with
  the kill switch thrown, no request of any mode is allowed to prepare, fill or submit; and a
  permission never exceeds the requested mode.\<close>

theorem authority_fails_closed:
  assumes "fst (fst (evaluate_action sha validate q env)) \<in> {ALLOW_PREPARE, ALLOW_FILL, ALLOW_SUBMIT}"
  shows "kill_switch_enabled env \<and>
    (policies (source_registry env) (opp_source (req_opportunity q)) \<noteq> None \<or>
     policies (source_registry env) (source_prefix (opp_source (req_opportunity q))) \<noteq> None) \<and>
    req_qualification q = QUALIFIED \<and>
    fst (fst (evaluate_action sha validate q env)) =
      (case req_mode q of DRY_RUN \<Rightarrow> ALLOW_PREPARE | ASSISTED \<Rightarrow> ALLOW_FILL | CONTROLLED_SUBMIT \<Rightarrow> ALLOW_SUBMIT)"
proof -
  note pre = evaluate_action_modes(1) [OF assms] and src = evaluate_action_modes(2) [OF assms]
  obtain r where r: "fst (fst (evaluate_action sha validate q env)) = fst (mode_gate r q)"
    using evaluate_action_modes(3) [OF assms] by blast
  have "get_policy (opp_source (req_opportunity q)) (source_registry env) \<noteq> PROHIBITED"
    using src by (auto simp: source_policy_gate_def Let_def)
  then have "policies (source_registry env) (opp_source (req_opportunity q)) \<noteq> None \<or>
     policies (source_registry env) (source_prefix (opp_source (req_opportunity q))) \<noteq> None"
    using get_policy_unknown by auto
  moreover have "fst (mode_gate r q) =
      (case req_mode q of DRY_RUN \<Rightarrow> ALLOW_PREPARE | ASSISTED \<Rightarrow> ALLOW_FILL | CONTROLLED_SUBMIT \<Rightarrow> ALLOW_SUBMIT)"
    using assms r by (cases "req_mode q") (auto simp: mode_gate_def Let_def split: if_split_asm)
  ultimately show ?thesis using pre r by (simp add: precondition_gates_None)
qed

theorem authority_fails_closed_witness:
  "fst (fst (evaluate_action id (\<lambda>_ _ _ _. (True, [])) demo_request demo_env)) = ALLOW_SUBMIT \<and>
   kill_switch_enabled demo_env"
proof -
  have a: "fst (fst (evaluate_action id (\<lambda>_ _ _ _. (True, [])) demo_request demo_env)) = ALLOW_SUBMIT"
    unfolding evaluate_action_submit_iff submit_clear_def by (simp add: demo_authority_simps)
  with authority_fails_closed [of id "\<lambda>_ _ _ _. (True, [])" demo_request demo_env] show ?thesis by simp
qed

end
