(* ===== verification/Browser_Driver.thy ===== *)
theory Browser_Driver
  imports Ontology Artifact_Selector
begin

text \<open>
  The driver protocol of \<open>outbound/browser_engine.py\<close> as a record of operations on a driver
  state, the mock applicant tracking system of \<open>outbound/mock_harness.py\<close> with the mock driver
  over it, and the contract between engine and driver as a locale.
\<close>

section \<open>The protocol\<close>

text \<open>
  \<open>BrowserDriver\<close>: only \<open>submit_page\<close> is expected to raise (the engine guards only that call).
  Its evidence may be missing, which the engine tests.
\<close>

record 'd browser_driver =
  inspect_page_fields :: "nat \<Rightarrow> 'd \<Rightarrow> detected_field list \<times> 'd"
  fill_field :: "detected_field \<Rightarrow> string \<Rightarrow> 'd \<Rightarrow> 'd"
  attach_artifact :: "detected_field \<Rightarrow> bound_artifact \<Rightarrow> 'd \<Rightarrow> 'd"
  advance_step :: "'d \<Rightarrow> bool \<times> 'd"
  submit_page :: "'d \<Rightarrow> confirmation_evidence option result \<times> 'd"
  is_captcha_present :: "'d \<Rightarrow> bool"
  is_mfa_present :: "'d \<Rightarrow> bool"

section \<open>The mock tracking system\<close>

record mock_ats =
  platform :: string
  custom_steps :: "detected_field list list option"
  ats_step :: nat
  submitted :: bool
  submits_count :: nat
  captcha_barrier :: bool
  mfa_barrier :: bool
  bot_barrier :: bool
  require_receipt :: bool
  network_error_on_submit :: bool
  fields_state :: "string \<rightharpoonup> string"

definition MockATSHarness ::
  "string \<Rightarrow> detected_field list list option \<Rightarrow> bool \<Rightarrow> bool \<Rightarrow> bool \<Rightarrow> bool \<Rightarrow> bool \<Rightarrow> bool \<Rightarrow> mock_ats" where
  "MockATSHarness plat steps captcha mfa botw receipt neterr missing =
     \<lparr>platform = plat, custom_steps = steps, ats_step = 0, submitted = False, submits_count = 0,
      captcha_barrier = captcha, mfa_barrier = mfa, bot_barrier = botw,
      require_receipt = (receipt \<and> \<not> missing), network_error_on_submit = neterr,
      fields_state = Map.empty\<rparr>"

definition mock_field :: "string \<Rightarrow> string \<Rightarrow> string \<Rightarrow> string \<Rightarrow> bool \<Rightarrow> detected_field" where
  "mock_field lbl nm ftype fid req = classify_field lbl nm ftype [] req fid 0"

definition get_fields_for_step :: "nat \<Rightarrow> mock_ats \<Rightarrow> detected_field list" where
  "get_fields_for_step step h =
     (case custom_steps h of
        Some ss \<Rightarrow> if step < length ss then ss ! step else []
      | None \<Rightarrow>
          if platform h = ''greenhouse'' then
            [mock_field ''First Name'' ''first_name'' ''text'' ''first_name'' True,
             mock_field ''Last Name'' ''last_name'' ''text'' ''last_name'' True,
             mock_field ''Email'' ''email'' ''text'' ''email'' True,
             mock_field ''Resume/CV'' ''resume'' ''file'' ''resume'' True,
             mock_field ''Notice Period'' ''notice_period'' ''text'' ''notice'' False]
          else if platform h = ''lever'' then
            [mock_field ''Full Name'' ''name'' ''text'' ''name'' True,
             mock_field ''Email'' ''email'' ''text'' ''email'' True,
             mock_field ''Resume'' ''resume'' ''file'' ''resume'' True,
             mock_field ''Need sponsorship?'' ''sponsorship'' ''text'' ''sponsorship'' True]
          else if platform h = ''ashby'' then
            [mock_field ''Name'' ''name'' ''text'' ''name'' True,
             mock_field ''Email'' ''email'' ''text'' ''email'' True,
             mock_field ''Expected Compensation'' ''comp'' ''text'' ''compensation'' False,
             mock_field ''Resume'' ''resume'' ''file'' ''resume'' True]
          else if platform h = ''multi_step'' then
            (if step = 0 then [mock_field ''First Name'' ''first_name'' ''text'' ''first_name'' True]
             else if step = 1 then [mock_field ''Email'' ''email'' ''text'' ''email'' True]
             else [mock_field ''Resume'' ''resume'' ''file'' ''resume'' True])
          else [])"

definition mock_fill :: "string \<Rightarrow> string \<Rightarrow> mock_ats \<Rightarrow> mock_ats" where
  "mock_fill fid v h = h\<lparr>fields_state := (fields_state h)(fid \<mapsto> v)\<rparr>"

definition next_step :: "mock_ats \<Rightarrow> bool \<times> mock_ats" where
  "next_step h =
     (case custom_steps h of
        Some ss \<Rightarrow>
          if int (ats_step h) < int (length ss) - 1 then (True, h\<lparr>ats_step := ats_step h + 1\<rparr>)
          else (False, h)
      | None \<Rightarrow>
          if platform h = ''multi_step'' \<and> ats_step h < 2 then (True, h\<lparr>ats_step := ats_step h + 1\<rparr>)
          else (False, h))"

definition mock_submit :: "(string \<Rightarrow> string) \<Rightarrow> mock_ats \<Rightarrow> confirmation_evidence result \<times> mock_ats" where
  "mock_submit sha h =
     (if network_error_on_submit h
      then (Inl (ConnectionError ''Network dropped during submission''), h)
      else if captcha_barrier h then (Inl (RuntimeError ''CAPTCHA barrier triggered on submission''), h)
      else if mfa_barrier h then (Inl (RuntimeError ''MFA barrier triggered on submission''), h)
      else if bot_barrier h then (Inl (RuntimeError ''Bot challenge barrier triggered on submission''), h)
      else
        (let rc = require_receipt h in
         (Inr (evidence_post_init sha
            \<lparr>confirmed = rc,
             confirmation_text = (if rc then ''Thank you for applying. Your application has been submitted.''
                                  else ''Submission pending confirmation.''),
             application_id = (if rc then ''app-12345'' else []),
             receipt_reference = (if rc then ''APP-987654'' else []),
             final_url = (if rc then ''https://boards.greenhouse.io/cloudflare/jobs/101/confirmation''
                          else ''https://boards.greenhouse.io/cloudflare/jobs/101/status''),
             detected_at = ''2026-08-30T00:00:00Z'', evidence_checksum = []\<rparr>),
          h\<lparr>submitted := True, submits_count := submits_count h + 1\<rparr>)))"

text \<open>\<open>MockBrowserDriver\<close>.\<close>

record mock_driver =
  harness :: mock_ats
  current_step :: nat

definition MockBrowserDriver :: "(string \<Rightarrow> string) \<Rightarrow> mock_driver browser_driver" where
  "MockBrowserDriver sha =
     \<lparr>inspect_page_fields = (\<lambda>i d. (get_fields_for_step i (harness d), d)),
      fill_field = (\<lambda>f v d. d\<lparr>harness := mock_fill (field_id f) v (harness d)\<rparr>),
      attach_artifact = (\<lambda>f b d. d\<lparr>harness := mock_fill (field_id f) (artifact_id (artifact b)) (harness d)\<rparr>),
      advance_step = (\<lambda>d. case next_step (harness d) of (adv, h) \<Rightarrow>
         (adv, d\<lparr>harness := h, current_step := (if adv then current_step d + 1 else current_step d)\<rparr>)),
      submit_page = (\<lambda>d. case mock_submit sha (harness d) of
         (Inl e, h) \<Rightarrow> (Inl e, d\<lparr>harness := h\<rparr>)
       | (Inr ev, h) \<Rightarrow> (Inr (Some ev), d\<lparr>harness := h\<rparr>)),
      is_captcha_present = (\<lambda>d. captcha_barrier (harness d)),
      is_mfa_present = (\<lambda>d. mfa_barrier (harness d))\<rparr>"

section \<open>The contract\<close>

text \<open>
  What the engine relies on: a form is sent by \<open>submit_page\<close> and by nothing else, at most once
  per call, and evidence of a confirmation carries its checksum.
\<close>

locale form_driver =
  fixes drv :: "'d browser_driver" and sends :: "'d \<Rightarrow> nat"
  assumes inspect_sends: "sends (snd (inspect_page_fields drv i d)) = sends d"
    and fill_sends: "sends (fill_field drv f v d) = sends d"
    and attach_sends: "sends (attach_artifact drv f b d) = sends d"
    and advance_sends: "sends (snd (advance_step drv d)) = sends d"
    and submit_sends: "sends (snd (submit_page drv d)) \<in> {sends d, Suc (sends d)}"
    and submit_evidence: "submit_page drv d = (Inr (Some ev), d') \<Longrightarrow>
      confirmed ev \<Longrightarrow> evidence_checksum ev \<noteq> []"

lemma next_step_count: "submits_count (snd (next_step h)) = submits_count h"
  by (simp add: next_step_def split: option.split)

text \<open>The mock driver satisfies it for every hash whose digests are not empty.\<close>

interpretation mock: form_driver "MockBrowserDriver (\<lambda>s. c s # cs s)" "\<lambda>d. submits_count (harness d)"
  for c :: "string \<Rightarrow> char" and cs :: "string \<Rightarrow> string"
proof (unfold_locales, goal_cases)
  case (4 d)
  then show ?case using next_step_count [of "harness d"]
    by (auto simp: MockBrowserDriver_def split: prod.split)
next
  case (5 d)
  then show ?case
    by (simp add: MockBrowserDriver_def mock_submit_def Let_def split: prod.split)
next
  case (6 d ev d')
  then show ?case
    by (auto simp: MockBrowserDriver_def mock_submit_def Let_def evidence_post_init_def split: if_split_asm)
qed (simp_all add: MockBrowserDriver_def mock_fill_def)

end
