(* ===== verification/Ledger.thy ===== *)
theory Ledger
  imports Outbound_Models
begin

text \<open>
  \<open>outbound/idempotency.py\<close>: the SQLite idempotency ledger. The table is a map from its
  primary key to the remaining columns; the record column holds JSON. Every method is one
  step (the code holds the instance lock, and reserves inside \<open>BEGIN IMMEDIATE\<close>); the clock
  is the argument \<open>now\<close>.
\<close>

section \<open>Keys\<close>

definition compute_idempotency_key ::
  "(string \<Rightarrow> string) \<Rightarrow> string \<Rightarrow> string \<Rightarrow> string \<Rightarrow> string \<Rightarrow> string" where
  "compute_idempotency_key sha ws cand opp atype =
     sha (ws @ '':'' @ cand @ '':'' @ opp @ '':'' @ atype)"

section \<open>Records as JSON\<close>

definition evidence_json :: "confirmation_evidence option \<Rightarrow> json" where
  "evidence_json ev =
     (case ev of
        None \<Rightarrow> JNull
      | Some e \<Rightarrow> JObj [
          (''application_id'', JStr (application_id e)),
          (''confirmation_text'', JStr (confirmation_text e)),
          (''confirmed'', JBool (confirmed e)),
          (''detected_at'', JStr (detected_at e)),
          (''evidence_checksum'', JStr (evidence_checksum e)),
          (''final_url'', JStr (final_url e)),
          (''receipt_reference'', JStr (receipt_reference e))])"

definition json_strs :: "string list \<Rightarrow> json" where
  "json_strs xs = JArr (map JStr xs)"

text \<open>\<open>_record_to_json\<close>, the keys in sorted order.\<close>

definition record_fields :: "outbound_action_record \<Rightarrow> (string \<times> json) list" where
  "record_fields r = [
     (''action_id'', JStr (action_id r)),
     (''action_status'', JStr (status_value (action_status r))),
     (''adapter_name'', JStr (adapter_name r)),
     (''adapter_version'', JStr (adapter_version r)),
     (''artifact_hashes'', json_strs (oa_artifact_hashes r)),
     (''artifact_ids'', json_strs (oa_artifact_ids r)),
     (''blocker_reason'', JStr (blocker_reason r)),
     (''candidate_id'', JStr (oa_candidate_id r)),
     (''confirmation_evidence'', evidence_json (oa_evidence r)),
     (''created_at'', JStr (created_at r)),
     (''execution_mode'', JStr (mode_value (execution_mode r))),
     (''external_reference_id'', JStr (external_reference_id r)),
     (''idempotency_key'', JStr (idempotency_key r)),
     (''manifest_hash'', JStr (oa_manifest_hash r)),
     (''manual_edits'', json_strs (manual_edits r)),
     (''match_score_snapshot'', JFloat (match_score_snapshot r)),
     (''opportunity_content_hash'', JStr (oa_content_hash r)),
     (''opportunity_id'', JStr (oa_opportunity_id r)),
     (''qualification_decision'', JStr (qualification_value (qualification_decision r))),
     (''source'', JStr (oa_source r)),
     (''track'', JStr (track_value (oa_track r))),
     (''updated_at'', JStr (updated_at r)),
     (''workspace'', JStr (oa_workspace r))]"

definition record_to_json :: "outbound_action_record \<Rightarrow> json_text" where
  "record_to_json r = json_dumps (JObj (record_fields r))"

text \<open>
  Reading back. The dataclass does not check types, so a column of the wrong JSON type would
  give an ill-typed record; such a document is an error of the model, and no method writes one.
\<close>

definition ill_typed :: "'a result" where
  "ill_typed = Inl (ValueError ''ill-typed record column'')"

fun as_str :: "json \<Rightarrow> string result" where
  "as_str (JStr s) = Inr s"
| "as_str _ = ill_typed"

fun as_bool :: "json \<Rightarrow> bool result" where
  "as_bool (JBool b) = Inr b"
| "as_bool _ = ill_typed"

fun as_num :: "json \<Rightarrow> real result" where
  "as_num (JFloat x) = Inr x"
| "as_num (JInt i) = Inr (of_int i)"
| "as_num _ = ill_typed"

fun strs_of :: "json list \<Rightarrow> string list result" where
  "strs_of [] = Inr []"
| "strs_of (j # js) = bind (as_str j) (\<lambda>s. bind (strs_of js) (\<lambda>ss. Inr (s # ss)))"

fun as_strs :: "json \<Rightarrow> string list result" where
  "as_strs (JArr js) = strs_of js"
| "as_strs _ = ill_typed"

definition item_str :: "(string \<times> json) list \<Rightarrow> string \<Rightarrow> string result" where
  "item_str d k = bind (obj_item d k) as_str"

definition get_str :: "(string \<times> json) list \<Rightarrow> string \<Rightarrow> string \<Rightarrow> string result" where
  "get_str d k v = as_str (obj_get d k (JStr v))"

definition evidence_of_fields ::
  "(string \<Rightarrow> string) \<Rightarrow> (string \<times> json) list \<Rightarrow> confirmation_evidence result" where
  "evidence_of_fields sha e =
     bind (bind (obj_item e ''confirmed'') as_bool) (\<lambda>c.
     bind (item_str e ''confirmation_text'') (\<lambda>t.
     bind (get_str e ''application_id'' []) (\<lambda>a.
     bind (get_str e ''receipt_reference'' []) (\<lambda>r.
     bind (get_str e ''final_url'' []) (\<lambda>u.
     bind (get_str e ''detected_at'' ''2026-08-30T00:00:00Z'') (\<lambda>d.
     bind (get_str e ''evidence_checksum'' []) (\<lambda>k.
       Inr (evidence_post_init sha \<lparr>confirmed = c, confirmation_text = t, application_id = a,
              receipt_reference = r, final_url = u, detected_at = d, evidence_checksum = k\<rparr>))))))))"

definition evidence_of_json ::
  "(string \<Rightarrow> string) \<Rightarrow> json \<Rightarrow> confirmation_evidence option result" where
  "evidence_of_json sha j =
     (if \<not> json_truthy j then Inr None
      else (case j of
              JObj e \<Rightarrow> bind (evidence_of_fields sha e) (\<lambda>ev. Inr (Some ev))
            | _ \<Rightarrow> ill_typed))"

text \<open>\<open>_json_to_record\<close>.\<close>

definition record_of_fields ::
  "(string \<Rightarrow> string) \<Rightarrow> (string \<times> json) list \<Rightarrow> outbound_action_record result" where
  "record_of_fields sha d =
     bind (evidence_of_json sha (obj_get d ''confirmation_evidence'' JNull)) (\<lambda>ev.
     bind (item_str d ''action_id'') (\<lambda>aid.
     bind (item_str d ''opportunity_id'') (\<lambda>oid.
     bind (item_str d ''opportunity_content_hash'') (\<lambda>och.
     bind (get_str d ''workspace'' ''default'') (\<lambda>ws.
     bind (get_str d ''candidate_id'' ''founder'') (\<lambda>cand.
     bind (bind (item_str d ''track'') track_of) (\<lambda>tr.
     bind (item_str d ''source'') (\<lambda>src.
     bind (item_str d ''adapter_name'') (\<lambda>an.
     bind (item_str d ''adapter_version'') (\<lambda>av.
     bind (bind (item_str d ''execution_mode'') mode_of) (\<lambda>em.
     bind (bind (item_str d ''qualification_decision'') qualification_of) (\<lambda>qd.
     bind (bind (obj_item d ''match_score_snapshot'') as_num) (\<lambda>ms.
     bind (bind (obj_item d ''artifact_ids'') as_strs) (\<lambda>ais.
     bind (bind (obj_item d ''artifact_hashes'') as_strs) (\<lambda>ahs.
     bind (item_str d ''manifest_hash'') (\<lambda>mh.
     bind (bind (item_str d ''action_status'') status_of) (\<lambda>st.
     bind (item_str d ''idempotency_key'') (\<lambda>ik.
     bind (item_str d ''created_at'') (\<lambda>ca.
     bind (item_str d ''updated_at'') (\<lambda>ua.
     bind (get_str d ''blocker_reason'' []) (\<lambda>br.
     bind (as_strs (obj_get d ''manual_edits'' (JArr []))) (\<lambda>me.
     bind (get_str d ''external_reference_id'' []) (\<lambda>er.
       Inr \<lparr>action_id = aid, oa_opportunity_id = oid, oa_content_hash = och, oa_workspace = ws,
            oa_candidate_id = cand, oa_track = tr, oa_source = src, adapter_name = an,
            adapter_version = av, execution_mode = em, qualification_decision = qd,
            match_score_snapshot = ms, oa_artifact_ids = ais, oa_artifact_hashes = ahs,
            oa_manifest_hash = mh, action_status = st, idempotency_key = ik, created_at = ca,
            updated_at = ua, oa_evidence = ev, blocker_reason = br, manual_edits = me,
            external_reference_id = er\<rparr>)))))))))))))))))))))))"

definition json_to_record :: "(string \<Rightarrow> string) \<Rightarrow> json_text \<Rightarrow> outbound_action_record result" where
  "json_to_record sha t =
     bind (json_loads t) (\<lambda>j. case j of JObj d \<Rightarrow> record_of_fields sha d | _ \<Rightarrow> ill_typed)"

lemma strs_of_map [simp]: "strs_of (map JStr xs) = Inr xs"
  by (induction xs) simp_all

lemma as_strs_json [simp]: "as_strs (json_strs xs) = Inr xs"
  by (simp add: json_strs_def)

text \<open>Evidence as its constructor leaves it: a confirmation has a checksum.\<close>

definition evidence_ok :: "confirmation_evidence option \<Rightarrow> bool" where
  "evidence_ok ev \<longleftrightarrow> (case ev of Some e \<Rightarrow> confirmed e \<longrightarrow> evidence_checksum e \<noteq> [] | None \<Rightarrow> True)"

lemma evidence_round_trip:
  "evidence_ok ev \<Longrightarrow> evidence_of_json sha (evidence_json ev) = Inr ev"
  by (cases ev)
    (auto simp: evidence_json_def evidence_of_json_def evidence_of_fields_def evidence_ok_def
      item_str_def get_str_def obj_item_def obj_get_def evidence_post_init_def)

lemma record_lookups:
  "map_of (record_fields r) ''action_id'' = Some (JStr (action_id r))"
  "map_of (record_fields r) ''action_status'' = Some (JStr (status_value (action_status r)))"
  "map_of (record_fields r) ''adapter_name'' = Some (JStr (adapter_name r))"
  "map_of (record_fields r) ''adapter_version'' = Some (JStr (adapter_version r))"
  "map_of (record_fields r) ''artifact_hashes'' = Some (json_strs (oa_artifact_hashes r))"
  "map_of (record_fields r) ''artifact_ids'' = Some (json_strs (oa_artifact_ids r))"
  "map_of (record_fields r) ''blocker_reason'' = Some (JStr (blocker_reason r))"
  "map_of (record_fields r) ''candidate_id'' = Some (JStr (oa_candidate_id r))"
  "map_of (record_fields r) ''confirmation_evidence'' = Some (evidence_json (oa_evidence r))"
  "map_of (record_fields r) ''created_at'' = Some (JStr (created_at r))"
  "map_of (record_fields r) ''execution_mode'' = Some (JStr (mode_value (execution_mode r)))"
  "map_of (record_fields r) ''external_reference_id'' = Some (JStr (external_reference_id r))"
  "map_of (record_fields r) ''idempotency_key'' = Some (JStr (idempotency_key r))"
  "map_of (record_fields r) ''manifest_hash'' = Some (JStr (oa_manifest_hash r))"
  "map_of (record_fields r) ''manual_edits'' = Some (json_strs (manual_edits r))"
  "map_of (record_fields r) ''match_score_snapshot'' = Some (JFloat (match_score_snapshot r))"
  "map_of (record_fields r) ''opportunity_content_hash'' = Some (JStr (oa_content_hash r))"
  "map_of (record_fields r) ''opportunity_id'' = Some (JStr (oa_opportunity_id r))"
  "map_of (record_fields r) ''qualification_decision'' =
     Some (JStr (qualification_value (qualification_decision r)))"
  "map_of (record_fields r) ''source'' = Some (JStr (oa_source r))"
  "map_of (record_fields r) ''track'' = Some (JStr (track_value (oa_track r)))"
  "map_of (record_fields r) ''updated_at'' = Some (JStr (updated_at r))"
  "map_of (record_fields r) ''workspace'' = Some (JStr (oa_workspace r))"
  by (simp_all add: record_fields_def)

lemma record_round_trip:
  assumes "evidence_ok (oa_evidence r)"
  shows "json_to_record sha (record_to_json r) = Inr r"
  using evidence_round_trip [OF assms, of sha]
  by (simp add: json_to_record_def record_to_json_def record_of_fields_def item_str_def get_str_def
      obj_item_def obj_get_def record_lookups)

section \<open>The table and its operations\<close>

record ledger_row =
  lr_action_id :: string
  lr_workspace :: string
  lr_candidate_id :: string
  lr_opportunity_id :: string
  lr_action_type :: string
  lr_status :: string
  lr_record :: json_text
  lr_created_at :: string
  lr_updated_at :: string

type_synonym ledger = "string \<rightharpoonup> ledger_row"

definition blocking_statuses :: "ActionStatus list" where
  "blocking_statuses = [SUBMITTING, SUBMITTED, CONFIRMED, PLANNED]"

definition reserve_submission ::
  "string \<Rightarrow> outbound_action_record \<Rightarrow> ledger \<Rightarrow> unit result \<times> ledger" where
  "reserve_submission now rec l =
     (let key = idempotency_key rec;
          sub = rec\<lparr>action_status := SUBMITTING, updated_at := now\<rparr>;
          doc = record_to_json sub
      in case l key of
           Some row \<Rightarrow>
             if lr_status row = status_value UNKNOWN_OUTCOME
             then (Inl (UnknownOutcomeFrozenError (''Submission permanently blocked: action '' @ quoted key @
                    '' resulted in UNKNOWN_OUTCOME and requires explicit manual reconciliation before retry.'')), l)
             else if lr_status row \<in> set (map status_value blocking_statuses)
             then (Inl (DuplicateSubmissionError (''Duplicate submission blocked for idempotency key '' @
                    quoted key @ '' (current status: '' @ lr_status row @ '')'')), l)
             else (Inr (), l(key \<mapsto> row\<lparr>lr_status := status_value SUBMITTING, lr_record := doc,
                                        lr_updated_at := updated_at sub\<rparr>))
         | None \<Rightarrow>
             (Inr (), l(key \<mapsto> \<lparr>lr_action_id = action_id sub, lr_workspace = oa_workspace sub,
                lr_candidate_id = oa_candidate_id sub, lr_opportunity_id = oa_opportunity_id sub,
                lr_action_type = ''application'', lr_status = status_value SUBMITTING,
                lr_record = doc, lr_created_at = created_at sub, lr_updated_at = updated_at sub\<rparr>)))"

text \<open>\<open>dataclasses.replace\<close> with the new status; empty evidence and reason keep the old ones.\<close>

definition moved_record ::
  "string \<Rightarrow> ActionStatus \<Rightarrow> confirmation_evidence option \<Rightarrow> string \<Rightarrow> outbound_action_record
     \<Rightarrow> outbound_action_record" where
  "moved_record now st ev reason r =
     r\<lparr>action_status := st,
       oa_evidence := (case ev of Some e \<Rightarrow> Some e | None \<Rightarrow> oa_evidence r),
       blocker_reason := (if reason \<noteq> [] then reason else blocker_reason r),
       updated_at := now\<rparr>"

definition transition_status ::
  "(string \<Rightarrow> string) \<Rightarrow> string \<Rightarrow> string \<Rightarrow> ActionStatus \<Rightarrow> confirmation_evidence option \<Rightarrow> string \<Rightarrow> ledger
     \<Rightarrow> outbound_action_record result \<times> ledger" where
  "transition_status sha now key st ev reason l =
     (case l key of
        None \<Rightarrow> (Inl (KeyError (''No record found with idempotency_key: '' @ key)), l)
      | Some row \<Rightarrow>
          (case json_to_record sha (lr_record row) of
             Inl e \<Rightarrow> (Inl e, l)
           | Inr old \<Rightarrow>
               (let new = moved_record now st ev reason old in
                (Inr new, l(key \<mapsto> row\<lparr>lr_status := status_value st, lr_record := record_to_json new,
                                      lr_updated_at := updated_at new\<rparr>)))))"

text \<open>The query behind \<open>get_record\<close> and the test behind \<open>is_duplicate\<close>, by key.\<close>

definition get_by_key ::
  "(string \<Rightarrow> string) \<Rightarrow> string \<Rightarrow> ledger \<Rightarrow> outbound_action_record option result" where
  "get_by_key sha key l =
     (case l key of
        None \<Rightarrow> Inr None
      | Some row \<Rightarrow> bind (json_to_record sha (lr_record row)) (\<lambda>r. Inr (Some r)))"

definition get_record ::
  "(string \<Rightarrow> string) \<Rightarrow> string \<Rightarrow> string \<Rightarrow> string \<Rightarrow> string \<Rightarrow> ledger
     \<Rightarrow> outbound_action_record option result" where
  "get_record sha ws cand opp atype l = get_by_key sha (compute_idempotency_key sha ws cand opp atype) l"

definition duplicate_statuses :: "ActionStatus list" where
  "duplicate_statuses = [SUBMITTING, SUBMITTED, CONFIRMED, UNKNOWN_OUTCOME]"

definition counts_as_duplicate :: "outbound_action_record option \<Rightarrow> bool" where
  "counts_as_duplicate ro =
     (case ro of None \<Rightarrow> False | Some r \<Rightarrow> action_status r \<in> set duplicate_statuses)"

definition duplicate_key :: "(string \<Rightarrow> string) \<Rightarrow> string \<Rightarrow> ledger \<Rightarrow> bool result" where
  "duplicate_key sha key l = bind (get_by_key sha key l) (\<lambda>ro. Inr (counts_as_duplicate ro))"

definition is_duplicate ::
  "(string \<Rightarrow> string) \<Rightarrow> string \<Rightarrow> string \<Rightarrow> string \<Rightarrow> string \<Rightarrow> ledger \<Rightarrow> bool result" where
  "is_duplicate sha ws cand opp atype l =
     duplicate_key sha (compute_idempotency_key sha ws cand opp atype) l"

definition reconcile_unknown_outcome ::
  "(string \<Rightarrow> string) \<Rightarrow> string \<Rightarrow> string \<Rightarrow> ActionStatus \<Rightarrow> string \<Rightarrow> ledger
     \<Rightarrow> outbound_action_record result \<times> ledger" where
  "reconcile_unknown_outcome sha now key st reason l =
     (if st \<notin> {CONFIRMED, FAILED, BLOCKED}
      then (Inl (ValueError (''Can only reconcile UNKNOWN_OUTCOME to CONFIRMED, FAILED, or BLOCKED, not '' @
             status_value st)), l)
      else transition_status sha now key st None (''Reconciled from UNKNOWN_OUTCOME: '' @ reason) l)"

end
