(* ===== verification/Submission_Contract.thy ===== *)
theory Submission_Contract
  imports Ledger
begin

text \<open>
  What the browser engine relies on of an idempotency ledger, as a locale: a view of the table
  as a map from keys to records, the laws of reservation, transition and duplicate check over
  that view, and the protocol of many engines over one ledger, proved once. The SQLite ledger
  is interpreted here, the PostgreSQL ledger in its own theory.
\<close>

section \<open>The submission protocol\<close>

text \<open>
  The state of all engines together: the ledger, the keys that running executions have reserved
  and not yet submitted (one entry per execution), those submitted and not yet recorded, how
  often the form of a key was submitted, and how often a human reconciled a key.
\<close>

record 'l protocol =
  p_ledger :: 'l
  holders :: "string list"
  in_flight :: "string list"
  sent :: "string \<Rightarrow> nat"
  reconciled :: "string \<Rightarrow> nat"

type_synonym 'l reserve_op = "string \<Rightarrow> outbound_action_record \<Rightarrow> 'l \<Rightarrow> unit result \<times> 'l"
type_synonym 'l move_op =
  "string \<Rightarrow> string \<Rightarrow> ActionStatus \<Rightarrow> confirmation_evidence option \<Rightarrow> string \<Rightarrow> 'l
     \<Rightarrow> outbound_action_record result \<times> 'l"

inductive protocol_step :: "'l reserve_op \<Rightarrow> 'l move_op \<Rightarrow> 'l protocol \<Rightarrow> 'l protocol \<Rightarrow> bool"
  for reserve :: "'l reserve_op" and move :: "'l move_op" where
  reserve_ok: "reserve now r (p_ledger s) = (Inr (), l) \<Longrightarrow> evidence_ok (oa_evidence r) \<Longrightarrow>
     protocol_step reserve move s (s\<lparr>p_ledger := l, holders := idempotency_key r # holders s\<rparr>)"
| reserve_fail: "reserve now r (p_ledger s) = (Inl e, l) \<Longrightarrow>
     protocol_step reserve move s (s\<lparr>p_ledger := l\<rparr>)"
| abort: "k \<in> set (holders s) \<Longrightarrow> move now k BLOCKED None reason (p_ledger s) = (res, l) \<Longrightarrow>
     protocol_step reserve move s (s\<lparr>p_ledger := l, holders := remove1 k (holders s)\<rparr>)"
| submit: "k \<in> set (holders s) \<Longrightarrow>
     protocol_step reserve move s (s\<lparr>holders := remove1 k (holders s), in_flight := k # in_flight s,
       sent := (sent s)(k := Suc (sent s k))\<rparr>)"
| record_outcome: "k \<in> set (in_flight s) \<Longrightarrow> st \<in> {CONFIRMED, UNKNOWN_OUTCOME} \<Longrightarrow> evidence_ok ev \<Longrightarrow>
     move now k st ev reason (p_ledger s) = (res, l) \<Longrightarrow>
     protocol_step reserve move s (s\<lparr>p_ledger := l, in_flight := remove1 k (in_flight s)\<rparr>)"
| crash: "protocol_step reserve move s
     (s\<lparr>holders := remove1 k (holders s), in_flight := remove1 k' (in_flight s)\<rparr>)"
| reconcile: "st \<in> {CONFIRMED, FAILED, BLOCKED} \<Longrightarrow> move now k st None reason (p_ledger s) = (res, l) \<Longrightarrow>
     protocol_step reserve move s (s\<lparr>p_ledger := l, reconciled := (reconciled s)(k := Suc (reconciled s k))\<rparr>)"

inductive_cases protocol_stepE: "protocol_step reserve move s t"

definition protocol_init :: "'l \<Rightarrow> 'l protocol" where
  "protocol_init l = \<lparr>p_ledger = l, holders = [], in_flight = [], sent = (\<lambda>_. 0), reconciled = (\<lambda>_. 0)\<rparr>"

inductive protocol_reachable :: "'l reserve_op \<Rightarrow> 'l move_op \<Rightarrow> 'l \<Rightarrow> 'l protocol \<Rightarrow> bool"
  for reserve :: "'l reserve_op" and move :: "'l move_op" and l :: 'l where
  start: "protocol_reachable reserve move l (protocol_init l)"
| step: "protocol_reachable reserve move l s \<Longrightarrow> protocol_step reserve move s t \<Longrightarrow>
     protocol_reachable reserve move l t"

section \<open>The contract\<close>

text \<open>A key that a reservation has to refuse.\<close>

definition frozen_status :: "ActionStatus \<Rightarrow> bool" where
  "frozen_status st \<longleftrightarrow> st \<in> {SUBMITTING, SUBMITTED, CONFIRMED, PLANNED, UNKNOWN_OUTCOME}"

definition frozen :: "outbound_action_record option \<Rightarrow> bool" where
  "frozen ro \<longleftrightarrow> (case ro of Some r \<Rightarrow> frozen_status (action_status r) | None \<Rightarrow> False)"

definition reserved_record :: "string \<Rightarrow> outbound_action_record \<Rightarrow> outbound_action_record" where
  "reserved_record now r = r\<lparr>action_status := SUBMITTING, updated_at := now\<rparr>"

locale submission_ledger =
  fixes inv :: "'l \<Rightarrow> bool"
    and entry :: "'l \<Rightarrow> string \<Rightarrow> outbound_action_record option"
    and reserve :: "'l reserve_op"
    and move :: "'l move_op"
    and duplicate :: "string \<Rightarrow> 'l \<Rightarrow> bool result"
  assumes reserve_Inr: "inv l \<Longrightarrow> evidence_ok (oa_evidence r) \<Longrightarrow> reserve now r l = (Inr (), l') \<Longrightarrow>
      inv l' \<and> \<not> frozen (entry l (idempotency_key r)) \<and>
      entry l' = (entry l)(idempotency_key r \<mapsto> reserved_record now r)"
    and reserve_Inl: "inv l \<Longrightarrow> reserve now r l = (Inl e, l') \<Longrightarrow> l' = l \<and> entry l (idempotency_key r) \<noteq> None"
    and reserve_domain: "inv l \<Longrightarrow> reserve now r l = (Inl e, l') \<Longrightarrow>
      (\<exists>m. e = DuplicateSubmissionError m \<or> e = UnknownOutcomeFrozenError m)"
    and move_Inr: "inv l \<Longrightarrow> evidence_ok ev \<Longrightarrow> move now k st ev reason l = (Inr r', l') \<Longrightarrow>
      inv l' \<and> (\<exists>r. entry l k = Some r \<and> r' = moved_record now st ev reason r \<and>
        entry l' = (entry l)(k \<mapsto> r'))"
    and move_Inl: "inv l \<Longrightarrow> move now k st ev reason l = (Inl e, l') \<Longrightarrow> l' = l"
    and duplicate_iff: "inv l \<Longrightarrow> duplicate k l =
      Inr (counts_as_duplicate (entry l k))"
begin

lemma move_preserves:
  assumes "inv l" "evidence_ok ev" "move now k st ev reason l = (res, l')"
  shows "inv l'"
  using assms move_Inr [of l ev now k st reason _ l'] move_Inl [of l now k st ev reason _ l']
  by (cases res) auto

text \<open>Frozen keys: what a transition to \<open>st\<close> does to whether a key is frozen.\<close>

lemma move_frozen:
  assumes "inv l" "evidence_ok ev" "move now k st ev reason l = (res, l')"
  shows "frozen (entry l' j) = (if j = k \<and> (\<exists>r. res = Inr r) then frozen_status st else frozen (entry l j))"
proof (cases res)
  case (Inl e)
  with assms move_Inl [of l now k st ev reason e l'] show ?thesis by simp
next
  case (Inr r')
  with move_Inr [OF assms(1,2), of now k st reason r' l'] assms(3) obtain r where
    "r' = moved_record now st ev reason r" "entry l' = (entry l)(k \<mapsto> r')" by auto
  with Inr show ?thesis by (simp add: frozen_def moved_record_def)
qed

text \<open>
  The heart of at-most-once: submissions made plus reservations still held never exceed human
  reconciliations plus one if the key is frozen now.
\<close>

definition budget :: "'l protocol \<Rightarrow> bool" where
  "budget s \<longleftrightarrow> inv (p_ledger s) \<and>
     (\<forall>k. sent s k + count_list (holders s) k \<le>
        reconciled s k + (if frozen (entry (p_ledger s) k) then 1 else 0))"

lemma count_remove1: "count_list (remove1 x xs) y = count_list xs y - (if x = y then 1 else 0)"
  by (induction xs) auto

lemma count_pos: "x \<in> set xs \<Longrightarrow> 0 < count_list xs x"
  by (meson count_list_0_iff gr0I)

lemma budget_move:
  assumes "budget s" "evidence_ok ev" "move now k st ev reason (p_ledger s) = (res, l)"
    and "\<And>j. h j + (if j = k \<and> \<not> frozen_status st then 1 else 0) \<le> c j + sent s j + count_list (holders s) j"
    and "\<And>j. c j + reconciled s j = d j"
  shows "inv l \<and> (\<forall>j. h j \<le> d j + (if frozen (entry l j) then 1 else 0))"
proof -
  note i = assms(1) [unfolded budget_def, THEN conjunct1]
  have "h j \<le> d j + (if frozen (entry l j) then 1 else 0)" for j
    using assms(1) [unfolded budget_def, THEN conjunct2, rule_format, of j]
      move_frozen [OF i assms(2,3), of j] assms(4) [of j] assms(5) [of j]
    by (cases "j = k \<and> (\<exists>r. res = Inr r)") (auto split: if_split_asm)
  with move_preserves [OF i assms(2,3)] show ?thesis by simp
qed

lemma budgetI:
  assumes "inv (p_ledger t)"
    and "\<And>k. sent t k + count_list (holders t) k \<le>
      reconciled t k + (if frozen (entry (p_ledger t) k) then 1 else 0)"
  shows "budget t"
  using assms by (simp add: budget_def)

lemma budgetD:
  assumes "budget s"
  shows "inv (p_ledger s)"
    and "sent s k + count_list (holders s) k \<le> reconciled s k + (if frozen (entry (p_ledger s) k) then 1 else 0)"
  using assms by (simp_all add: budget_def)

lemma budget_reserve:
  assumes "budget s" "reserve now r (p_ledger s) = (Inr (), l)" "evidence_ok (oa_evidence r)"
  shows "budget (s\<lparr>p_ledger := l, holders := idempotency_key r # holders s\<rparr>)"
proof (rule budgetI)
  let ?k = "idempotency_key r"
  from reserve_Inr [OF budgetD(1) [OF assms(1)] assms(3,2)] have
    l: "inv l" "\<not> frozen (entry (p_ledger s) ?k)"
    "entry l = (entry (p_ledger s))(?k \<mapsto> reserved_record now r)" by auto
  have fr: "frozen (Some (reserved_record now r))"
    by (simp add: frozen_def frozen_status_def reserved_record_def)
  show "inv (p_ledger (s\<lparr>p_ledger := l, holders := ?k # holders s\<rparr>))" using l by simp
  fix k
  show "sent (s\<lparr>p_ledger := l, holders := ?k # holders s\<rparr>) k +
      count_list (holders (s\<lparr>p_ledger := l, holders := ?k # holders s\<rparr>)) k
    \<le> reconciled (s\<lparr>p_ledger := l, holders := ?k # holders s\<rparr>) k +
      (if frozen (entry (p_ledger (s\<lparr>p_ledger := l, holders := ?k # holders s\<rparr>)) k) then 1 else 0)"
    using budgetD(2) [OF assms(1), of k] l fr by (cases "k = ?k") simp_all
qed

lemma budget_fewer:
  assumes "budget s"
  shows "budget (s\<lparr>holders := remove1 k (holders s), in_flight := i\<rparr>)"
proof (rule budgetI)
  show "inv (p_ledger (s\<lparr>holders := remove1 k (holders s), in_flight := i\<rparr>))"
    using budgetD(1) [OF assms] by simp
  fix j
  show "sent (s\<lparr>holders := remove1 k (holders s), in_flight := i\<rparr>) j +
      count_list (holders (s\<lparr>holders := remove1 k (holders s), in_flight := i\<rparr>)) j
    \<le> reconciled (s\<lparr>holders := remove1 k (holders s), in_flight := i\<rparr>) j +
      (if frozen (entry (p_ledger (s\<lparr>holders := remove1 k (holders s), in_flight := i\<rparr>)) j) then 1 else 0)"
    using budgetD(2) [OF assms, of j] by (simp add: count_remove1)
qed

lemma budget_submit:
  assumes "budget s" "k \<in> set (holders s)"
  shows "budget (s\<lparr>holders := remove1 k (holders s), in_flight := i, sent := (sent s)(k := Suc (sent s k))\<rparr>)"
  (is "budget ?t")
proof (rule budgetI)
  show "inv (p_ledger ?t)" using budgetD(1) [OF assms(1)] by simp
  fix j
  show "sent ?t j + count_list (holders ?t) j \<le> reconciled ?t j + (if frozen (entry (p_ledger ?t) j) then 1 else 0)"
    using budgetD(2) [OF assms(1), of j] count_pos [OF assms(2)]
    by (cases "j = k") (simp_all add: count_remove1)
qed

lemma budget_step:
  assumes "budget s" "protocol_step reserve move s t"
  shows "budget t"
  using assms(2)
proof (cases rule: protocol_step.cases)
  case (reserve_ok now r l)
  with budget_reserve [OF assms(1)] show ?thesis by simp
next
  case (reserve_fail now r e l)
  with assms(1) reserve_Inl [OF budgetD(1) [OF assms(1)], of now r e l] show ?thesis by simp
next
  case (abort k now reason res l)
  have "evidence_ok None" by (simp add: evidence_ok_def)
  from budget_move [OF assms(1) this abort(3), of "\<lambda>j. sent s j + count_list (remove1 k (holders s)) j" "\<lambda>_. 0"
      "reconciled s"] count_pos [OF abort(2)]
  show ?thesis by (simp add: abort(1) budget_def count_remove1)
next
  case (submit k)
  with budget_submit [OF assms(1)] show ?thesis by simp
next
  case (record_outcome k st ev now reason res l)
  have "frozen_status st" using record_outcome(3) by (auto simp: frozen_status_def)
  with budget_move [OF assms(1) record_outcome(4,5), of "\<lambda>j. sent s j + count_list (holders s) j" "\<lambda>_. 0"
      "reconciled s"]
  show ?thesis by (simp add: record_outcome(1) budget_def)
next
  case (crash k k')
  with budget_fewer [OF assms(1)] show ?thesis by simp
next
  case (reconcile st now k reason res l)
  have "evidence_ok None" by (simp add: evidence_ok_def)
  from budget_move [OF assms(1) this reconcile(3), of "\<lambda>j. sent s j + count_list (holders s) j"
      "\<lambda>j. if j = k then 1 else 0" "(reconciled s)(k := Suc (reconciled s k))"]
  show ?thesis by (simp add: reconcile(1) budget_def)
qed

lemma budget_reachable:
  assumes "protocol_reachable reserve move l s" "inv l"
  shows "budget s"
  using assms
proof (induction rule: protocol_reachable.induct)
  case start
  then show ?case by (simp add: budget_def protocol_init_def)
next
  case (step s t)
  then show ?case using budget_step by blast
qed

lemma sent_bounded:
  assumes "protocol_reachable reserve move l s" "inv l"
  shows "sent s k \<le> reconciled s k + 1"
proof -
  have "sent s k \<le> sent s k + count_list (holders s) k" by simp
  also have "\<dots> \<le> reconciled s k + (if frozen (entry (p_ledger s) k) then 1 else 0)"
    using budget_reachable [OF assms] by (simp add: budget_def)
  also have "\<dots> \<le> reconciled s k + 1" by simp
  finally show ?thesis .
qed

lemma frozen_refused:
  assumes "inv l" "frozen (entry l (idempotency_key r))" "evidence_ok (oa_evidence r)"
  shows "\<exists>e. reserve now r l = (Inl e, l) \<and> (\<exists>m. e = DuplicateSubmissionError m \<or> e = UnknownOutcomeFrozenError m)"
proof (cases "reserve now r l")
  case (Pair res l')
  show ?thesis
  proof (cases res)
    case (Inl e)
    with Pair reserve_Inl [OF assms(1), of now r e l'] reserve_domain [OF assms(1), of now r e l'] show ?thesis
      by simp
  next
    case (Inr u)
    with Pair reserve_Inr [OF assms(1,3), of now l'] assms(2) show ?thesis by (cases u) auto
  qed
qed

end

section \<open>The SQLite ledger\<close>

text \<open>
  Every row's document is the encoding of a record with the row's status and key. \<open>entry\<close> is
  the decoded view, the abstraction function of the refinement.
\<close>

definition ledger_ok :: "ledger \<Rightarrow> bool" where
  "ledger_ok l \<longleftrightarrow>
     (\<forall>k row. l k = Some row \<longrightarrow>
        (\<exists>r. lr_record row = record_to_json r \<and> lr_status row = status_value (action_status r) \<and>
             idempotency_key r = k \<and> evidence_ok (oa_evidence r)))"

definition ledger_entry :: "(string \<Rightarrow> string) \<Rightarrow> ledger \<Rightarrow> string \<Rightarrow> outbound_action_record option" where
  "ledger_entry sha l k =
     (case l k of
        None \<Rightarrow> None
      | Some row \<Rightarrow> (case json_to_record sha (lr_record row) of Inr r \<Rightarrow> Some r | Inl _ \<Rightarrow> None))"

lemma ledger_entry_row:
  assumes "ledger_ok l" "l k = Some row"
  obtains r where "ledger_entry sha l k = Some r" "lr_record row = record_to_json r"
    "lr_status row = status_value (action_status r)" "idempotency_key r = k" "evidence_ok (oa_evidence r)"
proof -
  from assms obtain r where r: "lr_record row = record_to_json r"
    "lr_status row = status_value (action_status r)" "idempotency_key r = k" "evidence_ok (oa_evidence r)"
    unfolding ledger_ok_def by blast
  with assms(2) record_round_trip [OF r(4), of sha] have "ledger_entry sha l k = Some r"
    by (simp add: ledger_entry_def)
  with r show ?thesis using that by blast
qed

lemma ledger_entry_None [simp]: "l k = None \<Longrightarrow> ledger_entry sha l k = None"
  by (simp add: ledger_entry_def)

lemma ledger_ok_upd:
  assumes "ledger_ok l" "lr_record row = record_to_json r" "lr_status row = status_value (action_status r)"
    "idempotency_key r = k" "evidence_ok (oa_evidence r)"
  shows "ledger_ok (l(k \<mapsto> row)) \<and> ledger_entry sha (l(k \<mapsto> row)) = (ledger_entry sha l)(k \<mapsto> r)"
proof
  show "ledger_ok (l(k \<mapsto> row))" using assms by (auto simp: ledger_ok_def)
  show "ledger_entry sha (l(k \<mapsto> row)) = (ledger_entry sha l)(k \<mapsto> r)"
    using assms record_round_trip [OF assms(5), of sha] by (auto simp: ledger_entry_def)
qed

lemma frozen_values:
  "status_value st \<noteq> status_value UNKNOWN_OUTCOME \<Longrightarrow>
   status_value st \<notin> set (map status_value blocking_statuses) \<Longrightarrow> \<not> frozen_status st"
  by (cases st) (auto simp: blocking_statuses_def frozen_status_def)

lemma evidence_ok_moved:
  "evidence_ok ev \<Longrightarrow> evidence_ok (oa_evidence r) \<Longrightarrow> evidence_ok (oa_evidence (moved_record now st ev reason r))"
  by (cases ev) (simp_all add: moved_record_def)

lemma moved_key [simp]:
  "idempotency_key (moved_record now st ev reason r) = idempotency_key r"
  "action_status (moved_record now st ev reason r) = st"
  by (simp_all add: moved_record_def)

lemma reserve_submission_Inr:
  assumes "ledger_ok l" "evidence_ok (oa_evidence r)" "reserve_submission now r l = (Inr (), l')"
  shows "ledger_ok l' \<and> \<not> frozen (ledger_entry sha l (idempotency_key r)) \<and>
    ledger_entry sha l' = (ledger_entry sha l)(idempotency_key r \<mapsto> reserved_record now r)"
proof (cases "l (idempotency_key r)")
  case None
  let ?row = "\<lparr>lr_action_id = action_id r, lr_workspace = oa_workspace r,
      lr_candidate_id = oa_candidate_id r, lr_opportunity_id = oa_opportunity_id r,
      lr_action_type = ''application'', lr_status = status_value SUBMITTING,
      lr_record = record_to_json (reserved_record now r), lr_created_at = created_at r, lr_updated_at = now\<rparr>"
  have "l' = l(idempotency_key r \<mapsto> ?row)"
    using assms(3) None by (simp add: reserve_submission_def reserved_record_def)
  with ledger_ok_upd [OF assms(1), of ?row "reserved_record now r" "idempotency_key r" sha] assms(2) None
  show ?thesis by (simp add: reserved_record_def frozen_def)
next
  case (Some row)
  from ledger_entry_row [OF assms(1) Some, of sha] obtain x where
    x: "ledger_entry sha l (idempotency_key r) = Some x" "lr_status row = status_value (action_status x)" by blast
  let ?row = "row\<lparr>lr_status := status_value SUBMITTING, lr_record := record_to_json (reserved_record now r),
      lr_updated_at := now\<rparr>"
  have l': "l' = l(idempotency_key r \<mapsto> ?row)"
    and "lr_status row \<noteq> status_value UNKNOWN_OUTCOME" "lr_status row \<notin> set (map status_value blocking_statuses)"
    using assms(3) Some by (auto simp: reserve_submission_def reserved_record_def Let_def split: if_split_asm)
  with x frozen_values [of "action_status x"] have "\<not> frozen (ledger_entry sha l (idempotency_key r))"
    by (simp add: frozen_def)
  with ledger_ok_upd [OF assms(1), of ?row "reserved_record now r" "idempotency_key r" sha] assms(2) l'
  show ?thesis by (simp add: reserved_record_def)
qed

lemma transition_status_Inr:
  assumes "ledger_ok l" "evidence_ok ev" "transition_status sha now k st ev reason l = (Inr r', l')"
  shows "ledger_ok l' \<and> (\<exists>r. ledger_entry sha l k = Some r \<and> r' = moved_record now st ev reason r \<and>
    ledger_entry sha l' = (ledger_entry sha l)(k \<mapsto> r'))"
proof (cases "l k")
  case None
  with assms(3) show ?thesis by (simp add: transition_status_def)
next
  case (Some row)
  from ledger_entry_row [OF assms(1) Some, of sha] obtain x where
    x: "ledger_entry sha l k = Some x" "lr_record row = record_to_json x" "idempotency_key x = k"
    "evidence_ok (oa_evidence x)" by blast
  let ?new = "moved_record now st ev reason x"
  let ?row = "row\<lparr>lr_status := status_value st, lr_record := record_to_json ?new, lr_updated_at := updated_at ?new\<rparr>"
  have l': "l' = l(k \<mapsto> ?row)" "r' = ?new"
    using assms(3) Some x record_round_trip [OF x(4), of sha]
    by (auto simp: transition_status_def Let_def)
  with ledger_ok_upd [OF assms(1), of ?row ?new k sha] x evidence_ok_moved [OF assms(2) x(4)]
  show ?thesis by simp
qed

interpretation sqlite: submission_ledger ledger_ok "ledger_entry sha" reserve_submission
  "transition_status sha" "duplicate_key sha"
  for sha
proof (unfold_locales, goal_cases)
  case (1 l r now l')
  then show ?case using reserve_submission_Inr by blast
next
  case (2 l now r e l')
  then show ?case
    by (auto simp: reserve_submission_def Let_def elim: ledger_entry_row [where sha = sha]
        split: option.split_asm if_split_asm)
next
  case (3 l now r e l')
  then show ?case
    by (auto simp: reserve_submission_def Let_def split: option.split_asm if_split_asm)
next
  case (4 l ev now k st reason r' l')
  then show ?case using transition_status_Inr by blast
next
  case (5 l now k st ev reason e l')
  then show ?case
    by (auto simp: transition_status_def Let_def split: option.split_asm sum.split_asm)
next
  case (6 l k)
  show ?case
  proof (cases "l k")
    case None
    then show ?thesis by (simp add: duplicate_key_def get_by_key_def counts_as_duplicate_def)
  next
    case (Some row)
    from ledger_entry_row [OF 6 Some, of sha] obtain x where
      "ledger_entry sha l k = Some x" "lr_record row = record_to_json x" "evidence_ok (oa_evidence x)" by blast
    with Some record_round_trip [of x sha] show ?thesis by (simp add: duplicate_key_def get_by_key_def)
  qed
qed

end
