(* ===== verification/Pg_Ledger.thy ===== *)
theory Pg_Ledger
  imports Submission_Contract
begin

text \<open>
  \<open>outbound/postgres_idempotency.py\<close>: the PostgreSQL ledger, over the tables
  \<open>idempotency_reservations\<close> (primary key: the idempotency key) and \<open>outbound_actions\<close>
  (primary key: the action id, unique: the idempotency key) of \<open>storage/models.py\<close>.

  A method commits once or rolls back, so it is one step; only \<open>reserve_submission\<close> reads in
  one transaction state what it inserts in a later one, and takes what it read as the argument
  \<open>seen\<close>. \<open>datetime.fromisoformat\<close> is the argument \<open>fromiso\<close>, the two clock readings are the
  arguments \<open>now\<close> (as text) and \<open>now_dt\<close>. A violated constraint surfaces as an exception
  whose text mentions it, as the database driver documents.
\<close>

section \<open>Tables\<close>

record pg_reservation =
  pr_action_id :: string
  pr_workspace :: string
  pr_candidate_id :: string
  pr_opportunity_id :: string
  pr_action_type :: string
  pr_status :: string
  pr_record :: json_text
  pr_created_at :: int
  pr_updated_at :: int

record action_row =
  am_id :: string
  am_opportunity_id :: string
  am_content_hash :: string
  am_workspace :: string
  am_candidate_id :: string
  am_track :: string
  am_source :: string
  am_adapter_name :: string
  am_adapter_version :: string
  am_execution_mode :: string
  am_qualification :: string
  am_match_score :: real
  am_artifact_ids :: json_text
  am_artifact_hashes :: json_text
  am_manifest_hash :: string
  am_status :: string
  am_key :: string
  am_receipt_reference :: "string option"
  am_confirmation_text :: "string option"
  am_receipt_checksum :: "string option"
  am_evidence :: "json_text option"
  am_blocker_reason :: string
  am_manual_edits :: json_text
  am_external_reference :: string
  am_record :: json_text
  am_created_at :: int
  am_updated_at :: int

record pg_ledger =
  reservations :: "string \<rightharpoonup> pg_reservation"
  actions :: "action_row list"

section \<open>Records as JSON\<close>

text \<open>
  The writer is the one of the SQLite ledger. The reader defaults the content hash and demands
  workspace and candidate.
\<close>

definition pg_record_of_fields ::
  "(string \<Rightarrow> string) \<Rightarrow> (string \<times> json) list \<Rightarrow> outbound_action_record result" where
  "pg_record_of_fields sha d =
     bind (evidence_of_json sha (obj_get d ''confirmation_evidence'' JNull)) (\<lambda>ev.
     bind (item_str d ''action_id'') (\<lambda>aid.
     bind (item_str d ''opportunity_id'') (\<lambda>oid.
     bind (get_str d ''opportunity_content_hash'' []) (\<lambda>och.
     bind (item_str d ''workspace'') (\<lambda>ws.
     bind (item_str d ''candidate_id'') (\<lambda>cand.
     bind (bind (item_str d ''track'') track_of) (\<lambda>tr.
     bind (item_str d ''source'') (\<lambda>src.
     bind (item_str d ''adapter_name'') (\<lambda>an.
     bind (item_str d ''adapter_version'') (\<lambda>av.
     bind (bind (item_str d ''execution_mode'') mode_of) (\<lambda>em.
     bind (bind (item_str d ''qualification_decision'') qualification_of) (\<lambda>qd.
     bind (bind (obj_item d ''match_score_snapshot'') as_num) (\<lambda>ms.
     bind (bind (obj_item d ''artifact_ids'') as_strs) (\<lambda>ais.
     bind (bind (obj_item d ''artifact_hashes'') as_strs) (\<lambda>ahs.
     bind (item_str d ''manifest_hash'') (\<lambda>mh.
     bind (bind (item_str d ''action_status'') status_of) (\<lambda>st.
     bind (item_str d ''idempotency_key'') (\<lambda>ik.
     bind (item_str d ''created_at'') (\<lambda>ca.
     bind (item_str d ''updated_at'') (\<lambda>ua.
     bind (get_str d ''blocker_reason'' []) (\<lambda>br.
     bind (as_strs (obj_get d ''manual_edits'' (JArr []))) (\<lambda>me.
     bind (get_str d ''external_reference_id'' []) (\<lambda>er.
       Inr \<lparr>action_id = aid, oa_opportunity_id = oid, oa_content_hash = och, oa_workspace = ws,
            oa_candidate_id = cand, oa_track = tr, oa_source = src, adapter_name = an,
            adapter_version = av, execution_mode = em, qualification_decision = qd,
            match_score_snapshot = ms, oa_artifact_ids = ais, oa_artifact_hashes = ahs,
            oa_manifest_hash = mh, action_status = st, idempotency_key = ik, created_at = ca,
            updated_at = ua, oa_evidence = ev, blocker_reason = br, manual_edits = me,
            external_reference_id = er\<rparr>)))))))))))))))))))))))"

definition pg_json_to_record :: "(string \<Rightarrow> string) \<Rightarrow> json_text \<Rightarrow> outbound_action_record result" where
  "pg_json_to_record sha t =
     bind (json_loads t) (\<lambda>j. case j of JObj d \<Rightarrow> pg_record_of_fields sha d | _ \<Rightarrow> ill_typed)"

lemma pg_record_round_trip:
  assumes "evidence_ok (oa_evidence r)"
  shows "pg_json_to_record sha (record_to_json r) = Inr r"
  using evidence_round_trip [OF assms, of sha]
  by (simp add: pg_json_to_record_def record_to_json_def pg_record_of_fields_def item_str_def
      get_str_def obj_item_def obj_get_def record_lookups)

section \<open>Reservation\<close>

definition unique_violation :: "string \<Rightarrow> py_exn" where
  "unique_violation what = RuntimeError (''IntegrityError: duplicate key value violates unique constraint '' @ what)"

text \<open>The insert and its commit; a reservation under the key makes them fail.\<close>

definition pg_insert ::
  "int \<Rightarrow> outbound_action_record \<Rightarrow> json_text \<Rightarrow> pg_ledger \<Rightarrow> unit result \<times> pg_ledger" where
  "pg_insert now_dt rec doc l =
     (case reservations l (idempotency_key rec) of
        Some _ \<Rightarrow> (Inl (unique_violation ''idempotency_reservations_pkey''), l)
      | None \<Rightarrow>
          (Inr (), l\<lparr>reservations := (reservations l)(idempotency_key rec \<mapsto>
             \<lparr>pr_action_id = action_id rec, pr_workspace = oa_workspace rec,
              pr_candidate_id = oa_candidate_id rec, pr_opportunity_id = oa_opportunity_id rec,
              pr_action_type = ''application'', pr_status = status_value SUBMITTING,
              pr_record = doc, pr_created_at = now_dt, pr_updated_at = now_dt\<rparr>)\<rparr>))"

definition pg_reserve_from ::
  "pg_reservation option \<Rightarrow> string \<Rightarrow> int \<Rightarrow> outbound_action_record \<Rightarrow> pg_ledger \<Rightarrow> unit result \<times> pg_ledger" where
  "pg_reserve_from seen now now_dt rec l =
     (let key = idempotency_key rec;
          doc = record_to_json (rec\<lparr>action_status := SUBMITTING, updated_at := now\<rparr>);
          blocked =
            (case seen of
               None \<Rightarrow> None
             | Some row \<Rightarrow>
                 if pr_status row = status_value UNKNOWN_OUTCOME
                 then Some (UnknownOutcomeFrozenError (''Action '' @ pr_action_id row @
                        '' is permanently frozen in UNKNOWN_OUTCOME. Automatic replay blocked.''))
                 else if pr_status row \<in> set (map status_value blocking_statuses)
                 then Some (DuplicateSubmissionError (''Duplicate submission blocked for idempotency key '' @
                        key @ '' (current status: '' @ pr_status row @ '')''))
                 else None)
      in case blocked of
           Some e \<Rightarrow> (Inl e, l)
         | None \<Rightarrow>
             (case pg_insert now_dt rec doc l of
                (Inr u, l') \<Rightarrow> (Inr u, l')
              | (Inl e, _) \<Rightarrow>
                  (case reservations l key of
                     Some row \<Rightarrow>
                       if pr_status row = status_value UNKNOWN_OUTCOME
                       then (Inl (UnknownOutcomeFrozenError (''Action '' @ pr_action_id row @
                              '' is permanently frozen in UNKNOWN_OUTCOME.'')), l)
                       else (Inl (DuplicateSubmissionError
                              (''Concurrent duplicate submission prevented for idempotency key '' @ key)), l)
                   | None \<Rightarrow> (Inl (DuplicateSubmissionError
                              (''Concurrent duplicate submission prevented for idempotency key '' @ key)), l))))"

definition pg_reserve_submission ::
  "int \<Rightarrow> string \<Rightarrow> outbound_action_record \<Rightarrow> pg_ledger \<Rightarrow> unit result \<times> pg_ledger" where
  "pg_reserve_submission now_dt now rec l =
     pg_reserve_from (reservations l (idempotency_key rec)) now now_dt rec l"

section \<open>Transitions and the action table\<close>

text \<open>\<open>datetime.fromisoformat(t) if t else now\<close>.\<close>

definition iso_or :: "(string \<Rightarrow> int result) \<Rightarrow> int \<Rightarrow> string \<Rightarrow> int result" where
  "iso_or fromiso dflt t = (if t \<noteq> [] then fromiso t else Inr dflt)"

definition action_model :: "int \<Rightarrow> int \<Rightarrow> outbound_action_record \<Rightarrow> action_row" where
  "action_model c_at u_at r =
     \<lparr>am_id = action_id r, am_opportunity_id = oa_opportunity_id r, am_content_hash = oa_content_hash r,
      am_workspace = oa_workspace r, am_candidate_id = oa_candidate_id r,
      am_track = track_value (oa_track r), am_source = oa_source r,
      am_adapter_name = adapter_name r, am_adapter_version = adapter_version r,
      am_execution_mode = mode_value (execution_mode r),
      am_qualification = qualification_value (qualification_decision r),
      am_match_score = match_score_snapshot r,
      am_artifact_ids = json_dumps (json_strs (oa_artifact_ids r)),
      am_artifact_hashes = json_dumps (json_strs (oa_artifact_hashes r)),
      am_manifest_hash = oa_manifest_hash r, am_status = status_value (action_status r),
      am_key = idempotency_key r,
      am_receipt_reference = map_option receipt_reference (oa_evidence r),
      am_confirmation_text = map_option confirmation_text (oa_evidence r),
      am_receipt_checksum = map_option evidence_checksum (oa_evidence r),
      am_evidence = map_option (\<lambda>e. json_dumps (evidence_json (Some e))) (oa_evidence r),
      am_blocker_reason = blocker_reason r,
      am_manual_edits = json_dumps (json_strs (manual_edits r)),
      am_external_reference = external_reference_id r, am_record = record_to_json r,
      am_created_at = c_at, am_updated_at = u_at\<rparr>"

text \<open>\<open>session.merge\<close> and its flush: update the row of this id, or insert one.\<close>

definition merge_action :: "action_row \<Rightarrow> action_row list \<Rightarrow> action_row list result" where
  "merge_action m tbl =
     (if list_ex (\<lambda>a. am_id a \<noteq> am_id m \<and> am_key a = am_key m) tbl
      then Inl (unique_violation ''outbound_actions_idempotency_key_key'')
      else if list_ex (\<lambda>a. am_id a = am_id m) tbl
      then Inr (update_where (\<lambda>a. am_id a = am_id m) (\<lambda>_. m) tbl)
      else Inr (tbl @ [m]))"

definition pg_transition_status ::
  "(string \<Rightarrow> string) \<Rightarrow> (string \<Rightarrow> int result) \<Rightarrow> int \<Rightarrow> string \<Rightarrow> string \<Rightarrow> ActionStatus
     \<Rightarrow> confirmation_evidence option \<Rightarrow> string \<Rightarrow> pg_ledger \<Rightarrow> outbound_action_record result \<times> pg_ledger" where
  "pg_transition_status sha fromiso now_dt now key st ev reason l =
     (case reservations l key of
        None \<Rightarrow> (Inl (KeyError (''No record found with idempotency_key: '' @ key)), l)
      | Some row \<Rightarrow>
          if pr_record row = EmptyText
          then (Inl (KeyError (''No record found with idempotency_key: '' @ key)), l)
          else
            (case bind (pg_json_to_record sha (pr_record row)) (\<lambda>old.
                    let new = moved_record now st ev reason old in
                    bind (iso_or fromiso now_dt (created_at new)) (\<lambda>c_at.
                    bind (merge_action (action_model c_at now_dt new) (actions l)) (\<lambda>acts.
                      Inr (new, acts)))) of
               Inl e \<Rightarrow> (Inl e, l)
             | Inr (new, acts) \<Rightarrow>
                 (Inr new, l\<lparr>reservations := (reservations l)(key \<mapsto> row\<lparr>pr_status := status_value st,
                                pr_record := record_to_json new, pr_updated_at := now_dt\<rparr>),
                             actions := acts\<rparr>)))"

definition pg_record_outcome ::
  "(string \<Rightarrow> int result) \<Rightarrow> int \<Rightarrow> outbound_action_record \<Rightarrow> pg_ledger \<Rightarrow> unit result \<times> pg_ledger" where
  "pg_record_outcome fromiso now_dt rec l =
     (let key = idempotency_key rec;
          row = (case reservations l key of
                   Some r \<Rightarrow> r\<lparr>pr_status := status_value (action_status rec),
                               pr_record := record_to_json rec, pr_updated_at := now_dt\<rparr>
                 | None \<Rightarrow> \<lparr>pr_action_id = action_id rec, pr_workspace = oa_workspace rec,
                     pr_candidate_id = oa_candidate_id rec, pr_opportunity_id = oa_opportunity_id rec,
                     pr_action_type = ''application'', pr_status = status_value (action_status rec),
                     pr_record = record_to_json rec, pr_created_at = now_dt, pr_updated_at = now_dt\<rparr>)
      in case bind (iso_or fromiso now_dt (created_at rec)) (\<lambda>c_at.
                bind (iso_or fromiso now_dt (updated_at rec)) (\<lambda>u_at.
                  merge_action (action_model c_at u_at rec) (actions l))) of
           Inl e \<Rightarrow> (Inl e, l)
         | Inr acts \<Rightarrow> (Inr (), l\<lparr>reservations := (reservations l)(key \<mapsto> row), actions := acts\<rparr>))"

section \<open>Queries\<close>

definition pg_get_by_key ::
  "(string \<Rightarrow> string) \<Rightarrow> string \<Rightarrow> pg_ledger \<Rightarrow> outbound_action_record option result" where
  "pg_get_by_key sha key l =
     (case reservations l key of
        None \<Rightarrow> Inr None
      | Some row \<Rightarrow>
          if pr_record row = EmptyText then Inr None
          else bind (pg_json_to_record sha (pr_record row)) (\<lambda>r. Inr (Some r)))"

text \<open>
  \<open>get_record\<close>: without candidate and opportunity the first argument is the key itself. A
  missing one of the two is rendered as the text \<open>None\<close> in the key.
\<close>

definition none_text :: "string option \<Rightarrow> string" where
  "none_text x = (case x of Some s \<Rightarrow> s | None \<Rightarrow> ''None'')"

definition pg_get_record ::
  "(string \<Rightarrow> string) \<Rightarrow> string \<Rightarrow> string option \<Rightarrow> string option \<Rightarrow> string \<Rightarrow> pg_ledger
     \<Rightarrow> outbound_action_record option result" where
  "pg_get_record sha ws cand opp atype l =
     pg_get_by_key sha
       (if cand = None \<and> opp = None then ws
        else compute_idempotency_key sha ws (none_text cand) (none_text opp) atype) l"

definition pg_duplicate_key :: "(string \<Rightarrow> string) \<Rightarrow> string \<Rightarrow> pg_ledger \<Rightarrow> bool result" where
  "pg_duplicate_key sha key l = bind (pg_get_by_key sha key l) (\<lambda>ro. Inr (counts_as_duplicate ro))"

definition pg_is_duplicate ::
  "(string \<Rightarrow> string) \<Rightarrow> string \<Rightarrow> string \<Rightarrow> string \<Rightarrow> string \<Rightarrow> pg_ledger \<Rightarrow> bool result" where
  "pg_is_duplicate sha ws cand opp atype l =
     bind (pg_get_record sha ws (Some cand) (Some opp) atype l) (\<lambda>ro. Inr (counts_as_duplicate ro))"

definition pg_is_known :: "string \<Rightarrow> pg_ledger \<Rightarrow> bool" where
  "pg_is_known key l \<longleftrightarrow> reservations l key \<noteq> None"

definition pg_reconcile_unknown_outcome ::
  "(string \<Rightarrow> string) \<Rightarrow> (string \<Rightarrow> int result) \<Rightarrow> int \<Rightarrow> string \<Rightarrow> string \<Rightarrow> ActionStatus \<Rightarrow> string
     \<Rightarrow> pg_ledger \<Rightarrow> outbound_action_record result \<times> pg_ledger" where
  "pg_reconcile_unknown_outcome sha fromiso now_dt now key st reason l =
     (if st \<notin> {CONFIRMED, FAILED, BLOCKED}
      then (Inl (ValueError (''Can only reconcile UNKNOWN_OUTCOME to CONFIRMED, FAILED, or BLOCKED, not '' @
             status_value st)), l)
      else pg_transition_status sha fromiso now_dt now key st None
             (''Reconciled from UNKNOWN_OUTCOME: '' @ reason) l)"

section \<open>The contract holds\<close>

definition pg_ok :: "pg_ledger \<Rightarrow> bool" where
  "pg_ok l \<longleftrightarrow>
     (\<forall>k row. reservations l k = Some row \<longrightarrow>
        (\<exists>r. pr_record row = record_to_json r \<and> pr_status row = status_value (action_status r) \<and>
             idempotency_key r = k \<and> evidence_ok (oa_evidence r)))"

definition pg_entry :: "(string \<Rightarrow> string) \<Rightarrow> pg_ledger \<Rightarrow> string \<Rightarrow> outbound_action_record option" where
  "pg_entry sha l k =
     (case reservations l k of
        None \<Rightarrow> None
      | Some row \<Rightarrow> (case pg_json_to_record sha (pr_record row) of Inr r \<Rightarrow> Some r | Inl _ \<Rightarrow> None))"

lemma pg_entry_row:
  assumes "pg_ok l" "reservations l k = Some row"
  obtains r where "pg_entry sha l k = Some r" "pr_record row = record_to_json r"
    "pr_status row = status_value (action_status r)" "idempotency_key r = k" "evidence_ok (oa_evidence r)"
proof -
  from assms obtain r where r: "pr_record row = record_to_json r"
    "pr_status row = status_value (action_status r)" "idempotency_key r = k" "evidence_ok (oa_evidence r)"
    unfolding pg_ok_def by blast
  with assms(2) pg_record_round_trip [OF r(4), of sha] have "pg_entry sha l k = Some r"
    by (simp add: pg_entry_def)
  with r show ?thesis using that by blast
qed

lemma pg_entry_None [simp]: "reservations l k = None \<Longrightarrow> pg_entry sha l k = None"
  by (simp add: pg_entry_def)

lemma pg_ok_upd:
  assumes "pg_ok l" "pr_record row = record_to_json r" "pr_status row = status_value (action_status r)"
    "idempotency_key r = k" "evidence_ok (oa_evidence r)"
  shows "pg_ok (l\<lparr>reservations := (reservations l)(k \<mapsto> row), actions := acts\<rparr>) \<and>
    pg_entry sha (l\<lparr>reservations := (reservations l)(k \<mapsto> row), actions := acts\<rparr>) = (pg_entry sha l)(k \<mapsto> r)"
proof
  show "pg_ok (l\<lparr>reservations := (reservations l)(k \<mapsto> row), actions := acts\<rparr>)"
    using assms by (auto simp: pg_ok_def)
  show "pg_entry sha (l\<lparr>reservations := (reservations l)(k \<mapsto> row), actions := acts\<rparr>) = (pg_entry sha l)(k \<mapsto> r)"
    using assms pg_record_round_trip [OF assms(5), of sha] by (auto simp: pg_entry_def)
qed

text \<open>Whatever was read before, an insert succeeds only on a free key.\<close>

lemma pg_reserve_from_Inr:
  assumes "pg_reserve_from seen now now_dt r l = (Inr (), l')"
  shows "reservations l (idempotency_key r) = None \<and>
    l' = snd (pg_insert now_dt r (record_to_json (reserved_record now r)) l)"
  using assms
  by (auto simp: pg_reserve_from_def pg_insert_def Let_def reserved_record_def
      split: option.split_asm if_split_asm)

lemma pg_reserve_from_Inl:
  assumes "pg_reserve_from seen now now_dt r l = (Inl e, l')"
  shows "l' = l \<and> (\<exists>m. e = DuplicateSubmissionError m \<or> e = UnknownOutcomeFrozenError m) \<and>
    (seen \<noteq> None \<or> reservations l (idempotency_key r) \<noteq> None)"
  using assms
  by (auto simp: pg_reserve_from_def pg_insert_def Let_def split: option.split_asm if_split_asm)

text \<open>The operations as the engine calls them; \<open>clk\<close> gives the second clock reading of a call.\<close>

definition pg_reserve :: "(string \<Rightarrow> int) \<Rightarrow> pg_ledger reserve_op" where
  "pg_reserve clk now = pg_reserve_submission (clk now) now"

definition pg_move ::
  "(string \<Rightarrow> string) \<Rightarrow> (string \<Rightarrow> int result) \<Rightarrow> (string \<Rightarrow> int) \<Rightarrow> pg_ledger move_op" where
  "pg_move sha fromiso clk now = pg_transition_status sha fromiso (clk now) now"

lemma pg_reserve_Inr:
  assumes "pg_ok l" "evidence_ok (oa_evidence r)" "pg_reserve clk now r l = (Inr (), l')"
  shows "pg_ok l' \<and> \<not> frozen (pg_entry sha l (idempotency_key r)) \<and>
    pg_entry sha l' = (pg_entry sha l)(idempotency_key r \<mapsto> reserved_record now r)"
proof -
  let ?row = "\<lparr>pr_action_id = action_id r, pr_workspace = oa_workspace r,
      pr_candidate_id = oa_candidate_id r, pr_opportunity_id = oa_opportunity_id r,
      pr_action_type = ''application'', pr_status = status_value SUBMITTING,
      pr_record = record_to_json (reserved_record now r), pr_created_at = clk now, pr_updated_at = clk now\<rparr>"
  from pg_reserve_from_Inr [of "reservations l (idempotency_key r)" now "clk now" r l l'] assms(3)
  have n: "reservations l (idempotency_key r) = None"
    and "l' = snd (pg_insert (clk now) r (record_to_json (reserved_record now r)) l)"
    by (simp_all add: pg_reserve_def pg_reserve_submission_def)
  then have "l' = l\<lparr>reservations := (reservations l)(idempotency_key r \<mapsto> ?row), actions := actions l\<rparr>"
    by (simp add: pg_insert_def)
  with pg_ok_upd [OF assms(1), of ?row "reserved_record now r" "idempotency_key r" "actions l" sha] assms(2) n
  show ?thesis by (simp add: reserved_record_def frozen_def)
qed

lemma pg_transition_cases:
  assumes "pg_ok l" "pg_transition_status sha fromiso now_dt now k st ev reason l = (Inr r', l')"
  obtains row x acts where "reservations l k = Some row" "pg_entry sha l k = Some x"
    "idempotency_key x = k" "evidence_ok (oa_evidence x)" "r' = moved_record now st ev reason x"
    "l' = l\<lparr>reservations := (reservations l)(k \<mapsto> row\<lparr>pr_status := status_value st,
       pr_record := record_to_json r', pr_updated_at := now_dt\<rparr>), actions := acts\<rparr>"
    "\<exists>c_at. merge_action (action_model c_at now_dt r') (actions l) = Inr acts"
proof (cases "reservations l k")
  case None
  with assms(2) show ?thesis by (simp add: pg_transition_status_def)
next
  case (Some row)
  from pg_entry_row [OF assms(1) Some, of sha] obtain x where
    x: "pg_entry sha l k = Some x" "pr_record row = record_to_json x" "idempotency_key x = k"
    "evidence_ok (oa_evidence x)" by blast
  have ne: "pr_record row \<noteq> EmptyText" using x(2) by (simp add: record_to_json_def json_dumps_def)
  obtain acts where "r' = moved_record now st ev reason x"
    "l' = l\<lparr>reservations := (reservations l)(k \<mapsto> row\<lparr>pr_status := status_value st,
       pr_record := record_to_json r', pr_updated_at := now_dt\<rparr>), actions := acts\<rparr>"
    "\<exists>c_at. merge_action (action_model c_at now_dt r') (actions l) = Inr acts"
    using assms(2) Some ne x(2) pg_record_round_trip [OF x(4), of sha]
    by (auto simp: pg_transition_status_def Let_def split: sum.split_asm)
  with Some x that show ?thesis by blast
qed

lemma pg_move_Inr:
  assumes "pg_ok l" "evidence_ok ev" "pg_move sha fromiso clk now k st ev reason l = (Inr r', l')"
  shows "pg_ok l' \<and> (\<exists>r. pg_entry sha l k = Some r \<and> r' = moved_record now st ev reason r \<and>
    pg_entry sha l' = (pg_entry sha l)(k \<mapsto> r'))"
proof -
  obtain row x acts where c: "reservations l k = Some row" "pg_entry sha l k = Some x"
    "idempotency_key x = k" "evidence_ok (oa_evidence x)" "r' = moved_record now st ev reason x"
    "l' = l\<lparr>reservations := (reservations l)(k \<mapsto> row\<lparr>pr_status := status_value st,
       pr_record := record_to_json r', pr_updated_at := clk now\<rparr>), actions := acts\<rparr>"
    using pg_transition_cases [OF assms(1) assms(3) [unfolded pg_move_def]] by metis
  let ?row = "row\<lparr>pr_status := status_value st, pr_record := record_to_json r', pr_updated_at := clk now\<rparr>"
  from pg_ok_upd [OF assms(1), of ?row r' k acts sha] c evidence_ok_moved [OF assms(2) c(4)]
  show ?thesis by simp
qed

interpretation postgres: submission_ledger pg_ok "pg_entry sha" "pg_reserve clk"
  "pg_move sha fromiso clk" "pg_duplicate_key sha"
  for sha fromiso clk
proof (unfold_locales, goal_cases)
  case (1 l r now l')
  then show ?case using pg_reserve_Inr by blast
next
  case (2 l now r e l')
  then have "l' = l" "reservations l (idempotency_key r) \<noteq> None"
    using pg_reserve_from_Inl by (force simp: pg_reserve_def pg_reserve_submission_def)+
  with 2 show ?case using pg_entry_row [of l "idempotency_key r"] by (metis not_Some_eq)
next
  case (3 l now r e l')
  then show ?case using pg_reserve_from_Inl by (fastforce simp: pg_reserve_def pg_reserve_submission_def)
next
  case (4 l ev now k st reason r' l')
  then show ?case using pg_move_Inr by blast
next
  case (5 l now k st ev reason e l')
  then show ?case
    by (auto simp: pg_move_def pg_transition_status_def Let_def split: option.split_asm sum.split_asm if_split_asm)
next
  case (6 l k)
  show ?case
  proof (cases "reservations l k")
    case None
    then show ?thesis by (simp add: pg_duplicate_key_def pg_get_by_key_def counts_as_duplicate_def)
  next
    case (Some row)
    from pg_entry_row [OF 6 Some, of sha] obtain x where
      x: "pg_entry sha l k = Some x" "pr_record row = record_to_json x" "evidence_ok (oa_evidence x)" by blast
    moreover have "pr_record row \<noteq> EmptyText" using x(2) by (simp add: record_to_json_def json_dumps_def)
    ultimately show ?thesis using Some pg_record_round_trip [of x sha]
      by (simp add: pg_duplicate_key_def pg_get_by_key_def)
  qed
qed

end
