(* ===== verification/Browser_Engine.thy ===== *)
theory Browser_Engine
  imports Answer_Engine Authority Browser_Driver Pg_Ledger
    "HOL-Library.List_Lexorder" "HOL-Library.Char_ord" "HOL-Library.Product_Lexorder"
begin

text \<open>
  \<open>outbound/browser_engine.py\<close>: preparation of a manifest and the execution of an
  application, phase by phase. The world the engine acts on is explicit: kill switch and
  registries, truth graph, ledger and driver. Between two phases other threads may act, which
  the function \<open>interfere\<close> stands for; its argument is the number of the point.
\<close>

section \<open>World, dependencies and arguments\<close>

record ('l, 'd) world =
  w_env :: authority_env
  w_truth :: truth_graph
  w_ledger :: 'l
  w_driver :: 'd

record ('l, 'd) engine =
  e_sha :: "string \<Rightarrow> string"
  e_digest :: "json \<Rightarrow> string"
  e_validate :: validator
  e_driver :: "'d browser_driver"
  e_reserve :: "'l reserve_op"
  e_move :: "'l move_op"
  e_duplicate :: "string \<Rightarrow> 'l \<Rightarrow> bool result"
  e_clock :: "nat \<Rightarrow> string"
  e_interfere :: "nat \<Rightarrow> ('l, 'd) world \<Rightarrow> ('l, 'd) world"

text \<open>The arguments of \<open>execute_application\<close>, with the fresh action id and the start time.\<close>

record exec_args =
  x_opportunity :: opportunity
  x_artifact :: "any_artifact option"
  x_mode :: ExecutionMode
  x_adapter :: string
  x_workspace :: string
  x_candidate :: string
  x_qualification :: QualificationDecision
  x_policy :: "tailoring_policy option"
  x_score :: real
  x_manifest :: "pre_submit_manifest option"
  x_action_id :: string
  x_created_at :: string

definition x_pol :: "exec_args \<Rightarrow> tailoring_policy" where
  "x_pol a = (case x_policy a of Some p \<Rightarrow> p | None \<Rightarrow> TailoringPolicy)"

definition ACTION_TYPE :: string where "ACTION_TYPE = ''application''"

definition x_key :: "('l, 'd) engine \<Rightarrow> exec_args \<Rightarrow> string" where
  "x_key e a = compute_idempotency_key (e_sha e) (x_workspace a) (x_candidate a)
     (opp_id (x_opportunity a)) ACTION_TYPE"

section \<open>Answers and manifests\<close>

definition answer_json :: "application_answer \<Rightarrow> json" where
  "answer_json a = JObj [
     (''answer'', (case answer a of Some v \<Rightarrow> JStr v | None \<Rightarrow> JNull)),
     (''answer_class'', JStr (class_value (answer_class a))),
     (''answer_source'', JStr (answer_source a)),
     (''artifact_ids'', JArr (map JStr (ans_artifact_ids a))),
     (''assertion_ids'', JArr (map JStr (assertion_ids a))),
     (''confidence'', JFloat (confidence a)),
     (''disposition'', JStr (disposition a)),
     (''field_type'', JStr (field_value (field_type a))),
     (''generated_claim_ids'', JArr (map JStr (generated_claim_ids a))),
     (''normalized_question'', JStr (normalized_question a)),
     (''original_label'', JStr (original_label a)),
     (''policy_source'', JStr (policy_source a))]"

definition compute_answers_hash :: "(json \<Rightarrow> string) \<Rightarrow> application_answer list \<Rightarrow> string" where
  "compute_answers_hash digest as =
     digest (JArr (map answer_json
       (sort_key (\<lambda>a. (field_value (field_type a), original_label a)) as)))"

definition red_count :: "application_answer list \<Rightarrow> nat" where
  "red_count as = length (filter (\<lambda>a. answer_class a = RED) as)"

definition is_unresolved :: "detected_field \<Rightarrow> application_answer \<Rightarrow> bool" where
  "is_unresolved f a \<longleftrightarrow> required f \<and> (answer a = None \<or> answer_class a = RED)"

definition unresolved_count :: "detected_field list \<Rightarrow> application_answer list \<Rightarrow> nat" where
  "unresolved_count fs as = length (filter (\<lambda>(f, a). is_unresolved f a) (zip fs as))"

definition grad_ver :: "graduation_record option \<Rightarrow> string" where
  "grad_ver g = (case g of Some r \<Rightarrow> grad_version r | None \<Rightarrow> ''1.0.0'')"

definition grad_evidence :: "graduation_record option \<Rightarrow> string" where
  "grad_evidence g = (case g of Some r \<Rightarrow> evidence_hash r | None \<Rightarrow> [])"

definition bound_ids :: "bound_artifact option \<Rightarrow> string list" where
  "bound_ids b = (case b of Some x \<Rightarrow> [artifact_id (artifact x)] | None \<Rightarrow> [])"

definition bound_hashes :: "bound_artifact option \<Rightarrow> string list" where
  "bound_hashes b = (case b of Some x \<Rightarrow> [artifact_hash (artifact x)] | None \<Rightarrow> [])"

text \<open>The manifest built from the answers and from what the registries say.\<close>

definition build_manifest ::
  "('l, 'd) engine \<Rightarrow> exec_args \<Rightarrow> bound_artifact option \<Rightarrow> graduation_record option \<Rightarrow> string
     \<Rightarrow> detected_field list \<Rightarrow> application_answer list \<Rightarrow> pre_submit_manifest" where
  "build_manifest e a b g pol_ver fs as =
     manifest_post_init (e_digest e) (x_created_at a)
       \<lparr>pm_workspace = x_workspace a, pm_candidate = x_candidate a,
        pm_opportunity = opp_id (x_opportunity a), pm_content_hash = content_hash (x_opportunity a),
        pm_action_type = ACTION_TYPE, pm_adapter = x_adapter a, pm_adapter_version = grad_ver g,
        graduation_record_version = grad_ver g, source_policy_version = pol_ver,
        pm_artifact_ids = bound_ids b, pm_artifact_hashes = bound_hashes b, pm_answers = as,
        answers_hash = compute_answers_hash (e_digest e) as, pm_qualification = x_qualification a,
        unresolved_mandatory_count = unresolved_count fs as, red_answers_count = red_count as,
        pm_idempotency_key = x_key e a, graduation_evidence_hash = grad_evidence g,
        tailoring_policy_version = policy_version (x_pol a), compiled_at = x_created_at a,
        manifest_hash = []\<rparr>"

text \<open>Reading the registries: a graduation record may be downgraded by the read.\<close>

definition read_graduation ::
  "('l, 'd) engine \<Rightarrow> exec_args \<Rightarrow> ('l, 'd) world \<Rightarrow> graduation_record option \<times> ('l, 'd) world" where
  "read_graduation e a w =
     (case get_graduation_record (e_sha e) (evidence_files (w_env w)) (x_adapter a) (adapters (w_env w)) of
        (g, reg) \<Rightarrow> (g, w\<lparr>w_env := (w_env w)\<lparr>adapters := reg\<rparr>\<rparr>))"

definition read_policy_version :: "('l, 'd) engine \<Rightarrow> exec_args \<Rightarrow> ('l, 'd) world \<Rightarrow> string" where
  "read_policy_version e a w =
     get_policy_version (e_sha e) (opp_source (x_opportunity a)) (source_registry (w_env w))"

fun answer_all ::
  "string \<Rightarrow> truth_graph \<Rightarrow> tailoring_policy \<Rightarrow> opportunity \<Rightarrow> string \<Rightarrow> bound_artifact option
     \<Rightarrow> detected_field list \<Rightarrow> application_answer list result" where
  "answer_all now tg pol opp act b [] = Inr []"
| "answer_all now tg pol opp act b (f # fs) =
     bind (answer_field now tg pol f opp act b) (\<lambda>x.
     bind (answer_all now tg pol opp act b fs) (\<lambda>xs. Inr (x # xs)))"

section \<open>Preparing a manifest\<close>

text \<open>The inspection loop: at most \<open>n\<close> more pages.\<close>

fun inspect_loop ::
  "'d browser_driver \<Rightarrow> (detected_field list \<Rightarrow> application_answer list result) \<Rightarrow> nat \<Rightarrow> nat \<Rightarrow> 'd
     \<Rightarrow> (detected_field list \<times> application_answer list) result \<times> 'd" where
  "inspect_loop drv ans 0 step d = (Inr ([], []), d)"
| "inspect_loop drv ans (Suc n) step d =
     (case inspect_page_fields drv step d of (fs, d1) \<Rightarrow>
        (case ans fs of
          Inl err \<Rightarrow> (Inl err, d1)
        | Inr as \<Rightarrow>
            (case advance_step drv d1 of (adv, d2) \<Rightarrow>
               if \<not> adv then (Inr (fs, as), d2)
               else (case inspect_loop drv ans n (Suc step) d2 of
                       (Inl err, d3) \<Rightarrow> (Inl err, d3)
                     | (Inr (fs', as'), d3) \<Rightarrow> (Inr (fs @ fs', as @ as'), d3)))))"

definition MAX_STEPS :: nat where "MAX_STEPS = 10"

text \<open>The artifact a preparation binds: a raw one is bound to the requested owner.\<close>

definition bind_for :: "exec_args \<Rightarrow> bound_artifact option result" where
  "bind_for a =
     (case x_artifact a of
        None \<Rightarrow> Inr None
      | Some (Bound b) \<Rightarrow> Inr (Some b)
      | Some (Raw r) \<Rightarrow> bind (BoundArtifact r (x_candidate a) (x_workspace a)) (\<lambda>b. Inr (Some b)))"

definition prepare_manifest ::
  "('l, 'd) engine \<Rightarrow> exec_args \<Rightarrow> ('l, 'd) world
     \<Rightarrow> (pre_submit_manifest \<times> application_answer list \<times> nat \<times> nat) result \<times> ('l, 'd) world" where
  "prepare_manifest e a w =
     (case bind_for a of
        Inl err \<Rightarrow> (Inl err, w)
      | Inr b \<Rightarrow>
          (case inspect_loop (e_driver e)
                  (answer_all (x_created_at a) (w_truth w) (x_pol a) (x_opportunity a) (x_action_id a) b)
                  MAX_STEPS 0 (w_driver w) of
             (Inl err, d) \<Rightarrow> (Inl err, w\<lparr>w_driver := d\<rparr>)
           | (Inr (fs, as), d) \<Rightarrow>
               (case read_graduation e a (w\<lparr>w_driver := d\<rparr>) of (g, w1) \<Rightarrow>
                  (Inr (build_manifest e a b g (read_policy_version e a w1) fs as, as, red_count as,
                        unresolved_count fs as), w1))))"

section \<open>Executing an application\<close>

text \<open>The record an execution returns without or before the ledger.\<close>

definition plan_record ::
  "('l, 'd) engine \<Rightarrow> exec_args \<Rightarrow> string \<Rightarrow> string list \<Rightarrow> string list \<Rightarrow> string \<Rightarrow> ActionStatus \<Rightarrow> string
     \<Rightarrow> outbound_action_record" where
  "plan_record e a ver ids hashes mhash st reason =
     \<lparr>action_id = x_action_id a, oa_opportunity_id = opp_id (x_opportunity a),
      oa_content_hash = content_hash (x_opportunity a), oa_workspace = x_workspace a,
      oa_candidate_id = x_candidate a, oa_track = opp_track (x_opportunity a),
      oa_source = opp_source (x_opportunity a), adapter_name = x_adapter a, adapter_version = ver,
      execution_mode = x_mode a, qualification_decision = x_qualification a,
      match_score_snapshot = x_score a, oa_artifact_ids = ids, oa_artifact_hashes = hashes,
      oa_manifest_hash = mhash, action_status = st, idempotency_key = x_key e a,
      created_at = x_created_at a, updated_at = x_created_at a, oa_evidence = None,
      blocker_reason = reason, manual_edits = [], external_reference_id = []\<rparr>"

definition early_record ::
  "('l, 'd) engine \<Rightarrow> exec_args \<Rightarrow> bound_artifact option \<Rightarrow> ActionStatus \<Rightarrow> string \<Rightarrow> outbound_action_record" where
  "early_record e a b st reason = plan_record e a ''1.0.0'' (bound_ids b) (bound_hashes b) [] st reason"

definition manifest_record ::
  "('l, 'd) engine \<Rightarrow> exec_args \<Rightarrow> string \<Rightarrow> pre_submit_manifest \<Rightarrow> ActionStatus \<Rightarrow> string
     \<Rightarrow> outbound_action_record" where
  "manifest_record e a ver m st reason =
     plan_record e a ver (pm_artifact_ids m) (pm_artifact_hashes m) (manifest_hash m) st reason"

definition authority_request ::
  "exec_args \<Rightarrow> bound_artifact option \<Rightarrow> application_answer list \<Rightarrow> bool \<Rightarrow> bool \<Rightarrow> bool \<Rightarrow> nat \<Rightarrow> truth_graph
     \<Rightarrow> action_request" where
  "authority_request a b as dup captcha mfa unresolved tg =
     \<lparr>req_opportunity = x_opportunity a, req_artifact = map_option Bound b, req_answers = as,
      req_mode = x_mode a, req_adapter = x_adapter a, req_workspace = x_workspace a,
      req_candidate = x_candidate a, req_qualification = x_qualification a, req_truth = tg,
      req_policy = Some (x_pol a), req_duplicate = dup, req_captcha = captcha, req_mfa = mfa,
      req_unresolved = unresolved\<rparr>"

text \<open>The ledger's duplicate check and the gate, on one state of the world.\<close>

definition ask_authority ::
  "('l, 'd) engine \<Rightarrow> exec_args \<Rightarrow> bound_artifact option \<Rightarrow> application_answer list \<Rightarrow> nat \<Rightarrow> ('l, 'd) world
     \<Rightarrow> (ActionAuthorityDecision \<times> string list) result \<times> ('l, 'd) world" where
  "ask_authority e a b as unresolved w =
     (case e_duplicate e (x_key e a) (w_ledger w) of
        Inl err \<Rightarrow> (Inl err, w)
      | Inr dup \<Rightarrow>
          (case evaluate_action (e_sha e) (e_validate e)
                  (authority_request a b as dup (is_captcha_present (e_driver e) (w_driver w))
                     (is_mfa_present (e_driver e) (w_driver w)) unresolved (w_truth w)) (w_env w) of
             (d, env) \<Rightarrow> (Inr d, w\<lparr>w_env := env\<rparr>)))"

text \<open>One answered field: outside dry runs it is filled, or the artifact attached.\<close>

definition fill_answer ::
  "('l, 'd) engine \<Rightarrow> exec_args \<Rightarrow> bound_artifact option \<Rightarrow> detected_field \<Rightarrow> application_answer \<Rightarrow> 'd \<Rightarrow> 'd" where
  "fill_answer e a b f x d =
     (if x_mode a \<in> {ASSISTED, CONTROLLED_SUBMIT} \<and> disposition x = ''auto_fill''
      then (case answer x of
              None \<Rightarrow> d
            | Some v \<Rightarrow>
                (case (if ontology_type f = ATTACHMENT then b else None) of
                   Some art \<Rightarrow> attach_artifact (e_driver e) f art d
                 | None \<Rightarrow> fill_field (e_driver e) f v d))
      else d)"

fun fill_page ::
  "('l, 'd) engine \<Rightarrow> exec_args \<Rightarrow> bound_artifact option \<Rightarrow> truth_graph \<Rightarrow> detected_field list \<Rightarrow> 'd
     \<Rightarrow> application_answer list result \<times> 'd" where
  "fill_page e a b tg [] d = (Inr [], d)"
| "fill_page e a b tg (f # fs) d =
     (case answer_field (x_created_at a) tg (x_pol a) f (x_opportunity a) (x_action_id a) b of
        Inl err \<Rightarrow> (Inl err, d)
      | Inr x \<Rightarrow>
          (case fill_page e a b tg fs (fill_answer e a b f x d) of
             (Inl err, d2) \<Rightarrow> (Inl err, d2)
           | (Inr xs, d2) \<Rightarrow> (Inr (x # xs), d2)))"

datatype form_exit =
    Challenge ActionStatus string
  | Raised py_exn
  | Filled "detected_field list" "application_answer list"

text \<open>The form loop: at most \<open>n\<close> more pages, each after a challenge check.\<close>

fun form_loop ::
  "('l, 'd) engine \<Rightarrow> exec_args \<Rightarrow> bound_artifact option \<Rightarrow> truth_graph \<Rightarrow> nat \<Rightarrow> nat \<Rightarrow> 'd \<Rightarrow> form_exit \<times> 'd" where
  "form_loop e a b tg 0 step d = (Filled [] [], d)"
| "form_loop e a b tg (Suc n) step d =
     (if is_captcha_present (e_driver e) d then (Challenge BLOCKED ''CAPTCHA challenge detected on step'', d)
      else if is_mfa_present (e_driver e) d
      then (Challenge AWAITING_REVIEW ''MFA challenge detected on step'', d)
      else
        (case inspect_page_fields (e_driver e) step d of (fs, d1) \<Rightarrow>
           (case fill_page e a b tg fs d1 of
             (Inl err, d2) \<Rightarrow> (Raised err, d2)
           | (Inr xs, d2) \<Rightarrow>
               (case advance_step (e_driver e) d2 of (adv, d3) \<Rightarrow>
                  if \<not> adv then (Filled fs xs, d3)
                  else (case form_loop e a b tg n (Suc step) d3 of
                          (Filled fs' xs', d4) \<Rightarrow> (Filled (fs @ fs') (xs @ xs'), d4)
                        | (other, d4) \<Rightarrow> (other, d4))))))"

text \<open>
  A phase ends the execution, with a record or an exception, or hands its findings on.
\<close>

type_synonym 'c phase = "outbound_action_record result + 'c"

text \<open>Phase 1: the manifest requirement, the snapshot of the registries, the artifact, the gate.\<close>

definition exec_open ::
  "('l, 'd) engine \<Rightarrow> exec_args \<Rightarrow> ('l, 'd) world
     \<Rightarrow> (bound_artifact option \<times> graduation_record option \<times> string) phase \<times> ('l, 'd) world" where
  "exec_open e a w =
     (if x_mode a = CONTROLLED_SUBMIT \<and> x_manifest a = None
      then (Inl (Inr (plan_record e a ''1.0.0'' [] [] [] BLOCKED
             ''CONTROLLED_SUBMIT requires a genuine prior PreSubmitManifest; prepared_manifest cannot be None'')), w)
      else
        (let pol_ver = read_policy_version e a w in
         case read_graduation e a w of (g, w1) \<Rightarrow>
           if (case x_artifact a of Some (Raw _) \<Rightarrow> x_mode a \<in> {ASSISTED, CONTROLLED_SUBMIT} | _ \<Rightarrow> False)
           then (Inl (Inr (plan_record e a ''1.0.0'' [] [] [] BLOCKED
                  ''Raw unowned TailoredArtifact prohibited; BoundArtifact required'')), w1)
           else
             (case bind_for a of
                Inl err \<Rightarrow> (Inl (Inl err), w1)
              | Inr b \<Rightarrow>
                  (case ask_authority e a b [] 0 (e_interfere e 0 w1) of
                     (Inl err, w2) \<Rightarrow> (Inl (Inl err), w2)
                   | (Inr (dec, reasons), w2) \<Rightarrow>
                       if dec = BLOCK
                       then (Inl (Inr (early_record e a b BLOCKED (py_join ''; '' reasons))), w2)
                       else if dec = PAUSE_FOR_REVIEW
                       then (Inl (Inr (early_record e a b AWAITING_REVIEW (py_join ''; '' reasons))), w2)
                       else (Inr (b, g, pol_ver), w2)))))"

text \<open>Phase 2: the form.\<close>

definition exec_form ::
  "('l, 'd) engine \<Rightarrow> exec_args \<Rightarrow> bound_artifact option \<Rightarrow> ('l, 'd) world
     \<Rightarrow> (detected_field list \<times> application_answer list) phase \<times> ('l, 'd) world" where
  "exec_form e a b w =
     (case form_loop e a b (w_truth w) MAX_STEPS 0 (w_driver w) of
        (Challenge st reason, d) \<Rightarrow> (Inl (Inr (early_record e a b st reason)), w\<lparr>w_driver := d\<rparr>)
      | (Raised err, d) \<Rightarrow> (Inl (Inl err), w\<lparr>w_driver := d\<rparr>)
      | (Filled fs xs, d) \<Rightarrow> (Inr (fs, xs), w\<lparr>w_driver := d\<rparr>))"

text \<open>Phase 3: what a dry run and an assisted run return.\<close>

definition exec_plan ::
  "('l, 'd) engine \<Rightarrow> exec_args \<Rightarrow> graduation_record option \<Rightarrow> pre_submit_manifest \<Rightarrow> detected_field list
     \<Rightarrow> application_answer list \<Rightarrow> outbound_action_record option" where
  "exec_plan e a g current fs xs =
     (let m = (case x_manifest a of Some pm \<Rightarrow> pm | None \<Rightarrow> current);
          red = red_count xs; open_q = unresolved_count fs xs
      in case x_mode a of
           DRY_RUN \<Rightarrow> Some (manifest_record e a (grad_ver g) m PREPARED [])
         | ASSISTED \<Rightarrow>
             Some (if red > 0 \<or> open_q > 0
                   then manifest_record e a (grad_ver g) m AWAITING_REVIEW
                          (nat_str red @ '' Red question(s) or '' @ nat_str open_q @
                           '' mandatory question(s) unresolved'')
                   else manifest_record e a (grad_ver g) m PREPARED [])
         | CONTROLLED_SUBMIT \<Rightarrow> None)"

text \<open>
  The current state, read for a revalidation: answers, graduation, policy version and the
  manifest they make.
\<close>

definition revalidate ::
  "('l, 'd) engine \<Rightarrow> exec_args \<Rightarrow> bound_artifact option \<Rightarrow> detected_field list \<Rightarrow> ('l, 'd) world
     \<Rightarrow> (graduation_record option \<times> pre_submit_manifest \<times> application_answer list) result \<times> ('l, 'd) world" where
  "revalidate e a b fs w =
     (case answer_all (x_created_at a) (w_truth w) (x_pol a) (x_opportunity a) (x_action_id a) b fs of
        Inl err \<Rightarrow> (Inl err, w)
      | Inr xs \<Rightarrow>
          (case read_graduation e a w of (g, w1) \<Rightarrow>
             (Inr (g, build_manifest e a b g (read_policy_version e a w1) fs xs, xs), w1)))"

text \<open>Phase 4: staleness against the prepared manifest, then the gate on the fresh answers.\<close>

definition exec_gate ::
  "('l, 'd) engine \<Rightarrow> exec_args \<Rightarrow> pre_submit_manifest \<Rightarrow> bound_artifact option \<Rightarrow> detected_field list
     \<Rightarrow> ('l, 'd) world \<Rightarrow> (string \<times> pre_submit_manifest) phase \<times> ('l, 'd) world" where
  "exec_gate e a pm b fs w =
     (case revalidate e a b fs w of
        (Inl err, w1) \<Rightarrow> (Inl (Inl err), w1)
      | (Inr (g, fresh, xs), w1) \<Rightarrow>
          if manifest_hash fresh \<noteq> manifest_hash pm
          then (Inl (Inr (manifest_record e a (grad_ver g) fresh BLOCKED
                 ''Manifest staleness detected: environment, policy, or provenance changed after preparation'')), w1)
          else
            (case ask_authority e a b xs (unresolved_count fs xs) (e_interfere e 3 w1) of
               (Inl err, w2) \<Rightarrow> (Inl (Inl err), w2)
             | (Inr (dec, reasons), w2) \<Rightarrow>
                 if dec \<noteq> ALLOW_SUBMIT
                 then (Inl (Inr (manifest_record e a (grad_ver g) fresh
                        (if dec = PAUSE_FOR_REVIEW then AWAITING_REVIEW else BLOCKED)
                        (py_join ''; '' reasons))), w2)
                 else (Inr (grad_ver g, fresh), w2)))"

text \<open>Phase 5: the reservation. Only the two domain errors become a blocked record.\<close>

definition exec_reserve ::
  "('l, 'd) engine \<Rightarrow> exec_args \<Rightarrow> string \<Rightarrow> pre_submit_manifest \<Rightarrow> ('l, 'd) world
     \<Rightarrow> unit phase \<times> ('l, 'd) world" where
  "exec_reserve e a ver fresh w =
     (case e_reserve e (e_clock e 4) (manifest_record e a ver fresh PLANNED []) (w_ledger w) of
        (Inr u, l) \<Rightarrow> (Inr u, w\<lparr>w_ledger := l\<rparr>)
      | (Inl (DuplicateSubmissionError m), l) \<Rightarrow>
          (Inl (Inr (manifest_record e a ver fresh BLOCKED m)), w\<lparr>w_ledger := l\<rparr>)
      | (Inl (UnknownOutcomeFrozenError m), l) \<Rightarrow>
          (Inl (Inr (manifest_record e a ver fresh BLOCKED m)), w\<lparr>w_ledger := l\<rparr>)
      | (Inl err, l) \<Rightarrow> (Inl (Inl err), w\<lparr>w_ledger := l\<rparr>))"

text \<open>An abort after the reservation: the ledger is told first, then the record is returned.\<close>

definition abort_after_reserve ::
  "('l, 'd) engine \<Rightarrow> exec_args \<Rightarrow> string \<Rightarrow> pre_submit_manifest \<Rightarrow> string \<Rightarrow> ('l, 'd) world
     \<Rightarrow> outbound_action_record result \<times> ('l, 'd) world" where
  "abort_after_reserve e a ver m reason w =
     (case e_move e (e_clock e 6) (x_key e a) BLOCKED None reason (w_ledger w) of
        (Inl err, l) \<Rightarrow> (Inl err, w\<lparr>w_ledger := l\<rparr>)
      | (Inr _, l) \<Rightarrow> (Inr (manifest_record e a ver m BLOCKED reason), w\<lparr>w_ledger := l\<rparr>))"

text \<open>Phase 6: the final revalidation, on the state after the reservation.\<close>

definition exec_recheck ::
  "('l, 'd) engine \<Rightarrow> exec_args \<Rightarrow> pre_submit_manifest \<Rightarrow> pre_submit_manifest \<Rightarrow> bound_artifact option
     \<Rightarrow> detected_field list \<Rightarrow> ('l, 'd) world \<Rightarrow> string phase \<times> ('l, 'd) world" where
  "exec_recheck e a pm fresh b fs w =
     (case revalidate e a b fs w of
        (Inl err, w1) \<Rightarrow> (Inl (Inl err), w1)
      | (Inr (g, post, xs), w1) \<Rightarrow>
          (let pol = get_policy (opp_source (x_opportunity a)) (source_registry (w_env w1));
               changed = ''Source policy changed after reservation to '' @ policy_value pol @ ''; submit aborted'';
               abort = (\<lambda>m reason. case abort_after_reserve e a (grad_ver g) m reason w1 of
                          (r, w2) \<Rightarrow> (Inl r, w2))
           in if \<not> kill_switch_enabled (w_env w1)
              then abort fresh ''Global kill switch disabled after reservation; submit aborted''
              else if pol \<notin> {SUBMIT_ALLOWED, API_ACTION_ALLOWED} then abort fresh changed
              else if (case g of None \<Rightarrow> True | Some r \<Rightarrow> lifecycle_state r \<noteq> SUBMIT_ENABLED) \<or>
                      grad_evidence g = [] \<or> grad_evidence g \<noteq> graduation_evidence_hash pm
              then abort fresh ''Adapter graduation state or evidence invalidated after reservation; submit aborted''
              else if manifest_hash post \<noteq> manifest_hash pm
              then abort post ''Post-reservation manifest staleness detected: environment, policy, or provenance changed after reservation; submit aborted''
              else (Inr (grad_ver g), w1)))"

text \<open>Phase 7: the challenge check and the one call that submits.\<close>

definition exec_submit ::
  "('l, 'd) engine \<Rightarrow> exec_args \<Rightarrow> string \<Rightarrow> pre_submit_manifest \<Rightarrow> ('l, 'd) world
     \<Rightarrow> outbound_action_record result \<times> ('l, 'd) world" where
  "exec_submit e a ver fresh w =
     (if is_captcha_present (e_driver e) (w_driver w) \<or> is_mfa_present (e_driver e) (w_driver w)
      then abort_after_reserve e a ver fresh ''Challenge detected immediately before submit call'' w
      else
        (case submit_page (e_driver e) (w_driver w) of (ev, d) \<Rightarrow>
           (let w1 = e_interfere e 7 (w\<lparr>w_driver := d\<rparr>);
               finish = (\<lambda>st evd reason.
                 (case e_move e (e_clock e 7) (x_key e a) st evd reason (w_ledger w1) of
                    (r, l) \<Rightarrow> (r, w1\<lparr>w_ledger := l\<rparr>)))
           in case ev of
                Inl err \<Rightarrow> finish UNKNOWN_OUTCOME None (''Submission error: '' @ exn_text err)
              | Inr (Some x) \<Rightarrow>
                  if confirmed x then finish CONFIRMED (Some x) []
                  else finish UNKNOWN_OUTCOME (Some x) ''Submission completed but receipt not detected''
              | Inr None \<Rightarrow> finish UNKNOWN_OUTCOME None ''Submission completed but receipt not detected'')))"

definition exec_controlled ::
  "('l, 'd) engine \<Rightarrow> exec_args \<Rightarrow> pre_submit_manifest \<Rightarrow> bound_artifact option \<Rightarrow> detected_field list
     \<Rightarrow> ('l, 'd) world \<Rightarrow> outbound_action_record result \<times> ('l, 'd) world" where
  "exec_controlled e a pm b fs w =
     (case exec_gate e a pm b fs (e_interfere e 2 w) of
        (Inl r, w1) \<Rightarrow> (r, w1)
      | (Inr (ver, fresh), w1) \<Rightarrow>
          (case exec_reserve e a ver fresh (e_interfere e 4 w1) of
             (Inl r, w2) \<Rightarrow> (r, w2)
           | (Inr _, w2) \<Rightarrow>
               (case exec_recheck e a pm fresh b fs (e_interfere e 5 w2) of
                  (Inl r, w3) \<Rightarrow> (r, w3)
                | (Inr ver', w3) \<Rightarrow> exec_submit e a ver' fresh (e_interfere e 6 w3))))"

definition execute_application ::
  "('l, 'd) engine \<Rightarrow> exec_args \<Rightarrow> ('l, 'd) world \<Rightarrow> outbound_action_record result \<times> ('l, 'd) world" where
  "execute_application e a w =
     (case exec_open e a w of
        (Inl r, w1) \<Rightarrow> (r, w1)
      | (Inr (b, g, pol_ver), w1) \<Rightarrow>
          (case exec_form e a b (e_interfere e 1 w1) of
             (Inl r, w2) \<Rightarrow> (r, w2)
           | (Inr (fs, xs), w2) \<Rightarrow>
               (case exec_plan e a g (build_manifest e a b g pol_ver fs xs) fs xs of
                  Some rec \<Rightarrow> (Inr rec, w2)
                | None \<Rightarrow> exec_controlled e a (the (x_manifest a)) b fs w2)))"

end
