(* ===== verification/Engine_Contract.thy ===== *)
theory Engine_Contract
  imports Browser_Engine
begin

text \<open>
  The engine over any driver and any ledger that keep their contracts, while other threads
  change registries, kill switch, truth graph and challenges between the phases: when a form
  can be sent, and that every execution is a run of the submission protocol.
\<close>

section \<open>Phases that leave ledger and form alone\<close>

lemma read_graduation_frame:
  assumes "read_graduation e a w = (g, w')"
  shows "w_ledger w' = w_ledger w" "w_driver w' = w_driver w" "w_truth w' = w_truth w"
  using assms by (auto simp: read_graduation_def split: prod.split_asm)

lemma ask_authority_frame:
  assumes "ask_authority e a b xs n w = (r, w')"
  shows "w_ledger w' = w_ledger w" "w_driver w' = w_driver w" "w_truth w' = w_truth w"
  using assms by (auto simp: ask_authority_def split: prod.split_asm sum.split_asm)

lemma revalidate_frame:
  assumes "revalidate e a b fs w = (r, w')"
  shows "w_ledger w' = w_ledger w" "w_driver w' = w_driver w" "w_truth w' = w_truth w"
  using assms read_graduation_frame [of e a w]
  by (auto simp: revalidate_def split: prod.split_asm sum.split_asm)

lemma manifest_record_key [simp]:
  "idempotency_key (manifest_record e a ver m st reason) = x_key e a"
  "oa_evidence (manifest_record e a ver m st reason) = None"
  by (simp_all add: manifest_record_def plan_record_def)

lemma evidence_ok_None [simp]: "evidence_ok None"
  by (simp add: evidence_ok_def)

section \<open>Conditions of a submission\<close>

text \<open>What the final revalidation found in the world \<open>w\<close> it ran on.\<close>

definition recheck_clear ::
  "('l, 'd) engine \<Rightarrow> exec_args \<Rightarrow> pre_submit_manifest \<Rightarrow> bound_artifact option \<Rightarrow> detected_field list
     \<Rightarrow> ('l, 'd) world \<Rightarrow> bool" where
  "recheck_clear e a pm b fs w \<longleftrightarrow>
     kill_switch_enabled (w_env w) \<and>
     get_policy (opp_source (x_opportunity a)) (source_registry (w_env w)) \<in> {SUBMIT_ALLOWED, API_ACTION_ALLOWED} \<and>
     (\<exists>r. adapters (w_env w) (x_adapter a) = Some r \<and> lifecycle_state r = SUBMIT_ENABLED \<and>
        evidence_matches (e_sha e) (evidence_files (w_env w)) (x_adapter a) r \<and>
        evidence_hash r = graduation_evidence_hash pm \<and>
        (\<exists>xs. answer_all (x_created_at a) (w_truth w) (x_pol a) (x_opportunity a) (x_action_id a) b fs = Inr xs \<and>
           manifest_hash (build_manifest e a b (Some r) (read_policy_version e a w) fs xs) = manifest_hash pm))"

lemma read_graduation_registry:
  "read_graduation e a w = (g, w') \<Longrightarrow> source_registry (w_env w') = source_registry (w_env w) \<and>
     kill_switch_enabled (w_env w') = kill_switch_enabled (w_env w) \<and>
     read_policy_version e a w' = read_policy_version e a w"
  by (auto simp: read_graduation_def read_policy_version_def split: prod.split_asm)

lemma exec_recheck_Inr:
  assumes "exec_recheck e a pm fresh b fs w = (Inr ver, w')"
  shows "recheck_clear e a pm b fs w \<and> w_ledger w' = w_ledger w \<and> w_driver w' = w_driver w"
proof -
  obtain r w1 where rv: "revalidate e a b fs w = (r, w1)" by force
  show ?thesis
  proof (cases r)
    case (Inl err)
    with assms rv show ?thesis by (simp add: exec_recheck_def)
  next
    case (Inr gpx)
    obtain g post xs where gpx: "gpx = (g, post, xs)" using prod_cases3 by blast
    from rv Inr gpx have
      an: "answer_all (x_created_at a) (w_truth w) (x_pol a) (x_opportunity a) (x_action_id a) b fs = Inr xs"
      and gr: "read_graduation e a w = (g, w1)"
      and post: "post = build_manifest e a b g (read_policy_version e a w1) fs xs"
      by (auto simp: revalidate_def split: sum.split_asm prod.split_asm)
    note reg = read_graduation_registry [OF gr]
    from assms rv Inr gpx have
      c: "kill_switch_enabled (w_env w1)"
      "get_policy (opp_source (x_opportunity a)) (source_registry (w_env w1)) \<in> {SUBMIT_ALLOWED, API_ACTION_ALLOWED}"
      "\<exists>q. g = Some q \<and> lifecycle_state q = SUBMIT_ENABLED" "grad_evidence g = graduation_evidence_hash pm"
      "manifest_hash post = manifest_hash pm" "w' = w1"
      by (auto simp: exec_recheck_def Let_def split: if_split_asm prod.split_asm option.split_asm)
    from c(3) obtain q where q: "g = Some q" "lifecycle_state q = SUBMIT_ENABLED" by blast
    from gr q have "adapters (w_env w) (x_adapter a) = Some q"
      "evidence_matches (e_sha e) (evidence_files (w_env w)) (x_adapter a) q"
      using get_graduation_submit_capable [of "e_sha e" "evidence_files (w_env w)" "x_adapter a"
          "adapters (w_env w)" q]
      by (auto simp: read_graduation_def split: prod.split_asm)
    with c q an post reg read_graduation_frame [OF gr] show ?thesis
      by (auto simp: recheck_clear_def grad_evidence_def)
  qed
qed

lemma exec_recheck_Inl:
  assumes "exec_recheck e a pm fresh b fs w = (Inl r, w')"
  shows "(w_ledger w' = w_ledger w \<and> w_driver w' = w_driver w) \<or>
    (\<exists>reason res l. e_move e (e_clock e 6) (x_key e a) BLOCKED None reason (w_ledger w) = (res, l) \<and>
       w_ledger w' = l \<and> w_driver w' = w_driver w)"
proof -
  obtain rv w1 where rv: "revalidate e a b fs w = (rv, w1)" by force
  note fr = revalidate_frame [OF rv]
  show ?thesis
  proof (cases rv)
    case (Inl err)
    with assms rv fr show ?thesis by (auto simp: exec_recheck_def)
  next
    case (Inr gpx)
    obtain g post xs where gpx: "gpx = (g, post, xs)" using prod_cases3 by blast
    from assms rv Inr gpx obtain m ver reason where
      ab: "abort_after_reserve e a ver m reason w1 = (r, w')"
      by (auto simp: exec_recheck_def Let_def split: if_split_asm prod.split_asm)
    obtain res l where mv: "e_move e (e_clock e 6) (x_key e a) BLOCKED None reason (w_ledger w1) = (res, l)"
      by force
    from ab mv have "w' = w1\<lparr>w_ledger := l\<rparr>"
      by (auto simp: abort_after_reserve_def split: sum.split_asm)
    with mv fr show ?thesis by auto
  qed
qed

lemma exec_gate_frame:
  assumes "exec_gate e a pm b fs w = (r, w')"
  shows "\<exists>w1. w_ledger w1 = w_ledger w \<and> w_driver w1 = w_driver w \<and>
    (w' = w1 \<or> w_ledger w' = w_ledger (e_interfere e 3 w1) \<and> w_driver w' = w_driver (e_interfere e 3 w1))"
proof -
  obtain rv w1 where rv: "revalidate e a b fs w = (rv, w1)" by force
  note fr = revalidate_frame [OF rv]
  show ?thesis
  proof (cases rv)
    case (Inl err)
    with assms rv fr show ?thesis by (auto simp: exec_gate_def)
  next
    case (Inr gpx)
    obtain g fresh xs where gpx: "gpx = (g, fresh, xs)" using prod_cases3 by blast
    obtain q w2 where q: "ask_authority e a b xs (unresolved_count fs xs) (e_interfere e 3 w1) = (q, w2)" by force
    from assms rv Inr gpx q have "w' = w1 \<or> w' = w2"
      by (auto simp: exec_gate_def split: if_split_asm sum.split_asm prod.split_asm)
    with fr ask_authority_frame [OF q] show ?thesis by auto
  qed
qed

text \<open>
  The authority's permission for the answers the truth graph gives in \<open>w0\<close>, on the world \<open>w\<close>;
  and a page without a challenge.
\<close>

definition permitted ::
  "('l, 'd) engine \<Rightarrow> exec_args \<Rightarrow> bound_artifact option \<Rightarrow> detected_field list \<Rightarrow> ('l, 'd) world \<Rightarrow> ('l, 'd) world
     \<Rightarrow> bool" where
  "permitted e a b fs w0 w \<longleftrightarrow>
     (\<exists>xs dup. answer_all (x_created_at a) (w_truth w0) (x_pol a) (x_opportunity a) (x_action_id a) b fs = Inr xs \<and>
        e_duplicate e (x_key e a) (w_ledger w) = Inr dup \<and>
        submit_clear (e_sha e) (e_validate e)
          (authority_request a b xs dup (is_captcha_present (e_driver e) (w_driver w))
             (is_mfa_present (e_driver e) (w_driver w)) (unresolved_count fs xs) (w_truth w)) (w_env w))"

definition unchallenged :: "('l, 'd) engine \<Rightarrow> ('l, 'd) world \<Rightarrow> bool" where
  "unchallenged e w \<longleftrightarrow>
     \<not> is_captcha_present (e_driver e) (w_driver w) \<and> \<not> is_mfa_present (e_driver e) (w_driver w)"

lemma exec_gate_Inr:
  assumes "exec_gate e a pm b fs w = (Inr (ver, fresh), w')"
  shows "manifest_hash fresh = manifest_hash pm \<and>
    permitted e a b fs w (e_interfere e 3 (snd (revalidate e a b fs w)))"
proof -
  obtain rv w1 where rv: "revalidate e a b fs w = (rv, w1)" by force
  from assms rv obtain g xs where gx: "rv = Inr (g, fresh, xs)" "manifest_hash fresh = manifest_hash pm"
    by (auto simp: exec_gate_def split: sum.split_asm prod.split_asm if_split_asm)
  have an: "answer_all (x_created_at a) (w_truth w) (x_pol a) (x_opportunity a) (x_action_id a) b fs = Inr xs"
    using rv gx by (auto simp: revalidate_def split: sum.split_asm prod.split_asm)
  let ?w = "e_interfere e 3 w1"
  from assms rv gx obtain reasons where
    q: "ask_authority e a b xs (unresolved_count fs xs) ?w = (Inr (ALLOW_SUBMIT, reasons), w')"
    by (auto simp: exec_gate_def split: sum.split_asm prod.split_asm if_split_asm)
  then obtain dup where "e_duplicate e (x_key e a) (w_ledger ?w) = Inr dup"
    "fst (fst (evaluate_action (e_sha e) (e_validate e)
        (authority_request a b xs dup (is_captcha_present (e_driver e) (w_driver ?w))
           (is_mfa_present (e_driver e) (w_driver ?w)) (unresolved_count fs xs) (w_truth ?w)) (w_env ?w))) = ALLOW_SUBMIT"
    by (auto simp: ask_authority_def split: sum.split_asm prod.split_asm)
  with an gx rv show ?thesis unfolding evaluate_action_submit_iff permitted_def by auto
qed

text \<open>
  The chain of phases of a controlled run that reaches the submit call: every phase hands on to
  the next, and what each of them found in the world it ran on. The second definition puts the
  opening and the form filling in front.
\<close>

definition cleared_control ::
  "('l, 'd) engine \<Rightarrow> exec_args \<Rightarrow> pre_submit_manifest \<Rightarrow> bound_artifact option \<Rightarrow> detected_field list
     \<Rightarrow> ('l, 'd) world \<Rightarrow> outbound_action_record result \<times> ('l, 'd) world \<Rightarrow> bool" where
  "cleared_control e a pm b fs w out \<longleftrightarrow>
     (\<exists>ver fresh w1 w2 ver' w3.
        exec_gate e a pm b fs (e_interfere e 2 w) = (Inr (ver, fresh), w1) \<and>
        permitted e a b fs (e_interfere e 2 w) (e_interfere e 3 (snd (revalidate e a b fs (e_interfere e 2 w)))) \<and>
        manifest_hash fresh = manifest_hash pm \<and>
        exec_reserve e a ver fresh (e_interfere e 4 w1) = (Inr (), w2) \<and>
        exec_recheck e a pm fresh b fs (e_interfere e 5 w2) = (Inr ver', w3) \<and>
        recheck_clear e a pm b fs (e_interfere e 5 w2) \<and>
        exec_submit e a ver' fresh (e_interfere e 6 w3) = out \<and>
        unchallenged e (e_interfere e 6 w3))"

definition cleared_chain ::
  "('l, 'd) engine \<Rightarrow> exec_args \<Rightarrow> ('l, 'd) world \<Rightarrow> outbound_action_record result \<times> ('l, 'd) world \<Rightarrow> bool" where
  "cleared_chain e a w out \<longleftrightarrow>
     (\<exists>pm b g pv w1 fs xs w2.
        x_mode a = CONTROLLED_SUBMIT \<and> x_manifest a = Some pm \<and>
        exec_open e a w = (Inr (b, g, pv), w1) \<and>
        exec_form e a b (e_interfere e 1 w1) = (Inr (fs, xs), w2) \<and>
        cleared_control e a pm b fs w2 out)"

section \<open>The engine over contracts\<close>

text \<open>
  Interference may change everything but the ledger and the number of forms sent through this
  driver; other engines on the same ledger are the subject of the protocol itself.
\<close>

locale submission_engine =
  form_driver "e_driver e" sends + submission_ledger inv entry "e_reserve e" "e_move e" "e_duplicate e"
  for e :: "('l, 'd) engine" and sends :: "'d \<Rightarrow> nat" and inv :: "'l \<Rightarrow> bool"
    and entry :: "'l \<Rightarrow> string \<Rightarrow> outbound_action_record option" +
  assumes interfere_ledger: "w_ledger (e_interfere e i w) = w_ledger w"
    and interfere_sends: "sends (w_driver (e_interfere e i w)) = sends (w_driver w)"
begin

lemma fill_answer_sends: "sends (fill_answer e a b f x d) = sends d"
  by (simp add: fill_answer_def fill_sends attach_sends split: option.split)

lemma fill_page_sends: "sends (snd (fill_page e a b tg fs d)) = sends d"
proof (induction fs arbitrary: d)
  case (Cons f fs)
  show ?case
  proof (cases "answer_field (x_created_at a) tg (x_pol a) f (x_opportunity a) (x_action_id a) b")
    case (Inr x)
    obtain r d2 where r: "fill_page e a b tg fs (fill_answer e a b f x d) = (r, d2)" by force
    with Cons [of "fill_answer e a b f x d"] have "sends d2 = sends d" by (simp add: fill_answer_sends)
    with Inr r show ?thesis by (cases r) simp_all
  qed simp
qed simp

lemma form_loop_sends: "sends (snd (form_loop e a b tg n step d)) = sends d"
proof (induction n arbitrary: step d)
  case (Suc n)
  obtain fs d1 where i: "inspect_page_fields (e_driver e) step d = (fs, d1)" by force
  obtain r d2 where f: "fill_page e a b tg fs d1 = (r, d2)" by force
  obtain adv d3 where v: "advance_step (e_driver e) d2 = (adv, d3)" by force
  have "sends d1 = sends d" "sends d2 = sends d1" "sends d3 = sends d2"
    using inspect_sends [of step d] fill_page_sends [of a b tg fs d1] advance_sends [of d2] i f v by simp_all
  with Suc [of "Suc step" d3] i f v show ?case
    by (auto split: sum.split prod.split form_exit.split)
qed simp

lemma exec_open_frame:
  assumes "exec_open e a w = (r, w')"
  shows "w_ledger w' = w_ledger w \<and> sends (w_driver w') = sends (w_driver w)"
proof -
  obtain g w1 where g: "read_graduation e a w = (g, w1)" by force
  note fr = read_graduation_frame [OF g]
  show ?thesis
  proof (cases "x_mode a = CONTROLLED_SUBMIT \<and> x_manifest a = None \<or> (\<exists>err. bind_for a = Inl err)")
    case True
    with assms g fr show ?thesis
      by (auto simp: exec_open_def Let_def split: if_split_asm)
  next
    case False
    then obtain b where b: "bind_for a = Inr b" by (cases "bind_for a") auto
    obtain q w2 where q: "ask_authority e a b [] 0 (e_interfere e 0 w1) = (q, w2)" by force
    from assms g b q False have "w' = w1 \<or> w' = w2"
      by (auto simp: exec_open_def Let_def split: if_split_asm sum.split_asm prod.split_asm)
    with fr ask_authority_frame [OF q] show ?thesis by (auto simp: interfere_ledger interfere_sends)
  qed
qed

lemma exec_form_frame:
  assumes "exec_form e a b w = (r, w')"
  shows "w_ledger w' = w_ledger w \<and> sends (w_driver w') = sends (w_driver w)"
  using assms form_loop_sends [of a b "w_truth w" MAX_STEPS 0 "w_driver w"]
  by (auto simp: exec_form_def split: prod.split_asm form_exit.split_asm)

lemma exec_gate_quiet:
  assumes "exec_gate e a pm b fs w = (r, w')"
  shows "w_ledger w' = w_ledger w \<and> sends (w_driver w') = sends (w_driver w)"
  using exec_gate_frame [OF assms] by (auto simp: interfere_ledger interfere_sends)

lemma exec_reserve_cases:
  assumes "exec_reserve e a ver fresh w = (r, w')"
  shows "w_driver w' = w_driver w \<and>
    (\<exists>res. e_reserve e (e_clock e 4) (manifest_record e a ver fresh PLANNED []) (w_ledger w) = (res, w_ledger w') \<and>
      (case r of Inr _ \<Rightarrow> res = Inr () | Inl _ \<Rightarrow> \<exists>err. res = Inl err))"
proof -
  obtain res l where rs: "e_reserve e (e_clock e 4) (manifest_record e a ver fresh PLANNED []) (w_ledger w) = (res, l)"
    by force
  with assms show ?thesis
    by (cases res) (auto simp: exec_reserve_def split: py_exn.split_asm)
qed

text \<open>
  The run of the protocol that an execution makes. \<open>follows\<close> relates the world before and after
  to protocol states before and after: the ledgers agree, only this key's count of submissions may
  grow, and it grows by at least as much as forms were sent.
\<close>

definition follows :: "string \<Rightarrow> ('l, 'd) world \<Rightarrow> 'l protocol \<Rightarrow> ('l, 'd) world \<Rightarrow> 'l protocol \<Rightarrow> bool" where
  "follows k w s w' s' \<longleftrightarrow>
     (protocol_step (e_reserve e) (e_move e))\<^sup>*\<^sup>* s s' \<and> p_ledger s' = w_ledger w' \<and>
     reconciled s' = reconciled s \<and> (\<forall>j. j \<noteq> k \<longrightarrow> sent s' j = sent s j) \<and>
     sends (w_driver w') + sent s k \<le> sends (w_driver w) + sent s' k"

lemma follows_idle:
  assumes "p_ledger s = w_ledger w" "w_ledger w' = w_ledger w" "sends (w_driver w') = sends (w_driver w)"
  shows "follows k w s w' s"
  using assms by (simp add: follows_def)

lemma follows_trans:
  assumes "follows k w s w1 s1" "follows k w1 s1 w2 s2"
  shows "follows k w s w2 s2"
  using assms by (auto simp: follows_def)

lemma exec_submit_follows:
  assumes "exec_submit e a ver fresh w = (r, w')" "p_ledger s = w_ledger w" "x_key e a \<in> set (holders s)"
  shows "\<exists>s'. follows (x_key e a) w s w' s'"
proof (cases "is_captcha_present (e_driver e) (w_driver w) \<or> is_mfa_present (e_driver e) (w_driver w)")
  case True
  obtain res l where mv: "e_move e (e_clock e 6) (x_key e a) BLOCKED None
      ''Challenge detected immediately before submit call'' (w_ledger w) = (res, l)" by force
  with assms(1) True have "w' = w\<lparr>w_ledger := l\<rparr>"
    by (auto simp: exec_submit_def abort_after_reserve_def split: sum.split_asm)
  with protocol_step.abort [OF assms(3), of "e_move e" "e_clock e 6" _ res l "e_reserve e"] mv assms(2)
  show ?thesis
    by (intro exI [of _ "s\<lparr>p_ledger := l, holders := remove1 (x_key e a) (holders s)\<rparr>"])
      (auto simp: follows_def)
next
  case False
  obtain ev d where sp: "submit_page (e_driver e) (w_driver w) = (ev, d)" by force
  let ?k = "x_key e a"
  let ?w1 = "e_interfere e 7 (w\<lparr>w_driver := d\<rparr>)"
  have w1: "w_ledger ?w1 = w_ledger w" "sends (w_driver ?w1) = sends d"
    by (simp_all add: interfere_ledger interfere_sends)
  have sd: "sends d \<le> Suc (sends (w_driver w))" using submit_sends [of "w_driver w"] sp by auto
  have "\<exists>st evd reason. st \<in> {CONFIRMED, UNKNOWN_OUTCOME} \<and> evidence_ok evd \<and>
      (case e_move e (e_clock e 7) ?k st evd reason (w_ledger ?w1) of (r, l) \<Rightarrow> (r, ?w1\<lparr>w_ledger := l\<rparr>)) = (r, w')"
  proof (cases ev)
    case (Inl err)
    with assms(1) False sp show ?thesis
      by (intro exI [of _ UNKNOWN_OUTCOME] exI [of _ None] exI) (simp add: exec_submit_def Let_def)
  next
    case (Inr xo)
    show ?thesis
    proof (cases xo)
      case None
      with assms(1) False sp Inr show ?thesis
        by (intro exI [of _ UNKNOWN_OUTCOME] exI [of _ None] exI) (simp add: exec_submit_def Let_def)
    next
      case (Some x)
      with submit_evidence [of "w_driver w" x d] sp Inr have ok: "evidence_ok (Some x)"
        by (simp add: evidence_ok_def)
      show ?thesis
      proof (cases "confirmed x")
        case True
        with assms(1) False sp Inr Some ok show ?thesis
          by (intro exI [of _ CONFIRMED] exI [of _ "Some x"] exI) (simp add: exec_submit_def Let_def)
      next
        case nc: False
        with assms(1) False sp Inr Some ok show ?thesis
          by (intro exI [of _ UNKNOWN_OUTCOME] exI [of _ "Some x"] exI) (simp add: exec_submit_def Let_def)
      qed
    qed
  qed
  then obtain st evd reason where m: "st \<in> {CONFIRMED, UNKNOWN_OUTCOME}" "evidence_ok evd"
    "(case e_move e (e_clock e 7) ?k st evd reason (w_ledger ?w1) of (r, l) \<Rightarrow> (r, ?w1\<lparr>w_ledger := l\<rparr>)) = (r, w')"
    by blast
  obtain res l where mv: "e_move e (e_clock e 7) ?k st evd reason (w_ledger w) = (res, l)" by force
  with m(3) w1 have w': "w' = ?w1\<lparr>w_ledger := l\<rparr>" by (auto split: prod.split_asm)
  let ?s1 = "s\<lparr>holders := remove1 ?k (holders s), in_flight := ?k # in_flight s,
      sent := (sent s)(?k := Suc (sent s ?k))\<rparr>"
  let ?s2 = "?s1\<lparr>p_ledger := l, in_flight := remove1 ?k (in_flight ?s1)\<rparr>"
  have "protocol_step (e_reserve e) (e_move e) s ?s1"
    using protocol_step.submit [OF assms(3)] by blast
  moreover have "protocol_step (e_reserve e) (e_move e) ?s1 ?s2"
    using protocol_step.record_outcome [of ?k ?s1 st evd "e_move e" "e_clock e 7" reason res l "e_reserve e"]
      m mv assms(2) by simp
  ultimately show ?thesis
    using w' w1 sd by (intro exI [of _ ?s2]) (auto simp: follows_def)
qed

lemma exec_controlled_follows:
  assumes "exec_controlled e a pm b fs w = (r, w')" "p_ledger s = w_ledger w"
  shows "\<exists>s'. follows (x_key e a) w s w' s'"
proof -
  obtain q w1 where g: "exec_gate e a pm b fs (e_interfere e 2 w) = (q, w1)" by force
  from exec_gate_quiet [OF g] have w1: "w_ledger w1 = w_ledger w" "sends (w_driver w1) = sends (w_driver w)"
    by (simp_all add: interfere_ledger interfere_sends)
  show ?thesis
  proof (cases q)
    case (Inl r1)
    with assms g have "w' = w1" by (simp add: exec_controlled_def)
    with w1 assms(2) show ?thesis using follows_idle by metis
  next
    case (Inr vf)
    obtain ver fresh where vf: "vf = (ver, fresh)" by force
    obtain q2 w2 where rs: "exec_reserve e a ver fresh (e_interfere e 4 w1) = (q2, w2)" by force
    let ?rec = "manifest_record e a ver fresh PLANNED []"
    from exec_reserve_cases [OF rs] w1 obtain res where
      d2: "sends (w_driver w2) = sends (w_driver w)" and
      res: "e_reserve e (e_clock e 4) ?rec (p_ledger s) = (res, w_ledger w2)"
      "case q2 of Inr _ \<Rightarrow> res = Inr () | Inl _ \<Rightarrow> \<exists>err. res = Inl err"
      by (auto simp: interfere_ledger interfere_sends assms(2))
    show ?thesis
    proof (cases q2)
      case (Inl r2)
      with assms g Inr vf rs have "w' = w2" by (simp add: exec_controlled_def)
      moreover from Inl res obtain err where "res = Inl err" by auto
      with res protocol_step.reserve_fail [of "e_reserve e" "e_clock e 4" ?rec s err "w_ledger w2" "e_move e"]
      have "protocol_step (e_reserve e) (e_move e) s (s\<lparr>p_ledger := w_ledger w2\<rparr>)" by simp
      ultimately show ?thesis using d2
        by (intro exI [of _ "s\<lparr>p_ledger := w_ledger w2\<rparr>"]) (auto simp: follows_def)
    next
      case u: (Inr u)
      let ?s1 = "s\<lparr>p_ledger := w_ledger w2, holders := x_key e a # holders s\<rparr>"
      have "protocol_step (e_reserve e) (e_move e) s ?s1"
        using protocol_step.reserve_ok [of "e_reserve e" "e_clock e 4" ?rec s "w_ledger w2" "e_move e"] res u by simp
      with d2 have f1: "follows (x_key e a) w s w2 ?s1" by (auto simp: follows_def)
      obtain q3 w3 where rc: "exec_recheck e a pm fresh b fs (e_interfere e 5 w2) = (q3, w3)" by force
      have "\<exists>s'. follows (x_key e a) w2 ?s1 w' s'"
      proof (cases q3)
        case (Inl r3)
        with assms g Inr vf rs u rc have "w' = w3" by (simp add: exec_controlled_def)
        with exec_recheck_Inl [OF rc [unfolded Inl]] consider
          "w_ledger w' = w_ledger w2" "sends (w_driver w') = sends (w_driver w2)"
          | reason mres where "e_move e (e_clock e 6) (x_key e a) BLOCKED None reason (w_ledger w2) = (mres, w_ledger w')"
            "sends (w_driver w') = sends (w_driver w2)"
          by (auto simp: interfere_ledger interfere_sends)
        then show ?thesis
        proof cases
          case 1
          then show ?thesis using follows_idle [of ?s1 w2 w'] by auto
        next
          case 2
          with protocol_step.abort [of "x_key e a" ?s1 "e_move e" "e_clock e 6" reason mres "w_ledger w'" "e_reserve e"]
          show ?thesis
            by (intro exI [of _ "?s1\<lparr>p_ledger := w_ledger w', holders := remove1 (x_key e a) (holders ?s1)\<rparr>"])
              (auto simp: follows_def)
        qed
      next
        case (Inr ver')
        from exec_recheck_Inr [OF rc [unfolded Inr]] have
          w3: "w_ledger w3 = w_ledger w2" "sends (w_driver w3) = sends (w_driver w2)"
          by (auto simp: interfere_ledger interfere_sends)
        from assms g \<open>q = Inr vf\<close> vf rs u rc Inr have
          sb: "exec_submit e a ver' fresh (e_interfere e 6 w3) = (r, w')" by (simp add: exec_controlled_def)
        have f2: "follows (x_key e a) w2 ?s1 (e_interfere e 6 w3) ?s1"
          using w3 by (auto intro!: follows_idle simp: interfere_ledger interfere_sends)
        from exec_submit_follows [OF sb, of ?s1] w3 obtain s' where
          "follows (x_key e a) (e_interfere e 6 w3) ?s1 w' s'" by (auto simp: interfere_ledger)
        with f2 show ?thesis using follows_trans by blast
      qed
      with f1 show ?thesis using follows_trans by blast
    qed
  qed
qed

lemma execute_follows:
  assumes "execute_application e a w = (r, w')" "p_ledger s = w_ledger w"
  shows "\<exists>s'. follows (x_key e a) w s w' s'"
proof -
  obtain q w1 where o: "exec_open e a w = (q, w1)" by force
  note f1 = exec_open_frame [OF o]
  show ?thesis
  proof (cases q)
    case (Inl r1)
    with assms o have "w' = w1" by (simp add: execute_application_def)
    with f1 assms(2) show ?thesis using follows_idle by metis
  next
    case (Inr bgp)
    obtain b g pv where bgp: "bgp = (b, g, pv)" using prod_cases3 by blast
    obtain q2 w2 where fm: "exec_form e a b (e_interfere e 1 w1) = (q2, w2)" by force
    from exec_form_frame [OF fm] f1 have w2: "w_ledger w2 = w_ledger w" "sends (w_driver w2) = sends (w_driver w)"
      by (simp_all add: interfere_ledger interfere_sends)
    have idle: "follows (x_key e a) w s w2 s" using w2 assms(2) by (auto intro: follows_idle)
    show ?thesis
    proof (cases "w' = w2")
      case True
      with idle show ?thesis by blast
    next
      case False
      with assms(1) o Inr bgp fm obtain fs where
        "exec_controlled e a (the (x_manifest a)) b fs w2 = (r, w')"
        by (auto simp: execute_application_def split: sum.split_asm prod.split_asm option.split_asm)
      from exec_controlled_follows [OF this, of s] w2 assms(2) obtain s' where
        "follows (x_key e a) w2 s w' s'" by auto
      with idle show ?thesis using follows_trans by blast
    qed
  qed
qed

text \<open>When a form is sent at all.\<close>

lemma controlled_sends:
  assumes "exec_controlled e a pm b fs w = (r, w')" "sends (w_driver w') \<noteq> sends (w_driver w)"
  shows "cleared_control e a pm b fs w (r, w')"
proof -
  obtain q w1 where g: "exec_gate e a pm b fs (e_interfere e 2 w) = (q, w1)" by force
  from exec_gate_quiet [OF g] have w1: "sends (w_driver w1) = sends (w_driver w)"
    by (simp_all add: interfere_ledger interfere_sends)
  from assms g w1 obtain ver fresh where q: "q = Inr (ver, fresh)"
    by (cases q) (auto simp: exec_controlled_def)
  obtain q2 w2 where rs: "exec_reserve e a ver fresh (e_interfere e 4 w1) = (q2, w2)" by force
  from exec_reserve_cases [OF rs] w1 have d2: "sends (w_driver w2) = sends (w_driver w)"
    by (simp add: interfere_sends)
  from assms g q rs d2 have q2: "q2 = Inr ()" by (cases q2) (auto simp: exec_controlled_def)
  obtain q3 w3 where rc: "exec_recheck e a pm fresh b fs (e_interfere e 5 w2) = (q3, w3)" by force
  have "\<exists>ver'. q3 = Inr ver'"
  proof (cases q3)
    case (Inl r3)
    with assms g q rs q2 rc have "w' = w3" by (simp add: exec_controlled_def)
    with exec_recheck_Inl [OF rc [unfolded Inl]] d2 assms(2) show ?thesis by (auto simp: interfere_sends)
  qed simp
  then obtain ver' where q3: "q3 = Inr ver'" ..
  note clear = exec_recheck_Inr [OF rc [unfolded q3]]
  have sb: "exec_submit e a ver' fresh (e_interfere e 6 w3) = (r, w')"
    using assms g q rs q2 rc q3 by (simp add: exec_controlled_def)
  have "unchallenged e (e_interfere e 6 w3)"
  proof (rule ccontr)
    assume "\<not> ?thesis"
    with sb have "w_driver w' = w_driver (e_interfere e 6 w3)"
      by (auto simp: unchallenged_def exec_submit_def abort_after_reserve_def
          split: sum.split_asm prod.split_asm)
    with clear d2 assms(2) show False by (simp add: interfere_sends)
  qed
  with clear sb exec_gate_Inr [OF g [unfolded q]] g q rs q2 rc q3 show ?thesis
    unfolding cleared_control_def by blast
qed

lemma execute_sends:
  assumes "execute_application e a w = (r, w')" "sends (w_driver w') \<noteq> sends (w_driver w)"
  shows "cleared_chain e a w (r, w')"
proof -
  obtain q w1 where o: "exec_open e a w = (q, w1)" by force
  note f1 = exec_open_frame [OF o]
  from assms o f1 obtain b g pv where q: "q = Inr (b, g, pv)"
    by (cases q) (auto simp: execute_application_def)
  obtain q2 w2 where fm: "exec_form e a b (e_interfere e 1 w1) = (q2, w2)" by force
  from exec_form_frame [OF fm] f1 have w2: "sends (w_driver w2) = sends (w_driver w)"
    by (simp add: interfere_sends)
  from assms o q fm w2 obtain fs xs where q2: "q2 = Inr (fs, xs)"
    by (cases q2) (auto simp: execute_application_def)
  have pl: "exec_plan e a g (build_manifest e a b g pv fs xs) fs xs = None"
    and ct: "exec_controlled e a (the (x_manifest a)) b fs w2 = (r, w')"
    using assms o q fm w2 q2
    by (auto simp: execute_application_def split: option.split_asm)
  from pl have m: "x_mode a = CONTROLLED_SUBMIT"
    by (auto simp: exec_plan_def Let_def split: ExecutionMode.split_asm if_split_asm)
  with o q obtain pm where pm: "x_manifest a = Some pm"
    by (cases "x_manifest a") (auto simp: exec_open_def)
  from controlled_sends [OF ct] w2 assms(2) pm have "cleared_control e a pm b fs w2 (r, w')" by simp
  with o q fm q2 m pm show ?thesis unfolding cleared_chain_def by blast
qed

text \<open>Without permission to submit, ledger and form are left alone.\<close>

lemma execute_other_modes:
  assumes "execute_application e a w = (r, w')" "x_mode a \<noteq> CONTROLLED_SUBMIT"
  shows "w_ledger w' = w_ledger w \<and> sends (w_driver w') = sends (w_driver w)"
proof -
  obtain q w1 where o: "exec_open e a w = (q, w1)" by force
  note f1 = exec_open_frame [OF o]
  show ?thesis
  proof (cases q)
    case (Inl r1)
    with assms o f1 show ?thesis by (simp add: execute_application_def)
  next
    case (Inr bgp)
    obtain b g pv where bgp: "bgp = (b, g, pv)" using prod_cases3 by blast
    obtain q2 w2 where fm: "exec_form e a b (e_interfere e 1 w1) = (q2, w2)" by force
    have pl: "exec_plan e a g m fs xs = None \<longleftrightarrow> False" for m fs xs
      using assms(2) by (cases "x_mode a") (auto simp: exec_plan_def Let_def)
    from assms(1) o Inr bgp fm have "w' = w2"
      by (auto simp: execute_application_def pl split: sum.split_asm prod.split_asm option.split_asm)
    with exec_form_frame [OF fm] f1 show ?thesis by (simp add: interfere_ledger interfere_sends)
  qed
qed

end

section \<open>Batches of executions\<close>

fun run_all :: "('l, 'd) engine \<Rightarrow> exec_args list \<Rightarrow> ('l, 'd) world \<Rightarrow> ('l, 'd) world" where
  "run_all e [] w = w"
| "run_all e (a # as) w = run_all e as (snd (execute_application e a w))"

context submission_engine
begin

definition batch_follows :: "string set \<Rightarrow> ('l, 'd) world \<Rightarrow> 'l protocol \<Rightarrow> ('l, 'd) world \<Rightarrow> 'l protocol \<Rightarrow> bool" where
  "batch_follows K w s w' s' \<longleftrightarrow>
     (protocol_step (e_reserve e) (e_move e))\<^sup>*\<^sup>* s s' \<and> p_ledger s' = w_ledger w' \<and>
     reconciled s' = reconciled s \<and>
     sends (w_driver w') + (\<Sum>k\<in>K. sent s k) \<le> sends (w_driver w) + (\<Sum>k\<in>K. sent s' k)"

lemma follows_batch:
  assumes "follows k w s w' s'" "k \<in> K" "finite K"
  shows "batch_follows K w s w' s'"
proof -
  have e: "(\<Sum>j\<in>K - {k}. sent s' j) = (\<Sum>j\<in>K - {k}. sent s j)"
    using assms(1) by (intro sum.cong) (auto simp: follows_def)
  have "(\<Sum>j\<in>K. sent s' j) = sent s' k + (\<Sum>j\<in>K - {k}. sent s j)"
    "(\<Sum>j\<in>K. sent s j) = sent s k + (\<Sum>j\<in>K - {k}. sent s j)"
    using sum.remove [OF assms(3,2), of "sent s'"] sum.remove [OF assms(3,2), of "sent s"] e by simp_all
  with assms(1) show ?thesis by (simp add: batch_follows_def follows_def)
qed

lemma run_all_follows:
  assumes "p_ledger s = w_ledger w" "x_key e ` set as \<subseteq> K" "finite K"
  shows "\<exists>s'. batch_follows K w s (run_all e as w) s'"
  using assms
proof (induction as arbitrary: w s)
  case Nil
  then show ?case by (intro exI [of _ s]) (simp add: batch_follows_def)
next
  case (Cons a as)
  obtain r w1 where x: "execute_application e a w = (r, w1)" by force
  from execute_follows [OF x, of s] Cons.prems obtain s1 where
    f: "follows (x_key e a) w s w1 s1" by auto
  with follows_batch [OF f] Cons.prems have b: "batch_follows K w s w1 s1" by simp
  then have "p_ledger s1 = w_ledger w1" by (simp add: batch_follows_def)
  from Cons.IH [OF this] Cons.prems obtain s2 where "batch_follows K w1 s1 (run_all e as w1) s2" by auto
  with b x show ?case by (intro exI [of _ s2]) (auto simp: batch_follows_def)
qed

lemma reachable_star:
  assumes "(protocol_step (e_reserve e) (e_move e))\<^sup>*\<^sup>* s t" "protocol_reachable (e_reserve e) (e_move e) l s"
  shows "protocol_reachable (e_reserve e) (e_move e) l t"
  using assms by (induction rule: rtranclp_induct) (auto intro: protocol_reachable.step)

lemma batch_sends_once:
  assumes "inv (w_ledger w)"
  shows "sends (w_driver (run_all e as w)) \<le> sends (w_driver w) + card (x_key e ` set as)"
proof -
  let ?K = "x_key e ` set as" and ?s0 = "protocol_init (w_ledger w)"
  from run_all_follows [of ?s0 w as ?K] obtain s where
    f: "batch_follows ?K w ?s0 (run_all e as w) s" by (auto simp: protocol_init_def)
  then have st: "(protocol_step (e_reserve e) (e_move e))\<^sup>*\<^sup>* ?s0 s" "reconciled s = reconciled ?s0"
    and le: "sends (w_driver (run_all e as w)) + (\<Sum>k\<in>?K. sent ?s0 k) \<le> sends (w_driver w) + (\<Sum>k\<in>?K. sent s k)"
    by (simp_all add: batch_follows_def)
  have "protocol_reachable (e_reserve e) (e_move e) (w_ledger w) s"
    by (rule reachable_star [OF st(1)]) (rule protocol_reachable.start)
  from sent_bounded [OF this assms] st(2) have "sent s k \<le> 1" for k by (simp add: protocol_init_def)
  then have "(\<Sum>k\<in>?K. sent s k) \<le> (\<Sum>k\<in>?K. 1)" by (rule sum_mono)
  with le show ?thesis by (simp add: protocol_init_def)
qed

end

section \<open>Answers do not depend on the attempt\<close>

text \<open>Action id and time enter an answer only in their own two fields.\<close>

definition restamp :: "string \<Rightarrow> string \<Rightarrow> application_answer \<Rightarrow> application_answer" where
  "restamp now act x = x\<lparr>ans_action_id := act, timestamp := now\<rparr>"

lemma post_init_restamp:
  assumes "answer_post_init now x = Inr y" "timestamp x = []" "act \<noteq> []"
  shows "answer_post_init now' (x\<lparr>ans_action_id := act\<rparr>) = Inr (restamp now' act y)"
proof -
  have y: "y = x\<lparr>timestamp := now\<rparr>"
    using assms(1,2) by (simp add: answer_post_init_def Let_def split: if_split_asm AnswerClass.split_asm)
  show ?thesis
    using assms unfolding y restamp_def
    by (cases "answer_class x") (simp_all add: answer_post_init_def Let_def split: if_split_asm)
qed

lemma build_restamp:
  assumes "build now f opp act k = Inr y" "act' \<noteq> []"
  shows "build now' f opp act' k = Inr (restamp now' act' y)"
proof -
  have b: "base_answer f opp act' = (base_answer f opp act)\<lparr>ans_action_id := act'\<rparr>"
    by (simp add: base_answer_def)
  show ?thesis
  proof (cases k)
    case (Paused src)
    with assms post_init_restamp [of now "(base_answer f opp act)\<lparr>answer_source := src, disposition := ''pause''\<rparr>" y act' now']
    show ?thesis by (simp add: pause_answer_def b) (simp add: base_answer_def)
  next
    case (Asserted s v)
    with assms post_init_restamp [of now "(base_answer f opp act)\<lparr>answer := Some v, answer_class := GREEN,
       answer_source := ''truth_graph:'' @ assertion_id s, assertion_ids := [assertion_id s]\<rparr>" y act' now']
    show ?thesis by (simp add: asserted_answer_def b) (simp add: base_answer_def)
  next
    case (ByPolicy v src ps)
    with assms post_init_restamp [of now "(base_answer f opp act)\<lparr>answer := Some v, answer_class := YELLOW,
       answer_source := src, policy_source := ps\<rparr>" y act' now']
    show ?thesis by (simp add: policy_answer_def b) (simp add: base_answer_def)
  qed
qed

text \<open>The kind of answer a field gets is the same for every action id and time.\<close>

definition uniform ::
  "detected_field \<Rightarrow> opportunity \<Rightarrow> (string \<Rightarrow> string \<Rightarrow> application_answer result) \<Rightarrow> bool" where
  "uniform f opp R \<longleftrightarrow> (\<exists>k. \<forall>now act. R now act = build now f opp act k)"

lemma uniform_base:
  "uniform f opp (\<lambda>now act. pause_answer now f opp act src)"
  "uniform f opp (\<lambda>now act. asserted_answer now f opp act s v)"
  "uniform f opp (\<lambda>now act. policy_answer now f opp act u src ps)"
  unfolding uniform_def
  by (rule exI [of _ "Paused src"], simp, rule exI [of _ "Asserted s v"], simp,
      rule exI [of _ "ByPolicy u src ps"], simp)

lemma uniform_if:
  "uniform f opp A \<Longrightarrow> uniform f opp B \<Longrightarrow> uniform f opp (\<lambda>now act. if c then A now act else B now act)"
  by (cases c) simp_all

lemma uniform_list:
  "uniform f opp A \<Longrightarrow> (\<And>x r. uniform f opp (B x r)) \<Longrightarrow>
   uniform f opp (\<lambda>now act. case xs of [] \<Rightarrow> A now act | x # r \<Rightarrow> B x r now act)"
  by (cases xs) simp_all

lemma uniform_option:
  "uniform f opp A \<Longrightarrow> (\<And>x. uniform f opp (B x)) \<Longrightarrow>
   uniform f opp (\<lambda>now act. case xo of None \<Rightarrow> A now act | Some x \<Rightarrow> B x now act)"
  by (cases xo) simp_all

lemma answer_field_uniform:
  assumes "ontology_type f \<in> {RESUME_CV, COVER_LETTER_FIELD, ATTACHMENT} \<Longrightarrow> b = None"
  shows "uniform f opp (\<lambda>now act. answer_field now tg pol f opp act b)"
proof (cases "ontology_type f \<in> {RESUME_CV, COVER_LETTER_FIELD, ATTACHMENT}")
  case True
  with assms show ?thesis by (simp add: answer_field_def attachment_answer_def uniform_base)
next
  case False
  show ?thesis
    unfolding answer_field_def Let_def if_not_P [OF False]
    by (intro uniform_if uniform_base)
      (auto simp: identity_answer_def contact_answer_def links_answer_def location_preference_answer_def
        work_authorization_answer_def sponsorship_answer_def availability_answer_def
        compensation_answer_def Let_def intro!: uniform_base uniform_if uniform_list uniform_option)
qed

lemma answer_field_restamp:
  assumes "answer_field now tg pol f opp act b = Inr y" "act' \<noteq> []"
  shows "answer_field now' tg pol f opp act' b = Inr (restamp now' act' y)"
proof -
  have "b = None" if t: "ontology_type f \<in> {RESUME_CV, COVER_LETTER_FIELD, ATTACHMENT}"
  proof (cases b)
    case (Some x)
    from attachment_raises [OF t, of now tg pol opp act x] assms(1) Some show ?thesis by auto
  qed
  from answer_field_uniform [of f b opp tg pol, OF this] obtain k where
    k: "\<And>now act. answer_field now tg pol f opp act b = build now f opp act k"
    by (auto simp: uniform_def)
  with build_restamp [of now f opp act k y act' now'] assms show ?thesis by simp
qed

lemma answer_all_restamp:
  assumes "answer_all now tg pol opp act b fs = Inr xs" "act' \<noteq> []"
  shows "answer_all now' tg pol opp act' b fs = Inr (map (restamp now' act') xs)"
  using assms
proof (induction fs arbitrary: xs)
  case (Cons f fs)
  then obtain y ys where y: "answer_field now tg pol f opp act b = Inr y"
    "answer_all now tg pol opp act b fs = Inr ys" "xs = y # ys" by auto
  with Cons answer_field_restamp [OF y(1) assms(2), of now'] show ?case by simp
qed simp

lemma insort_key_map:
  "insort_key k (h x) (map h xs) = map h (insort_key (\<lambda>x. k (h x)) x xs)"
  by (induction xs) auto

lemma sort_key_map: "sort_key k (map h xs) = map h (sort_key (\<lambda>x. k (h x)) xs)"
  by (induction xs) (simp_all add: insort_key_map)

lemma answers_hash_restamp:
  "compute_answers_hash digest (map (restamp now act) xs) = compute_answers_hash digest xs"
proof -
  have "answer_json (restamp now act x) = answer_json x" for x
    by (simp add: answer_json_def restamp_def)
  then show ?thesis
    by (simp add: compute_answers_hash_def sort_key_map comp_def) (simp add: restamp_def)
qed

lemma counts_restamp:
  "red_count (map (restamp now act) xs) = red_count xs"
  "unresolved_count fs (map (restamp now act) xs) = unresolved_count fs xs"
proof -
  show "red_count (map (restamp now act) xs) = red_count xs"
    by (induction xs) (simp_all add: red_count_def restamp_def)
  show "unresolved_count fs (map (restamp now act) xs) = unresolved_count fs xs"
    unfolding unresolved_count_def
    by (induction fs xs rule: list_induct2') (simp_all add: is_unresolved_def restamp_def)
qed

lemma build_manifest_restamp:
  "manifest_hash (build_manifest e (a\<lparr>x_action_id := act, x_created_at := now\<rparr>) b g pv fs
      (map (restamp now act) xs)) = manifest_hash (build_manifest e a b g pv fs xs)"
  by (simp add: build_manifest_def manifest_post_init_def manifest_data_def Let_def answers_hash_restamp
      counts_restamp x_key_def x_pol_def)

end
