(* ===== verification/Ledger_Properties.thy ===== *)
theory Ledger_Properties
  imports Pg_Ledger
begin

text \<open>
  What the two ledgers guarantee: at most one submission per key and reconciliation under any
  interleaving of engines, faithful records, exclusive reservation, injective keys; and where
  they part from each other and from their documentation.
\<close>

section \<open>Concrete data\<close>

definition demo_record :: outbound_action_record where
  "demo_record = \<lparr>action_id = ''act-1'', oa_opportunity_id = ''opp-1'', oa_content_hash = ''c1'',
     oa_workspace = ''default'', oa_candidate_id = ''founder'', oa_track = EMPLOYMENT,
     oa_source = ''greenhouse:acme'', adapter_name = ''greenhouse'', adapter_version = ''1.0.0'',
     execution_mode = CONTROLLED_SUBMIT, qualification_decision = QUALIFIED,
     match_score_snapshot = 0, oa_artifact_ids = [''art-1''], oa_artifact_hashes = [''h1''],
     oa_manifest_hash = ''m'', action_status = PLANNED, idempotency_key = ''k'',
     created_at = ''2026-08-30T00:00:00'', updated_at = ''2026-08-30T00:00:00'', oa_evidence = None,
     blocker_reason = [], manual_edits = [], external_reference_id = []\<rparr>"

lemma demo_evidence [simp]: "evidence_ok (oa_evidence demo_record)"
  by (simp add: demo_record_def evidence_ok_def)

lemma demo_key [simp]: "idempotency_key demo_record = ''k''"
  by (simp add: demo_record_def)

definition demo_held :: ledger where
  "demo_held = snd (reserve_submission ''t1'' demo_record Map.empty)"

definition demo_pg_held :: pg_ledger where
  "demo_pg_held = snd (pg_reserve_submission 1 ''t1'' demo_record \<lparr>reservations = Map.empty, actions = []\<rparr>)"

lemma demo_reserved:
  "reserve_submission ''t1'' demo_record Map.empty = (Inr (), demo_held)"
  "pg_reserve_submission 1 ''t1'' demo_record \<lparr>reservations = Map.empty, actions = []\<rparr> = (Inr (), demo_pg_held)"
  by (simp_all add: demo_held_def demo_pg_held_def reserve_submission_def pg_reserve_submission_def
      pg_reserve_from_def pg_insert_def Let_def)

section \<open>At most one submission\<close>

text \<open>C13: at most once, SQLite. However the reservations, aborts, submissions, outcomes, crashes and
  reconciliations of any number of engines interleave over one ledger, the form of an idempotency
  key is submitted at most once more than a human has reconciled that key: never twice without an
  explicit reconciliation.\<close>

theorem sqlite_at_most_once:
  assumes "protocol_reachable reserve_submission (transition_status sha) Map.empty s"
  shows "sent s k \<le> reconciled s k + 1"
  by (rule sqlite.sent_bounded [OF assms]) (simp add: ledger_ok_def)

theorem sqlite_at_most_once_witness:
  "\<exists>s. protocol_reachable reserve_submission (transition_status id) Map.empty s \<and> sent s ''k'' = 1 \<and>
     sent s ''k'' \<le> reconciled s ''k'' + 1"
proof -
  let ?move = "transition_status id"
  let ?s0 = "protocol_init Map.empty :: ledger protocol"
  let ?s1 = "?s0\<lparr>p_ledger := demo_held, holders := [''k'']\<rparr>"
  let ?s2 = "?s1\<lparr>holders := [], in_flight := [''k''], sent := (sent ?s1)(''k'' := Suc (sent ?s1 ''k''))\<rparr>"
  have "protocol_step reserve_submission ?move ?s0 ?s1"
    using protocol_step.reserve_ok [of reserve_submission "''t1''" demo_record ?s0 demo_held ?move]
      demo_reserved(1) by (simp add: protocol_init_def)
  moreover have "protocol_step reserve_submission ?move ?s1 ?s2"
    using protocol_step.submit [of "''k''" ?s1 reserve_submission ?move] by (simp add: protocol_init_def)
  ultimately have "protocol_reachable reserve_submission ?move Map.empty ?s2"
    by (meson protocol_reachable.start protocol_reachable.step)
  with sqlite_at_most_once [OF this, of "''k''"] show ?thesis
    by (intro exI [of _ ?s2]) (simp add: protocol_init_def)
qed

text \<open>C12: at most once, PostgreSQL: the same bound for the ledger with two tables, for every reading
  of the clock and every behaviour of the timestamp parser.\<close>

theorem postgres_at_most_once:
  assumes "protocol_reachable (pg_reserve clk) (pg_move sha fromiso clk)
      \<lparr>reservations = Map.empty, actions = []\<rparr> s"
  shows "sent s k \<le> reconciled s k + 1"
  by (rule postgres.sent_bounded [OF assms]) (simp add: pg_ok_def)

theorem postgres_at_most_once_witness:
  "\<exists>s. protocol_reachable (pg_reserve (\<lambda>_. 1)) (pg_move id (\<lambda>_. Inr 0) (\<lambda>_. 1))
       \<lparr>reservations = Map.empty, actions = []\<rparr> s \<and> sent s ''k'' = 1 \<and>
     sent s ''k'' \<le> reconciled s ''k'' + 1"
proof -
  let ?reserve = "pg_reserve (\<lambda>_. 1)" and ?move = "pg_move id (\<lambda>_. Inr 0) (\<lambda>_. 1)"
  let ?l0 = "\<lparr>reservations = Map.empty, actions = []\<rparr>"
  let ?s0 = "protocol_init ?l0"
  let ?s1 = "?s0\<lparr>p_ledger := demo_pg_held, holders := [''k'']\<rparr>"
  let ?s2 = "?s1\<lparr>holders := [], in_flight := [''k''], sent := (sent ?s1)(''k'' := Suc (sent ?s1 ''k''))\<rparr>"
  have "protocol_step ?reserve ?move ?s0 ?s1"
    using protocol_step.reserve_ok [of ?reserve "''t1''" demo_record ?s0 demo_pg_held ?move]
      demo_reserved(2) by (simp add: protocol_init_def pg_reserve_def)
  moreover have "protocol_step ?reserve ?move ?s1 ?s2"
    using protocol_step.submit [of "''k''" ?s1 ?reserve ?move] by (simp add: protocol_init_def)
  ultimately have "protocol_reachable ?reserve ?move ?l0 ?s2"
    by (meson protocol_reachable.start protocol_reachable.step)
  with postgres_at_most_once [OF this, of "''k''"] show ?thesis
    by (intro exI [of _ ?s2]) (simp add: protocol_init_def)
qed

text \<open>reservation of a fresh key is exclusive under a race. Two PostgreSQL engines that both saw no
  reservation for the key insert one after the other: the first is granted it, the second gets a
  domain error and changes nothing, and so does any later attempt, whatever it has read before.\<close>

theorem racing_reservations_exclusive:
  assumes "reservations l (idempotency_key r1) = None" "idempotency_key r2 = idempotency_key r1"
    and "pg_reserve_from None now1 dt1 r1 l = (res1, l1)"
    and "pg_reserve_from seen now2 dt2 r2 l1 = (res2, l2)"
  shows "res1 = Inr () \<and> l2 = l1 \<and>
    (\<exists>m. res2 = Inl (DuplicateSubmissionError m) \<or> res2 = Inl (UnknownOutcomeFrozenError m))"
proof -
  from assms(1,3) have 1: "res1 = Inr ()" "reservations l1 (idempotency_key r1) \<noteq> None"
    by (auto simp: pg_reserve_from_def pg_insert_def Let_def)
  show ?thesis
  proof (cases res2)
    case (Inl e)
    with assms(4) pg_reserve_from_Inl [of seen now2 dt2 r2 l1 e l2] 1 show ?thesis by auto
  next
    case (Inr u)
    with assms(2,4) pg_reserve_from_Inr [of seen now2 dt2 r2 l1 l2] 1 show ?thesis by (cases u) auto
  qed
qed

theorem racing_reservations_exclusive_witness:
  "snd (pg_reserve_from None ''t2'' 2 demo_record demo_pg_held) = demo_pg_held"
  using racing_reservations_exclusive [of "\<lparr>reservations = Map.empty, actions = []\<rparr>" demo_record demo_record
      "''t1''" 1 "Inr ()" demo_pg_held None "''t2''" 2
      "fst (pg_reserve_from None ''t2'' 2 demo_record demo_pg_held)"
      "snd (pg_reserve_from None ''t2'' 2 demo_record demo_pg_held)"] demo_reserved(2)
  by (simp add: pg_reserve_submission_def)

section \<open>Records and keys\<close>

text \<open>C32: both ledgers read back exactly the record they wrote, for every record whose confirmation
  evidence (if any) carries the checksum its constructor gives it.\<close>

theorem ledger_record_round_trip:
  assumes "\<forall>e. oa_evidence r = Some e \<and> confirmed e \<longrightarrow> evidence_checksum e \<noteq> []"
  shows "json_to_record sha (record_to_json r) = Inr r \<and> pg_json_to_record sha (record_to_json r) = Inr r"
proof -
  have "evidence_ok (oa_evidence r)" using assms by (auto simp: evidence_ok_def split: option.split)
  then show ?thesis by (simp add: record_round_trip pg_record_round_trip)
qed

theorem ledger_record_round_trip_witness:
  "json_to_record id (record_to_json demo_record) = Inr demo_record"
  using ledger_record_round_trip [of demo_record id] by (simp add: demo_record_def)

lemma colon_split:
  assumes "CHR '':'' \<notin> set a" "CHR '':'' \<notin> set b" "a @ CHR '':'' # x = b @ CHR '':'' # y"
  shows "a = b \<and> x = y"
  using assms
proof (induction a arbitrary: b)
  case Nil
  then show ?case by (cases b) auto
next
  case (Cons c a)
  then show ?case by (cases b) auto
qed

text \<open>two actions share an idempotency key only if workspace, candidate, opportunity and type
  agree, provided the hash does not collide on the two payloads and the first three contain no colon.\<close>

theorem idempotency_key_injective:
  assumes "inj_on sha {ws @ '':'' @ cand @ '':'' @ opp @ '':'' @ atype,
      ws' @ '':'' @ cand' @ '':'' @ opp' @ '':'' @ atype'}"
    and "\<forall>s\<in>{ws, cand, opp, ws', cand', opp'}. CHR '':'' \<notin> set s"
    and "compute_idempotency_key sha ws cand opp atype = compute_idempotency_key sha ws' cand' opp' atype'"
  shows "ws = ws' \<and> cand = cand' \<and> opp = opp' \<and> atype = atype'"
proof -
  have e: "ws @ CHR '':'' # cand @ CHR '':'' # opp @ CHR '':'' # atype =
      ws' @ CHR '':'' # cand' @ CHR '':'' # opp' @ CHR '':'' # atype'"
    using inj_onD [OF assms(1) assms(3) [unfolded compute_idempotency_key_def]] by simp
  from colon_split [OF _ _ e] assms(2) have 1: "ws = ws'"
    "cand @ CHR '':'' # opp @ CHR '':'' # atype = cand' @ CHR '':'' # opp' @ CHR '':'' # atype'" by auto
  from colon_split [OF _ _ 1(2)] assms(2) have 2: "cand = cand'"
    "opp @ CHR '':'' # atype = opp' @ CHR '':'' # atype'" by auto
  from colon_split [OF _ _ 2(2)] assms(2) 1 2 show ?thesis by auto
qed

theorem idempotency_key_injective_witness:
  "compute_idempotency_key id ''default'' ''founder'' ''opp-1'' ''application'' \<noteq>
   compute_idempotency_key id ''default'' ''founder'' ''opp-2'' ''application''"
  using idempotency_key_injective [of id "''default''" "''founder''" "''opp-1''" "''application''"
      "''default''" "''founder''" "''opp-2''" "''application''"] by auto

text \<open>with colons in the fields keys do collide, whatever the hash: candidate \<open>b\<close> of workspace
  \<open>a\<close> with opportunity \<open>gh:1\<close> and candidate \<open>b:gh\<close> with opportunity \<open>1\<close> share one key.\<close>

theorem idempotency_key_collision:
  "compute_idempotency_key sha ''a'' ''b'' ''gh:1'' t = compute_idempotency_key sha ''a'' ''b:gh'' ''1'' t"
  by (simp add: compute_idempotency_key_def)

section \<open>Where the ledgers part\<close>

lemma demo_held_row:
  "demo_held ''k'' = Some \<lparr>lr_action_id = ''act-1'', lr_workspace = ''default'',
      lr_candidate_id = ''founder'', lr_opportunity_id = ''opp-1'', lr_action_type = ''application'',
      lr_status = ''submitting'', lr_record = record_to_json (reserved_record ''t1'' demo_record),
      lr_created_at = ''2026-08-30T00:00:00'', lr_updated_at = ''t1''\<rparr>"
  by (simp add: demo_held_def reserve_submission_def reserved_record_def demo_record_def)

lemma demo_held_record:
  "json_to_record sha (record_to_json (reserved_record ''t1'' demo_record)) =
      Inr (reserved_record ''t1'' demo_record)"
  by (rule record_round_trip) (simp add: reserved_record_def demo_record_def evidence_ok_def)

lemma demo_blocked_reserve:
  "fst (reserve_submission ''t3'' demo_record (snd (transition_status sha ''t2'' ''k'' BLOCKED None ''stop'' demo_held)))
     = Inr ()"
proof -
  let ?l = "snd (transition_status sha ''t2'' ''k'' BLOCKED None ''stop'' demo_held)"
  have "\<exists>row. ?l ''k'' = Some row \<and> lr_status row = ''blocked''"
    by (simp add: transition_status_def Let_def demo_held_row demo_held_record)
  then show ?thesis
    by (auto simp: reserve_submission_def Let_def blocking_statuses_def)
qed

lemma pg_known_never_reserved:
  assumes "reservations l (idempotency_key r) \<noteq> None"
  shows "\<exists>e. pg_reserve_submission now_dt now r l = (Inl e, l)"
proof (cases "pg_reserve_submission now_dt now r l")
  case (Pair res l')
  with assms show ?thesis
    using pg_reserve_from_Inr [of "reservations l (idempotency_key r)" now now_dt r l l']
      pg_reserve_from_Inl [of "reservations l (idempotency_key r)" now now_dt r l _ l']
    by (cases res) (auto simp: pg_reserve_submission_def)
qed

text \<open>the ledgers disagree on a retry. After an attempt was aborted (status \<open>blocked\<close>), the SQLite
  ledger grants a new reservation of the key; the PostgreSQL ledger refuses every key it has ever
  seen, in whatever status, so that an aborted application can never be retried.\<close>

theorem retry_after_abort_diverges:
  "fst (reserve_submission ''t3'' demo_record (snd (transition_status sha ''t2'' ''k'' BLOCKED None ''stop'' demo_held)))
     = Inr () \<and>
   (\<forall>l now_dt now. pg_is_known ''k'' l \<longrightarrow> (\<exists>e. pg_reserve_submission now_dt now demo_record l = (Inl e, l)))"
  using demo_blocked_reserve [of sha] pg_known_never_reserved [of _ demo_record]
  by (simp add: pg_is_known_def)

theorem retry_after_abort_diverges_witness:
  "\<exists>e. pg_reserve_submission 2 ''t2'' demo_record demo_pg_held = (Inl e, demo_pg_held)"
proof -
  have "pg_is_known ''k'' demo_pg_held"
    by (simp add: pg_is_known_def demo_pg_held_def pg_reserve_submission_def pg_reserve_from_def
        pg_insert_def Let_def)
  with retry_after_abort_diverges [of id] show ?thesis by blast
qed

text \<open>reconciliation does not require an unknown outcome. A key that is being submitted right now
  (or is already confirmed) can be reconciled to \<open>failed\<close>, after which the SQLite ledger grants a
  second reservation of it.\<close>

theorem reconcile_reopens_live_key:
  "\<exists>r l. reconcile_unknown_outcome sha ''t2'' ''k'' FAILED ''x'' demo_held = (Inr r, l) \<and>
     fst (reserve_submission ''t3'' demo_record l) = Inr () \<and>
     map_option lr_status (demo_held ''k'') = Some ''submitting''"
  by (simp add: reconcile_unknown_outcome_def transition_status_def reserve_submission_def Let_def
      blocking_statuses_def demo_held_row demo_held_record)

end
