(* ===== verification/Engine_Properties.thy ===== *)
theory Engine_Properties
  imports Engine_Contract Ledger_Properties
begin

text \<open>
  The engine on the repository's own parts: the mock driver with the SQLite or the PostgreSQL
  ledger, under interference by other threads. The contracts are interpreted here and their
  consequences stated over the definitions.
\<close>

section \<open>Two engines\<close>

text \<open>
  Interference by other threads: any change of kill switch, registries and evidence files, any
  change of the truth graph, and challenges that appear or vanish on the page.
\<close>

record interference =
  i_env :: "nat \<Rightarrow> authority_env \<Rightarrow> authority_env"
  i_truth :: "nat \<Rightarrow> truth_graph \<Rightarrow> truth_graph"
  i_page :: "nat \<Rightarrow> bool \<times> bool"

definition interfere :: "interference \<Rightarrow> nat \<Rightarrow> ('l, mock_driver) world \<Rightarrow> ('l, mock_driver) world" where
  "interfere i n w =
     w\<lparr>w_env := i_env i n (w_env w), w_truth := i_truth i n (w_truth w),
       w_driver := (w_driver w)\<lparr>harness := (harness (w_driver w))
         \<lparr>captcha_barrier := fst (i_page i n), mfa_barrier := snd (i_page i n)\<rparr>\<rparr>\<rparr>"

text \<open>The hash: any function whose digests are not empty, given by first character and rest.\<close>

definition hash_of :: "(string \<Rightarrow> char) \<Rightarrow> (string \<Rightarrow> string) \<Rightarrow> string \<Rightarrow> string" where
  "hash_of c cs s = c s # cs s"

definition sqlite_engine ::
  "(string \<Rightarrow> char) \<Rightarrow> (string \<Rightarrow> string) \<Rightarrow> (json \<Rightarrow> string) \<Rightarrow> validator \<Rightarrow> (nat \<Rightarrow> string) \<Rightarrow> interference
     \<Rightarrow> (ledger, mock_driver) engine" where
  "sqlite_engine c cs digest validate clock i =
     \<lparr>e_sha = hash_of c cs, e_digest = digest, e_validate = validate,
      e_driver = MockBrowserDriver (\<lambda>s. c s # cs s), e_reserve = reserve_submission,
      e_move = transition_status (hash_of c cs), e_duplicate = duplicate_key (hash_of c cs),
      e_clock = clock, e_interfere = interfere i\<rparr>"

definition postgres_engine ::
  "(string \<Rightarrow> char) \<Rightarrow> (string \<Rightarrow> string) \<Rightarrow> (json \<Rightarrow> string) \<Rightarrow> validator \<Rightarrow> (nat \<Rightarrow> string) \<Rightarrow> interference
     \<Rightarrow> (string \<Rightarrow> int result) \<Rightarrow> (string \<Rightarrow> int) \<Rightarrow> (pg_ledger, mock_driver) engine" where
  "postgres_engine c cs digest validate clock i fromiso clk =
     \<lparr>e_sha = hash_of c cs, e_digest = digest, e_validate = validate,
      e_driver = MockBrowserDriver (\<lambda>s. c s # cs s), e_reserve = pg_reserve clk,
      e_move = pg_move (hash_of c cs) fromiso clk, e_duplicate = pg_duplicate_key (hash_of c cs),
      e_clock = clock, e_interfere = interfere i\<rparr>"

abbreviation mock_sends :: "mock_driver \<Rightarrow> nat" where
  "mock_sends d \<equiv> submits_count (harness d)"

lemma interfere_quiet [simp]:
  "w_ledger (interfere i n w) = w_ledger w" "mock_sends (w_driver (interfere i n w)) = mock_sends (w_driver w)"
  by (simp_all add: interfere_def)

interpretation sqlite_run: submission_engine "sqlite_engine c cs digest validate clock i" mock_sends
  ledger_ok "ledger_entry (hash_of c cs)"
  for c cs digest validate clock i
proof (intro submission_engine.intro submission_engine_axioms.intro)
  show "form_driver (e_driver (sqlite_engine c cs digest validate clock i)) mock_sends"
    unfolding sqlite_engine_def by (simp add: mock.form_driver_axioms)
  show "submission_ledger ledger_ok (ledger_entry (hash_of c cs))
      (e_reserve (sqlite_engine c cs digest validate clock i))
      (e_move (sqlite_engine c cs digest validate clock i))
      (e_duplicate (sqlite_engine c cs digest validate clock i))"
    unfolding sqlite_engine_def by (simp add: sqlite.submission_ledger_axioms)
qed (simp_all add: sqlite_engine_def)

interpretation postgres_run: submission_engine "postgres_engine c cs digest validate clock i fromiso clk" mock_sends
  pg_ok "pg_entry (hash_of c cs)"
  for c cs digest validate clock i fromiso clk
proof (intro submission_engine.intro submission_engine_axioms.intro)
  show "form_driver (e_driver (postgres_engine c cs digest validate clock i fromiso clk)) mock_sends"
    unfolding postgres_engine_def by (simp add: mock.form_driver_axioms)
  show "submission_ledger pg_ok (pg_entry (hash_of c cs))
      (e_reserve (postgres_engine c cs digest validate clock i fromiso clk))
      (e_move (postgres_engine c cs digest validate clock i fromiso clk))
      (e_duplicate (postgres_engine c cs digest validate clock i fromiso clk))"
    unfolding postgres_engine_def by (simp add: postgres.submission_ledger_axioms)
qed (simp_all add: postgres_engine_def)

section \<open>Forms that ask for an attachment\<close>

lemma answer_all_attachment:
  assumes "\<exists>f\<in>set fs. ontology_type f = ATTACHMENT" "opp_id opp \<noteq> []" "act \<noteq> []"
  shows "\<exists>m. answer_all now tg pol opp act (Some b) fs = Inl (ValueError m)"
  using assms(1)
proof (induction fs)
  case (Cons f fs)
  show ?case
  proof (cases "ontology_type f \<in> {RESUME_CV, COVER_LETTER_FIELD, ATTACHMENT}")
    case True
    with attachment_raises [OF True, of now tg pol opp act b] show ?thesis by auto
  next
    case False
    with answer_field_returns [of opp act f "Some b" now tg pol] assms(2,3) obtain x where
      "answer_field now tg pol f opp act (Some b) = Inr x" by (auto simp: request_ok_def)
    with False Cons show ?thesis by auto
  qed
qed simp

lemma resume_is_attachment: "ontology_type (mock_field l n ''file'' i r) = ATTACHMENT"
  by (simp add: mock_field_def classify_field_def classify_text_def Let_def)

lemma default_forms_attach:
  assumes "platform h \<in> {''greenhouse'', ''lever'', ''ashby''}" "custom_steps h = None"
  shows "\<exists>f\<in>set (get_fields_for_step n h). ontology_type f = ATTACHMENT"
  using assms resume_is_attachment by (auto simp: get_fields_for_step_def)

section \<open>Concrete run\<close>

definition run_env :: authority_env where
  "run_env = demo_env\<lparr>adapters := [''greenhouse'' \<mapsto> demo_enabled\<lparr>evidence_hash := ''#evidence''\<rparr>]\<rparr>"

definition quiet :: interference where
  "quiet = \<lparr>i_env = (\<lambda>_ x. x), i_truth = (\<lambda>_ x. x), i_page = (\<lambda>_. (False, False))\<rparr>"

definition run_engine :: "(pg_ledger, mock_driver) engine" where
  "run_engine = postgres_engine (\<lambda>_. CHR ''#'') id (\<lambda>_. ''m'') (\<lambda>_ _ _ _. (True, [])) (\<lambda>_. ''t'')
     quiet (\<lambda>_. Inr 0) (\<lambda>_. 0)"

definition run_args :: exec_args where
  "run_args = \<lparr>x_opportunity = demo_opp, x_artifact = None, x_mode = DRY_RUN,
     x_adapter = ''greenhouse'', x_workspace = ''default'', x_candidate = ''founder'',
     x_qualification = QUALIFIED, x_policy = None, x_score = 0, x_manifest = None,
     x_action_id = ''act-1'', x_created_at = ''t0''\<rparr>"

definition run_world :: "(pg_ledger, mock_driver) world" where
  "run_world = \<lparr>w_env = run_env, w_truth = [demo_assertion],
     w_ledger = \<lparr>reservations = Map.empty, actions = []\<rparr>,
     w_driver = \<lparr>harness = MockATSHarness ''greenhouse'' (Some [[demo_field]]) False False False True False False,
       current_step = 0\<rparr>\<rparr>"

definition run_manifest :: pre_submit_manifest where
  "run_manifest = (case fst (prepare_manifest run_engine run_args run_world) of
     Inr (m, _) \<Rightarrow> m | Inl _ \<Rightarrow> undefined)"

definition submit_args :: exec_args where
  "submit_args = run_args\<lparr>x_mode := CONTROLLED_SUBMIT, x_manifest := Some run_manifest, x_action_id := ''act-2''\<rparr>"

definition run_sqlite_world :: "(ledger, mock_driver) world" where
  "run_sqlite_world = \<lparr>w_env = run_env, w_truth = [demo_assertion], w_ledger = Map.empty, w_driver = w_driver run_world\<rparr>"

lemma run_answers:
  "answer_all ''t0'' [demo_assertion] (x_pol run_args) demo_opp ''act-1'' None [demo_field] = Inr [demo_answer]"
  by code_simp

lemma run_sends:
  "submits_count (harness (w_driver (snd (execute_application run_engine submit_args run_world)))) = 1"
  by code_simp

section \<open>Properties of the engine\<close>

text \<open>C1: no submission behind the gates' back, whatever other threads do. If an execution over the
  PostgreSQL ledger sends the form, then it ran in controlled mode with a prepared manifest; the
  fresh manifest had the prepared hash and the authority permitted the submission for the answers
  of that moment; the key was reserved; after the reservation the kill switch, the source policy,
  the adapter's evidence and the manifest hash were verified again; and no challenge was on the
  page at the call.\<close>

theorem submission_only_when_clear:
  assumes "e = postgres_engine c cs digest validate clock i fromiso clk"
    and "execute_application e a w = (r, w')"
    and "submits_count (harness (w_driver w')) \<noteq> submits_count (harness (w_driver w))"
  shows "\<exists>pm b g pv v1 fs xs v2 ver fresh w1 w2 ver' w3.
    x_mode a = CONTROLLED_SUBMIT \<and> x_manifest a = Some pm \<and>
    exec_open e a w = (Inr (b, g, pv), v1) \<and>
    exec_form e a b (e_interfere e 1 v1) = (Inr (fs, xs), v2) \<and>
    exec_gate e a pm b fs (e_interfere e 2 v2) = (Inr (ver, fresh), w1) \<and>
    permitted e a b fs (e_interfere e 2 v2) (e_interfere e 3 (snd (revalidate e a b fs (e_interfere e 2 v2)))) \<and>
    manifest_hash fresh = manifest_hash pm \<and>
    exec_reserve e a ver fresh (e_interfere e 4 w1) = (Inr (), w2) \<and>
    exec_recheck e a pm fresh b fs (e_interfere e 5 w2) = (Inr ver', w3) \<and>
    recheck_clear e a pm b fs (e_interfere e 5 w2) \<and>
    exec_submit e a ver' fresh (e_interfere e 6 w3) = (r, w') \<and>
    unchallenged e (e_interfere e 6 w3)"
  using postgres_run.execute_sends [OF assms(2) [unfolded assms(1)] assms(3)]
  unfolding cleared_chain_def cleared_control_def assms(1) by blast

theorem submission_only_when_clear_witness:
  "submits_count (harness (w_driver (snd (execute_application run_engine submit_args run_world)))) = 1 \<and>
   (\<exists>pm b fs w. x_manifest submit_args = Some pm \<and> recheck_clear run_engine submit_args pm b fs w)"
proof -
  obtain r w' where x: "execute_application run_engine submit_args run_world = (r, w')" by force
  have "submits_count (harness (w_driver w')) \<noteq> submits_count (harness (w_driver run_world))"
    using x run_sends by (simp add: run_world_def MockATSHarness_def)
  from submission_only_when_clear [OF run_engine_def x this] run_sends show ?thesis by blast
qed

text \<open>C2: a batch of executions, in any order and number, over one PostgreSQL ledger and one driver,
  with other threads interfering, sends at most one form per distinct idempotency key; the same
  holds over the SQLite ledger.\<close>

theorem batch_submits_each_key_once:
  assumes "pg_ok (w_ledger w)" "ledger_ok (w_ledger v)"
  shows "submits_count (harness (w_driver (run_all (postgres_engine c cs digest validate clock i fromiso clk) as w)))
      \<le> submits_count (harness (w_driver w)) +
        card (x_key (postgres_engine c cs digest validate clock i fromiso clk) ` set as) \<and>
    submits_count (harness (w_driver (run_all (sqlite_engine c cs digest validate clock i) as v)))
      \<le> submits_count (harness (w_driver v)) +
        card (x_key (sqlite_engine c cs digest validate clock i) ` set as)"
  using postgres_run.batch_sends_once [OF assms(1)] sqlite_run.batch_sends_once [OF assms(2)] by blast

theorem batch_submits_each_key_once_witness:
  "submits_count (harness (w_driver (run_all run_engine [submit_args, submit_args] run_world))) \<le> 1 \<and>
   submits_count (harness (w_driver (run_all (sqlite_engine (\<lambda>_. CHR ''#'') id (\<lambda>_. ''m'') (\<lambda>_ _ _ _. (True, []))
     (\<lambda>_. ''t'') quiet) [submit_args, submit_args] run_sqlite_world))) \<le> 1"
  using batch_submits_each_key_once [of run_world run_sqlite_world "\<lambda>_. CHR ''#''" id "\<lambda>_. ''m''"
      "\<lambda>_ _ _ _. (True, [])" "\<lambda>_. ''t''" quiet "\<lambda>_. Inr 0" "\<lambda>_. 0" "[submit_args, submit_args]"]
  by (simp add: run_engine_def run_sqlite_world_def run_world_def MockATSHarness_def pg_ok_def ledger_ok_def)

text \<open>C29: dry and assisted runs have no outbound effect: whatever happens around them, they neither
  write to the ledger nor send the form.\<close>

theorem dry_and_assisted_runs_send_nothing:
  assumes "execute_application (postgres_engine c cs digest validate clock i fromiso clk) a w = (r, w')"
    and "x_mode a \<noteq> CONTROLLED_SUBMIT"
  shows "w_ledger w' = w_ledger w \<and>
    submits_count (harness (w_driver w')) = submits_count (harness (w_driver w))"
  using postgres_run.execute_other_modes [OF assms] .

theorem dry_and_assisted_runs_send_nothing_witness:
  "w_ledger (snd (execute_application run_engine run_args run_world)) = w_ledger run_world"
  using dry_and_assisted_runs_send_nothing [OF surjective_pairing, of run_args] unfolding run_engine_def
  by (simp add: run_args_def)

text \<open>a prepared manifest does not go stale by itself. Over an unchanged truth graph, policy,
  registry state and form, a later attempt (another action id, another time) computes answers that
  differ only in those two fields, and a manifest with the same hash.\<close>

theorem manifest_hash_stable:
  assumes "answer_all (x_created_at a) tg (x_pol a) (x_opportunity a) (x_action_id a) b fs = Inr xs"
    and "act \<noteq> []" "a' = a\<lparr>x_action_id := act, x_created_at := now\<rparr>"
  shows "\<exists>ys. answer_all (x_created_at a') tg (x_pol a') (x_opportunity a') (x_action_id a') b fs = Inr ys \<and>
    manifest_hash (build_manifest e a' b g pv fs ys) = manifest_hash (build_manifest e a b g pv fs xs)"
  using answer_all_restamp [OF assms(1,2), of now] build_manifest_restamp [where e = e and a = a and act = act and now = now and b = b and g = g and pv = pv and fs = fs and xs = xs]
  by (simp add: assms(3) x_pol_def)

theorem manifest_hash_stable_witness:
  "\<exists>xs ys. answer_all ''t0'' [demo_assertion] (x_pol run_args) demo_opp ''act-1'' None [demo_field] = Inr xs \<and>
     answer_all ''t9'' [demo_assertion] (x_pol run_args) demo_opp ''act-9'' None [demo_field] = Inr ys \<and>
     manifest_hash (build_manifest run_engine (run_args\<lparr>x_action_id := ''act-9'', x_created_at := ''t9''\<rparr>)
       None None ''v1'' [demo_field] ys) =
     manifest_hash (build_manifest run_engine run_args None None ''v1'' [demo_field] xs)"
  using manifest_hash_stable [where a = run_args and tg = "[demo_assertion]" and b = None and
      fs = "[demo_field]" and act = "''act-9''" and now = "''t9''" and e = run_engine and g = None and pv = "''v1''"]
    run_answers
  by (auto simp: run_args_def x_pol_def)

text \<open>no form of the three supported platforms can be prepared with an artifact. Each asks for a
  CV file, and the engine's answer for it is rejected by the answer's own constructor, so that
  \<open>prepare_manifest\<close> raises for every truth graph and policy.\<close>

theorem platform_forms_with_artifact_raise:
  assumes "platform (harness (w_driver w)) \<in> {''greenhouse'', ''lever'', ''ashby''}"
    and "custom_steps (harness (w_driver w)) = None" "x_artifact a = Some (Bound b)"
    and "opp_id (x_opportunity a) \<noteq> []" "x_action_id a \<noteq> []"
  shows "\<exists>m. fst (prepare_manifest (postgres_engine c cs digest validate clock i fromiso clk) a w) =
    Inl (ValueError m)"
proof -
  let ?fs = "get_fields_for_step 0 (harness (w_driver w))"
  from answer_all_attachment [OF default_forms_attach [OF assms(1,2), of 0] assms(4,5),
      of "x_created_at a" "w_truth w" "x_pol a" b]
  obtain m where m: "answer_all (x_created_at a) (w_truth w) (x_pol a) (x_opportunity a) (x_action_id a)
      (Some b) ?fs = Inl (ValueError m)" by blast
  let ?e = "postgres_engine c cs digest validate clock i fromiso clk"
  have "fst (inspect_loop (e_driver ?e) (answer_all (x_created_at a) (w_truth w) (x_pol a) (x_opportunity a)
      (x_action_id a) (Some b)) (Suc 9) 0 (w_driver w)) = Inl (ValueError m)"
    unfolding inspect_loop.simps using m by (simp add: postgres_engine_def MockBrowserDriver_def)
  then show ?thesis
    using assms(3) by (auto simp: prepare_manifest_def bind_for_def MAX_STEPS_def split: prod.split sum.split)
qed

theorem platform_forms_with_artifact_raise_witness:
  "\<exists>m. fst (prepare_manifest run_engine (run_args\<lparr>x_artifact := Some (Bound demo_bound)\<rparr>)
     (run_world\<lparr>w_driver := \<lparr>harness = MockATSHarness ''lever'' None False False False True False False,
        current_step = 0\<rparr>\<rparr>)) = Inl (ValueError m)"
  unfolding run_engine_def
  by (rule platform_forms_with_artifact_raise [where b = demo_bound])
    (simp_all add: MockATSHarness_def run_args_def demo_opp_def)

end
