(* ===== verification/Inbox_Models.thy ===== *)
theory Inbox_Models
  imports Outbound_Models
begin

text \<open>
  Data of the inbox (\<open>inbox/models.py\<close>): categories and stages with their stored values, inbound
  messages, signals, correlations, pipeline events, derived states and notifications. Times are
  ISO 8601 texts, as in the code.
\<close>

section \<open>Enumerations\<close>

datatype SignalCategory =
    APPLICATION_CONFIRMATION | REJECTION | RECRUITER_OUTREACH | ASSESSMENT | INTERVIEW_REQUEST
  | OFFER | INFORMATION_REQUEST
  | PROPOSAL_CONFIRMATION | CLIENT_OR_BUYER_RESPONSE | CLARIFICATION_REQUEST
  | SHORTLIST_OR_INVITATION | DISCOVERY_CALL_OR_MEETING_REQUEST | PROPOSAL_REJECTION
  | AWARD_OR_WIN | CONTRACT_PROGRESS | PROCUREMENT_AMENDMENT | PROCUREMENT_DEADLINE_CHANGE
  | MARKETING | GENERIC_NON_ACTIONABLE_PLATFORM_NOTIFICATION | UNCLASSIFIED

datatype SignalPriority = URGENT | HIGH | MEDIUM | LOW | NOISE

datatype CorrelationStatus =
    EXACT_REFERENCE_MATCH | THREAD_LINKED | SOURCE_ID_MATCH | STRONG_MULTI_FIELD_MATCH
  | AMBIGUOUS_MULTI_CANDIDATE | UNLINKED | REVIEW_REQUIRED

text \<open>Two stages are named after a member of another enumeration and get a suffix.\<close>

datatype OpportunityStage =
    DISCOVERED | QUALIFIED_STAGE | APPLIED | IN_REVIEW | ASSESSMENT_SCHEDULED | INTERVIEWING
  | OFFER_RECEIVED | AWARDED | REJECTED | CLOSED_UNRESPONSIVE | WITHDRAWN | REVIEW_REQUIRED_STAGE
  | NO_EVENTS

fun category_value :: "SignalCategory \<Rightarrow> string" where
  "category_value APPLICATION_CONFIRMATION = ''application_confirmation''"
| "category_value REJECTION = ''rejection''"
| "category_value RECRUITER_OUTREACH = ''recruiter_outreach''"
| "category_value ASSESSMENT = ''assessment''"
| "category_value INTERVIEW_REQUEST = ''interview_request''"
| "category_value OFFER = ''offer''"
| "category_value INFORMATION_REQUEST = ''information_request''"
| "category_value PROPOSAL_CONFIRMATION = ''proposal_confirmation''"
| "category_value CLIENT_OR_BUYER_RESPONSE = ''client_or_buyer_response''"
| "category_value CLARIFICATION_REQUEST = ''clarification_request''"
| "category_value SHORTLIST_OR_INVITATION = ''shortlist_or_invitation''"
| "category_value DISCOVERY_CALL_OR_MEETING_REQUEST = ''discovery_call_or_meeting_request''"
| "category_value PROPOSAL_REJECTION = ''proposal_rejection''"
| "category_value AWARD_OR_WIN = ''award_or_win''"
| "category_value CONTRACT_PROGRESS = ''contract_progress''"
| "category_value PROCUREMENT_AMENDMENT = ''procurement_amendment''"
| "category_value PROCUREMENT_DEADLINE_CHANGE = ''procurement_deadline_change''"
| "category_value MARKETING = ''marketing''"
| "category_value GENERIC_NON_ACTIONABLE_PLATFORM_NOTIFICATION = ''generic_platform_notification''"
| "category_value UNCLASSIFIED = ''unclassified''"

fun priority_value :: "SignalPriority \<Rightarrow> string" where
  "priority_value URGENT = ''urgent''"
| "priority_value HIGH = ''high''"
| "priority_value MEDIUM = ''medium''"
| "priority_value LOW = ''low''"
| "priority_value NOISE = ''noise''"

fun stage_value :: "OpportunityStage \<Rightarrow> string" where
  "stage_value DISCOVERED = ''discovered''"
| "stage_value QUALIFIED_STAGE = ''qualified''"
| "stage_value APPLIED = ''applied''"
| "stage_value IN_REVIEW = ''in_review''"
| "stage_value ASSESSMENT_SCHEDULED = ''assessment_scheduled''"
| "stage_value INTERVIEWING = ''interviewing''"
| "stage_value OFFER_RECEIVED = ''offer_received''"
| "stage_value AWARDED = ''awarded''"
| "stage_value REJECTED = ''rejected''"
| "stage_value CLOSED_UNRESPONSIVE = ''closed_unresponsive''"
| "stage_value WITHDRAWN = ''withdrawn''"
| "stage_value REVIEW_REQUIRED_STAGE = ''review_required''"
| "stage_value NO_EVENTS = ''no_events''"

text \<open>Reading a stored value back, as \<open>SignalCategory(row[...])\<close> does.\<close>

definition all_categories :: "SignalCategory list" where
  "all_categories = [APPLICATION_CONFIRMATION, REJECTION, RECRUITER_OUTREACH, ASSESSMENT,
     INTERVIEW_REQUEST, OFFER, INFORMATION_REQUEST, PROPOSAL_CONFIRMATION, CLIENT_OR_BUYER_RESPONSE,
     CLARIFICATION_REQUEST, SHORTLIST_OR_INVITATION, DISCOVERY_CALL_OR_MEETING_REQUEST,
     PROPOSAL_REJECTION, AWARD_OR_WIN, CONTRACT_PROGRESS, PROCUREMENT_AMENDMENT,
     PROCUREMENT_DEADLINE_CHANGE, MARKETING, GENERIC_NON_ACTIONABLE_PLATFORM_NOTIFICATION, UNCLASSIFIED]"

definition all_stages :: "OpportunityStage list" where
  "all_stages = [DISCOVERED, QUALIFIED_STAGE, APPLIED, IN_REVIEW, ASSESSMENT_SCHEDULED, INTERVIEWING,
     OFFER_RECEIVED, AWARDED, REJECTED, CLOSED_UNRESPONSIVE, WITHDRAWN, REVIEW_REQUIRED_STAGE, NO_EVENTS]"

definition category_of :: "string \<Rightarrow> SignalCategory result" where
  "category_of = enum_of category_value all_categories"

definition priority_of :: "string \<Rightarrow> SignalPriority result" where
  "priority_of = enum_of priority_value [URGENT, HIGH, MEDIUM, LOW, NOISE]"

definition stage_of :: "string \<Rightarrow> OpportunityStage result" where
  "stage_of = enum_of stage_value all_stages"

lemma category_round_trip [simp]: "category_of (category_value c) = Inr c"
  by (cases c) (simp_all add: category_of_def enum_of_def all_categories_def)

lemma priority_round_trip [simp]: "priority_of (priority_value p) = Inr p"
  by (cases p) (simp_all add: priority_of_def enum_of_def)

lemma stage_round_trip [simp]: "stage_of (stage_value s) = Inr s"
  by (cases s) (simp_all add: stage_of_def enum_of_def all_stages_def)

section \<open>Messages and signals\<close>

record inbound_message =
  provider :: string
  provider_message_id :: string
  thread_id :: string
  sender_email :: string
  sender_name :: string
  recipient_email :: string
  subject :: string
  snippet :: string
  body_text :: string
  body_html :: string
  received_at :: string
  msg_headers :: "(string \<times> string) list"
  attachment_names :: "string list"
  message_content_hash :: string

definition message_data :: "inbound_message \<Rightarrow> json" where
  "message_data m = JObj
     [(''provider'', JStr (provider m)), (''provider_message_id'', JStr (provider_message_id m)),
      (''thread_id'', JStr (thread_id m)), (''sender_email'', JStr (sender_email m)),
      (''recipient_email'', JStr (recipient_email m)), (''subject'', JStr (subject m)),
      (''received_at'', JStr (received_at m)), (''body_text'', JStr (body_text m))]"

text \<open>\<open>__post_init__\<close>; \<open>digest\<close> is SHA-256 of the sorted JSON text of a document.\<close>

definition message_post_init :: "(json \<Rightarrow> string) \<Rightarrow> inbound_message \<Rightarrow> inbound_message" where
  "message_post_init digest m =
     (if message_content_hash m = [] then m\<lparr>message_content_hash := digest (message_data m)\<rparr> else m)"

record extracted_deadline =
  raw_snippet :: string
  iso_timestamp :: "string option"
  is_ambiguous :: bool
  requires_human_verification :: bool
  deadline_type :: string

record inbound_signal =
  signal_id :: string
  sig_content_hash :: string
  sig_message_id :: string
  sig_category :: SignalCategory
  sig_priority :: SignalPriority
  sig_track :: Track
  sig_confidence :: real
  sig_summary :: string
  sig_sender :: string
  sig_detected_at :: string
  sig_deadline :: "extracted_deadline option"
  extracted_references :: "string list"
  extracted_organization :: string
  extracted_role_title :: string
  requires_founder_action :: bool
  action_description :: string

record correlation_evidence =
  corr_signal_id :: string
  corr_opportunity_id :: "string option"
  corr_action_id :: "string option"
  corr_status :: CorrelationStatus
  matching_criteria :: "string list"
  corr_confidence :: real
  is_authoritative :: bool
  corr_reason :: string

section \<open>Events, states and notifications\<close>

record pipeline_event =
  event_id :: string
  pe_opportunity_id :: string
  pe_signal_id :: string
  previous_stage :: OpportunityStage
  new_stage :: OpportunityStage
  pe_track :: Track
  trigger_category :: SignalCategory
  pe_content_hash :: string
  occurred_at :: string
  recorded_at :: string
  pe_actor :: string
  pe_notes :: string

record derived_state =
  ds_opportunity_id :: string
  ds_track :: Track
  current_stage :: OpportunityStage
  latest_event_id :: string
  last_signal_category :: "SignalCategory option"
  last_signal_at :: string
  active_action_required :: bool
  action_deadline :: "string option"
  action_summary :: string
  event_history_count :: nat
  reconciliation_required :: bool
  reconciliation_reason :: string

record founder_notification =
  notification_id :: string
  notification_key :: string
  fn_opportunity_id :: "string option"
  fn_signal_id :: string
  fn_priority :: SignalPriority
  fn_category :: SignalCategory
  fn_title :: string
  fn_message :: string
  action_required :: bool
  fn_deadline :: "string option"
  fn_created_at :: string
  acknowledged :: bool
  acknowledged_at :: "string option"

end
