(* ===== verification/Py_Regex.thy ===== *)
theory Py_Regex
  imports Prelude
begin

text \<open>
  The part of Python's \<open>re\<close> the sources use, on ASCII text: classes, sequence, ordered choice,
  greedy and lazy repetition, word boundaries, the end of the text, lookahead and one capturing
  group. A state is the text already read
  (reversed), the text ahead and the captured group; \<open>re_run\<close> lists the states a match can end in,
  in the order in which the backtracking engine would try them, so that its head is the match
  Python reports.
\<close>

section \<open>Expressions and their runs\<close>

datatype re =
    Eps
  | Ch "char \<Rightarrow> bool"
  | Cat re re
  | Or re re
  | Many re
  | Few re
  | Cap re
  | Ahead re
  | Edge
  | AtEnd
  | NotAhead re
  | NotBehind "char \<Rightarrow> bool"

type_synonym re_state = "string \<times> string \<times> string"

definition word_edge :: "string \<Rightarrow> string \<Rightarrow> bool" where
  "word_edge p r \<longleftrightarrow>
     (case p of [] \<Rightarrow> False | c # _ \<Rightarrow> py_isword c) \<noteq> (case r of [] \<Rightarrow> False | c # _ \<Rightarrow> py_isword c)"

definition consumed :: "string \<Rightarrow> string \<Rightarrow> string" where
  "consumed p p' = rev (take (length p' - length p) p')"

definition advanced :: "re_state \<Rightarrow> re_state \<Rightarrow> bool" where
  "advanced s t \<longleftrightarrow> length (fst (snd t)) < length (fst (snd s))"

function re_run :: "re \<Rightarrow> re_state \<Rightarrow> re_state list" where
  "re_run Eps s = [s]"
| "re_run (Ch f) s =
     (case s of (p, r, g) \<Rightarrow>
        (case r of [] \<Rightarrow> [] | c # cs \<Rightarrow> if f c then [(c # p, cs, g)] else []))"
| "re_run (Cat a b) s = concat (map (re_run b) (re_run a s))"
| "re_run (Or a b) s = re_run a s @ re_run b s"
| "re_run (Many a) s = concat (map (re_run (Many a)) (filter (advanced s) (re_run a s))) @ [s]"
| "re_run (Few a) s = s # concat (map (re_run (Few a)) (filter (advanced s) (re_run a s)))"
| "re_run (Cap a) s = map (\<lambda>(p', r', _). (p', r', consumed (fst s) p')) (re_run a s)"
| "re_run (Ahead a) s = (if re_run a s = [] then [] else [s])"
| "re_run Edge s = (case s of (p, r, g) \<Rightarrow> if word_edge p r then [s] else [])"
| "re_run AtEnd s = (case s of (p, r, g) \<Rightarrow> if r = [] \<or> r = [CHR 0x0A] then [s] else [])"
| "re_run (NotAhead a) s = (if re_run a s = [] then [s] else [])"
| "re_run (NotBehind f) s = (case s of (p, r, g) \<Rightarrow> if p \<noteq> [] \<and> f (hd p) then [] else [s])"
  by pat_completeness auto
termination
  by (relation "measures [\<lambda>(e, s). size e, \<lambda>(e, s). length (fst (snd s))]")
    (auto simp: advanced_def)

declare re_run.simps(5,6) [simp del]

section \<open>Searching\<close>

text \<open>\<open>re.search\<close>: the leftmost match, as its text and its group.\<close>

definition as_match :: "string \<Rightarrow> re_state \<Rightarrow> string \<times> string" where
  "as_match p s = (case s of (p', _, g) \<Rightarrow> (consumed p p', g))"

fun search_from :: "re \<Rightarrow> string \<Rightarrow> string \<Rightarrow> (string \<times> string) option" where
  "search_from e p r =
     (case re_run e (p, r, []) of
        s # _ \<Rightarrow> Some (as_match p s)
      | [] \<Rightarrow> (case r of [] \<Rightarrow> None | c # cs \<Rightarrow> search_from e (c # p) cs))"

declare search_from.simps [simp del]

text \<open>The start of the leftmost match.\<close>

fun start_from :: "re \<Rightarrow> string \<Rightarrow> string \<Rightarrow> nat option" where
  "start_from e p r =
     (if re_run e (p, r, []) \<noteq> [] then Some (length p)
      else (case r of [] \<Rightarrow> None | c # cs \<Rightarrow> start_from e (c # p) cs))"

declare start_from.simps [simp del]

definition re_start :: "re \<Rightarrow> string \<Rightarrow> nat option" where
  "re_start e s = start_from e [] s"

definition re_search :: "re \<Rightarrow> string \<Rightarrow> (string \<times> string) option" where
  "re_search e s = search_from e [] s"

text \<open>
  \<open>re.finditer\<close>: matches that do not overlap, from left to right, each as its start, its text and
  its group.
\<close>

function iter_at :: "re \<Rightarrow> string \<Rightarrow> string \<Rightarrow> (nat \<times> string \<times> string) list" where
  "iter_at e p r =
     (case re_run e (p, r, []) of
        [] \<Rightarrow> (case r of [] \<Rightarrow> [] | c # cs \<Rightarrow> iter_at e (c # p) cs)
      | (p', r', g) # _ \<Rightarrow>
          (length p, consumed p p', g)
          # (if length r' < length r then iter_at e p' r' else (case r of [] \<Rightarrow> [] | c # cs \<Rightarrow> iter_at e (c # p) cs)))"
  by pat_completeness auto
termination by (relation "measure (\<lambda>(e, p, r). length r)") auto

declare iter_at.simps [simp del]

definition re_finditer_at :: "re \<Rightarrow> string \<Rightarrow> (nat \<times> string \<times> string) list" where
  "re_finditer_at e s = iter_at e [] s"

definition re_finditer :: "re \<Rightarrow> string \<Rightarrow> (string \<times> string) list" where
  "re_finditer e s = map snd (re_finditer_at e s)"

section \<open>Derived forms\<close>

fun lit :: "string \<Rightarrow> re" where
  "lit [] = Eps"
| "lit (c # cs) = Cat (Ch (\<lambda>d. d = c)) (lit cs)"

text \<open>A literal under \<open>re.IGNORECASE\<close>.\<close>

fun liti :: "string \<Rightarrow> re" where
  "liti [] = Eps"
| "liti (c # cs) = Cat (Ch (\<lambda>d. py_lower_char d = py_lower_char c)) (liti cs)"

fun any_of :: "re list \<Rightarrow> re" where
  "any_of [] = Ch (\<lambda>_. False)"
| "any_of [e] = e"
| "any_of (e # f # es) = Or e (any_of (f # es))"

definition plus_of :: "re \<Rightarrow> re" where "plus_of e = Cat e (Many e)"

definition opt_of :: "re \<Rightarrow> re" where "opt_of e = Or e Eps"

fun times_of :: "nat \<Rightarrow> re \<Rightarrow> re" where
  "times_of 0 e = Eps"
| "times_of (Suc n) e = Cat e (times_of n e)"

fun upto_of :: "nat \<Rightarrow> re \<Rightarrow> re" where
  "upto_of 0 e = Eps"
| "upto_of (Suc n) e = Or (Cat e (upto_of n e)) Eps"

text \<open>\<open>e{a,b}\<close>.\<close>

definition between_of :: "nat \<Rightarrow> nat \<Rightarrow> re \<Rightarrow> re" where
  "between_of a b e = Cat (times_of a e) (upto_of (b - a) e)"

fun cats :: "re list \<Rightarrow> re" where
  "cats [] = Eps"
| "cats [e] = e"
| "cats (e # f # es) = Cat e (cats (f # es))"

abbreviation spaces :: re where "spaces \<equiv> Many (Ch py_isspace)"
abbreviation spaces1 :: re where "spaces1 \<equiv> plus_of (Ch py_isspace)"

section \<open>Matches are part of the text\<close>

lemma consumed_append [simp]: "consumed p (rev m @ p) = m"
  by (simp add: consumed_def)

lemma re_run_consumes:
  assumes "(p', r', g') \<in> set (re_run e (p, r, g))"
  shows "(\<exists>m. r = m @ r' \<and> p' = rev m @ p) \<and> (g' = g \<or> sublist g' r)"
  using assms
proof (induction e "(p, r, g)" arbitrary: p r g p' r' g' rule: re_run.induct)
  case (2 f)
  then show ?case by (auto split: list.splits if_splits)
next
  case (3 a b)
  from "3.prems" obtain p1 r1 g1 where
    a: "(p1, r1, g1) \<in> set (re_run a (p, r, g))" and b: "(p', r', g') \<in> set (re_run b (p1, r1, g1))"
    by auto
  from "3.hyps"(1) [OF a] obtain m where m: "r = m @ r1" "p1 = rev m @ p" "g1 = g \<or> sublist g1 r" by blast
  from "3.hyps"(2) [OF a b] obtain n where n: "r1 = n @ r'" "p' = rev n @ p1" "g' = g1 \<or> sublist g' r1"
    by blast
  have "sublist g' r" if "sublist g' r1" using that m(1) by (simp add: sublist_appendI sublist_append)
  with m n show ?case by auto
next
  case (4 a b)
  from "4.prems" consider "(p', r', g') \<in> set (re_run a (p, r, g))" | "(p', r', g') \<in> set (re_run b (p, r, g))"
    by auto
  then show ?case by cases (rule "4.hyps", assumption)+
next
  case (5 a)
  show ?case
  proof (cases "(p', r', g') = (p, r, g)")
    case False
    with "5.prems" [unfolded re_run.simps(5) [of a "(p, r, g)"]] obtain p1 r1 g1 where
      a: "(p1, r1, g1) \<in> set (re_run a (p, r, g))" "(p1, r1, g1) \<in> set (filter (advanced (p, r, g)) (re_run a (p, r, g)))"
      and b: "(p', r', g') \<in> set (re_run (Many a) (p1, r1, g1))"
      by auto
    from "5.hyps"(1) [OF a(1)] obtain m where m: "r = m @ r1" "p1 = rev m @ p" "g1 = g \<or> sublist g1 r" by blast
    from "5.hyps"(2) [OF a(2) b] obtain n where n: "r1 = n @ r'" "p' = rev n @ p1" "g' = g1 \<or> sublist g' r1"
      by blast
    have "sublist g' r" if "sublist g' r1" using that m(1) by (simp add: sublist_append)
    with m n show ?thesis by auto
  qed auto
next
  case (6 a)
  show ?case
  proof (cases "(p', r', g') = (p, r, g)")
    case False
    with "6.prems" [unfolded re_run.simps(6) [of a "(p, r, g)"]] obtain p1 r1 g1 where
      a: "(p1, r1, g1) \<in> set (re_run a (p, r, g))" "(p1, r1, g1) \<in> set (filter (advanced (p, r, g)) (re_run a (p, r, g)))"
      and b: "(p', r', g') \<in> set (re_run (Few a) (p1, r1, g1))"
      by auto
    from "6.hyps"(1) [OF a(1)] obtain m where m: "r = m @ r1" "p1 = rev m @ p" "g1 = g \<or> sublist g1 r" by blast
    from "6.hyps"(2) [OF a(2) b] obtain n where n: "r1 = n @ r'" "p' = rev n @ p1" "g' = g1 \<or> sublist g' r1"
      by blast
    have "sublist g' r" if "sublist g' r1" using that m(1) by (simp add: sublist_append)
    with m n show ?thesis by auto
  qed auto
next
  case (7 a)
  from "7.prems" obtain g1 where a: "(p', r', g1) \<in> set (re_run a (p, r, g))" "g' = consumed p p'" by auto
  from "7.hyps"(1) [OF a(1)] obtain m where "r = m @ r'" "p' = rev m @ p" by blast
  with a(2) show ?case by (auto simp: sublist_appendI)
next
  case (8 a)
  then show ?case by (auto split: if_splits)
next
  case 9
  then show ?case by (auto split: if_splits)
next
  case 10
  then show ?case by (auto split: if_splits)
next
  case (11 a)
  then show ?case by (auto split: if_splits)
next
  case (12 f)
  then show ?case by (auto split: if_splits)
qed auto

lemma search_from_sublist:
  assumes "search_from e p r = Some (m, g)"
  shows "sublist m r \<and> (g = [] \<or> sublist g r)"
  using assms
proof (induction e p r rule: search_from.induct)
  case (1 e p r)
  show ?case
  proof (cases "re_run e (p, r, [])")
    case Nil
    with "1.prems" obtain c cs where r: "r = c # cs" "search_from e (c # p) cs = Some (m, g)"
      by (subst (asm) search_from.simps) (auto split: list.splits)
    from "1.IH" [OF Nil r(1) r(2)] r(1) show ?thesis by (auto intro: sublist_Cons_right [THEN iffD2])
  next
    case (Cons s ss)
    obtain p' r' g' where s: "s = (p', r', g')" by (cases s)
    with Cons have "(p', r', g') \<in> set (re_run e (p, r, []))" by simp
    from re_run_consumes [OF this] obtain n where "r = n @ r'" "p' = rev n @ p" "g' = [] \<or> sublist g' r" by blast
    with "1.prems" Cons s show ?thesis
      by (subst (asm) search_from.simps) (auto simp: as_match_def)
  qed
qed

lemma re_search_sublist:
  "re_search e s = Some (m, g) \<Longrightarrow> sublist m s \<and> (g = [] \<or> sublist g s)"
  unfolding re_search_def by (rule search_from_sublist)

lemma iter_at_sublist:
  assumes "(n, m, g) \<in> set (iter_at e p r)"
  shows "sublist m r \<and> (g = [] \<or> sublist g r)"
  using assms
proof (induction e p r rule: iter_at.induct)
  case (1 e p r)
  have later: "sublist m r \<and> (g = [] \<or> sublist g r)"
    if "(n, m, g) \<in> set (case r of [] \<Rightarrow> [] | c # cs \<Rightarrow> iter_at e (c # p) cs)"
      and "\<And>c cs. r = c # cs \<Longrightarrow> (n, m, g) \<in> set (iter_at e (c # p) cs) \<Longrightarrow> sublist m cs \<and> (g = [] \<or> sublist g cs)"
  proof (cases r)
    case (Cons c cs)
    with that(1) that(2) [OF Cons] show ?thesis by (auto simp: sublist_Cons_right)
  qed (use that in simp)
  show ?case
  proof (cases "re_run e (p, r, [])")
    case Nil
    with "1.prems" [unfolded iter_at.simps [of e p r]] show ?thesis using "1.IH"(1) [OF Nil] by (intro later) simp_all
  next
    case (Cons s ss)
    obtain p' r' g' where s: "s = (p', r', g')" by (cases s)
    with Cons have "(p', r', g') \<in> set (re_run e (p, r, []))" by simp
    from re_run_consumes [OF this] obtain k where k: "r = k @ r'" "p' = rev k @ p" "g' = [] \<or> sublist g' r"
      by blast
    from "1.prems" [unfolded iter_at.simps [of e p r]] Cons s consider "(m, g) = (consumed p p', g')"
      | "length r' < length r" "(n, m, g) \<in> set (iter_at e p' r')"
      | "\<not> length r' < length r" "(n, m, g) \<in> set (case r of [] \<Rightarrow> [] | c # cs \<Rightarrow> iter_at e (c # p) cs)"
      by (auto split: if_splits)
    then show ?thesis
    proof cases
      case 1
      with k show ?thesis by auto
    next
      case 2
      from "1.IH"(2) [OF Cons s [symmetric] refl 2] k(1) show ?thesis by (auto simp: sublist_append)
    next
      case 3
      from 3(2) "1.IH"(3) [OF Cons s [symmetric] refl 3(1)] show ?thesis by (rule later)
    qed
  qed
qed

lemma re_finditer_sublist:
  "(m, g) \<in> set (re_finditer e s) \<Longrightarrow> sublist m s \<and> (g = [] \<or> sublist g s)"
  unfolding re_finditer_def re_finditer_at_def by (auto dest: iter_at_sublist)

end
