(* ===== verification/Inbox_Classifier.thy ===== *)
theory Inbox_Classifier
  imports Inbox_Models Py_Regex "HOL-Library.List_Lexorder" "HOL-Library.Char_ord"
begin

text \<open>
  The response classifier of \<open>inbox/classifier.py\<close>: signal identity, extraction of deadlines,
  references, organisation and role by the source's regular expressions, and the cascade of
  keyword rules. Each rule is a row of a table, in the order of the code.
\<close>

section \<open>Identity\<close>

definition CLASSIFIER_VERSION :: string where "CLASSIFIER_VERSION = ''1.0.0''"

definition compute_signal_id :: "(string \<Rightarrow> string) \<Rightarrow> string \<Rightarrow> SignalCategory \<Rightarrow> Track \<Rightarrow> string" where
  "compute_signal_id sha h cat trk =
     ''sig-'' @ take 16 (sha (h @ '':'' @ category_value cat @ '':'' @ track_value trk @ '':'' @ CLASSIFIER_VERSION))"

section \<open>Deadlines\<close>

definition month_day :: re where
  "month_day = cats [plus_of (Ch py_isalpha), spaces1, between_of 1 2 (Ch py_isdigit)]"

definition month_day_year :: re where
  "month_day_year = Cat month_day (opt_of (cats [lit '','', spaces1, times_of 4 (Ch py_isdigit)]))"

definition deadline_patterns :: "re list" where
  "deadline_patterns =
     [cats [liti ''by'', spaces1, Cap month_day_year],
      cats [liti ''before'', spaces1, Cap month_day_year],
      cats [liti ''deadline'', spaces, opt_of (any_of [liti ''is'', lit '':'']), spaces, Cap month_day_year],
      cats [liti ''within'', spaces1,
        Cap (cats [plus_of (Ch py_isdigit), spaces1, any_of [liti ''days'', liti ''hours'', liti ''business days'']])],
      cats [liti ''complete'', spaces1, liti ''by'', spaces1, Cap month_day],
      cats [liti ''respond'', spaces1, liti ''by'', spaces1, Cap month_day]]"

definition deadline_of :: "string \<Rightarrow> bool \<Rightarrow> extracted_deadline" where
  "deadline_of snip amb =
     \<lparr>raw_snippet = snip, iso_timestamp = None, is_ambiguous = amb, requires_human_verification = True,
      deadline_type = ''general''\<rparr>"

definition vague_words :: "string list" where
  "vague_words = [''tomorrow'', ''soon'', ''eod'', ''end of day'', ''next week'', ''few days'']"

definition TIME_SENSITIVE :: string where
  "TIME_SENSITIVE = ''Time-sensitive response indicated in message''"

fun first_match :: "re list \<Rightarrow> string \<Rightarrow> (string \<times> string) option" where
  "first_match [] s = None"
| "first_match (e # es) s = (case re_search e s of Some m \<Rightarrow> Some m | None \<Rightarrow> first_match es s)"

definition extract_deadline :: "string \<Rightarrow> extracted_deadline option" where
  "extract_deadline t =
     (case first_match deadline_patterns t of
        Some (snip, _) \<Rightarrow> Some (deadline_of snip (py_any_in vague_words (py_lower snip)))
      | None \<Rightarrow>
          if py_any_in [''deadline'', ''respond within'', ''action required within'', ''time-sensitive''] (py_lower t)
          then Some (deadline_of TIME_SENSITIVE True) else None)"

section \<open>References, organisation and role\<close>

definition is_token_char :: "char \<Rightarrow> bool" where
  "is_token_char c \<longleftrightarrow> py_isalnum c \<or> c = CHR ''-''"

definition token_re :: re where
  "token_re = cats [Edge,
     any_of [lit ''APP'', lit ''REQ'', lit ''JOB'', lit ''PROP'', lit ''TED'', lit ''UNGM'', lit ''SOW'', lit ''WB''],
     lit ''-'', plus_of (Ch is_token_char), Edge]"

definition label_re :: re where
  "label_re = cats [Edge,
     any_of [Cat (liti ''req'') (opt_of (liti ''uisition'')), Cat (liti ''app'') (opt_of (liti ''lication'')),
             Cat (liti ''ref'') (opt_of (liti ''erence'')), liti ''proposal'', liti ''tender'', liti ''notice''],
     spaces, any_of [lit ''#'', liti ''id'', Cat (lit '':'') spaces], spaces,
     Cap (between_of 3 30 (Ch (\<lambda>c. is_token_char c \<or> c = CHR ''_'')))]"

definition label_stop_words :: "string list" where
  "label_stop_words = [''team'', ''qualifications'', ''process'', ''details'', ''update'', ''updates'', ''status'',
     ''application'', ''regarding'', ''for'']"

definition extract_references :: "string \<Rightarrow> string list" where
  "extract_references t =
     sort (remdups
       (map (\<lambda>m. py_strip (fst m)) (re_finditer token_re t) @
        filter (\<lambda>v. py_lower v \<notin> set label_stop_words) (map (\<lambda>m. py_strip (snd m)) (re_finditer label_re t))))"

definition org_re :: re where
  "org_re = cats [Edge, any_of [lit ''at'', lit ''with'', lit ''for''], spaces1,
     Cap (Cat (Ch (\<lambda>c. py_isalpha c \<and> py_upper_char c = c))
       (between_of 2 25 (Ch (\<lambda>c. py_isalnum c \<or> py_isspace c \<or> c = CHR ''&'')))), Edge]"

definition role_re :: re where
  "role_re = cats [any_of [liti ''application for'', liti ''regarding'', Cat (liti ''role'') (opt_of (lit '':'')),
       Cat (liti ''position'') (opt_of (lit '':''))], spaces1,
     Cap (between_of 3 35 (Ch (\<lambda>c. py_isalnum c \<or> py_isspace c \<or> c \<in> {CHR ''-'', CHR ''_'', CHR ''/''})))]"

definition extract_organization_and_role :: "inbound_message \<Rightarrow> string \<times> string" where
  "extract_organization_and_role m =
     (case re_search org_re (subject m) of Some (_, g) \<Rightarrow> py_strip g | None \<Rightarrow> [],
      case re_search role_re (subject m) of Some (_, g) \<Rightarrow> py_strip g | None \<Rightarrow> [])"

section \<open>Rules\<close>

text \<open>What a rule's summary may mention.\<close>

record extraction =
  x_message :: inbound_message
  x_refs :: "string list"
  x_org :: string
  x_role :: string

record signal_rule =
  rule_words :: "string list"
  rule_category :: SignalCategory
  rule_priority :: SignalPriority
  rule_track :: Track
  rule_confidence :: real
  rule_summary :: "extraction \<Rightarrow> string"
  rule_action :: bool
  rule_description :: string

definition noise_words :: "string list" where
  "noise_words = [''unsubscribe'', ''job alert'', ''recommended jobs'', ''newsletter'', ''weekly digest'',
     ''promoted jobs'', ''promoted bids'', ''premium features'', ''sponsored'', ''automated platform notice'',
     ''system maintenance'']"

definition marketing_words :: "string list" where
  "marketing_words = [''unsubscribe'', ''newsletter'', ''weekly digest'', ''promoted jobs'', ''promoted bids'',
     ''premium features'']"

definition procurement_words :: "string list" where
  "procurement_words = [''tender'', ''procurement'', ''rfp'', ''request for proposal'', ''eoi'', ''ungm'',
     ''ted.europa'', ''contract award'', ''world bank'', ''rfp wb-'', ''sow-'']"

definition freelance_words :: "string list" where
  "freelance_words = [''freelance'', ''contract proposal'', ''consulting proposal'', ''statement of work'',
     ''discovery call'', ''contract progress'', ''deliverable accepted'', ''client feedback'', ''client response'',
     ''regarding your proposal'']"

definition plain_rule ::
  "string list \<Rightarrow> SignalCategory \<Rightarrow> SignalPriority \<Rightarrow> Track \<Rightarrow> real \<Rightarrow> string \<Rightarrow> bool \<Rightarrow> string \<Rightarrow> signal_rule" where
  "plain_rule ks cat p trk conf s act descr =
     \<lparr>rule_words = ks, rule_category = cat, rule_priority = p, rule_track = trk, rule_confidence = conf,
      rule_summary = (\<lambda>_. s), rule_action = act, rule_description = descr\<rparr>"

definition procurement_rules :: "signal_rule list" where
  "procurement_rules =
     [(plain_rule [''amendment'', ''corrigendum'', ''addendum'', ''rectification'']
        PROCUREMENT_AMENDMENT HIGH PROCUREMENT (95/100) [] True ''Review procurement amendment and revised terms'')
        \<lparr>rule_summary := (\<lambda>x. ''Procurement amendment published for tender '' @
           (case x_refs x of r # _ \<Rightarrow> r | [] \<Rightarrow> []))\<rparr>,
      plain_rule [''deadline extended'', ''deadline postponed'', ''submission deadline has been extended'', ''deadline change'']
        PROCUREMENT_DEADLINE_CHANGE URGENT PROCUREMENT (95/100) ''Procurement submission deadline modified'' True
        ''Review updated submission deadline'',
      plain_rule [''contract awarded'', ''notice of award'', ''we are pleased to award'', ''award decision'', ''intent to award'']
        AWARD_OR_WIN URGENT PROCUREMENT (98/100) ''Procurement tender / contract award notification'' True
        ''Review contract award notice and next steps'',
      plain_rule [''clarification requested'', ''request for clarification'', ''please clarify'',
          ''questions regarding your bid'', ''clarification on your proposal'']
        CLARIFICATION_REQUEST URGENT PROCUREMENT (96/100) ''Procurement clarification request requiring response'' True
        ''Prepare and submit requested tender clarifications'',
      plain_rule [''shortlisted'', ''you have been shortlisted'', ''selected for the next round'']
        SHORTLIST_OR_INVITATION HIGH PROCUREMENT (95/100) ''Tender proposal shortlisted'' True
        ''Review shortlist notice and prepare next stage documents'',
      plain_rule [''not selected for contract award'', ''not selected your proposal'',
          ''regret to inform you that your proposal was not selected'']
        PROPOSAL_REJECTION LOW PROCUREMENT (95/100) ''Tender proposal rejected'' False [],
      plain_rule [''proposal received'', ''bid submitted successfully'', ''acknowledgement of tender submission'', ''receipt of bid'']
        PROPOSAL_CONFIRMATION LOW PROCUREMENT (95/100) ''Tender / proposal submission receipt confirmed'' False []]"

text \<open>The apostrophe of \<open>let's\<close> is written as a character.\<close>

definition brief_call :: string where
  "brief_call = ''let'' @ [CHR 0x27] @ ''s have a brief call''"

definition freelance_rules :: "signal_rule list" where
  "freelance_rules =
     [plain_rule [''contract progress'', ''deliverable accepted'', ''milestone approved'', ''sow signed'']
        CONTRACT_PROGRESS HIGH FREELANCE (95/100) ''Client contract progress / milestone update'' True
        ''Review contract progress and next deliverables'',
      plain_rule [''discovery call'', ''schedule a call to discuss'', brief_call, ''introductory meeting'']
        DISCOVERY_CALL_OR_MEETING_REQUEST URGENT FREELANCE (96/100)
        ''Client requested discovery call / project discussion'' True
        ''Respond to client meeting / discovery call request'',
      plain_rule [''shortlisted'', ''you have been shortlisted'', ''selected for the next round of evaluation'']
        SHORTLIST_OR_INVITATION HIGH FREELANCE (95/100) ''Proposal shortlisted by client'' True
        ''Review shortlist notice and prepare next deliverables'',
      plain_rule [''not selected your proposal'', ''decided to move forward with another consultant'',
          ''regret to inform you that your proposal'']
        PROPOSAL_REJECTION LOW FREELANCE (95/100) ''Freelance / client proposal rejected'' False [],
      plain_rule [''client response'', ''regarding your proposal'', ''client feedback'', ''client message'',
          ''reviewed your proposal'', ''reviewed your consulting proposal'']
        CLIENT_OR_BUYER_RESPONSE HIGH FREELANCE (92/100) ''Direct client / buyer response received'' True
        ''Review client message and respond'']"

definition for_role_at :: "string \<Rightarrow> extraction \<Rightarrow> string" where
  "for_role_at s x = s @ '' for '' @ py_or (x_role x) ''role'' @ '' at '' @ py_or (x_org x) ''company''"

definition sender_of :: "extraction \<Rightarrow> string" where
  "sender_of x = py_or (sender_name (x_message x)) (sender_email (x_message x))"

definition employment_rules :: "signal_rule list" where
  "employment_rules =
     [(plain_rule [''job offer'', ''offer of employment'', ''pleased to offer you the position'', ''formal offer letter'',
          ''congratulations on your offer'']
        OFFER URGENT EMPLOYMENT (98/100) [] True ''Review job offer terms and deadline'')
        \<lparr>rule_summary := for_role_at ''Formal job offer received''\<rparr>,
      (plain_rule [''invitation to interview'', ''schedule an interview'', ''like to invite you for an interview'',
          ''would love to speak with you'', ''schedule a chat'', ''calendar invite'', ''select a time for your interview'',
          ''interview availability'', ''book a slot'', ''screening call'', ''technical interview'',
          ''reschedule our interview'', ''rescheduling your interview'', ''new time for our interview'']
        INTERVIEW_REQUEST URGENT EMPLOYMENT (98/100) [] True ''Select interview time slot or reply to scheduler'')
        \<lparr>rule_summary := (\<lambda>x. ''Interview request / scheduling from '' @ sender_of x @ '' for '' @
           py_or (x_role x) ''position'')\<rparr>,
      (plain_rule [''assessment test'', ''take-home assignment'', ''coding challenge'', ''hackerrank'', ''codility'',
          ''complete the following assessment'', ''technical assessment'']
        ASSESSMENT HIGH EMPLOYMENT (96/100) [] True ''Review and complete candidate assessment before deadline'')
        \<lparr>rule_summary := (\<lambda>x. ''Candidate assessment / test requested by '' @ py_or (x_org x) ''company'')\<rparr>,
      (plain_rule [''came across your profile'', ''impressed by your background'',
          ''reaching out regarding an opportunity'', ''would you be open to'', ''let me know if you are interested'']
        RECRUITER_OUTREACH HIGH EMPLOYMENT (92/100) [] True ''Review recruiter outreach and respond if interested'')
        \<lparr>rule_summary := (\<lambda>x. ''Direct recruiter outreach from '' @ sender_of x)\<rparr>,
      plain_rule [''please provide your updated'', ''additional information required'', ''need a copy of your'',
          ''clarify your availability'', ''please answer the following questions'', ''additional information'']
        INFORMATION_REQUEST HIGH EMPLOYMENT (90/100) ''Additional candidate information requested'' True
        ''Provide requested candidate details'',
      (plain_rule [''thank you for your interest, but'', ''decided to pursue other candidates'',
          ''not moving forward with your application'', ''decided not to proceed'', ''regret to inform you'',
          ''unfortunately, we will not be moving forward'', ''after careful consideration, we have chosen'']
        REJECTION LOW EMPLOYMENT (96/100) [] False [])
        \<lparr>rule_summary := for_role_at ''Application rejected''\<rparr>,
      (plain_rule [''thank you for applying'', ''application received'', ''we have received your application'',
          ''successfully submitted your application'', ''your application has been submitted'',
          ''confirmation of your application'', ''thanks for submitting your application'']
        APPLICATION_CONFIRMATION LOW EMPLOYMENT (97/100) [] False [])
        \<lparr>rule_summary := for_role_at ''Application confirmation received''\<rparr>]"

definition unclassified_rule :: signal_rule where
  "unclassified_rule =
     (plain_rule [] UNCLASSIFIED MEDIUM EMPLOYMENT (50/100) [] True ''Review unclassified inbound correspondence'')
       \<lparr>rule_summary := (\<lambda>x. ''Unclassified inbound message: '' @ subject (x_message x))\<rparr>"

section \<open>Classification\<close>

definition full_text :: "inbound_message \<Rightarrow> string" where
  "full_text m = py_lower (subject m) @ '' '' @ py_lower (body_text m)"

definition noise_signal :: "(string \<Rightarrow> string) \<Rightarrow> inbound_message \<Rightarrow> inbound_signal" where
  "noise_signal sha m =
     (let cat = (if py_any_in marketing_words (full_text m) then MARKETING
                 else GENERIC_NON_ACTIONABLE_PLATFORM_NOTIFICATION)
      in \<lparr>signal_id = compute_signal_id sha (message_content_hash m) cat EMPLOYMENT,
          sig_content_hash = message_content_hash m, sig_message_id = provider_message_id m,
          sig_category = cat, sig_priority = NOISE, sig_track = EMPLOYMENT, sig_confidence = 90/100,
          sig_summary = ''Marketing or automated platform notification'', sig_sender = sender_email m,
          sig_detected_at = received_at m, sig_deadline = None, extracted_references = [],
          extracted_organization = [], extracted_role_title = [], requires_founder_action = False,
          action_description = []\<rparr>)"

definition extract_all :: "inbound_message \<Rightarrow> extraction" where
  "extract_all m =
     (case extract_organization_and_role m of (org, role) \<Rightarrow>
        \<lparr>x_message = m, x_refs = extract_references (body_text m @ '' '' @ subject m), x_org = org, x_role = role\<rparr>)"

definition apply_rule :: "(string \<Rightarrow> string) \<Rightarrow> extraction \<Rightarrow> signal_rule \<Rightarrow> inbound_signal" where
  "apply_rule sha x r =
     (let m = x_message x in
      \<lparr>signal_id = compute_signal_id sha (message_content_hash m) (rule_category r) (rule_track r),
       sig_content_hash = message_content_hash m, sig_message_id = provider_message_id m,
       sig_category = rule_category r, sig_priority = rule_priority r, sig_track = rule_track r,
       sig_confidence = rule_confidence r, sig_summary = rule_summary r x, sig_sender = sender_email m,
       sig_detected_at = received_at m, sig_deadline = extract_deadline (body_text m),
       extracted_references = x_refs x, extracted_organization = x_org x, extracted_role_title = x_role x,
       requires_founder_action = rule_action r, action_description = rule_description r\<rparr>)"

text \<open>The rules in force for a text, in order; a track's rules count only when its trigger occurs.\<close>

definition rules_for :: "string \<Rightarrow> signal_rule list" where
  "rules_for t =
     (if py_any_in procurement_words t then procurement_rules else []) @
     (if py_any_in freelance_words t then freelance_rules else []) @ employment_rules"

definition classify :: "(string \<Rightarrow> string) \<Rightarrow> inbound_message \<Rightarrow> inbound_signal" where
  "classify sha m =
     (let t = full_text m in
      if py_any_in noise_words t then noise_signal sha m
      else (case find (\<lambda>r. py_any_in (rule_words r) t) (rules_for t) of
              Some r \<Rightarrow> apply_rule sha (extract_all m) r
            | None \<Rightarrow> apply_rule sha (extract_all m) unclassified_rule))"

section \<open>Nothing is made up\<close>

lemma dropWhile_sublist: "sublist (dropWhile P s) s"
  by (metis suffix_dropWhile suffix_imp_sublist)

lemma py_strip_sublist: "sublist (py_strip s) s"
proof -
  let ?t = "dropWhile py_isspace s"
  have "sublist (rev (dropWhile py_isspace (rev ?t))) (rev (rev ?t))"
    by (subst sublist_rev) (rule dropWhile_sublist)
  then show ?thesis unfolding py_strip_def
    using dropWhile_sublist [of py_isspace s] by (metis rev_rev_ident sublist_order.order_trans)
qed

lemma first_match_sublist:
  "first_match es s = Some (m, g) \<Longrightarrow> sublist m s"
  by (induction es) (auto split: option.splits dest: re_search_sublist)

lemma strip_of_match: "m = [] \<or> sublist m s \<Longrightarrow> sublist (py_strip m) s"
  using py_strip_sublist sublist_order.order_trans by (metis sublist_Nil_left)

lemma extract_references_sublist:
  assumes "r \<in> set (extract_references t)"
  shows "sublist r t"
proof -
  from assms consider m g where "(m, g) \<in> set (re_finditer token_re t)" "r = py_strip m"
    | m g where "(m, g) \<in> set (re_finditer label_re t)" "r = py_strip g"
    by (auto simp: extract_references_def)
  then show ?thesis by cases (metis re_finditer_sublist strip_of_match)+
qed

lemma extract_deadline_snippet:
  assumes "extract_deadline t = Some d"
  shows "requires_human_verification d \<and> iso_timestamp d = None \<and> (sublist (raw_snippet d) t \<or> raw_snippet d = TIME_SENSITIVE)"
  using assms
  by (auto simp: extract_deadline_def deadline_of_def split: option.splits if_splits dest: first_match_sublist)

end
