(* ===== verification/Inbox_Correlation.thy ===== *)
theory Inbox_Correlation
  imports Inbox_Classifier "HOL-Library.Multiset"
begin

text \<open>
  The correlation engine of \<open>inbox/correlation.py\<close>: a signal is linked to an opportunity by an
  exact reference, the source's identifier, an established thread, or organisation and title
  together; everything else stays unlinked or is reported as ambiguous.
\<close>

section \<open>Catalogue\<close>

text \<open>What the engine reads of an \<open>Opportunity\<close>, beyond what outbound code reads.\<close>

record listed_opportunity = opportunity +
  organization :: string
  opp_title :: string
  source_id :: string

record catalogue =
  opportunities :: "listed_opportunity list"
  outbound_records :: "outbound_action_record list"
  thread_to_action :: "string \<rightharpoonup> string"

text \<open>\<open>_action_by_opp_id\<close>: in a dict comprehension the last record of an opportunity wins.\<close>

definition action_by_opp_id :: "catalogue \<Rightarrow> string \<Rightarrow> outbound_action_record option" where
  "action_by_opp_id c oid =
     find (\<lambda>r. oa_opportunity_id r = oid \<and> oa_opportunity_id r \<noteq> []) (rev (outbound_records c))"

definition normalize_ref :: "string \<Rightarrow> string" where
  "normalize_ref s = py_upper (py_strip s)"

definition names_ref :: "string set \<Rightarrow> string \<Rightarrow> bool" where
  "names_ref refs s \<longleftrightarrow> s \<noteq> [] \<and> normalize_ref s \<in> refs"

definition matches_ref :: "string set \<Rightarrow> outbound_action_record \<Rightarrow> bool" where
  "matches_ref refs r \<longleftrightarrow>
     names_ref refs (external_reference_id r) \<or> names_ref refs (action_id r) \<or>
     (case oa_evidence r of
        None \<Rightarrow> False
      | Some e \<Rightarrow> names_ref refs (receipt_reference e) \<or> names_ref refs (application_id e))"

section \<open>Outcomes\<close>

definition link ::
  "inbound_signal \<Rightarrow> string \<Rightarrow> string option \<Rightarrow> CorrelationStatus \<Rightarrow> string list \<Rightarrow> real \<Rightarrow> string \<Rightarrow> correlation_evidence" where
  "link sg oid aid st crit conf reason =
     \<lparr>corr_signal_id = signal_id sg, corr_opportunity_id = Some oid, corr_action_id = aid, corr_status = st,
      matching_criteria = crit, corr_confidence = conf, is_authoritative = True, corr_reason = reason\<rparr>"

definition no_link ::
  "inbound_signal \<Rightarrow> CorrelationStatus \<Rightarrow> string list \<Rightarrow> string \<Rightarrow> correlation_evidence" where
  "no_link sg st crit reason =
     \<lparr>corr_signal_id = signal_id sg, corr_opportunity_id = None, corr_action_id = None, corr_status = st,
      matching_criteria = crit, corr_confidence = 0, is_authoritative = False, corr_reason = reason\<rparr>"

section \<open>References\<close>

definition by_many_references :: "catalogue \<Rightarrow> inbound_signal \<Rightarrow> correlation_evidence option" where
  "by_many_references c sg =
     (let refs = normalize_ref ` set (extracted_references sg);
          matched = filter (matches_ref refs) (outbound_records c)
      in if length matched > 1
         then Some (no_link sg AMBIGUOUS_MULTI_CANDIDATE
                (map (\<lambda>r. ''ref:'' @ py_or (external_reference_id r) (action_id r)) matched)
                (''Ambiguous: multiple distinct outbound actions ('' @ nat_str (length matched) @
                 '') matched references in message history''))
         else None)"

definition by_one_reference :: "catalogue \<Rightarrow> inbound_signal \<Rightarrow> string \<Rightarrow> correlation_evidence option" where
  "by_one_reference c sg raw =
     (let ref = normalize_ref raw;
          records = filter (matches_ref {ref}) (outbound_records c);
          listed = filter (\<lambda>o'. names_ref {ref} (source_id o')) (opportunities c)
      in case records of
           [r] \<Rightarrow> Some (link sg (oa_opportunity_id r) (Some (action_id r)) EXACT_REFERENCE_MATCH
                    [''exact_reference:'' @ raw] 1 (''Matched exact normalized reference ID '' @ quoted raw))
         | _ # _ # _ \<Rightarrow> Some (no_link sg AMBIGUOUS_MULTI_CANDIDATE
                    (map (\<lambda>r. ''action_id:'' @ action_id r) records)
                    (''Ambiguous reference match: '' @ nat_str (length records) @ '' actions share reference''))
         | [] \<Rightarrow>
             (case listed of
                [] \<Rightarrow> None
              | [o'] \<Rightarrow> Some (link sg (opp_id o') (map_option action_id (action_by_opp_id c (opp_id o')))
                    SOURCE_ID_MATCH [''source_id:'' @ source_id o'] (98/100)
                    (''Matched exact source opportunity ID '' @ quoted (source_id o')))
              | _ # _ # _ \<Rightarrow> Some (no_link sg AMBIGUOUS_MULTI_CANDIDATE
                    (map (\<lambda>o'. ''opp_id:'' @ opp_id o') listed)
                    (''Ambiguous match: '' @ nat_str (length listed) @ '' opportunities match references''))))"

definition by_reference :: "catalogue \<Rightarrow> inbound_signal \<Rightarrow> correlation_evidence option" where
  "by_reference c sg =
     (case extracted_references sg of
        [] \<Rightarrow> None
      | [raw] \<Rightarrow> by_one_reference c sg raw
      | _ # _ # _ \<Rightarrow> by_many_references c sg)"

section \<open>Threads\<close>

definition by_thread :: "catalogue \<Rightarrow> inbound_signal \<Rightarrow> inbound_message \<Rightarrow> correlation_evidence option" where
  "by_thread c sg m =
     (if thread_id m = [] then None
      else (case thread_to_action c (thread_id m) of
              None \<Rightarrow> None
            | Some aid \<Rightarrow>
                (case find (\<lambda>r. action_id r = aid) (outbound_records c) of
                   None \<Rightarrow> None
                 | Some r \<Rightarrow> Some (link sg (oa_opportunity_id r) (Some (action_id r)) THREAD_LINKED
                       [''persisted_thread_id:'' @ thread_id m] (98/100)
                       (''Matched established provider thread ID '' @ quoted (thread_id m))))))"

section \<open>Organisation and title\<close>

text \<open>\<open>re.split\<close> on runs of separators, without the empty pieces.\<close>

fun split_runs :: "(char \<Rightarrow> bool) \<Rightarrow> string \<Rightarrow> string \<Rightarrow> string list" where
  "split_runs sep acc [] = (if acc = [] then [] else [rev acc])"
| "split_runs sep acc (c # cs) =
     (if sep c then (if acc = [] then split_runs sep [] cs else rev acc # split_runs sep [] cs)
      else split_runs sep (c # acc) cs)"

definition title_tokens :: "string \<Rightarrow> string list" where
  "title_tokens t =
     map py_lower (filter (\<lambda>w. length w > 3)
       (split_runs (\<lambda>c. py_isspace c \<or> c \<in> {CHR ''-'', CHR ''_'', CHR ''/'', CHR '',''}) [] t))"

definition body_head :: "inbound_message \<Rightarrow> string" where
  "body_head m = py_lower (take 500 (body_text m))"

definition org_match :: "inbound_message \<Rightarrow> listed_opportunity \<Rightarrow> bool" where
  "org_match m o' \<longleftrightarrow>
     organization o' \<noteq> [] \<and>
     (py_in (py_lower (organization o')) (py_lower (subject m)) \<or> py_in (py_lower (organization o')) (body_head m))"

definition title_match :: "inbound_message \<Rightarrow> listed_opportunity \<Rightarrow> bool" where
  "title_match m o' \<longleftrightarrow>
     (let t = py_lower (subject m) @ '' '' @ body_head m; toks = title_tokens (opp_title o') in
      py_in (py_lower (opp_title o')) t \<or> (toks \<noteq> [] \<and> list_all (\<lambda>w. py_in w t) toks))"

definition by_fields :: "catalogue \<Rightarrow> inbound_signal \<Rightarrow> inbound_message \<Rightarrow> correlation_evidence" where
  "by_fields c sg m =
     (let both = filter (\<lambda>o'. org_match m o' \<and> title_match m o') (opportunities c);
          title_only = filter (\<lambda>o'. \<not> org_match m o' \<and> title_match m o') (opportunities c)
      in case both of
           [o'] \<Rightarrow> link sg (opp_id o') (map_option action_id (action_by_opp_id c (opp_id o')))
                    STRONG_MULTI_FIELD_MATCH
                    [''organization:'' @ organization o', ''title:'' @ opp_title o'] (92/100)
                    (''Unique deterministic match on org '' @ quoted (organization o') @ '' and title '' @
                     quoted (opp_title o'))
         | _ # _ # _ \<Rightarrow> no_link sg AMBIGUOUS_MULTI_CANDIDATE (map (\<lambda>o'. ''opp_id:'' @ opp_id o') both)
                    (''Ambiguous: '' @ nat_str (length both) @
                     '' distinct opportunities match organization and role tokens'')
         | [] \<Rightarrow>
             if length title_only > 1
             then no_link sg AMBIGUOUS_MULTI_CANDIDATE (map (\<lambda>o'. ''opp_id:'' @ opp_id o') title_only)
                    (''Ambiguous: '' @ nat_str (length title_only) @
                     '' distinct opportunities share identical/near-identical title without explicit org/reference'')
             else no_link sg UNLINKED [] ''No deterministic reference or unique multi-field match found'')"

definition correlate :: "catalogue \<Rightarrow> inbound_signal \<Rightarrow> inbound_message \<Rightarrow> correlation_evidence" where
  "correlate c sg m =
     (case by_reference c sg of
        Some e \<Rightarrow> e
      | None \<Rightarrow>
          (case by_thread c sg m of
             Some e \<Rightarrow> e
           | None \<Rightarrow> by_fields c sg m))"

section \<open>When a link is made\<close>

text \<open>The ways in which a signal may be linked to the opportunity \<open>oid\<close>: one candidate each.\<close>

definition linked_by_reference :: "catalogue \<Rightarrow> inbound_signal \<Rightarrow> string \<Rightarrow> bool" where
  "linked_by_reference c sg oid \<longleftrightarrow>
     (\<exists>raw r. extracted_references sg = [raw] \<and>
        filter (matches_ref {normalize_ref raw}) (outbound_records c) = [r] \<and> oa_opportunity_id r = oid)"

definition linked_by_source_id :: "catalogue \<Rightarrow> inbound_signal \<Rightarrow> string \<Rightarrow> bool" where
  "linked_by_source_id c sg oid \<longleftrightarrow>
     (\<exists>raw o'. extracted_references sg = [raw] \<and>
        filter (matches_ref {normalize_ref raw}) (outbound_records c) = [] \<and>
        filter (\<lambda>o'. names_ref {normalize_ref raw} (source_id o')) (opportunities c) = [o'] \<and> opp_id o' = oid)"

definition linked_by_thread :: "catalogue \<Rightarrow> inbound_message \<Rightarrow> string \<Rightarrow> bool" where
  "linked_by_thread c m oid \<longleftrightarrow>
     (\<exists>aid r. thread_id m \<noteq> [] \<and> thread_to_action c (thread_id m) = Some aid \<and>
        find (\<lambda>r. action_id r = aid) (outbound_records c) = Some r \<and> oa_opportunity_id r = oid)"

definition linked_by_fields :: "catalogue \<Rightarrow> inbound_message \<Rightarrow> string \<Rightarrow> bool" where
  "linked_by_fields c m oid \<longleftrightarrow>
     (\<exists>o'. filter (\<lambda>o'. org_match m o' \<and> title_match m o') (opportunities c) = [o'] \<and> opp_id o' = oid)"

lemma link_simps [simp]:
  "is_authoritative (link sg oid aid st crit conf reason)"
  "corr_opportunity_id (link sg oid aid st crit conf reason) = Some oid"
  "corr_signal_id (link sg oid aid st crit conf reason) = signal_id sg"
  "\<not> is_authoritative (no_link sg st crit reason)"
  "corr_opportunity_id (no_link sg st crit reason) = None"
  "corr_action_id (no_link sg st crit reason) = None"
  "corr_signal_id (no_link sg st crit reason) = signal_id sg"
  by (simp_all add: link_def no_link_def)

lemma by_reference_cases:
  assumes "by_reference c sg = Some e"
  shows "(is_authoritative e \<longleftrightarrow> corr_opportunity_id e \<noteq> None) \<and>
    (\<forall>oid. corr_opportunity_id e = Some oid \<longrightarrow>
       linked_by_reference c sg oid \<or> linked_by_source_id c sg oid)"
  using assms
  by (auto simp: by_reference_def by_one_reference_def by_many_references_def Let_def
      linked_by_reference_def linked_by_source_id_def split: list.split_asm if_split_asm)

lemma by_thread_cases:
  assumes "by_thread c sg m = Some e"
  shows "is_authoritative e \<and> (\<exists>oid. corr_opportunity_id e = Some oid \<and> linked_by_thread c m oid)"
  using assms
  by (auto simp: by_thread_def linked_by_thread_def split: option.split_asm if_split_asm)

lemma by_fields_cases:
  "(is_authoritative (by_fields c sg m) \<longleftrightarrow> corr_opportunity_id (by_fields c sg m) \<noteq> None) \<and>
   (\<forall>oid. corr_opportunity_id (by_fields c sg m) = Some oid \<longrightarrow> linked_by_fields c m oid)"
  by (auto simp: by_fields_def linked_by_fields_def Let_def split: list.split)

lemma correlate_link:
  "(is_authoritative (correlate c sg m) \<longleftrightarrow> corr_opportunity_id (correlate c sg m) \<noteq> None) \<and>
   (corr_opportunity_id (correlate c sg m) = Some oid \<longrightarrow>
      linked_by_reference c sg oid \<or> linked_by_source_id c sg oid \<or> linked_by_thread c m oid \<or>
      linked_by_fields c m oid)"
  unfolding correlate_def
  using by_reference_cases [of c sg] by_thread_cases [of c sg m] by_fields_cases [of c sg m]
  by (auto split: option.split)

section \<open>Independence of the catalogue's order\<close>

lemma filter_mset_cases:
  assumes "mset xs = mset ys"
  shows "length (filter P xs) = length (filter P ys)" "filter P xs = [x] \<Longrightarrow> filter P ys = [x]"
proof -
  have m: "mset (filter P xs) = mset (filter P ys)" using assms by simp
  then show l: "length (filter P xs) = length (filter P ys)" by (metis size_mset)
  show "filter P ys = [x]" if "filter P xs = [x]"
    using m [unfolded that] mset_single_iff [of "filter P ys" x] by simp
qed

lemma find_unique_mset:
  assumes "mset xs = mset ys" "distinct (map k xs)"
  shows "find (\<lambda>x. k x = v) xs = find (\<lambda>x. k x = v) ys"
proof -
  have d: "distinct (map k ys)" using assms by (metis mset_map mset_eq_imp_distinct_iff)
  have *: "find (\<lambda>x. k x = v) zs = Some x \<longleftrightarrow> x \<in> set zs \<and> k x = v" if "distinct (map k zs)" for zs x
    using that by (induction zs) (auto simp: image_iff)
  have "set xs = set ys" using assms(1) by (metis set_mset_mset)
  with * [OF assms(2)] * [OF d] show ?thesis
    by (metis not_None_eq)
qed

text \<open>The shape of a filtered list: empty, one element, or more.\<close>

lemma filter_shape:
  assumes "mset xs = mset ys"
  shows "(case filter P xs of [] \<Rightarrow> a | [x] \<Rightarrow> f x | _ # _ # _ \<Rightarrow> b) =
    (case filter P ys of [] \<Rightarrow> a | [x] \<Rightarrow> f x | _ # _ # _ \<Rightarrow> b)"
proof (cases "filter P xs")
  case Nil
  then have "filter P ys = []" using filter_mset_cases(1) [OF assms, of P] by simp
  with Nil show ?thesis by simp
next
  case (Cons x rest)
  show ?thesis
  proof (cases rest)
    case Nil
    with Cons filter_mset_cases(2) [OF assms, of P x] show ?thesis by simp
  next
    case (Cons y zs)
    with \<open>filter P xs = x # rest\<close> filter_mset_cases(1) [OF assms, of P]
    obtain u v ws where "filter P ys = u # v # ws" by (metis length_Suc_conv)
    with Cons \<open>filter P xs = x # rest\<close> show ?thesis by simp
  qed
qed

definition same_catalogue :: "catalogue \<Rightarrow> catalogue \<Rightarrow> bool" where
  "same_catalogue c d \<longleftrightarrow>
     mset (opportunities c) = mset (opportunities d) \<and>
     mset (outbound_records c) = mset (outbound_records d) \<and> thread_to_action c = thread_to_action d"

definition linked_to :: "correlation_evidence option \<Rightarrow> string option option" where
  "linked_to e = map_option corr_opportunity_id e"

lemma by_one_reference_shape:
  "linked_to (by_one_reference c sg raw) =
     (case filter (matches_ref {normalize_ref raw}) (outbound_records c) of
        [] \<Rightarrow> (case filter (\<lambda>o'. names_ref {normalize_ref raw} (source_id o')) (opportunities c) of
                 [] \<Rightarrow> None | [o'] \<Rightarrow> Some (Some (opp_id o')) | _ # _ # _ \<Rightarrow> Some None)
      | [r] \<Rightarrow> Some (Some (oa_opportunity_id r))
      | _ # _ # _ \<Rightarrow> Some None)"
  by (simp add: by_one_reference_def linked_to_def Let_def split: list.split)

lemma by_reference_order:
  assumes "same_catalogue c d"
  shows "linked_to (by_reference c sg) = linked_to (by_reference d sg)"
proof -
  have m: "mset (opportunities c) = mset (opportunities d)" "mset (outbound_records c) = mset (outbound_records d)"
    using assms by (simp_all add: same_catalogue_def)
  have one: "linked_to (by_one_reference c sg raw) = linked_to (by_one_reference d sg raw)" for raw
    unfolding by_one_reference_shape filter_shape [OF m(1)] filter_shape [OF m(2)] ..
  have many: "linked_to (by_many_references c sg) = linked_to (by_many_references d sg)"
    using filter_mset_cases(1) [OF m(2)] by (simp add: by_many_references_def Let_def linked_to_def)
  show ?thesis using one many by (auto simp: by_reference_def split: list.split)
qed

lemma by_thread_order:
  assumes "same_catalogue c d" "distinct (map action_id (outbound_records c))"
  shows "linked_to (by_thread c sg m) = linked_to (by_thread d sg m)"
  using assms find_unique_mset [of "outbound_records c" "outbound_records d" action_id]
  by (simp add: by_thread_def same_catalogue_def linked_to_def split: option.split)

lemma by_fields_shape:
  "corr_opportunity_id (by_fields c sg m) =
     (case filter (\<lambda>o'. org_match m o' \<and> title_match m o') (opportunities c) of
        [] \<Rightarrow> None | [o'] \<Rightarrow> Some (opp_id o') | _ # _ # _ \<Rightarrow> None)"
  by (simp add: by_fields_def Let_def split: list.split)

lemma by_fields_order:
  assumes "same_catalogue c d"
  shows "corr_opportunity_id (by_fields c sg m) = corr_opportunity_id (by_fields d sg m)"
  unfolding by_fields_shape using assms by (intro filter_shape) (simp add: same_catalogue_def)

lemma correlate_linked:
  "corr_opportunity_id (correlate c sg m) =
     (case linked_to (by_reference c sg) of
        Some x \<Rightarrow> x
      | None \<Rightarrow> (case linked_to (by_thread c sg m) of Some x \<Rightarrow> x | None \<Rightarrow> corr_opportunity_id (by_fields c sg m)))"
  by (simp add: correlate_def linked_to_def split: option.split)

lemma correlate_order:
  assumes "same_catalogue c d" "distinct (map action_id (outbound_records c))"
  shows "corr_opportunity_id (correlate c sg m) = corr_opportunity_id (correlate d sg m)"
  unfolding correlate_linked
  by (simp only: by_reference_order [OF assms(1)] by_thread_order [OF assms] by_fields_order [OF assms(1)])

end
