(* ===== verification/Inbox_Pipeline.thy ===== *)
theory Inbox_Pipeline
  imports Inbox_Correlation "HOL-Library.Product_Lexorder"
begin

text \<open>
  Stages and replay of \<open>inbox/pipeline.py\<close>: the stage a signal leads to, the state derived from an
  event log, and the event recorded for a signal.
\<close>

section \<open>Stages\<close>

definition determine_next_stage :: "OpportunityStage \<Rightarrow> SignalCategory \<Rightarrow> OpportunityStage" where
  "determine_next_stage st cat =
     (if cat \<in> {OFFER, AWARD_OR_WIN} then (if cat = OFFER then OFFER_RECEIVED else AWARDED)
      else if cat \<in> {INTERVIEW_REQUEST, DISCOVERY_CALL_OR_MEETING_REQUEST, SHORTLIST_OR_INVITATION} then INTERVIEWING
      else if cat \<in> {ASSESSMENT, CLARIFICATION_REQUEST} then ASSESSMENT_SCHEDULED
      else if cat \<in> {RECRUITER_OUTREACH, CLIENT_OR_BUYER_RESPONSE, INFORMATION_REQUEST} then IN_REVIEW
      else if cat \<in> {APPLICATION_CONFIRMATION, PROPOSAL_CONFIRMATION}
      then (if st \<in> {DISCOVERED, NO_EVENTS} then APPLIED else st)
      else if cat \<in> {REJECTION, PROPOSAL_REJECTION} then REJECTED
      else st)"

section \<open>Replay\<close>

definition event_key :: "pipeline_event \<Rightarrow> string \<times> string \<times> string" where
  "event_key e = (occurred_at e, recorded_at e, event_id e)"

definition needs_action :: "SignalCategory \<Rightarrow> bool" where
  "needs_action cat \<longleftrightarrow>
     cat \<in> {INTERVIEW_REQUEST, ASSESSMENT, DISCOVERY_CALL_OR_MEETING_REQUEST, CLARIFICATION_REQUEST,
            OFFER, AWARD_OR_WIN}"

definition empty_state :: "string \<Rightarrow> Track \<Rightarrow> OpportunityStage \<Rightarrow> derived_state" where
  "empty_state oid trk st =
     \<lparr>ds_opportunity_id = oid, ds_track = trk, current_stage = st, latest_event_id = [],
      last_signal_category = None, last_signal_at = [], active_action_required = False,
      action_deadline = None, action_summary = [], event_history_count = 0,
      reconciliation_required = False, reconciliation_reason = []\<rparr>"

text \<open>One turn of the loop over the sorted events.\<close>

definition replay_step :: "derived_state \<Rightarrow> pipeline_event \<Rightarrow> derived_state" where
  "replay_step s e =
     (let s' = s\<lparr>current_stage := determine_next_stage (current_stage s) (trigger_category e),
                 latest_event_id := event_id e, last_signal_category := Some (trigger_category e),
                 last_signal_at := occurred_at e\<rparr>
      in if needs_action (trigger_category e)
         then s'\<lparr>active_action_required := True, action_summary := pe_notes e\<rparr> else s')"

definition replay_events :: "string \<Rightarrow> Track \<Rightarrow> pipeline_event list \<Rightarrow> OpportunityStage \<Rightarrow> derived_state" where
  "replay_events oid trk evs st =
     (if evs = [] then empty_state oid trk st
      else (fold (\<lambda>e s. replay_step s e) (sort_key event_key evs) (empty_state oid trk st))
             \<lparr>event_history_count := length evs\<rparr>)"

section \<open>Recording\<close>

definition compute_event_id :: "(string \<Rightarrow> string) \<Rightarrow> string \<Rightarrow> string \<Rightarrow> string" where
  "compute_event_id sha sid oid = ''ev-pipe-'' @ take 16 (sha (sid @ '':'' @ oid))"

text \<open>The event for a signal; \<open>cur\<close> is the state derived from the events stored so far.\<close>

definition signal_event ::
  "(string \<Rightarrow> string) \<Rightarrow> inbound_signal \<Rightarrow> string \<Rightarrow> Track \<Rightarrow> derived_state \<Rightarrow> pipeline_event" where
  "signal_event sha sg oid trk cur =
     (let prev = (if current_stage cur \<noteq> NO_EVENTS then current_stage cur else APPLIED)
      in \<lparr>event_id = compute_event_id sha (signal_id sg) oid, pe_opportunity_id = oid,
          pe_signal_id = signal_id sg, previous_stage = prev,
          new_stage = determine_next_stage prev (sig_category sg), pe_track = trk,
          trigger_category = sig_category sg, pe_content_hash = sig_content_hash sg,
          occurred_at = sig_detected_at sg, recorded_at = sig_detected_at sg,
          pe_actor = ''system_inbound_engine'', pe_notes = sig_summary sg\<rparr>)"

section \<open>Replay depends on the set of events only\<close>

lemma event_key_inj: "distinct (map event_id evs) \<Longrightarrow> inj_on event_key (set evs)"
  by (auto simp: event_key_def distinct_map inj_on_def)

lemma replay_mset:
  assumes "mset xs = mset ys" "distinct (map event_id xs)"
  shows "replay_events oid trk xs st = replay_events oid trk ys st"
proof -
  have "sort_key event_key xs = sort_key event_key ys"
    using sort_key_eq_sort_key [OF assms(1) event_key_inj [OF assms(2)]] .
  moreover have "length xs = length ys" using assms(1) by (metis size_mset)
  moreover have "xs = [] \<longleftrightarrow> ys = []" using assms(1) by auto
  ultimately show ?thesis by (simp add: replay_events_def)
qed

lemma insort_key_snoc: "k x \<le> k e \<Longrightarrow> insort_key k x (ys @ [e]) = insort_key k x ys @ [e]"
  by (induction ys) auto

lemma sort_key_snoc:
  assumes "\<forall>x\<in>set xs. k x \<le> k e"
  shows "sort_key k (xs @ [e]) = sort_key k xs @ [e]"
  using assms by (induction xs) (simp_all add: insort_key_snoc)

lemma replay_snoc:
  assumes "\<forall>x\<in>set evs. event_key x \<le> event_key e"
  shows "current_stage (replay_events oid trk (evs @ [e]) st) =
    determine_next_stage (current_stage (replay_events oid trk evs st)) (trigger_category e)"
  using sort_key_snoc [OF assms]
  by (simp add: replay_events_def replay_step_def Let_def empty_state_def)

end
