(* ===== verification/Inbox_Cycle.thy ===== *)
theory Inbox_Cycle
  imports Inbox_Pipeline
begin

text \<open>
  The processing cycle of the inbox over any store: notifications (\<open>inbox/notifications.py\<close>),
  ingestion (\<open>inbox/ingestion.py\<close>), the event recorder of \<open>inbox/pipeline.py\<close> and the orchestrator
  (\<open>inbox/orchestrator.py\<close>). The store is a record of the operations they call; the two stores of
  the repository are instances.
\<close>

section \<open>Interface of a store\<close>

record reconciliation =
  rc_id :: string
  rc_action :: string
  rc_opportunity :: string
  rc_signal :: string
  rc_hash :: string
  rc_reason :: string
  rc_created :: string

record 's inbox_store =
  st_store_evidence :: "inbound_message \<Rightarrow> 's \<Rightarrow> bool \<times> 's"
  st_is_processed :: "string \<Rightarrow> 's \<Rightarrow> bool"
  st_mark_processed :: "string \<Rightarrow> string \<Rightarrow> 's \<Rightarrow> unit result \<times> 's"
  st_store_event :: "pipeline_event \<Rightarrow> 's \<Rightarrow> bool \<times> 's"
  st_events_for :: "string \<Rightarrow> 's \<Rightarrow> pipeline_event list result"
  st_store_notification :: "founder_notification \<Rightarrow> 's \<Rightarrow> bool \<times> 's"
  st_record_reconciliation :: "reconciliation \<Rightarrow> 's \<Rightarrow> bool \<times> 's"
  st_save_checkpoint :: "string \<Rightarrow> string \<Rightarrow> string \<Rightarrow> 's \<Rightarrow> unit result \<times> 's"
  st_get_checkpoint :: "string \<Rightarrow> 's \<Rightarrow> string option"

text \<open>Workspace, candidate and catalogue the orchestrator was built with, and the hash.\<close>

record orchestrator =
  o_sha :: "string \<Rightarrow> string"
  o_catalogue :: catalogue
  o_workspace :: string
  o_candidate :: string

section \<open>Notifications\<close>

definition compute_notification_key :: "(string \<Rightarrow> string) \<Rightarrow> string \<Rightarrow> string \<Rightarrow> string \<Rightarrow> string \<Rightarrow> string" where
  "compute_notification_key sha ws cand sid cat = sha (ws @ '':'' @ cand @ '':'' @ sid @ '':'' @ cat)"

definition compute_notification_id :: "string \<Rightarrow> string" where
  "compute_notification_id key = ''notif-'' @ take 16 key"

definition make_notification :: "orchestrator \<Rightarrow> inbound_signal \<Rightarrow> correlation_evidence \<Rightarrow> founder_notification option" where
  "make_notification o' sg corr =
     (if sig_priority sg \<in> {LOW, NOISE} \<and> \<not> requires_founder_action sg then None
      else
        (let key = compute_notification_key (o_sha o') (o_workspace o') (o_candidate o') (signal_id sg)
                     (category_value (sig_category sg))
         in Some \<lparr>notification_id = compute_notification_id key, notification_key = key,
              fn_opportunity_id = (if is_authoritative corr then corr_opportunity_id corr else None),
              fn_signal_id = signal_id sg, fn_priority = sig_priority sg, fn_category = sig_category sg,
              fn_title = ''['' @ py_upper (priority_value (sig_priority sg)) @ ''] '' @
                py_title (py_replace (CHR ''_'') (CHR '' '') (category_value (sig_category sg))),
              fn_message = sig_summary sg, action_required = requires_founder_action sg,
              fn_deadline = map_option raw_snippet (sig_deadline sg), fn_created_at = sig_detected_at sg,
              acknowledged = False, acknowledged_at = None\<rparr>))"

definition process_signal ::
  "'s inbox_store \<Rightarrow> orchestrator \<Rightarrow> inbound_signal \<Rightarrow> correlation_evidence \<Rightarrow> 's \<Rightarrow> founder_notification option \<times> 's" where
  "process_signal st o' sg corr s =
     (case make_notification o' sg corr of
        None \<Rightarrow> (None, s)
      | Some n \<Rightarrow> (case st_store_notification st n s of (b, s') \<Rightarrow> (if b then Some n else None, s')))"

section \<open>Events\<close>

text \<open>The opportunity a correlation authorises to write to.\<close>

definition link_target :: "correlation_evidence \<Rightarrow> string option" where
  "link_target corr =
     (case corr_opportunity_id corr of
        Some oid \<Rightarrow> if is_authoritative corr \<and> oid \<noteq> [] then Some oid else None
      | None \<Rightarrow> None)"

definition record_signal_event ::
  "'s inbox_store \<Rightarrow> (string \<Rightarrow> string) \<Rightarrow> inbound_signal \<Rightarrow> correlation_evidence \<Rightarrow> Track \<Rightarrow> 's
     \<Rightarrow> pipeline_event option result \<times> 's" where
  "record_signal_event st sha sg corr trk s =
     (case link_target corr of
        None \<Rightarrow> (Inr None, s)
      | Some oid \<Rightarrow>
          (case st_events_for st oid s of
             Inl e \<Rightarrow> (Inl e, s)
           | Inr evs \<Rightarrow>
               (let ev = signal_event sha sg oid trk (replay_events oid trk evs NO_EVENTS)
                in case st_store_event st ev s of (b, s') \<Rightarrow> (Inr (if b then Some ev else None), s'))))"

section \<open>Ingestion\<close>

fun poll_loop :: "'s inbox_store \<Rightarrow> inbound_message list \<Rightarrow> 's \<Rightarrow> inbound_message list \<times> 's" where
  "poll_loop st [] s = ([], s)"
| "poll_loop st (m # ms) s =
     (case st_store_evidence st m s of (_, s1) \<Rightarrow>
        (case poll_loop st ms s1 of (rest, s2) \<Rightarrow>
           (if st_is_processed st (message_content_hash m) s1 then rest else m # rest, s2)))"

type_synonym transport = "string option \<Rightarrow> nat \<Rightarrow> (inbound_message list \<times> string) result"

definition poll_new_messages ::
  "'s inbox_store \<Rightarrow> transport \<Rightarrow> string option \<Rightarrow> nat \<Rightarrow> 's \<Rightarrow> (inbound_message list \<times> string) result \<times> 's" where
  "poll_new_messages st fetch cursor limit s =
     (case fetch cursor limit of
        Inl e \<Rightarrow> (Inl e, s)
      | Inr (raw, next_cursor) \<Rightarrow> (case poll_loop st raw s of (ms, s') \<Rightarrow> (Inr (ms, next_cursor), s')))"

text \<open>\<open>MockMailTransport.fetch_messages\<close>: a cursor is the index of the next message.\<close>

definition mock_fetch :: "bool \<Rightarrow> inbound_message list \<Rightarrow> transport" where
  "mock_fetch failing msgs cursor limit =
     (if failing then Inl (ConnectionError ''Transient network failure during mail fetch'')
      else
        (let start = (case cursor of
                        Some c \<Rightarrow> if c \<noteq> [] \<and> list_all py_isdigit c then digits_value c else 0
                      | None \<Rightarrow> 0);
             stop = min (start + limit) (length msgs)
         in Inr (take (stop - start) (drop start msgs), nat_str stop)))"

section \<open>One cycle\<close>

record cycle_result =
  messages_ingested :: nat
  signals_detected :: nat
  events_recorded :: nat
  notifications_emitted :: nat
  reconciliations_created :: nat
  cursor_checkpoint :: string

definition CONFIRMATIONS :: "SignalCategory set" where
  "CONFIRMATIONS = {APPLICATION_CONFIRMATION, PROPOSAL_CONFIRMATION}"

text \<open>A confirmation that arrives for an action of unknown outcome asks for reconciliation.\<close>

definition reconciliation_for ::
  "orchestrator \<Rightarrow> inbound_message \<Rightarrow> inbound_signal \<Rightarrow> correlation_evidence \<Rightarrow> reconciliation option" where
  "reconciliation_for o' m sg corr =
     (case link_target corr of
        None \<Rightarrow> None
      | Some oid \<Rightarrow>
          (case find (\<lambda>r. oa_opportunity_id r = oid) (outbound_records (o_catalogue o')) of
             None \<Rightarrow> None
           | Some act \<Rightarrow>
               if action_status act = UNKNOWN_OUTCOME \<and> sig_category sg \<in> CONFIRMATIONS
               then Some \<lparr>rc_id = ''recon-'' @ take 16 (o_sha o' (action_id act @ '':'' @ signal_id sg)),
                          rc_action = action_id act, rc_opportunity = oid, rc_signal = signal_id sg,
                          rc_hash = message_content_hash m,
                          rc_reason = ''Inbound confirmation received for action in UNKNOWN_OUTCOME state; founder reconciliation required'',
                          rc_created = sig_detected_at sg\<rparr>
               else None))"

text \<open>The body of the loop for one message, with the counters it returns; \<open>now\<close> is the clock.\<close>

definition process_message ::
  "'s inbox_store \<Rightarrow> orchestrator \<Rightarrow> string \<Rightarrow> inbound_message \<Rightarrow> cycle_result \<Rightarrow> 's \<Rightarrow> cycle_result result \<times> 's" where
  "process_message st o' now m res s =
     (let sg = classify (o_sha o') m; corr = correlate (o_catalogue o') sg m;
          rc = reconciliation_for o' m sg corr;
          s1 = (case rc of Some r \<Rightarrow> snd (st_record_reconciliation st r s) | None \<Rightarrow> s)
      in case record_signal_event st (o_sha o') sg corr (sig_track sg) s1 of
           (Inl e, s2) \<Rightarrow> (Inl e, s2)
         | (Inr ev, s2) \<Rightarrow>
             (case process_signal st o' sg corr s2 of (n, s3) \<Rightarrow>
                (case st_mark_processed st (message_content_hash m) now s3 of
                   (Inl e, s4) \<Rightarrow> (Inl e, s4)
                 | (Inr _, s4) \<Rightarrow>
                     (Inr (res\<lparr>signals_detected := signals_detected res + 1,
                          events_recorded := events_recorded res + (if ev = None then 0 else 1),
                          notifications_emitted := notifications_emitted res + (if n = None then 0 else 1),
                          reconciliations_created := reconciliations_created res + (if rc = None then 0 else 1)\<rparr>), s4))))"

text \<open>\<open>hook\<close> is the exception the injected crash hook raises after a message, if it does.\<close>

fun process_batch ::
  "'s inbox_store \<Rightarrow> orchestrator \<Rightarrow> (nat \<Rightarrow> string) \<Rightarrow> (nat \<Rightarrow> py_exn option) \<Rightarrow> nat \<Rightarrow> inbound_message list
     \<Rightarrow> cycle_result \<Rightarrow> 's \<Rightarrow> cycle_result result \<times> 's" where
  "process_batch st o' clock hook i [] res s = (Inr res, s)"
| "process_batch st o' clock hook i (m # ms) res s =
     (case process_message st o' (clock i) m res s of
        (Inl e, s1) \<Rightarrow> (Inl e, s1)
      | (Inr res1, s1) \<Rightarrow>
          (case hook i of
             Some e \<Rightarrow> (Inl e, s1)
           | None \<Rightarrow> process_batch st o' clock hook (Suc i) ms res1 s1))"

definition checkpoint_key :: "orchestrator \<Rightarrow> string" where
  "checkpoint_key o' = ''cursor:'' @ o_workspace o' @ '':'' @ o_candidate o'"

definition get_checkpoint_cursor :: "'s inbox_store \<Rightarrow> orchestrator \<Rightarrow> 's \<Rightarrow> string" where
  "get_checkpoint_cursor st o' s =
     (case st_get_checkpoint st (checkpoint_key o') s of Some c \<Rightarrow> c | None \<Rightarrow> ''0'')"

definition run_cycle ::
  "'s inbox_store \<Rightarrow> orchestrator \<Rightarrow> transport \<Rightarrow> (nat \<Rightarrow> string) \<Rightarrow> (nat \<Rightarrow> py_exn option) \<Rightarrow> nat \<Rightarrow> 's
     \<Rightarrow> cycle_result result \<times> 's" where
  "run_cycle st o' fetch clock hook limit s =
     (case poll_new_messages st fetch (Some (get_checkpoint_cursor st o' s)) limit s of
        (Inl e, s1) \<Rightarrow> (Inl e, s1)
      | (Inr (ms, next_cursor), s1) \<Rightarrow>
          (case process_batch st o' clock hook 1 ms
                  \<lparr>messages_ingested = length ms, signals_detected = 0, events_recorded = 0,
                   notifications_emitted = 0, reconciliations_created = 0, cursor_checkpoint = next_cursor\<rparr> s1 of
             (Inl e, s2) \<Rightarrow> (Inl e, s2)
           | (Inr res, s2) \<Rightarrow>
               (case st_save_checkpoint st (checkpoint_key o') next_cursor (clock 0) s2 of
                  (Inl e, s3) \<Rightarrow> (Inl e, s3)
                | (Inr _, s3) \<Rightarrow> (Inr res, s3))))"

definition opportunity_state :: "'s inbox_store \<Rightarrow> string \<Rightarrow> Track \<Rightarrow> 's \<Rightarrow> derived_state result" where
  "opportunity_state st oid trk s = bind (st_events_for st oid s) (\<lambda>evs. Inr (replay_events oid trk evs NO_EVENTS))"

end
