(* ===== verification/Inbox_Contract.thy ===== *)
theory Inbox_Contract
  imports Inbox_Cycle
begin

text \<open>
  What a store promises the inbox, as a locale over an abstract view of the store: sets of stored
  and processed messages and append-only lists keyed for idempotence. The abstract cycle is the
  specification of the orchestrator; every store that keeps the contract refines it, and crash
  safety is proved once, on the specification.
\<close>

section \<open>Abstract view\<close>

record inbox_view =
  v_stored :: "string set"
  v_processed :: "string set"
  v_events :: "pipeline_event list"
  v_notes :: "founder_notification list"
  v_recons :: "reconciliation list"
  v_cursors :: "string \<rightharpoonup> string"

text \<open>\<open>nt\<close> is what a store makes of a time text when it gives it back.\<close>

definition norm_event :: "(string \<Rightarrow> string) \<Rightarrow> pipeline_event \<Rightarrow> pipeline_event" where
  "norm_event nt e = e\<lparr>occurred_at := nt (occurred_at e), recorded_at := nt (recorded_at e)\<rparr>"

definition norm_note :: "(string \<Rightarrow> string) \<Rightarrow> founder_notification \<Rightarrow> founder_notification" where
  "norm_note nt n = n\<lparr>fn_created_at := nt (fn_created_at n)\<rparr>"

definition norm_recon :: "(string \<Rightarrow> string) \<Rightarrow> reconciliation \<Rightarrow> reconciliation" where
  "norm_recon nt r = r\<lparr>rc_created := nt (rc_created r)\<rparr>"

definition event_clash :: "pipeline_event \<Rightarrow> pipeline_event list \<Rightarrow> bool" where
  "event_clash e es \<longleftrightarrow>
     (\<exists>x\<in>set es. event_id x = event_id e \<or>
        pe_signal_id x = pe_signal_id e \<and> pe_opportunity_id x = pe_opportunity_id e)"

definition a_store :: "inbound_message \<Rightarrow> inbox_view \<Rightarrow> inbox_view" where
  "a_store m v = v\<lparr>v_stored := insert (message_content_hash m) (v_stored v)\<rparr>"

definition a_event :: "(string \<Rightarrow> string) \<Rightarrow> pipeline_event \<Rightarrow> inbox_view \<Rightarrow> inbox_view" where
  "a_event nt e v = (if event_clash e (v_events v) then v else v\<lparr>v_events := v_events v @ [norm_event nt e]\<rparr>)"

definition a_note :: "(string \<Rightarrow> string) \<Rightarrow> founder_notification \<Rightarrow> inbox_view \<Rightarrow> inbox_view" where
  "a_note nt n v =
     (if notification_key n \<in> notification_key ` set (v_notes v) then v
      else v\<lparr>v_notes := v_notes v @ [norm_note nt n]\<rparr>)"

definition a_recon :: "(string \<Rightarrow> string) \<Rightarrow> reconciliation \<Rightarrow> inbox_view \<Rightarrow> inbox_view" where
  "a_recon nt r v =
     (if rc_id r \<in> rc_id ` set (v_recons v) then v else v\<lparr>v_recons := v_recons v @ [norm_recon nt r]\<rparr>)"

definition a_mark :: "string \<Rightarrow> inbox_view \<Rightarrow> inbox_view" where
  "a_mark h v = (if h \<in> v_stored v then v\<lparr>v_processed := insert h (v_processed v)\<rparr> else v)"

definition a_checkpoint :: "string \<Rightarrow> string \<Rightarrow> inbox_view \<Rightarrow> inbox_view" where
  "a_checkpoint k c v = v\<lparr>v_cursors := (v_cursors v)(k \<mapsto> c)\<rparr>"

section \<open>Abstract processing\<close>

definition opt_op :: "('a \<Rightarrow> 'v \<Rightarrow> 'v) \<Rightarrow> 'a option \<Rightarrow> 'v \<Rightarrow> 'v" where
  "opt_op f x v = (case x of Some a \<Rightarrow> f a v | None \<Rightarrow> v)"

definition msg_signal :: "orchestrator \<Rightarrow> inbound_message \<Rightarrow> inbound_signal" where
  "msg_signal o' m = classify (o_sha o') m"

definition msg_corr :: "orchestrator \<Rightarrow> inbound_message \<Rightarrow> correlation_evidence" where
  "msg_corr o' m = correlate (o_catalogue o') (msg_signal o' m) m"

definition msg_recon :: "orchestrator \<Rightarrow> inbound_message \<Rightarrow> reconciliation option" where
  "msg_recon o' m = reconciliation_for o' m (msg_signal o' m) (msg_corr o' m)"

definition msg_note :: "orchestrator \<Rightarrow> inbound_message \<Rightarrow> founder_notification option" where
  "msg_note o' m = make_notification o' (msg_signal o' m) (msg_corr o' m)"

definition msg_event :: "orchestrator \<Rightarrow> inbound_message \<Rightarrow> inbox_view \<Rightarrow> pipeline_event option" where
  "msg_event o' m v =
     map_option (\<lambda>oid. signal_event (o_sha o') (msg_signal o' m) oid (sig_track (msg_signal o' m))
         (replay_events oid (sig_track (msg_signal o' m))
            (filter (\<lambda>e. pe_opportunity_id e = oid) (v_events v)) NO_EVENTS))
       (link_target (msg_corr o' m))"

text \<open>The four writes of a message, in their order.\<close>

definition msg_ops :: "(string \<Rightarrow> string) \<Rightarrow> orchestrator \<Rightarrow> inbound_message \<Rightarrow> (inbox_view \<Rightarrow> inbox_view) list" where
  "msg_ops nt o' m =
     [opt_op (a_recon nt) (msg_recon o' m),
      \<lambda>v. opt_op (a_event nt) (msg_event o' m v) v,
      opt_op (a_note nt) (msg_note o' m),
      a_mark (message_content_hash m)]"

definition a_message :: "(string \<Rightarrow> string) \<Rightarrow> orchestrator \<Rightarrow> inbound_message \<Rightarrow> inbox_view \<Rightarrow> inbox_view" where
  "a_message nt o' m = fold (\<lambda>f. f) (msg_ops nt o' m)"

definition todo :: "inbound_message list \<Rightarrow> inbox_view \<Rightarrow> inbound_message list" where
  "todo ms v = filter (\<lambda>m. message_content_hash m \<notin> v_processed v) ms"

text \<open>All writes of a cycle but the final checkpoint, in their order.\<close>

definition cycle_ops :: "(string \<Rightarrow> string) \<Rightarrow> orchestrator \<Rightarrow> inbound_message list \<Rightarrow> inbox_view \<Rightarrow> (inbox_view \<Rightarrow> inbox_view) list" where
  "cycle_ops nt o' ms v = map a_store ms @ concat (map (msg_ops nt o') (todo ms v))"

definition run_ops :: "('v \<Rightarrow> 'v) list \<Rightarrow> 'v \<Rightarrow> 'v" where
  "run_ops fs = fold (\<lambda>f. f) fs"

definition a_cycle :: "(string \<Rightarrow> string) \<Rightarrow> orchestrator \<Rightarrow> inbound_message list \<Rightarrow> string \<Rightarrow> inbox_view \<Rightarrow> inbox_view" where
  "a_cycle nt o' ms cur v = a_checkpoint (checkpoint_key o') cur (run_ops (cycle_ops nt o' ms v) v)"

section \<open>Every write of a message can be repeated\<close>

lemma run_ops_simps [simp]:
  "run_ops [] v = v" "run_ops (f # fs) v = run_ops fs (f v)" "run_ops (fs @ gs) v = run_ops gs (run_ops fs v)"
  by (simp_all add: run_ops_def)

lemma norm_keys [simp]:
  "event_id (norm_event nt e) = event_id e" "pe_signal_id (norm_event nt e) = pe_signal_id e"
  "pe_opportunity_id (norm_event nt e) = pe_opportunity_id e"
  "notification_key (norm_note nt n) = notification_key n" "rc_id (norm_recon nt r) = rc_id r"
  by (simp_all add: norm_event_def norm_note_def norm_recon_def)

text \<open>What is in a view once a write has been done; later writes keep it.\<close>

definition recon_done :: "reconciliation option \<Rightarrow> inbox_view \<Rightarrow> bool" where
  "recon_done x v \<longleftrightarrow> (case x of Some r \<Rightarrow> rc_id r \<in> rc_id ` set (v_recons v) | None \<Rightarrow> True)"

definition note_done :: "founder_notification option \<Rightarrow> inbox_view \<Rightarrow> bool" where
  "note_done x v \<longleftrightarrow> (case x of Some n \<Rightarrow> notification_key n \<in> notification_key ` set (v_notes v) | None \<Rightarrow> True)"

definition event_done :: "orchestrator \<Rightarrow> inbound_message \<Rightarrow> inbox_view \<Rightarrow> bool" where
  "event_done o' m v \<longleftrightarrow> (\<forall>w e. msg_event o' m w = Some e \<longrightarrow> event_clash e (v_events v))"

lemma msg_event_key:
  assumes "msg_event o' m v = Some e" "msg_event o' m w = Some f"
  shows "event_id e = event_id f \<and> pe_signal_id e = pe_signal_id f \<and> pe_opportunity_id e = pe_opportunity_id f"
  using assms by (auto simp: msg_event_def signal_event_def Let_def)

lemma msg_event_None: "msg_event o' m v = None \<longleftrightarrow> link_target (msg_corr o' m) = None"
  by (simp add: msg_event_def)

lemma event_done_iff:
  assumes "msg_event o' m v = Some e"
  shows "event_done o' m w \<longleftrightarrow> event_clash e (v_events w)"
proof
  show "event_clash e (v_events w)" if "event_done o' m w" using that assms by (auto simp: event_done_def)
  show "event_done o' m w" if c: "event_clash e (v_events w)"
    unfolding event_done_def
  proof (intro allI impI)
    fix u f assume "msg_event o' m u = Some f"
    from msg_event_key [OF this assms] c show "event_clash f (v_events w)" by (simp add: event_clash_def)
  qed
qed

lemma op_skips:
  "recon_done x v \<Longrightarrow> opt_op (a_recon nt) x v = v"
  "note_done y v \<Longrightarrow> opt_op (a_note nt) y v = v"
  "event_done o' m v \<Longrightarrow> opt_op (a_event nt) (msg_event o' m v) v = v"
  by (auto simp: opt_op_def recon_done_def note_done_def event_done_def a_recon_def a_note_def a_event_def
      split: option.split)

lemma op_does:
  "recon_done x (opt_op (a_recon nt) x v)"
  "note_done y (opt_op (a_note nt) y v)"
  "event_done o' m (opt_op (a_event nt) (msg_event o' m v) v)"
proof -
  show "recon_done x (opt_op (a_recon nt) x v)"
    by (auto simp: opt_op_def recon_done_def a_recon_def split: option.split)
  show "note_done y (opt_op (a_note nt) y v)"
    by (auto simp: opt_op_def note_done_def a_note_def split: option.split)
  show "event_done o' m (opt_op (a_event nt) (msg_event o' m v) v)"
  proof (cases "msg_event o' m v")
    case None
    then show ?thesis by (auto simp: event_done_def opt_op_def msg_event_def)
  next
    case (Some e)
    then show ?thesis
      by (auto simp: event_done_iff [OF Some] opt_op_def a_event_def event_clash_def)
  qed
qed

lemma op_keeps:
  "recon_done x v \<Longrightarrow> recon_done x (opt_op (a_event nt) e v)"
  "recon_done x v \<Longrightarrow> recon_done x (opt_op (a_note nt) n v)"
  "event_done o' m v \<Longrightarrow> event_done o' m (opt_op (a_note nt) n v)"
  by (auto simp: recon_done_def event_done_def opt_op_def a_event_def a_note_def split: option.split)

lemma message_repeat:
  assumes "i < 4"
  shows "run_ops (msg_ops nt o' m) (run_ops (take i (msg_ops nt o' m)) v) = run_ops (msg_ops nt o' m) v"
proof -
  let ?v1 = "opt_op (a_recon nt) (msg_recon o' m) v"
  let ?v2 = "opt_op (a_event nt) (msg_event o' m ?v1) ?v1"
  let ?v3 = "opt_op (a_note nt) (msg_note o' m) ?v2"
  note d = op_does(1) [of "msg_recon o' m" nt v] op_does(3) [of o' m nt ?v1] op_does(2) [of "msg_note o' m" nt ?v2]
  note skip = op_skips(1) [OF d(1)] op_skips(1) [OF op_keeps(1) [OF d(1)]]
    op_skips(1) [OF op_keeps(2) [OF op_keeps(1) [OF d(1)]]]
    op_skips(3) [OF d(2)] op_skips(3) [OF op_keeps(3) [OF d(2)]] op_skips(2) [OF d(3)]
  from assms consider "i = 0" | "i = 1" | "i = 2" | "i = 3" by linarith
  then show ?thesis
    by cases (simp_all add: msg_ops_def skip take_Cons' numeral_2_eq_2 numeral_3_eq_3)
qed

section \<open>What the writes of a message change\<close>

lemma opt_op_view:
  "v_stored (opt_op (a_recon nt) x v) = v_stored v" "v_processed (opt_op (a_recon nt) x v) = v_processed v"
  "v_cursors (opt_op (a_recon nt) x v) = v_cursors v" "v_events (opt_op (a_recon nt) x v) = v_events v"
  "v_stored (opt_op (a_note nt) n v) = v_stored v" "v_processed (opt_op (a_note nt) n v) = v_processed v"
  "v_cursors (opt_op (a_note nt) n v) = v_cursors v" "v_events (opt_op (a_note nt) n v) = v_events v"
  "v_stored (opt_op (a_event nt) e v) = v_stored v" "v_processed (opt_op (a_event nt) e v) = v_processed v"
  "v_cursors (opt_op (a_event nt) e v) = v_cursors v"
  by (simp_all add: opt_op_def a_recon_def a_note_def a_event_def split: option.split)

lemma message_partial:
  assumes "i < 4"
  shows "v_stored (run_ops (take i (msg_ops nt o' m)) v) = v_stored v"
    "v_processed (run_ops (take i (msg_ops nt o' m)) v) = v_processed v"
    "v_cursors (run_ops (take i (msg_ops nt o' m)) v) = v_cursors v"
proof -
  from assms consider "i = 0" | "i = 1" | "i = 2" | "i = 3" by linarith
  then show "v_stored (run_ops (take i (msg_ops nt o' m)) v) = v_stored v"
    "v_processed (run_ops (take i (msg_ops nt o' m)) v) = v_processed v"
    "v_cursors (run_ops (take i (msg_ops nt o' m)) v) = v_cursors v"
    by (cases; simp add: msg_ops_def opt_op_view take_Cons' numeral_2_eq_2 numeral_3_eq_3)+
qed

lemma message_view:
  "v_stored (run_ops (msg_ops nt o' m) v) = v_stored v"
  "v_processed (run_ops (msg_ops nt o' m) v) =
     (if message_content_hash m \<in> v_stored v then insert (message_content_hash m) (v_processed v) else v_processed v)"
  "v_cursors (run_ops (msg_ops nt o' m) v) = v_cursors v"
  by (simp_all add: msg_ops_def opt_op_view a_mark_def)

lemma length_msg_ops [simp]: "length (msg_ops nt o' m) = 4"
  by (simp add: msg_ops_def)

lemma batch_view:
  "v_stored (run_ops (take k (concat (map (msg_ops nt o') ms))) v) = v_stored v"
  "v_processed v \<subseteq> v_processed (run_ops (take k (concat (map (msg_ops nt o') ms))) v)"
  "v_processed (run_ops (take k (concat (map (msg_ops nt o') ms))) v) \<subseteq>
     v_processed v \<union> message_content_hash ` set ms"
  "v_cursors (run_ops (take k (concat (map (msg_ops nt o') ms))) v) = v_cursors v"
proof (induction ms arbitrary: k v)
  case (Cons m ms)
  have split: "take k (concat (map (msg_ops nt o') (m # ms))) =
      (if k < 4 then take k (msg_ops nt o' m)
       else msg_ops nt o' m @ take (k - 4) (concat (map (msg_ops nt o') ms)))" for k
    by simp
  {
    case 1
    show ?case using Cons.IH(1) by (simp only: split) (simp add: message_partial message_view)
  next
    case 2
    show ?case using Cons.IH(2) [of "run_ops (msg_ops nt o' m) v" "k - 4"]
      by (simp only: split) (auto simp: message_partial message_view split: if_splits)
  next
    case 3
    show ?case using Cons.IH(3) [of "k - 4" "run_ops (msg_ops nt o' m) v"]
      by (simp only: split) (auto simp: message_partial message_view split: if_splits)
  next
    case 4
    show ?case using Cons.IH(4) by (simp only: split) (simp add: message_partial message_view)
  }
qed simp_all

lemma batch_processed:
  assumes "message_content_hash ` set ms \<subseteq> v_stored v"
  shows "message_content_hash ` set ms \<subseteq> v_processed (run_ops (concat (map (msg_ops nt o') ms)) v)"
  using assms
proof (induction ms arbitrary: v)
  case (Cons m ms)
  have "message_content_hash m \<in> v_processed (run_ops (msg_ops nt o' m) v)"
    using Cons.prems by (simp add: message_view)
  then have "message_content_hash m \<in> v_processed (run_ops (concat (map (msg_ops nt o') ms)) (run_ops (msg_ops nt o' m) v))"
    using batch_view(2) [of "run_ops (msg_ops nt o' m) v" "length (concat (map (msg_ops nt o') ms))" nt o' ms] by auto
  moreover have "message_content_hash ` set ms \<subseteq>
      v_processed (run_ops (concat (map (msg_ops nt o') ms)) (run_ops (msg_ops nt o' m) v))"
    using Cons.prems by (intro Cons.IH) (simp add: message_view)
  ultimately show ?case by simp
qed simp

section \<open>Crash safety\<close>

text \<open>
  The messages of a batch interrupted after \<open>k\<close> writes that are not marked processed are processed
  again from the start, and nothing is written twice or lost.
\<close>

lemma batch_resume:
  assumes "distinct (map message_content_hash ms)" "message_content_hash ` set ms \<subseteq> v_stored v"
    "message_content_hash ` set ms \<inter> v_processed v = {}"
  shows "run_ops (concat (map (msg_ops nt o') (todo ms (run_ops (take k (concat (map (msg_ops nt o') ms))) v))))
      (run_ops (take k (concat (map (msg_ops nt o') ms))) v)
    = run_ops (concat (map (msg_ops nt o') ms)) v"
  using assms
proof (induction ms arbitrary: k v)
  case (Cons m ms)
  show ?case
  proof (cases "k < 4")
    case True
    let ?w = "run_ops (take k (msg_ops nt o' m)) v"
    have "todo (m # ms) ?w = m # ms"
      using Cons.prems by (auto simp: todo_def message_partial(2) [OF True] filter_id_conv)
    then show ?thesis using True by (simp add: message_repeat)
  next
    case False
    let ?v' = "run_ops (msg_ops nt o' m) v"
    let ?w = "run_ops (take (k - 4) (concat (map (msg_ops nt o') ms))) ?v'"
    have p: "v_processed ?v' = insert (message_content_hash m) (v_processed v)"
      using Cons.prems by (simp add: message_view)
    have "message_content_hash m \<in> v_processed ?w"
      using p batch_view(2) [of ?v' "k - 4" nt o' ms] by auto
    then have "todo (m # ms) ?w = todo ms ?w" by (simp add: todo_def)
    moreover have "run_ops (concat (map (msg_ops nt o') (todo ms ?w))) ?w = run_ops (concat (map (msg_ops nt o') ms)) ?v'"
      using Cons.prems p by (intro Cons.IH) (auto simp: message_view)
    ultimately show ?thesis using False by simp
  qed
qed (simp add: todo_def)

lemma store_ops:
  "run_ops (map a_store ms) v = v\<lparr>v_stored := message_content_hash ` set ms \<union> v_stored v\<rparr>"
  by (induction ms arbitrary: v) (auto simp: a_store_def)

lemma todo_props:
  "message_content_hash ` set (todo ms v) \<inter> v_processed v = {}"
  "message_content_hash ` set (todo ms v) \<subseteq> message_content_hash ` set ms"
  "distinct (map message_content_hash ms) \<Longrightarrow> distinct (map message_content_hash (todo ms v))"
  by (auto simp: todo_def distinct_map_filter)

lemma todo_todo: "v_processed v \<subseteq> v_processed w \<Longrightarrow> todo ms w = todo (todo ms v) w"
  by (auto simp: todo_def intro: filter_cong)

lemma cycle_resume:
  assumes "distinct (map message_content_hash ms)"
  shows "run_ops (cycle_ops nt o' ms (run_ops (take k (cycle_ops nt o' ms v)) v))
      (run_ops (take k (cycle_ops nt o' ms v)) v) = run_ops (cycle_ops nt o' ms v) v"
proof (cases "k \<le> length ms")
  case True
  let ?w = "run_ops (take k (cycle_ops nt o' ms v)) v"
  have w: "?w = v\<lparr>v_stored := message_content_hash ` set (take k ms) \<union> v_stored v\<rparr>"
    using True by (simp add: cycle_ops_def store_ops take_map)
  have "run_ops (map a_store ms) ?w = run_ops (map a_store ms) v"
    using set_take_subset [of k ms] by (simp add: w store_ops) (simp add: Un_assoc [symmetric] Un_absorb1 image_mono Un_absorb2)
  moreover have "todo ms ?w = todo ms v" by (simp add: w todo_def)
  ultimately show ?thesis by (simp add: cycle_ops_def)
next
  case False
  let ?s = "run_ops (map a_store ms) v"
  let ?k = "k - length ms"
  let ?td = "todo ms v"
  let ?w = "run_ops (take ?k (concat (map (msg_ops nt o') ?td))) ?s"
  have w: "run_ops (take k (cycle_ops nt o' ms v)) v = ?w"
    using False by (simp add: cycle_ops_def)
  have stored: "v_stored ?w = message_content_hash ` set ms \<union> v_stored v"
    by (simp add: batch_view) (simp add: store_ops)
  have "message_content_hash ` set ms \<union> v_stored ?w = v_stored ?w" using stored by blast
  then have "run_ops (map a_store ms) ?w = ?w" unfolding store_ops by simp
  moreover have "todo ms ?w = todo ?td ?w"
    using batch_view(2) [of ?s ?k nt o' ?td] by (intro todo_todo) (simp add: store_ops)
  moreover have "run_ops (concat (map (msg_ops nt o') (todo ?td ?w))) ?w = run_ops (concat (map (msg_ops nt o') ?td)) ?s"
    using todo_props [of ms v] assms by (intro batch_resume) (auto simp: store_ops)
  ultimately have "run_ops (cycle_ops nt o' ms ?w) ?w = run_ops (concat (map (msg_ops nt o') ?td)) ?s"
    by (simp add: cycle_ops_def)
  then show ?thesis unfolding w by (simp add: cycle_ops_def)
qed

lemma cycle_crash_safe:
  assumes "distinct (map message_content_hash ms)"
  shows "a_cycle nt o' ms cur (run_ops (take k (cycle_ops nt o' ms v)) v) = a_cycle nt o' ms cur v"
  unfolding a_cycle_def by (simp add: cycle_resume [OF assms])

lemma cycle_all_processed:
  "message_content_hash ` set ms \<subseteq> v_processed (run_ops (cycle_ops nt o' ms v) v)"
  "message_content_hash ` set ms \<subseteq> v_stored (run_ops (cycle_ops nt o' ms v) v)"
proof -
  let ?s = "run_ops (map a_store ms) v"
  let ?td = "todo ms v"
  let ?w = "run_ops (concat (map (msg_ops nt o') ?td)) ?s"
  have w: "run_ops (cycle_ops nt o' ms v) v = ?w" by (simp add: cycle_ops_def)
  have td: "message_content_hash ` set ?td \<subseteq> v_processed ?w"
    using todo_props(2) [of ms v] by (intro batch_processed) (auto simp: store_ops)
  have old: "v_processed v \<subseteq> v_processed ?w"
    using batch_view(2) [of ?s "length (concat (map (msg_ops nt o') ?td))" nt o' ?td] by (simp add: store_ops)
  have "set ms = set ?td \<union> {m \<in> set ms. message_content_hash m \<in> v_processed v}" by (auto simp: todo_def)
  with td old show "message_content_hash ` set ms \<subseteq> v_processed (run_ops (cycle_ops nt o' ms v) v)"
    unfolding w by auto
  show "message_content_hash ` set ms \<subseteq> v_stored (run_ops (cycle_ops nt o' ms v) v)"
    using batch_view(1) [of "length (concat (map (msg_ops nt o') ?td))" nt o' ?td ?s] by (simp add: w store_ops)
qed

lemma cycle_repeat: "a_cycle nt o' ms cur (a_cycle nt o' ms cur v) = a_cycle nt o' ms cur v"
proof -
  let ?w = "a_cycle nt o' ms cur v"
  have p: "message_content_hash ` set ms \<subseteq> v_processed ?w" "message_content_hash ` set ms \<subseteq> v_stored ?w"
    using cycle_all_processed by (simp_all add: a_cycle_def a_checkpoint_def)
  have "todo ms ?w = []" using p(1) by (auto simp: todo_def filter_empty_conv)
  moreover have "run_ops (map a_store ms) ?w = ?w" using p(2) by (simp add: store_ops Un_absorb1)
  ultimately have "run_ops (cycle_ops nt o' ms ?w) ?w = ?w" by (simp add: cycle_ops_def)
  then have "a_cycle nt o' ms cur ?w = a_checkpoint (checkpoint_key o') cur ?w" by (simp add: a_cycle_def)
  then show ?thesis by (simp add: a_cycle_def a_checkpoint_def)
qed

end
