(* ===== verification/Inbox_Refinement.thy ===== *)
theory Inbox_Refinement
  imports Inbox_Contract
begin

text \<open>
  The contract of a store as a locale, and the refinement: over any store that keeps it, the cycle
  of the orchestrator (\<open>inbox/orchestrator.py\<close>) performs the abstract cycle, interrupted or not.
\<close>

section \<open>Messages a store accepts\<close>

text \<open>The records the processing of a message may write, whatever is stored already.\<close>

definition writes_ok ::
  "(reconciliation \<Rightarrow> bool) \<Rightarrow> (pipeline_event \<Rightarrow> bool) \<Rightarrow> (founder_notification \<Rightarrow> bool)
     \<Rightarrow> orchestrator \<Rightarrow> inbound_message \<Rightarrow> bool" where
  "writes_ok ok_recon ok_event ok_note o' m \<longleftrightarrow>
     (case msg_recon o' m of Some r \<Rightarrow> ok_recon r | None \<Rightarrow> True) \<and>
     (case link_target (msg_corr o' m) of
        Some oid \<Rightarrow> list_all (\<lambda>stg. ok_event (signal_event (o_sha o') (msg_signal o' m) oid
                        (sig_track (msg_signal o' m)) (empty_state oid (sig_track (msg_signal o' m)) stg))) all_stages
      | None \<Rightarrow> True) \<and>
     (case msg_note o' m of Some n \<Rightarrow> ok_note n | None \<Rightarrow> True)"

lemma all_stages_all [simp]: "x \<in> set all_stages"
  by (cases x) (simp_all add: all_stages_def)

lemma signal_event_stage:
  "signal_event sha sg oid trk cur = signal_event sha sg oid trk (empty_state oid trk (current_stage cur))"
  by (simp add: signal_event_def empty_state_def)

lemma writes_ok_event:
  assumes "writes_ok ok_recon ok_event ok_note o' m" "msg_event o' m v = Some e"
  shows "ok_event e"
proof -
  from assms(2) obtain oid where oid: "link_target (msg_corr o' m) = Some oid"
    and e: "e = signal_event (o_sha o') (msg_signal o' m) oid (sig_track (msg_signal o' m))
         (replay_events oid (sig_track (msg_signal o' m))
            (filter (\<lambda>e. pe_opportunity_id e = oid) (v_events v)) NO_EVENTS)" (is "_ = signal_event _ _ _ _ ?s")
    by (auto simp: msg_event_def)
  have "ok_event (signal_event (o_sha o') (msg_signal o' m) oid (sig_track (msg_signal o' m))
      (empty_state oid (sig_track (msg_signal o' m)) (current_stage ?s)))"
    using assms(1) oid by (auto simp: writes_ok_def list_all_iff)
  then show ?thesis unfolding e by (subst signal_event_stage)
qed

section \<open>The contract\<close>

locale inbox_store_contract =
  fixes st :: "'s inbox_store" and view :: "'s \<Rightarrow> inbox_view" and inv :: "'s \<Rightarrow> bool"
    and nt :: "string \<Rightarrow> string" and ok_msg :: "inbound_message \<Rightarrow> bool"
    and ok_recon :: "reconciliation \<Rightarrow> bool" and ok_event :: "pipeline_event \<Rightarrow> bool"
    and ok_note :: "founder_notification \<Rightarrow> bool" and ok_time :: "string \<Rightarrow> bool"
    and ok_cursor :: "string \<Rightarrow> string \<Rightarrow> bool"
  assumes store: "inv s \<Longrightarrow> ok_msg m \<Longrightarrow> st_store_evidence st m s = (b, s') \<Longrightarrow>
      inv s' \<and> view s' = a_store m (view s)"
    and processed: "inv s \<Longrightarrow> st_is_processed st h s \<longleftrightarrow> h \<in> v_processed (view s)"
    and mark: "inv s \<Longrightarrow> ok_time t \<Longrightarrow> st_mark_processed st h t s = (r, s') \<Longrightarrow>
      r = Inr () \<and> inv s' \<and> view s' = a_mark h (view s)"
    and event: "inv s \<Longrightarrow> ok_event e \<Longrightarrow> st_store_event st e s = (b, s') \<Longrightarrow>
      inv s' \<and> view s' = a_event nt e (view s) \<and> b = (\<not> event_clash e (v_events (view s)))"
    and events_for: "inv s \<Longrightarrow>
      \<exists>evs. st_events_for st oid s = Inr evs \<and> mset evs = mset (filter (\<lambda>e. pe_opportunity_id e = oid) (v_events (view s)))"
    and event_ids: "inv s \<Longrightarrow> distinct (map event_id (v_events (view s)))"
    and notif: "inv s \<Longrightarrow> ok_note n \<Longrightarrow> st_store_notification st n s = (b, s') \<Longrightarrow>
      inv s' \<and> view s' = a_note nt n (view s) \<and> b = (notification_key n \<notin> notification_key ` set (v_notes (view s)))"
    and recon: "inv s \<Longrightarrow> ok_recon x \<Longrightarrow> st_record_reconciliation st x s = (b, s') \<Longrightarrow>
      inv s' \<and> view s' = a_recon nt x (view s)"
    and checkpoint: "inv s \<Longrightarrow> ok_cursor k c \<Longrightarrow> ok_time t \<Longrightarrow> st_save_checkpoint st k c t s = (r, s') \<Longrightarrow>
      r = Inr () \<and> inv s' \<and> view s' = a_checkpoint k c (view s)"
    and cursor: "inv s \<Longrightarrow> st_get_checkpoint st k s = v_cursors (view s) k"
begin

abbreviation "accepts o' m \<equiv> ok_msg m \<and> writes_ok ok_recon ok_event ok_note o' m"

lemma polled:
  assumes "inv s" "\<forall>m\<in>set ms. ok_msg m"
  shows "inv (snd (poll_loop st ms s)) \<and> view (snd (poll_loop st ms s)) = run_ops (map a_store ms) (view s) \<and>
    fst (poll_loop st ms s) = todo ms (view s)"
  using assms
proof (induction ms arbitrary: s)
  case (Cons m ms)
  obtain b s1 where s1: "st_store_evidence st m s = (b, s1)" by force
  have k: "inv s1" "view s1 = a_store m (view s)" using store [OF Cons.prems(1) _ s1] Cons.prems(2) by auto
  have same: "v_processed (a_store m (view s)) = v_processed (view s)" by (simp add: a_store_def)
  obtain rest s2 where p: "poll_loop st ms s1 = (rest, s2)" by force
  show ?case using Cons.IH [OF k(1)] Cons.prems(2)
    by (simp add: s1 p processed [OF k(1)] k(2) todo_def same)
qed (simp add: todo_def)

lemma event_recorded:
  assumes "inv s" "writes_ok ok_recon ok_event ok_note o' m"
  obtains x s' where
    "record_signal_event st (o_sha o') (msg_signal o' m) (msg_corr o' m) (sig_track (msg_signal o' m)) s = (Inr x, s')"
    "inv s'" "view s' = opt_op (a_event nt) (msg_event o' m (view s)) (view s)"
    "length (v_events (view s')) = length (v_events (view s)) + (if x = None then 0 else 1)"
    "v_notes (view s') = v_notes (view s)" "v_recons (view s') = v_recons (view s)"
proof (cases "link_target (msg_corr o' m)")
  case None
  then show ?thesis using assms(1)
    by (intro that [of None s]) (simp_all add: record_signal_event_def msg_event_def opt_op_def)
next
  case (Some oid)
  let ?trk = "sig_track (msg_signal o' m)"
  let ?own = "filter (\<lambda>e. pe_opportunity_id e = oid) (v_events (view s))"
  let ?e = "signal_event (o_sha o') (msg_signal o' m) oid ?trk (replay_events oid ?trk ?own NO_EVENTS)"
  obtain evs where evs: "st_events_for st oid s = Inr evs" "mset evs = mset ?own"
    using events_for [OF assms(1)] by blast
  have "distinct (map event_id ?own)" using event_ids [OF assms(1)] by (simp add: distinct_map_filter)
  then have r: "replay_events oid ?trk evs NO_EVENTS = replay_events oid ?trk ?own NO_EVENTS"
    using replay_mset [OF evs(2) [symmetric]] by simp
  have e: "msg_event o' m (view s) = Some ?e" by (simp add: msg_event_def Some)
  obtain b s' where w: "st_store_event st ?e s = (b, s')" by force
  note k = event [OF assms(1) writes_ok_event [OF assms(2) e] w]
  have rec: "record_signal_event st (o_sha o') (msg_signal o' m) (msg_corr o' m) ?trk s
      = (Inr (if b then Some ?e else None), s')"
    by (simp add: record_signal_event_def Some evs r w)
  show ?thesis using k by (intro that [OF rec]) (auto simp: opt_op_def e a_event_def)
qed

lemma notified:
  assumes "inv s" "writes_ok ok_recon ok_event ok_note o' m"
  obtains x s' where
    "process_signal st o' (msg_signal o' m) (msg_corr o' m) s = (x, s')"
    "inv s'" "view s' = opt_op (a_note nt) (msg_note o' m) (view s)"
    "length (v_notes (view s')) = length (v_notes (view s)) + (if x = None then 0 else 1)"
    "v_events (view s') = v_events (view s)" "v_recons (view s') = v_recons (view s)"
proof (cases "msg_note o' m")
  case None
  then show ?thesis using assms(1)
    by (intro that [of None s]) (simp_all add: process_signal_def msg_note_def opt_op_def)
next
  case (Some n)
  obtain b s' where w: "st_store_notification st n s = (b, s')" by force
  have "ok_note n" using assms(2) Some by (simp add: writes_ok_def)
  note k = notif [OF assms(1) this w]
  have rec: "process_signal st o' (msg_signal o' m) (msg_corr o' m) s = (if b then Some n else None, s')"
    using Some by (simp add: process_signal_def msg_note_def w)
  show ?thesis using k by (intro that [OF rec]) (auto simp: opt_op_def Some a_note_def)
qed

lemma reconciled:
  assumes "inv s" "writes_ok ok_recon ok_event ok_note o' m"
  shows "inv (case msg_recon o' m of Some r \<Rightarrow> snd (st_record_reconciliation st r s) | None \<Rightarrow> s) \<and>
    view (case msg_recon o' m of Some r \<Rightarrow> snd (st_record_reconciliation st r s) | None \<Rightarrow> s)
      = opt_op (a_recon nt) (msg_recon o' m) (view s)"
  using assms recon [OF assms(1)]
  by (cases "msg_recon o' m") (auto simp: writes_ok_def opt_op_def prod_eq_iff split: prod.splits)

end

section \<open>The refinement\<close>

text \<open>What the counters of a cycle say about the writes between two views.\<close>

definition counts_writes :: "cycle_result \<Rightarrow> inbox_view \<Rightarrow> cycle_result \<Rightarrow> inbox_view \<Rightarrow> bool" where
  "counts_writes r v r' v' \<longleftrightarrow>
     events_recorded r' + length (v_events v) = events_recorded r + length (v_events v') \<and>
     notifications_emitted r' + length (v_notes v) = notifications_emitted r + length (v_notes v') \<and>
     reconciliations_created r + length (v_recons v') \<le> reconciliations_created r' + length (v_recons v)"

lemma counts_trans: "counts_writes r v r' v' \<Longrightarrow> counts_writes r' v' r'' v'' \<Longrightarrow> counts_writes r v r'' v''"
  by (simp add: counts_writes_def)

context inbox_store_contract
begin

lemma message_refines:
  assumes "inv s" "accepts o' m" "ok_time now"
  obtains r s' where "process_message st o' now m res s = (Inr r, s')" "inv s'"
    "view s' = run_ops (msg_ops nt o' m) (view s)" "counts_writes res (view s) r (view s')"
    "signals_detected r = signals_detected res + 1" "messages_ingested r = messages_ingested res"
    "cursor_checkpoint r = cursor_checkpoint res"
proof -
  have ok: "writes_ok ok_recon ok_event ok_note o' m" using assms(2) by simp
  define s1 where "s1 = (case msg_recon o' m of Some r \<Rightarrow> snd (st_record_reconciliation st r s) | None \<Rightarrow> s)"
  have s1: "inv s1" "view s1 = opt_op (a_recon nt) (msg_recon o' m) (view s)"
    unfolding s1_def using reconciled [OF assms(1) ok] by simp_all
  obtain x s2 where s2: "record_signal_event st (o_sha o') (msg_signal o' m) (msg_corr o' m)
        (sig_track (msg_signal o' m)) s1 = (Inr x, s2)" "inv s2"
      "view s2 = opt_op (a_event nt) (msg_event o' m (view s1)) (view s1)"
      "length (v_events (view s2)) = length (v_events (view s1)) + (if x = None then 0 else 1)"
      "v_notes (view s2) = v_notes (view s1)" "v_recons (view s2) = v_recons (view s1)"
    using event_recorded [OF s1(1) ok] .
  obtain y s3 where s3: "process_signal st o' (msg_signal o' m) (msg_corr o' m) s2 = (y, s3)" "inv s3"
      "view s3 = opt_op (a_note nt) (msg_note o' m) (view s2)"
      "length (v_notes (view s3)) = length (v_notes (view s2)) + (if y = None then 0 else 1)"
      "v_events (view s3) = v_events (view s2)" "v_recons (view s3) = v_recons (view s2)"
    using notified [OF s2(2) ok] .
  obtain r s4 where s4: "st_mark_processed st (message_content_hash m) now s3 = (r, s4)" by force
  note k = mark [OF s3(2) assms(3) s4]
  let ?r = "res\<lparr>signals_detected := signals_detected res + 1,
      events_recorded := events_recorded res + (if x = None then 0 else 1),
      notifications_emitted := notifications_emitted res + (if y = None then 0 else 1),
      reconciliations_created := reconciliations_created res + (if msg_recon o' m = None then 0 else 1)\<rparr>"
  have run: "process_message st o' now m res s = (Inr ?r, s4)"
    using s2(1) s3(1) s4 k
    by (simp add: process_message_def Let_def s1_def msg_signal_def msg_corr_def msg_recon_def)
  have eq: "view s4 = run_ops (msg_ops nt o' m) (view s)"
    using k s1(2) s2(3) s3(3) by (simp add: msg_ops_def)
  have m4: "v_events (view s4) = v_events (view s3)" "v_notes (view s4) = v_notes (view s3)"
      "v_recons (view s4) = v_recons (view s3)"
    using k by (simp_all add: a_mark_def)
  have r1: "v_events (view s1) = v_events (view s)" "v_notes (view s1) = v_notes (view s)"
      "length (v_recons (view s1)) \<le> length (v_recons (view s)) + (if msg_recon o' m = None then 0 else 1)"
    by (auto simp: s1(2) opt_op_def a_recon_def split: option.split)
  have cnt: "counts_writes res (view s) ?r (view s4)"
    unfolding counts_writes_def m4
    using s2(4-6) s3(4-6) r1 by simp
  show ?thesis by (rule that [OF run _ eq cnt]) (use k in simp_all)
qed

text \<open>\<open>hook\<close> may interrupt the batch after any message; \<open>k\<close> is the number of writes done.\<close>

lemma batch_refines:
  assumes "inv s" "\<forall>m\<in>set ms. accepts o' m" "\<forall>j. ok_time (clock j)"
  shows "\<exists>res' s' k. process_batch st o' clock hook i ms res s = (res', s') \<and> inv s' \<and>
    view s' = run_ops (take k (concat (map (msg_ops nt o') ms))) (view s) \<and>
    ((\<forall>j. hook j = None) \<longrightarrow> (\<exists>r. res' = Inr r)) \<and>
    (\<forall>r. res' = Inr r \<longrightarrow> k = 4 * length ms \<and> counts_writes res (view s) r (view s') \<and>
       signals_detected r = signals_detected res + length ms \<and>
       messages_ingested r = messages_ingested res \<and> cursor_checkpoint r = cursor_checkpoint res)"
  using assms(1,2)
proof (induction ms arbitrary: i res s)
  case Nil
  then show ?case by (intro exI [of _ "Inr res"] exI [of _ s] exI [of _ 0]) (simp add: counts_writes_def)
next
  case (Cons m ms)
  have acc: "accepts o' m" using Cons.prems(2) by simp
  obtain r1 s1 where s1: "process_message st o' (clock i) m res s = (Inr r1, s1)" "inv s1"
      "view s1 = run_ops (msg_ops nt o' m) (view s)" "counts_writes res (view s) r1 (view s1)"
      "signals_detected r1 = signals_detected res + 1" "messages_ingested r1 = messages_ingested res"
      "cursor_checkpoint r1 = cursor_checkpoint res"
    using message_refines [OF Cons.prems(1) acc, of "clock i" res] assms(3) by metis
  show ?case
  proof (cases "hook i")
    case (Some e)
    have "process_batch st o' clock hook i (m # ms) res s = (Inl e, s1)" by (simp add: s1(1) Some)
    moreover have "view s1 = run_ops (take 4 (concat (map (msg_ops nt o') (m # ms)))) (view s)"
      by (simp add: s1(3))
    moreover have "\<not> (\<forall>j. hook j = None)" using Some by auto
    ultimately show ?thesis using s1(2) by blast
  next
    case None
    have rest: "\<forall>m\<in>set ms. accepts o' m" using Cons.prems(2) by simp
    from Cons.IH [OF s1(2) rest, of "Suc i" r1]
    obtain res' s' k where IH: "process_batch st o' clock hook (Suc i) ms r1 s1 = (res', s')" "inv s'"
        "view s' = run_ops (take k (concat (map (msg_ops nt o') ms))) (view s1)"
        "(\<forall>j. hook j = None) \<longrightarrow> (\<exists>r. res' = Inr r)"
        "\<forall>r. res' = Inr r \<longrightarrow> k = 4 * length ms \<and> counts_writes r1 (view s1) r (view s') \<and>
           signals_detected r = signals_detected r1 + length ms \<and>
           messages_ingested r = messages_ingested r1 \<and> cursor_checkpoint r = cursor_checkpoint r1"
      by (elim exE conjE) (rule that)
    have run: "process_batch st o' clock hook i (m # ms) res s = (res', s')" by (simp add: s1(1) None IH(1))
    have v: "view s' = run_ops (take (4 + k) (concat (map (msg_ops nt o') (m # ms)))) (view s)"
      by (simp add: s1(3) IH(3))
    have "4 + k = 4 * length (m # ms) \<and> counts_writes res (view s) r (view s') \<and>
        signals_detected r = signals_detected res + length (m # ms) \<and>
        messages_ingested r = messages_ingested res \<and> cursor_checkpoint r = cursor_checkpoint res"
      if "res' = Inr r" for r
      using IH(5) that s1(5-7) counts_trans [OF s1(4)] by auto
    with run v IH(2,4) show ?thesis by blast
  qed
qed

lemma length_batch: "length (concat (map (msg_ops nt o') ms)) = 4 * length ms"
  by (induction ms) simp_all

text \<open>A cycle: every prefix of the abstract writes when interrupted, the abstract cycle when not.\<close>

lemma cycle_refines:
  assumes "inv s" "fetch (Some (get_checkpoint_cursor st o' s)) limit = Inr (ms, cur)"
    "\<forall>m\<in>set ms. accepts o' m" "\<forall>j. ok_time (clock j)" "ok_cursor (checkpoint_key o') cur"
  shows "\<exists>res s'. run_cycle st o' fetch clock hook limit s = (res, s') \<and> inv s' \<and>
    (case res of
       Inl e \<Rightarrow> \<exists>k. view s' = run_ops (take k (cycle_ops nt o' ms (view s))) (view s)
     | Inr r \<Rightarrow> view s' = a_cycle nt o' ms cur (view s) \<and> cursor_checkpoint r = cur \<and>
         messages_ingested r = length (todo ms (view s)) \<and> signals_detected r = length (todo ms (view s)) \<and>
         events_recorded r + length (v_events (view s)) = length (v_events (view s')) \<and>
         notifications_emitted r + length (v_notes (view s)) = length (v_notes (view s')) \<and>
         length (v_recons (view s')) \<le> reconciliations_created r + length (v_recons (view s))) \<and>
    ((\<forall>j. hook j = None) \<longrightarrow> (\<exists>r. res = Inr r))"
proof -
  let ?td = "todo ms (view s)"
  let ?r0 = "\<lparr>messages_ingested = length ?td, signals_detected = 0, events_recorded = 0,
      notifications_emitted = 0, reconciliations_created = 0, cursor_checkpoint = cur\<rparr>"
  obtain rest s1 where p: "poll_loop st ms s = (rest, s1)" by force
  then have s1: "inv s1" "view s1 = run_ops (map a_store ms) (view s)" "rest = ?td"
    using polled [OF assms(1), of ms] assms(3) by simp_all
  have td: "\<forall>m\<in>set ?td. accepts o' m" using assms(3) by (simp add: todo_def)
  obtain res' s2 k where b: "process_batch st o' clock hook 1 ?td ?r0 s1 = (res', s2)" "inv s2"
      "view s2 = run_ops (take k (concat (map (msg_ops nt o') ?td))) (view s1)"
      "(\<forall>j. hook j = None) \<longrightarrow> (\<exists>r. res' = Inr r)"
      "\<forall>r. res' = Inr r \<longrightarrow> k = 4 * length ?td \<and> counts_writes ?r0 (view s1) r (view s2) \<and>
         signals_detected r = signals_detected ?r0 + length ?td \<and>
         messages_ingested r = messages_ingested ?r0 \<and> cursor_checkpoint r = cursor_checkpoint ?r0"
    using batch_refines [OF s1(1) td assms(4), of hook 1 ?r0] by blast
  have part: "view s2 = run_ops (take (length ms + k) (cycle_ops nt o' ms (view s))) (view s)"
    using b(3) by (simp add: s1(2) cycle_ops_def)
  have run: "run_cycle st o' fetch clock hook limit s =
      (case process_batch st o' clock hook 1 ?td ?r0 s1 of
         (Inl e, s2) \<Rightarrow> (Inl e, s2)
       | (Inr res, s2) \<Rightarrow> (case st_save_checkpoint st (checkpoint_key o') cur (clock 0) s2 of
            (Inl e, s3) \<Rightarrow> (Inl e, s3) | (Inr _, s3) \<Rightarrow> (Inr res, s3)))"
    by (simp add: run_cycle_def poll_new_messages_def assms(2) p s1(3))
  have same: "v_events (view s1) = v_events (view s)" "v_notes (view s1) = v_notes (view s)"
      "v_recons (view s1) = v_recons (view s)"
    by (simp_all add: s1(2) store_ops)
  show ?thesis
  proof (cases res')
    case (Inl e)
    have "run_cycle st o' fetch clock hook limit s = (Inl e, s2)" using b(1) Inl by (simp add: run)
    moreover have "\<not> (\<forall>j. hook j = None)" using b(4) Inl by blast
    ultimately show ?thesis using b(2) part by (intro exI [of _ "Inl e"] exI [of _ s2]) auto
  next
    case (Inr r)
    obtain x s3 where s3: "st_save_checkpoint st (checkpoint_key o') cur (clock 0) s2 = (x, s3)" by force
    have c: "x = Inr ()" "inv s3" "view s3 = a_checkpoint (checkpoint_key o') cur (view s2)"
      using checkpoint [OF b(2) assms(5) _ s3] assms(4) by auto
    have full: "view s2 = run_ops (cycle_ops nt o' ms (view s)) (view s)"
      using part b(5) Inr by (simp add: cycle_ops_def length_batch)
    have v3: "v_events (view s3) = v_events (view s2)" "v_notes (view s3) = v_notes (view s2)"
        "v_recons (view s3) = v_recons (view s2)"
      by (simp_all add: c(3) a_checkpoint_def)
    have "run_cycle st o' fetch clock hook limit s = (Inr r, s3)"
      using b(1) Inr s3 c(1) by (simp add: run)
    moreover have "view s3 = a_cycle nt o' ms cur (view s)" using c(3) full by (simp add: a_cycle_def)
    moreover have "events_recorded r + length (v_events (view s)) = length (v_events (view s3)) \<and>
        notifications_emitted r + length (v_notes (view s)) = length (v_notes (view s3)) \<and>
        length (v_recons (view s3)) \<le> reconciliations_created r + length (v_recons (view s)) \<and>
        cursor_checkpoint r = cur \<and> messages_ingested r = length ?td \<and> signals_detected r = length ?td"
      using b(5) Inr by (simp add: counts_writes_def v3 same)
    ultimately show ?thesis using c(2) by (intro exI [of _ "Inr r"] exI [of _ s3]) simp
  qed
qed

lemma cycle_completes:
  assumes "inv s" "fetch (Some (get_checkpoint_cursor st o' s)) limit = Inr (ms, cur)"
    "\<forall>m\<in>set ms. accepts o' m" "\<forall>j. ok_time (clock j)" "ok_cursor (checkpoint_key o') cur"
  obtains r s' where "run_cycle st o' fetch clock (\<lambda>_. None) limit s = (Inr r, s')" "inv s'"
    "view s' = a_cycle nt o' ms cur (view s)" "messages_ingested r = length (todo ms (view s))"
    "events_recorded r + length (v_events (view s)) = length (v_events (view s'))"
    "notifications_emitted r + length (v_notes (view s)) = length (v_notes (view s'))"
    "length (v_recons (view s')) \<le> reconciliations_created r + length (v_recons (view s))"
  using cycle_refines [where s = s and fetch = fetch and o' = o' and limit = limit and ms = ms
      and cur = cur and clock = clock and hook = "\<lambda>_. None", OF assms]
  by (elim exE conjE) (fastforce intro: that)

lemma cycle_interrupted:
  assumes "inv s" "fetch (Some (get_checkpoint_cursor st o' s)) limit = Inr (ms, cur)"
    "\<forall>m\<in>set ms. accepts o' m" "\<forall>j. ok_time (clock j)" "ok_cursor (checkpoint_key o') cur"
    and "run_cycle st o' fetch clock hook limit s = (Inl e, s')"
  obtains k where "inv s'" "view s' = run_ops (take k (cycle_ops nt o' ms (view s))) (view s)"
  using cycle_refines [where s = s and fetch = fetch and o' = o' and limit = limit and ms = ms
      and cur = cur and clock = clock and hook = hook, OF assms(1-5)] assms(6)
  by auto

text \<open>After an interruption the next cycle ends where an uninterrupted one would have.\<close>

lemma crash_safe:
  assumes "inv s" "inv s'" and v: "view s' = run_ops (take k (cycle_ops nt o' ms (view s))) (view s)"
    and fetch: "fetch (Some (get_checkpoint_cursor st o' s)) limit = Inr (ms, cur)"
    and dist: "distinct (map message_content_hash ms)"
    and ok: "\<forall>m\<in>set ms. accepts o' m" "\<forall>j. ok_time (clock j)" "ok_cursor (checkpoint_key o') cur"
  shows "\<exists>r t r' t'. run_cycle st o' fetch clock (\<lambda>_. None) limit s = (Inr r, t) \<and>
    run_cycle st o' fetch clock (\<lambda>_. None) limit s' = (Inr r', t') \<and> view t' = view t \<and>
    st_get_checkpoint st (checkpoint_key o') t' = Some cur \<and>
    (\<forall>m\<in>set ms. st_is_processed st (message_content_hash m) t')"
proof -
  have "v_cursors (run_ops (take k (cycle_ops nt o' ms (view s))) (view s)) = v_cursors (view s)"
    by (simp add: cycle_ops_def take_map batch_view store_ops)
  then have "get_checkpoint_cursor st o' s' = get_checkpoint_cursor st o' s"
    by (simp add: get_checkpoint_cursor_def cursor assms(1,2) v)
  then have fetch': "fetch (Some (get_checkpoint_cursor st o' s')) limit = Inr (ms, cur)" using fetch by simp
  obtain r t where t: "run_cycle st o' fetch clock (\<lambda>_. None) limit s = (Inr r, t)"
      "view t = a_cycle nt o' ms cur (view s)"
    by (rule cycle_completes [where fetch = fetch and limit = limit and o' = o', OF assms(1) fetch ok])
  obtain r' t' where t': "run_cycle st o' fetch clock (\<lambda>_. None) limit s' = (Inr r', t')" "inv t'"
      "view t' = a_cycle nt o' ms cur (view s')"
    by (rule cycle_completes [where fetch = fetch and limit = limit and o' = o', OF assms(2) fetch' ok])
  have eq: "view t' = a_cycle nt o' ms cur (view s)" by (simp add: t'(3) v cycle_crash_safe [OF dist])
  have "st_get_checkpoint st (checkpoint_key o') t' = Some cur"
    by (simp add: cursor [OF t'(2)] eq a_cycle_def a_checkpoint_def)
  moreover have "st_is_processed st (message_content_hash m) t'" if "m \<in> set ms" for m
    using cycle_all_processed(1) [of ms nt o' "view s"] that
    by (auto simp: processed [OF t'(2)] eq a_cycle_def a_checkpoint_def)
  ultimately show ?thesis using t t'(1) eq by auto
qed

end

end
