(* ===== verification/Inbox_Tables.thy ===== *)
theory Inbox_Tables
  imports Inbox_Refinement
begin

text \<open>
  The five inbox tables, which both stores keep (\<open>inbox/persistence.py\<close> as SQLite,
  \<open>inbox/postgres_persistence.py\<close> through the models of \<open>storage/models.py\<close>): rows, how a value is
  laid out as a row and read back, and the abstract view of a database. A time column holds values
  of type \<open>'t\<close>, a truth column values of type \<open>'b\<close>; \<open>tf\<close> and \<open>bf\<close> read them.
\<close>

section \<open>Rows\<close>

record 't evidence_row =
  er_hash :: string
  er_provider :: string
  er_message_id :: string
  er_thread_id :: string
  er_sender_email :: string
  er_sender_name :: string
  er_recipient :: string
  er_subject :: string
  er_snippet :: string
  er_body_text :: string
  er_body_html :: string
  er_received_at :: 't
  er_headers :: json_text
  er_attachments :: json_text
  er_status :: string
  er_processed_at :: "'t option"

record 't event_row =
  vr_event_id :: string
  vr_opportunity_id :: string
  vr_signal_id :: string
  vr_previous_stage :: string
  vr_new_stage :: string
  vr_track :: string
  vr_category :: string
  vr_content_hash :: string
  vr_occurred_at :: 't
  vr_recorded_at :: 't
  vr_actor :: string
  vr_notes :: string

record ('t, 'b) notification_row =
  nr_key :: string
  nr_id :: string
  nr_opportunity_id :: "string option"
  nr_signal_id :: string
  nr_priority :: string
  nr_category :: string
  nr_title :: string
  nr_message :: string
  nr_action_required :: 'b
  nr_deadline :: "string option"
  nr_created_at :: 't
  nr_acknowledged :: 'b
  nr_acknowledged_at :: "'t option"

record 't checkpoint_row =
  cr_key :: string
  cr_cursor :: string
  cr_updated_at :: 't

record ('t, 'b) reconciliation_row =
  rr_id :: string
  rr_action :: string
  rr_opportunity :: string
  rr_signal :: string
  rr_hash :: string
  rr_reason :: string
  rr_created_at :: 't
  rr_resolved :: 'b
  rr_resolved_at :: "'t option"

record ('t, 'b) inbox_db =
  inbound_evidence :: "'t evidence_row list"
  pipeline_events :: "'t event_row list"
  founder_notifications :: "('t, 'b) notification_row list"
  inbox_checkpoints :: "'t checkpoint_row list"
  reconciliation_records :: "('t, 'b) reconciliation_row list"

definition empty_inbox :: "('t, 'b) inbox_db" where
  "empty_inbox = \<lparr>inbound_evidence = [], pipeline_events = [], founder_notifications = [],
     inbox_checkpoints = [], reconciliation_records = []\<rparr>"

section \<open>Values as rows\<close>

definition headers_json :: "(string \<times> string) list \<Rightarrow> json_text" where
  "headers_json hs = json_dumps (JArr (map (\<lambda>(n, v). JArr [JStr n, JStr v]) hs))"

definition attachments_json :: "string list \<Rightarrow> json_text" where
  "attachments_json ns = json_dumps (JArr (map JStr ns))"

definition evidence_row_of :: "inbound_message \<Rightarrow> 't \<Rightarrow> string \<Rightarrow> 't evidence_row" where
  "evidence_row_of m received status =
     \<lparr>er_hash = message_content_hash m, er_provider = provider m, er_message_id = provider_message_id m,
      er_thread_id = thread_id m, er_sender_email = sender_email m, er_sender_name = sender_name m,
      er_recipient = recipient_email m, er_subject = subject m, er_snippet = snippet m,
      er_body_text = body_text m, er_body_html = body_html m, er_received_at = received,
      er_headers = headers_json (msg_headers m), er_attachments = attachments_json (attachment_names m),
      er_status = status, er_processed_at = None\<rparr>"

definition event_row_of :: "pipeline_event \<Rightarrow> 't \<Rightarrow> 't \<Rightarrow> 't event_row" where
  "event_row_of e occurred recorded =
     \<lparr>vr_event_id = event_id e, vr_opportunity_id = pe_opportunity_id e, vr_signal_id = pe_signal_id e,
      vr_previous_stage = stage_value (previous_stage e), vr_new_stage = stage_value (new_stage e),
      vr_track = track_value (pe_track e), vr_category = category_value (trigger_category e),
      vr_content_hash = pe_content_hash e, vr_occurred_at = occurred, vr_recorded_at = recorded,
      vr_actor = pe_actor e, vr_notes = pe_notes e\<rparr>"

definition notification_row_of ::
  "founder_notification \<Rightarrow> 't \<Rightarrow> 'b \<Rightarrow> 'b \<Rightarrow> 't option \<Rightarrow> ('t, 'b) notification_row" where
  "notification_row_of n created act ack ack_at =
     \<lparr>nr_key = notification_key n, nr_id = notification_id n, nr_opportunity_id = fn_opportunity_id n,
      nr_signal_id = fn_signal_id n, nr_priority = priority_value (fn_priority n),
      nr_category = category_value (fn_category n), nr_title = fn_title n, nr_message = fn_message n,
      nr_action_required = act, nr_deadline = fn_deadline n, nr_created_at = created,
      nr_acknowledged = ack, nr_acknowledged_at = ack_at\<rparr>"

definition reconciliation_row_of :: "reconciliation \<Rightarrow> 't \<Rightarrow> 'b \<Rightarrow> ('t, 'b) reconciliation_row" where
  "reconciliation_row_of r created unresolved =
     \<lparr>rr_id = rc_id r, rr_action = rc_action r, rr_opportunity = rc_opportunity r, rr_signal = rc_signal r,
      rr_hash = rc_hash r, rr_reason = rc_reason r, rr_created_at = created, rr_resolved = unresolved,
      rr_resolved_at = None\<rparr>"

section \<open>Rows as values\<close>

text \<open>
  Lists of pairs of strings and lists of strings are the only documents the code writes; the model
  refuses the others, where Python would build a tuple of another shape.
\<close>

fun header_of_json :: "json \<Rightarrow> (string \<times> string) result" where
  "header_of_json (JArr [JStr n, JStr v]) = Inr (n, v)"
| "header_of_json _ = Inl (TypeError ''header'')"

fun name_of_json :: "json \<Rightarrow> string result" where
  "name_of_json (JStr s) = Inr s"
| "name_of_json _ = Inl (TypeError ''attachment'')"

fun elements_of_json :: "(json \<Rightarrow> 'a result) \<Rightarrow> json \<Rightarrow> 'a list result" where
  "elements_of_json f (JArr xs) = collect (map f xs)"
| "elements_of_json f _ = Inl (TypeError ''list'')"

definition row_to_evidence :: "(json \<Rightarrow> string) \<Rightarrow> ('t \<Rightarrow> string) \<Rightarrow> 't evidence_row \<Rightarrow> inbound_message result" where
  "row_to_evidence digest tf r =
     bind (bind (json_loads (er_headers r)) (elements_of_json header_of_json)) (\<lambda>hs.
     bind (bind (json_loads (er_attachments r)) (elements_of_json name_of_json)) (\<lambda>ns.
       Inr (message_post_init digest
         \<lparr>provider = er_provider r, provider_message_id = er_message_id r, thread_id = er_thread_id r,
          sender_email = er_sender_email r, sender_name = er_sender_name r, recipient_email = er_recipient r,
          subject = er_subject r, snippet = er_snippet r, body_text = er_body_text r,
          body_html = er_body_html r, received_at = tf (er_received_at r), msg_headers = hs,
          attachment_names = ns, message_content_hash = er_hash r\<rparr>)))"

definition row_to_event :: "('t \<Rightarrow> string) \<Rightarrow> 't event_row \<Rightarrow> pipeline_event result" where
  "row_to_event tf r =
     bind (stage_of (vr_previous_stage r)) (\<lambda>prev.
     bind (stage_of (vr_new_stage r)) (\<lambda>new.
     bind (track_of (vr_track r)) (\<lambda>trk.
     bind (category_of (vr_category r)) (\<lambda>cat.
       Inr \<lparr>event_id = vr_event_id r, pe_opportunity_id = vr_opportunity_id r, pe_signal_id = vr_signal_id r,
            previous_stage = prev, new_stage = new, pe_track = trk, trigger_category = cat,
            pe_content_hash = vr_content_hash r, occurred_at = tf (vr_occurred_at r),
            recorded_at = tf (vr_recorded_at r), pe_actor = vr_actor r, pe_notes = vr_notes r\<rparr>))))"

definition row_to_notification ::
  "('t \<Rightarrow> string) \<Rightarrow> ('b \<Rightarrow> bool) \<Rightarrow> ('t, 'b) notification_row \<Rightarrow> founder_notification result" where
  "row_to_notification tf bf r =
     bind (priority_of (nr_priority r)) (\<lambda>p.
     bind (category_of (nr_category r)) (\<lambda>c.
       Inr \<lparr>notification_id = nr_id r, notification_key = nr_key r, fn_opportunity_id = nr_opportunity_id r,
            fn_signal_id = nr_signal_id r, fn_priority = p, fn_category = c, fn_title = nr_title r,
            fn_message = nr_message r, action_required = bf (nr_action_required r),
            fn_deadline = nr_deadline r, fn_created_at = tf (nr_created_at r),
            acknowledged = bf (nr_acknowledged r), acknowledged_at = map_option tf (nr_acknowledged_at r)\<rparr>))"

definition row_to_reconciliation :: "('t \<Rightarrow> string) \<Rightarrow> ('t, 'b) reconciliation_row \<Rightarrow> reconciliation" where
  "row_to_reconciliation tf r =
     \<lparr>rc_id = rr_id r, rc_action = rr_action r, rc_opportunity = rr_opportunity r, rc_signal = rr_signal r,
      rc_hash = rr_hash r, rc_reason = rr_reason r, rc_created = tf (rr_created_at r)\<rparr>"

lemma elements_round_trip [simp]:
  "elements_of_json header_of_json (JArr (map (\<lambda>(n, v). JArr [JStr n, JStr v]) hs)) = Inr hs"
  "elements_of_json name_of_json (JArr (map JStr ns)) = Inr ns"
  by (induction hs; induction ns; auto simp: comp_def)+

lemma message_row_round_trip:
  assumes "message_content_hash m \<noteq> []"
  shows "row_to_evidence digest tf (evidence_row_of m t status) = Inr (m\<lparr>received_at := tf t\<rparr>)"
  using assms
  by (simp add: row_to_evidence_def evidence_row_of_def headers_json_def attachments_json_def message_post_init_def
      del: elements_of_json.simps)

lemma event_round_trip:
  "row_to_event tf (event_row_of e t1 t2) = Inr (e\<lparr>occurred_at := tf t1, recorded_at := tf t2\<rparr>)"
  by (simp add: row_to_event_def event_row_of_def)

lemma notification_round_trip:
  "row_to_notification tf bf (notification_row_of n t a b u) =
     Inr (n\<lparr>action_required := bf a, fn_created_at := tf t, acknowledged := bf b, acknowledged_at := map_option tf u\<rparr>)"
  by (simp add: row_to_notification_def notification_row_of_def)

lemma row_to_event_keys:
  assumes "row_to_event tf r = Inr e"
  shows "event_id e = vr_event_id r \<and> pe_opportunity_id e = vr_opportunity_id r \<and> pe_signal_id e = vr_signal_id r"
  using assms by (auto simp: row_to_event_def)

lemma row_to_notification_key:
  "row_to_notification tf bf r = Inr n \<Longrightarrow> notification_key n = nr_key r"
  by (auto simp: row_to_notification_def)

section \<open>The view of a database\<close>

definition db_view :: "('t \<Rightarrow> string) \<Rightarrow> ('b \<Rightarrow> bool) \<Rightarrow> ('t, 'b) inbox_db \<Rightarrow> inbox_view" where
  "db_view tf bf d =
     \<lparr>v_stored = er_hash ` set (inbound_evidence d),
      v_processed = er_hash ` set (filter (\<lambda>r. er_status r = ''PROCESSED'') (inbound_evidence d)),
      v_events = map (\<lambda>r. projr (row_to_event tf r)) (pipeline_events d),
      v_notes = map (\<lambda>r. projr (row_to_notification tf bf r)) (founder_notifications d),
      v_recons = map (row_to_reconciliation tf) (reconciliation_records d),
      v_cursors = map_of (map (\<lambda>r. (cr_key r, cr_cursor r)) (inbox_checkpoints d))\<rparr>"

text \<open>Keys are unique and every row can be read back.\<close>

definition db_ok :: "('t \<Rightarrow> string) \<Rightarrow> ('b \<Rightarrow> bool) \<Rightarrow> ('t, 'b) inbox_db \<Rightarrow> bool" where
  "db_ok tf bf d \<longleftrightarrow>
     distinct (map er_hash (inbound_evidence d)) \<and>
     distinct (map vr_event_id (pipeline_events d)) \<and>
     list_all (\<lambda>r. \<not> isl (row_to_event tf r)) (pipeline_events d) \<and>
     list_all (\<lambda>r. \<not> isl (row_to_notification tf bf r)) (founder_notifications d) \<and>
     distinct (map cr_key (inbox_checkpoints d))"

lemma empty_inbox_ok [simp]: "db_ok tf bf empty_inbox"
  by (simp add: db_ok_def empty_inbox_def)

lemma empty_inbox_view [simp]:
  "db_view tf bf empty_inbox = \<lparr>v_stored = {}, v_processed = {}, v_events = [], v_notes = [], v_recons = [],
     v_cursors = Map.empty\<rparr>"
  by (simp add: db_view_def empty_inbox_def)

definition event_conflict :: "pipeline_event \<Rightarrow> 't event_row list \<Rightarrow> bool" where
  "event_conflict e rows \<longleftrightarrow>
     list_ex (\<lambda>r. vr_event_id r = event_id e \<or>
       vr_signal_id r = pe_signal_id e \<and> vr_opportunity_id r = pe_opportunity_id e) rows"

lemma db_event_keys:
  assumes "db_ok tf bf d" "r \<in> set (pipeline_events d)"
  shows "event_id (projr (row_to_event tf r)) = vr_event_id r"
    "pe_signal_id (projr (row_to_event tf r)) = vr_signal_id r"
    "pe_opportunity_id (projr (row_to_event tf r)) = vr_opportunity_id r"
  using assms row_to_event_keys [of tf r]
  by (cases "row_to_event tf r"; auto simp: db_ok_def list_all_iff)+

lemma db_event_clash:
  assumes "db_ok tf bf d"
  shows "event_clash e (v_events (db_view tf bf d)) \<longleftrightarrow> event_conflict e (pipeline_events d)"
  using db_event_keys [OF assms] by (auto simp: event_clash_def event_conflict_def db_view_def list_ex_iff)

lemma db_event_ids:
  assumes "db_ok tf bf d"
  shows "distinct (map event_id (v_events (db_view tf bf d)))"
proof -
  have "map event_id (v_events (db_view tf bf d)) = map vr_event_id (pipeline_events d)"
    using db_event_keys(1) [OF assms] by (simp add: db_view_def)
  then show ?thesis using assms by (simp add: db_ok_def)
qed

lemma db_note_key:
  assumes "db_ok tf bf d"
  shows "notification_key ` set (v_notes (db_view tf bf d)) = nr_key ` set (founder_notifications d)"
proof -
  have "notification_key (projr (row_to_notification tf bf r)) = nr_key r" if "r \<in> set (founder_notifications d)" for r
    using assms that row_to_notification_key [of tf bf r]
    by (cases "row_to_notification tf bf r") (auto simp: db_ok_def list_all_iff)
  then show ?thesis by (auto simp: db_view_def image_iff)
qed

lemma db_recon_id: "rc_id ` set (v_recons (db_view tf bf d)) = rr_id ` set (reconciliation_records d)"
  by (auto simp: db_view_def row_to_reconciliation_def image_iff)

section \<open>Writes of a database and of its view\<close>

text \<open>
  \<open>UPDATE ... SET processing_status = 'PROCESSED'\<close> and the upsert of a checkpoint, the same in both
  stores once the time is converted.
\<close>

definition set_processed :: "string \<Rightarrow> 't \<Rightarrow> ('t, 'b) inbox_db \<Rightarrow> ('t, 'b) inbox_db" where
  "set_processed h t d = d\<lparr>inbound_evidence :=
     update_where (\<lambda>r. er_hash r = h) (\<lambda>r. r\<lparr>er_status := ''PROCESSED'', er_processed_at := Some t\<rparr>)
       (inbound_evidence d)\<rparr>"

definition upsert_checkpoint :: "string \<Rightarrow> string \<Rightarrow> 't \<Rightarrow> ('t, 'b) inbox_db \<Rightarrow> ('t, 'b) inbox_db" where
  "upsert_checkpoint k c t d =
     (if list_ex (\<lambda>r. cr_key r = k) (inbox_checkpoints d)
      then d\<lparr>inbox_checkpoints := update_where (\<lambda>r. cr_key r = k)
             (\<lambda>r. r\<lparr>cr_cursor := c, cr_updated_at := t\<rparr>) (inbox_checkpoints d)\<rparr>
      else d\<lparr>inbox_checkpoints := inbox_checkpoints d @ [\<lparr>cr_key = k, cr_cursor = c, cr_updated_at = t\<rparr>]\<rparr>)"

lemma list_ex_key: "list_ex (\<lambda>r. g r = k) rs \<longleftrightarrow> k \<in> g ` set rs"
  by (induction rs) auto

lemma evidence_row_fields [simp]:
  "er_hash (evidence_row_of m t st) = message_content_hash m" "er_status (evidence_row_of m t st) = st"
  by (simp_all add: evidence_row_of_def)

lemma db_add_evidence:
  assumes "db_ok tf bf d" "\<not> list_ex (\<lambda>r. er_hash r = message_content_hash m) (inbound_evidence d)"
  shows "db_ok tf bf (d\<lparr>inbound_evidence := inbound_evidence d @ [evidence_row_of m t ''FETCHED'']\<rparr>)"
    "db_view tf bf (d\<lparr>inbound_evidence := inbound_evidence d @ [evidence_row_of m t ''FETCHED'']\<rparr>) = a_store m (db_view tf bf d)"
  using assms by (auto simp: db_ok_def db_view_def a_store_def list_ex_iff)

lemma db_has_evidence:
  "list_ex (\<lambda>r. er_hash r = message_content_hash m) (inbound_evidence d) \<Longrightarrow>
     a_store m (db_view tf bf d) = db_view tf bf d"
  unfolding list_ex_key by (simp add: db_view_def a_store_def insert_absorb)

lemma db_processed:
  assumes "db_ok tf bf d"
  shows "(case find (\<lambda>r. er_hash r = h) (inbound_evidence d) of
      Some r \<Rightarrow> er_status r = ''PROCESSED'' | None \<Rightarrow> False) \<longleftrightarrow> h \<in> v_processed (db_view tf bf d)"
proof (cases "find (\<lambda>r. er_hash r = h) (inbound_evidence d)")
  case None
  then have "h \<notin> er_hash ` set (inbound_evidence d)" by (auto simp: find_None_iff)
  then show ?thesis using None by (auto simp: db_view_def)
next
  case (Some r)
  then have r: "r \<in> set (inbound_evidence d)" "er_hash r = h" by (auto simp: find_Some_iff)
  have "x = r" if "x \<in> set (inbound_evidence d)" "er_hash x = h" for x
    using assms r that by (intro distinct_map_unique [of er_hash "inbound_evidence d"]) (auto simp: db_ok_def)
  then have "(\<exists>x\<in>set (inbound_evidence d). er_hash x = h \<and> er_status x = ''PROCESSED'') \<longleftrightarrow> er_status r = ''PROCESSED''"
    using r by metis
  moreover have "h \<in> v_processed (db_view tf bf d) \<longleftrightarrow>
      (\<exists>x\<in>set (inbound_evidence d). er_hash x = h \<and> er_status x = ''PROCESSED'')"
    unfolding db_view_def inbox_view.simps by (auto simp only: image_iff set_filter)
  ultimately show ?thesis using Some by simp
qed

lemma processed_rows:
  "er_hash ` set (filter (\<lambda>r. er_status r = ''PROCESSED'')
      (update_where (\<lambda>r. er_hash r = h) (\<lambda>r. r\<lparr>er_status := ''PROCESSED'', er_processed_at := Some t\<rparr>) rs)) =
    (if h \<in> er_hash ` set rs then insert h (er_hash ` set (filter (\<lambda>r. er_status r = ''PROCESSED'') rs))
     else er_hash ` set (filter (\<lambda>r. er_status r = ''PROCESSED'') rs))"
proof -
  have "x \<in> er_hash ` set (filter (\<lambda>r. er_status r = ''PROCESSED'')
      (update_where (\<lambda>r. er_hash r = h) (\<lambda>r. r\<lparr>er_status := ''PROCESSED'', er_processed_at := Some t\<rparr>) rs)) \<longleftrightarrow>
    (\<exists>r\<in>set rs. er_hash r = x \<and> (x = h \<or> er_status r = ''PROCESSED''))" for x
    by (induction rs) (auto simp: update_where_def)
  then show ?thesis by (auto simp: set_eq_iff)
qed

lemma db_set_processed:
  assumes "db_ok tf bf d"
  shows "db_ok tf bf (set_processed h t d)" "db_view tf bf (set_processed h t d) = a_mark h (db_view tf bf d)"
proof -
  have k: "map er_hash (inbound_evidence (set_processed h t d)) = map er_hash (inbound_evidence d)"
    by (simp add: set_processed_def map_update_where)
  show "db_ok tf bf (set_processed h t d)"
    using assms unfolding db_ok_def k by (simp add: set_processed_def)
  have s: "er_hash ` set (inbound_evidence (set_processed h t d)) = er_hash ` set (inbound_evidence d)"
    using arg_cong [OF k, of set] by simp
  have e: "inbound_evidence (set_processed h t d) = update_where (\<lambda>r. er_hash r = h)
      (\<lambda>r. r\<lparr>er_status := ''PROCESSED'', er_processed_at := Some t\<rparr>) (inbound_evidence d)"
    by (simp add: set_processed_def)
  have p: "v_processed (db_view tf bf (set_processed h t d)) =
      (if h \<in> er_hash ` set (inbound_evidence d) then insert h (v_processed (db_view tf bf d))
       else v_processed (db_view tf bf d))"
    unfolding e db_view_def inbox_view.simps by (rule processed_rows)
  show "db_view tf bf (set_processed h t d) = a_mark h (db_view tf bf d)"
    using s p by (auto simp: a_mark_def db_view_def set_processed_def)
qed

lemma db_add_event:
  assumes "db_ok tf bf d" "\<not> event_conflict e (pipeline_events d)" "tf t1 = nt (occurred_at e)" "tf t2 = nt (recorded_at e)"
  shows "db_ok tf bf (d\<lparr>pipeline_events := pipeline_events d @ [event_row_of e t1 t2]\<rparr>)"
    "db_view tf bf (d\<lparr>pipeline_events := pipeline_events d @ [event_row_of e t1 t2]\<rparr>) = a_event nt e (db_view tf bf d)"
proof -
  have "vr_event_id (event_row_of e t1 t2) = event_id e" by (simp add: event_row_of_def)
  then show "db_ok tf bf (d\<lparr>pipeline_events := pipeline_events d @ [event_row_of e t1 t2]\<rparr>)"
    using assms(1,2) by (auto simp: db_ok_def event_round_trip event_conflict_def list_ex_iff)
  have "\<not> event_clash e (v_events (db_view tf bf d))" using db_event_clash [OF assms(1)] assms(2) by simp
  then show "db_view tf bf (d\<lparr>pipeline_events := pipeline_events d @ [event_row_of e t1 t2]\<rparr>) = a_event nt e (db_view tf bf d)"
    by (simp add: a_event_def) (simp add: db_view_def event_round_trip assms(3,4) norm_event_def)
qed

lemma db_add_note:
  assumes "db_ok tf bf d" "\<not> list_ex (\<lambda>r. nr_key r = notification_key n) (founder_notifications d)"
    and "tf t = nt (fn_created_at n)" "bf a = action_required n" "bf b = acknowledged n" "map_option tf u = acknowledged_at n"
  shows "db_ok tf bf (d\<lparr>founder_notifications := founder_notifications d @ [notification_row_of n t a b u]\<rparr>)"
    "db_view tf bf (d\<lparr>founder_notifications := founder_notifications d @ [notification_row_of n t a b u]\<rparr>) = a_note nt n (db_view tf bf d)"
proof -
  show "db_ok tf bf (d\<lparr>founder_notifications := founder_notifications d @ [notification_row_of n t a b u]\<rparr>)"
    using assms(1,2) by (auto simp: db_ok_def notification_round_trip)
  have "notification_key n \<notin> notification_key ` set (v_notes (db_view tf bf d))"
    using assms(2) unfolding db_note_key [OF assms(1)] by (auto simp: list_ex_iff)
  then show "db_view tf bf (d\<lparr>founder_notifications := founder_notifications d @ [notification_row_of n t a b u]\<rparr>) = a_note nt n (db_view tf bf d)"
    by (simp add: a_note_def) (simp add: db_view_def notification_round_trip assms(3-6) norm_note_def)
qed

lemma db_has_note:
  assumes "db_ok tf bf d"
  shows "notification_key n \<in> notification_key ` set (v_notes (db_view tf bf d)) \<longleftrightarrow>
    list_ex (\<lambda>r. nr_key r = notification_key n) (founder_notifications d)"
  unfolding db_note_key [OF assms] list_ex_key ..

lemma db_add_recon:
  assumes "db_ok tf bf d" "\<not> list_ex (\<lambda>r. rr_id r = rc_id x) (reconciliation_records d)" "tf t = nt (rc_created x)"
  shows "db_ok tf bf (d\<lparr>reconciliation_records := reconciliation_records d @ [reconciliation_row_of x t b]\<rparr>)"
    "db_view tf bf (d\<lparr>reconciliation_records := reconciliation_records d @ [reconciliation_row_of x t b]\<rparr>) = a_recon nt x (db_view tf bf d)"
proof -
  show "db_ok tf bf (d\<lparr>reconciliation_records := reconciliation_records d @ [reconciliation_row_of x t b]\<rparr>)"
    using assms(1) by (simp add: db_ok_def)
  have "rc_id x \<notin> rc_id ` set (v_recons (db_view tf bf d))"
    using assms(2) unfolding db_recon_id by (auto simp: list_ex_iff)
  then show "db_view tf bf (d\<lparr>reconciliation_records := reconciliation_records d @ [reconciliation_row_of x t b]\<rparr>) = a_recon nt x (db_view tf bf d)"
    by (simp add: a_recon_def)
      (simp add: db_view_def row_to_reconciliation_def reconciliation_row_of_def assms(3) norm_recon_def)
qed

lemma db_has_recon:
  "rc_id x \<in> rc_id ` set (v_recons (db_view tf bf d)) \<longleftrightarrow> list_ex (\<lambda>r. rr_id r = rc_id x) (reconciliation_records d)"
  unfolding db_recon_id list_ex_key ..

lemma map_of_update_where:
  "list_ex (\<lambda>r. g r = k) rs \<Longrightarrow> (\<And>r. g (f r) = g r \<and> h (f r) = c) \<Longrightarrow>
     map_of (map (\<lambda>r. (g r, h r)) (update_where (\<lambda>r. g r = k) f rs)) = (map_of (map (\<lambda>r. (g r, h r)) rs))(k \<mapsto> c)"
proof (induction rs)
  case (Cons r rs)
  show ?case
  proof (cases "list_ex (\<lambda>r. g r = k) rs")
    case True
    then show ?thesis using Cons by (auto simp: update_where_def)
  next
    case False
    then show ?thesis using Cons.prems update_where_none [OF False, of f] by (auto simp: update_where_def)
  qed
qed simp

lemma db_upsert_checkpoint:
  assumes "db_ok tf bf d"
  shows "db_ok tf bf (upsert_checkpoint k c t d)" "db_view tf bf (upsert_checkpoint k c t d) = a_checkpoint k c (db_view tf bf d)"
proof -
  have k: "map cr_key (update_where (\<lambda>r. cr_key r = k) (\<lambda>r. r\<lparr>cr_cursor := c, cr_updated_at := t\<rparr>) rs) = map cr_key rs" for rs
    by (simp add: map_update_where)
  show "db_ok tf bf (upsert_checkpoint k c t d)"
    using assms by (auto simp: upsert_checkpoint_def db_ok_def k list_ex_iff)
  show "db_view tf bf (upsert_checkpoint k c t d) = a_checkpoint k c (db_view tf bf d)"
  proof (cases "list_ex (\<lambda>r. cr_key r = k) (inbox_checkpoints d)")
    case True
    then show ?thesis
      by (simp add: upsert_checkpoint_def a_checkpoint_def db_view_def
          map_of_update_where [of cr_key k "inbox_checkpoints d" _ cr_cursor c])
  next
    case False
    have "map_of (map (\<lambda>r. (cr_key r, cr_cursor r)) (inbox_checkpoints d)) k = None"
      using False by (auto simp: map_of_eq_None_iff list_ex_iff)
    then have "map_of (map (\<lambda>r. (cr_key r, cr_cursor r)) (inbox_checkpoints d)) ++ [k \<mapsto> c] =
        (map_of (map (\<lambda>r. (cr_key r, cr_cursor r)) (inbox_checkpoints d)))(k \<mapsto> c)"
      "[k \<mapsto> c] ++ map_of (map (\<lambda>r. (cr_key r, cr_cursor r)) (inbox_checkpoints d)) =
        (map_of (map (\<lambda>r. (cr_key r, cr_cursor r)) (inbox_checkpoints d)))(k \<mapsto> c)"
      by (auto simp: fun_eq_iff map_add_def split: option.split)
    then show ?thesis using False by (simp add: upsert_checkpoint_def a_checkpoint_def db_view_def map_of_append)
  qed
qed

lemma db_cursor:
  "(case find (\<lambda>r. cr_key r = k) (inbox_checkpoints d) of Some r \<Rightarrow> Some (cr_cursor r) | None \<Rightarrow> None) =
     v_cursors (db_view tf bf d) k"
proof -
  have "(case find (\<lambda>r. cr_key r = k) rs of Some r \<Rightarrow> Some (cr_cursor r) | None \<Rightarrow> None) =
      map_of (map (\<lambda>r. (cr_key r, cr_cursor r)) rs) k" for rs :: "'a checkpoint_row list"
    by (induction rs) auto
  then show ?thesis by (simp add: db_view_def)
qed

text \<open>Reading the events of an opportunity in any order gives those of the view.\<close>

lemma db_events_for:
  assumes "db_ok tf bf d"
  shows "\<exists>evs. collect (map (row_to_event tf) (sort_key key (filter (\<lambda>r. vr_opportunity_id r = oid) (pipeline_events d)))) = Inr evs \<and>
    mset evs = mset (filter (\<lambda>e. pe_opportunity_id e = oid) (v_events (db_view tf bf d)))"
proof -
  let ?rows = "filter (\<lambda>r. vr_opportunity_id r = oid) (pipeline_events d)"
  have "row_to_event tf r = Inr (projr (row_to_event tf r))" if "r \<in> set (sort_key key ?rows)" for r
    using assms that by (cases "row_to_event tf r") (auto simp: db_ok_def list_all_iff)
  then have "collect (map (row_to_event tf) (sort_key key ?rows)) = Inr (map (\<lambda>r. projr (row_to_event tf r)) (sort_key key ?rows))"
    by (rule collect_map)
  moreover have "filter (\<lambda>e. pe_opportunity_id e = oid) (v_events (db_view tf bf d)) = map (\<lambda>r. projr (row_to_event tf r)) ?rows"
    using db_event_keys(3) [OF assms] by (simp add: db_view_def filter_map comp_def cong: filter_cong)
  ultimately show ?thesis by simp
qed

end
