(* ===== verification/Inbox_Store.thy ===== *)
theory Inbox_Store
  imports Inbox_Tables
begin

text \<open>
  The SQLite store (\<open>inbox/persistence.py\<close>, \<open>DurableInboxStore\<close>): every statement commits on its
  own, times are stored as the texts they are, truth values as 0 and 1. It keeps the contract of
  \<open>Inbox_Refinement\<close> for every message.
\<close>

type_synonym sqlite_inbox = "(string, int) inbox_db"

definition int_true :: "int \<Rightarrow> bool" where
  "int_true i \<longleftrightarrow> i \<noteq> 0"

definition int_of_bool :: "bool \<Rightarrow> int" where
  "int_of_bool b = (if b then 1 else 0)"

lemma int_true_of_bool [simp]: "int_true (int_of_bool b) = b"
  by (simp add: int_true_def int_of_bool_def)

section \<open>Evidence\<close>

text \<open>
  The migration of \<open>_init_db\<close>: rows of a table that lacked a column get its default; the flags say
  which columns the table had.
\<close>

definition migrate_evidence :: "bool \<Rightarrow> bool \<Rightarrow> sqlite_inbox \<Rightarrow> sqlite_inbox" where
  "migrate_evidence has_status has_processed_at d =
     d\<lparr>inbound_evidence := map (\<lambda>r. r\<lparr>er_status := (if has_status then er_status r else ''FETCHED''),
          er_processed_at := (if has_processed_at then er_processed_at r else None)\<rparr>) (inbound_evidence d)\<rparr>"

definition store_evidence :: "string \<Rightarrow> inbound_message \<Rightarrow> sqlite_inbox \<Rightarrow> bool \<times> sqlite_inbox" where
  "store_evidence status m d =
     (if list_ex (\<lambda>r. er_hash r = message_content_hash m) (inbound_evidence d) then (False, d)
      else (True, d\<lparr>inbound_evidence := inbound_evidence d @ [evidence_row_of m (received_at m) status]\<rparr>))"

definition mark_evidence_processed :: "string \<Rightarrow> string \<Rightarrow> sqlite_inbox \<Rightarrow> unit result \<times> sqlite_inbox" where
  "mark_evidence_processed h t d = (Inr (), set_processed h t d)"

definition is_evidence_processed :: "string \<Rightarrow> ('t, 'b) inbox_db \<Rightarrow> bool" where
  "is_evidence_processed h d =
     (case find (\<lambda>r. er_hash r = h) (inbound_evidence d) of
        Some r \<Rightarrow> er_status r = ''PROCESSED'' | None \<Rightarrow> False)"

definition get_evidence :: "(json \<Rightarrow> string) \<Rightarrow> string \<Rightarrow> sqlite_inbox \<Rightarrow> inbound_message option result" where
  "get_evidence digest h d =
     (case find (\<lambda>r. er_hash r = h) (inbound_evidence d) of
        None \<Rightarrow> Inr None
      | Some r \<Rightarrow> bind (row_to_evidence digest id r) (\<lambda>m. Inr (Some m)))"

definition get_all_evidence :: "(json \<Rightarrow> string) \<Rightarrow> sqlite_inbox \<Rightarrow> inbound_message list result" where
  "get_all_evidence digest d = collect (map (row_to_evidence digest id) (sort_key er_received_at (inbound_evidence d)))"

section \<open>Events\<close>

definition store_pipeline_event :: "pipeline_event \<Rightarrow> sqlite_inbox \<Rightarrow> bool \<times> sqlite_inbox" where
  "store_pipeline_event e d =
     (if event_conflict e (pipeline_events d) then (False, d)
      else (True, d\<lparr>pipeline_events := pipeline_events d @ [event_row_of e (occurred_at e) (recorded_at e)]\<rparr>))"

definition event_row_key :: "'t event_row \<Rightarrow> 't \<times> 't \<times> string" where
  "event_row_key r = (vr_occurred_at r, vr_recorded_at r, vr_event_id r)"

definition get_events_for_opportunity :: "string \<Rightarrow> sqlite_inbox \<Rightarrow> pipeline_event list result" where
  "get_events_for_opportunity oid d =
     collect (map (row_to_event id) (sort_key event_row_key (filter (\<lambda>r. vr_opportunity_id r = oid) (pipeline_events d))))"

definition get_all_pipeline_events :: "sqlite_inbox \<Rightarrow> pipeline_event list result" where
  "get_all_pipeline_events d = collect (map (row_to_event id) (sort_key event_row_key (pipeline_events d)))"

section \<open>Notifications\<close>

definition store_notification :: "founder_notification \<Rightarrow> sqlite_inbox \<Rightarrow> bool \<times> sqlite_inbox" where
  "store_notification n d =
     (if list_ex (\<lambda>r. nr_key r = notification_key n) (founder_notifications d) then (False, d)
      else (True, d\<lparr>founder_notifications := founder_notifications d @
             [notification_row_of n (fn_created_at n) (int_of_bool (action_required n))
                (int_of_bool (acknowledged n)) (acknowledged_at n)]\<rparr>))"

definition get_all_notifications :: "sqlite_inbox \<Rightarrow> founder_notification list result" where
  "get_all_notifications d =
     collect (map (row_to_notification id int_true)
       (sort_key (\<lambda>r. (nr_created_at r, nr_id r)) (founder_notifications d)))"

definition acknowledge_notification :: "string \<Rightarrow> string \<Rightarrow> sqlite_inbox \<Rightarrow> bool \<times> sqlite_inbox" where
  "acknowledge_notification key t d =
     (list_ex (\<lambda>r. nr_key r = key) (founder_notifications d),
      d\<lparr>founder_notifications := update_where (\<lambda>r. nr_key r = key)
          (\<lambda>r. r\<lparr>nr_acknowledged := 1, nr_acknowledged_at := Some t\<rparr>) (founder_notifications d)\<rparr>)"

section \<open>Checkpoints and reconciliations\<close>

definition save_checkpoint :: "string \<Rightarrow> string \<Rightarrow> string \<Rightarrow> sqlite_inbox \<Rightarrow> unit result \<times> sqlite_inbox" where
  "save_checkpoint k c t d = (Inr (), upsert_checkpoint k c t d)"

definition get_checkpoint :: "string \<Rightarrow> ('t, 'b) inbox_db \<Rightarrow> string option" where
  "get_checkpoint k d =
     (case find (\<lambda>r. cr_key r = k) (inbox_checkpoints d) of Some r \<Rightarrow> Some (cr_cursor r) | None \<Rightarrow> None)"

definition record_reconciliation :: "reconciliation \<Rightarrow> sqlite_inbox \<Rightarrow> bool \<times> sqlite_inbox" where
  "record_reconciliation x d =
     (if list_ex (\<lambda>r. rr_id r = rc_id x) (reconciliation_records d) then (False, d)
      else (True, d\<lparr>reconciliation_records := reconciliation_records d @
             [reconciliation_row_of x (rc_created x) 0]\<rparr>))"

definition get_unresolved_reconciliations :: "sqlite_inbox \<Rightarrow> (string, int) reconciliation_row list" where
  "get_unresolved_reconciliations d = filter (\<lambda>r. rr_resolved r = 0) (reconciliation_records d)"

definition sqlite_store :: "sqlite_inbox inbox_store" where
  "sqlite_store =
     \<lparr>st_store_evidence = store_evidence ''FETCHED'', st_is_processed = is_evidence_processed,
      st_mark_processed = mark_evidence_processed, st_store_event = store_pipeline_event,
      st_events_for = get_events_for_opportunity, st_store_notification = store_notification,
      st_record_reconciliation = record_reconciliation, st_save_checkpoint = save_checkpoint,
      st_get_checkpoint = get_checkpoint\<rparr>"

lemma sqlite_store_reads [simp]:
  "st_is_processed sqlite_store = is_evidence_processed" "st_get_checkpoint sqlite_store = get_checkpoint"
  by (simp_all add: sqlite_store_def)

section \<open>The contract holds\<close>

abbreviation sqlite_view :: "sqlite_inbox \<Rightarrow> inbox_view" where
  "sqlite_view \<equiv> db_view id int_true"

abbreviation sqlite_ok :: "sqlite_inbox \<Rightarrow> bool" where
  "sqlite_ok \<equiv> db_ok id int_true"

lemma norm_id [simp]: "norm_event id e = e" "norm_note id n = n" "norm_recon id r = r"
  by (simp_all add: norm_event_def norm_note_def norm_recon_def)

lemma sqlite_store_evidence:
  assumes "sqlite_ok d" "store_evidence ''FETCHED'' m d = (b, d')"
  shows "sqlite_ok d' \<and> sqlite_view d' = a_store m (sqlite_view d)"
  using assms db_add_evidence [OF assms(1)] db_has_evidence [of m d]
  by (auto simp: store_evidence_def split: if_splits)

lemma sqlite_store_event:
  assumes "sqlite_ok d" "store_pipeline_event e d = (b, d')"
  shows "sqlite_ok d' \<and> sqlite_view d' = a_event id e (sqlite_view d) \<and> b = (\<not> event_clash e (v_events (sqlite_view d)))"
proof (cases "event_conflict e (pipeline_events d)")
  case True
  then show ?thesis using assms db_event_clash [OF assms(1), of e]
    by (simp add: store_pipeline_event_def a_event_def)
next
  case False
  then show ?thesis using assms(2) db_event_clash [OF assms(1), of e]
      db_add_event [OF assms(1) False, of "occurred_at e" id "recorded_at e"]
    by (auto simp: store_pipeline_event_def)
qed

lemma sqlite_store_note:
  assumes "sqlite_ok d" "store_notification n d = (b, d')"
  shows "sqlite_ok d' \<and> sqlite_view d' = a_note id n (sqlite_view d) \<and>
    b = (notification_key n \<notin> notification_key ` set (v_notes (sqlite_view d)))"
proof (cases "list_ex (\<lambda>r. nr_key r = notification_key n) (founder_notifications d)")
  case True
  then show ?thesis using assms db_has_note [OF assms(1), of n]
    by (simp add: store_notification_def a_note_def)
next
  case False
  then show ?thesis using assms(2) db_has_note [OF assms(1), of n]
      db_add_note [OF assms(1) False, of "fn_created_at n" id "int_of_bool (action_required n)"
        "int_of_bool (acknowledged n)" "acknowledged_at n"]
    by (auto simp: store_notification_def option.map_id)
qed

lemma sqlite_store_recon:
  assumes "sqlite_ok d" "record_reconciliation x d = (b, d')"
  shows "sqlite_ok d' \<and> sqlite_view d' = a_recon id x (sqlite_view d)"
proof (cases "list_ex (\<lambda>r. rr_id r = rc_id x) (reconciliation_records d)")
  case True
  then show ?thesis using assms db_has_recon [of x id int_true d]
    by (simp add: record_reconciliation_def a_recon_def)
next
  case False
  then show ?thesis using assms(2) db_add_recon [OF assms(1) False, of "rc_created x" id 0]
    by (auto simp: record_reconciliation_def)
qed

lemma sqlite_contract:
  "inbox_store_contract sqlite_store sqlite_view sqlite_ok id (\<lambda>_. True) (\<lambda>_. True) (\<lambda>_. True) (\<lambda>_. True)
     (\<lambda>_. True) (\<lambda>_ _. True)"
proof (unfold_locales, goal_cases)
  case (1 s m b s')
  then show ?case using sqlite_store_evidence by (simp add: sqlite_store_def)
next
  case (2 s h)
  then show ?case using db_processed by (simp add: sqlite_store_def is_evidence_processed_def)
next
  case (3 s t h r s')
  then show ?case using db_set_processed by (auto simp: sqlite_store_def mark_evidence_processed_def)
next
  case (4 s e b s')
  then show ?case using sqlite_store_event by (simp add: sqlite_store_def)
next
  case (5 s oid)
  then show ?case using db_events_for by (simp add: sqlite_store_def get_events_for_opportunity_def)
next
  case (6 s)
  then show ?case by (rule db_event_ids)
next
  case (7 s n b s')
  then show ?case using sqlite_store_note by (simp add: sqlite_store_def)
next
  case (8 s x b s')
  then show ?case using sqlite_store_recon by (simp add: sqlite_store_def)
next
  case (9 s k c t r s')
  then show ?case using db_upsert_checkpoint by (auto simp: sqlite_store_def save_checkpoint_def)
next
  case (10 s k)
  then show ?case using db_cursor by (simp add: sqlite_store_def get_checkpoint_def)
qed

interpretation sqlite: inbox_store_contract sqlite_store sqlite_view sqlite_ok id "\<lambda>_. True" "\<lambda>_. True" "\<lambda>_. True"
    "\<lambda>_. True" "\<lambda>_. True" "\<lambda>_ _. True"
  by (rule sqlite_contract)

lemma writes_ok_True [simp]: "writes_ok (\<lambda>_. True) (\<lambda>_. True) (\<lambda>_. True) o' m"
  by (simp add: writes_ok_def list_all_iff split: option.split)

end
