(* ===== verification/Pg_Inbox_Store.thy ===== *)
theory Pg_Inbox_Store
  imports Inbox_Store
begin

text \<open>
  The relational store (\<open>inbox/postgres_persistence.py\<close>, \<open>PostgresInboxStore\<close>, over the models of
  \<open>storage/models.py\<close>). Times are parsed with \<open>datetime.fromisoformat\<close>, columns have lengths, and
  the methods that store evidence, events, notifications and reconciliations turn every exception
  into \<open>False\<close>. The time library is a parameter: \<open>iso_parse\<close> is \<open>None\<close> where \<open>fromisoformat\<close> raises,
  \<open>iso_text\<close> is \<open>isoformat\<close> of the stored value, \<open>utc_now\<close> the clock.
\<close>

record 't iso_codec =
  iso_parse :: "string \<Rightarrow> 't option"
  iso_text :: "'t \<Rightarrow> string"
  utc_now :: 't

type_synonym 't pg_inbox = "('t, bool) inbox_db"

text \<open>\<open>datetime.fromisoformat(x) if x else datetime.now(timezone.utc)\<close>.\<close>

definition pg_time :: "'t iso_codec \<Rightarrow> string \<Rightarrow> 't result" where
  "pg_time c s =
     (if s = [] then Inr (utc_now c)
      else (case iso_parse c s of
              Some t \<Rightarrow> Inr t
            | None \<Rightarrow> Inl (ValueError (''Invalid isoformat string: '' @ quoted s))))"

section \<open>Columns\<close>

text \<open>A text column refuses the character 0; a \<open>VARCHAR(n)\<close> also texts longer than \<open>n\<close>.\<close>

definition pg_text :: "string \<Rightarrow> bool" where
  "pg_text s \<longleftrightarrow> CHR 0x00 \<notin> set s"

definition varchar :: "nat \<Rightarrow> string \<Rightarrow> bool" where
  "varchar n s \<longleftrightarrow> length s \<le> n \<and> pg_text s"

definition evidence_fits :: "'t evidence_row \<Rightarrow> bool" where
  "evidence_fits r \<longleftrightarrow>
     varchar 64 (er_hash r) \<and> varchar 64 (er_provider r) \<and> varchar 128 (er_message_id r) \<and>
     varchar 128 (er_thread_id r) \<and> varchar 255 (er_sender_email r) \<and> varchar 255 (er_sender_name r) \<and>
     varchar 255 (er_recipient r) \<and> varchar 512 (er_subject r) \<and> pg_text (er_snippet r) \<and>
     pg_text (er_body_text r) \<and> pg_text (er_body_html r) \<and> varchar 32 (er_status r)"

definition event_fits :: "'t event_row \<Rightarrow> bool" where
  "event_fits r \<longleftrightarrow>
     varchar 64 (vr_event_id r) \<and> varchar 64 (vr_opportunity_id r) \<and> varchar 64 (vr_signal_id r) \<and>
     varchar 64 (vr_previous_stage r) \<and> varchar 64 (vr_new_stage r) \<and> varchar 32 (vr_track r) \<and>
     varchar 64 (vr_category r) \<and> varchar 64 (vr_content_hash r) \<and> varchar 64 (vr_actor r) \<and>
     pg_text (vr_notes r)"

definition notification_fits :: "('t, 'b) notification_row \<Rightarrow> bool" where
  "notification_fits r \<longleftrightarrow>
     varchar 128 (nr_key r) \<and> varchar 64 (nr_id r) \<and>
     (case nr_opportunity_id r of Some x \<Rightarrow> varchar 64 x | None \<Rightarrow> True) \<and>
     varchar 64 (nr_signal_id r) \<and> varchar 32 (nr_priority r) \<and> varchar 64 (nr_category r) \<and>
     varchar 255 (nr_title r) \<and> pg_text (nr_message r) \<and>
     (case nr_deadline r of Some x \<Rightarrow> varchar 64 x | None \<Rightarrow> True)"

definition reconciliation_fits :: "('t, 'b) reconciliation_row \<Rightarrow> bool" where
  "reconciliation_fits r \<longleftrightarrow>
     varchar 64 (rr_id r) \<and> varchar 64 (rr_action r) \<and> varchar 64 (rr_opportunity r) \<and>
     varchar 64 (rr_signal r) \<and> varchar 64 (rr_hash r) \<and> pg_text (rr_reason r)"

definition data_error :: py_exn where
  "data_error = RuntimeError ''DataError: value too long for type character varying''"

section \<open>Operations\<close>

definition pg_store_evidence :: "'t iso_codec \<Rightarrow> string \<Rightarrow> inbound_message \<Rightarrow> 't pg_inbox \<Rightarrow> bool \<times> 't pg_inbox" where
  "pg_store_evidence c status m d =
     (if list_ex (\<lambda>r. er_hash r = message_content_hash m) (inbound_evidence d) then (False, d)
      else (case pg_time c (received_at m) of
              Inl _ \<Rightarrow> (False, d)
            | Inr t \<Rightarrow>
                if evidence_fits (evidence_row_of m t status)
                then (True, d\<lparr>inbound_evidence := inbound_evidence d @ [evidence_row_of m t status]\<rparr>)
                else (False, d)))"

definition pg_mark_processed :: "'t iso_codec \<Rightarrow> string \<Rightarrow> string \<Rightarrow> 't pg_inbox \<Rightarrow> unit result \<times> 't pg_inbox" where
  "pg_mark_processed c h tm d =
     (if list_ex (\<lambda>r. er_hash r = h) (inbound_evidence d)
      then (case pg_time c tm of Inl e \<Rightarrow> (Inl e, d) | Inr t \<Rightarrow> (Inr (), set_processed h t d))
      else (Inr (), d))"

definition pg_get_evidence ::
  "'t iso_codec \<Rightarrow> (json \<Rightarrow> string) \<Rightarrow> string \<Rightarrow> 't pg_inbox \<Rightarrow> inbound_message option result" where
  "pg_get_evidence c digest h d =
     (case find (\<lambda>r. er_hash r = h) (inbound_evidence d) of
        None \<Rightarrow> Inr None
      | Some r \<Rightarrow> bind (row_to_evidence digest (iso_text c) r) (\<lambda>m. Inr (Some m)))"

definition pg_get_all_evidence ::
  "('t::linorder) iso_codec \<Rightarrow> (json \<Rightarrow> string) \<Rightarrow> 't pg_inbox \<Rightarrow> inbound_message list result" where
  "pg_get_all_evidence c digest d =
     collect (map (row_to_evidence digest (iso_text c)) (sort_key er_received_at (inbound_evidence d)))"

definition pg_store_event :: "'t iso_codec \<Rightarrow> pipeline_event \<Rightarrow> 't pg_inbox \<Rightarrow> bool \<times> 't pg_inbox" where
  "pg_store_event c e d =
     (case pg_time c (occurred_at e) of
        Inl _ \<Rightarrow> (False, d)
      | Inr t1 \<Rightarrow>
          (case pg_time c (recorded_at e) of
             Inl _ \<Rightarrow> (False, d)
           | Inr t2 \<Rightarrow>
               if event_conflict e (pipeline_events d) \<or> \<not> event_fits (event_row_of e t1 t2) then (False, d)
               else (True, d\<lparr>pipeline_events := pipeline_events d @ [event_row_of e t1 t2]\<rparr>)))"

definition pg_events_for :: "('t::linorder) iso_codec \<Rightarrow> string \<Rightarrow> 't pg_inbox \<Rightarrow> pipeline_event list result" where
  "pg_events_for c oid d =
     collect (map (row_to_event (iso_text c))
       (sort_key event_row_key (filter (\<lambda>r. vr_opportunity_id r = oid) (pipeline_events d))))"

definition pg_all_events :: "('t::linorder) iso_codec \<Rightarrow> 't pg_inbox \<Rightarrow> pipeline_event list result" where
  "pg_all_events c d = collect (map (row_to_event (iso_text c)) (sort_key event_row_key (pipeline_events d)))"

definition pg_store_notification ::
  "'t iso_codec \<Rightarrow> founder_notification \<Rightarrow> 't pg_inbox \<Rightarrow> bool \<times> 't pg_inbox" where
  "pg_store_notification c n d =
     (case pg_time c (fn_created_at n) of
        Inl _ \<Rightarrow> (False, d)
      | Inr t \<Rightarrow>
          (let r = notification_row_of n t (action_required n) (acknowledged n) None
           in if list_ex (\<lambda>x. nr_key x = notification_key n) (founder_notifications d) \<or> \<not> notification_fits r
              then (False, d)
              else (True, d\<lparr>founder_notifications := founder_notifications d @ [r]\<rparr>)))"

definition pg_pending_notifications :: "('t::linorder) iso_codec \<Rightarrow> 't pg_inbox \<Rightarrow> founder_notification list result" where
  "pg_pending_notifications c d =
     collect (map (row_to_notification (iso_text c) id)
       (sort_key (\<lambda>r. (nr_created_at r, nr_id r)) (filter (\<lambda>r. \<not> nr_acknowledged r) (founder_notifications d))))"

definition pg_all_notifications :: "('t::linorder) iso_codec \<Rightarrow> 't pg_inbox \<Rightarrow> founder_notification list result" where
  "pg_all_notifications c d =
     collect (map (row_to_notification (iso_text c) id)
       (sort_key (\<lambda>r. (nr_created_at r, nr_id r)) (founder_notifications d)))"

definition pg_acknowledge :: "'t iso_codec \<Rightarrow> string \<Rightarrow> string \<Rightarrow> 't pg_inbox \<Rightarrow> bool \<times> 't pg_inbox" where
  "pg_acknowledge c key tm d =
     (if list_ex (\<lambda>r. nr_key r = key) (founder_notifications d)
      then (case pg_time c tm of
              Inl _ \<Rightarrow> (False, d)
            | Inr t \<Rightarrow> (True, d\<lparr>founder_notifications := update_where (\<lambda>r. nr_key r = key)
                  (\<lambda>r. r\<lparr>nr_acknowledged := True, nr_acknowledged_at := Some t\<rparr>) (founder_notifications d)\<rparr>))
      else (False, d))"

definition pg_save_checkpoint ::
  "'t iso_codec \<Rightarrow> string \<Rightarrow> string \<Rightarrow> string \<Rightarrow> 't pg_inbox \<Rightarrow> unit result \<times> 't pg_inbox" where
  "pg_save_checkpoint c k v tm d =
     (case pg_time c tm of
        Inl e \<Rightarrow> (Inl e, d)
      | Inr t \<Rightarrow>
          if varchar 255 v \<and> (list_ex (\<lambda>r. cr_key r = k) (inbox_checkpoints d) \<or> varchar 128 k)
          then (Inr (), upsert_checkpoint k v t d) else (Inl data_error, d))"

definition pg_record_reconciliation :: "'t iso_codec \<Rightarrow> reconciliation \<Rightarrow> 't pg_inbox \<Rightarrow> bool \<times> 't pg_inbox" where
  "pg_record_reconciliation c x d =
     (case pg_time c (rc_created x) of
        Inl _ \<Rightarrow> (False, d)
      | Inr t \<Rightarrow>
          (let r = reconciliation_row_of x t False
           in if list_ex (\<lambda>y. rr_id y = rc_id x) (reconciliation_records d) \<or> \<not> reconciliation_fits r then (False, d)
              else (True, d\<lparr>reconciliation_records := reconciliation_records d @ [r]\<rparr>)))"

definition pg_unresolved :: "'t iso_codec \<Rightarrow> 't pg_inbox \<Rightarrow> (string, int) reconciliation_row list" where
  "pg_unresolved c d =
     map (\<lambda>r. \<lparr>rr_id = rr_id r, rr_action = rr_action r, rr_opportunity = rr_opportunity r,
              rr_signal = rr_signal r, rr_hash = rr_hash r, rr_reason = rr_reason r,
              rr_created_at = iso_text c (rr_created_at r), rr_resolved = int_of_bool (rr_resolved r),
              rr_resolved_at = map_option (iso_text c) (rr_resolved_at r)\<rparr>)
       (filter (\<lambda>r. \<not> rr_resolved r) (reconciliation_records d))"

definition pg_store :: "('t::linorder) iso_codec \<Rightarrow> 't pg_inbox inbox_store" where
  "pg_store c =
     \<lparr>st_store_evidence = pg_store_evidence c ''FETCHED'', st_is_processed = is_evidence_processed,
      st_mark_processed = pg_mark_processed c, st_store_event = pg_store_event c,
      st_events_for = pg_events_for c, st_store_notification = pg_store_notification c,
      st_record_reconciliation = pg_record_reconciliation c, st_save_checkpoint = pg_save_checkpoint c,
      st_get_checkpoint = get_checkpoint\<rparr>"

lemma pg_store_reads [simp]:
  "st_is_processed (pg_store c) = is_evidence_processed" "st_get_checkpoint (pg_store c) = get_checkpoint"
  by (simp_all add: pg_store_def)

section \<open>The contract holds for what the columns and the time library accept\<close>

abbreviation pg_view :: "'t iso_codec \<Rightarrow> 't pg_inbox \<Rightarrow> inbox_view" where
  "pg_view c \<equiv> db_view (iso_text c) id"

abbreviation pg_ok :: "'t iso_codec \<Rightarrow> 't pg_inbox \<Rightarrow> bool" where
  "pg_ok c \<equiv> db_ok (iso_text c) id"

definition iso_norm :: "'t iso_codec \<Rightarrow> string \<Rightarrow> string" where
  "iso_norm c s = iso_text c (the (iso_parse c s))"

definition time_ok :: "'t iso_codec \<Rightarrow> string \<Rightarrow> bool" where
  "time_ok c s \<longleftrightarrow> s \<noteq> [] \<and> iso_parse c s \<noteq> None"

definition message_ok :: "'t iso_codec \<Rightarrow> inbound_message \<Rightarrow> bool" where
  "message_ok c m \<longleftrightarrow> time_ok c (received_at m) \<and> evidence_fits (evidence_row_of m () ''FETCHED'')"

definition event_ok :: "'t iso_codec \<Rightarrow> pipeline_event \<Rightarrow> bool" where
  "event_ok c e \<longleftrightarrow> time_ok c (occurred_at e) \<and> time_ok c (recorded_at e) \<and> event_fits (event_row_of e () ())"

definition notification_ok :: "'t iso_codec \<Rightarrow> founder_notification \<Rightarrow> bool" where
  "notification_ok c n \<longleftrightarrow> time_ok c (fn_created_at n) \<and> acknowledged_at n = None \<and>
     notification_fits (notification_row_of n () () () None)"

definition reconciliation_ok :: "'t iso_codec \<Rightarrow> reconciliation \<Rightarrow> bool" where
  "reconciliation_ok c x \<longleftrightarrow> time_ok c (rc_created x) \<and> reconciliation_fits (reconciliation_row_of x () ())"

definition cursor_ok :: "string \<Rightarrow> string \<Rightarrow> bool" where
  "cursor_ok k v \<longleftrightarrow> varchar 128 k \<and> varchar 255 v"

lemma time_ok_pg_time:
  assumes "time_ok c s"
  obtains t where "pg_time c s = Inr t" "iso_text c t = iso_norm c s"
  using assms by (auto simp: time_ok_def pg_time_def iso_norm_def)

lemma fits_any:
  "evidence_fits (evidence_row_of m t st) = evidence_fits (evidence_row_of m () st)"
  "event_fits (event_row_of e u v) = event_fits (event_row_of e () ())"
  "notification_fits (notification_row_of n a b b' None) = notification_fits (notification_row_of n () () () None)"
  "reconciliation_fits (reconciliation_row_of x y z) = reconciliation_fits (reconciliation_row_of x () ())"
  by (simp_all add: evidence_fits_def evidence_row_of_def event_fits_def event_row_of_def
      notification_fits_def notification_row_of_def reconciliation_fits_def reconciliation_row_of_def)

lemma pg_evidence_refines:
  assumes "pg_ok c d" "message_ok c m" "pg_store_evidence c ''FETCHED'' m d = (b, d')"
  shows "pg_ok c d' \<and> pg_view c d' = a_store m (pg_view c d)"
proof -
  obtain t where t: "pg_time c (received_at m) = Inr t"
    using assms(2) by (auto simp: message_ok_def elim: time_ok_pg_time)
  have f: "evidence_fits (evidence_row_of m t ''FETCHED'')"
    using assms(2) fits_any(1) [of m t] by (simp add: message_ok_def)
  show ?thesis using assms(1,3) db_add_evidence [OF assms(1)] db_has_evidence [of m d]
    by (auto simp: pg_store_evidence_def t f split: if_splits)
qed

lemma pg_event_refines:
  assumes "pg_ok c d" "event_ok c e" "pg_store_event c e d = (b, d')"
  shows "pg_ok c d' \<and> pg_view c d' = a_event (iso_norm c) e (pg_view c d) \<and>
    b = (\<not> event_clash e (v_events (pg_view c d)))"
proof -
  obtain t1 where t1: "pg_time c (occurred_at e) = Inr t1" "iso_text c t1 = iso_norm c (occurred_at e)"
    using assms(2) by (auto simp: event_ok_def elim: time_ok_pg_time)
  obtain t2 where t2: "pg_time c (recorded_at e) = Inr t2" "iso_text c t2 = iso_norm c (recorded_at e)"
    using assms(2) by (auto simp: event_ok_def elim: time_ok_pg_time)
  have f: "event_fits (event_row_of e t1 t2)"
    using assms(2) fits_any(2) [of e t1 t2] by (simp add: event_ok_def)
  show ?thesis
  proof (cases "event_conflict e (pipeline_events d)")
    case True
    then show ?thesis using assms db_event_clash [OF assms(1), of e]
      by (simp add: pg_store_event_def t1 t2 a_event_def)
  next
    case False
    then show ?thesis using assms(3) db_event_clash [OF assms(1), of e]
        db_add_event [OF assms(1) False t1(2) t2(2)]
      by (auto simp: pg_store_event_def t1 t2 f)
  qed
qed

lemma pg_note_refines:
  assumes "pg_ok c d" "notification_ok c n" "pg_store_notification c n d = (b, d')"
  shows "pg_ok c d' \<and> pg_view c d' = a_note (iso_norm c) n (pg_view c d) \<and>
    b = (notification_key n \<notin> notification_key ` set (v_notes (pg_view c d)))"
proof -
  obtain t where t: "pg_time c (fn_created_at n) = Inr t" "iso_text c t = iso_norm c (fn_created_at n)"
    using assms(2) by (auto simp: notification_ok_def elim: time_ok_pg_time)
  have f: "notification_fits (notification_row_of n t (action_required n) (acknowledged n) None)"
    using assms(2) fits_any(3) [of n t] by (simp add: notification_ok_def)
  show ?thesis
  proof (cases "list_ex (\<lambda>r. nr_key r = notification_key n) (founder_notifications d)")
    case True
    then show ?thesis using assms db_has_note [OF assms(1), of n]
      by (simp add: pg_store_notification_def t a_note_def)
  next
    case False
    then show ?thesis using assms(2,3) db_has_note [OF assms(1), of n]
        db_add_note [where nt = "iso_norm c" and t = t and a = "action_required n" and b = "acknowledged n" and u = None,
          OF assms(1) False t(2)]
      by (auto simp: pg_store_notification_def t f Let_def notification_ok_def)
  qed
qed

lemma pg_recon_refines:
  assumes "pg_ok c d" "reconciliation_ok c x" "pg_record_reconciliation c x d = (b, d')"
  shows "pg_ok c d' \<and> pg_view c d' = a_recon (iso_norm c) x (pg_view c d)"
proof -
  obtain t where t: "pg_time c (rc_created x) = Inr t" "iso_text c t = iso_norm c (rc_created x)"
    using assms(2) by (auto simp: reconciliation_ok_def elim: time_ok_pg_time)
  have f: "reconciliation_fits (reconciliation_row_of x t False)"
    using assms(2) fits_any(4) [of x t] by (simp add: reconciliation_ok_def)
  show ?thesis
  proof (cases "list_ex (\<lambda>r. rr_id r = rc_id x) (reconciliation_records d)")
    case True
    then show ?thesis using assms db_has_recon [of x "iso_text c" id d]
      by (simp add: pg_record_reconciliation_def t a_recon_def)
  next
    case False
    then show ?thesis using assms(3) db_add_recon [where nt = "iso_norm c" and t = t and b = False, OF assms(1) False t(2)]
      by (auto simp: pg_record_reconciliation_def t f Let_def)
  qed
qed

lemma pg_mark_refines:
  assumes "pg_ok c d" "time_ok c tm" "pg_mark_processed c h tm d = (r, d')"
  shows "r = Inr () \<and> pg_ok c d' \<and> pg_view c d' = a_mark h (pg_view c d)"
proof -
  obtain t where t: "pg_time c tm = Inr t" using assms(2) by (auto elim: time_ok_pg_time)
  show ?thesis
  proof (cases "list_ex (\<lambda>r. er_hash r = h) (inbound_evidence d)")
    case True
    then show ?thesis using assms db_set_processed [OF assms(1), of h t] by (auto simp: pg_mark_processed_def t)
  next
    case False
    then show ?thesis using assms unfolding list_ex_key
      by (auto simp: pg_mark_processed_def t list_ex_key a_mark_def db_view_def)
  qed
qed

lemma pg_contract:
  "inbox_store_contract (pg_store c) (pg_view c) (pg_ok c) (iso_norm c) (message_ok c) (reconciliation_ok c)
     (event_ok c) (notification_ok c) (time_ok c) cursor_ok"
proof (unfold_locales, goal_cases)
  case (1 s m b s')
  then show ?case using pg_evidence_refines by (simp add: pg_store_def)
next
  case (2 s h)
  then show ?case using db_processed by (simp add: pg_store_def is_evidence_processed_def)
next
  case (3 s t h r s')
  then show ?case using pg_mark_refines by (simp add: pg_store_def)
next
  case (4 s e b s')
  then show ?case using pg_event_refines by (simp add: pg_store_def)
next
  case (5 s oid)
  then show ?case using db_events_for by (simp add: pg_store_def pg_events_for_def)
next
  case (6 s)
  then show ?case by (rule db_event_ids)
next
  case (7 s n b s')
  then show ?case using pg_note_refines by (simp add: pg_store_def)
next
  case (8 s x b s')
  then show ?case using pg_recon_refines by (simp add: pg_store_def)
next
  case (9 s k v t r s')
  then obtain u where "pg_time c t = Inr u" by (auto elim: time_ok_pg_time)
  with 9 show ?case using db_upsert_checkpoint [of "iso_text c" id s k v u]
    by (auto simp: pg_store_def pg_save_checkpoint_def cursor_ok_def)
next
  case (10 s k)
  then show ?case using db_cursor by (simp add: pg_store_def get_checkpoint_def)
qed

interpretation pg: inbox_store_contract "pg_store c" "pg_view c" "pg_ok c" "iso_norm c" "message_ok c"
    "reconciliation_ok c" "event_ok c" "notification_ok c" "time_ok c" cursor_ok
  for c :: "('t::linorder) iso_codec"
  by (rule pg_contract)

section \<open>Messages with a date the time library refuses\<close>

definition same_records :: "('t, 'b) inbox_db \<Rightarrow> ('t, 'b) inbox_db \<Rightarrow> bool" where
  "same_records d d' \<longleftrightarrow> inbound_evidence d' = inbound_evidence d \<and> pipeline_events d' = pipeline_events d \<and>
     founder_notifications d' = founder_notifications d \<and> reconciliation_records d' = reconciliation_records d"

text \<open>The message has a date, not one of ISO 8601, and was not stored before.\<close>

definition refused_date :: "'t iso_codec \<Rightarrow> 't pg_inbox \<Rightarrow> inbound_message \<Rightarrow> bool" where
  "refused_date c d m \<longleftrightarrow> received_at m \<noteq> [] \<and> iso_parse c (received_at m) = None \<and>
     \<not> list_ex (\<lambda>r. er_hash r = message_content_hash m) (inbound_evidence d)"

lemma refused_time: "refused_date c d m \<Longrightarrow> \<exists>e. pg_time c (received_at m) = Inl e"
  by (simp add: refused_date_def pg_time_def)

lemma refused_poll:
  assumes "\<forall>m\<in>set ms. refused_date c d m"
  shows "poll_loop (pg_store c) ms d = (ms, d)"
  using assms
proof (induction ms)
  case (Cons m ms)
  obtain e where e: "pg_time c (received_at m) = Inl e" using refused_time Cons.prems by fastforce
  have a: "\<not> list_ex (\<lambda>r. er_hash r = message_content_hash m) (inbound_evidence d)"
    using Cons.prems by (simp add: refused_date_def)
  then have "find (\<lambda>r. er_hash r = message_content_hash m) (inbound_evidence d) = None"
    by (auto simp: find_None_iff list_ex_iff)
  with Cons a e show ?case
    by (simp add: pg_store_def pg_store_evidence_def is_evidence_processed_def)
qed simp

lemma classify_detected_at [simp]: "sig_detected_at (classify sha m) = received_at m"
  by (auto simp: classify_def noise_signal_def apply_rule_def extract_all_def Let_def split: option.split prod.split)

lemma refused_message:
  assumes "refused_date c d m" "pg_ok c d"
  shows "\<exists>r. process_message (pg_store c) o' now m res d = (Inr r, d) \<and>
    messages_ingested r = messages_ingested res \<and> signals_detected r = signals_detected res + 1 \<and>
    events_recorded r = events_recorded res \<and> notifications_emitted r = notifications_emitted res \<and>
    cursor_checkpoint r = cursor_checkpoint res"
proof -
  obtain e where e: "pg_time c (received_at m) = Inl e" using refused_time [OF assms(1)] by blast
  let ?sg = "classify (o_sha o') m"
  let ?corr = "correlate (o_catalogue o') ?sg m"
  let ?rc = "reconciliation_for o' m ?sg ?corr"
  have rc: "(case ?rc of Some r \<Rightarrow> snd (st_record_reconciliation (pg_store c) r d) | None \<Rightarrow> d) = d"
    by (auto simp: pg_store_def pg_record_reconciliation_def reconciliation_for_def e split: option.splits if_splits)
  have ev: "record_signal_event (pg_store c) (o_sha o') ?sg ?corr (sig_track ?sg) d = (Inr None, d)"
  proof (cases "link_target ?corr")
    case (Some oid)
    obtain evs where "st_events_for (pg_store c) oid d = Inr evs" using pg.events_for [OF assms(2)] by blast
    then show ?thesis using Some e
      by (simp add: record_signal_event_def pg_store_def pg_store_event_def signal_event_def Let_def)
  qed (simp add: record_signal_event_def)
  have nt: "process_signal (pg_store c) o' ?sg ?corr d = (None, d)"
    by (simp add: process_signal_def pg_store_def pg_store_notification_def make_notification_def Let_def e)
  have mk: "st_mark_processed (pg_store c) (message_content_hash m) now d = (Inr (), d)"
    using assms(1) by (simp add: pg_store_def pg_mark_processed_def refused_date_def)
  show ?thesis by (simp add: process_message_def Let_def rc ev nt mk)
qed

lemma refused_batch:
  assumes "\<forall>m\<in>set ms. refused_date c d m" "pg_ok c d"
  shows "\<exists>r. process_batch (pg_store c) o' clock (\<lambda>_. None) i ms res d = (Inr r, d) \<and>
    messages_ingested r = messages_ingested res \<and> signals_detected r = signals_detected res + length ms \<and>
    events_recorded r = events_recorded res \<and> notifications_emitted r = notifications_emitted res \<and>
    cursor_checkpoint r = cursor_checkpoint res"
  using assms(1)
proof (induction ms arbitrary: i res)
  case (Cons m ms)
  obtain r where r: "process_message (pg_store c) o' (clock i) m res d = (Inr r, d)"
      "messages_ingested r = messages_ingested res" "signals_detected r = signals_detected res + 1"
      "events_recorded r = events_recorded res" "notifications_emitted r = notifications_emitted res"
      "cursor_checkpoint r = cursor_checkpoint res"
    using refused_message [OF _ assms(2), of m o' "clock i" res] Cons.prems by auto
  have "\<forall>m\<in>set ms. refused_date c d m" using Cons.prems by simp
  from Cons.IH [OF this, of "Suc i" r] r show ?case by auto
qed simp

lemma refused_cycle:
  assumes "pg_ok c d" "fetch (Some (get_checkpoint_cursor (pg_store c) o' d)) limit = Inr (ms, cur)"
    "\<forall>m\<in>set ms. refused_date c d m" "time_ok c (clock 0)" "cursor_ok (checkpoint_key o') cur"
  shows "\<exists>r d'. run_cycle (pg_store c) o' fetch clock (\<lambda>_. None) limit d = (Inr r, d') \<and> same_records d d' \<and>
    get_checkpoint (checkpoint_key o') d' = Some cur \<and> messages_ingested r = length ms \<and>
    signals_detected r = length ms \<and> events_recorded r = 0 \<and> notifications_emitted r = 0"
proof -
  let ?r0 = "\<lparr>messages_ingested = length ms, signals_detected = 0, events_recorded = 0,
      notifications_emitted = 0, reconciliations_created = 0, cursor_checkpoint = cur\<rparr>"
  obtain r where r: "process_batch (pg_store c) o' clock (\<lambda>_. None) 1 ms ?r0 d = (Inr r, d)"
      "messages_ingested r = length ms" "signals_detected r = length ms"
      "events_recorded r = 0" "notifications_emitted r = 0"
    using refused_batch [OF assms(3,1), of o' clock 1 ?r0] by auto
  obtain x d' where d': "st_save_checkpoint (pg_store c) (checkpoint_key o') cur (clock 0) d = (x, d')" by force
  have c: "x = Inr ()" "pg_ok c d'" "pg_view c d' = a_checkpoint (checkpoint_key o') cur (pg_view c d)"
    using pg.checkpoint [OF assms(1,5,4) d'] by auto
  have "same_records d d'"
    using d' by (auto simp: pg_store_def pg_save_checkpoint_def same_records_def upsert_checkpoint_def
        split: sum.splits if_splits)
  moreover have "get_checkpoint (checkpoint_key o') d' = Some cur"
    using pg.cursor [OF c(2), of "checkpoint_key o'"] by (simp add: c(3) a_checkpoint_def)
  moreover have "run_cycle (pg_store c) o' fetch clock (\<lambda>_. None) limit d = (Inr r, d')"
    using r(1) d' c(1)
    by (simp add: run_cycle_def poll_new_messages_def assms(2) refused_poll [OF assms(3)])
  ultimately show ?thesis using r by auto
qed

end
