(* ===== verification/Inbox_Gmail.thy ===== *)
theory Inbox_Gmail
  imports Inbox_Cycle
begin

text \<open>
  The Gmail transport of \<open>inbox/ingestion.py\<close> (\<open>GmailReadOnlyAdapter\<close>). The client is a parameter:
  the page a \<open>list\<close> call answers with, the message a \<open>get\<close> call answers with, and the decoding of a
  part's data (URL-safe base 64, then UTF-8), \<open>None\<close> where it raises.
\<close>

record gmail_part =
  part_filename :: "string option"
  part_mime_type :: "string option"
  part_data :: "string option"

record gmail_message =
  gm_thread_id :: "string option"
  gm_snippet :: "string option"
  gm_headers :: "(string \<times> string) list"
  gm_parts :: "gmail_part list"

record gmail_page =
  page_ids :: "string list"
  next_page_token :: "string option"

record gmail_client =
  gc_list :: "string option \<Rightarrow> nat \<Rightarrow> gmail_page result"
  gc_get :: "string \<Rightarrow> gmail_message result"
  gc_decode :: "string \<Rightarrow> string option"

text \<open>\<open>headers_dict.get(key, default)\<close>: of headers with one name the last counts.\<close>

definition header_value :: "(string \<times> string) list \<Rightarrow> string \<Rightarrow> string \<Rightarrow> string" where
  "header_value hs key dflt =
     (case map_of (rev (map (\<lambda>(n, v). (py_lower n, v)) hs)) key of Some v \<Rightarrow> v | None \<Rightarrow> dflt)"

text \<open>The last plain-text part that decodes replaces the snippet.\<close>

definition part_body :: "(string \<Rightarrow> string option) \<Rightarrow> string \<Rightarrow> gmail_part \<Rightarrow> string" where
  "part_body decode body p =
     (if part_mime_type p = Some ''text/plain''
      then (case part_data p of
              Some x \<Rightarrow> (case decode x of Some t \<Rightarrow> t | None \<Rightarrow> body)
            | None \<Rightarrow> body)
      else body)"

definition option_or :: "'a \<Rightarrow> 'a option \<Rightarrow> 'a" where
  "option_or d x = (case x of Some y \<Rightarrow> y | None \<Rightarrow> d)"

definition gmail_evidence :: "(json \<Rightarrow> string) \<Rightarrow> (string \<Rightarrow> string option) \<Rightarrow> string \<Rightarrow> gmail_message \<Rightarrow> inbound_message" where
  "gmail_evidence digest decode mid g =
     (let sender = header_value (gm_headers g) ''from'' []; snip = option_or [] (gm_snippet g)
      in message_post_init digest
        \<lparr>provider = ''gmail'', provider_message_id = mid, thread_id = option_or mid (gm_thread_id g),
         sender_email = sender, sender_name = sender,
         recipient_email = header_value (gm_headers g) ''to'' [],
         subject = header_value (gm_headers g) ''subject'' [], snippet = snip,
         body_text = foldl (part_body decode) snip (gm_parts g), body_html = [],
         received_at = header_value (gm_headers g) ''date'' ''2026-08-30T00:00:00Z'',
         msg_headers = gm_headers g,
         attachment_names = filter (\<lambda>n. n \<noteq> []) (map (\<lambda>p. option_or [] (part_filename p)) (gm_parts g)),
         message_content_hash = []\<rparr>)"

fun gmail_get_all :: "(json \<Rightarrow> string) \<Rightarrow> gmail_client \<Rightarrow> string list \<Rightarrow> inbound_message list result" where
  "gmail_get_all digest cl [] = Inr []"
| "gmail_get_all digest cl (i # is) =
     bind (gc_get cl i) (\<lambda>g. bind (gmail_get_all digest cl is) (\<lambda>ms. Inr (gmail_evidence digest (gc_decode cl) i g # ms)))"

definition cursor_or_zero :: "string option \<Rightarrow> string" where
  "cursor_or_zero cursor = py_or (option_or [] cursor) ''0''"

definition gmail_fetch :: "(json \<Rightarrow> string) \<Rightarrow> gmail_client option \<Rightarrow> transport" where
  "gmail_fetch digest client cursor limit =
     (case client of
        None \<Rightarrow> Inr ([], cursor_or_zero cursor)
      | Some cl \<Rightarrow>
          bind (gc_list cl cursor limit) (\<lambda>page.
          bind (gmail_get_all digest cl (page_ids page)) (\<lambda>ms.
            Inr (ms, option_or (cursor_or_zero cursor) (next_page_token page)))))"

lemma post_init_received [simp]: "received_at (message_post_init digest m) = received_at m"
  by (simp add: message_post_init_def)

text \<open>A message is dated by the text of its \<open>Date\<close> header, whatever its format.\<close>

lemma gmail_received_at:
  "received_at (gmail_evidence digest decode mid g) = header_value (gm_headers g) ''date'' ''2026-08-30T00:00:00Z''"
  by (simp add: gmail_evidence_def Let_def)

lemma gmail_fetched:
  assumes "gmail_get_all digest cl is = Inr ms"
  shows "list_all2 (\<lambda>i m. \<exists>g. gc_get cl i = Inr g \<and> m = gmail_evidence digest (gc_decode cl) i g) is ms"
  using assms
proof (induction "is" arbitrary: ms)
  case (Cons i "is")
  then show ?case by (auto simp: list_all2_Cons1)
qed simp

end
