(* ===== verification/Grouping.thy ===== *)
theory Grouping
  imports Prelude "HOL-Library.Multiset"
begin

text \<open>
  Grouping a list by a key into a dictionary of lists, \<open>groups.setdefault(key, []).append(x)\<close>, as
  the analytics, the deduplication and the clustering of postings do it. The dictionary is an
  association list in insertion order.
\<close>

fun append_to :: "'k \<Rightarrow> 'a \<Rightarrow> ('k \<times> 'a list) list \<Rightarrow> ('k \<times> 'a list) list" where
  "append_to k x [] = [(k, [x])]"
| "append_to k x ((j, xs) # gs) = (if j = k then (j, xs @ [x]) # gs else (j, xs) # append_to k x gs)"

definition group_by :: "('a \<Rightarrow> 'k) \<Rightarrow> 'a list \<Rightarrow> ('k \<times> 'a list) list" where
  "group_by f xs = foldl (\<lambda>gs x. append_to (f x) x gs) [] xs"

lemma append_to_length: "(\<Sum>g\<leftarrow>append_to k x gs. length (snd g)) = Suc (\<Sum>g\<leftarrow>gs. length (snd g))"
  by (induction k x gs rule: append_to.induct) simp_all

lemma append_to_keys: "fst ` set (append_to k x gs) = insert k (fst ` set gs)"
  by (induction k x gs rule: append_to.induct) auto

lemma append_to_distinct: "distinct (map fst gs) \<Longrightarrow> distinct (map fst (append_to k x gs))"
proof (induction k x gs rule: append_to.induct)
  case (2 k x j xs gs)
  then show ?case using append_to_keys [of k x gs] by (auto simp: image_iff)
qed simp

lemma append_to_nonempty: "\<forall>g\<in>set gs. snd g \<noteq> [] \<Longrightarrow> \<forall>g\<in>set (append_to k x gs). snd g \<noteq> []"
  by (induction k x gs rule: append_to.induct) auto

lemma group_by_snoc: "group_by f (xs @ [x]) = append_to (f x) x (group_by f xs)"
  by (simp add: group_by_def)

lemma group_by_length: "(\<Sum>g\<leftarrow>group_by f xs. length (snd g)) = length xs"
proof (induction xs rule: rev_induct)
  case (snoc x xs)
  then show ?case by (simp add: group_by_snoc append_to_length)
qed (simp add: group_by_def)

lemma group_by_distinct: "distinct (map fst (group_by f xs))"
proof (induction xs rule: rev_induct)
  case (snoc x xs)
  then show ?case by (simp add: group_by_snoc append_to_distinct)
qed (simp add: group_by_def)

lemma group_by_nonempty: "\<forall>g\<in>set (group_by f xs). snd g \<noteq> []"
proof (induction xs rule: rev_induct)
  case (snoc x xs)
  then show ?case unfolding group_by_snoc by (rule append_to_nonempty)
qed (simp add: group_by_def)

section \<open>The groups in closed form\<close>

text \<open>The keys in the order of their first occurrence.\<close>

definition firsts :: "'a list \<Rightarrow> 'a list" where
  "firsts xs = rev (remdups (rev xs))"

lemma set_firsts [simp]: "set (firsts xs) = set xs"
  by (simp add: firsts_def)

lemma distinct_firsts [simp]: "distinct (firsts xs)"
  by (simp add: firsts_def)

lemma firsts_snoc: "firsts (xs @ [x]) = (if x \<in> set xs then firsts xs else firsts xs @ [x])"
  by (simp add: firsts_def)

lemma append_to_fresh: "k \<notin> fst ` set gs \<Longrightarrow> append_to k x gs = gs @ [(k, [x])]"
  by (induction k x gs rule: append_to.induct) auto

lemma append_to_known:
  "distinct ks \<Longrightarrow> k \<in> set ks \<Longrightarrow>
   append_to k x (map (\<lambda>j. (j, h j)) ks) = map (\<lambda>j. (j, if j = k then h j @ [x] else h j)) ks"
  by (induction ks) auto

lemma group_by_eq: "group_by f xs = map (\<lambda>k. (k, filter (\<lambda>x. f x = k) xs)) (firsts (map f xs))"
proof (induction xs rule: rev_induct)
  case Nil
  show ?case by (simp add: group_by_def firsts_def)
next
  case (snoc x xs)
  let ?ks = "firsts (map f xs)"
  show ?case
  proof (cases "f x \<in> f ` set xs")
    case True
    then have "append_to (f x) x (map (\<lambda>k. (k, filter (\<lambda>x. f x = k) xs)) ?ks) =
        map (\<lambda>j. (j, if j = f x then filter (\<lambda>x. f x = j) xs @ [x] else filter (\<lambda>x. f x = j) xs)) ?ks"
      by (intro append_to_known) auto
    also have "\<dots> = map (\<lambda>k. (k, filter (\<lambda>y. f y = k) (xs @ [x]))) ?ks"
      by (intro map_cong) auto
    finally show ?thesis using True by (simp add: group_by_snoc snoc firsts_snoc)
  next
    case False
    have "append_to (f x) x (map (\<lambda>k. (k, filter (\<lambda>x. f x = k) xs)) ?ks) =
        map (\<lambda>k. (k, filter (\<lambda>x. f x = k) xs)) ?ks @ [(f x, [x])]"
      by (intro append_to_fresh) (use False in auto)
    moreover have "filter (\<lambda>y. f y = f x) xs = []" using False by (metis (mono_tags, lifting) filter_False imageI)
    ultimately show ?thesis using False by (auto simp: group_by_snoc snoc firsts_snoc)
  qed
qed

lemma in_group_by:
  "(k, g) \<in> set (group_by f xs) \<longleftrightarrow> k \<in> f ` set xs \<and> g = filter (\<lambda>x. f x = k) xs"
  by (auto simp: group_by_eq)

lemma mset_append_to: "mset (concat (map snd (append_to k x gs))) = add_mset x (mset (concat (map snd gs)))"
  by (induction k x gs rule: append_to.induct) simp_all

lemma mset_group_by: "mset (concat (map snd (group_by f xs))) = mset xs"
proof (induction xs rule: rev_induct)
  case (snoc x xs)
  then show ?case by (simp add: group_by_snoc mset_append_to)
qed (simp add: group_by_def)

end
