(* ===== verification/Inbox_Analytics.thy ===== *)
theory Inbox_Analytics
  imports Inbox_Pipeline Grouping
begin

text \<open>
  Outcome analytics (\<open>inbox/analytics.py\<close>) and the recommendations drawn from them
  (\<open>inbox/learning.py\<close>). Rates are exact quotients.
\<close>

record conversion_metric =
  cm_dimension :: string
  dimension_value :: string
  total_submissions :: nat
  confirmations_count :: nat
  interviews_count :: nat
  offers_count :: nat
  rejections_count :: nat
  pending_count :: nat
  interview_rate :: "real option"
  offer_rate :: "real option"
  is_sample_sufficient :: bool
  cm_notes :: string

definition SUPPORTED_DIMENSIONS :: "string list" where
  "SUPPORTED_DIMENSIONS = [''source'', ''track'', ''role_family'', ''score_band'', ''adapter_version'',
     ''compensation_band'', ''qualified_conversation'']"

definition QUALIFYING_CONVERSATION_CATEGORIES :: "SignalCategory set" where
  "QUALIFYING_CONVERSATION_CATEGORIES = {INTERVIEW_REQUEST, RECRUITER_OUTREACH,
     DISCOVERY_CALL_OR_MEETING_REQUEST, SHORTLIST_OR_INVITATION, CLIENT_OR_BUYER_RESPONSE, CLARIFICATION_REQUEST}"

section \<open>Metrics\<close>

definition extract_dimension_value :: "outbound_action_record \<Rightarrow> pipeline_event list \<Rightarrow> string \<Rightarrow> string" where
  "extract_dimension_value r evs dm =
     (if dm = ''source'' then py_or (oa_source r) ''UNAVAILABLE''
      else if dm = ''track'' then track_value (oa_track r)
      else if dm = ''adapter_version'' then py_or (adapter_version r) ''UNAVAILABLE''
      else if dm = ''score_band''
      then (if match_score_snapshot r \<ge> 8/10 then ''high (>=0.80)''
            else if match_score_snapshot r \<ge> 5/10 then ''medium (0.50-0.79)'' else ''low (<0.50)'')
      else if dm = ''qualified_conversation''
      then (let own = filter (\<lambda>e. pe_opportunity_id e = oa_opportunity_id r) evs in
            if own = [] then ''pending_outcome''
            else if list_ex (\<lambda>e. trigger_category e \<in> QUALIFYING_CONVERSATION_CATEGORIES) own
            then ''qualified_conversation_achieved'' else ''no_qualified_conversation'')
      else ''UNAVAILABLE'')"

definition submitted_actions :: "outbound_action_record list \<Rightarrow> outbound_action_record list" where
  "submitted_actions = filter (\<lambda>r. action_status r \<in> {CONFIRMED, SUBMITTED, UNKNOWN_OUTCOME})"

definition events_of :: "pipeline_event list \<Rightarrow> outbound_action_record \<Rightarrow> pipeline_event list" where
  "events_of evs r = filter (\<lambda>e. pe_opportunity_id e = oa_opportunity_id r) evs"

text \<open>\<open>d.setdefault(k, []).append(x)\<close> over a list: groups in the order of their first member.\<close>

definition has_any :: "SignalCategory set \<Rightarrow> pipeline_event list \<Rightarrow> bool" where
  "has_any cs evs = list_ex (\<lambda>e. trigger_category e \<in> cs) evs"

definition has_confirmation :: "pipeline_event list \<Rightarrow> bool" where
  "has_confirmation = has_any {APPLICATION_CONFIRMATION, PROPOSAL_CONFIRMATION}"

definition has_interview :: "pipeline_event list \<Rightarrow> bool" where
  "has_interview = has_any {INTERVIEW_REQUEST, DISCOVERY_CALL_OR_MEETING_REQUEST, SHORTLIST_OR_INVITATION}"

definition has_offer :: "pipeline_event list \<Rightarrow> bool" where
  "has_offer = has_any {OFFER, AWARD_OR_WIN}"

definition has_rejection :: "pipeline_event list \<Rightarrow> bool" where
  "has_rejection = has_any {REJECTION, PROPOSAL_REJECTION}"

definition count_where :: "('a \<Rightarrow> bool) \<Rightarrow> 'a list \<Rightarrow> nat" where
  "count_where P xs = length (filter P xs)"

definition group_metric :: "pipeline_event list \<Rightarrow> string \<Rightarrow> string \<Rightarrow> outbound_action_record list \<Rightarrow> conversion_metric" where
  "group_metric evs dm v acts =
     (let total = length acts;
          interviews = count_where (\<lambda>r. has_interview (events_of evs r)) acts;
          offers = count_where (\<lambda>r. has_offer (events_of evs r)) acts
      in \<lparr>cm_dimension = dm, dimension_value = v, total_submissions = total,
          confirmations_count = count_where (\<lambda>r. has_confirmation (events_of evs r)) acts,
          interviews_count = interviews, offers_count = offers,
          rejections_count = count_where (\<lambda>r. has_rejection (events_of evs r)) acts,
          pending_count = count_where (\<lambda>r. \<not> has_interview (events_of evs r) \<and> \<not> has_offer (events_of evs r) \<and>
              \<not> has_rejection (events_of evs r)) acts,
          interview_rate = (if total > 0 then Some (real interviews / real total) else None),
          offer_rate = (if total > 0 then Some (real offers / real total) else None),
          is_sample_sufficient = (total \<ge> 5),
          cm_notes = (if total \<ge> 5 then [] else ''Caution: small sample size (< 5)'')\<rparr>)"

definition compute_dimension_metrics ::
  "outbound_action_record list \<Rightarrow> pipeline_event list \<Rightarrow> string \<Rightarrow> (string \<times> conversion_metric) list" where
  "compute_dimension_metrics recs evs dm =
     map (\<lambda>(v, acts). (v, group_metric evs dm v acts))
       (group_by (\<lambda>r. extract_dimension_value r (events_of evs r) dm) (submitted_actions recs))"

definition compute_source_metrics ::
  "outbound_action_record list \<Rightarrow> pipeline_event list \<Rightarrow> (string \<times> conversion_metric) list" where
  "compute_source_metrics recs evs = compute_dimension_metrics recs evs ''source''"

definition compute_multi_dimensional_metrics ::
  "outbound_action_record list \<Rightarrow> pipeline_event list \<Rightarrow> (string \<times> (string \<times> conversion_metric) list) list" where
  "compute_multi_dimensional_metrics recs evs =
     map (\<lambda>dm. (dm, compute_dimension_metrics recs evs dm)) SUPPORTED_DIMENSIONS"

section \<open>Recommendations\<close>

record recommendation =
  recommendation_id :: string
  rec_dimension :: string
  target_value :: string
  suggested_action :: string
  rec_confidence :: real
  evidence_basis :: string
  requires_founder_approval :: bool

text \<open>Reading a count of a metric by attribute name; a class with slots has no other attributes.\<close>

definition metric_count :: "conversion_metric \<Rightarrow> string \<Rightarrow> nat result" where
  "metric_count m name =
     (case map_of [(''total_submissions'', total_submissions m), (''confirmations_count'', confirmations_count m),
                   (''interviews_count'', interviews_count m), (''offers_count'', offers_count m),
                   (''rejections_count'', rejections_count m), (''pending_count'', pending_count m)] name of
        Some n \<Rightarrow> Inr n
      | None \<Rightarrow> Inl (AttributeError (quoted ''ConversionMetric'' @ '' object has no attribute '' @ quoted name)))"

text \<open>\<open>pct\<close> is the format \<open>:.1%\<close>.\<close>

definition recommend :: "(real \<Rightarrow> string) \<Rightarrow> conversion_metric \<Rightarrow> real \<Rightarrow> recommendation result" where
  "recommend pct m rate =
     bind (metric_count m ''interviews_count'') (\<lambda>i.
     bind (metric_count m ''total_applications'') (\<lambda>t.
       Inr \<lparr>recommendation_id = ''rec-'' @ cm_dimension m @ ''-'' @ dimension_value m,
            rec_dimension = cm_dimension m, target_value = dimension_value m,
            suggested_action = ''Increase discovery priority for high-converting '' @ cm_dimension m @ '' '' @
              quoted (dimension_value m),
            rec_confidence = 85/100,
            evidence_basis = ''Observed '' @ nat_str i @ ''/'' @ nat_str t @ '' interview conversion rate ('' @
              pct rate @ '')'',
            requires_founder_approval = True\<rparr>))"

fun evaluate_conversion_insights :: "(real \<Rightarrow> string) \<Rightarrow> conversion_metric list \<Rightarrow> recommendation list result" where
  "evaluate_conversion_insights pct [] = Inr []"
| "evaluate_conversion_insights pct (m # ms) =
     (if \<not> is_sample_sufficient m then evaluate_conversion_insights pct ms
      else (case interview_rate m of
              None \<Rightarrow> evaluate_conversion_insights pct ms
            | Some rate \<Rightarrow>
                if rate > 30/100
                then bind (recommend pct m rate) (\<lambda>r.
                     bind (evaluate_conversion_insights pct ms) (\<lambda>rs. Inr (r # rs)))
                else evaluate_conversion_insights pct ms))"

section \<open>Groups partition the actions\<close>

lemma count_where_le: "count_where P xs \<le> length xs"
  by (simp add: count_where_def)

lemma count_where_compl: "count_where P xs + count_where (\<lambda>x. \<not> P x) xs = length xs"
  by (simp add: count_where_def sum_length_filter_compl)

lemma count_where_disjoint:
  "(\<And>x. \<not> (P x \<and> Q x)) \<Longrightarrow> count_where P xs + count_where Q xs \<le> length xs"
  by (induction xs) (auto simp: count_where_def)

lemma group_metric_total: "total_submissions (group_metric evs dm v acts) = length acts"
  by (simp add: group_metric_def Let_def)

lemma group_metric_bounds:
  assumes "acts \<noteq> []"
  shows "0 < total_submissions (group_metric evs dm v acts)"
    "confirmations_count (group_metric evs dm v acts) \<le> total_submissions (group_metric evs dm v acts)"
    "interviews_count (group_metric evs dm v acts) + pending_count (group_metric evs dm v acts) \<le> total_submissions (group_metric evs dm v acts)"
    "offers_count (group_metric evs dm v acts) + pending_count (group_metric evs dm v acts) \<le> total_submissions (group_metric evs dm v acts)"
    "rejections_count (group_metric evs dm v acts) + pending_count (group_metric evs dm v acts) \<le> total_submissions (group_metric evs dm v acts)"
    "case interview_rate (group_metric evs dm v acts) of Some r \<Rightarrow> 0 \<le> r \<and> r \<le> 1 | None \<Rightarrow> False"
    "case offer_rate (group_metric evs dm v acts) of Some r \<Rightarrow> 0 \<le> r \<and> r \<le> 1 | None \<Rightarrow> False"
  using assms by (simp_all add: group_metric_def Let_def count_where_le count_where_disjoint)

lemma group_metrics_bounds:
  assumes "\<forall>g\<in>set gs. snd g \<noteq> []"
  shows "list_all (\<lambda>(v, m). 0 < total_submissions m \<and> confirmations_count m \<le> total_submissions m \<and>
       interviews_count m + pending_count m \<le> total_submissions m \<and>
       offers_count m + pending_count m \<le> total_submissions m \<and>
       rejections_count m + pending_count m \<le> total_submissions m \<and>
       (case interview_rate m of Some r \<Rightarrow> 0 \<le> r \<and> r \<le> 1 | None \<Rightarrow> False) \<and>
       (case offer_rate m of Some r \<Rightarrow> 0 \<le> r \<and> r \<le> 1 | None \<Rightarrow> False))
     (map (\<lambda>(v, acts). (v, group_metric evs dm v acts)) gs)"
  using assms
proof (induction gs)
  case (Cons g gs)
  obtain v acts where g: "g = (v, acts)" by force
  have "acts \<noteq> []" using Cons.prems by (simp add: g)
  then show ?case using Cons by (simp add: g group_metric_bounds)
qed simp

lemma evaluate_iff:
  "evaluate_conversion_insights pct ms =
     (if list_ex (\<lambda>m. is_sample_sufficient m \<and> (case interview_rate m of Some r \<Rightarrow> r > 30/100 | None \<Rightarrow> False)) ms
      then Inl (AttributeError (quoted ''ConversionMetric'' @ '' object has no attribute '' @ quoted ''total_applications''))
      else Inr [])"
  by (induction ms) (auto simp: recommend_def metric_count_def split: option.split)

end
