(* ===== verification/Inbox_Properties.thy ===== *)
theory Inbox_Properties
  imports Pg_Inbox_Store Inbox_Gmail Inbox_Analytics
begin

text \<open>
  What the inbox guarantees: processing is exactly once across crashes on both stores, links rest on
  one unique match, signals quote the mail, the state of an opportunity does not depend on the order
  in which its events were written; and where the code falls short of that.
\<close>

section \<open>Data for the concrete instances\<close>

definition sample_mail :: inbound_message where
  "sample_mail = \<lparr>provider = ''imap'', provider_message_id = ''1'', thread_id = ''t1'',
     sender_email = ''a@b.c'', sender_name = ''A'', recipient_email = ''x@y.z'', subject = ''newsletter'',
     snippet = [], body_text = ''unsubscribe'', body_html = [], received_at = ''2026-09-01'',
     msg_headers = [(''To'', ''x@y.z'')], attachment_names = [''cv.pdf''], message_content_hash = ''h1''\<rparr>"

definition sample_inbox :: orchestrator where
  "sample_inbox = \<lparr>o_sha = id, o_catalogue = \<lparr>opportunities = [], outbound_records = [], thread_to_action = Map.empty\<rparr>,
     o_workspace = ''w'', o_candidate = ''c''\<rparr>"

text \<open>A time library on texts that refuses dates with a comma.\<close>

definition sample_iso :: "string iso_codec" where
  "sample_iso = \<lparr>iso_parse = (\<lambda>s. if CHR '','' \<in> set s then None else Some s), iso_text = id, utc_now = ''2026-09-01''\<rparr>"

definition sample_fetch :: transport where
  "sample_fetch = mock_fetch False [sample_mail, sample_mail\<lparr>message_content_hash := ''h2''\<rparr>]"

section \<open>Crash safety\<close>


lemma sample_batch: "sample_fetch (Some ''0'') 50 = Inr ([sample_mail, sample_mail\<lparr>message_content_hash := ''h2''\<rparr>], ''2'')"
  by code_simp

lemma sample_cursor: "get_checkpoint_cursor sqlite_store sample_inbox empty_inbox = ''0''"
  by (simp add: get_checkpoint_cursor_def sqlite_store_def get_checkpoint_def empty_inbox_def)


text \<open>
  C2: crash safety on PostgreSQL, for batches the columns and the time library accept: when the hook
  interrupts a cycle after a message, the next cycle completes and leaves what an uninterrupted one
  would have left.
\<close>

theorem pg_cycle_crash_safe:
  assumes "pg_ok c d"
    and "run_cycle (pg_store c) o' fetch clock hook limit d = (Inl e, d')"
    and "fetch (Some (get_checkpoint_cursor (pg_store c) o' d)) limit = Inr (ms, cur)"
    and "distinct (map message_content_hash ms)"
    and "\<forall>m\<in>set ms. message_ok c m \<and> writes_ok (reconciliation_ok c) (event_ok c) (notification_ok c) o' m"
    and "\<forall>j. time_ok c (clock j)" and "cursor_ok (checkpoint_key o') cur"
  shows "\<exists>r t r' t'. run_cycle (pg_store c) o' fetch clock (\<lambda>_. None) limit d = (Inr r, t) \<and>
    run_cycle (pg_store c) o' fetch clock (\<lambda>_. None) limit d' = (Inr r', t') \<and> pg_view c t' = pg_view c t \<and>
    (\<forall>m\<in>set ms. is_evidence_processed (message_content_hash m) t')"
proof -
  obtain k where k: "pg_ok c d'" "pg_view c d' = run_ops (take k (cycle_ops (iso_norm c) o' ms (pg_view c d))) (pg_view c d)"
    by (rule pg.cycle_interrupted [where fetch = fetch and limit = limit and o' = o', OF assms(1,3,5-7,2)])
  then show ?thesis using assms pg.crash_safe [where c = c and s = d and s' = d' and k = k and o' = o' and ms = ms
        and fetch = fetch and limit = limit and cur = cur and clock = clock] by simp blast
qed

definition sample_hook :: "nat \<Rightarrow> py_exn option" where
  "sample_hook i = (if i = 1 then Some (RuntimeError ''crash'') else None)"

lemma sample_run_interrupted:
  "fst (run_cycle (pg_store sample_iso) sample_inbox sample_fetch (\<lambda>_. ''2026-09-02'') sample_hook 50 empty_inbox) =
     Inl (RuntimeError ''crash'')"
  by code_simp

lemma sample_accepted:
  "\<forall>m\<in>set [sample_mail, sample_mail\<lparr>message_content_hash := ''h2''\<rparr>]. message_ok sample_iso m \<and>
     writes_ok (reconciliation_ok sample_iso) (event_ok sample_iso) (notification_ok sample_iso) sample_inbox m"
  by code_simp

theorem pg_cycle_crash_safe_witness:
  "\<exists>r t r' t'. run_cycle (pg_store sample_iso) sample_inbox sample_fetch (\<lambda>_. ''2026-09-02'') (\<lambda>_. None) 50 empty_inbox = (Inr r, t) \<and>
    run_cycle (pg_store sample_iso) sample_inbox sample_fetch (\<lambda>_. ''2026-09-02'') (\<lambda>_. None) 50
      (snd (run_cycle (pg_store sample_iso) sample_inbox sample_fetch (\<lambda>_. ''2026-09-02'') sample_hook 50 empty_inbox)) = (Inr r', t') \<and>
    pg_view sample_iso t' = pg_view sample_iso t \<and>
    (\<forall>m\<in>set [sample_mail, sample_mail\<lparr>message_content_hash := ''h2''\<rparr>]. is_evidence_processed (message_content_hash m) t')"
proof (rule pg_cycle_crash_safe [where e = "RuntimeError ''crash''" and hook = sample_hook and cur = "''2''"])
  show "run_cycle (pg_store sample_iso) sample_inbox sample_fetch (\<lambda>_. ''2026-09-02'') sample_hook 50 empty_inbox =
      (Inl (RuntimeError ''crash''),
       snd (run_cycle (pg_store sample_iso) sample_inbox sample_fetch (\<lambda>_. ''2026-09-02'') sample_hook 50 empty_inbox))"
    using sample_run_interrupted by (simp add: prod_eq_iff)
  have "get_checkpoint_cursor (pg_store sample_iso) sample_inbox empty_inbox = ''0''"
    by (simp add: get_checkpoint_cursor_def pg_store_def get_checkpoint_def empty_inbox_def)
  then show "sample_fetch (Some (get_checkpoint_cursor (pg_store sample_iso) sample_inbox empty_inbox)) 50 =
      Inr ([sample_mail, sample_mail\<lparr>message_content_hash := ''h2''\<rparr>], ''2'')"
    by (simp only: sample_batch)
  show "\<forall>m\<in>set [sample_mail, sample_mail\<lparr>message_content_hash := ''h2''\<rparr>]. message_ok sample_iso m \<and>
     writes_ok (reconciliation_ok sample_iso) (event_ok sample_iso) (notification_ok sample_iso) sample_inbox m"
    by (rule sample_accepted)
  show "\<forall>j. time_ok sample_iso ''2026-09-02''" by (simp add: time_ok_def sample_iso_def)
  show "cursor_ok (checkpoint_key sample_inbox) ''2''" by code_simp
qed (simp_all add: sample_mail_def)

text \<open>C30: 
  C3: an uninterrupted cycle on SQLite does what the abstract cycle does, for every fetched batch:
  evidence of all messages, then for each unprocessed one the reconciliation, event, notification
  and mark, each at most once under its key, then the cursor. Its counters report exactly the events
  and notifications that were new, and at least the reconciliations.
\<close>

theorem sqlite_cycle_refines:
  assumes "sqlite_ok d" "fetch (Some (get_checkpoint_cursor sqlite_store o' d)) limit = Inr (ms, cur)"
  shows "\<exists>r d'. run_cycle sqlite_store o' fetch clock (\<lambda>_. None) limit d = (Inr r, d') \<and> sqlite_ok d' \<and>
    sqlite_view d' = a_cycle id o' ms cur (sqlite_view d) \<and>
    messages_ingested r = length (todo ms (sqlite_view d)) \<and>
    length (pipeline_events d') = length (pipeline_events d) + events_recorded r \<and>
    length (founder_notifications d') = length (founder_notifications d) + notifications_emitted r \<and>
    length (reconciliation_records d') \<le> length (reconciliation_records d) + reconciliations_created r"
proof -
  have len: "length (v_events (sqlite_view x)) = length (pipeline_events x)"
      "length (v_notes (sqlite_view x)) = length (founder_notifications x)"
      "length (v_recons (sqlite_view x)) = length (reconciliation_records x)" for x
    by (simp_all add: db_view_def)
  obtain r d' where "run_cycle sqlite_store o' fetch clock (\<lambda>_. None) limit d = (Inr r, d')" "sqlite_ok d'"
      "sqlite_view d' = a_cycle id o' ms cur (sqlite_view d)" "messages_ingested r = length (todo ms (sqlite_view d))"
      "events_recorded r + length (v_events (sqlite_view d)) = length (v_events (sqlite_view d'))"
      "notifications_emitted r + length (v_notes (sqlite_view d)) = length (v_notes (sqlite_view d'))"
      "length (v_recons (sqlite_view d')) \<le> reconciliations_created r + length (v_recons (sqlite_view d))"
    using sqlite.cycle_completes [where s = d and fetch = fetch and o' = o' and limit = limit and ms = ms and cur = cur
        and clock = clock] assms by (metis writes_ok_True)
  then show ?thesis unfolding len by auto
qed

theorem sqlite_cycle_refines_witness:
  "\<exists>r d'. run_cycle sqlite_store sample_inbox sample_fetch (\<lambda>_. ''n'') (\<lambda>_. None) 50 empty_inbox = (Inr r, d') \<and> sqlite_ok d' \<and>
    sqlite_view d' = a_cycle id sample_inbox [sample_mail, sample_mail\<lparr>message_content_hash := ''h2''\<rparr>] ''2'' (sqlite_view empty_inbox) \<and>
    messages_ingested r = length (todo [sample_mail, sample_mail\<lparr>message_content_hash := ''h2''\<rparr>] (sqlite_view empty_inbox)) \<and>
    length (pipeline_events d') = length (pipeline_events (empty_inbox :: sqlite_inbox)) + events_recorded r \<and>
    length (founder_notifications d') = length (founder_notifications (empty_inbox :: sqlite_inbox)) + notifications_emitted r \<and>
    length (reconciliation_records d') \<le> length (reconciliation_records (empty_inbox :: sqlite_inbox)) + reconciliations_created r"
  by (rule sqlite_cycle_refines) (simp_all only: empty_inbox_ok sample_cursor sample_batch)

section \<open>Mail that PostgreSQL loses\<close>

lemma gmail_refused:
  assumes "\<forall>i\<in>set is. \<exists>g. gc_get cl i = Inr g \<and> refused_date c d (gmail_evidence digest (gc_decode cl) i g)"
  shows "\<exists>ms. gmail_get_all digest cl is = Inr ms \<and> length ms = length is \<and> (\<forall>m\<in>set ms. refused_date c d m)"
  using assms
proof (induction "is")
  case (Cons i "is")
  then obtain ms g where "gmail_get_all digest cl is = Inr ms" "length ms = length is" "\<forall>m\<in>set ms. refused_date c d m"
      "gc_get cl i = Inr g" "refused_date c d (gmail_evidence digest (gc_decode cl) i g)"
    by auto
  then show ?case by auto
qed simp

text \<open>
  C4: the Gmail transport dates a message by the text of its Date header, the relational store parses
  that text as ISO 8601 and swallows the error. A page of new messages whose Date headers the parser
  refuses, as it does every RFC 2822 date, is classified and counted as ingested, nothing at all is
  stored of it, no founder is notified, and the cursor moves past it.
\<close>

theorem gmail_mail_lost_on_postgres:
  assumes "pg_ok c d"
    and list_call: "gc_list cl (Some (get_checkpoint_cursor (pg_store c) o' d)) limit = Inr page"
    and "next_page_token page = Some cur"
    and mail: "\<forall>i\<in>set (page_ids page). \<exists>g. gc_get cl i = Inr g \<and>
      refused_date c d (gmail_evidence digest (gc_decode cl) i g)"
    and "time_ok c (clock 0)" and "cursor_ok (checkpoint_key o') cur"
  shows "\<exists>r d'. run_cycle (pg_store c) o' (gmail_fetch digest (Some cl)) clock (\<lambda>_. None) limit d = (Inr r, d') \<and>
    same_records d d' \<and> get_checkpoint (checkpoint_key o') d' = Some cur \<and>
    messages_ingested r = length (page_ids page) \<and> signals_detected r = length (page_ids page) \<and>
    events_recorded r = 0 \<and> notifications_emitted r = 0"
proof -
  obtain ms where ms: "gmail_get_all digest cl (page_ids page) = Inr ms" "length ms = length (page_ids page)"
      "\<forall>m\<in>set ms. refused_date c d m"
    using gmail_refused [of "page_ids page" cl c d digest] mail by blast
  have fetch: "gmail_fetch digest (Some cl) (Some (get_checkpoint_cursor (pg_store c) o' d)) limit = Inr (ms, cur)"
    using assms(2,3) ms(1) by (simp add: gmail_fetch_def option_or_def)
  show ?thesis using refused_cycle [where fetch = "gmail_fetch digest (Some cl)" and limit = limit and o' = o'
        and clock = clock, OF assms(1) fetch ms(3) assms(5,6)] ms(2) by auto
qed

definition sample_gmail :: gmail_client where
  "sample_gmail = \<lparr>gc_list = (\<lambda>_ _. Inr \<lparr>page_ids = [''g1''], next_page_token = Some ''p2''\<rparr>),
     gc_get = (\<lambda>_. Inr \<lparr>gm_thread_id = Some ''t'', gm_snippet = Some ''We invite you'',
        gm_headers = [(''Date'', ''Tue, 01 Sep 2026 10:00:00 +0000''), (''Subject'', ''Interview'')], gm_parts = []\<rparr>),
     gc_decode = (\<lambda>s. Some s)\<rparr>"

theorem gmail_mail_lost_on_postgres_witness:
  "\<exists>r d'. run_cycle (pg_store sample_iso) sample_inbox (gmail_fetch (\<lambda>_. ''h'') (Some sample_gmail)) (\<lambda>_. ''2026-09-02'')
      (\<lambda>_. None) 50 empty_inbox = (Inr r, d') \<and>
    same_records empty_inbox d' \<and> get_checkpoint (checkpoint_key sample_inbox) d' = Some ''p2'' \<and>
    messages_ingested r = length (page_ids \<lparr>page_ids = [''g1''], next_page_token = Some ''p2''\<rparr>) \<and>
    signals_detected r = length (page_ids \<lparr>page_ids = [''g1''], next_page_token = Some ''p2''\<rparr>) \<and>
    events_recorded r = 0 \<and> notifications_emitted r = 0"
proof (rule gmail_mail_lost_on_postgres)
  show "time_ok sample_iso ''2026-09-02''" by (simp add: time_ok_def sample_iso_def)
  show "cursor_ok (checkpoint_key sample_inbox) ''p2''" by code_simp
  have date: "header_value [(''Date'', ''Tue, 01 Sep 2026 10:00:00 +0000''), (''Subject'', ''Interview'')] ''date''
      ''2026-08-30T00:00:00Z'' = ''Tue, 01 Sep 2026 10:00:00 +0000''"
    by code_simp
  have "refused_date sample_iso empty_inbox (gmail_evidence (\<lambda>_. ''h'') (gc_decode sample_gmail) ''g1''
      \<lparr>gm_thread_id = Some ''t'', gm_snippet = Some ''We invite you'',
        gm_headers = [(''Date'', ''Tue, 01 Sep 2026 10:00:00 +0000''), (''Subject'', ''Interview'')], gm_parts = []\<rparr>)"
    unfolding refused_date_def gmail_received_at
    by (simp add: date sample_iso_def empty_inbox_def)
  then show "\<forall>i\<in>set (page_ids \<lparr>page_ids = [''g1''], next_page_token = Some ''p2''\<rparr>). \<exists>g. gc_get sample_gmail i = Inr g \<and>
      refused_date sample_iso empty_inbox (gmail_evidence (\<lambda>_. ''h'') (gc_decode sample_gmail) i g)"
    by (simp add: sample_gmail_def)
qed (simp_all add: sample_gmail_def)

section \<open>Stages\<close>

text \<open>
  C5: the derived state of an opportunity depends on its own stored events only, not on the order in
  which they, or the events of other opportunities, were written.
\<close>

theorem opportunity_state_order:
  assumes "sqlite_ok d" "sqlite_ok d'"
    and "mset (filter (\<lambda>r. vr_opportunity_id r = oid) (pipeline_events d)) =
      mset (filter (\<lambda>r. vr_opportunity_id r = oid) (pipeline_events d'))"
  shows "opportunity_state sqlite_store oid trk d = opportunity_state sqlite_store oid trk d' \<and>
    (\<exists>s. opportunity_state sqlite_store oid trk d = Inr s)"
proof -
  have "inj_on event_row_key (set (filter (\<lambda>r. vr_opportunity_id r = oid) (pipeline_events d)))"
    using assms(1) by (auto simp: db_ok_def event_row_key_def distinct_map inj_on_def)
  then have "get_events_for_opportunity oid d = get_events_for_opportunity oid d'"
    unfolding get_events_for_opportunity_def using sort_key_eq_sort_key [OF assms(3)] by metis
  moreover obtain evs where "get_events_for_opportunity oid d' = Inr evs"
    using sqlite.events_for [OF assms(2), of oid] by (auto simp: sqlite_store_def)
  ultimately show ?thesis by (simp add: opportunity_state_def sqlite_store_def)
qed

definition sample_event :: "string \<Rightarrow> SignalCategory \<Rightarrow> string \<Rightarrow> pipeline_event" where
  "sample_event i cat t = \<lparr>event_id = i, pe_opportunity_id = ''o1'', pe_signal_id = i, previous_stage = APPLIED,
     new_stage = INTERVIEWING, pe_track = EMPLOYMENT, trigger_category = cat, pe_content_hash = ''h'',
     occurred_at = t, recorded_at = t, pe_actor = ''system_inbound_engine'', pe_notes = ''n''\<rparr>"

definition two_events :: "pipeline_event list \<Rightarrow> sqlite_inbox" where
  "two_events es = empty_inbox\<lparr>pipeline_events := map (\<lambda>e. event_row_of e (occurred_at e) (recorded_at e)) es\<rparr>"

lemma two_events_ok: "distinct (map event_id es) \<Longrightarrow> sqlite_ok (two_events es)"
  by (auto simp: db_ok_def two_events_def empty_inbox_def event_round_trip list_all_iff comp_def)
    (simp add: event_row_of_def)

theorem opportunity_state_order_witness:
  "opportunity_state sqlite_store ''o1'' EMPLOYMENT (two_events [sample_event ''a'' INTERVIEW_REQUEST ''1'', sample_event ''b'' REJECTION ''2'']) =
    opportunity_state sqlite_store ''o1'' EMPLOYMENT (two_events [sample_event ''b'' REJECTION ''2'', sample_event ''a'' INTERVIEW_REQUEST ''1'']) \<and>
   (\<exists>s. opportunity_state sqlite_store ''o1'' EMPLOYMENT (two_events [sample_event ''a'' INTERVIEW_REQUEST ''1'', sample_event ''b'' REJECTION ''2'']) = Inr s)"
  by (rule opportunity_state_order; (rule two_events_ok)?; simp add: sample_event_def two_events_def empty_inbox_def add_mset_commute)

lemma state_of_view:
  assumes "sqlite_ok d"
  shows "opportunity_state sqlite_store oid trk d =
    Inr (replay_events oid trk (filter (\<lambda>e. pe_opportunity_id e = oid) (v_events (sqlite_view d))) NO_EVENTS)"
proof -
  let ?own = "filter (\<lambda>e. pe_opportunity_id e = oid) (v_events (sqlite_view d))"
  obtain evs where e: "st_events_for sqlite_store oid d = Inr evs" "mset evs = mset ?own"
    using sqlite.events_for [OF assms] by blast
  have "distinct (map event_id ?own)" using sqlite.event_ids [OF assms] by (simp add: distinct_map_filter)
  from replay_mset [OF e(2) [symmetric] this] show ?thesis by (simp add: opportunity_state_def e(1))
qed

text \<open>
  C6: the stage an event records is the stage replay reaches. When an event is recorded for an
  opportunity that has a stage, and no stored event of it is later, its previous stage is the state
  derived before and its new stage the one derived afterwards.
\<close>

theorem recorded_stage_is_replayed:
  assumes "sqlite_ok d"
    and "record_signal_event sqlite_store sha sg corr trk d = (Inr (Some ev), d')"
    and "opportunity_state sqlite_store (pe_opportunity_id ev) trk d = Inr s" and "current_stage s \<noteq> NO_EVENTS"
    and "\<forall>x\<in>set (v_events (sqlite_view d)). pe_opportunity_id x = pe_opportunity_id ev \<longrightarrow> event_key x \<le> event_key ev"
  shows "\<exists>s'. opportunity_state sqlite_store (pe_opportunity_id ev) trk d' = Inr s' \<and>
    previous_stage ev = current_stage s \<and> new_stage ev = current_stage s'"
proof -
  obtain oid where oid: "link_target corr = Some oid"
    using assms(2) by (auto simp: record_signal_event_def split: option.splits)
  let ?own = "filter (\<lambda>e. pe_opportunity_id e = oid) (v_events (sqlite_view d))"
  obtain st where st: "opportunity_state sqlite_store oid trk d = Inr st" "st = replay_events oid trk ?own NO_EVENTS"
    using state_of_view [OF assms(1)] by blast
  have w: "store_pipeline_event (signal_event sha sg oid trk st) d = (True, d')" "ev = signal_event sha sg oid trk st"
    using assms(2) st(1) by (auto simp: record_signal_event_def oid opportunity_state_def sqlite_store_def Let_def
        split: sum.splits prod.splits if_splits)
  have ids: "pe_opportunity_id ev = oid" by (simp add: w(2) signal_event_def Let_def)
  have s: "s = st" using assms(3) st(1) ids by simp
  note k = sqlite_store_event [OF assms(1) w(1)]
  then have ev': "v_events (sqlite_view d') = v_events (sqlite_view d) @ [ev]" by (auto simp: a_event_def w(2))
  then have own': "filter (\<lambda>e. pe_opportunity_id e = oid) (v_events (sqlite_view d')) = ?own @ [ev]" by (simp add: ids)
  have "current_stage (replay_events oid trk (?own @ [ev]) NO_EVENTS) =
      determine_next_stage (current_stage (replay_events oid trk ?own NO_EVENTS)) (trigger_category ev)"
    using assms(5) ids by (intro replay_snoc) auto
  moreover have "previous_stage ev = current_stage st"
    and "new_stage ev = determine_next_stage (current_stage st) (trigger_category ev)"
    using assms(4) s by (simp_all add: w(2) signal_event_def Let_def)
  ultimately show ?thesis using state_of_view [of d' oid trk] k own' s st(2) ids by auto
qed

definition sample_signal :: "SignalCategory \<Rightarrow> inbound_signal" where
  "sample_signal cat = \<lparr>signal_id = ''s9'', sig_content_hash = ''h9'', sig_message_id = ''m9'', sig_category = cat,
     sig_priority = LOW, sig_track = EMPLOYMENT, sig_confidence = 1, sig_summary = ''n'', sig_sender = ''a@b.c'',
     sig_detected_at = ''2'', sig_deadline = None, extracted_references = [], extracted_organization = [],
     extracted_role_title = [], requires_founder_action = False, action_description = []\<rparr>"

definition sample_link :: correlation_evidence where
  "sample_link = \<lparr>corr_signal_id = ''s9'', corr_opportunity_id = Some ''o1'', corr_action_id = None,
     corr_status = EXACT_REFERENCE_MATCH, matching_criteria = [], corr_confidence = 1, is_authoritative = True,
     corr_reason = []\<rparr>"

definition sample_log :: sqlite_inbox where
  "sample_log = two_events [sample_event ''a'' INTERVIEW_REQUEST ''1'']"

definition sample_recorded :: pipeline_event where
  "sample_recorded = signal_event id (sample_signal REJECTION) ''o1'' EMPLOYMENT
     (replay_events ''o1'' EMPLOYMENT [sample_event ''a'' INTERVIEW_REQUEST ''1''] NO_EVENTS)"

lemma sample_log_view: "sqlite_ok sample_log" "v_events (sqlite_view sample_log) = [sample_event ''a'' INTERVIEW_REQUEST ''1'']"
  by (simp_all add: sample_log_def two_events_ok)
    (simp add: db_view_def two_events_def event_round_trip empty_inbox_def)

lemma sample_record:
  "record_signal_event sqlite_store id (sample_signal REJECTION) sample_link EMPLOYMENT sample_log =
     (Inr (Some sample_recorded), snd (store_pipeline_event sample_recorded sample_log))"
proof -
  have "get_events_for_opportunity ''o1'' sample_log = Inr [sample_event ''a'' INTERVIEW_REQUEST ''1'']" by code_simp
  moreover have "fst (store_pipeline_event sample_recorded sample_log)" by code_simp
  ultimately show ?thesis
    by (cases "store_pipeline_event sample_recorded sample_log")
      (simp add: record_signal_event_def link_target_def sample_link_def sqlite_store_def Let_def
        sample_recorded_def [symmetric])
qed

theorem recorded_stage_is_replayed_witness:
  "\<exists>s'. opportunity_state sqlite_store (pe_opportunity_id sample_recorded) EMPLOYMENT
      (snd (store_pipeline_event sample_recorded sample_log)) = Inr s' \<and>
    previous_stage sample_recorded =
      current_stage (replay_events ''o1'' EMPLOYMENT [sample_event ''a'' INTERVIEW_REQUEST ''1''] NO_EVENTS) \<and>
    new_stage sample_recorded = current_stage s'"
proof (rule recorded_stage_is_replayed [OF sample_log_view(1) sample_record])
  have o1: "pe_opportunity_id sample_recorded = ''o1''" by (simp add: sample_recorded_def signal_event_def Let_def)
  show "opportunity_state sqlite_store (pe_opportunity_id sample_recorded) EMPLOYMENT sample_log =
      Inr (replay_events ''o1'' EMPLOYMENT [sample_event ''a'' INTERVIEW_REQUEST ''1''] NO_EVENTS)"
    by (simp add: state_of_view [OF sample_log_view(1)] sample_log_view(2) o1) (simp add: sample_event_def)
  show "current_stage (replay_events ''o1'' EMPLOYMENT [sample_event ''a'' INTERVIEW_REQUEST ''1''] NO_EVENTS) \<noteq> NO_EVENTS"
    by code_simp
  have "event_key (sample_event ''a'' INTERVIEW_REQUEST ''1'') \<le> event_key sample_recorded" by code_simp
  then show "\<forall>x\<in>set (v_events (sqlite_view sample_log)). pe_opportunity_id x = pe_opportunity_id sample_recorded \<longrightarrow>
      event_key x \<le> event_key sample_recorded"
    by (simp add: sample_log_view(2))
qed

text \<open>
  The first event of an opportunity is recorded as if it had been applied to, while replay starts
  from no events: a signal that moves no stage is stored as staying at APPLIED, and the opportunity
  that has this event is reported as having none.
\<close>

lemma first_event_stage_diverges:
  assumes "cat \<in> {PROCUREMENT_AMENDMENT, PROCUREMENT_DEADLINE_CHANGE, CONTRACT_PROGRESS, MARKETING, UNCLASSIFIED}"
    and "sig_category sg = cat"
  shows "new_stage (signal_event sha sg oid trk (replay_events oid trk [] NO_EVENTS)) = APPLIED \<and>
    current_stage (replay_events oid trk [signal_event sha sg oid trk (replay_events oid trk [] NO_EVENTS)] NO_EVENTS) = NO_EVENTS"
  using assms
  by (auto simp: signal_event_def replay_events_def empty_state_def determine_next_stage_def replay_step_def Let_def)

text \<open>Nothing takes a request for action back: after a rejection the invitation still asks for action.\<close>

lemma action_outlives_rejection:
  assumes "needs_action (trigger_category a)" "trigger_category b = REJECTION" "event_key a \<le> event_key b"
  shows "current_stage (replay_events oid trk [a, b] st) = REJECTED \<and> active_action_required (replay_events oid trk [a, b] st)"
  using assms by (auto simp: replay_events_def replay_step_def determine_next_stage_def needs_action_def Let_def)

section \<open>Links and signals\<close>


definition sample_listing :: "string \<Rightarrow> string \<Rightarrow> listed_opportunity" where
  "sample_listing i org = \<lparr>opp_id = i, opp_track = EMPLOYMENT, opp_source = ''s'', content_hash = ''h'',
     organization = org, opp_title = ''Engineer'', source_id = i\<rparr>"

definition sample_catalogue :: "listed_opportunity list \<Rightarrow> catalogue" where
  "sample_catalogue os = \<lparr>opportunities = os, outbound_records = [], thread_to_action = Map.empty\<rparr>"

definition two_openings :: catalogue where
  "two_openings = sample_catalogue [sample_listing ''1'' ''Acme'', sample_listing ''2'' ''Beta'']"

definition acme_mail :: inbound_message where
  "acme_mail = sample_mail\<lparr>thread_id := [], subject := ''Engineer at Acme''\<rparr>"


text \<open>
  An organisation counts as named where its name is part of another word: a mail about a position at
  a pharmacy is linked to the opening at Arm.
\<close>

definition pharmacy_mail :: inbound_message where
  "pharmacy_mail = sample_mail\<lparr>thread_id := [], subject := ''Engineer'', body_text := ''Our pharmacy is hiring''\<rparr>"

lemma substring_false_merge:
  "corr_opportunity_id (correlate (sample_catalogue [sample_listing ''1'' ''Arm'']) (sample_signal INTERVIEW_REQUEST) pharmacy_mail) = Some ''1''"
  by code_simp

text \<open>
  C8: a signal makes nothing up. Its references, organisation, role and deadline text are quoted from
  the mail (or the deadline is the fixed marker of unstated urgency), its deadline is never turned
  into a timestamp, its time is the mail's, and a category other than noise and unclassified is one
  whose trigger phrases occur in the mail.
\<close>

theorem signals_quote_the_mail:
  "list_all (\<lambda>r. sublist r (body_text m @ '' '' @ subject m)) (extracted_references (classify sha m)) \<and>
   sublist (extracted_organization (classify sha m)) (subject m) \<and>
   sublist (extracted_role_title (classify sha m)) (subject m) \<and>
   (case sig_deadline (classify sha m) of
      None \<Rightarrow> True
    | Some dl \<Rightarrow> requires_human_verification dl \<and> iso_timestamp dl = None \<and>
        raw_snippet dl \<in> {x. sublist x (body_text m)} \<union> {TIME_SENSITIVE}) \<and>
   sig_detected_at (classify sha m) = received_at m \<and>
   (sig_category (classify sha m) \<in> {MARKETING, GENERIC_NON_ACTIONABLE_PLATFORM_NOTIFICATION, UNCLASSIFIED} \<or>
    list_ex (\<lambda>r. rule_category r = sig_category (classify sha m) \<and> py_any_in (rule_words r) (full_text m))
      (rules_for (full_text m)))"
proof (cases "py_any_in noise_words (full_text m)")
  case True
  then show ?thesis by (auto simp: classify_def noise_signal_def Let_def)
next
  case False
  define r where "r = (case find (\<lambda>r. py_any_in (rule_words r) (full_text m)) (rules_for (full_text m)) of
      Some r \<Rightarrow> r | None \<Rightarrow> unclassified_rule)"
  have c: "classify sha m = apply_rule sha (extract_all m) r"
    using False by (simp add: classify_def r_def Let_def split: option.split)
  have x: "x_message (extract_all m) = m" "x_refs (extract_all m) = extract_references (body_text m @ '' '' @ subject m)"
      "x_org (extract_all m) = fst (extract_organization_and_role m)" "x_role (extract_all m) = snd (extract_organization_and_role m)"
    by (simp_all add: extract_all_def split: prod.split)
  have org: "sublist (fst (extract_organization_and_role m)) (subject m)" "sublist (snd (extract_organization_and_role m)) (subject m)"
    by (auto simp: extract_organization_and_role_def split: option.split dest: re_search_sublist intro: strip_of_match)
  have cat: "rule_category r = UNCLASSIFIED \<or> (r \<in> set (rules_for (full_text m)) \<and> py_any_in (rule_words r) (full_text m))"
    by (auto simp: r_def unclassified_rule_def plain_rule_def find_Some_iff split: option.split)
  show ?thesis
    using org cat extract_references_sublist [of _ "body_text m @ '' '' @ subject m"] extract_deadline_snippet [of "body_text m"]
    by (auto simp: c apply_rule_def x Let_def list_all_iff list_ex_iff split: option.split)
qed

section \<open>Analytics\<close>

text \<open>
  C9: the metrics of a dimension split the submitted actions into non-empty groups with distinct
  names, so that every submission is counted once; the counts stay within a group's size, no action
  is both pending and answered, and the rates lie between 0 and 1.
\<close>

theorem metrics_count_each_action_once:
  "(\<Sum>(v, m)\<leftarrow>compute_dimension_metrics recs evs dm. total_submissions m) = length (submitted_actions recs) \<and>
   distinct (map fst (compute_dimension_metrics recs evs dm)) \<and>
   list_all (\<lambda>(v, m). 0 < total_submissions m \<and> confirmations_count m \<le> total_submissions m \<and>
       interviews_count m + pending_count m \<le> total_submissions m \<and>
       offers_count m + pending_count m \<le> total_submissions m \<and>
       rejections_count m + pending_count m \<le> total_submissions m \<and>
       (case interview_rate m of Some r \<Rightarrow> 0 \<le> r \<and> r \<le> 1 | None \<Rightarrow> False) \<and>
       (case offer_rate m of Some r \<Rightarrow> 0 \<le> r \<and> r \<le> 1 | None \<Rightarrow> False))
     (compute_dimension_metrics recs evs dm)"
proof -
  let ?f = "\<lambda>r. extract_dimension_value r (events_of evs r) dm"
  let ?gs = "group_by ?f (submitted_actions recs)"
  have total: "(\<Sum>(v, m)\<leftarrow>compute_dimension_metrics recs evs dm. total_submissions m) = (\<Sum>g\<leftarrow>?gs. length (snd g))"
    by (simp add: compute_dimension_metrics_def comp_def split_def group_metric_total)
  have names: "map fst (compute_dimension_metrics recs evs dm) = map fst ?gs"
    by (simp add: compute_dimension_metrics_def comp_def split_def)
  show ?thesis
    unfolding total names group_by_length
    using group_by_distinct [of ?f "submitted_actions recs"]
      group_metrics_bounds [OF group_by_nonempty [of ?f "submitted_actions recs"], of evs dm]
    unfolding compute_dimension_metrics_def by blast
qed

text \<open>
  C10: the learning engine never recommends anything. It raises AttributeError as soon as some metric
  with a sufficient sample has an interview rate above 30 percent, because it formats an attribute a
  metric does not have, and returns no recommendation otherwise.
\<close>

theorem insights_always_raise:
  "evaluate_conversion_insights pct ms =
     (if list_ex (\<lambda>m. is_sample_sufficient m \<and> (case interview_rate m of Some r \<Rightarrow> r > 30/100 | None \<Rightarrow> False)) ms
      then Inl (AttributeError (quoted ''ConversionMetric'' @ '' object has no attribute '' @ quoted ''total_applications''))
      else Inr [])"
  by (rule evaluate_iff)

end
