(* ===== verification/Postings.thy ===== *)
theory Postings
  imports Answer_Engine
begin

text \<open>
  What matching reads of an opportunity (\<open>opportunity/models.py\<close>), the names of countries
  (\<open>opportunity/normalization.py\<close>), the predicates of founder facts (\<open>truth/predicates.py\<close>) and the
  result of a hard constraint with its validating constructor (\<open>matching/models.py\<close>).
\<close>

section \<open>Opportunities\<close>

text \<open>Members shared by the three enumerations get a prefix.\<close>

datatype WorkMode = REMOTE | HYBRID | ONSITE | WORK_MODE_UNSPECIFIED

datatype RemotePolicy = POLICY_REMOTE | POLICY_HYBRID | ON_SITE | POLICY_UNSPECIFIED

datatype RemoteScope = WORLDWIDE | REGION_RESTRICTED | SCOPE_UNSPECIFIED

fun work_mode_value :: "WorkMode \<Rightarrow> string" where
  "work_mode_value REMOTE = ''remote''"
| "work_mode_value HYBRID = ''hybrid''"
| "work_mode_value ONSITE = ''onsite''"
| "work_mode_value WORK_MODE_UNSPECIFIED = ''unspecified''"

fun remote_policy_value :: "RemotePolicy \<Rightarrow> string" where
  "remote_policy_value POLICY_REMOTE = ''remote''"
| "remote_policy_value POLICY_HYBRID = ''hybrid''"
| "remote_policy_value ON_SITE = ''on_site''"
| "remote_policy_value POLICY_UNSPECIFIED = ''unspecified''"

fun remote_scope_value :: "RemoteScope \<Rightarrow> string" where
  "remote_scope_value WORLDWIDE = ''worldwide''"
| "remote_scope_value REGION_RESTRICTED = ''region_restricted''"
| "remote_scope_value SCOPE_UNSPECIFIED = ''unspecified''"

fun work_mode_to_remote_policy :: "WorkMode \<Rightarrow> RemotePolicy" where
  "work_mode_to_remote_policy REMOTE = POLICY_REMOTE"
| "work_mode_to_remote_policy HYBRID = POLICY_HYBRID"
| "work_mode_to_remote_policy ONSITE = ON_SITE"
| "work_mode_to_remote_policy WORK_MODE_UNSPECIFIED = POLICY_UNSPECIFIED"

record field_provenance =
  field_name :: string
  raw_pointer :: string

record procurement =
  buyer_country :: string
  bid_bonding_required :: "bool option"
  turnover_required :: "real option"
  languages :: "string list"

text \<open>The pointer of the raw provenance is \<open>None\<close> where the opportunity has no raw provenance.\<close>

record posting = opportunity +
  post_title :: string
  description :: string
  requirements :: "string list"
  post_skills :: "string list"
  location_raw :: string
  work_mode :: WorkMode
  location_country :: string
  remote_scope :: RemoteScope
  remote_scope_regions :: "string list"
  procurement_metadata :: "procurement option"
  provenance_raw_pointer :: "string option"
  raw_record_pointer :: string
  field_provenances :: "field_provenance list"

definition remote_policy :: "'a posting_scheme \<Rightarrow> RemotePolicy" where
  "remote_policy opp = work_mode_to_remote_policy (work_mode opp)"

section \<open>Countries\<close>

definition COUNTRY_ALIASES :: "(string \<times> string) list" where
  "COUNTRY_ALIASES =
    [(''algeria'', ''DZ''), (''argentina'', ''AR''), (''australia'', ''AU''), (''austria'', ''AT''),
     (''bahrain'', ''BH''), (''bangladesh'', ''BD''), (''belgium'', ''BE''), (''brazil'', ''BR''),
     (''canada'', ''CA''), (''chile'', ''CL''), (''china'', ''CN''), (''colombia'', ''CO''),
     (''czech republic'', ''CZ''), (''czechia'', ''CZ''), (''denmark'', ''DK''), (''egypt'', ''EG''),
     (''egy'', ''EG''), (''finland'', ''FI''), (''france'', ''FR''), (''germany'', ''DE''),
     (''ghana'', ''GH''), (''greece'', ''GR''), (''hungary'', ''HU''), (''india'', ''IN''),
     (''indonesia'', ''ID''), (''ireland'', ''IE''), (''israel'', ''IL''), (''italy'', ''IT''),
     (''japan'', ''JP''), (''jordan'', ''JO''), (''kenya'', ''KE''), (''kuwait'', ''KW''),
     (''lebanon'', ''LB''), (''malaysia'', ''MY''), (''mexico'', ''MX''), (''morocco'', ''MA''),
     (''netherlands'', ''NL''), (''the netherlands'', ''NL''), (''holland'', ''NL''),
     (''new zealand'', ''NZ''), (''nigeria'', ''NG''), (''norway'', ''NO''), (''oman'', ''OM''),
     (''pakistan'', ''PK''), (''peru'', ''PE''), (''philippines'', ''PH''), (''poland'', ''PL''),
     (''portugal'', ''PT''), (''qatar'', ''QA''), (''romania'', ''RO''), (''saudi arabia'', ''SA''),
     (''singapore'', ''SG''), (''south africa'', ''ZA''), (''south korea'', ''KR''),
     (''korea'', ''KR''), (''spain'', ''ES''), (''sweden'', ''SE''), (''switzerland'', ''CH''),
     (''thailand'', ''TH''), (''tunisia'', ''TN''), (''turkey'', ''TR''), (''ukraine'', ''UA''),
     (''united arab emirates'', ''AE''), (''uae'', ''AE''), (''united kingdom'', ''GB''),
     (''uk'', ''GB''), (''u.k.'', ''GB''), (''great britain'', ''GB''), (''united states'', ''US''),
     (''usa'', ''US''), (''united states of america'', ''US''), (''u.s.'', ''US''),
     (''u.s.a.'', ''US''), (''vietnam'', ''VN'')]"

definition country_code_to_name :: "string \<Rightarrow> string" where
  "country_code_to_name s =
     (if s = [] then []
      else
        (let code = py_upper (py_strip s) in
         case find (\<lambda>(name, mapped). mapped = code \<and> CHR '' '' \<notin> set name \<and> length name > 2) COUNTRY_ALIASES of
           Some (name, _) \<Rightarrow> py_title name
         | None \<Rightarrow> (case find (\<lambda>(name, mapped). mapped = code) COUNTRY_ALIASES of
                      Some (name, _) \<Rightarrow> py_title name
                    | None \<Rightarrow> code)))"

section \<open>Founder facts\<close>

text \<open>An assertion whose value may be a number; \<open>assertion_value\<close> is still \<open>str(value)\<close>.\<close>

record graph_assertion = atomic_assertion +
  assertion_number :: "real option"

definition WORK_AUTHORIZATION_JURISDICTION :: string where
  "WORK_AUTHORIZATION_JURISDICTION = ''work_authorization.jurisdiction''"

definition CAPACITY_ANNUAL_TURNOVER_USD :: string where
  "CAPACITY_ANNUAL_TURNOVER_USD = ''capacity.annual_turnover_usd''"

definition RESIDENCE_LOCATION_PREDICATES :: "string set" where
  "RESIDENCE_LOCATION_PREDICATES = {''residence.country'', ''residence.city'', ''location.city'',
     ''location.country'', ''residence.jurisdiction''}"

definition LANGUAGE_PREDICATES :: "string set" where
  "LANGUAGE_PREDICATES = {''language.language'', ''language.proficiency''}"

section \<open>Results of hard constraints\<close>

record constraint_result =
  constraint_name :: string
  passed :: "bool option"
  cr_reason :: string
  required_field :: string
  founder_fact :: string
  is_hard_failure :: bool
  provenance_pointer :: string
  constraint_type :: string
  job_evidence_text :: string
  job_evidence_field :: string
  source_pointer :: string
  founder_side_evidence :: string
  cr_decision :: "bool option"
  cr_confidence :: "real option"
  requirement_mandatory :: "bool option"
  explanation :: string

text \<open>\<open>if canonical and legacy and canonical != legacy\<close>, for the four pairs.\<close>

definition alias_conflict :: "constraint_result \<Rightarrow> string option" where
  "alias_conflict r =
     (let clash = (\<lambda>a b. a \<noteq> [] \<and> b \<noteq> [] \<and> a \<noteq> b) in
      if clash (constraint_type r) (constraint_name r) then Some ''constraint_type''
      else if clash (source_pointer r) (provenance_pointer r) then Some ''source_pointer''
      else if clash (founder_side_evidence r) (founder_fact r) then Some ''founder_side_evidence''
      else if clash (explanation r) (cr_reason r) then Some ''explanation''
      else None)"

definition fill_aliases :: "constraint_result \<Rightarrow> constraint_result" where
  "fill_aliases r =
     (let sp = py_or (source_pointer r) (provenance_pointer r) in
      r\<lparr>constraint_type := py_or (constraint_type r) (constraint_name r), source_pointer := sp,
        provenance_pointer := py_or (provenance_pointer r) sp,
        founder_side_evidence := py_or (founder_side_evidence r) (founder_fact r),
        explanation := py_or (explanation r) (cr_reason r),
        job_evidence_field := py_or (job_evidence_field r) (required_field r)\<rparr>)"

definition default_confidence :: "bool option \<Rightarrow> real" where
  "default_confidence p = (if p \<noteq> None then 9/10 else 35/100)"

definition post_init_result :: "constraint_result \<Rightarrow> constraint_result result" where
  "post_init_result r0 =
     (if constraint_name r0 = [] then Inl (ValueError ''constraint_name cannot be empty'')
      else if required_field r0 = [] then Inl (ValueError ''required_field cannot be empty'')
      else (case alias_conflict r0 of
        Some name \<Rightarrow> Inl (ValueError (name @ '' conflicts with its compatibility field''))
      | None \<Rightarrow>
         (let r = fill_aliases r0;
              conf = (case cr_confidence r of Some c \<Rightarrow> c | None \<Rightarrow> default_confidence (passed r))
          in if py_strip (source_pointer r) = []
             then Inl (ValueError ''a hard-constraint result requires a valid job-side source pointer'')
             else if py_strip (founder_side_evidence r) = []
             then Inl (ValueError ''founder-side evidence cannot be empty'')
             else if py_strip (job_evidence_text r) = [] \<and> py_strip (job_evidence_field r) = []
             then Inl (ValueError ''job-side evidence text or a structured field is required'')
             else if cr_decision r \<noteq> None \<and> cr_decision r \<noteq> passed r
             then Inl (ValueError ''decision must match the compatibility field passed'')
             else if \<not> (0 \<le> conf \<and> conf \<le> 1) then Inl (ValueError ''confidence must be in [0.0, 1.0]'')
             else if is_hard_failure r \<and> passed r \<noteq> Some False
             then Inl (ValueError ''a hard failure must have decision=False'')
             else if is_hard_failure r \<and> (case py_strip (source_pointer r) of c # _ \<Rightarrow> c = CHR ''.'' | [] \<Rightarrow> True)
             then Inl (ValueError ''a hard failure requires a valid job-side source pointer'')
             else Inr (r\<lparr>cr_decision := passed r, cr_confidence := Some conf\<rparr>))))"

end
