(* ===== verification/Qualification.thy ===== *)
theory Qualification
  imports Postings Py_Regex Json "HOL-Library.List_Lexorder" "HOL-Library.Char_ord"
begin

text \<open>
  \<open>matching/qualification.py\<close>: the hard constraints of an opportunity, evaluated against the
  founder's truth graph. The graph is the list of its assertions in the order of
  \<open>assertions.values()\<close>; the policy is the pair of its jurisdiction lists; \<open>fmt\<close> prints a float.
  Every result passes the constructor of \<open>Postings\<close>, so an evaluation may raise.
\<close>

section \<open>Addressing the job-side evidence\<close>

definition lookup_alias :: "string \<Rightarrow> string" where
  "lookup_alias c =
     (if c = ''remote_policy'' then ''work_mode'' else if c = ''location'' then ''location_raw'' else c)"

definition lineage_of :: "posting \<Rightarrow> string \<Rightarrow> field_provenance list" where
  "lineage_of opp c =
     filter (\<lambda>p. field_name p \<in> {c, lookup_alias c, py_leaf (lookup_alias c)} \<and> raw_pointer p \<noteq> [])
       (field_provenances opp)"

definition record_pointer :: "posting \<Rightarrow> string" where
  "record_pointer opp =
     py_or (raw_record_pointer opp) (case provenance_raw_pointer opp of Some p \<Rightarrow> p | None \<Rightarrow> [])"

definition job_source_pointer :: "posting \<Rightarrow> string \<Rightarrow> string" where
  "job_source_pointer opp fname =
     (let cands = py_split CHR ''/'' fname in
      case concat (map (lineage_of opp) cands) of
        p # _ \<Rightarrow> raw_pointer p
      | [] \<Rightarrow>
          (let leaf = lookup_alias (hd cands); r = record_pointer opp in
           if r \<noteq> [] then r @ ''.'' @ leaf
           else ''opportunity:'' @ opp_id opp @ ''#/'' @ leaf))"

definition py_bool :: "bool \<Rightarrow> string" where
  "py_bool b = (if b then ''True'' else ''False'')"

text \<open>\<open>str(values.get(candidate))\<close>; \<open>None\<close> for a missing key or a value of \<open>None\<close>.\<close>

definition evidence_value :: "(real \<Rightarrow> string) \<Rightarrow> posting \<Rightarrow> string \<Rightarrow> string option" where
  "evidence_value fmt opp c =
     (let pm = procurement_metadata opp;
          of_pm = (\<lambda>f. Some (case pm of Some m \<Rightarrow> f m | None \<Rightarrow> []))
      in Option.bind (map_of [
        (''remote_scope'', Some (remote_scope_value (remote_scope opp))),
        (''remote_scope_regions'', Some (py_join '', '' (remote_scope_regions opp))),
        (''location_country'', Some (location_country opp)),
        (''work_mode'', Some (work_mode_value (work_mode opp))),
        (''remote_policy'', Some (work_mode_value (work_mode opp))),
        (''location_raw'', Some (location_raw opp)),
        (''location'', Some (location_raw opp)),
        (''title'', Some (post_title opp)),
        (''requirements'', Some (py_join ''; '' (requirements opp))),
        (''skills'', Some (py_join ''; '' (post_skills opp))),
        (''description'', Some []),
        (''procurement_metadata'', Some (if pm \<noteq> None then ''present'' else ''missing'')),
        (''procurement_metadata.buyer_country'', of_pm buyer_country),
        (''buyer_country'', of_pm buyer_country),
        (''procurement_metadata.turnover_required'', map_option fmt (Option.bind pm turnover_required)),
        (''turnover_required'', map_option fmt (Option.bind pm turnover_required)),
        (''procurement_metadata.bid_bonding_required'',
           map_option py_bool (Option.bind pm bid_bonding_required)),
        (''bid_bonding_required'', map_option py_bool (Option.bind pm bid_bonding_required)),
        (''procurement_metadata.languages'', of_pm (\<lambda>m. py_join '', '' (languages m))),
        (''languages'', of_pm (\<lambda>m. py_join '', '' (languages m)))] c) id)"

definition structured_job_evidence :: "(real \<Rightarrow> string) \<Rightarrow> posting \<Rightarrow> string \<Rightarrow> string" where
  "structured_job_evidence fmt opp fname =
     py_or (py_join ''; '' (concat (map (\<lambda>c.
        case evidence_value fmt opp c of
          Some v \<Rightarrow> if py_strip v \<noteq> [] then [c @ ''='' @ v] else []
        | None \<Rightarrow> []) (py_split CHR ''/'' fname)))) fname"

section \<open>Building results\<close>

text \<open>The constructor call the evaluators share: the arguments they pass, the others defaulted.\<close>

definition hard_constraint ::
  "string \<Rightarrow> bool option \<Rightarrow> string \<Rightarrow> string \<Rightarrow> string \<Rightarrow> bool \<Rightarrow> string \<Rightarrow> string \<Rightarrow> bool option
     \<Rightarrow> constraint_result result" where
  "hard_constraint name p why fld founder hard ptr cited mand =
     post_init_result
       \<lparr>constraint_name = name, passed = p, cr_reason = why, required_field = fld, founder_fact = founder,
        is_hard_failure = hard, provenance_pointer = ptr, constraint_type = [], job_evidence_text = cited,
        job_evidence_field = [], source_pointer = [], founder_side_evidence = [], cr_decision = None,
        cr_confidence = None, requirement_mandatory = mand, explanation = []\<rparr>"

definition verified_about :: "string set \<Rightarrow> graph_assertion list \<Rightarrow> graph_assertion list" where
  "verified_about preds g = filter (\<lambda>a. predicate a \<in> preds \<and> verification_status a = VERIFIED) g"

definition value_fold :: "graph_assertion \<Rightarrow> string" where
  "value_fold a = py_lower (assertion_value a)"

section \<open>Geography\<close>

definition geo_of_scope :: "posting \<Rightarrow> constraint_result result option" where
  "geo_of_scope opp =
     (let ptr = raw_record_pointer opp @ ''.remote_scope'';
          regions = map py_upper (remote_scope_regions opp)
      in if work_mode opp \<in> {ONSITE, HYBRID} then None
         else if remote_scope opp = WORLDWIDE
         then Some (hard_constraint ''geographic_eligibility'' (Some True)
           ''Worldwide remote role; no geographic restriction'' ''remote_scope''
           ''Opportunity permits worldwide remote engagement'' False ptr [] None)
         else if remote_scope opp = REGION_RESTRICTED
         then Some (if ''EG'' \<in> set regions \<or> ''MENA'' \<in> set regions \<or> ''EMEA'' \<in> set regions
           then hard_constraint ''geographic_eligibility'' (Some True)
             (''Region-restricted remote role includes Egypt ('' @
              py_or (py_join '', '' regions) ''unspecified region'' @ '')'') ''remote_scope''
             ''Founder region (Egypt) is included in remote_scope_regions'' False ptr [] None
           else hard_constraint ''geographic_eligibility'' None
             (''remote but region-restricted (excludes Egypt): restricted to '' @
              py_or (py_join '', '' regions) ''an unspecified region'') ''remote_scope''
             ''Founder residence (Egypt) is not in the restricted region list'' False ptr [] None)
         else None)"

definition country_name_of :: "posting \<Rightarrow> string" where
  "country_name_of opp = py_lower (country_code_to_name (location_country opp))"

definition names_country :: "posting \<Rightarrow> graph_assertion \<Rightarrow> bool" where
  "names_country opp a \<longleftrightarrow> py_lower (py_strip (assertion_value a)) = country_name_of opp"

definition geo_positive :: "posting \<Rightarrow> graph_assertion list \<Rightarrow> bool" where
  "geo_positive opp g \<longleftrightarrow>
     list_ex (\<lambda>a. names_country opp a \<and> polarity a \<noteq> NEGATIVE)
       (verified_about {WORK_AUTHORIZATION_JURISDICTION} g) \<or>
     list_ex (names_country opp) (verified_about RESIDENCE_LOCATION_PREDICATES g)"

definition geo_negative :: "posting \<Rightarrow> graph_assertion list \<Rightarrow> bool" where
  "geo_negative opp g \<longleftrightarrow>
     list_ex (\<lambda>a. names_country opp a \<and> polarity a = NEGATIVE)
       (verified_about {WORK_AUTHORIZATION_JURISDICTION} g)"

definition geo_of_country :: "posting \<Rightarrow> graph_assertion list \<Rightarrow> constraint_result result" where
  "geo_of_country opp g =
     (let country = py_title (country_name_of opp);
          ptr = raw_record_pointer opp @ ''.location_country'';
          mode = work_mode_value (work_mode opp)
      in if geo_positive opp g
         then hard_constraint ''geographic_eligibility'' (Some True)
           (''Founder has verified eligibility in '' @ country) ''location_country''
           (''Verified residence/authorization: '' @ country) False ptr [] None
         else if geo_negative opp g
         then (if work_mode opp \<in> {ONSITE, HYBRID}
           then hard_constraint ''geographic_eligibility'' (Some False)
             (''Opportunity requires '' @ mode @ '' presence in '' @ country @
              '', which founder has a verified negative authorization status for'') ''location_country''
             (''Verified lack of work authorization in '' @ country) True
             (job_source_pointer opp ''location_country'')
             (''work_mode='' @ mode @ ''; location_country='' @ location_country opp) (Some True)
           else hard_constraint ''geographic_eligibility'' None
             (''Labelled gap, not a disqualification: opportunity'' @ [CHR 0x27] @ ''s location is '' @ country @
              '', which founder has a verified negative work-authorization status for, but work_mode is '' @
              quoted mode @ '' (not onsite/hybrid), so physical presence there is not established as required'')
             ''location_country'' (''Verified lack of work authorization in '' @ country) False ptr [] None)
         else hard_constraint ''geographic_eligibility'' None
           (''Opportunity located in '' @ country @
            ''; founder eligibility for that country is unasserted in the truth graph'')
           ''location_country'' ''Country eligibility unasserted in truth graph'' False ptr [] None)"

text \<open>\<open>_resolve_geo_from_extracted_fields\<close>; \<open>None\<close> where it returns \<open>None\<close>.\<close>

definition resolve_geo :: "posting \<Rightarrow> graph_assertion list \<Rightarrow> constraint_result result option" where
  "resolve_geo opp g =
     (case geo_of_scope opp of
        Some r \<Rightarrow> Some r
      | None \<Rightarrow> if location_country opp \<noteq> [] then Some (geo_of_country opp g) else None)"

definition geo_constraint :: "posting \<Rightarrow> graph_assertion list \<Rightarrow> constraint_result result" where
  "geo_constraint opp g =
     (case resolve_geo opp g of
        Some r \<Rightarrow> r
      | None \<Rightarrow> hard_constraint ''geographic_eligibility'' None
          ''Geographic eligibility is unresolved from structured location and remote-scope evidence''
          ''remote_scope/location_country/work_mode''
          ''Verified Founder compatibility with the required work location is unasserted'' False
          (job_source_pointer opp ''remote_scope'') [] None)"


section \<open>Work mode\<close>

definition residences :: "graph_assertion list \<Rightarrow> string list" where
  "residences g = map value_fold (verified_about RESIDENCE_LOCATION_PREDICATES g)"

definition onsite_constraint :: "posting \<Rightarrow> graph_assertion list \<Rightarrow> constraint_result result" where
  "onsite_constraint opp g =
     (let new = (\<lambda>p why fact. hard_constraint ''work_mode_onsite'' p why ''remote_policy'' fact False
                   (raw_record_pointer opp @ ''.location'') [] (Some True));
          loc = py_lower (location_raw opp)
      in if residences g = []
         then new None (''Mandatory on-site attendance required at '' @
                quoted (py_or (location_raw opp) ''unspecified location'') @
                ''; founder physical location not asserted in truth graph'')
              ''Founder physical location unasserted in truth graph''
         else if location_raw opp = []
         then new None ''On-site policy specified but location text is absent''
              ''A verified Founder residence exists, but the required onsite location is unasserted''
         else if list_ex (\<lambda>fl. py_in fl loc \<or> py_in loc fl) (residences g)
         then new (Some True) ''On-site location is consistent with a verified Founder residence''
              ''Verified Founder residence is consistent with the onsite location''
         else new None
              ''Mandatory onsite location differs from a verified Founder residence; relocation feasibility is unasserted''
              ''No verified Founder-side restriction establishes inability or unwillingness to relocate'')"

definition work_mode_constraints ::
  "posting \<Rightarrow> graph_assertion list \<Rightarrow> constraint_result result list" where
  "work_mode_constraints opp g =
     (if remote_policy opp = ON_SITE then [onsite_constraint opp g]
      else if remote_policy opp \<in> {POLICY_REMOTE, POLICY_HYBRID}
      then [hard_constraint ''work_mode_remote'' (Some True)
              (''Remote work permitted under policy '' @ quoted (remote_policy_value (remote_policy opp)))
              ''remote_policy'' ''Opportunity permits remote/hybrid engagement'' False
              (raw_record_pointer opp @ ''.remote_policy'') [] (Some True)]
      else [])"

section \<open>Work authorization\<close>

fun phrase :: "string list \<Rightarrow> re" where
  "phrase [] = Eps"
| "phrase [w] = liti w"
| "phrase (w # v # ws) = Cat (liti w) (Cat spaces1 (phrase (v # ws)))"

definition auth_re :: re where
  "auth_re = cats [Edge,
     any_of [phrase [''must'', ''have'', ''valid'', ''work'', ''authorization'', ''in''],
             phrase [''eligible'', ''to'', ''work'', ''in''],
             phrase [''authorized'', ''to'', ''work'', ''in'']],
     spaces1,
     Cap (let c = Ch (\<lambda>d. py_isalpha d \<or> py_isspace d) in Cat c (Few c)),
     Ahead (any_of [lit ''.'', cats [Edge, liti ''without'', Edge], cats [Edge, liti ''and'', Edge], AtEnd])]"

definition about_jurisdiction :: "string \<Rightarrow> graph_assertion \<Rightarrow> bool" where
  "about_jurisdiction req a \<longleftrightarrow>
     py_in (value_fold a) (py_lower req) \<or> py_in (py_lower req) (value_fold a)"

definition auth_matches :: "string \<Rightarrow> graph_assertion list \<Rightarrow> graph_assertion list" where
  "auth_matches req g =
     filter (\<lambda>a. about_jurisdiction req a \<and> polarity a \<noteq> NEGATIVE \<and> value_fold a \<noteq> ''none'')
       (verified_about {WORK_AUTHORIZATION_JURISDICTION} g)"

definition auth_negations :: "string \<Rightarrow> graph_assertion list \<Rightarrow> graph_assertion list" where
  "auth_negations req g =
     filter (\<lambda>a. about_jurisdiction req a \<and>
         (polarity a = NEGATIVE \<or> value_fold a \<in> {''none'', ''ineligible'', ''unauthorized''}))
       (verified_about {WORK_AUTHORIZATION_JURISDICTION} g)"

definition authorization_constraints ::
  "posting \<Rightarrow> graph_assertion list \<Rightarrow> constraint_result result list" where
  "authorization_constraints opp g =
     (case re_search auth_re (description opp) of
        None \<Rightarrow> []
      | Some (m, grp) \<Rightarrow>
          (let req = py_strip grp;
               new = (\<lambda>p why fact hard. hard_constraint ''work_authorization'' p why ''description'' fact hard
                        (job_source_pointer opp ''description'') (py_strip m) (Some True))
           in [if auth_matches req g \<noteq> [] \<and> auth_negations req g = []
               then new (Some True) (''Founder possesses verified work authorization for '' @ quoted req)
                      (''Verified authorization for '' @ req) False
               else if auth_negations req g \<noteq> []
               then new (Some False) (''Explicit work authorization required for '' @ quoted req @
                        '', which founder verified negative status for'')
                      (''Verified lack of work authorization for '' @ req) True
               else new None (''Work authorization required for '' @ quoted req @
                        ''; founder authorization status for '' @ quoted req @ '' unasserted in truth graph'')
                      ''Founder work authorization unasserted in truth graph'' False]))"

section \<open>Languages of employment\<close>

definition lang_re :: re where
  "lang_re = cats [Edge,
     any_of [phrase [''fluent'', ''in''], liti ''native'', phrase [''must'', ''speak''],
             phrase [''required'', ''language:'']],
     spaces1,
     Cap (any_of (map liti [''German'', ''French'', ''Spanish'', ''Japanese'', ''Mandarin'',
                            ''Russian'', ''Italian''])),
     Edge]"

definition lang_text :: "posting \<Rightarrow> string" where
  "lang_text opp = post_title opp @ '' '' @ description opp"

definition lang_field :: "posting \<Rightarrow> string" where
  "lang_field opp =
     (case re_start lang_re (lang_text opp) of
        Some n \<Rightarrow> if n < length (post_title opp) then ''title'' else ''description''
      | None \<Rightarrow> ''description'')"

definition lang_matches :: "string \<Rightarrow> graph_assertion list \<Rightarrow> graph_assertion list" where
  "lang_matches req g =
     filter (\<lambda>a. py_title (assertion_value a) = req \<and> polarity a \<noteq> NEGATIVE \<and> value_fold a \<noteq> ''none'')
       (verified_about LANGUAGE_PREDICATES g)"

definition lang_negations :: "string \<Rightarrow> graph_assertion list \<Rightarrow> graph_assertion list" where
  "lang_negations req g =
     filter (\<lambda>a. py_title (assertion_value a) = req \<and> polarity a = NEGATIVE \<or>
         value_fold a \<in> {''no '' @ py_lower req, ''not proficient in '' @ py_lower req})
       (verified_about LANGUAGE_PREDICATES g)"

definition language_constraints ::
  "posting \<Rightarrow> graph_assertion list \<Rightarrow> constraint_result result list" where
  "language_constraints opp g =
     (case re_search lang_re (lang_text opp) of
        None \<Rightarrow> []
      | Some (m, grp) \<Rightarrow>
          (let req = py_title grp;
               new = (\<lambda>p why fact hard. hard_constraint ''language_requirement'' p why (lang_field opp) fact hard
                        (job_source_pointer opp (lang_field opp)) m (Some True))
           in [if lang_matches req g \<noteq> []
               then new (Some True) (''Founder verified in required language '' @ quoted req)
                      (''Verified proficiency in '' @ req) False
               else if lang_negations req g \<noteq> []
               then new (Some False) (''Mandatory language required: '' @ quoted req @
                        '', which founder explicitly lacks under verified truth graph'')
                      (''Verified lack of proficiency in '' @ req) True
               else new None (''Mandatory language required: '' @ quoted req @
                        ''; founder proficiency unasserted in truth graph'')
                      (''Language proficiency for '' @ quoted req @ '' unasserted in truth graph'') False]))"

definition employment_constraints ::
  "posting \<Rightarrow> graph_assertion list \<Rightarrow> constraint_result result list" where
  "employment_constraints opp g =
     [geo_constraint opp g] @ work_mode_constraints opp g @ authorization_constraints opp g @
     language_constraints opp g"


section \<open>Procurement\<close>

record scoring_policy =
  prohibited_jurisdictions :: "string list"
  approved_delivery_jurisdictions :: "string list"

definition buyer_constraints ::
  "scoring_policy \<Rightarrow> posting \<Rightarrow> procurement \<Rightarrow> constraint_result result list" where
  "buyer_constraints pol opp pm =
     (let bc = py_strip (buyer_country pm);
          named = list_ex (\<lambda>p. py_in (py_lower p) (py_lower bc));
          new = (\<lambda>p why fact hard ptr cited. hard_constraint ''buyer_country_policy'' p why
                   ''procurement_metadata.buyer_country'' fact hard ptr cited (Some False));
          ptr = raw_record_pointer opp @ ''.buyer_country''
      in if buyer_country pm = [] then []
         else if prohibited_jurisdictions pol \<noteq> [] \<and> named (prohibited_jurisdictions pol)
         then [new (Some False) (''Procurement buyer in prohibited jurisdiction '' @ quoted bc @
                  '' under founder policy'')
                (''Policy prohibited jurisdictions: '' @ py_join '', '' (prohibited_jurisdictions pol)) True
                (job_source_pointer opp ''procurement_metadata.buyer_country'') (''buyer_country='' @ bc)]
         else if approved_delivery_jurisdictions pol \<noteq> [] \<and> named (approved_delivery_jurisdictions pol)
         then [new (Some True) (''Buyer jurisdiction '' @ quoted bc @ '' is in approved delivery list'')
                (''Approved delivery jurisdiction: '' @ bc) False ptr []]
         else [new None (''Procurement buyer in jurisdiction '' @ quoted bc @
                  ''; delivery compliance requires review'')
                ''Buyer jurisdiction compliance unconfirmed'' False ptr []])"

definition turnovers :: "graph_assertion list \<Rightarrow> graph_assertion list" where
  "turnovers g = verified_about {CAPACITY_ANNUAL_TURNOVER_USD} g"

text \<open>\<open>max((float(a.value) for a in ... if isinstance(a.value, (int, float))), default=0.0)\<close>.\<close>

definition verified_turnover :: "graph_assertion list \<Rightarrow> real" where
  "verified_turnover g =
     (case List.map_filter assertion_number (turnovers g) of [] \<Rightarrow> 0 | x # xs \<Rightarrow> foldl max x xs)"

definition turnover_constraints ::
  "(real \<Rightarrow> string) \<Rightarrow> posting \<Rightarrow> procurement \<Rightarrow> graph_assertion list \<Rightarrow> constraint_result result list" where
  "turnover_constraints fmt opp pm g =
     (case turnover_required pm of
        None \<Rightarrow> []
      | Some need \<Rightarrow>
         (let new = (\<lambda>p why fact hard ptr cited. hard_constraint ''financial_turnover_requirement'' p why
                   ''procurement_metadata.turnover_required'' fact hard ptr cited (Some True));
              ptr = raw_record_pointer opp @ ''.turnover_required'';
              have_t = verified_turnover g
          in if \<not> 0 < need then []
             else if turnovers g = []
             then [new None (''Procurement requires minimum annual turnover of '' @ fmt need @
                      ''; founder annual turnover unasserted in truth graph'')
                    ''Founder annual turnover unasserted in truth graph'' False ptr []]
             else if need \<le> have_t
             then [new (Some True) (''Founder turnover ('' @ fmt have_t @ '') meets requirement ('' @ fmt need @ '')'')
                    (''Verified turnover: '' @ fmt have_t) False ptr []]
             else [new (Some False) (''Procurement requires minimum annual turnover of '' @ fmt need @
                      '', exceeding founder verified capacity ('' @ fmt have_t @ '')'')
                    (''Founder verified turnover capacity: '' @ fmt have_t) True
                    (job_source_pointer opp ''procurement_metadata.turnover_required'')
                    (''minimum annual turnover required: '' @ fmt need)]))"

definition bid_bond_constraints :: "posting \<Rightarrow> procurement \<Rightarrow> constraint_result result list" where
  "bid_bond_constraints opp pm =
     (if bid_bonding_required pm = Some True
      then [hard_constraint ''bid_bonding_requirement'' None
              ''Mandatory bank bid bond required; requires commercial banking facility review''
              ''procurement_metadata.bid_bonding_required''
              ''Bid bonding facility requires explicit engagement signoff'' False
              (raw_record_pointer opp @ ''.bid_bonding_required'') [] (Some True)]
      else [])"

text \<open>\<open>verified_lang_names\<close>, a set that the code only tests and sorts.\<close>

definition verified_lang_names :: "graph_assertion list \<Rightarrow> string list" where
  "verified_lang_names g =
     remdups (map (\<lambda>a. py_title (assertion_value a))
       (filter (\<lambda>a. polarity a \<noteq> NEGATIVE \<and> value_fold a \<noteq> ''none'') (verified_about LANGUAGE_PREDICATES g)))"

definition procurement_languages ::
  "posting \<Rightarrow> procurement \<Rightarrow> graph_assertion list \<Rightarrow> constraint_result result list" where
  "procurement_languages opp pm g =
     (let names = verified_lang_names g;
          missing = filter (\<lambda>l. py_title l \<notin> set names) (languages pm);
          new = (\<lambda>p why fact. hard_constraint ''procurement_language'' p why
                   ''procurement_metadata.languages'' fact False (raw_record_pointer opp @ ''.languages'') []
                   (Some True));
          req = (\<lambda>ls. ''Procurement documentation requires language(s) '' @ quoted (py_join '', '' ls))
      in if languages pm = [] then []
         else if names = []
         then [new None (req (languages pm) @ ''; founder languages unasserted in truth graph'')
                ''Founder languages unasserted in truth graph'']
         else if missing \<noteq> []
         then [new None (req missing @ ''; founder proficiency unasserted in truth graph'')
                (''Founder verified languages: '' @ py_join '', '' (sort names))]
         else [new (Some True) (''Founder verified in procurement language(s) '' @ quoted (py_join '', '' (languages pm)))
                (''Founder languages: '' @ py_join '', '' (sort names))])"

definition independent_constraints ::
  "(real \<Rightarrow> string) \<Rightarrow> scoring_policy \<Rightarrow> posting \<Rightarrow> graph_assertion list \<Rightarrow> constraint_result result list" where
  "independent_constraints fmt pol opp g =
     (case procurement_metadata opp of
        None \<Rightarrow> [hard_constraint ''procurement_metadata'' None
                   ''Opportunity is in procurement track but lacks ProcurementMetadata''
                   ''procurement_metadata'' ''Procurement metadata unasserted'' False
                   (job_source_pointer opp ''procurement_metadata'') [] None]
      | Some pm \<Rightarrow> buyer_constraints pol opp pm @ turnover_constraints fmt opp pm g @
                   bid_bond_constraints opp pm @ procurement_languages opp pm g)"

section \<open>The evaluation\<close>

text \<open>\<open>replace(result, ...)\<close>: the constructor runs again on the changed fields.\<close>

definition readdress ::
  "(real \<Rightarrow> string) \<Rightarrow> posting \<Rightarrow> constraint_result \<Rightarrow> constraint_result result" where
  "readdress fmt opp r =
     (let ptr = job_source_pointer opp (job_evidence_field r) in
      post_init_result (r\<lparr>provenance_pointer := ptr, source_pointer := ptr,
        job_evidence_text := py_or (job_evidence_text r)
          (structured_job_evidence fmt opp (job_evidence_field r))\<rparr>))"

definition decide :: "constraint_result list \<Rightarrow> QualificationDecision" where
  "decide rs =
     (if list_ex is_hard_failure rs then INELIGIBLE
      else if list_ex (\<lambda>r. passed r = None) rs then UNCERTAIN
      else QUALIFIED)"

definition raw_constraints ::
  "(real \<Rightarrow> string) \<Rightarrow> scoring_policy \<Rightarrow> posting \<Rightarrow> graph_assertion list \<Rightarrow> constraint_result result list" where
  "raw_constraints fmt pol opp g =
     (if opp_track opp = PROCUREMENT then independent_constraints fmt pol opp g
      else employment_constraints opp g)"

definition evaluate ::
  "(real \<Rightarrow> string) \<Rightarrow> scoring_policy \<Rightarrow> posting \<Rightarrow> graph_assertion list
     \<Rightarrow> (QualificationDecision \<times> constraint_result list) result" where
  "evaluate fmt pol opp g =
     bind (collect (raw_constraints fmt pol opp g)) (\<lambda>raw.
       bind (collect (map (readdress fmt opp) raw)) (\<lambda>rs. Inr (decide rs, rs)))"

end
