(* ===== verification/Qualification_Properties.thy ===== *)
theory Qualification_Properties
  imports Qualification
begin

text \<open>
  What the qualification engine promises: a hard failure rests on a job-side citation and on a
  verified conflicting fact of the founder or a prohibited jurisdiction, only verified facts
  count, the decision is a function of the results, and an evaluation of a posting whose pointers
  are addressable always returns.
\<close>

section \<open>What the constructor keeps and guarantees\<close>

definition addressable :: "string \<Rightarrow> bool" where
  "addressable s \<longleftrightarrow> (case py_strip s of c # _ \<Rightarrow> c \<noteq> CHR ''.'' | [] \<Rightarrow> False)"

lemma addressable_nonblank: "addressable s \<Longrightarrow> py_strip s \<noteq> []"
  by (auto simp: addressable_def)

text \<open>An accepted result is the filled one, and passed every check of the constructor.\<close>

lemma fill_aliases_keeps [simp]:
  "constraint_name (fill_aliases r) = constraint_name r" "passed (fill_aliases r) = passed r"
  "is_hard_failure (fill_aliases r) = is_hard_failure r" "required_field (fill_aliases r) = required_field r"
  "founder_fact (fill_aliases r) = founder_fact r" "job_evidence_text (fill_aliases r) = job_evidence_text r"
  "requirement_mandatory (fill_aliases r) = requirement_mandatory r"
  "job_evidence_field (fill_aliases r) = py_or (job_evidence_field r) (required_field r)"
  "cr_decision (fill_aliases r) = cr_decision r" "cr_confidence (fill_aliases r) = cr_confidence r"
  by (simp_all add: fill_aliases_def Let_def)

definition checks :: "constraint_result \<Rightarrow> real \<Rightarrow> bool" where
  "checks r conf \<longleftrightarrow>
     py_strip (source_pointer r) \<noteq> [] \<and> py_strip (founder_side_evidence r) \<noteq> [] \<and>
     (py_strip (job_evidence_text r) \<noteq> [] \<or> py_strip (job_evidence_field r) \<noteq> []) \<and>
     cr_decision r \<in> {None, passed r} \<and> 0 \<le> conf \<and> conf \<le> 1 \<and>
     (is_hard_failure r \<longrightarrow> passed r = Some False \<and> addressable (source_pointer r))"

definition confidence_of :: "constraint_result \<Rightarrow> real" where
  "confidence_of r = (case cr_confidence r of Some c \<Rightarrow> c | None \<Rightarrow> default_confidence (passed r))"

lemma post_init_Inr_iff:
  "post_init_result r0 = Inr r \<longleftrightarrow>
     constraint_name r0 \<noteq> [] \<and> required_field r0 \<noteq> [] \<and> alias_conflict r0 = None \<and>
     checks (fill_aliases r0) (confidence_of r0) \<and>
     r = (fill_aliases r0)\<lparr>cr_decision := passed r0, cr_confidence := Some (confidence_of r0)\<rparr>"
proof -
  define f where "f = fill_aliases r0"
  have f: "passed r0 = passed f" "cr_confidence r0 = cr_confidence f" by (simp_all add: f_def)
  have dot: "addressable p \<longleftrightarrow> \<not> (case py_strip p of c # _ \<Rightarrow> c = CHR ''.'' | [] \<Rightarrow> True)" for p
    by (simp add: addressable_def split: list.split)
  show ?thesis
    unfolding post_init_result_def Let_def f_def [symmetric] checks_def confidence_of_def f dot
    by (cases "constraint_name r0 = []"; cases "required_field r0 = []"; cases "alias_conflict r0")
      (auto simp del: not_None_eq)
qed

lemma post_init_keeps:
  assumes "post_init_result r0 = Inr r"
  shows "constraint_name r = constraint_name r0" "passed r = passed r0"
    "is_hard_failure r = is_hard_failure r0" "job_evidence_text r = job_evidence_text r0"
    "job_evidence_field r = py_or (job_evidence_field r0) (required_field r0)"
    "requirement_mandatory r = requirement_mandatory r0"
  using assms by (simp_all add: post_init_Inr_iff)

lemma post_init_guarantees:
  assumes "post_init_result r0 = Inr r"
  shows "py_strip (source_pointer r) \<noteq> []" and "py_strip (founder_side_evidence r) \<noteq> []"
    and "py_strip (job_evidence_text r) \<noteq> [] \<or> py_strip (job_evidence_field r) \<noteq> []"
    and "cr_decision r = passed r"
    and "is_hard_failure r \<Longrightarrow> passed r = Some False \<and> addressable (source_pointer r)"
  using assms by (auto simp: post_init_Inr_iff checks_def)

lemma hard_constraint_D:
  assumes "hard_constraint name p why fld founder hard ptr cited mand = Inr r"
  shows "constraint_name r = name" "passed r = p" "is_hard_failure r = hard" "job_evidence_field r = fld"
    "job_evidence_text r = cited" "requirement_mandatory r = mand"
  using post_init_keeps [OF assms [unfolded hard_constraint_def]] by (simp_all add: py_or_def)

lemmas hard_D = hard_constraint_D(3) [OF sym]
lemmas name_D = hard_constraint_D(1) [OF sym]

section \<open>The facts behind a hard failure\<close>

text \<open>The verified facts that may stand behind a hard failure of each kind.\<close>

definition geo_conflict :: "posting \<Rightarrow> graph_assertion \<Rightarrow> bool" where
  "geo_conflict opp a \<longleftrightarrow> predicate a = WORK_AUTHORIZATION_JURISDICTION \<and> polarity a = NEGATIVE \<and>
     names_country opp a \<and> work_mode opp \<in> {ONSITE, HYBRID}"

definition auth_conflict :: "posting \<Rightarrow> graph_assertion \<Rightarrow> bool" where
  "auth_conflict opp a \<longleftrightarrow> predicate a = WORK_AUTHORIZATION_JURISDICTION \<and>
     (polarity a = NEGATIVE \<or> value_fold a \<in> {''none'', ''ineligible'', ''unauthorized''}) \<and>
     (case re_search auth_re (description opp) of
        Some (_, grp) \<Rightarrow> about_jurisdiction (py_strip grp) a | None \<Rightarrow> False)"

definition lang_conflict :: "posting \<Rightarrow> graph_assertion \<Rightarrow> bool" where
  "lang_conflict opp a \<longleftrightarrow> predicate a \<in> LANGUAGE_PREDICATES \<and>
     (case re_search lang_re (lang_text opp) of
        Some (_, grp) \<Rightarrow> py_title (assertion_value a) = py_title grp \<and> polarity a = NEGATIVE \<or>
          value_fold a \<in> {''no '' @ py_lower (py_title grp), ''not proficient in '' @ py_lower (py_title grp)}
      | None \<Rightarrow> False)"

definition turnover_conflict :: "posting \<Rightarrow> graph_assertion \<Rightarrow> bool" where
  "turnover_conflict opp a \<longleftrightarrow> predicate a = CAPACITY_ANNUAL_TURNOVER_USD \<and>
     (case Option.bind (procurement_metadata opp) turnover_required of
        Some need \<Rightarrow> (case assertion_number a of Some x \<Rightarrow> x < need | None \<Rightarrow> True) | None \<Rightarrow> False)"

definition conflicts :: "string \<Rightarrow> posting \<Rightarrow> graph_assertion \<Rightarrow> bool" where
  "conflicts name opp a \<longleftrightarrow>
     name = ''geographic_eligibility'' \<and> geo_conflict opp a \<or>
     name = ''work_authorization'' \<and> auth_conflict opp a \<or>
     name = ''language_requirement'' \<and> lang_conflict opp a \<or>
     name = ''financial_turnover_requirement'' \<and> turnover_conflict opp a"

definition prohibited_buyer :: "scoring_policy \<Rightarrow> posting \<Rightarrow> bool" where
  "prohibited_buyer pol opp \<longleftrightarrow>
     (case procurement_metadata opp of
        Some pm \<Rightarrow> \<exists>p\<in>set (prohibited_jurisdictions pol). py_in (py_lower p) (py_lower (py_strip (buyer_country pm)))
      | None \<Rightarrow> False)"

definition grounded :: "scoring_policy \<Rightarrow> posting \<Rightarrow> graph_assertion list \<Rightarrow> string \<Rightarrow> bool" where
  "grounded pol opp g name \<longleftrightarrow>
     name = ''buyer_country_policy'' \<and> prohibited_buyer pol opp \<or>
     (\<exists>a\<in>set g. verification_status a = VERIFIED \<and> conflicts name opp a)"

lemma in_verified_about [simp]:
  "a \<in> set (verified_about P g) \<longleftrightarrow> a \<in> set g \<and> predicate a \<in> P \<and> verification_status a = VERIFIED"
  by (auto simp: verified_about_def)

lemma geo_scope_soft:
  assumes "geo_of_scope opp = Some (Inr r)"
  shows "\<not> is_hard_failure r"
  using assms unfolding geo_of_scope_def Let_def
  by (auto split: if_splits dest!: hard_constraint_D(3))

lemma geo_hard:
  assumes "geo_constraint opp g = Inr r" "is_hard_failure r"
  shows "grounded pol opp g (constraint_name r)"
proof -
  from assms geo_scope_soft have "geo_of_country opp g = Inr r"
    unfolding geo_constraint_def resolve_geo_def
    by (auto split: option.splits if_splits dest: hard_constraint_D(3))
  with assms(2) have "geo_negative opp g" "work_mode opp \<in> {ONSITE, HYBRID}"
    unfolding geo_of_country_def Let_def by (auto split: if_splits dest: hard_constraint_D(3))
  moreover have "constraint_name r = ''geographic_eligibility''"
    using assms(1) unfolding geo_constraint_def resolve_geo_def geo_of_scope_def geo_of_country_def Let_def
    by (auto split: if_splits dest!: hard_constraint_D(1))
  ultimately show ?thesis by (auto simp: geo_negative_def list_ex_iff geo_conflict_def grounded_def conflicts_def)
qed

lemma work_mode_soft:
  assumes "Inr r \<in> set (work_mode_constraints opp g)"
  shows "\<not> is_hard_failure r"
  using assms unfolding work_mode_constraints_def onsite_constraint_def Let_def
  by (auto split: if_splits dest!: hard_D)

lemma auth_hard:
  assumes "Inr r \<in> set (authorization_constraints opp g)" "is_hard_failure r"
  shows "grounded pol opp g (constraint_name r)"
proof -
  from assms(1) obtain m grp where s: "re_search auth_re (description opp) = Some (m, grp)"
    by (cases "re_search auth_re (description opp)") (auto simp: authorization_constraints_def)
  with assms have "auth_negations (py_strip grp) g \<noteq> []"
    by (auto simp: authorization_constraints_def Let_def split: if_splits dest!: hard_D)
  then obtain a where "a \<in> set (auth_negations (py_strip grp) g)" using hd_in_set by blast
  moreover have "constraint_name r = ''work_authorization''"
    using assms(1) s by (auto simp: authorization_constraints_def Let_def split: if_splits dest!: name_D)
  ultimately show ?thesis using s by (auto simp: auth_negations_def auth_conflict_def grounded_def conflicts_def)
qed

lemma lang_hard:
  assumes "Inr r \<in> set (language_constraints opp g)" "is_hard_failure r"
  shows "grounded pol opp g (constraint_name r)"
proof -
  from assms(1) obtain m grp where s: "re_search lang_re (lang_text opp) = Some (m, grp)"
    by (cases "re_search lang_re (lang_text opp)") (auto simp: language_constraints_def)
  with assms have "lang_negations (py_title grp) g \<noteq> []"
    by (auto simp: language_constraints_def Let_def split: if_splits dest!: hard_D)
  then obtain a where "a \<in> set (lang_negations (py_title grp) g)" using hd_in_set by blast
  moreover have "constraint_name r = ''language_requirement''"
    using assms(1) s by (auto simp: language_constraints_def Let_def split: if_splits dest!: name_D)
  ultimately show ?thesis using s by (auto simp: lang_negations_def lang_conflict_def grounded_def conflicts_def)
qed


lemma foldl_max_ge: "y \<in> set (x # xs) \<Longrightarrow> y \<le> foldl max x (xs :: real list)"
proof (induction xs arbitrary: x y)
  case (Cons z zs)
  have "max x z \<le> foldl max (max x z) zs" using Cons.IH [of "max x z" "max x z"] by simp
  with Cons.prems Cons.IH [of y "max x z"] show ?case by auto
qed simp

lemma verified_turnover_ge:
  assumes "a \<in> set (turnovers g)" "assertion_number a = Some x"
  shows "x \<le> verified_turnover g"
proof -
  have "x \<in> set (List.map_filter assertion_number (turnovers g))"
    using assms by (force simp: List.map_filter_def)
  then show ?thesis
    unfolding verified_turnover_def by (auto split: list.split intro: foldl_max_ge)
qed

lemma turnover_hard:
  assumes "Inr r \<in> set (turnover_constraints fmt opp pm g)" "is_hard_failure r"
    and "procurement_metadata opp = Some pm"
  shows "grounded pol opp g (constraint_name r)"
proof -
  from assms(1) obtain need where need: "turnover_required pm = Some need"
    by (cases "turnover_required pm") (auto simp: turnover_constraints_def)
  with assms(1,2) have "turnovers g \<noteq> []" and lt: "verified_turnover g < need"
    by (auto simp: turnover_constraints_def Let_def split: if_splits dest!: hard_D)
  then obtain a where a: "a \<in> set (turnovers g)" using hd_in_set by blast
  with assms(3) need lt verified_turnover_ge [OF a] have "turnover_conflict opp a"
    by (fastforce simp: turnover_conflict_def turnovers_def split: option.split)
  moreover have "constraint_name r = ''financial_turnover_requirement''"
    using assms(1) need by (auto simp: turnover_constraints_def Let_def split: if_splits dest!: name_D)
  ultimately show ?thesis using a by (auto simp: grounded_def conflicts_def turnovers_def)
qed

lemma buyer_hard:
  assumes "Inr r \<in> set (buyer_constraints pol opp pm)" "is_hard_failure r"
    and "procurement_metadata opp = Some pm"
  shows "grounded pol opp g (constraint_name r)"
proof -
  have "prohibited_buyer pol opp"
    using assms by (auto simp: buyer_constraints_def Let_def prohibited_buyer_def list_ex_iff
        split: if_splits dest!: hard_D)
  moreover have "constraint_name r = ''buyer_country_policy''"
    using assms(1) by (auto simp: buyer_constraints_def Let_def split: if_splits dest!: name_D)
  ultimately show ?thesis by (simp add: grounded_def)
qed

lemma bid_bond_soft: "Inr r \<in> set (bid_bond_constraints opp pm) \<Longrightarrow> \<not> is_hard_failure r"
  by (auto simp: bid_bond_constraints_def split: if_splits dest!: hard_D)

lemma procurement_languages_soft:
  "Inr r \<in> set (procurement_languages opp pm g) \<Longrightarrow> \<not> is_hard_failure r"
  by (auto simp: procurement_languages_def Let_def split: if_splits dest!: hard_D)

lemma raw_hard:
  assumes r: "Inr r \<in> set (raw_constraints fmt pol opp g)" and h: "is_hard_failure r"
  shows "grounded pol opp g (constraint_name r)"
proof (cases "opp_track opp = PROCUREMENT")
  case True
  show ?thesis
  proof (cases "procurement_metadata opp")
    case None
    with r h True show ?thesis
      by (auto simp: raw_constraints_def independent_constraints_def dest!: hard_D)
  next
    case (Some pm)
    with r True h bid_bond_soft procurement_languages_soft
    have "Inr r \<in> set (buyer_constraints pol opp pm) \<or> Inr r \<in> set (turnover_constraints fmt opp pm g)"
      by (auto simp: raw_constraints_def independent_constraints_def)
    then show ?thesis using buyer_hard [OF _ h Some] turnover_hard [OF _ h Some] by blast
  qed
next
  case False
  with r work_mode_soft h consider "geo_constraint opp g = Inr r"
    | "Inr r \<in> set (authorization_constraints opp g)" | "Inr r \<in> set (language_constraints opp g)"
    by (auto simp: raw_constraints_def employment_constraints_def)
  then show ?thesis using geo_hard [OF _ h] auth_hard [OF _ h] lang_hard [OF _ h] by cases
qed

section \<open>The results of an evaluation\<close>

lemma evaluate_Inr_iff:
  "evaluate fmt pol opp g = Inr (d, rs) \<longleftrightarrow>
     (\<exists>raw. raw_constraints fmt pol opp g = map Inr raw \<and> map (readdress fmt opp) raw = map Inr rs \<and>
        d = decide rs)"
  by (auto simp: evaluate_def collect_Inr)

lemma evaluate_result:
  assumes "evaluate fmt pol opp g = Inr (d, rs)" "r \<in> set rs"
  obtains r0 where "Inr r0 \<in> set (raw_constraints fmt pol opp g)" "readdress fmt opp r0 = Inr r"
proof -
  from assms(1) obtain raw where raw: "raw_constraints fmt pol opp g = map Inr raw"
    "map (readdress fmt opp) raw = map Inr rs"
    by (auto simp: evaluate_Inr_iff)
  from assms(2) have "Inr r \<in> set (map (readdress fmt opp) raw)" unfolding raw(2) by simp
  then obtain r0 where "r0 \<in> set raw" "readdress fmt opp r0 = Inr r" by auto
  with raw(1) show ?thesis by (intro that [of r0]) auto
qed

lemma readdress_keeps:
  assumes "readdress fmt opp r0 = Inr r"
  shows "constraint_name r = constraint_name r0" "passed r = passed r0" "is_hard_failure r = is_hard_failure r0"
  using post_init_keeps [OF assms [unfolded readdress_def Let_def]] by simp_all


section \<open>Only verified facts count\<close>

definition fact_predicates :: "string set" where
  "fact_predicates = {WORK_AUTHORIZATION_JURISDICTION, CAPACITY_ANNUAL_TURNOVER_USD} \<union>
     RESIDENCE_LOCATION_PREDICATES \<union> LANGUAGE_PREDICATES"

definition counts :: "graph_assertion \<Rightarrow> bool" where
  "counts a \<longleftrightarrow> verification_status a = VERIFIED \<and> predicate a \<in> fact_predicates"

lemma verified_about_counts:
  "P \<subseteq> fact_predicates \<Longrightarrow> verified_about P (filter counts g) = verified_about P g"
  unfolding verified_about_def filter_filter by (rule filter_cong) (auto simp: counts_def)

lemma counted:
  "verified_about {WORK_AUTHORIZATION_JURISDICTION} (filter counts g) =
     verified_about {WORK_AUTHORIZATION_JURISDICTION} g"
  "verified_about {CAPACITY_ANNUAL_TURNOVER_USD} (filter counts g) =
     verified_about {CAPACITY_ANNUAL_TURNOVER_USD} g"
  "verified_about RESIDENCE_LOCATION_PREDICATES (filter counts g) =
     verified_about RESIDENCE_LOCATION_PREDICATES g"
  "verified_about LANGUAGE_PREDICATES (filter counts g) = verified_about LANGUAGE_PREDICATES g"
  by (rule verified_about_counts, force simp: fact_predicates_def)+

lemma raw_constraints_counts:
  "raw_constraints fmt pol opp (filter counts g) = raw_constraints fmt pol opp g"
proof -
  have "employment_constraints opp (filter counts g) = employment_constraints opp g"
    unfolding employment_constraints_def geo_constraint_def resolve_geo_def geo_of_country_def
      geo_positive_def geo_negative_def work_mode_constraints_def onsite_constraint_def residences_def
      authorization_constraints_def auth_matches_def auth_negations_def language_constraints_def
      lang_matches_def lang_negations_def counted ..
  moreover have "independent_constraints fmt pol opp (filter counts g) = independent_constraints fmt pol opp g"
    unfolding independent_constraints_def turnover_constraints_def verified_turnover_def turnovers_def
      procurement_languages_def verified_lang_names_def counted ..
  ultimately show ?thesis by (simp add: raw_constraints_def)
qed

section \<open>Evaluations return\<close>

lemma py_strip_head:
  assumes "dropWhile py_isspace s = c # t"
  obtains u where "py_strip s = c # u"
proof -
  from assms have "\<not> py_isspace c" by (metis hd_dropWhile list.distinct(1) list.sel(1))
  moreover from this have "dropWhile py_isspace (rev t @ [c]) = dropWhile py_isspace (rev t) @ [c]"
    by (cases "\<forall>x\<in>set t. py_isspace x") (auto simp: dropWhile_append dropWhile_eq_Nil_conv)
  ultimately show ?thesis by (intro that [of "rev (dropWhile py_isspace (rev t))"]) (simp add: py_strip_def assms)
qed

lemma py_strip_Nil: "py_strip s = [] \<longleftrightarrow> list_all py_isspace s"
proof (cases "dropWhile py_isspace s")
  case Nil
  then have "\<forall>x\<in>set s. py_isspace x" by (simp add: dropWhile_eq_Nil_conv)
  then have "list_all py_isspace s" by (simp add: list_all_iff)
  moreover have "py_strip s = []" unfolding py_strip_def Nil by simp
  ultimately show ?thesis by simp
next
  case (Cons c t)
  moreover from this have "\<not> list_all py_isspace s"
    by (metis dropWhile_eq_Nil_conv list.distinct(1) list_all_iff)
  ultimately show ?thesis using py_strip_head [OF Cons] by (metis list.distinct(1))
qed

lemma nonblank_append [simp]: "py_strip s \<noteq> [] \<or> py_strip t \<noteq> [] \<Longrightarrow> py_strip (s @ t) \<noteq> []"
  by (auto simp: py_strip_Nil)

lemma nonblank_Cons [simp]: "\<not> py_isspace c \<Longrightarrow> py_strip (c # s) \<noteq> []"
  by (simp add: py_strip_Nil)

lemma addressable_append: "addressable s \<Longrightarrow> addressable (s @ t)"
proof -
  assume a: "addressable s"
  then obtain c u where c: "dropWhile py_isspace s = c # u"
    by (cases "dropWhile py_isspace s") (auto simp: addressable_def py_strip_def)
  then obtain x where x: "x \<in> set s" "\<not> py_isspace x" by (metis dropWhile_eq_Nil_conv list.distinct(1))
  have d: "dropWhile py_isspace (s @ t) = c # u @ t" using dropWhile_append1 [of x s py_isspace t] x c by simp
  from py_strip_head [OF c] obtain v where v: "py_strip s = c # v" .
  from py_strip_head [OF d] obtain w where w: "py_strip (s @ t) = c # w" .
  from a show ?thesis unfolding addressable_def v w by simp
qed

definition traceable :: "posting \<Rightarrow> bool" where
  "traceable opp \<longleftrightarrow>
     list_all (\<lambda>p. raw_pointer p = [] \<or> addressable (raw_pointer p)) (field_provenances opp) \<and>
     (record_pointer opp = [] \<or> addressable (record_pointer opp))"

lemma job_source_pointer_addressable:
  assumes "traceable opp"
  shows "addressable (job_source_pointer opp fname)"
proof (cases "concat (map (lineage_of opp) (py_split CHR ''/'' fname))")
  case Nil
  have literal: "addressable (''opportunity:'' @ s)" for s
    by (rule addressable_append) (simp add: addressable_def py_strip_def py_isspace_def)
  have "record_pointer opp \<noteq> [] \<Longrightarrow> addressable (record_pointer opp @ s)" for s
    using assms by (auto simp: traceable_def intro: addressable_append)
  then show ?thesis unfolding job_source_pointer_def Let_def Nil using literal by simp
next
  case (Cons p ps)
  then have "p \<in> set (concat (map (lineage_of opp) (py_split CHR ''/'' fname)))" by (metis list.set_intros(1))
  then have "p \<in> set (field_provenances opp)" "raw_pointer p \<noteq> []" by (auto simp: lineage_of_def)
  with assms show ?thesis unfolding job_source_pointer_def Let_def Cons
    by (auto simp: traceable_def list_all_iff)
qed

text \<open>A constructor call that returns, and fails a constraint only as a hard failure.\<close>

definition built :: "constraint_result result \<Rightarrow> bool" where
  "built x \<longleftrightarrow> (\<exists>r0 r. x = Inr r \<and> post_init_result r0 = Inr r \<and>
     (passed r = Some False \<longrightarrow> is_hard_failure r))"

lemma hard_constraint_returns:
  assumes "name \<noteq> []" "fld \<noteq> []" "py_strip fld \<noteq> []" "py_strip founder \<noteq> []" "py_strip ptr \<noteq> []"
    and "hard \<Longrightarrow> p = Some False \<and> addressable ptr"
  shows "\<exists>r. hard_constraint name p why fld founder hard ptr cited mand = Inr r"
proof -
  have "founder \<noteq> []" "ptr \<noteq> []" using assms(4,5) by (auto simp: py_strip_def)
  with assms show ?thesis
    unfolding hard_constraint_def
    by (simp add: post_init_Inr_iff checks_def fill_aliases_def alias_conflict_def confidence_of_def
        default_confidence_def py_or_def Let_def)
qed

lemma hard_constraint_ok:
  assumes "name \<noteq> []" "fld \<noteq> []" "py_strip fld \<noteq> []" "py_strip founder \<noteq> []" "py_strip ptr \<noteq> []"
    and h: "hard \<longleftrightarrow> p = Some False" and a: "hard \<Longrightarrow> addressable ptr"
  shows "built (hard_constraint name p why fld founder hard ptr cited mand)"
proof -
  from h a have "hard \<Longrightarrow> p = Some False \<and> addressable ptr" by blast
  from hard_constraint_returns [OF assms(1-5) this] obtain r
    where r: "hard_constraint name p why fld founder hard ptr cited mand = Inr r" by blast
  from hard_constraint_D(2,3) [OF r] h r show ?thesis unfolding built_def hard_constraint_def by blast
qed

lemma traceable_pointer:
  assumes "traceable opp"
  shows "py_strip (job_source_pointer opp fld) \<noteq> []"
  by (rule addressable_nonblank [OF job_source_pointer_addressable [OF assms]])

lemma geo_returns:
  assumes "traceable opp"
  shows "built (geo_constraint opp g)"
proof -
  have "built x" if "geo_of_scope opp = Some x" for x
    using that unfolding geo_of_scope_def Let_def
    by (auto simp: py_isspace_def split: if_splits intro!: hard_constraint_ok)
  moreover have "built (geo_of_country opp g)"
    unfolding geo_of_country_def Let_def using assms
    by (auto simp: py_isspace_def traceable_pointer intro!: hard_constraint_ok job_source_pointer_addressable)
  moreover have "built (hard_constraint ''geographic_eligibility'' None why ''remote_scope/location_country/work_mode''
      ''Verified Founder compatibility with the required work location is unasserted'' False
      (job_source_pointer opp ''remote_scope'') [] None)" for why
    using assms by (auto simp: py_isspace_def traceable_pointer intro!: hard_constraint_ok)
  ultimately show ?thesis
    unfolding geo_constraint_def resolve_geo_def by (auto split: option.split)
qed

lemma work_mode_returns:
  "x \<in> set (work_mode_constraints opp g) \<Longrightarrow> built x"
  unfolding work_mode_constraints_def onsite_constraint_def Let_def
  by (auto simp: py_isspace_def split: if_splits intro!: hard_constraint_ok)

lemma authorization_returns:
  assumes "traceable opp" "x \<in> set (authorization_constraints opp g)"
  shows "built x"
  using assms unfolding authorization_constraints_def Let_def
  by (auto simp: py_isspace_def traceable_pointer split: option.splits if_splits
      intro!: hard_constraint_ok job_source_pointer_addressable)

lemma lang_field_cases: "lang_field opp = ''title'' \<or> lang_field opp = ''description''"
  by (auto simp: lang_field_def split: option.split)

lemma language_returns:
  assumes "traceable opp" "x \<in> set (language_constraints opp g)"
  shows "built x"
proof -
  have "lang_field opp \<noteq> []" "py_strip (lang_field opp) \<noteq> []"
    using lang_field_cases [of opp] by (auto simp: py_isspace_def)
  with assms show ?thesis unfolding language_constraints_def Let_def
    by (auto simp: py_isspace_def traceable_pointer split: option.splits if_splits
        intro!: hard_constraint_ok job_source_pointer_addressable)
qed

lemma buyer_returns:
  assumes "traceable opp" "x \<in> set (buyer_constraints pol opp pm)"
  shows "built x"
  using assms unfolding buyer_constraints_def Let_def
  by (auto simp: py_isspace_def traceable_pointer split: if_splits
      intro!: hard_constraint_ok job_source_pointer_addressable)

lemma turnover_returns:
  assumes "traceable opp" "x \<in> set (turnover_constraints fmt opp pm g)"
  shows "built x"
  using assms unfolding turnover_constraints_def Let_def
  by (auto simp: py_isspace_def traceable_pointer split: option.splits if_splits
      intro!: hard_constraint_ok job_source_pointer_addressable)

lemma procurement_rest_returns:
  assumes "x \<in> set (bid_bond_constraints opp pm) \<or> x \<in> set (procurement_languages opp pm g)"
  shows "built x"
  using assms unfolding bid_bond_constraints_def procurement_languages_def Let_def
  by (auto simp: py_isspace_def split: if_splits intro!: hard_constraint_ok)

lemma raw_returns:
  assumes t: "traceable opp" and x: "x \<in> set (raw_constraints fmt pol opp g)"
  shows "built x"
proof (cases "opp_track opp = PROCUREMENT")
  case True
  show ?thesis
  proof (cases "procurement_metadata opp")
    case None
    with x True t show ?thesis
      by (auto simp: raw_constraints_def independent_constraints_def py_isspace_def traceable_pointer
          intro!: hard_constraint_ok)
  next
    case (Some pm)
    with x True t show ?thesis
      by (auto simp: raw_constraints_def independent_constraints_def
          dest: buyer_returns turnover_returns intro: procurement_rest_returns)
  qed
next
  case False
  with x geo_returns [OF t] authorization_returns [OF t] language_returns [OF t] work_mode_returns show ?thesis
    by (auto simp: raw_constraints_def employment_constraints_def)
qed

lemma readdress_returns:
  assumes t: "traceable opp" and r: "post_init_result r0 = Inr r"
  shows "\<exists>r'. readdress fmt opp r = Inr r'"
proof -
  from r have n: "constraint_name r0 \<noteq> []" "required_field r0 \<noteq> []" "alias_conflict r0 = None"
    and c: "checks (fill_aliases r0) (confidence_of r0)"
    and r': "r = (fill_aliases r0)\<lparr>cr_decision := passed r0, cr_confidence := Some (confidence_of r0)\<rparr>"
    by (simp_all add: post_init_Inr_iff)
  define ptr where "ptr = job_source_pointer opp (job_evidence_field r)"
  have ptr: "addressable ptr" "py_strip ptr \<noteq> []"
    unfolding ptr_def by (rule job_source_pointer_addressable [OF t], rule traceable_pointer [OF t])
  then have "ptr \<noteq> []" by (auto simp: py_strip_def)
  define q where "q = r\<lparr>provenance_pointer := ptr, source_pointer := ptr,
    job_evidence_text := py_or (job_evidence_text r) (structured_job_evidence fmt opp (job_evidence_field r))\<rparr>"
  have "alias_conflict q = None"
    using n(3) by (auto simp: q_def r' alias_conflict_def fill_aliases_def py_or_def Let_def split: if_splits)
  moreover have "checks (fill_aliases q) (confidence_of q)"
    using c ptr \<open>ptr \<noteq> []\<close> n
    by (auto simp: q_def r' checks_def fill_aliases_def py_or_def Let_def confidence_of_def py_strip_def [of "[]"]
        split: if_splits)
  moreover have "constraint_name q \<noteq> []" "required_field q \<noteq> []" using n by (simp_all add: q_def r')
  ultimately show ?thesis
    unfolding readdress_def Let_def ptr_def [symmetric] q_def [symmetric] by (simp add: post_init_Inr_iff)
qed

lemma raw_all_built:
  assumes "traceable opp"
  obtains raw where "raw_constraints fmt pol opp g = map Inr raw"
    and "\<And>r. r \<in> set raw \<Longrightarrow> \<exists>r0. post_init_result r0 = Inr r"
    and "\<And>r. r \<in> set raw \<Longrightarrow> passed r = Some False \<Longrightarrow> is_hard_failure r"
proof -
  have b: "built x" if "x \<in> set (raw_constraints fmt pol opp g)" for x by (rule raw_returns [OF assms that])
  then have "\<forall>x\<in>set (raw_constraints fmt pol opp g). \<exists>r. x = Inr r" by (auto simp: built_def)
  then obtain raw where raw: "raw_constraints fmt pol opp g = map Inr raw" by (metis ex_map_conv)
  have "built (Inr r)" if "r \<in> set raw" for r using b raw that by simp
  then show ?thesis by (intro that [OF raw]) (auto simp: built_def)
qed

lemma evaluate_total:
  assumes "traceable opp"
  shows "\<exists>d rs. evaluate fmt pol opp g = Inr (d, rs)"
proof -
  from assms obtain raw where raw: "raw_constraints fmt pol opp g = map Inr raw"
    "\<And>r. r \<in> set raw \<Longrightarrow> \<exists>r0. post_init_result r0 = Inr r"
    by (rule raw_all_built [of opp fmt pol g]) blast
  have "\<exists>r'. readdress fmt opp r = Inr r'" if "r \<in> set raw" for r
    using raw(2) [OF that] readdress_returns [OF assms] by blast
  then have "\<forall>x\<in>set (map (readdress fmt opp) raw). \<exists>r. x = Inr r" by auto
  then obtain rs where "map (readdress fmt opp) raw = map Inr rs" by (metis ex_map_conv)
  with raw(1) show ?thesis by (auto simp: evaluate_Inr_iff)
qed

lemma evaluate_no_soft_failure:
  assumes t: "traceable opp" and e: "evaluate fmt pol opp g = Inr (d, rs)" and r: "r \<in> set rs"
    and p: "passed r = Some False"
  shows "is_hard_failure r"
proof -
  from e r obtain r0 where r0: "Inr r0 \<in> set (raw_constraints fmt pol opp g)" "readdress fmt opp r0 = Inr r"
    by (rule evaluate_result)
  from raw_returns [OF t r0(1)] p readdress_keeps [OF r0(2)] show ?thesis by (auto simp: built_def)
qed

section \<open>Claims\<close>

definition demo_posting :: posting where
  "demo_posting = \<lparr>opp_id = ''o-1'', opp_track = EMPLOYMENT, opp_source = ''manual'', content_hash = ''h'',
     post_title = ''Engineer'', description = ''Authorized to work in Romania.'', requirements = [],
     post_skills = [], location_raw = [], work_mode = REMOTE, location_country = [],
     remote_scope = WORLDWIDE, remote_scope_regions = [], procurement_metadata = None,
     provenance_raw_pointer = None, raw_record_pointer = ''jobs[0]'', field_provenances = []\<rparr>"

definition demo_fact :: "string \<Rightarrow> string \<Rightarrow> Polarity \<Rightarrow> graph_assertion" where
  "demo_fact pred v pol = \<lparr>assertion_id = ''a-1'', predicate = pred, assertion_value = v,
     verification_status = VERIFIED, polarity = pol, assertion_number = None\<rparr>"

definition demo_scoring :: scoring_policy where
  "demo_scoring = \<lparr>prohibited_jurisdictions = [], approved_delivery_jurisdictions = []\<rparr>"

lemma demo_traceable [simp]: "traceable demo_posting"
  by (simp add: traceable_def demo_posting_def record_pointer_def py_or_def addressable_def py_strip_def
      py_isspace_def)

definition demo_tender :: "real \<Rightarrow> posting" where
  "demo_tender need = demo_posting\<lparr>opp_track := PROCUREMENT,
     procurement_metadata := Some \<lparr>buyer_country = [], bid_bonding_required = None,
       turnover_required = Some need, languages = []\<rparr>\<rparr>"

lemma tender_traceable [simp]: "traceable (demo_tender need)"
  using demo_traceable by (simp add: demo_tender_def traceable_def record_pointer_def)

definition demo_local :: posting where
  "demo_local = demo_posting\<lparr>description := [], work_mode := ONSITE, location_country := ''OM''\<rparr>"

abbreviation no_print :: "real \<Rightarrow> string" where "no_print \<equiv> (\<lambda>_. [])"

text \<open>The verdict of an evaluation, for the concrete runs below.\<close>

definition verdict :: "posting \<Rightarrow> graph_assertion list \<Rightarrow> py_exn + QualificationDecision" where
  "verdict opp g = map_sum id fst (evaluate no_print demo_scoring opp g)"



text \<open>C17: absent is not ineligible. Without a single verified fact about the founder, and without a
  prohibited jurisdiction, no posting is ever judged ineligible, whatever it demands, and the
  evaluation returns.\<close>

theorem unknown_is_never_ineligible:
  assumes "traceable opp" and "filter counts g = []" and "prohibited_jurisdictions pol = []"
  shows "\<exists>d rs. evaluate fmt pol opp g = Inr (d, rs) \<and> d \<noteq> INELIGIBLE"
proof -
  from evaluate_total [OF assms(1)] obtain d rs where e: "evaluate fmt pol opp g = Inr (d, rs)" by blast
  have "\<not> is_hard_failure r" if r: "r \<in> set rs" for r
  proof
    assume h: "is_hard_failure r"
    from e r obtain r0 where r0: "Inr r0 \<in> set (raw_constraints fmt pol opp g)"
      and k: "readdress fmt opp r0 = Inr r" by (rule evaluate_result)
    from r0 have "Inr r0 \<in> set (raw_constraints fmt pol opp [])"
      by (simp add: raw_constraints_counts [of fmt pol opp g, symmetric] assms(2))
    from raw_hard [OF this] readdress_keeps [OF k] h assms(3) show False
      by (auto simp: grounded_def prohibited_buyer_def split: option.splits)
  qed
  then have "d \<noteq> INELIGIBLE" using e by (auto simp: evaluate_Inr_iff decide_def list_ex_iff split: if_splits)
  with e show ?thesis by blast
qed

theorem unknown_is_never_ineligible_witness:
  "\<exists>d rs. evaluate no_print demo_scoring (demo_tender 1000) [] = Inr (d, rs) \<and> d \<noteq> INELIGIBLE"
  by (rule unknown_is_never_ineligible) (simp_all add: demo_scoring_def)

text \<open>the outcome depends on the verified facts only. Deleting every fact that is not verified,
  or speaks of something the engine does not read, changes neither the decision nor one result nor
  an exception.\<close>

theorem only_verified_facts_count:
  "evaluate fmt pol opp (filter counts g) = evaluate fmt pol opp g"
  by (simp add: evaluate_def raw_constraints_counts)

text \<open>C39: for a posting whose pointers are addressable the evaluation returns, and its decision is
  read off the results: ineligible exactly if a constraint failed, qualified exactly if all passed,
  uncertain otherwise. No constraint can fail softly.\<close>

theorem evaluation_decides:
  assumes "traceable opp"
  shows "\<exists>d rs. evaluate fmt pol opp g = Inr (d, rs) \<and>
    (d = INELIGIBLE \<longleftrightarrow> (\<exists>r\<in>set rs. passed r = Some False)) \<and>
    (d = QUALIFIED \<longleftrightarrow> (\<forall>r\<in>set rs. passed r = Some True))"
proof -
  from evaluate_total [OF assms] obtain d rs where e: "evaluate fmt pol opp g = Inr (d, rs)" by blast
  have "is_hard_failure r \<longleftrightarrow> passed r = Some False" if r: "r \<in> set rs" for r
  proof
    assume h: "is_hard_failure r"
    from e r obtain r0 where "readdress fmt opp r0 = Inr r" by (rule evaluate_result)
    from post_init_guarantees(5) [OF this [unfolded readdress_def Let_def]] h show "passed r = Some False" by simp
  qed (rule evaluate_no_soft_failure [OF assms e r])
  then have d: "d = (if \<exists>r\<in>set rs. passed r = Some False then INELIGIBLE
      else if \<exists>r\<in>set rs. passed r = None then UNCERTAIN else QUALIFIED)"
    using e by (auto simp: evaluate_Inr_iff decide_def list_ex_iff)
  have tri: "(\<forall>r\<in>set rs. passed r = Some True) \<longleftrightarrow>
      \<not> (\<exists>r\<in>set rs. passed r = Some False) \<and> \<not> (\<exists>r\<in>set rs. passed r = None)"
    by (metis (full_types) option.distinct(1) option.exhaust option.inject)
  have "(d = INELIGIBLE \<longleftrightarrow> (\<exists>r\<in>set rs. passed r = Some False)) \<and>
    (d = QUALIFIED \<longleftrightarrow> (\<forall>r\<in>set rs. passed r = Some True))"
    unfolding tri d by simp
  with e show ?thesis by blast
qed

theorem evaluation_decides_witness:
  "\<exists>d rs. evaluate no_print demo_scoring demo_local [] = Inr (d, rs) \<and>
    (d = INELIGIBLE) = (\<exists>r\<in>set rs. passed r = Some False) \<and>
    (d = QUALIFIED) = (\<forall>r\<in>set rs. passed r = Some True)"
  by (rule evaluation_decides)
    (simp add: demo_local_def traceable_def record_pointer_def demo_posting_def py_or_def addressable_def
      py_strip_def py_isspace_def)

section \<open>Where the engine departs from its own rules\<close>

text \<open>Jurisdictions are compared by containment: a verified lack of authorization in Oman rejects a
  remote role that asks for authorization in Romania, and a verified authorization for the
  US qualifies for one that asks for Australia.\<close>

theorem jurisdiction_by_substring:
  "verdict demo_posting [demo_fact WORK_AUTHORIZATION_JURISDICTION ''Oman'' NEGATIVE] = Inr INELIGIBLE"
  "verdict (demo_posting\<lparr>description := ''Authorized to work in Australia.''\<rparr>)
     [demo_fact WORK_AUTHORIZATION_JURISDICTION ''US'' POSITIVE] = Inr QUALIFIED"
  by code_simp+

text \<open>A verified turnover recorded as text counts as zero, and the tender is rejected.\<close>

theorem textual_turnover_rejects:
  "verdict (demo_tender 1000) [demo_fact CAPACITY_ANNUAL_TURNOVER_USD ''5000000'' POSITIVE] = Inr INELIGIBLE"
  by code_simp

text \<open>A requirement followed by a comma is not seen, so a verified lack of authorization does not
  keep the role from qualifying.\<close>

theorem comma_hides_the_requirement:
  "verdict (demo_posting\<lparr>description := ''Must be authorized to work in Germany, full time.''\<rparr>)
     [demo_fact WORK_AUTHORIZATION_JURISDICTION ''Germany'' NEGATIVE] = Inr QUALIFIED"
  "verdict (demo_posting\<lparr>description := ''Must be authorized to work in Germany.''\<rparr>)
     [demo_fact WORK_AUTHORIZATION_JURISDICTION ''Germany'' NEGATIVE] = Inr INELIGIBLE"
  by code_simp+

text \<open>The code of a country is turned back into its first alias, so a residence or an authorization
  recorded under the name United States or United Kingdom matches no posting located there.\<close>

theorem first_alias_misses_the_country:
  "country_code_to_name ''US'' = ''Usa''" "country_code_to_name ''GB'' = ''U.K.''"
  "verdict (demo_posting\<lparr>description := [], remote_scope := SCOPE_UNSPECIFIED, location_country := ''US''\<rparr>)
     [demo_fact WORK_AUTHORIZATION_JURISDICTION ''United States'' POSITIVE] = Inr UNCERTAIN"
  by code_simp+

end
