(* ===== verification/Truth_Base.thy ===== *)
theory Truth_Base
  imports Prelude "HOL-Library.Product_Lexorder" "HOL-Library.List_Lexorder" "HOL-Library.Char_ord"
begin

text \<open>
  Calendar dates and the enumerations of \<open>truth/models.py\<close> that more than one component reads.
\<close>

section \<open>Dates\<close>

record py_date =
  year :: int
  month :: int
  day :: int

definition date_key :: "py_date \<Rightarrow> int \<times> int \<times> int" where
  "date_key d = (year d, month d, day d)"

definition date_before :: "py_date \<Rightarrow> py_date \<Rightarrow> bool" where
  "date_before d e \<longleftrightarrow> date_key d < date_key e"

text \<open>The months that \<open>datetime.date\<close> admits.\<close>

definition proper_date :: "py_date \<Rightarrow> bool" where
  "proper_date d \<longleftrightarrow> 1 \<le> month d \<and> month d \<le> 12"

definition leap_year :: "int \<Rightarrow> bool" where
  "leap_year y \<longleftrightarrow> y mod 4 = 0 \<and> (y mod 100 \<noteq> 0 \<or> y mod 400 = 0)"

text \<open>\<open>calendar.monthrange(y, m)[1]\<close>.\<close>

definition month_days :: "int \<Rightarrow> int \<Rightarrow> int" where
  "month_days y m =
     (if m = 2 then (if leap_year y then 29 else 28) else if m \<in> {4, 6, 9, 11} then 30 else 31)"

text \<open>\<open>d.isoformat()\<close>.\<close>

definition padded :: "nat \<Rightarrow> int \<Rightarrow> string" where
  "padded k n = replicate (k - length (int_str n)) (CHR ''0'') @ int_str n"

definition date_iso :: "py_date \<Rightarrow> string" where
  "date_iso d = padded 4 (year d) @ ''-'' @ padded 2 (month d) @ ''-'' @ padded 2 (day d)"

section \<open>Enumerations\<close>

datatype AssertionType = DIRECT_FACT | NORMALIZED_FACT | DERIVED_CAPABILITY | USER_ASSERTION
  | UNSUPPORTED_CLAIM | PROHIBITED_CLAIM

datatype Modality = DEFINITE | APPROXIMATE_MODALITY | AT_LEAST | AT_MOST | CONDITIONAL | PLANNED

datatype RelationType = ACHIEVED_DURING | UTILIZES_SKILL | DELIVERED_SERVICE | APPLIED_TOOL
  | BELONGS_TO_ENTITY | QUALIFIES_FOR

datatype MetricVerification = METRIC_VERIFIED | METRIC_APPROXIMATE | METRIC_UNAVAILABLE

datatype CertificationState = CERT_COMPLETED | CERT_IN_PROGRESS | CERT_EXPIRED | CERT_PLANNED

datatype EngagementType = FIXED_PRICE | TIME_AND_MATERIALS | RETAINER | FRACTIONAL | CONSULTANT_TENDER

fun certification_state_value :: "CertificationState \<Rightarrow> string" where
  "certification_state_value CERT_COMPLETED = ''completed''"
| "certification_state_value CERT_IN_PROGRESS = ''in_progress''"
| "certification_state_value CERT_EXPIRED = ''expired''"
| "certification_state_value CERT_PLANNED = ''planned''"

fun engagement_type_value :: "EngagementType \<Rightarrow> string" where
  "engagement_type_value FIXED_PRICE = ''fixed_price''"
| "engagement_type_value TIME_AND_MATERIALS = ''time_and_materials''"
| "engagement_type_value RETAINER = ''retainer''"
| "engagement_type_value FRACTIONAL = ''fractional''"
| "engagement_type_value CONSULTANT_TENDER = ''consultant_tender''"

end
