(* ===== verification/Seniority.thy ===== *)
theory Seniority
  imports Postings Py_Regex Truth_Base "HOL-Library.AList"
begin

text \<open>
  \<open>matching/seniority.py\<close>: the employment spans that verified assertions establish, months of
  experience with overlapping roles counted once, people leadership from what the founder did and
  not from titles, and the assessment against a required level. Dictionaries are association lists
  in insertion order, sets of identifiers lists that are only sorted without duplicates.
\<close>

section \<open>Assertions and relations\<close>

text \<open>The value of an assertion is its text, and a date where the value is one.\<close>

record employment_fact = graph_assertion +
  subject_id :: string
  value_date :: "py_date option"
  evidence_ids :: "string list"

record typed_relation =
  source_id :: string
  relation_type :: RelationType
  target_id :: string
  relation_status :: VerificationStatus

record employment_graph =
  facts :: "employment_fact list"
  relations :: "typed_relation list"

record employment_span =
  span_subject :: string
  span_title :: string
  market_facing_title :: "string option"
  span_organization :: "string option"
  start_date :: py_date
  end_date :: "py_date option"
  internship :: bool
  responsibility_texts :: "string list"
  achievement_texts :: "string list"
  evidence_refs :: "string list"

section \<open>Patterns\<close>

definition internship_re :: re where
  "internship_re = cats [Edge, liti ''intern'', opt_of (liti ''ship''), Edge]"

definition is_internship :: "string \<Rightarrow> bool" where
  "is_internship title \<longleftrightarrow> re_search internship_re title \<noteq> None"

abbreviation wordch :: re where "wordch \<equiv> Ch py_isword"
abbreviation digits :: re where "digits \<equiv> plus_of (Ch py_isdigit)"

definition leadership_re :: re where
  "leadership_re = cats [Edge, Cap (any_of [
     cats [liti ''led'', spaces1, opt_of (any_of [liti ''a'', liti ''the'', liti ''an'']), spaces,
           Many wordch, spaces, liti ''team''],
     cats [liti ''leading'', spaces1, opt_of (any_of [liti ''a'', liti ''the'']), spaces, liti ''team''],
     cats [liti ''managed'', spaces1, opt_of (any_of [liti ''a'', liti ''the'']), spaces, liti ''team''],
     cats [liti ''managing'', spaces1, opt_of (any_of [liti ''a'', liti ''the'']), spaces, liti ''team''],
     cats [liti ''line'', Ch (\<lambda>c. py_isspace c \<or> c = CHR ''-''), liti ''management''],
     cats [liti ''direct'', spaces1, liti ''report'', opt_of (liti ''s'')],
     liti ''mentored'', liti ''mentoring'', liti ''supervised'', liti ''supervising'',
     cats [liti ''hired'', spaces1, liti ''and'', spaces1, any_of [liti ''led'', liti ''managed'']],
     cats [liti ''grew'', spaces1, liti ''and'', spaces1, liti ''led''],
     cats [liti ''built'', spaces1, liti ''and'', spaces1, liti ''led''],
     cats [liti ''led'', spaces1, liti ''the'', spaces1, plus_of wordch,
           upto_of 4 (Cat spaces1 (plus_of wordch)), spaces1,
           any_of [liti ''team'', liti ''platform'', liti ''group'', liti ''department'', liti ''org'',
                   liti ''organization'']],
     cats [liti ''people'', spaces1, liti ''management''],
     cats [liti ''managed'', spaces1, digits, spaces1,
           any_of [Cat (liti ''engineer'') (opt_of (liti ''s'')), liti ''people'',
                   Cat (liti ''report'') (opt_of (liti ''s''))]],
     cats [liti ''led'', spaces1, digits, spaces1,
           any_of [Cat (liti ''engineer'') (opt_of (liti ''s'')), liti ''people'',
                   Cat (liti ''report'') (opt_of (liti ''s''))]]]),
     Edge]"

section \<open>Employment spans\<close>

record span_tables =
  tb_titles :: "(string \<times> string) list"
  tb_market :: "(string \<times> string) list"
  tb_organizations :: "(string \<times> string) list"
  tb_starts :: "(string \<times> py_date) list"
  tb_ends :: "(string \<times> py_date) list"
  tb_responsibilities :: "(string \<times> string list) list"
  tb_evidence :: "(string \<times> string list) list"

text \<open>\<open>d.setdefault(k, []).extend(xs)\<close> (or the update of a set), and \<open>d.get(k, ())\<close>.\<close>

definition extend_at :: "string \<Rightarrow> 'a list \<Rightarrow> (string \<times> 'a list) list \<Rightarrow> (string \<times> 'a list) list" where
  "extend_at k xs d = AList.update k ((case map_of d k of Some ys \<Rightarrow> ys | None \<Rightarrow> []) @ xs) d"

definition list_at :: "(string \<times> 'a list) list \<Rightarrow> string \<Rightarrow> 'a list" where
  "list_at d k = (case map_of d k of Some ys \<Rightarrow> ys | None \<Rightarrow> [])"

definition note_fact :: "employment_fact \<Rightarrow> span_tables \<Rightarrow> span_tables" where
  "note_fact a t =
     (let s = subject_id a; v = assertion_value a;
          ev = t\<lparr>tb_evidence := extend_at s (evidence_ids a) (tb_evidence t)\<rparr>
      in if verification_status a \<noteq> VERIFIED then t
         else if predicate a = ''employment.title'' then ev\<lparr>tb_titles := AList.update s v (tb_titles t)\<rparr>
         else if predicate a = ''employment.market_facing_title''
         then ev\<lparr>tb_market := AList.update s v (tb_market t)\<rparr>
         else if predicate a = ''employment.organization''
         then ev\<lparr>tb_organizations := AList.update s v (tb_organizations t)\<rparr>
         else if predicate a = ''employment.start_date'' \<and> value_date a \<noteq> None
         then ev\<lparr>tb_starts := AList.update s (the (value_date a)) (tb_starts t)\<rparr>
         else if predicate a = ''employment.end_date'' \<and> value_date a \<noteq> None
         then ev\<lparr>tb_ends := AList.update s (the (value_date a)) (tb_ends t)\<rparr>
         else if predicate a = ''employment.responsibility''
         then ev\<lparr>tb_responsibilities := extend_at s [v] (tb_responsibilities t)\<rparr>
         else t)"

definition empty_tables :: span_tables where
  "empty_tables = \<lparr>tb_titles = [], tb_market = [], tb_organizations = [], tb_starts = [], tb_ends = [],
     tb_responsibilities = [], tb_evidence = []\<rparr>"

definition is_statement :: "employment_fact \<Rightarrow> bool" where
  "is_statement a \<longleftrightarrow> verification_status a = VERIFIED \<and> predicate a = ''achievement.statement''"

definition achievements :: "employment_fact list \<Rightarrow> (string \<times> string list) list" where
  "achievements as = fold (\<lambda>a d. if is_statement a then extend_at (subject_id a) [assertion_value a] d else d) as []"

definition achievement_evidence :: "employment_fact list \<Rightarrow> (string \<times> string list) list" where
  "achievement_evidence as = fold (\<lambda>a d. if is_statement a then extend_at (subject_id a) (evidence_ids a) d else d) as []"

definition links_achievement :: "employment_fact list \<Rightarrow> typed_relation \<Rightarrow> bool" where
  "links_achievement as r \<longleftrightarrow> relation_type r = ACHIEVED_DURING \<and> relation_status r = VERIFIED \<and>
     map_of (achievements as) (target_id r) \<noteq> None"

definition linked :: "(string \<times> string list) list \<Rightarrow> employment_graph \<Rightarrow> (string \<times> string list) list" where
  "linked per_subject g =
     fold (\<lambda>r d. if links_achievement (facts g) r then extend_at (source_id r) (list_at per_subject (target_id r)) d
                 else d) (relations g) []"

definition span_of :: "employment_graph \<Rightarrow> span_tables \<Rightarrow> string \<times> string \<Rightarrow> employment_span option" where
  "span_of g t st =
     (case st of (s, title) \<Rightarrow>
        map_option (\<lambda>start.
          \<lparr>span_subject = s, span_title = title, market_facing_title = map_of (tb_market t) s,
           span_organization = map_of (tb_organizations t) s, start_date = start, end_date = map_of (tb_ends t) s,
           internship = is_internship title \<or>
             is_internship (case map_of (tb_market t) s of Some m \<Rightarrow> m | None \<Rightarrow> []),
           responsibility_texts = list_at (tb_responsibilities t) s,
           achievement_texts = list_at (linked (achievements (facts g)) g) s,
           evidence_refs = sort (remdups (list_at (tb_evidence t) s @
             list_at (linked (achievement_evidence (facts g)) g) s))\<rparr>)
          (map_of (tb_starts t) s))"

definition extract_employment_spans :: "employment_graph \<Rightarrow> employment_span list" where
  "extract_employment_spans g =
     (let t = fold note_fact (facts g) empty_tables
      in sort_key (\<lambda>s. date_key (start_date s)) (List.map_filter (span_of g t) (tb_titles t)))"

section \<open>Tenure\<close>

definition month_index :: "py_date \<Rightarrow> int" where
  "month_index d = year d * 12 + (month d - 1)"

definition months_in_range_inclusive :: "py_date \<Rightarrow> py_date \<Rightarrow> int" where
  "months_in_range_inclusive s e = max (month_index e - month_index s + 1) 0"

text \<open>The loop of \<open>_merge_month_ranges\<close>: the last merged range, and the ranges still to come.\<close>

fun merge_into :: "int \<times> int \<Rightarrow> (int \<times> int) list \<Rightarrow> (int \<times> int) list" where
  "merge_into r [] = [r]"
| "merge_into (ls, le) ((s, e) # rs) =
     (if s \<le> le + 1 then merge_into (ls, max le e) rs else (ls, le) # merge_into (s, e) rs)"

definition merge_month_ranges :: "(int \<times> int) list \<Rightarrow> (int \<times> int) list" where
  "merge_month_ranges ranges = (case sort ranges of [] \<Rightarrow> [] | r # rs \<Rightarrow> merge_into r rs)"

definition span_end :: "py_date \<Rightarrow> employment_span \<Rightarrow> py_date" where
  "span_end as_of s = (case end_date s of Some d \<Rightarrow> d | None \<Rightarrow> as_of)"

definition counted_span :: "py_date \<Rightarrow> employment_span \<Rightarrow> bool" where
  "counted_span as_of s \<longleftrightarrow> \<not> internship s \<and> \<not> date_before (span_end as_of s) (start_date s)"

definition month_range :: "py_date \<Rightarrow> employment_span \<Rightarrow> int \<times> int" where
  "month_range as_of s = (month_index (start_date s), month_index (span_end as_of s))"

definition total_months :: "employment_span list \<Rightarrow> py_date \<Rightarrow> int" where
  "total_months spans as_of =
     sum_list (map (\<lambda>(s, e). e - s + 1)
       (merge_month_ranges (map (month_range as_of) (filter (counted_span as_of) spans))))"

definition title_matches_family :: "string list \<Rightarrow> employment_span \<Rightarrow> bool" where
  "title_matches_family aliases s =
     (let hay = py_lower (span_title s) #
        (case market_facing_title s of Some m \<Rightarrow> if m \<noteq> [] then [py_lower m] else [] | None \<Rightarrow> [])
      in list_ex (\<lambda>a. list_ex (\<lambda>h. py_in (py_lower a) h) hay) aliases)"

definition months_in_family :: "employment_span list \<Rightarrow> string list \<Rightarrow> py_date \<Rightarrow> int" where
  "months_in_family spans aliases as_of =
     (if aliases = [] then 0
      else total_months (filter (\<lambda>s. \<not> internship s \<and> title_matches_family aliases s) spans) as_of)"

definition shows_leadership :: "employment_span \<Rightarrow> bool" where
  "shows_leadership s \<longleftrightarrow> \<not> internship s \<and>
     list_ex (\<lambda>t. re_search leadership_re t \<noteq> None) (responsibility_texts s @ achievement_texts s)"

definition has_people_leadership :: "employment_span list \<Rightarrow> bool \<times> string list" where
  "has_people_leadership spans =
     (let led = filter shows_leadership spans
      in (led \<noteq> [], sort (remdups (concat (map evidence_refs led)))))"

section \<open>Assessment\<close>

record level_requirement =
  req_level :: string
  months_floor :: int
  requires_leadership :: bool

definition SENIORITY_THRESHOLDS :: "level_requirement list" where
  "SENIORITY_THRESHOLDS =
     map (\<lambda>(l, m, b). \<lparr>req_level = l, months_floor = m, requires_leadership = b\<rparr>)
       [(''junior'', 0, False), (''mid'', 24, False), (''senior'', 60, False), (''staff'', 120, True),
        (''principal'', 180, True)]"

record seniority_assessment =
  sa_total :: int
  sa_family :: int
  sa_aliases :: "string list"
  sa_leadership :: bool
  sa_leadership_refs :: "string list"
  sa_tenure_refs :: "string list"
  sa_requirement :: "level_requirement option"
  meets_requirement :: bool
  months_gap :: int

definition requirement_of :: "string option \<Rightarrow> level_requirement option" where
  "requirement_of l =
     (case l of Some n \<Rightarrow> if n = [] then None else find (\<lambda>t. req_level t = n) SENIORITY_THRESHOLDS
      | None \<Rightarrow> None)"

definition assess ::
  "employment_graph \<Rightarrow> string option \<Rightarrow> string list \<Rightarrow> py_date \<Rightarrow> seniority_assessment option" where
  "assess g lvl aliases as_of =
     (let spans = extract_employment_spans g;
          total = total_months spans as_of;
          req = requirement_of lvl
      in if spans = [] then None
         else (case has_people_leadership spans of (led, refs) \<Rightarrow>
           Some \<lparr>sa_total = total, sa_family = months_in_family spans aliases as_of, sa_aliases = aliases,
             sa_leadership = led, sa_leadership_refs = refs,
             sa_tenure_refs = sort (remdups (concat (map evidence_refs spans))), sa_requirement = req,
             meets_requirement = (case req of None \<Rightarrow> False
               | Some r \<Rightarrow> max (months_floor r - total) 0 = 0 \<and> (\<not> requires_leadership r \<or> led)),
             months_gap = (case req of None \<Rightarrow> 0 | Some r \<Rightarrow> max (months_floor r - total) 0)\<rparr>))"

definition format_years_months :: "int \<Rightarrow> string" where
  "format_years_months n =
     (let y = n div 12; r = n mod 12 in
      if y \<noteq> 0 \<and> r \<noteq> 0 then int_str y @ ''y '' @ int_str r @ ''m''
      else if y \<noteq> 0 then int_str y @ ''y''
      else int_str r @ ''m'')"

definition explain :: "seniority_assessment \<Rightarrow> string \<Rightarrow> string" where
  "explain a family_label =
     py_join ''; '' ([''Founder: '' @ format_years_months (sa_total a) @ '' professional'',
        format_years_months (sa_family a) @ '' in '' @ family_label] @
       (case sa_requirement a of
          None \<Rightarrow> [''role'' @ [CHR 0x27] @ ''s required level is unspecified'']
        | Some r \<Rightarrow>
            [''role asks '' @ py_title (req_level r) @ '' ('' @ format_years_months (months_floor r) @ ''+)'' @
             (if requires_leadership r then '', people leadership'' else [])] @
            (if meets_requirement a then [''meets the bar'']
             else if months_gap a > 0 then [''gap: '' @ format_years_months (months_gap a)]
             else if requires_leadership r \<and> \<not> sa_leadership a
             then [''gap: no verified people-leadership evidence''] else []))) @ ''.''"

end
