(* ===== verification/Seniority_Properties.thy ===== *)
theory Seniority_Properties
  imports Seniority
begin

text \<open>
  The months of experience are the size of a set of months, so overlapping roles count once,
  whatever their order; leadership and the verdict on a level; dependence on verified facts only.
\<close>

section \<open>Merged ranges cover the same months\<close>

definition months_of :: "(int \<times> int) list \<Rightarrow> int set" where
  "months_of rs = (\<Union>(s, e)\<in>set rs. {s..e})"

definition total_of :: "(int \<times> int) list \<Rightarrow> int" where
  "total_of rs = sum_list (map (\<lambda>(s, e). e - s + 1) rs)"

definition proper_ranges :: "(int \<times> int) list \<Rightarrow> bool" where
  "proper_ranges rs \<longleftrightarrow> (\<forall>(s, e)\<in>set rs. s \<le> e)"

lemma months_of_simps [simp]:
  "months_of [] = {}" "months_of ((s, e) # rs) = {s..e} \<union> months_of rs"
  by (auto simp: months_of_def)

lemma finite_months_of [simp]: "finite (months_of rs)"
  by (auto simp: months_of_def)

lemma months_of_set: "set rs = set rs' \<Longrightarrow> months_of rs = months_of rs'"
  by (simp add: months_of_def)

lemma merge_into_total:
  assumes "ls \<le> le" "proper_ranges rs" "sorted (map fst rs)" "\<forall>(s, e)\<in>set rs. ls \<le> s"
  shows "total_of (merge_into (ls, le) rs) = int (card (months_of ((ls, le) # rs)))"
  using assms
proof (induction "(ls, le)" rs arbitrary: ls le rule: merge_into.induct)
  case (1 ls le)
  then show ?case by (simp add: total_of_def)
next
  case (2 ls le s e rs)
  from 2 have se: "s \<le> e" "ls \<le> s" and rs: "proper_ranges rs" "sorted (map fst rs)"
    and later: "\<forall>(s', e')\<in>set rs. s \<le> s'"
    by (auto simp: proper_ranges_def)
  show ?case
  proof (cases "s \<le> le + 1")
    case True
    then have "{ls..max le e} = {ls..le} \<union> {s..e}" using se by auto
    moreover have "\<forall>(s', e')\<in>set rs. ls \<le> s'" using later se by auto
    ultimately show ?thesis using 2(1) [OF True _ rs] True 2(3) by (auto simp: Un_assoc)
  next
    case False
    then have "{ls..le} \<inter> months_of ((s, e) # rs) = {}"
      using se later by (auto simp: months_of_def)
    then have "card (months_of ((ls, le) # (s, e) # rs)) = card {ls..le} + card (months_of ((s, e) # rs))"
      unfolding months_of_simps(2) [of ls le] by (intro card_Un_disjoint) auto
    moreover have "total_of (merge_into (s, e) rs) = int (card (months_of ((s, e) # rs)))"
      by (rule 2(2) [OF False se(1) rs later])
    ultimately show ?thesis using False 2(3) by (simp add: total_of_def)
  qed
qed

lemma merge_month_ranges_total:
  assumes "proper_ranges rs"
  shows "total_of (merge_month_ranges rs) = int (card (months_of rs))"
proof (cases "sort rs")
  case Nil
  then show ?thesis by (simp add: merge_month_ranges_def total_of_def) (metis months_of_simps(1) set_empty set_sort card.empty)
next
  case (Cons r qs)
  obtain ls le where r: "r = (ls, le)" by (cases r)
  have s: "sorted ((ls, le) # qs)" using Cons r by (metis sorted_sort)
  have set: "set ((ls, le) # qs) = set rs" using Cons r by (metis set_sort)
  have "sorted (map fst qs)"
    using s by (induction qs) (auto simp: less_eq_prod_def)
  moreover have "\<forall>(s, e)\<in>set qs. ls \<le> s" using s by (auto simp: less_eq_prod_def)
  moreover have "proper_ranges qs" "ls \<le> le" using assms set by (auto simp: proper_ranges_def)
  ultimately have "total_of (merge_into (ls, le) qs) = int (card (months_of ((ls, le) # qs)))"
    by (intro merge_into_total)
  then show ?thesis using months_of_set [OF set] Cons r by (simp add: merge_month_ranges_def)
qed

section \<open>Months of experience\<close>

definition proper_span :: "employment_span \<Rightarrow> bool" where
  "proper_span s \<longleftrightarrow> proper_date (start_date s) \<and> (case end_date s of Some d \<Rightarrow> proper_date d | None \<Rightarrow> True)"

text \<open>The months in which the founder held some role that counts.\<close>

definition worked_months :: "py_date \<Rightarrow> employment_span list \<Rightarrow> int set" where
  "worked_months as_of spans =
     (\<Union>s\<in>{s \<in> set spans. counted_span as_of s}.
        {month_index (start_date s)..month_index (span_end as_of s)})"

lemma month_index_mono:
  assumes "\<not> date_before e s" "proper_date s" "proper_date e"
  shows "month_index s \<le> month_index e"
  using assms by (auto simp: date_before_def date_key_def proper_date_def month_index_def less_prod_def not_less)

lemma total_months_card:
  assumes "proper_date as_of" "\<forall>s\<in>set spans. proper_span s"
  shows "total_months spans as_of = int (card (worked_months as_of spans))"
proof -
  let ?rs = "map (month_range as_of) (filter (counted_span as_of) spans)"
  have "proper_ranges ?rs"
    using assms month_index_mono
    by (fastforce simp: proper_ranges_def month_range_def counted_span_def proper_span_def span_end_def
        split: option.splits)
  then have "total_of (merge_month_ranges ?rs) = int (card (months_of ?rs))" by (rule merge_month_ranges_total)
  moreover have "months_of ?rs = worked_months as_of spans"
    by (auto simp: months_of_def worked_months_def month_range_def)
  ultimately show ?thesis by (simp add: total_months_def total_of_def)
qed

section \<open>What the tables hold\<close>

lemma list_at_extend [simp]:
  "list_at (extend_at k xs d) k' = list_at d k' @ (if k' = k then xs else [])"
  by (auto simp: list_at_def extend_at_def update_conv' split: option.splits)

lemma list_at_Nil [simp]: "list_at [] k = []"
  by (simp add: list_at_def)

lemma list_at_fold:
  "list_at (fold (\<lambda>a d. if P a then extend_at (f a) (h a) d else d) as d) k =
     list_at d k @ concat (map (\<lambda>a. if P a \<and> f a = k then h a else []) as)"
  by (induction as arbitrary: d) auto

definition is_responsibility :: "employment_fact \<Rightarrow> bool" where
  "is_responsibility a \<longleftrightarrow> verification_status a = VERIFIED \<and> predicate a = ''employment.responsibility''"

lemma responsibilities_fold:
  "list_at (tb_responsibilities (fold note_fact as t)) k =
     list_at (tb_responsibilities t) k @
     map assertion_value (filter (\<lambda>a. is_responsibility a \<and> subject_id a = k) as)"
proof (induction as arbitrary: t)
  case (Cons a as)
  have "list_at (tb_responsibilities (note_fact a t)) k =
      list_at (tb_responsibilities t) k @ (if is_responsibility a \<and> subject_id a = k then [assertion_value a] else [])"
    by (simp add: note_fact_def is_responsibility_def Let_def)
  with Cons show ?case by simp
qed simp

definition proper_facts :: "employment_graph \<Rightarrow> bool" where
  "proper_facts g \<longleftrightarrow> list_all (\<lambda>a. case value_date a of Some d \<Rightarrow> proper_date d | None \<Rightarrow> True) (facts g)"

definition proper_tables :: "span_tables \<Rightarrow> bool" where
  "proper_tables t \<longleftrightarrow> (\<forall>k d. map_of (tb_starts t) k = Some d \<or> map_of (tb_ends t) k = Some d \<longrightarrow> proper_date d)"

lemma note_fact_proper:
  assumes "proper_tables t" "case value_date a of Some d \<Rightarrow> proper_date d | None \<Rightarrow> True"
  shows "proper_tables (note_fact a t)"
  using assms unfolding note_fact_def Let_def proper_tables_def
  by (auto simp: update_conv' split: if_splits)

lemma fold_note_proper:
  assumes "proper_tables t" "\<forall>a\<in>set as. case value_date a of Some d \<Rightarrow> proper_date d | None \<Rightarrow> True"
  shows "proper_tables (fold note_fact as t)"
  using assms by (induction as arbitrary: t) (auto intro: note_fact_proper)

lemma extracted_proper:
  assumes "proper_facts g" "s \<in> set (extract_employment_spans g)"
  shows "proper_span s"
proof -
  let ?t = "fold note_fact (facts g) empty_tables"
  have "proper_tables ?t"
    using assms(1) by (intro fold_note_proper) (auto simp: proper_facts_def list_all_iff proper_tables_def empty_tables_def)
  moreover from assms(2) obtain st where "span_of g ?t st = Some s"
    by (auto simp: extract_employment_spans_def Let_def List.map_filter_def split: if_splits)
  ultimately show ?thesis
    by (auto simp: span_of_def proper_span_def proper_tables_def split: prod.splits option.splits)
qed

text \<open>The texts that count for leadership are values of verified facts about deeds.\<close>

lemma extracted_texts:
  assumes "s \<in> set (extract_employment_spans g)" "t \<in> set (responsibility_texts s @ achievement_texts s)"
  shows "\<exists>a\<in>set (facts g). (is_responsibility a \<or> is_statement a) \<and> assertion_value a = t"
proof -
  let ?t = "fold note_fact (facts g) empty_tables"
  from assms(1) obtain k title where sp: "span_of g ?t (k, title) = Some s"
    by (auto simp: extract_employment_spans_def Let_def List.map_filter_def split: if_splits)
  have achieved: "list_at (achievements (facts g)) c = concat (map (\<lambda>a. if is_statement a \<and> subject_id a = c then [assertion_value a] else []) (facts g))" for c
    unfolding achievements_def by (simp add: list_at_fold)
  from assms(2) consider "t \<in> set (list_at (tb_responsibilities ?t) k)"
    | "t \<in> set (list_at (linked (achievements (facts g)) g) k)"
    using sp by (auto simp: span_of_def)
  then show ?thesis
  proof cases
    case 1
    then show ?thesis by (auto simp: responsibilities_fold empty_tables_def)
  next
    case 2
    then show ?thesis by (auto simp: linked_def list_at_fold achieved split: if_splits)
  qed
qed

section \<open>Only verified facts count\<close>

definition verified_graph :: "employment_graph \<Rightarrow> employment_graph" where
  "verified_graph g = \<lparr>facts = filter (\<lambda>a. verification_status a = VERIFIED) (facts g),
     relations = filter (\<lambda>r. relation_status r = VERIFIED) (relations g)\<rparr>"

lemma fold_skip:
  "(\<And>a d. a \<in> set as \<Longrightarrow> \<not> P a \<Longrightarrow> f a d = d) \<Longrightarrow> fold f (filter P as) d = fold f as d"
  by (induction as arbitrary: d) auto

lemma achievements_verified:
  "achievements (facts (verified_graph g)) = achievements (facts g)"
  "achievement_evidence (facts (verified_graph g)) = achievement_evidence (facts g)"
  unfolding achievements_def achievement_evidence_def verified_graph_def
  by (auto intro!: fold_skip simp: is_statement_def)

lemma linked_verified: "linked d (verified_graph g) = linked d g"
  unfolding linked_def links_achievement_def achievements_verified
  by (auto intro!: fold_skip simp: verified_graph_def)

lemma extract_verified: "extract_employment_spans (verified_graph g) = extract_employment_spans g"
proof -
  have "fold note_fact (facts (verified_graph g)) empty_tables = fold note_fact (facts g) empty_tables"
    unfolding verified_graph_def by (auto intro!: fold_skip simp: note_fact_def)
  moreover have "span_of (verified_graph g) = span_of g"
    by (intro ext) (simp add: span_of_def achievements_verified linked_verified)
  ultimately show ?thesis by (simp add: extract_employment_spans_def Let_def)
qed

section \<open>Claims\<close>

definition demo_job :: "string \<Rightarrow> py_date \<Rightarrow> py_date \<Rightarrow> employment_span" where
  "demo_job k s e = \<lparr>span_subject = k, span_title = ''Engineer'', market_facing_title = None,
     span_organization = None, start_date = s, end_date = Some e, internship = False,
     responsibility_texts = [], achievement_texts = [], evidence_refs = []\<rparr>"

definition on :: "int \<Rightarrow> int \<Rightarrow> int \<Rightarrow> py_date" where
  "on y m d = \<lparr>year = y, month = m, day = d\<rparr>"

definition job_fact :: "string \<Rightarrow> string \<Rightarrow> py_date option \<Rightarrow> employment_fact" where
  "job_fact pred v d = \<lparr>assertion_id = v, predicate = pred, assertion_value = v, verification_status = VERIFIED,
     polarity = POSITIVE, assertion_number = None, subject_id = ''job-1'', value_date = d, evidence_ids = [''e1'']\<rparr>"

definition demo_career :: employment_graph where
  "demo_career = \<lparr>facts = [job_fact ''employment.title'' ''Engineer'' None,
     job_fact ''employment.start_date'' ''2010-01-01'' (Some (on 2010 1 1)),
     job_fact ''employment.responsibility'' ''mentored juniors'' None], relations = []\<rparr>"

text \<open>C25: the months of experience are the number of calendar months in which the founder held a role
  that counts: concurrent and overlapping roles, in whatever order they are recorded, count once.\<close>

theorem experience_counts_each_month_once:
  assumes "proper_date as_of" and "\<forall>s\<in>set spans. proper_span s"
  shows "total_months spans as_of = int (card (worked_months as_of spans))"
  by (rule total_months_card [OF assms])

theorem experience_counts_each_month_once_witness:
  "total_months [demo_job ''b'' (on 2020 6 1) (on 2021 5 31), demo_job ''a'' (on 2020 1 1) (on 2020 12 31)]
     (on 2024 1 1) = 17 \<and>
   card (worked_months (on 2024 1 1)
     [demo_job ''b'' (on 2020 6 1) (on 2021 5 31), demo_job ''a'' (on 2020 1 1) (on 2020 12 31)]) = 17"
proof -
  let ?s = "[demo_job ''b'' (on 2020 6 1) (on 2021 5 31), demo_job ''a'' (on 2020 1 1) (on 2020 12 31)]"
  have "total_months ?s (on 2024 1 1) = 17" by code_simp
  moreover have "total_months ?s (on 2024 1 1) = int (card (worked_months (on 2024 1 1) ?s))"
    by (rule experience_counts_each_month_once) (simp_all add: proper_date_def proper_span_def on_def demo_job_def)
  ultimately show ?thesis by simp
qed

text \<open>the verdict on a level. The requirement is met exactly if the level is a known one, the months
  worked reach its floor, and, where the level asks for it, some role that is no internship shows people
  leadership in its texts; the gap is the number of months missing.\<close>

theorem seniority_verdict:
  assumes "proper_facts g" and "proper_date as_of" and "assess g lvl aliases as_of = Some a"
  shows "let worked = int (card (worked_months as_of (extract_employment_spans g))) in
    sa_total a = worked \<and> sa_requirement a = requirement_of lvl \<and>
    (meets_requirement a \<longleftrightarrow> (case requirement_of lvl of None \<Rightarrow> False
      | Some r \<Rightarrow> months_floor r \<le> worked \<and>
          (requires_leadership r \<longrightarrow> (\<exists>s\<in>set (extract_employment_spans g). shows_leadership s)))) \<and>
    months_gap a = (case requirement_of lvl of None \<Rightarrow> 0 | Some r \<Rightarrow> max (months_floor r - worked) 0)"
proof -
  have "total_months (extract_employment_spans g) as_of =
      int (card (worked_months as_of (extract_employment_spans g)))"
    by (intro total_months_card) (use assms extracted_proper in auto)
  with assms(3) show ?thesis
    by (auto simp: assess_def Let_def has_people_leadership_def filter_empty_conv split: if_splits option.splits)
qed

theorem seniority_verdict_witness:
  "meets_requirement (the (assess demo_career (Some ''staff'') [] (on 2024 1 1))) \<and>
   int (card (worked_months (on 2024 1 1) (extract_employment_spans demo_career))) = 169"
proof -
  have v: "map_option (\<lambda>a. (sa_total a, meets_requirement a)) (assess demo_career (Some ''staff'') [] (on 2024 1 1))
      = Some (169, True)" by code_simp
  then obtain a where a: "assess demo_career (Some ''staff'') [] (on 2024 1 1) = Some a" "sa_total a = 169"
    "meets_requirement a" by auto
  have "proper_facts demo_career" "proper_date (on 2024 1 1)" by code_simp+
  from seniority_verdict [OF this a(1)] a show ?thesis by (simp add: Let_def)
qed

text \<open>a title never makes a leader. Wherever the assessment reports people leadership, a verified
  responsibility or achievement of the founder describes it in words.\<close>

theorem leadership_is_a_deed:
  assumes "assess g lvl aliases as_of = Some a" and "sa_leadership a"
  shows "\<exists>f\<in>set (facts g). verification_status f = VERIFIED \<and>
    predicate f \<in> {''employment.responsibility'', ''achievement.statement''} \<and>
    re_search leadership_re (assertion_value f) \<noteq> None"
proof -
  from assms obtain s where s: "s \<in> set (extract_employment_spans g)" "shows_leadership s"
    by (auto simp: assess_def Let_def has_people_leadership_def filter_empty_conv split: if_splits)
  from s(2) obtain t where t: "t \<in> set (responsibility_texts s @ achievement_texts s)"
    "re_search leadership_re t \<noteq> None"
    unfolding shows_leadership_def list_ex_iff by blast
  from extracted_texts [OF s(1) t(1)] t(2) show ?thesis by (auto simp: is_responsibility_def is_statement_def)
qed

theorem leadership_is_a_deed_witness:
  "\<exists>f\<in>set (facts demo_career). verification_status f = VERIFIED \<and>
    predicate f \<in> {''employment.responsibility'', ''achievement.statement''} \<and>
    re_search leadership_re (assertion_value f) \<noteq> None"
proof -
  have "map_option sa_leadership (assess demo_career (Some ''staff'') [] (on 2024 1 1)) = Some True" by code_simp
  then obtain a where "assess demo_career (Some ''staff'') [] (on 2024 1 1) = Some a" "sa_leadership a" by auto
  then show ?thesis by (rule leadership_is_a_deed)
qed

text \<open>facts and relations that are not verified change nothing in an assessment.\<close>

theorem only_verified_experience_counts:
  "assess (verified_graph g) lvl aliases as_of = assess g lvl aliases as_of"
  by (simp add: assess_def extract_verified)

end
