(* ===== verification/Url.thy ===== *)
theory Url
  imports Prelude
begin

text \<open>
  The functions of \<open>urllib.parse\<close> that deduplication calls, on ASCII text, as Python 3.12 (the
  version of the container image) defines them: \<open>urlparse\<close>, \<open>parse_qs\<close>, \<open>urlencode\<close> with
  \<open>doseq\<close>, \<open>urlunparse\<close> without a fragment. The validation of a bracketed IPv6 host is left out.
\<close>

section \<open>Splitting\<close>

text \<open>\<open>s.split(c, 1)\<close>: the text before the first \<open>c\<close> and, where there is one, the text after it.\<close>

definition split_once :: "char \<Rightarrow> string \<Rightarrow> string \<times> string option" where
  "split_once c s =
     (takeWhile (\<lambda>d. d \<noteq> c) s, if c \<in> set s then Some (tl (dropWhile (\<lambda>d. d \<noteq> c) s)) else None)"

definition py_rstrip_of :: "char \<Rightarrow> string \<Rightarrow> string" where
  "py_rstrip_of c s = rev (dropWhile (\<lambda>d. d = c) (rev s))"

record url_parts =
  scheme :: string
  netloc :: string
  url_path :: string
  url_params :: string
  url_query :: string
  url_fragment :: string

definition control_or_space :: "char \<Rightarrow> bool" where
  "control_or_space c \<longleftrightarrow> (of_char c :: nat) \<le> 32"

definition scheme_char :: "char \<Rightarrow> bool" where
  "scheme_char c \<longleftrightarrow> py_isalnum c \<or> c \<in> {CHR ''+'', CHR ''-'', CHR ''.''}"

definition split_scheme :: "string \<Rightarrow> string \<times> string" where
  "split_scheme u =
     (case split_once CHR '':'' u of
        (pre, Some rest) \<Rightarrow>
          if pre \<noteq> [] \<and> py_isalpha (hd pre) \<and> list_all scheme_char pre then (py_lower pre, rest) else ([], u)
      | (_, None) \<Rightarrow> ([], u))"

definition split_netloc :: "string \<Rightarrow> string \<times> string" where
  "split_netloc u =
     (if take 2 u = ''//''
      then (let stop = (\<lambda>c. c \<notin> {CHR ''/'', CHR ''?'', CHR ''#''})
            in (takeWhile stop (drop 2 u), dropWhile stop (drop 2 u)))
      else ([], u))"

text \<open>The schemes with parameters: only those are split at the semicolon of the last segment.\<close>

definition uses_params :: "string list" where
  "uses_params = [[], ''ftp'', ''hdl'', ''prospero'', ''http'', ''imap'', ''https'', ''shttp'', ''rtsp'',
     ''rtsps'', ''rtspu'', ''sip'', ''sips'', ''mms'', ''sftp'', ''tel'']"

definition split_params :: "string \<Rightarrow> string \<times> string" where
  "split_params p =
     (let last_segment = rev (takeWhile (\<lambda>c. c \<noteq> CHR ''/'') (rev p));
          before = take (length p - length last_segment) p
      in case split_once CHR '';'' last_segment of
           (a, Some b) \<Rightarrow> (before @ a, b)
         | (_, None) \<Rightarrow> (p, []))"

text \<open>\<open>None\<close> where \<open>urlparse\<close> raises \<open>ValueError\<close>.\<close>

definition urlparse :: "string \<Rightarrow> url_parts option" where
  "urlparse raw =
     (let u0 = filter (\<lambda>c. c \<notin> {CHR 0x09, CHR 0x0D, CHR 0x0A}) (dropWhile control_or_space raw)
      in case split_scheme u0 of (sch, u1) \<Rightarrow>
         case split_netloc u1 of (loc, u2) \<Rightarrow>
           if (CHR ''['' \<in> set loc) \<noteq> (CHR '']'' \<in> set loc) then None
           else (case split_once CHR ''#'' u2 of (u3, frag) \<Rightarrow>
                 case split_once CHR ''?'' u3 of (u4, q) \<Rightarrow>
                 case (if sch \<in> set uses_params then split_params u4 else (u4, [])) of (pth, par) \<Rightarrow>
                   Some \<lparr>scheme = sch, netloc = loc, url_path = pth, url_params = par,
                     url_query = (case q of Some s \<Rightarrow> s | None \<Rightarrow> []),
                     url_fragment = (case frag of Some s \<Rightarrow> s | None \<Rightarrow> [])\<rparr>))"

section \<open>Query strings\<close>

definition hex_value :: "char \<Rightarrow> nat option" where
  "hex_value c =
     (let n = (of_char c :: nat) in
      if py_isdigit c then Some (n - 48)
      else if 97 \<le> n \<and> n \<le> 102 then Some (n - 87)
      else if 65 \<le> n \<and> n \<le> 70 then Some (n - 55)
      else None)"

fun unquote :: "string \<Rightarrow> string" where
  "unquote (c # h # l # cs) =
     (case (if c = CHR ''%'' then hex_value h else None, hex_value l) of
        (Some a, Some b) \<Rightarrow> char_of (16 * a + b) # unquote cs
      | _ \<Rightarrow> c # unquote (h # l # cs))"
| "unquote cs = cs"

definition unquote_plus :: "string \<Rightarrow> string" where
  "unquote_plus s = unquote (py_replace CHR ''+'' CHR '' '' s)"

text \<open>\<open>parse_qs\<close>: pairs without \<open>=\<close> or with an empty value are dropped, values of a name collected.\<close>

definition parse_qsl :: "string \<Rightarrow> (string \<times> string) list" where
  "parse_qsl q =
     concat (map (\<lambda>nv. case split_once CHR ''='' nv of
        (n, Some v) \<Rightarrow> if v \<noteq> [] then [(unquote_plus n, unquote_plus v)] else []
      | (_, None) \<Rightarrow> []) (py_split CHR ''&'' q))"

definition hex_digit :: "nat \<Rightarrow> char" where
  "hex_digit n = char_of (if n < 10 then 48 + n else 55 + n)"

definition always_safe :: "char \<Rightarrow> bool" where
  "always_safe c \<longleftrightarrow> py_isalnum c \<or> c \<in> {CHR ''_'', CHR ''.'', CHR ''-'', CHR ''~''}"

definition quote_plus :: "string \<Rightarrow> string" where
  "quote_plus s =
     concat (map (\<lambda>c. if c = CHR '' '' then ''+'' else if always_safe c then [c]
       else [CHR ''%'', hex_digit (of_char c div 16), hex_digit (of_char c mod 16)]) s)"

definition urlencode :: "(string \<times> string list) list \<Rightarrow> string" where
  "urlencode q =
     py_join ''&'' (concat (map (\<lambda>(k, vs). map (\<lambda>v. quote_plus k @ ''='' @ quote_plus v) vs) q))"

section \<open>Putting the parts together\<close>

definition uses_netloc :: "string list" where
  "uses_netloc = [[], ''ftp'', ''http'', ''gopher'', ''nntp'', ''telnet'', ''imap'', ''wais'', ''file'', ''mms'',
     ''https'', ''shttp'', ''snews'', ''prospero'', ''rtsp'', ''rtsps'', ''rtspu'', ''rsync'', ''svn'',
     ''svn+ssh'', ''sftp'', ''nfs'', ''git'', ''git+ssh'', ''ws'', ''wss'', ''itms-services'']"

definition urlunparse :: "url_parts \<Rightarrow> string" where
  "urlunparse p =
     (let u = (if url_params p \<noteq> [] then url_path p @ '';'' @ url_params p else url_path p);
          located = (if netloc p \<noteq> []
                     then ''//'' @ netloc p @ (if u \<noteq> [] \<and> take 1 u \<noteq> ''/'' then ''/'' @ u else u)
                     else if take 2 u = ''//'' then ''//'' @ u
                     else if scheme p \<noteq> [] \<and> scheme p \<in> set uses_netloc \<and> (u = [] \<or> take 1 u = ''/'')
                     then ''//'' @ u
                     else u);
          schemed = (if scheme p \<noteq> [] then scheme p @ '':'' @ located else located);
          queried = (if url_query p \<noteq> [] then schemed @ ''?'' @ url_query p else schemed)
      in if url_fragment p \<noteq> [] then queried @ ''#'' @ url_fragment p else queried)"

end
