(* ===== verification/Dedupe.thy ===== *)
theory Dedupe
  imports Postings Py_Regex Json Grouping Url "HOL-Library.List_Lexorder" "HOL-Library.Char_ord"
begin

text \<open>
  \<open>opportunity/dedupe.py\<close>: the two-layer deduplication of postings. Layer one groups by content
  hash and requisition, layer two walks the remaining postings in order and merges later ones into
  an earlier one whose identity is proven. The index set \<open>merged_indices\<close> of the code is the list
  of postings still to be considered.
\<close>

section \<open>Postings and clusters\<close>

datatype SeniorityLevel = ENTRY | MID | SENIOR | LEAD | PRINCIPAL | EXECUTIVE | SENIORITY_UNSPECIFIED

record listing = posting +
  source_url :: string
  source_id :: string
  organization :: string
  seniority :: SeniorityLevel
  geo_status :: "string option"
  canonical_outbound_url :: string

record cluster =
  canonical_id :: string
  primary :: listing
  duplicates :: "listing list"
  possible_duplicates :: "listing list"
  dedup_layer :: string
  cluster_sources :: "string list"
  cluster_size :: nat
  cluster_ambiguous :: bool

text \<open>The constructor of \<open>OpportunityCluster\<close>, which derives sources and size.\<close>

definition new_cluster ::
  "listing \<Rightarrow> listing list \<Rightarrow> listing list \<Rightarrow> string \<Rightarrow> bool \<Rightarrow> cluster result" where
  "new_cluster p dups poss layer amb =
     (if opp_id p = [] then Inl (ValueError ''canonical_id cannot be empty'')
      else Inr \<lparr>canonical_id = opp_id p, primary = p, duplicates = dups, possible_duplicates = poss,
        dedup_layer = layer, cluster_sources = sort (remdups (map opp_source (p # dups @ poss))),
        cluster_size = 1 + length dups, cluster_ambiguous = amb\<rparr>)"

record dedup_result =
  unique_opportunities :: "listing list"
  clusters :: "cluster list"
  exact_count :: nat
  cross_source_count :: nat
  ambiguous_count :: nat

section \<open>Identity\<close>

definition token_bag :: "string \<Rightarrow> string list" where
  "token_bag s =
     remdups (filter (\<lambda>t. length t > 2)
       (py_words (map (\<lambda>c. if py_isword c \<or> py_isspace c then c else CHR '' '') (py_lower s))))"

definition tracking_param :: "string \<Rightarrow> bool" where
  "tracking_param k \<longleftrightarrow> prefix ''utm_'' k \<or> k \<in> {''ref'', ''source'', ''gh_src'', ''gh_jid''}"

definition canonicalize_url :: "string \<Rightarrow> string" where
  "canonicalize_url u =
     (if u = [] then []
      else (case urlparse u of
        None \<Rightarrow> py_lower (py_rstrip_of CHR ''/'' (py_strip u))
      | Some p \<Rightarrow>
          (let q = map (\<lambda>(k, kvs). (k, map snd kvs)) (group_by fst (parse_qsl (url_query p)))
           in urlunparse (p\<lparr>scheme := py_lower (scheme p), netloc := py_lower (netloc p),
                url_path := py_lower (py_rstrip_of CHR ''/'' (url_path p)),
                url_query := urlencode (filter (\<lambda>(k, _). \<not> tracking_param k) q), url_fragment := []\<rparr>))))"

text \<open>The two groups of a pattern: the capture is placed at one or the other.\<close>

definition segment_re :: re where
  "segment_re = plus_of (Ch (\<lambda>c. c \<notin> {CHR ''/'', CHR ''?'', CHR ''#''}))"

definition greenhouse_re :: "(re \<Rightarrow> re) \<Rightarrow> (re \<Rightarrow> re) \<Rightarrow> re" where
  "greenhouse_re g1 g2 = cats [liti ''boards'', opt_of (liti ''-api''), liti ''.greenhouse.io/'',
     opt_of (liti ''v1/boards/''), g1 segment_re, liti ''/jobs/'', g2 (plus_of (Ch py_isdigit))]"

definition hex_or_dash :: "char \<Rightarrow> bool" where
  "hex_or_dash c \<longleftrightarrow> hex_value c \<noteq> None \<or> c = CHR ''-''"

definition lever_re :: "(re \<Rightarrow> re) \<Rightarrow> (re \<Rightarrow> re) \<Rightarrow> re" where
  "lever_re g1 g2 = cats [opt_of (liti ''api.''), liti ''jobs.lever.co/'', opt_of (liti ''v0/postings/''),
     g1 segment_re, liti ''/'', g2 (plus_of (Ch hex_or_dash))]"

type_synonym ats_identity = "string \<times> string \<times> string"

definition two_groups :: "((re \<Rightarrow> re) \<Rightarrow> (re \<Rightarrow> re) \<Rightarrow> re) \<Rightarrow> string \<Rightarrow> (string \<times> string) option" where
  "two_groups pat u =
     (case (re_search (pat Cap id) u, re_search (pat id Cap) u) of
        (Some (_, a), Some (_, b)) \<Rightarrow> Some (a, b) | _ \<Rightarrow> None)"

definition ats_structured_identity :: "string \<Rightarrow> ats_identity option" where
  "ats_structured_identity u =
     (if u = [] then None
      else (case two_groups greenhouse_re u of
        Some (c, r) \<Rightarrow> Some (''greenhouse'', py_lower c, r)
      | None \<Rightarrow> map_option (\<lambda>(c, r). (''lever'', py_lower c, r)) (two_groups lever_re u)))"

definition canonical_urls :: "listing \<Rightarrow> string list" where
  "canonical_urls o' =
     filter (\<lambda>u. u \<noteq> []) [canonicalize_url (canonical_outbound_url o'), canonicalize_url (source_url o')]"

text \<open>\<open>source.partition(":")[2]\<close>.\<close>

definition after_colon :: "string \<Rightarrow> string" where
  "after_colon s = (case split_once CHR '':'' s of (_, Some t) \<Rightarrow> t | (_, None) \<Rightarrow> [])"

definition source_identity :: "string \<Rightarrow> listing \<Rightarrow> ats_identity list" where
  "source_identity ats o' =
     (if prefix (ats @ '':'') (opp_source o') \<and> source_id o' \<noteq> []
      then [(ats, py_lower (after_colon (opp_source o')), source_id o')] else [])"

definition ats_identities :: "listing \<Rightarrow> ats_identity list" where
  "ats_identities o' =
     List.map_filter ats_structured_identity (canonical_urls o') @
     source_identity ''greenhouse'' o' @ source_identity ''lever'' o'"

definition proven_identity :: "listing \<Rightarrow> listing \<Rightarrow> bool" where
  "proven_identity a b \<longleftrightarrow>
     set (canonical_urls a) \<inter> set (canonical_urls b) \<noteq> {} \<or>
     set (ats_identities a) \<inter> set (ats_identities b) \<noteq> {}"

section \<open>The decision for a pair\<close>

definition org_key :: "listing \<Rightarrow> string" where
  "org_key o' = filter py_isword (py_lower (organization o'))"

definition overlap_ratio :: "string list \<Rightarrow> string list \<Rightarrow> real" where
  "overlap_ratio xs ys =
     real (length (filter (\<lambda>t. t \<in> set ys) xs)) / real (max (length xs) (length ys))"

definition incompatible :: "listing \<Rightarrow> listing \<Rightarrow> bool" where
  "incompatible a b \<longleftrightarrow>
     opp_track a \<noteq> opp_track b \<or>
     opp_source a = opp_source b \<and> source_id a \<noteq> [] \<and> source_id b \<noteq> [] \<and> source_id a \<noteq> source_id b \<or>
     org_key a = [] \<or> org_key b = [] \<or>
     org_key a \<noteq> org_key b \<and> \<not> (prefix (org_key b) (org_key a) \<or> prefix (org_key a) (org_key b)) \<or>
     seniority a \<noteq> SENIORITY_UNSPECIFIED \<and> seniority b \<noteq> SENIORITY_UNSPECIFIED \<and> seniority a \<noteq> seniority b \<or>
     geo_status a \<noteq> None \<and> geo_status b \<noteq> None \<and> geo_status a \<noteq> geo_status b \<or>
     token_bag (post_title a) = [] \<or> token_bag (post_title b) = []"

text \<open>\<open>(can_merge, is_ambiguous)\<close>.\<close>

definition evaluate_deduplication :: "listing \<Rightarrow> listing \<Rightarrow> bool \<times> bool" where
  "evaluate_deduplication a b =
     (if incompatible a b then (False, False)
      else if proven_identity a b then (True, False)
      else if overlap_ratio (token_bag (post_title a)) (token_bag (post_title b)) \<ge> 6/10 then (False, True)
      else (False, False))"

definition can_merge :: "listing \<Rightarrow> listing \<Rightarrow> bool" where
  "can_merge a b = fst (evaluate_deduplication a b)"

definition is_ambiguous :: "listing \<Rightarrow> listing \<Rightarrow> bool" where
  "is_ambiguous a b = (\<not> can_merge a b \<and> snd (evaluate_deduplication a b))"

section \<open>The two layers\<close>

definition requisition_key :: "listing \<Rightarrow> string" where
  "requisition_key o' =
     (if source_id o' \<noteq> [] then opp_source o' @ '':'' @ source_id o' else opp_source o' @ '':auto'')"

text \<open>The subgroups of layer one, in the order of both dictionaries.\<close>

definition exact_groups :: "listing list \<Rightarrow> listing list list" where
  "exact_groups os =
     concat (map (\<lambda>(_, g). map snd (group_by requisition_key g)) (group_by content_hash os))"

function cross_groups :: "listing list \<Rightarrow> (listing \<times> listing list \<times> listing list) list" where
  "cross_groups [] = []"
| "cross_groups (p # rest) =
     (p, filter (can_merge p) rest, filter (is_ambiguous p) rest) #
       cross_groups (filter (\<lambda>c. \<not> can_merge p c) rest)"
  by pat_completeness auto
termination by (relation "measure length") (auto simp: less_Suc_eq_le)

definition exact_clusters :: "listing list list \<Rightarrow> cluster result list" where
  "exact_clusters gs =
     map (\<lambda>g. new_cluster (hd g) (tl g) [] ''exact'' False) (filter (\<lambda>g. tl g \<noteq> []) gs)"

definition cross_clusters :: "(listing \<times> listing list \<times> listing list) list \<Rightarrow> cluster result list" where
  "cross_clusters cs =
     map (\<lambda>(p, ds, ps). new_cluster p ds ps (if ds \<noteq> [] then ''cross_source'' else ''ambiguous'') (ps \<noteq> []))
       (filter (\<lambda>(p, ds, ps). ds \<noteq> [] \<or> ps \<noteq> []) cs)"

definition deduplicate_opportunities :: "listing list \<Rightarrow> dedup_result result" where
  "deduplicate_opportunities os =
     (let gs = exact_groups os; cs = cross_groups (map hd gs)
      in bind (collect (exact_clusters gs @ cross_clusters cs)) (\<lambda>kl.
         Inr \<lparr>unique_opportunities = map fst cs, clusters = kl,
           exact_count = sum_list (map (\<lambda>g. length (tl g)) gs),
           cross_source_count = sum_list (map (\<lambda>(_, ds, _). length ds) cs),
           ambiguous_count = sum_list (map (\<lambda>(_, _, ps). length ps) cs)\<rparr>))"

end
