(* ===== verification/Dedupe_Properties.thy ===== *)
theory Dedupe_Properties
  imports Dedupe
begin

text \<open>
  What deduplication promises: no posting is lost or counted twice, a posting is folded into another
  only on proven identity or an identical record, the uniques are pairwise irreducible, so that a
  second run changes nothing. At the end, the merges that break the module's own invariants.
\<close>

section \<open>The pair decision is symmetric\<close>

lemma incompatible_sym: "incompatible a b \<longleftrightarrow> incompatible b a"
  unfolding incompatible_def by (intro iffI; elim disjE conjE; simp)

lemma proven_identity_sym: "proven_identity a b \<longleftrightarrow> proven_identity b a"
  unfolding proven_identity_def by (simp add: Int_commute)

lemma length_common:
  assumes "distinct xs" "distinct ys"
  shows "length (filter (\<lambda>t. t \<in> set ys) xs) = card (set xs \<inter> set ys)"
proof -
  have "length (filter (\<lambda>t. t \<in> set ys) xs) = card (set (filter (\<lambda>t. t \<in> set ys) xs))"
    using distinct_card [of "filter (\<lambda>t. t \<in> set ys) xs"] assms(1) by simp
  moreover have "set (filter (\<lambda>t. t \<in> set ys) xs) = set xs \<inter> set ys" by auto
  ultimately show ?thesis by simp
qed

lemma overlap_ratio_sym:
  "distinct xs \<Longrightarrow> distinct ys \<Longrightarrow> overlap_ratio xs ys = overlap_ratio ys xs"
  by (simp add: overlap_ratio_def length_common Int_commute max.commute)

lemma distinct_token_bag [simp]: "distinct (token_bag s)"
  by (simp add: token_bag_def)

lemma evaluate_sym: "evaluate_deduplication a b = evaluate_deduplication b a"
  unfolding evaluate_deduplication_def incompatible_sym [of a b] proven_identity_sym [of a b]
    overlap_ratio_sym [OF distinct_token_bag [of "post_title a"] distinct_token_bag [of "post_title b"]] ..

lemma can_merge_sym: "can_merge a b \<longleftrightarrow> can_merge b a"
  by (simp add: can_merge_def evaluate_sym [of a b])

lemma can_merge_iff: "can_merge a b \<longleftrightarrow> \<not> incompatible a b \<and> proven_identity a b"
  by (simp add: can_merge_def evaluate_deduplication_def)

section \<open>Layer one\<close>

lemma mset_concat_map: "(\<And>x. x \<in> set xs \<Longrightarrow> mset (f x) = mset (h x)) \<Longrightarrow>
  mset (concat (map f xs)) = mset (concat (map h xs))"
  by (induction xs) auto

lemma concat_concat_map: "concat (concat (map f xs)) = concat (map (\<lambda>x. concat (f x)) xs)"
  by (induction xs) auto

lemma mset_exact_groups: "mset (concat (exact_groups os)) = mset os"
proof -
  have "concat (exact_groups os) =
      concat (map (\<lambda>(_, g). concat (map snd (group_by requisition_key g))) (group_by content_hash os))"
    by (simp add: exact_groups_def concat_concat_map prod.case_distrib [of concat])
  also have "mset \<dots> = mset (concat (map snd (group_by content_hash os)))"
    by (rule mset_concat_map) (auto simp: mset_group_by)
  finally show ?thesis by (simp add: mset_group_by)
qed

definition exact_key :: "listing \<Rightarrow> string \<times> string" where
  "exact_key o' = (content_hash o', requisition_key o')"

lemma exact_group_eq:
  "exact_groups os = concat (map (\<lambda>h. map (\<lambda>k. filter (\<lambda>x. exact_key x = (h, k)) os)
     (firsts (map requisition_key (filter (\<lambda>x. content_hash x = h) os)))) (firsts (map content_hash os)))"
  unfolding exact_groups_def group_by_eq by (simp add: comp_def exact_key_def conj_commute)

lemma in_exact_groups:
  assumes "g \<in> set (exact_groups os)"
  shows "g \<noteq> []" and "x \<in> set g \<Longrightarrow> y \<in> set g \<Longrightarrow> exact_key x = exact_key y"
  using assms by (auto simp: exact_group_eq filter_empty_conv exact_key_def)

lemma heads_distinct: "distinct (map exact_key (map hd (exact_groups os)))"
proof -
  define ks where "ks h = firsts (map requisition_key (filter (\<lambda>x. content_hash x = h) os))" for h
  have hd: "exact_key (hd (filter (\<lambda>x. exact_key x = (h, k)) os)) = (h, k)" if "k \<in> set (ks h)" for h k
  proof -
    from that have "filter (\<lambda>x. exact_key x = (h, k)) os \<noteq> []"
      by (auto simp: ks_def filter_empty_conv exact_key_def)
    from hd_in_set [OF this] show ?thesis by simp
  qed
  have "map exact_key (map hd (exact_groups os)) = concat (map (\<lambda>h. map (Pair h) (ks h)) (firsts (map content_hash os)))"
    unfolding exact_group_eq ks_def [symmetric] map_concat map_map comp_def
    by (intro arg_cong [where f = concat] map_cong refl) (simp add: hd)
  moreover have "distinct (concat (map (\<lambda>h. map (Pair h) (ks h)) hs))" if "distinct hs" for hs
    using that by (induction hs) (auto simp: distinct_map ks_def inj_on_def)
  ultimately show ?thesis by simp
qed

lemma singleton_groups:
  assumes "distinct (map exact_key os)" "g \<in> set (exact_groups os)"
  shows "tl g = []"
proof (cases g)
  case (Cons x g')
  show ?thesis
  proof (rule ccontr)
    assume "tl g \<noteq> []"
    then obtain y g'' where g: "g = x # y # g''" using Cons by (cases g') auto
    obtain h k where "g = filter (\<lambda>x. exact_key x = (h, k)) os" using assms(2) by (auto simp: exact_group_eq)
    then have "map exact_key g = filter (\<lambda>p. p = (h, k)) (map exact_key os)" by (simp add: filter_map comp_def)
    then have "distinct (map exact_key g)" using assms(1) by simp
    then show False using g in_exact_groups(2) [OF assms(2), of x y] by simp
  qed
qed simp

section \<open>Layer two\<close>

lemma mset_cross_groups: "mset (concat (map (\<lambda>(p, ds, _). p # ds) (cross_groups xs))) = mset xs"
proof (induction xs rule: cross_groups.induct)
  case (2 p rest)
  have "mset (filter (can_merge p) rest) + mset (filter (\<lambda>c. \<not> can_merge p c) rest) = mset rest"
    by (metis mset_filter multiset_partition)
  with 2 show ?case by simp
qed simp

lemma cross_groups_sound:
  "(p, ds, ps) \<in> set (cross_groups xs) \<Longrightarrow>
     p \<in> set xs \<and> set ds \<subseteq> {d \<in> set xs. can_merge p d} \<and> set ps \<subseteq> set xs"
proof (induction xs rule: cross_groups.induct)
  case (2 q rest)
  from 2(2) consider "p = q" "ds = filter (can_merge q) rest" "ps = filter (is_ambiguous q) rest"
    | "(p, ds, ps) \<in> set (cross_groups (filter (\<lambda>c. \<not> can_merge q c) rest))"
    by auto
  then show ?case
  proof cases
    case 2
    from "2.IH" [OF this] show ?thesis by auto
  qed auto
qed simp

lemmas cross_groups_member =
  cross_groups_sound [THEN conjunct1]
  cross_groups_sound [THEN conjunct2, THEN conjunct1]
  cross_groups_sound [THEN conjunct2, THEN conjunct2]

lemma cross_heads_subset: "set (map fst (cross_groups xs)) \<subseteq> set xs"
  using cross_groups_member(1) by fastforce

lemma cross_heads_irreducible: "sorted_wrt (\<lambda>a b. \<not> can_merge a b) (map fst (cross_groups xs))"
proof (induction xs rule: cross_groups.induct)
  case (2 p rest)
  have "set (map fst (cross_groups (filter (\<lambda>c. \<not> can_merge p c) rest))) \<subseteq> {c. \<not> can_merge p c}"
    using cross_heads_subset [of "filter (\<lambda>c. \<not> can_merge p c) rest"] by auto
  with 2 show ?case by auto
qed simp

lemma sorted_wrt_distinct:
  "distinct ys \<Longrightarrow> (\<And>a b. a \<in> set ys \<Longrightarrow> b \<in> set ys \<Longrightarrow> a = b \<or> P a b) \<Longrightarrow> sorted_wrt P ys"
proof (induction ys)
  case (Cons y ys)
  then have "P y z" if "z \<in> set ys" for z using Cons.prems(2) [of y z] Cons.prems(1) that by auto
  moreover have "sorted_wrt P ys" using Cons by (intro Cons.IH) auto
  ultimately show ?case by simp
qed simp

lemma cross_heads_subseq: "subseq (map fst (cross_groups xs)) xs"
proof (induction xs rule: cross_groups.induct)
  case (2 p rest)
  then show ?case by (auto intro: subseq_order.trans [OF _ subseq_filter_left])
qed simp

lemma cross_groups_irreducible:
  "sorted_wrt (\<lambda>a b. \<not> can_merge a b) xs \<Longrightarrow>
   map fst (cross_groups xs) = xs \<and> (\<forall>(p, ds, ps)\<in>set (cross_groups xs). ds = [])"
proof (induction xs rule: cross_groups.induct)
  case (2 p rest)
  then have "filter (\<lambda>c. \<not> can_merge p c) rest = rest" "filter (can_merge p) rest = []"
    by (auto simp: filter_id_conv filter_empty_conv)
  with 2 show ?case by auto
qed simp

section \<open>A run\<close>

lemma deduplicate_Inr_iff:
  "deduplicate_opportunities os = Inr r \<longleftrightarrow>
     (\<exists>kl. exact_clusters (exact_groups os) @ cross_clusters (cross_groups (map hd (exact_groups os))) = map Inr kl \<and>
        r = \<lparr>unique_opportunities = map fst (cross_groups (map hd (exact_groups os))), clusters = kl,
          exact_count = sum_list (map (\<lambda>g. length (tl g)) (exact_groups os)),
          cross_source_count = sum_list (map (\<lambda>(_, ds, _). length ds) (cross_groups (map hd (exact_groups os)))),
          ambiguous_count = sum_list (map (\<lambda>(_, _, ps). length ps) (cross_groups (map hd (exact_groups os))))\<rparr>)"
  by (auto simp: deduplicate_opportunities_def Let_def collect_Inr)

lemma new_cluster_Inr:
  "new_cluster p ds ps layer amb = Inr c \<Longrightarrow>
     primary c = p \<and> duplicates c = ds \<and> possible_duplicates c = ps \<and> dedup_layer c = layer"
  by (auto simp: new_cluster_def split: if_splits)

lemma exact_cluster_duplicates:
  "exact_clusters gs = map Inr kl \<Longrightarrow> mset (concat (map duplicates kl)) = mset (concat (map tl gs))"
proof (induction gs arbitrary: kl)
  case (Cons g gs)
  show ?case
  proof (cases "tl g = []")
    case False
    with Cons.prems obtain c kl' where "kl = c # kl'" "new_cluster (hd g) (tl g) [] ''exact'' False = Inr c"
      "exact_clusters gs = map Inr kl'"
      by (auto simp: exact_clusters_def Cons_eq_map_conv)
    with Cons.IH [of kl'] new_cluster_Inr show ?thesis by fastforce
  qed (use Cons in \<open>simp add: exact_clusters_def\<close>)
qed (simp add: exact_clusters_def)

lemma cross_cluster_duplicates:
  "cross_clusters cs = map Inr kl \<Longrightarrow> mset (concat (map duplicates kl)) = mset (concat (map (fst \<circ> snd) cs))"
proof (induction cs arbitrary: kl)
  case (Cons c cs)
  obtain p ds ps where c: "c = (p, ds, ps)" by (cases c)
  show ?case
  proof (cases "ds \<noteq> [] \<or> ps \<noteq> []")
    case True
    with Cons.prems c obtain k kl' where "kl = k # kl'" "duplicates k = ds" "cross_clusters cs = map Inr kl'"
      by (auto simp: cross_clusters_def Cons_eq_map_conv dest!: new_cluster_Inr)
    with Cons.IH [of kl'] c show ?thesis by simp
  qed (use Cons c in \<open>simp add: cross_clusters_def\<close>)
qed (simp add: cross_clusters_def)

lemma mset_heads_tails: "\<forall>g\<in>set gs. g \<noteq> [] \<Longrightarrow> mset (map hd gs) + mset (concat (map tl gs)) = mset (concat gs)"
proof (induction gs)
  case (Cons g gs)
  then show ?case by (cases g) auto
qed simp

lemma mset_cross_parts:
  "mset (map fst cs) + mset (concat (map (fst \<circ> snd) cs)) = mset (concat (map (\<lambda>(p, ds, _). p # ds) cs))"
  by (induction cs) auto

lemma dedup_mset:
  assumes "deduplicate_opportunities os = Inr r"
  shows "mset (unique_opportunities r) + mset (concat (map duplicates (clusters r))) = mset os"
proof -
  let ?gs = "exact_groups os"
  let ?cs = "cross_groups (map hd ?gs)"
  from assms obtain kl where kl: "exact_clusters ?gs @ cross_clusters ?cs = map Inr kl"
    and r: "unique_opportunities r = map fst ?cs" "clusters r = kl"
    by (auto simp: deduplicate_Inr_iff)
  then obtain k1 k2 where k: "kl = k1 @ k2" "exact_clusters ?gs = map Inr k1" "cross_clusters ?cs = map Inr k2"
    by (metis append_eq_map_conv)
  have "mset os = mset (map hd ?gs) + mset (concat (map tl ?gs))"
    using mset_heads_tails [of ?gs] in_exact_groups(1) by (metis mset_exact_groups)
  also have "mset (map hd ?gs) = mset (map fst ?cs) + mset (concat (map (fst \<circ> snd) ?cs))"
    by (simp only: mset_cross_parts mset_cross_groups)
  finally show ?thesis
    using exact_cluster_duplicates [OF k(2)] cross_cluster_duplicates [OF k(3)] by (simp add: r k(1))
qed

lemma dedup_counts:
  assumes "deduplicate_opportunities os = Inr r"
  shows "length (unique_opportunities r) + exact_count r + cross_source_count r = length os"
proof -
  let ?gs = "exact_groups os"
  let ?cs = "cross_groups (map hd ?gs)"
  have "length (concat (map (\<lambda>(p, ds, _). p # ds) cs)) = length cs + sum_list (map (\<lambda>(_, ds, _). length ds) cs)"
    for cs :: "(listing \<times> listing list \<times> listing list) list"
    by (induction cs) auto
  from this [of ?cs] arg_cong [OF mset_cross_groups [of "map hd ?gs"], of size]
  have "length ?gs = length ?cs + sum_list (map (\<lambda>(_, ds, _). length ds) ?cs)" by (simp only: size_mset length_map)
  moreover have "length (concat gs) = length gs + sum_list (map (\<lambda>g. length (tl g)) gs)" if "\<forall>g\<in>set gs. g \<noteq> []"
    for gs :: "listing list list"
    using that by (induction gs) (auto simp: Suc_le_eq)
  with arg_cong [OF mset_exact_groups [of os], of size] in_exact_groups(1)
  have "length os = length ?gs + sum_list (map (\<lambda>g. length (tl g)) ?gs)" by (metis size_mset)
  ultimately show ?thesis using assms by (auto simp: deduplicate_Inr_iff)
qed

lemma dedup_total:
  assumes "\<forall>x\<in>set os. opp_id x \<noteq> []"
  shows "\<exists>r. deduplicate_opportunities os = Inr r"
proof -
  let ?gs = "exact_groups os"
  have in_os: "x \<in> set os" if "g \<in> set ?gs" "x \<in> set g" for g x
    using that by (auto simp: exact_group_eq)
  have hd_os: "set (map hd ?gs) \<subseteq> set os" using in_os in_exact_groups(1) by fastforce
  have new: "\<exists>c. new_cluster p ds ps l b = Inr c" if "p \<in> set os" for p ds ps l b
    using that assms by (simp add: new_cluster_def)
  have "\<exists>c. x = Inr c" if "x \<in> set (exact_clusters ?gs)" for x
    using that hd_os new by (auto simp: exact_clusters_def)
  moreover have "\<exists>c. x = Inr c" if x: "x \<in> set (cross_clusters (cross_groups (map hd ?gs)))" for x
  proof -
    from x obtain p ds ps l b where "(p, ds, ps) \<in> set (cross_groups (map hd ?gs))" "x = new_cluster p ds ps l b"
      by (auto simp: cross_clusters_def)
    with cross_groups_member(1) hd_os new show ?thesis by blast
  qed
  ultimately have "\<forall>x\<in>set (exact_clusters ?gs @ cross_clusters (cross_groups (map hd ?gs))). \<exists>c. x = Inr c"
    by auto
  then have "\<exists>kl. exact_clusters ?gs @ cross_clusters (cross_groups (map hd ?gs)) = map Inr kl"
    by (simp only: ex_map_conv)
  then show ?thesis unfolding deduplicate_Inr_iff by blast
qed

lemma dedup_cluster:
  assumes "deduplicate_opportunities os = Inr r" "c \<in> set (clusters r)" "x \<in> set (duplicates c)"
  shows "dedup_layer c = ''exact'' \<and> exact_key x = exact_key (primary c) \<or>
    dedup_layer c = ''cross_source'' \<and> can_merge (primary c) x"
proof -
  let ?gs = "exact_groups os"
  from assms(1,2) have "Inr c \<in> set (exact_clusters ?gs) \<or> Inr c \<in> set (cross_clusters (cross_groups (map hd ?gs)))"
    by (auto simp: deduplicate_Inr_iff) (metis Un_iff image_eqI list.set_map set_append)
  then show ?thesis
  proof
    assume "Inr c \<in> set (exact_clusters ?gs)"
    then obtain g where g: "g \<in> set ?gs" "Inr c = new_cluster (hd g) (tl g) [] ''exact'' False"
      by (auto simp: exact_clusters_def)
    from new_cluster_Inr [OF g(2) [symmetric]] assms(3) in_exact_groups [OF g(1)] show ?thesis
      by (metis hd_in_set list.set_sel(2) tl_Nil)
  next
    assume "Inr c \<in> set (cross_clusters (cross_groups (map hd ?gs)))"
    then obtain p ds ps where m: "(p, ds, ps) \<in> set (cross_groups (map hd ?gs))"
      and n: "Inr c = new_cluster p ds ps (if ds \<noteq> [] then ''cross_source'' else ''ambiguous'') (ps \<noteq> [])"
      by (auto simp: cross_clusters_def)
    from new_cluster_Inr [OF n [symmetric]] assms(3) cross_groups_member(2) [OF m] show ?thesis by auto
  qed
qed

lemma dedup_uniques:
  assumes "deduplicate_opportunities os = Inr r"
  shows "sorted_wrt (\<lambda>a b. \<not> can_merge a b) (unique_opportunities r)"
    and "distinct (map exact_key (unique_opportunities r))"
proof -
  from assms have u: "unique_opportunities r = map fst (cross_groups (map hd (exact_groups os)))"
    by (auto simp: deduplicate_Inr_iff)
  show "sorted_wrt (\<lambda>a b. \<not> can_merge a b) (unique_opportunities r)"
    unfolding u by (rule cross_heads_irreducible)
  have "subseq (map exact_key (unique_opportunities r)) (map exact_key (map hd (exact_groups os)))"
    unfolding u by (intro subseq_map cross_heads_subseq)
  then show "distinct (map exact_key (unique_opportunities r))" using heads_distinct by (auto simp: subseq_conv_nths intro: distinct_nthsI)
qed

section \<open>Claims\<close>

definition demo_listing :: "string \<Rightarrow> string \<Rightarrow> string \<Rightarrow> string \<Rightarrow> string \<Rightarrow> listing" where
  "demo_listing k src req url curl = \<lparr>opp_id = k, opp_track = EMPLOYMENT, opp_source = src, content_hash = k,
     post_title = ''Data Engineer'', description = [], requirements = [], post_skills = [], location_raw = [],
     work_mode = REMOTE, location_country = [], remote_scope = WORLDWIDE, remote_scope_regions = [],
     procurement_metadata = None, provenance_raw_pointer = None, raw_record_pointer = [],
     field_provenances = [], source_url = url, source_id = req, organization = ''Acme'',
     seniority = SENIORITY_UNSPECIFIED, geo_status = None, canonical_outbound_url = curl\<rparr>"

lemma demo_listing_id [simp]: "opp_id (demo_listing k src req url curl) = k"
  by (simp add: demo_listing_def)

text \<open>Identifiers of the uniques and of the duplicates folded into each.\<close>

definition outcome :: "listing list \<Rightarrow> (string list \<times> (string \<times> string list) list) result" where
  "outcome os = bind (deduplicate_opportunities os) (\<lambda>r.
     Inr (map opp_id (unique_opportunities r),
          map (\<lambda>c. (canonical_id c, map opp_id (duplicates c))) (clusters r)))"

text \<open>C24: no posting is lost and none is counted twice. With non-empty identifiers deduplication
  returns, the uniques and the duplicates of all clusters together are exactly the postings given,
  and the counters account for every one of them.\<close>

theorem dedup_partitions:
  assumes "\<forall>x\<in>set os. opp_id x \<noteq> []"
  shows "\<exists>r. deduplicate_opportunities os = Inr r \<and>
    mset (unique_opportunities r) + mset (concat (map duplicates (clusters r))) = mset os \<and>
    length (unique_opportunities r) + exact_count r + cross_source_count r = length os"
  using dedup_total [OF assms] dedup_mset dedup_counts by blast

theorem dedup_partitions_witness:
  "\<exists>r. deduplicate_opportunities [demo_listing ''a'' ''x'' [] [] [], demo_listing ''b'' ''y'' [] [] []] = Inr r \<and>
    mset (unique_opportunities r) + mset (concat (map duplicates (clusters r))) =
      {#demo_listing ''a'' ''x'' [] [] [], demo_listing ''b'' ''y'' [] [] []#} \<and>
    length (unique_opportunities r) + exact_count r + cross_source_count r = 2"
  using dedup_partitions [of "[demo_listing ''a'' ''x'' [] [] [], demo_listing ''b'' ''y'' [] [] []]"]
  by (simp add: numeral_2_eq_2)


text \<open>One posting with two addresses, and two requisitions of one source at these addresses.\<close>

definition hub :: listing where "hub = demo_listing ''p'' ''x'' [] ''http://a/1'' ''http://a/2''"
definition req1 :: listing where "req1 = demo_listing ''d1'' ''y'' ''1'' ''http://a/1'' []"
definition req2 :: listing where "req2 = demo_listing ''d2'' ''y'' ''2'' ''http://a/2'' []"


text \<open>the uniques are irreducible. No two of them can be merged, in either order, and a second run,
  over the uniques in any order, merges nothing and returns the same postings.\<close>

theorem second_run_changes_nothing:
  assumes "deduplicate_opportunities os = Inr r" and "mset xs = mset (unique_opportunities r)"
    and "deduplicate_opportunities xs = Inr r'"
  shows "mset (unique_opportunities r') = mset xs \<and> exact_count r' = 0 \<and> cross_source_count r' = 0"
proof -
  let ?us = "unique_opportunities r"
  have irr: "a = b \<or> \<not> can_merge a b" if "a \<in> set ?us" "b \<in> set ?us" for a b
  proof -
    from that obtain i j where ij: "i < length ?us" "j < length ?us" "a = ?us ! i" "b = ?us ! j"
      by (metis in_set_conv_nth)
    show ?thesis using dedup_uniques(1) [OF assms(1)] can_merge_sym ij
      by (cases i j rule: linorder_cases) (auto simp: sorted_wrt_iff_nth_less)
  qed
  have set: "set xs = set ?us" using assms(2) by (metis set_mset_mset)
  have dist: "distinct (map exact_key xs)"
    using dedup_uniques(2) [OF assms(1)] assms(2) by (metis mset_eq_imp_distinct_iff mset_map)
  then have "distinct xs" by (simp add: distinct_map)
  let ?gs = "exact_groups xs"
  have single: "tl g = []" if "g \<in> set ?gs" for g by (rule singleton_groups [OF dist that])
  then have tails: "concat (map tl ?gs) = []" by (auto simp: concat_eq_Nil_conv)
  have heads: "mset (map hd ?gs) = mset xs"
    using mset_heads_tails [of ?gs] in_exact_groups(1) mset_exact_groups [of xs] unfolding tails
    by simp
  have "sorted_wrt (\<lambda>a b. \<not> can_merge a b) (map hd ?gs)"
  proof -
    have "distinct (map hd ?gs)" using heads \<open>distinct xs\<close> by (metis mset_eq_imp_distinct_iff)
    moreover have "set (map hd ?gs) = set ?us" using heads set by (metis set_mset_mset)
    ultimately show ?thesis using irr by (intro sorted_wrt_distinct) blast+
  qed
  from cross_groups_irreducible [OF this]
  have "map fst (cross_groups (map hd ?gs)) = map hd ?gs"
    and none: "\<forall>(p, ds, ps)\<in>set (cross_groups (map hd ?gs)). ds = []" by simp_all
  then have "mset (unique_opportunities r') = mset xs" using assms(3) heads by (auto simp: deduplicate_Inr_iff)
  moreover have "exact_count r' = 0" using assms(3) single by (auto simp: deduplicate_Inr_iff simp del: length_tl)
  ultimately show ?thesis
    using dedup_counts [OF assms(3)] by (metis add.right_neutral add_left_cancel size_mset)
qed

theorem second_run_changes_nothing_witness:
  "\<exists>r. deduplicate_opportunities [req2, req1] = Inr r \<and> exact_count r = 0 \<and> cross_source_count r = 0"
proof -
  have "map_sum id (\<lambda>r. unique_opportunities r) (deduplicate_opportunities [req1, req2]) = Inr [req1, req2]"
    by code_simp
  then obtain r where r: "deduplicate_opportunities [req1, req2] = Inr r" "unique_opportunities r = [req1, req2]"
    by (cases "deduplicate_opportunities [req1, req2]") auto
  have "\<forall>x\<in>set [req2, req1]. opp_id x \<noteq> []" by (simp add: req1_def req2_def)
  from dedup_total [OF this] obtain r' where r': "deduplicate_opportunities [req2, req1] = Inr r'" by blast
  have "mset [req2, req1] = mset (unique_opportunities r)" by (simp add: r(2))
  from second_run_changes_nothing [OF r(1) this r'] r' show ?thesis by blast
qed

section \<open>Where deduplication departs from its invariants\<close>

text \<open>The parameter \<open>gh_jid\<close>, which carries the requisition on boards embedded in a company's own
  site, is dropped as a tracking parameter: two different jobs have proven identity and merge.\<close>

theorem embedded_boards_merge:
  "outcome [demo_listing ''a'' ''x'' [] ''http://a/?gh_jid=1'' [],
            demo_listing ''b'' ''y'' [] ''http://a/?gh_jid=2'' []\<lparr>post_title := ''Sales Manager''\<rparr>]
     = Inr ([''a''], [(''a'', [''b''])])"
  by code_simp

text \<open>Two requisitions of one source must never merge, and as a pair they do not; through a third
  posting that shares an address with each they end in one cluster. Whether they do depends on the
  order of the postings.\<close>

theorem requisitions_meet_through_a_third:
  "incompatible req1 req2"
  "outcome [hub, req1, req2] = Inr ([''p''], [(''p'', [''d1'', ''d2''])])"
  "outcome [req1, hub, req2] = Inr ([''d1'', ''d2''], [(''d1'', [''p''])])"
  by code_simp+

end
