(* ===== verification/Clustering.thy ===== *)
theory Clustering
  imports Dedupe "HOL-Library.Product_Lexorder"
begin

text \<open>
  \<open>matching/title_family.py\<close>: titles mapped to a committed family and a level.
  \<open>opportunity/clustering.py\<close>: postings of one employer and one normalised title grouped into a
  family card. The families of the YAML file are an argument; so is SHA-256. On ASCII text the
  Unicode normalisation is the identity. The fallback normaliser of the clustering module, used
  only where \<open>title_family\<close> cannot be imported, is left out.
\<close>

section \<open>Normal forms of titles\<close>

text \<open>\<open>re.sub(r"[...]+", rep, s)\<close>: each maximal run of characters in the class becomes \<open>rep\<close>.\<close>

fun sub_runs :: "(char \<Rightarrow> bool) \<Rightarrow> string \<Rightarrow> bool \<Rightarrow> string \<Rightarrow> string" where
  "sub_runs P rep inside [] = []"
| "sub_runs P rep inside (c # cs) =
     (if P c then (if inside then [] else rep) @ sub_runs P rep True cs else c # sub_runs P rep False cs)"

definition lower_alnum :: "char \<Rightarrow> bool" where
  "lower_alnum c \<longleftrightarrow> py_isdigit c \<or> py_isalpha c \<and> py_lower_char c = c"

definition normalize_for_matching :: "string \<Rightarrow> string" where
  "normalize_for_matching title = py_strip (sub_runs (\<lambda>c. \<not> lower_alnum c) '' '' False (py_lower title))"

section \<open>Levels\<close>

definition LEVEL_TOKEN_RANK :: "(string \<times> nat) list" where
  "LEVEL_TOKEN_RANK = [(''intern'', 0), (''internship'', 0), (''trainee'', 0), (''junior'', 1), (''jr'', 1),
     (''entry'', 1), (''graduate'', 1), (''associate'', 1), (''mid'', 2), (''ii'', 2), (''senior'', 3),
     (''sr'', 3), (''lead'', 3), (''staff'', 4), (''principal'', 5), (''distinguished'', 5), (''chief'', 5)]"

fun level_by_rank :: "nat option \<Rightarrow> string" where
  "level_by_rank None = ''unspecified''"
| "level_by_rank (Some n) =
     (if n = 0 then ''intern'' else if n = 1 then ''junior'' else if n = 2 then ''mid''
      else if n = 3 then ''senior'' else if n = 4 then ''staff'' else ''principal'')"

fun better_rank :: "nat option \<Rightarrow> nat option \<Rightarrow> nat option" where
  "better_rank None best = best"
| "better_rank (Some r) None = Some r"
| "better_rank (Some r) (Some b) = Some (if r > b then r else b)"

definition best_rank :: "string list \<Rightarrow> nat option" where
  "best_rank tokens = fold (\<lambda>t. better_rank (map_of LEVEL_TOKEN_RANK t)) tokens None"

definition detect_level :: "string \<Rightarrow> string" where
  "detect_level s = level_by_rank (best_rank (py_words s))"

section \<open>Families of titles\<close>

record raw_family =
  raw_family_id :: string
  aliases :: "string list"
  patterns :: "re list"
  negatives :: "re list"

record title_family =
  title_family_id :: string
  rules :: "(string \<times> re) list"
  negative_patterns :: "re list"

fun spaced :: "string list \<Rightarrow> re" where
  "spaced [] = Eps"
| "spaced [w] = lit w"
| "spaced (w # v # ws) = Cat (lit w) (Cat spaces1 (spaced (v # ws)))"

definition alias_to_pattern :: "string \<Rightarrow> re" where
  "alias_to_pattern a = cats [Edge, spaced (py_words (py_lower a)), Edge]"

definition compile_family :: "raw_family \<Rightarrow> title_family" where
  "compile_family f =
     (let k = raw_family_id f in
      \<lparr>title_family_id = k,
       rules = map (\<lambda>(i, a). (k @ ''#alias:'' @ nat_str i @ '':'' @ a, alias_to_pattern a)) (enumerate 0 (aliases f)) @
               map (\<lambda>(i, p). (k @ ''#pattern:'' @ nat_str i, p)) (enumerate 0 (patterns f)),
       negative_patterns = negatives f\<rparr>)"

fun match_family :: "title_family list \<Rightarrow> string \<Rightarrow> (string \<times> string) option" where
  "match_family [] s = None"
| "match_family (f # fs) s =
     (if title_family_id f = ''other'' then match_family fs s
      else if list_ex (\<lambda>p. re_search p s \<noteq> None) (negative_patterns f) then match_family fs s
      else (case find (\<lambda>(_, p). re_search p s \<noteq> None) (rules f) of
              Some (rid, _) \<Rightarrow> Some (title_family_id f, rid)
            | None \<Rightarrow> match_family fs s))"

definition normalize_title :: "title_family list \<Rightarrow> string \<Rightarrow> string \<times> string \<times> string" where
  "normalize_title fams title =
     (let s = normalize_for_matching title; l = detect_level s
      in case match_family fams s of
           Some (k, rid) \<Rightarrow> (k, l, rid)
         | None \<Rightarrow> (''other'', l, ''other#no_match''))"

section \<open>Family keys\<close>

definition suffix_re :: re where
  "suffix_re = any_of [cats [spaces1, lit ''-'', spaces1], lit '','', lit ''('', lit ''|'', lit ''/'']"

definition strip_suffix :: "string \<Rightarrow> string" where
  "strip_suffix title =
     py_lower (py_strip (sub_runs py_isspace '' '' False
       (case re_start suffix_re title of Some n \<Rightarrow> take n title | None \<Rightarrow> title)))"

definition normalized_title_key :: "title_family list \<Rightarrow> string \<Rightarrow> string" where
  "normalized_title_key fams title =
     (case normalize_title fams title of (k, l, _) \<Rightarrow>
        if k = ''other'' then ''other:'' @ l @ '':'' @ strip_suffix title else k @ '':'' @ l)"

definition normalize_employer :: "string \<Rightarrow> string" where
  "normalize_employer org = filter lower_alnum (py_lower org)"

definition family_payload :: "title_family list \<Rightarrow> listing \<Rightarrow> string" where
  "family_payload fams o' =
     normalize_employer (organization o') @ ''|'' @ normalized_title_key fams (post_title o')"

definition family_key :: "(string \<Rightarrow> string) \<Rightarrow> title_family list \<Rightarrow> listing \<Rightarrow> string" where
  "family_key sha fams o' = sha (family_payload fams o')"

section \<open>Family cards\<close>

record family_member =
  listing_of :: listing
  fit_score :: "real option"
  decision :: "string option"

record family =
  fam_key :: string
  fam_employer :: string
  fam_title :: string
  member_ids :: "string list"
  best_member_id :: string
  best_fit_score :: "real option"
  best_decision :: "string option"
  locations :: "string list"
  member_count :: nat
  decisions_differ :: bool

definition is_singleton :: "family \<Rightarrow> bool" where
  "is_singleton f \<longleftrightarrow> member_count f = 1"

definition member_id :: "family_member \<Rightarrow> string" where
  "member_id m = opp_id (listing_of m)"

definition best_key :: "family_member \<Rightarrow> nat \<times> real \<times> string" where
  "best_key m =
     (if fit_score m = None then 1 else 0,
      - (case fit_score m of Some x \<Rightarrow> x | None \<Rightarrow> 0), member_id m)"

definition select_best :: "family_member list \<Rightarrow> family_member" where
  "select_best ms = hd (sort_key best_key ms)"

definition family_card :: "title_family list \<Rightarrow> string \<Rightarrow> family_member list \<Rightarrow> family" where
  "family_card fams k members =
     (let g = sort_key member_id members; best = select_best g; front = listing_of (hd g)
      in \<lparr>fam_key = k, fam_employer = organization front,
          fam_title = normalized_title_key fams (post_title front), member_ids = map member_id g,
          best_member_id = member_id best, best_fit_score = fit_score best, best_decision = decision best,
          locations = sort (remdups (filter (\<lambda>l. l \<noteq> []) (map (location_raw \<circ> listing_of) g))),
          member_count = length g,
          decisions_differ = length (remdups (List.map_filter decision g)) > 1\<rparr>)"

definition cluster_members ::
  "(string \<Rightarrow> string) \<Rightarrow> title_family list \<Rightarrow> family_member list \<Rightarrow> family list" where
  "cluster_members sha fams ms =
     (let groups = group_by (\<lambda>m. family_key sha fams (listing_of m)) ms
      in map (\<lambda>k. family_card fams k (the (map_of groups k))) (sort (map fst groups)))"

definition cluster_opportunities :: "(string \<Rightarrow> string) \<Rightarrow> title_family list \<Rightarrow> listing list \<Rightarrow> family list" where
  "cluster_opportunities sha fams os =
     cluster_members sha fams (map (\<lambda>o'. \<lparr>listing_of = o', fit_score = None, decision = None\<rparr>) os)"

text \<open>The whole-corpus check: families, and those that span several employers or titles.\<close>

definition member_by_id :: "family_member list \<Rightarrow> string \<Rightarrow> family_member" where
  "member_by_id ms k = the (map_of (rev (map (\<lambda>m. (member_id m, m)) ms)) k)"

definition check_family_invariants ::
  "(string \<Rightarrow> string) \<Rightarrow> title_family list \<Rightarrow> family_member list \<Rightarrow> nat \<times> nat \<times> nat" where
  "check_family_invariants sha fams ms =
     (let fs = cluster_members sha fams ms;
          spans = (\<lambda>v f. length (remdups (map (\<lambda>k. v (listing_of (member_by_id ms k))) (member_ids f))) > 1)
      in (length fs, length (filter (spans organization) fs),
          length (filter (spans (\<lambda>o'. normalized_title_key fams (post_title o'))) fs)))"

end
