(* ===== verification/Clustering_Properties.thy ===== *)
theory Clustering_Properties
  imports Clustering
begin

text \<open>
  Families partition the postings, do not depend on the order in which postings arrive, and their
  cards are honest about their members. Titles are matched up to case and punctuation.
\<close>

section \<open>Groups in closed form\<close>

abbreviation member_key :: "(string \<Rightarrow> string) \<Rightarrow> title_family list \<Rightarrow> family_member \<Rightarrow> string" where
  "member_key sha fams m \<equiv> family_key sha fams (listing_of m)"

definition members_at :: "(string \<Rightarrow> string) \<Rightarrow> title_family list \<Rightarrow> family_member list \<Rightarrow> string \<Rightarrow> family_member list" where
  "members_at sha fams ms k = filter (\<lambda>m. member_key sha fams m = k) ms"

lemma sort_firsts: "sort (firsts xs) = sorted_list_of_set (set xs)"
  by (simp add: sorted_list_of_set_sort_remdups firsts_def)
    (metis distinct_remdups properties_for_sort set_eq_iff_mset_eq_distinct set_remdups set_rev
      distinct_rev sorted_sort mset_sort)

lemma sum_list_perm:
  "mset xs = mset ys \<Longrightarrow> sum_list (map f xs) = sum_list (map f ys)" for f :: "'a \<Rightarrow> 'b::comm_monoid_add"
  by (metis mset_map sum_mset_sum_list)

lemma cluster_members_eq:
  "cluster_members sha fams ms =
     map (\<lambda>k. family_card fams k (members_at sha fams ms k)) (sorted_list_of_set (member_key sha fams ` set ms))"
proof -
  have "sort (map fst (group_by (member_key sha fams) ms)) = sorted_list_of_set (member_key sha fams ` set ms)"
    by (simp add: group_by_eq comp_def sort_firsts)
  then show ?thesis
    unfolding cluster_members_def Let_def
    by (auto simp: group_by_eq map_of_map_restrict members_at_def intro!: map_cong)
qed

lemma hd_sort_key:
  assumes "ms \<noteq> []"
  shows "hd (sort_key f ms) \<in> set ms" and "m \<in> set ms \<Longrightarrow> f (hd (sort_key f ms)) \<le> f m"
proof -
  obtain x r where r: "sort_key f ms = x # r" using assms by (metis list.exhaust length_0_conv length_sort)
  then have s: "set ms = insert x (set r)" by (metis list.simps(15) set_sort)
  with r show "hd (sort_key f ms) \<in> set ms" by simp
  have "sorted (map f (x # r))" using r by (metis sorted_sort_key)
  with r s show "m \<in> set ms \<Longrightarrow> f (hd (sort_key f ms)) \<le> f m" by auto
qed

lemma sort_ids_eq:
  assumes "mset xs = mset ys" "distinct (map member_id xs)"
  shows "sort_key member_id xs = sort_key member_id ys"
proof (rule sort_key_inj_key_eq)
  show "mset xs = mset (sort_key member_id ys)" using assms(1) by simp
  show "inj_on member_id (set xs)" using assms(2) by (simp add: distinct_map)
  show "sorted (map member_id (sort_key member_id ys))" by (rule sorted_sort_key)
qed

lemma select_best_mem:
  assumes "ms \<noteq> []"
  shows "select_best ms \<in> set ms"
  unfolding select_best_def by (rule hd_sort_key(1) [OF assms])

lemma select_best_score:
  assumes "m \<in> set ms" "fit_score m = Some x"
  shows "\<exists>y. fit_score (select_best ms) = Some y \<and> x \<le> y"
proof -
  have "best_key (select_best ms) \<le> best_key m"
    unfolding select_best_def using assms(1) by (intro hd_sort_key(2)) auto
  with assms(2) show ?thesis
    by (cases "fit_score (select_best ms)") (auto simp: best_key_def less_eq_prod_def)
qed

section \<open>Payloads\<close>

lemma payload_inj:
  assumes "family_payload fams a = family_payload fams b"
  shows "normalize_employer (organization a) = normalize_employer (organization b)"
    and "normalized_title_key fams (post_title a) = normalized_title_key fams (post_title b)"
proof -
  have no_bar: "CHR ''|'' \<notin> set (normalize_employer s)" for s
    by (auto simp: normalize_employer_def lower_alnum_def py_isdigit_def py_isalpha_def)
  show e: "normalize_employer (organization a) = normalize_employer (organization b)"
    using arg_cong [OF assms, of "py_split_head CHR ''|''"] no_bar
    by (simp add: family_payload_def py_split_head_append)
  from assms e show "normalized_title_key fams (post_title a) = normalized_title_key fams (post_title b)"
    by (simp add: family_payload_def)
qed

lemma family_members_share:
  assumes "f \<in> set (cluster_members sha fams ms)" and "inj_on sha (family_payload fams ` listing_of ` set ms)"
    and m: "m \<in> set (members_at sha fams ms (fam_key f))"
  shows "normalize_employer (organization (listing_of m)) = normalize_employer (fam_employer f)"
    and "normalized_title_key fams (post_title (listing_of m)) = fam_title f"
proof -
  from assms(1) obtain k where k: "k \<in> member_key sha fams ` set ms"
    and f: "f = family_card fams k (members_at sha fams ms k)"
    by (auto simp: cluster_members_eq)
  define g where "g = members_at sha fams ms k"
  have m': "m \<in> set g" using m by (simp add: f g_def family_card_def Let_def)
  then have "sort_key member_id g \<noteq> []" by (metis empty_iff list.set(1) set_sort)
  then have front: "hd (sort_key member_id g) \<in> set g" by (metis hd_in_set set_sort)
  have "sha (family_payload fams (listing_of m)) = sha (family_payload fams (listing_of (hd (sort_key member_id g))))"
    using m' front by (auto simp: g_def members_at_def family_key_def)
  moreover have "set g \<subseteq> set ms" by (auto simp: g_def members_at_def)
  ultimately have p: "family_payload fams (listing_of m) = family_payload fams (listing_of (hd (sort_key member_id g)))"
    using m' front by (auto dest: inj_onD [OF assms(2)])
  show "normalize_employer (organization (listing_of m)) = normalize_employer (fam_employer f)"
    using payload_inj(1) [OF p] by (simp add: f g_def family_card_def Let_def)
  show "normalized_title_key fams (post_title (listing_of m)) = fam_title f"
    using payload_inj(2) [OF p] by (simp add: f g_def family_card_def Let_def)
qed

lemma family_ids:
  assumes "f \<in> set (cluster_members sha fams ms)"
  shows "mset (member_ids f) = mset (map member_id (members_at sha fams ms (fam_key f)))"
    and "members_at sha fams ms (fam_key f) \<noteq> []"
  using assms by (auto simp: cluster_members_eq family_card_def Let_def members_at_def filter_empty_conv)

section \<open>Claims\<close>

definition demo_base :: "string \<Rightarrow> listing" where
  "demo_base k = \<lparr>opp_id = k, opp_track = EMPLOYMENT, opp_source = ''x'', content_hash = k, post_title = [],
     description = [], requirements = [], post_skills = [], location_raw = [], work_mode = REMOTE,
     location_country = [], remote_scope = WORLDWIDE, remote_scope_regions = [], procurement_metadata = None,
     provenance_raw_pointer = None, raw_record_pointer = [], field_provenances = [], source_url = [],
     source_id = [], organization = [], seniority = SENIORITY_UNSPECIFIED, geo_status = None,
     canonical_outbound_url = []\<rparr>"

definition demo_member :: "string \<Rightarrow> string \<Rightarrow> string \<Rightarrow> real option \<Rightarrow> string option \<Rightarrow> family_member" where
  "demo_member k org title x d =
     \<lparr>listing_of = (demo_base k)\<lparr>organization := org, post_title := title\<rparr>, fit_score = x, decision = d\<rparr>"

text \<open>families partition the postings. Every posting given is a member of exactly one family, as
  often as it is given; families carry distinct keys, in ascending order, and none is empty.\<close>

theorem families_partition:
  "mset (concat (map member_ids (cluster_members sha fams ms))) = mset (map member_id ms) \<and>
   sorted_wrt (<) (map fam_key (cluster_members sha fams ms)) \<and>
   list_all (\<lambda>f. member_count f = length (member_ids f) \<and> member_ids f \<noteq> []) (cluster_members sha fams ms)"
proof -
  let ?K = "member_key sha fams"
  let ?ks = "sorted_list_of_set (?K ` set ms)"
  have sum: "mset (concat (map h ks)) = sum_list (map (\<lambda>k. mset (h k)) ks)" for h :: "string \<Rightarrow> string list" and ks
    by (induction ks) auto
  have "mset (concat (map member_ids (cluster_members sha fams ms))) =
      sum_list (map (\<lambda>k. mset (map member_id (members_at sha fams ms k))) ?ks)"
    by (simp add: cluster_members_eq family_card_def Let_def comp_def sum)
  also have "\<dots> = sum_list (map (\<lambda>k. mset (map member_id (members_at sha fams ms k))) (firsts (map ?K ms)))"
    by (intro sum_list_perm) (metis image_set mset_sort sort_firsts)
  also have "\<dots> = mset (map member_id (concat (map snd (group_by ?K ms))))"
    unfolding group_by_eq map_concat by (simp add: sum comp_def members_at_def)
  also have "\<dots> = mset (map member_id ms)" by (simp only: mset_map mset_group_by)
  finally have "mset (concat (map member_ids (cluster_members sha fams ms))) = mset (map member_id ms)" .
  moreover have "map fam_key (cluster_members sha fams ms) = ?ks"
    by (simp add: cluster_members_eq family_card_def Let_def comp_def)
  moreover have "member_ids f \<noteq> []" if "f \<in> set (cluster_members sha fams ms)" for f
    using family_ids [OF that] by (metis map_is_Nil_conv mset_zero_iff)
  moreover have "member_count f = length (member_ids f)" if "f \<in> set (cluster_members sha fams ms)" for f
    using that by (auto simp: cluster_members_eq family_card_def Let_def)
  ultimately show ?thesis by (simp add: list_all_iff)
qed

text \<open>the families do not depend on the order in which postings arrive.\<close>

theorem clustering_ignores_order:
  assumes "mset xs = mset ys" and "distinct (map member_id xs)"
  shows "cluster_members sha fams xs = cluster_members sha fams ys"
proof -
  have "set xs = set ys" using assms(1) by (metis set_mset_mset)
  moreover have "sort_key member_id (members_at sha fams xs k) = sort_key member_id (members_at sha fams ys k)" for k
    using assms by (intro sort_ids_eq) (auto simp: members_at_def distinct_map_filter)
  then have "family_card fams k (members_at sha fams xs k) = family_card fams k (members_at sha fams ys k)" for k
    by (simp add: family_card_def)
  ultimately show ?thesis by (simp add: cluster_members_eq)
qed

theorem clustering_ignores_order_witness:
  "cluster_members id [] [demo_member ''a'' ''Acme'' ''Cook'' None None, demo_member ''b'' ''Acme'' ''Cook'' None None] =
   cluster_members id [] [demo_member ''b'' ''Acme'' ''Cook'' None None, demo_member ''a'' ''Acme'' ''Cook'' None None]"
  by (rule clustering_ignores_order) (simp_all add: demo_member_def demo_base_def member_id_def)

text \<open>a family card is honest. Unless SHA-256 collides on the postings given, all members share the
  normalised employer and title the card names; its score and decision are those of one member, no
  evaluated member scores higher, and if two members carry different decisions the card says so.\<close>

theorem family_cards_are_honest:
  assumes "f \<in> set (cluster_members sha fams ms)"
    and "inj_on sha (family_payload fams ` listing_of ` set ms)"
  shows "\<exists>g. g = members_at sha fams ms (fam_key f) \<and> mset (member_ids f) = mset (map member_id g) \<and>
    (\<exists>best\<in>set g. best_member_id f = member_id best \<and> best_fit_score f = fit_score best \<and>
       best_decision f = decision best) \<and>
    (\<forall>m\<in>set g. normalize_employer (organization (listing_of m)) = normalize_employer (fam_employer f) \<and>
       normalized_title_key fams (post_title (listing_of m)) = fam_title f \<and>
       (case fit_score m of None \<Rightarrow> True | Some x \<Rightarrow> (case best_fit_score f of None \<Rightarrow> False | Some y \<Rightarrow> x \<le> y))) \<and>
    (\<forall>m\<in>set g. \<forall>n\<in>set g. decision m \<noteq> None \<and> decision n \<noteq> None \<and> decision m \<noteq> decision n \<longrightarrow>
       decisions_differ f)"
proof -
  from assms(1) obtain k where k: "k \<in> member_key sha fams ` set ms"
    and f: "f = family_card fams k (members_at sha fams ms k)"
    by (auto simp: cluster_members_eq)
  define g where "g = members_at sha fams ms k"
  let ?g = "sort_key member_id g"
  have fk: "fam_key f = k" by (simp add: f family_card_def Let_def)
  note same = family_members_share [OF assms, unfolded fk, folded g_def]
  have "g \<noteq> []" using family_ids(2) [OF assms(1)] by (simp add: fk g_def)
  then have ne': "?g \<noteq> []" by (metis set_empty set_sort)
  have best: "select_best ?g \<in> set g" using select_best_mem [OF ne'] by simp
  have score: "case fit_score m of None \<Rightarrow> True | Some x \<Rightarrow>
      (case best_fit_score f of None \<Rightarrow> False | Some y \<Rightarrow> x \<le> y)" if "m \<in> set g" for m
    using select_best_score [of m ?g] that
    by (auto simp: f g_def [symmetric] family_card_def Let_def split: option.split)
  have differ: "decisions_differ f" if "m \<in> set g" "n \<in> set g" "decision m = Some a" "decision n = Some b" "a \<noteq> b" for m n a b
  proof -
    let ?ds = "List.map_filter decision ?g"
    have "set ?ds = {d. \<exists>m\<in>set g. decision m = Some d}" by (force simp: List.map_filter_def)
    then have "{a, b} \<subseteq> set ?ds" using that by auto
    then have "card {a, b} \<le> card (set ?ds)" by (intro card_mono) auto
    then show ?thesis using that(5) by (simp add: f g_def [symmetric] family_card_def Let_def length_remdups_card_conv)
  qed
  have "mset (member_ids f) = mset (map member_id g)" by (simp add: f g_def family_card_def Let_def)
  moreover have "\<exists>b\<in>set g. best_member_id f = member_id b \<and> best_fit_score f = fit_score b \<and> best_decision f = decision b"
    using best by (intro bexI [of _ "select_best ?g"]) (simp_all add: f g_def family_card_def Let_def)
  ultimately show ?thesis
    using same score differ by (intro exI [of _ g]) (auto simp: fk g_def [symmetric])
qed

definition demo_pair :: "family_member list" where
  "demo_pair = [demo_member ''a'' ''Acme'' ''Cook'' (Some 60) (Some ''qualified''),
     demo_member ''b'' ''ACME'' ''Cook, Berlin'' (Some 80) (Some ''ineligible'')]"

theorem family_cards_are_honest_witness:
  "map (\<lambda>f. (member_ids f, best_member_id f, decisions_differ f)) (cluster_members id [] demo_pair) =
     [([''a'', ''b''], ''b'', True)] \<and>
   normalize_employer (fam_employer (hd (cluster_members id [] demo_pair))) = ''acme''"
proof -
  have run: "map (\<lambda>f. (fam_key f, member_ids f, best_member_id f, decisions_differ f)) (cluster_members id [] demo_pair) =
      [(''acme|other:unspecified:cook'', [''a'', ''b''], ''b'', True)]" by code_simp
  then have run': "map (\<lambda>f. (member_ids f, best_member_id f, decisions_differ f)) (cluster_members id [] demo_pair) =
      [([''a'', ''b''], ''b'', True)]" by auto
  let ?f = "hd (cluster_members id [] demo_pair)"
  from run have f: "?f \<in> set (cluster_members id [] demo_pair)" "fam_key ?f = ''acme|other:unspecified:cook''"
    by (cases "cluster_members id [] demo_pair"; simp)+
  have a: "demo_member ''a'' ''Acme'' ''Cook'' (Some 60) (Some ''qualified'') \<in>
      set (members_at id [] demo_pair (fam_key ?f))"
    unfolding f(2) by code_simp
  have "inj_on id (family_payload [] ` listing_of ` set demo_pair)" by simp
  from family_cards_are_honest [OF f(1) this] a
  have "normalize_employer (fam_employer ?f) = normalize_employer ''Acme''"
    by (force simp: demo_member_def)
  moreover have "normalize_employer ''Acme'' = ''acme''" by code_simp
  ultimately show ?thesis using run' by simp
qed

text \<open>the corpus check never reports a family with two titles, and reports as many families as there
  are keys, unless SHA-256 collides.\<close>

theorem no_family_spans_two_titles:
  assumes "distinct (map member_id ms)" and "inj_on sha (family_payload fams ` listing_of ` set ms)"
  shows "\<exists>e. check_family_invariants sha fams ms = (card (member_key sha fams ` set ms), e, 0)"
proof -
  let ?v = "\<lambda>o'. normalized_title_key fams (post_title o')"
  have by_id: "member_by_id ms (member_id m) = m" if "m \<in> set ms" for m
  proof -
    have "map_of (rev (map (\<lambda>m. (member_id m, m)) ms)) (member_id m) = Some m"
      using assms(1) that by (intro map_of_is_SomeI) (auto simp: comp_def rev_map [symmetric])
    then show ?thesis by (simp add: member_by_id_def)
  qed
  have "\<not> length (remdups (map (\<lambda>k. ?v (listing_of (member_by_id ms k))) (member_ids f))) > 1"
    if "f \<in> set (cluster_members sha fams ms)" for f
  proof -
    define g where "g = members_at sha fams ms (fam_key f)"
    have g: "set g \<subseteq> set ms" "set (member_ids f) = member_id ` set g"
      "\<forall>m\<in>set g. ?v (listing_of m) = fam_title f"
      using family_members_share(2) [OF that assms(2)] arg_cong [OF family_ids(1) [OF that], of set_mset]
      by (auto simp: g_def members_at_def)
    have "(\<lambda>k. ?v (listing_of (member_by_id ms k))) ` set (member_ids f) \<subseteq> {fam_title f}"
      using g by_id by auto
    then have "card ((\<lambda>k. ?v (listing_of (member_by_id ms k))) ` set (member_ids f)) \<le> 1"
      by (metis One_nat_def card.empty card_insert_disjoint card_mono finite.emptyI finite_insert empty_iff)
    then show ?thesis by (simp add: length_remdups_card_conv)
  qed
  then have "filter (\<lambda>f. length (remdups (map (\<lambda>k. ?v (listing_of (member_by_id ms k))) (member_ids f))) > 1)
      (cluster_members sha fams ms) = []"
    by (auto simp: filter_empty_conv)
  moreover have "length (cluster_members sha fams ms) = card (member_key sha fams ` set ms)"
    by (simp add: cluster_members_eq)
  ultimately show ?thesis by (simp add: check_family_invariants_def Let_def)
qed

theorem no_family_spans_two_titles_witness:
  "\<exists>e. check_family_invariants id [] demo_pair = (card (family_key id [] ` listing_of ` set demo_pair), e, 0)"
proof -
  have "distinct (map member_id demo_pair)" by code_simp
  from no_family_spans_two_titles [OF this, of id "[]"] show ?thesis by (simp add: image_image)
qed

text \<open>The check's other count, families that span two employers, compares names as written: one employer
  written in two ways counts as a violation, although the family key deliberately identifies them.\<close>

theorem spellings_count_as_employers:
  "check_family_invariants id [] demo_pair = (1, 1, 0)"
  by code_simp

end
