(* ===== verification/Truth_Models.thy ===== *)
theory Truth_Models
  imports Complex_Main Json Outbound_Models Truth_Base
begin

text \<open>
  \<open>truth/models.py\<close>: the immutable records of the truth graph with the checks of their
  \<open>__post_init__\<close>, and the manifest of material fields. A record is built by \<open>validated\<close>, which
  raises the first check that fails; checks that only restate a Python type are carried by the
  types here. A value is null, a truth value, text, a number, a date or a tuple of values; sets and
  nested mappings are left out. \<open>str\<close> of a float is the argument \<open>fs\<close>.
\<close>

section \<open>Values\<close>

datatype truth_value =
    VNone
  | VBool bool
  | VText string
  | VInt int
  | VFloat real
  | VDate py_date
  | VItems "truth_value list"

fun truthy :: "truth_value \<Rightarrow> bool" where
  "truthy VNone = False"
| "truthy (VBool b) = b"
| "truthy (VText s) = (s \<noteq> [])"
| "truthy (VInt i) = (i \<noteq> 0)"
| "truthy (VFloat r) = (r \<noteq> 0)"
| "truthy (VDate d) = True"
| "truthy (VItems vs) = (vs \<noteq> [])"

text \<open>\<open>repr(s)\<close> of ASCII text.\<close>

definition hex_low :: "nat \<Rightarrow> char" where
  "hex_low n = (if n < 10 then char_of (48 + n) else char_of (87 + n))"

definition repr_char :: "char \<Rightarrow> char \<Rightarrow> string" where
  "repr_char q c =
     (let n = (of_char c :: nat) in
      if c = q \<or> n = 92 then [CHR 0x5C, c]
      else if n = 10 then [CHR 0x5C, CHR ''n'']
      else if n = 13 then [CHR 0x5C, CHR ''r'']
      else if n = 9 then [CHR 0x5C, CHR ''t'']
      else if n < 32 \<or> n = 127 then [CHR 0x5C, CHR ''x'', hex_low (n div 16), hex_low (n mod 16)]
      else [c])"

definition py_repr :: "string \<Rightarrow> string" where
  "py_repr s =
     (let q = if CHR 0x27 \<in> set s \<and> CHR 0x22 \<notin> set s then CHR 0x22 else CHR 0x27
      in q # concat (map (repr_char q) s) @ [q])"

definition tuple_text :: "string list \<Rightarrow> string" where
  "tuple_text xs = (case xs of [x] \<Rightarrow> ''('' @ x @ '',)'' | _ \<Rightarrow> ''('' @ py_join '', '' xs @ '')'')"

fun value_repr :: "(real \<Rightarrow> string) \<Rightarrow> truth_value \<Rightarrow> string" where
  "value_repr fs VNone = ''None''"
| "value_repr fs (VBool b) = (if b then ''True'' else ''False'')"
| "value_repr fs (VText s) = py_repr s"
| "value_repr fs (VInt i) = int_str i"
| "value_repr fs (VFloat r) = fs r"
| "value_repr fs (VDate d) =
     ''datetime.date('' @ int_str (year d) @ '', '' @ int_str (month d) @ '', '' @ int_str (day d) @ '')''"
| "value_repr fs (VItems vs) = tuple_text (map (value_repr fs) vs)"

fun value_str :: "(real \<Rightarrow> string) \<Rightarrow> truth_value \<Rightarrow> string" where
  "value_str fs (VText s) = s"
| "value_str fs (VDate d) = date_iso d"
| "value_str fs v = value_repr fs v"

text \<open>A Python number, as an attribute that is an \<open>int\<close> or a finite \<open>float\<close>.\<close>

datatype number = Whole int | Floating real

fun num_real :: "number \<Rightarrow> real" where
  "num_real (Whole i) = of_int i"
| "num_real (Floating r) = r"

fun num_value :: "number \<Rightarrow> truth_value" where
  "num_value (Whole i) = VInt i"
| "num_value (Floating r) = VFloat r"

text \<open>\<open>str(int(x) if float(x).is_integer() else x)\<close>.\<close>

definition num_text :: "(real \<Rightarrow> string) \<Rightarrow> number \<Rightarrow> string" where
  "num_text fs x =
     (case x of Whole i \<Rightarrow> int_str i
      | Floating r \<Rightarrow> if of_int \<lfloor>r\<rfloor> = r then int_str \<lfloor>r\<rfloor> else fs r)"

section \<open>Checks\<close>

type_synonym check = "bool \<times> string"

definition validated :: "('a \<Rightarrow> check list) \<Rightarrow> 'a \<Rightarrow> 'a result" where
  "validated checks x =
     (case find (\<lambda>(ok, _). \<not> ok) (checks x) of
        None \<Rightarrow> Inr x
      | Some (_, m) \<Rightarrow> Inl (ValueError m))"

lemma validated_Inr [simp]: "validated checks x = Inr y \<longleftrightarrow> y = x \<and> (\<forall>c\<in>set (checks x). fst c)"
proof -
  have "(case find (\<lambda>(ok, _). \<not> ok) cs of None \<Rightarrow> Inr x | Some (_, m) \<Rightarrow> Inl (ValueError m)) = Inr y \<longleftrightarrow>
      y = x \<and> (\<forall>c\<in>set cs. fst c)" for cs :: "check list"
    by (induction cs) auto
  then show ?thesis by (simp add: validated_def)
qed

definition is_identifier :: "string \<Rightarrow> bool" where
  "is_identifier s \<longleftrightarrow> s \<noteq> [] \<and> py_strip s = s \<and> \<not> list_ex py_isspace s"

definition require_identifier :: "string \<Rightarrow> string \<Rightarrow> check" where
  "require_identifier s name = (is_identifier s, name @ '' must be a non-empty identifier without whitespace'')"

definition is_text :: "string \<Rightarrow> bool" where
  "is_text s \<longleftrightarrow> py_strip s \<noteq> []"

definition require_text :: "string \<Rightarrow> string \<Rightarrow> check" where
  "require_text s name = (is_text s, name @ '' must be non-empty'')"

definition optional_text :: "string option \<Rightarrow> string \<Rightarrow> check list" where
  "optional_text s name = (case s of None \<Rightarrow> [] | Some t \<Rightarrow> [require_text t name])"

definition evidence_id_checks :: "bool \<Rightarrow> string list \<Rightarrow> check list" where
  "evidence_id_checks allow_empty ids =
     (allow_empty \<or> ids \<noteq> [], ''at least one evidence_id is required'')
     # (distinct ids, ''evidence_ids must be unique'')
     # map (\<lambda>i. require_identifier i ''evidence_id'') ids"

definition ordered_dates :: "py_date option \<Rightarrow> py_date option \<Rightarrow> bool" where
  "ordered_dates a b = (case (a, b) of (Some d, Some e) \<Rightarrow> \<not> date_before e d | _ \<Rightarrow> True)"

definition not_negative :: "number option \<Rightarrow> string \<Rightarrow> check" where
  "not_negative v name = (case v of None \<Rightarrow> True | Some x \<Rightarrow> num_real x \<ge> 0, name @ '' cannot be negative'')"

section \<open>Evidence, assertions, relations, metrics\<close>

record evidence_record =
  ev_id :: string
  ev_content :: "string option"
  ev_source :: string
  ev_locator :: string
  ev_type :: AssertionType
  ev_status :: VerificationStatus
  ev_observed_at :: "py_date option"
  ev_metadata :: "(string \<times> truth_value) list"

definition evidence_checks :: "evidence_record \<Rightarrow> check list" where
  "evidence_checks r =
     [require_identifier (ev_id r) ''id'', require_text (ev_source r) ''source'',
      require_text (ev_locator r) ''locator'',
      (ev_status r = EXPLICIT_NULL \<longrightarrow> ev_content r = None, ''explicit-null evidence must have content=None''),
      (ev_status r \<noteq> EXPLICIT_NULL \<longrightarrow> (case ev_content r of None \<Rightarrow> False | Some c \<Rightarrow> is_text c),
       ''non-null evidence must have non-empty content''),
      (ev_type r \<notin> {UNSUPPORTED_CLAIM, PROHIBITED_CLAIM}, ''evidence cannot itself be unsupported or prohibited'')]"

record assertion =
  as_id :: string
  as_subject :: string
  as_predicate :: string
  as_value :: truth_value
  as_type :: AssertionType
  as_status :: VerificationStatus
  as_evidence :: "string list"
  as_polarity :: Polarity
  as_modality :: Modality
  as_qualifiers :: "string list"
  as_from :: "py_date option"
  as_to :: "py_date option"
  as_supersedes :: "string list"
  as_conflicts :: "string list"

definition assertion_checks :: "assertion \<Rightarrow> check list" where
  "assertion_checks a =
     [require_identifier (as_id a) ''assertion.id'', require_identifier (as_subject a) ''assertion.subject_id'',
      require_text (as_predicate a) ''assertion.predicate'']
     @ evidence_id_checks True (as_evidence a)
     @ [(as_status a = VERIFIED \<longrightarrow> as_evidence a \<noteq> [], ''VERIFIED assertion must have at least one evidence ID''),
        (as_type a = DIRECT_FACT \<longrightarrow> as_evidence a \<noteq> [], ''DIRECT_FACT assertion must have at least one evidence ID''),
        (as_status a = EXPLICIT_NULL \<longrightarrow> as_value a = VNone, ''EXPLICIT_NULL assertion must have None value''),
        (ordered_dates (as_from a) (as_to a), ''effective_to cannot precede effective_from'')]"

record graph_relation =
  rel_id :: string
  rel_source :: string
  rel_type :: RelationType
  rel_target :: string
  rel_evidence :: "string list"
  rel_assertion_type :: AssertionType
  rel_status :: VerificationStatus
  rel_from :: "py_date option"
  rel_to :: "py_date option"

definition relation_checks :: "graph_relation \<Rightarrow> check list" where
  "relation_checks r =
     [require_identifier (rel_id r) ''relation.id'', require_identifier (rel_source r) ''relation.source_id'',
      require_identifier (rel_target r) ''relation.target_id'']
     @ evidence_id_checks True (rel_evidence r)
     @ [(rel_status r = VERIFIED \<longrightarrow> rel_evidence r \<noteq> [], ''VERIFIED relation must have at least one evidence ID''),
        (rel_assertion_type r = DIRECT_FACT \<longrightarrow> rel_evidence r \<noteq> [],
         ''DIRECT_FACT relation must have at least one evidence ID''),
        (ordered_dates (rel_from r) (rel_to r), ''effective_to cannot precede effective_from'')]"

record metric =
  mt_id :: string
  mt_subject :: string
  mt_value :: number
  mt_unit :: string
  mt_context :: string
  mt_modality :: Modality
  mt_status :: MetricVerification
  mt_evidence :: "string list"

definition metric_checks :: "metric \<Rightarrow> check list" where
  "metric_checks m =
     [require_identifier (mt_id m) ''metric.id'', require_identifier (mt_subject m) ''metric.subject_id'',
      not_negative (Some (mt_value m)) ''metric.numeric_value'', require_text (mt_unit m) ''metric.unit'',
      require_text (mt_context m) ''metric.context'']
     @ evidence_id_checks True (mt_evidence m)
     @ [(mt_status m = METRIC_VERIFIED \<longrightarrow> mt_evidence m \<noteq> [],
         ''VERIFIED metric assertion must have at least one evidence ID'')]"

section \<open>Profiles and their parts\<close>

record achievement =
  ach_id :: string
  ach_statement :: string
  ach_evidence :: "string list"
  ach_metric :: MetricVerification

definition achievement_checks :: "achievement \<Rightarrow> check list" where
  "achievement_checks a =
     [require_identifier (ach_id a) ''id'', require_text (ach_statement a) ''statement'']
     @ evidence_id_checks False (ach_evidence a)"

record employment =
  emp_id :: string
  emp_organization :: string
  emp_title :: string
  emp_start :: py_date
  emp_end :: "py_date option"
  emp_evidence :: "string list"
  emp_achievements :: "achievement list"
  emp_responsibilities :: "string list"
  emp_market_title :: "string option"

definition employment_checks :: "employment \<Rightarrow> check list" where
  "employment_checks e =
     [require_identifier (emp_id e) ''id'', require_text (emp_organization e) ''organization'',
      require_text (emp_title e) ''title'']
     @ evidence_id_checks False (emp_evidence e)
     @ [(ordered_dates (Some (emp_start e)) (emp_end e), ''employment end_date cannot precede start_date'')]
     @ optional_text (emp_market_title e) ''market_facing_title''
     @ map (\<lambda>r. require_text r ''responsibility'') (emp_responsibilities e)"

record education =
  edu_id :: string
  edu_institution :: string
  edu_qualification :: string
  edu_start :: "py_date option"
  edu_end :: "py_date option"
  edu_evidence :: "string list"

definition education_checks :: "education \<Rightarrow> check list" where
  "education_checks e =
     [require_identifier (edu_id e) ''id'', require_text (edu_institution e) ''institution'',
      require_text (edu_qualification e) ''qualification'']
     @ evidence_id_checks False (edu_evidence e)
     @ [(ordered_dates (edu_start e) (edu_end e), ''education end_date cannot precede start_date'')]"

record certification =
  cert_id :: string
  cert_name :: string
  cert_issuer :: string
  cert_state :: CertificationState
  cert_evidence :: "string list"
  cert_issued :: "py_date option"
  cert_expiry :: "py_date option"
  cert_credential_id :: "string option"
  cert_credential_url :: "string option"

definition certification_checks :: "certification \<Rightarrow> check list" where
  "certification_checks c =
     [require_identifier (cert_id c) ''id'', require_text (cert_name c) ''name'', require_text (cert_issuer c) ''issuer'']
     @ evidence_id_checks False (cert_evidence c)
     @ [(ordered_dates (cert_issued c) (cert_expiry c), ''certification expiry_date cannot precede issued_date''),
        (cert_state c = CERT_PLANNED \<longrightarrow> cert_issued c = None, ''a planned certification cannot have an issued_date'')]"

record skill =
  sk_id :: string
  sk_name :: string
  sk_evidence :: "string list"
  sk_proficiency :: "string option"
  sk_category :: "string option"

definition skill_checks :: "skill \<Rightarrow> check list" where
  "skill_checks s =
     [require_identifier (sk_id s) ''id'', require_text (sk_name s) ''name'']
     @ evidence_id_checks False (sk_evidence s)
     @ optional_text (sk_proficiency s) ''proficiency'' @ optional_text (sk_category s) ''category''"

record language =
  lang_id :: string
  lang_language :: string
  lang_proficiency :: string
  lang_evidence :: "string list"

definition language_checks :: "language \<Rightarrow> check list" where
  "language_checks l =
     [require_identifier (lang_id l) ''id'', require_text (lang_language l) ''language'',
      require_text (lang_proficiency l) ''proficiency'']
     @ evidence_id_checks False (lang_evidence l)"

record work_authorization =
  wa_id :: string
  wa_jurisdiction :: string
  wa_status :: string
  wa_evidence :: "string list"
  wa_expiry :: "py_date option"

definition work_authorization_checks :: "work_authorization \<Rightarrow> check list" where
  "work_authorization_checks w =
     [require_identifier (wa_id w) ''id'', require_text (wa_jurisdiction w) ''jurisdiction'',
      require_text (wa_status w) ''status'']
     @ evidence_id_checks False (wa_evidence w)"

record red_line =
  rl_id :: string
  rl_pattern :: string
  rl_reason :: string

definition red_line_checks :: "red_line \<Rightarrow> check list" where
  "red_line_checks r =
     [require_identifier (rl_id r) ''id'', require_text (rl_pattern r) ''pattern'', require_text (rl_reason r) ''reason'']"

text \<open>\<open>re_error p\<close> is the text of the error \<open>re.compile p\<close> raises, if it raises one.\<close>

datatype ProhibitedConceptCategory = GUARANTEED_OUTCOME | FORTUNE_500_PRESTIGE | UNAUTHORIZED_LEGAL_PRACTICE
  | UNAUTHORIZED_MEDICAL_PRACTICE | SECURITY_CLEARANCE | IP_EXCLUSIVITY_WARRANTY | FEE_CIRCUMVENTION
  | UNHELD_CREDENTIAL | UNBACKED_COMMERCIAL_CAPACITY

record never_claim =
  nc_id :: string
  nc_concept :: ProhibitedConceptCategory
  nc_description :: string
  nc_pattern :: string
  nc_phrases :: "string list"

definition never_claim_checks :: "(string \<Rightarrow> string option) \<Rightarrow> never_claim \<Rightarrow> check list" where
  "never_claim_checks re_error n =
     [require_identifier (nc_id n) ''id'', require_text (nc_description n) ''description'',
      require_text (nc_pattern n) ''pattern'',
      (case re_error (nc_pattern n) of None \<Rightarrow> (True, [])
       | Some e \<Rightarrow> (False, ''invalid pattern in NeverClaimRule '' @ nc_id n @ '': '' @ e))]
     @ map (\<lambda>p. require_text p ''forbidden_phrase'') (nc_phrases n)"

record service =
  svc_id :: string
  svc_name :: string
  svc_description :: string
  svc_evidence :: "string list"
  svc_engagements :: "EngagementType list"
  svc_deliverables :: "string list"

definition service_checks :: "service \<Rightarrow> check list" where
  "service_checks s =
     [require_identifier (svc_id s) ''id'', require_text (svc_name s) ''name'',
      require_text (svc_description s) ''description'']
     @ evidence_id_checks False (svc_evidence s)
     @ [(distinct (svc_engagements s), ''engagement_types must be unique'')]
     @ map (\<lambda>d. require_text d ''deliverable'') (svc_deliverables s)"

record portfolio_item =
  pf_id :: string
  pf_title :: string
  pf_summary :: string
  pf_evidence :: "string list"
  pf_outcome :: "string option"
  pf_metric :: MetricVerification
  pf_url :: "string option"

definition portfolio_checks :: "portfolio_item \<Rightarrow> check list" where
  "portfolio_checks p =
     [require_identifier (pf_id p) ''id'', require_text (pf_title p) ''title'', require_text (pf_summary p) ''summary'']
     @ evidence_id_checks False (pf_evidence p) @ optional_text (pf_outcome p) ''outcome''"

record business_capacity =
  cap_id :: string
  cap_evidence :: "string list"
  cap_available :: "py_date option"
  cap_hours :: "int option"
  cap_min_value :: "int option"
  cap_max_value :: "int option"
  cap_turnover :: "number option"
  cap_bid_bond :: "number option"
  cap_currencies :: "string list"
  cap_regions :: "string list"
  cap_onsite :: "string option"
  cap_legal :: "string option"

definition capacity_checks :: "business_capacity \<Rightarrow> check list" where
  "capacity_checks c =
     require_identifier (cap_id c) ''id'' # evidence_id_checks False (cap_evidence c)
     @ [not_negative (map_option Whole (cap_hours c)) ''hours_per_week'',
        not_negative (map_option Whole (cap_min_value c)) ''min_project_value'',
        not_negative (map_option Whole (cap_max_value c)) ''max_project_value'',
        not_negative (cap_turnover c) ''annual_turnover_usd'', not_negative (cap_bid_bond c) ''bid_bond_capacity_usd'',
        (case (cap_min_value c, cap_max_value c) of (Some a, Some b) \<Rightarrow> \<not> b < a | _ \<Rightarrow> True,
         ''max_project_value cannot be below min_project_value'')]"

record career_profile =
  cp_id :: string
  cp_evidence :: "string list"
  cp_employment :: "employment list"
  cp_education :: "education list"
  cp_certifications :: "certification list"
  cp_skills :: "skill list"
  cp_languages :: "language list"
  cp_authorizations :: "work_authorization list"
  cp_summaries :: "string list"
  cp_red_lines :: "red_line list"
  cp_never_claims :: "never_claim list"

definition career_profile_checks :: "career_profile \<Rightarrow> check list" where
  "career_profile_checks p = require_identifier (cp_id p) ''id'' # evidence_id_checks True (cp_evidence p)"

record capability_profile =
  bp_id :: string
  bp_evidence :: "string list"
  bp_services :: "service list"
  bp_portfolio :: "portfolio_item list"
  bp_capacity :: "business_capacity option"
  bp_industries :: "string list"
  bp_excluded :: "string list"
  bp_languages :: "string list"
  bp_tools :: "skill list"
  bp_red_lines :: "red_line list"
  bp_never_claims :: "never_claim list"

definition capability_profile_checks :: "capability_profile \<Rightarrow> check list" where
  "capability_profile_checks p =
     require_identifier (bp_id p) ''id'' # evidence_id_checks True (bp_evidence p)
     @ [(\<not> list_ex (\<lambda>i. py_lower i \<in> set (map py_lower (bp_excluded p))) (bp_industries p),
         ''target_industries and excluded_industries cannot overlap'')]"

record identity =
  idn_id :: string
  idn_name :: string
  idn_evidence :: "string list"
  idn_headline :: "string option"
  idn_email :: "string option"
  idn_phone :: "string option"
  idn_linkedin :: "string option"
  idn_github :: "string option"
  idn_website :: "string option"
  idn_city :: "string option"
  idn_country :: "string option"

definition identity_checks :: "identity \<Rightarrow> check list" where
  "identity_checks i =
     [require_identifier (idn_id i) ''id'', require_text (idn_name i) ''name'']
     @ evidence_id_checks False (idn_evidence i)
     @ optional_text (idn_headline i) ''headline'' @ optional_text (idn_email i) ''email''
     @ optional_text (idn_phone i) ''phone'' @ optional_text (idn_linkedin i) ''linkedin''
     @ optional_text (idn_github i) ''github'' @ optional_text (idn_website i) ''website''
     @ optional_text (idn_city i) ''location_city'' @ optional_text (idn_country i) ''location_country''"

record approved_phrase =
  ap_id :: string
  ap_text :: string
  ap_evidence :: "string list"
  ap_tags :: "string list"

definition approved_phrase_checks :: "approved_phrase \<Rightarrow> check list" where
  "approved_phrase_checks p =
     [require_identifier (ap_id p) ''id'', require_text (ap_text p) ''text'']
     @ evidence_id_checks False (ap_evidence p) @ map (\<lambda>t. require_text t ''tag'') (ap_tags p)"

section \<open>Nodes and their attributes\<close>

datatype entity =
    Employment employment
  | Achievement achievement
  | Education education
  | Certification certification
  | Skill skill
  | Language language
  | Authorization work_authorization
  | RedLine red_line
  | NeverClaim never_claim
  | Service service
  | Portfolio portfolio_item
  | Capacity business_capacity
  | Career career_profile
  | Capability capability_profile
  | IdentityBlock identity
  | Phrase approved_phrase

datatype entity_class = EmploymentRecord | AchievementRecord | EducationRecord | CertificationRecord | SkillRecord
  | LanguageRecord | WorkAuthorization | RedLineRule | NeverClaimRule | ServiceRecord | PortfolioItem
  | BusinessCapacity | CareerProfile | CapabilityProfile | IdentityRecord | ApprovedPhrase

fun class_of :: "entity \<Rightarrow> entity_class" where
  "class_of (Employment e) = EmploymentRecord"
| "class_of (Achievement a) = AchievementRecord"
| "class_of (Education e) = EducationRecord"
| "class_of (Certification c) = CertificationRecord"
| "class_of (Skill s) = SkillRecord"
| "class_of (Language l) = LanguageRecord"
| "class_of (Authorization w) = WorkAuthorization"
| "class_of (RedLine r) = RedLineRule"
| "class_of (NeverClaim n) = NeverClaimRule"
| "class_of (Service s) = ServiceRecord"
| "class_of (Portfolio p) = PortfolioItem"
| "class_of (Capacity c) = BusinessCapacity"
| "class_of (Career p) = CareerProfile"
| "class_of (Capability p) = CapabilityProfile"
| "class_of (IdentityBlock i) = IdentityRecord"
| "class_of (Phrase p) = ApprovedPhrase"

fun entity_id :: "entity \<Rightarrow> string" where
  "entity_id (Employment e) = emp_id e"
| "entity_id (Achievement a) = ach_id a"
| "entity_id (Education e) = edu_id e"
| "entity_id (Certification c) = cert_id c"
| "entity_id (Skill s) = sk_id s"
| "entity_id (Language l) = lang_id l"
| "entity_id (Authorization w) = wa_id w"
| "entity_id (RedLine r) = rl_id r"
| "entity_id (NeverClaim n) = nc_id n"
| "entity_id (Service s) = svc_id s"
| "entity_id (Portfolio p) = pf_id p"
| "entity_id (Capacity c) = cap_id c"
| "entity_id (Career p) = cp_id p"
| "entity_id (Capability p) = bp_id p"
| "entity_id (IdentityBlock i) = idn_id i"
| "entity_id (Phrase p) = ap_id p"

text \<open>\<open>getattr(node, "evidence_ids", ())\<close>.\<close>

fun entity_evidence :: "entity \<Rightarrow> string list" where
  "entity_evidence (Employment e) = emp_evidence e"
| "entity_evidence (Achievement a) = ach_evidence a"
| "entity_evidence (Education e) = edu_evidence e"
| "entity_evidence (Certification c) = cert_evidence c"
| "entity_evidence (Skill s) = sk_evidence s"
| "entity_evidence (Language l) = lang_evidence l"
| "entity_evidence (Authorization w) = wa_evidence w"
| "entity_evidence (RedLine r) = []"
| "entity_evidence (NeverClaim n) = []"
| "entity_evidence (Service s) = svc_evidence s"
| "entity_evidence (Portfolio p) = pf_evidence p"
| "entity_evidence (Capacity c) = cap_evidence c"
| "entity_evidence (Career p) = cp_evidence p"
| "entity_evidence (Capability p) = bp_evidence p"
| "entity_evidence (IdentityBlock i) = idn_evidence i"
| "entity_evidence (Phrase p) = ap_evidence p"

text \<open>What \<open>getattr\<close> yields: a value, a tuple of values, or a tuple of nodes (a single optional node counts as one).\<close>

datatype attribute = Scalar truth_value | Items "truth_value list" | Nodes "entity list"

definition opt_text :: "string option \<Rightarrow> attribute" where
  "opt_text s = Scalar (case s of None \<Rightarrow> VNone | Some t \<Rightarrow> VText t)"

definition opt_date :: "py_date option \<Rightarrow> attribute" where
  "opt_date d = Scalar (case d of None \<Rightarrow> VNone | Some t \<Rightarrow> VDate t)"

definition opt_number :: "number option \<Rightarrow> attribute" where
  "opt_number d = Scalar (case d of None \<Rightarrow> VNone | Some t \<Rightarrow> num_value t)"

abbreviation plain :: "string \<Rightarrow> attribute" where
  "plain s \<equiv> Scalar (VText s)"

fun attributes :: "entity \<Rightarrow> (string \<times> attribute) list" where
  "attributes (Employment e) =
     [(''organization'', plain (emp_organization e)), (''title'', plain (emp_title e)),
      (''market_facing_title'', opt_text (emp_market_title e)), (''start_date'', Scalar (VDate (emp_start e))),
      (''end_date'', opt_date (emp_end e)), (''responsibilities'', Items (map VText (emp_responsibilities e))),
      (''achievements'', Nodes (map Achievement (emp_achievements e)))]"
| "attributes (Achievement a) = [(''statement'', plain (ach_statement a))]"
| "attributes (Education e) =
     [(''institution'', plain (edu_institution e)), (''qualification'', plain (edu_qualification e)),
      (''start_date'', opt_date (edu_start e)), (''end_date'', opt_date (edu_end e))]"
| "attributes (Certification c) =
     [(''name'', plain (cert_name c)), (''issuer'', plain (cert_issuer c)),
      (''state'', plain (certification_state_value (cert_state c))), (''issued_date'', opt_date (cert_issued c)),
      (''expiry_date'', opt_date (cert_expiry c)), (''credential_id'', opt_text (cert_credential_id c)),
      (''credential_url'', opt_text (cert_credential_url c))]"
| "attributes (Skill s) =
     [(''name'', plain (sk_name s)), (''proficiency'', opt_text (sk_proficiency s)), (''category'', opt_text (sk_category s))]"
| "attributes (Language l) = [(''language'', plain (lang_language l)), (''proficiency'', plain (lang_proficiency l))]"
| "attributes (Authorization w) =
     [(''jurisdiction'', plain (wa_jurisdiction w)), (''status'', plain (wa_status w)), (''expiry_date'', opt_date (wa_expiry w))]"
| "attributes (RedLine r) = [(''pattern'', plain (rl_pattern r)), (''reason'', plain (rl_reason r))]"
| "attributes (NeverClaim n) = [(''description'', plain (nc_description n)), (''pattern'', plain (nc_pattern n))]"
| "attributes (Service s) =
     [(''name'', plain (svc_name s)), (''description'', plain (svc_description s)),
      (''engagement_types'', Items (map (VText o engagement_type_value) (svc_engagements s))),
      (''deliverables'', Items (map VText (svc_deliverables s)))]"
| "attributes (Portfolio p) =
     [(''title'', plain (pf_title p)), (''summary'', plain (pf_summary p)), (''outcome'', opt_text (pf_outcome p)),
      (''url'', opt_text (pf_url p))]"
| "attributes (Capacity c) =
     [(''available_from'', opt_date (cap_available c)), (''hours_per_week'', opt_number (map_option Whole (cap_hours c))),
      (''min_project_value'', opt_number (map_option Whole (cap_min_value c))),
      (''max_project_value'', opt_number (map_option Whole (cap_max_value c))),
      (''annual_turnover_usd'', opt_number (cap_turnover c)), (''bid_bond_capacity_usd'', opt_number (cap_bid_bond c)),
      (''currencies'', Items (map VText (cap_currencies c))), (''service_regions'', Items (map VText (cap_regions c))),
      (''onsite_willingness'', opt_text (cap_onsite c)), (''legal_capacity'', opt_text (cap_legal c))]"
| "attributes (Career p) =
     [(''employment'', Nodes (map Employment (cp_employment p))), (''education'', Nodes (map Education (cp_education p))),
      (''certifications'', Nodes (map Certification (cp_certifications p))), (''skills'', Nodes (map Skill (cp_skills p))),
      (''languages'', Nodes (map Language (cp_languages p))),
      (''work_authorizations'', Nodes (map Authorization (cp_authorizations p))),
      (''approved_summaries'', Items (map VText (cp_summaries p))), (''red_lines'', Nodes (map RedLine (cp_red_lines p))),
      (''never_claims'', Nodes (map NeverClaim (cp_never_claims p)))]"
| "attributes (Capability p) =
     [(''services'', Nodes (map Service (bp_services p))), (''portfolio'', Nodes (map Portfolio (bp_portfolio p))),
      (''capacity'', Nodes (case bp_capacity p of None \<Rightarrow> [] | Some c \<Rightarrow> [Capacity c])),
      (''target_industries'', Items (map VText (bp_industries p))),
      (''excluded_industries'', Items (map VText (bp_excluded p))),
      (''delivery_languages'', Items (map VText (bp_languages p))), (''tools'', Nodes (map Skill (bp_tools p))),
      (''red_lines'', Nodes (map RedLine (bp_red_lines p))), (''never_claims'', Nodes (map NeverClaim (bp_never_claims p)))]"
| "attributes (IdentityBlock i) =
     [(''name'', plain (idn_name i)), (''headline'', opt_text (idn_headline i)), (''email'', opt_text (idn_email i)),
      (''phone'', opt_text (idn_phone i)), (''linkedin'', opt_text (idn_linkedin i)), (''github'', opt_text (idn_github i)),
      (''website'', opt_text (idn_website i)), (''location_city'', opt_text (idn_city i)),
      (''location_country'', opt_text (idn_country i))]"
| "attributes (Phrase p) = [(''text'', plain (ap_text p)), (''tags'', Items (map VText (ap_tags p)))]"

definition attribute_of :: "entity \<Rightarrow> string \<Rightarrow> attribute option" where
  "attribute_of e f = map_of (attributes e) f"

section \<open>The manifest of material fields\<close>

record field_spec =
  fs_class :: entity_class
  fs_field :: string
  fs_predicate :: string
  fs_collection :: bool
  fs_nested :: bool
  fs_optional :: bool

definition MaterialFieldSpec :: "entity_class \<Rightarrow> string \<Rightarrow> string \<Rightarrow> field_spec" where
  "MaterialFieldSpec c f p = \<lparr>fs_class = c, fs_field = f, fs_predicate = p, fs_collection = False, fs_nested = False, fs_optional = False\<rparr>"

definition optional_spec :: "field_spec \<Rightarrow> field_spec" where "optional_spec s = s\<lparr>fs_optional := True\<rparr>"

definition collection_spec :: "field_spec \<Rightarrow> field_spec" where
  "collection_spec s = s\<lparr>fs_collection := True, fs_optional := True\<rparr>"

definition nested_spec :: "field_spec \<Rightarrow> field_spec" where
  "nested_spec s = s\<lparr>fs_nested := True, fs_optional := True\<rparr>"

definition CANONICAL_MATERIAL_MANIFEST :: "field_spec list" where
  "CANONICAL_MATERIAL_MANIFEST = [
     MaterialFieldSpec EmploymentRecord ''organization'' ''employment.organization'',
     MaterialFieldSpec EmploymentRecord ''title'' ''employment.title'',
     optional_spec (MaterialFieldSpec EmploymentRecord ''market_facing_title'' ''employment.market_facing_title''),
     MaterialFieldSpec EmploymentRecord ''start_date'' ''employment.start_date'',
     optional_spec (MaterialFieldSpec EmploymentRecord ''end_date'' ''employment.end_date''),
     collection_spec (MaterialFieldSpec EmploymentRecord ''responsibilities'' ''employment.responsibility''),
     nested_spec (MaterialFieldSpec EmploymentRecord ''achievements'' ''employment.achievement''),
     MaterialFieldSpec AchievementRecord ''statement'' ''achievement.statement'',
     MaterialFieldSpec EducationRecord ''institution'' ''education.institution'',
     MaterialFieldSpec EducationRecord ''qualification'' ''education.qualification'',
     optional_spec (MaterialFieldSpec EducationRecord ''start_date'' ''education.start_date''),
     optional_spec (MaterialFieldSpec EducationRecord ''end_date'' ''education.end_date''),
     MaterialFieldSpec CertificationRecord ''name'' ''certification.name'',
     MaterialFieldSpec CertificationRecord ''issuer'' ''certification.issuer'',
     MaterialFieldSpec CertificationRecord ''state'' ''certification.state'',
     optional_spec (MaterialFieldSpec CertificationRecord ''issued_date'' ''certification.issued_date''),
     optional_spec (MaterialFieldSpec CertificationRecord ''expiry_date'' ''certification.expiry_date''),
     optional_spec (MaterialFieldSpec CertificationRecord ''credential_id'' ''certification.credential_id''),
     optional_spec (MaterialFieldSpec CertificationRecord ''credential_url'' ''certification.credential_url''),
     MaterialFieldSpec SkillRecord ''name'' ''skill.name'',
     optional_spec (MaterialFieldSpec SkillRecord ''proficiency'' ''skill.proficiency''),
     optional_spec (MaterialFieldSpec SkillRecord ''category'' ''skill.category''),
     MaterialFieldSpec LanguageRecord ''language'' ''language.language'',
     MaterialFieldSpec LanguageRecord ''proficiency'' ''language.proficiency'',
     MaterialFieldSpec WorkAuthorization ''jurisdiction'' ''work_authorization.jurisdiction'',
     MaterialFieldSpec WorkAuthorization ''status'' ''work_authorization.status'',
     optional_spec (MaterialFieldSpec WorkAuthorization ''expiry_date'' ''work_authorization.expiry_date''),
     MaterialFieldSpec ServiceRecord ''name'' ''service.name'',
     MaterialFieldSpec ServiceRecord ''description'' ''service.description'',
     collection_spec (MaterialFieldSpec ServiceRecord ''engagement_types'' ''service.engagement_type''),
     collection_spec (MaterialFieldSpec ServiceRecord ''deliverables'' ''service.deliverable''),
     MaterialFieldSpec PortfolioItem ''title'' ''portfolio.title'',
     MaterialFieldSpec PortfolioItem ''summary'' ''portfolio.summary'',
     optional_spec (MaterialFieldSpec PortfolioItem ''outcome'' ''portfolio.outcome''),
     optional_spec (MaterialFieldSpec PortfolioItem ''url'' ''portfolio.url''),
     optional_spec (MaterialFieldSpec BusinessCapacity ''available_from'' ''capacity.available_from''),
     optional_spec (MaterialFieldSpec BusinessCapacity ''hours_per_week'' ''capacity.hours_per_week''),
     optional_spec (MaterialFieldSpec BusinessCapacity ''min_project_value'' ''capacity.min_project_value''),
     optional_spec (MaterialFieldSpec BusinessCapacity ''max_project_value'' ''capacity.max_project_value''),
     optional_spec (MaterialFieldSpec BusinessCapacity ''annual_turnover_usd'' ''capacity.annual_turnover_usd''),
     optional_spec (MaterialFieldSpec BusinessCapacity ''bid_bond_capacity_usd'' ''capacity.bid_bond_capacity_usd''),
     collection_spec (MaterialFieldSpec BusinessCapacity ''currencies'' ''capacity.currency''),
     collection_spec (MaterialFieldSpec BusinessCapacity ''service_regions'' ''capacity.service_region''),
     optional_spec (MaterialFieldSpec BusinessCapacity ''onsite_willingness'' ''capacity.onsite_willingness''),
     optional_spec (MaterialFieldSpec BusinessCapacity ''legal_capacity'' ''capacity.legal_capacity''),
     collection_spec (MaterialFieldSpec CareerProfile ''approved_summaries'' ''profile.approved_summary''),
     nested_spec (MaterialFieldSpec CareerProfile ''employment'' ''career_profile.employment''),
     nested_spec (MaterialFieldSpec CareerProfile ''education'' ''career_profile.education''),
     nested_spec (MaterialFieldSpec CareerProfile ''certifications'' ''career_profile.certifications''),
     nested_spec (MaterialFieldSpec CareerProfile ''skills'' ''career_profile.skills''),
     nested_spec (MaterialFieldSpec CareerProfile ''languages'' ''career_profile.languages''),
     nested_spec (MaterialFieldSpec CareerProfile ''work_authorizations'' ''career_profile.work_authorizations''),
     nested_spec (MaterialFieldSpec CareerProfile ''red_lines'' ''career_profile.red_lines''),
     nested_spec (MaterialFieldSpec CareerProfile ''never_claims'' ''career_profile.never_claims''),
     collection_spec (MaterialFieldSpec CapabilityProfile ''target_industries'' ''capability.target_industry''),
     collection_spec (MaterialFieldSpec CapabilityProfile ''excluded_industries'' ''capability.excluded_industry''),
     collection_spec (MaterialFieldSpec CapabilityProfile ''delivery_languages'' ''capability.delivery_language''),
     nested_spec (MaterialFieldSpec CapabilityProfile ''services'' ''capability_profile.services''),
     nested_spec (MaterialFieldSpec CapabilityProfile ''portfolio'' ''capability_profile.portfolio''),
     nested_spec (MaterialFieldSpec CapabilityProfile ''capacity'' ''capability_profile.capacity''),
     nested_spec (MaterialFieldSpec CapabilityProfile ''tools'' ''capability_profile.tools''),
     nested_spec (MaterialFieldSpec CapabilityProfile ''red_lines'' ''capability_profile.red_lines''),
     nested_spec (MaterialFieldSpec CapabilityProfile ''never_claims'' ''capability_profile.never_claims''),
     MaterialFieldSpec IdentityRecord ''name'' ''identity.name'',
     optional_spec (MaterialFieldSpec IdentityRecord ''headline'' ''identity.headline''),
     optional_spec (MaterialFieldSpec IdentityRecord ''email'' ''identity.email''),
     optional_spec (MaterialFieldSpec IdentityRecord ''phone'' ''identity.phone''),
     optional_spec (MaterialFieldSpec IdentityRecord ''linkedin'' ''identity.linkedin''),
     optional_spec (MaterialFieldSpec IdentityRecord ''github'' ''identity.github''),
     optional_spec (MaterialFieldSpec IdentityRecord ''website'' ''identity.website''),
     optional_spec (MaterialFieldSpec IdentityRecord ''location_city'' ''identity.location_city''),
     optional_spec (MaterialFieldSpec IdentityRecord ''location_country'' ''identity.location_country''),
     MaterialFieldSpec ApprovedPhrase ''text'' ''approved_phrase.text'']"

definition specs_of :: "entity \<Rightarrow> field_spec list" where
  "specs_of e = filter (\<lambda>s. fs_class s = class_of e) CANONICAL_MATERIAL_MANIFEST"

end
