(* ===== verification/Truth_Support.thy ===== *)
theory Truth_Support
  imports Truth_Models Py_Regex
begin

text \<open>
  The first half of \<open>truth/graph.py\<close>: when the text of one evidence record supports a value, and
  the numbers, units and contexts that metrics are compared by. Text is ASCII, so of the currency
  signs only the dollar remains; a predicate or subject that is not given is the empty string.
\<close>

section \<open>Words and markers\<close>

definition STOP_WORDS :: "string list" where
  "STOP_WORDS = [''a'', ''an'', ''and'', ''or'', ''of'', ''in'', ''at'', ''to'', ''for'', ''with'', ''on'', ''by'', ''from'',
     ''the'', ''is'', ''was'', ''were'', ''as'', ''into'', ''onto'', ''via'', ''using'']"

definition word_pattern :: re where
  "word_pattern = plus_of (Ch (\<lambda>c. py_isword c \<or> c = CHR ''+'' \<or> c = CHR ''#''))"

definition extract_tokens :: "string \<Rightarrow> string list" where
  "extract_tokens text = map (\<lambda>(m, _). py_lower m) (re_finditer word_pattern (py_replace (CHR ''_'') (CHR '' '') text))"

definition words_minus :: "'a list \<Rightarrow> 'a list \<Rightarrow> 'a list" where
  "words_minus xs ys = filter (\<lambda>x. x \<notin> set ys) xs"

definition negative_markers :: re where
  "negative_markers = cats [Edge,
     any_of [liti ''not'', liti ''no'', liti ''never'', liti ''neither'', liti ''nor'', liti ''without'', liti ''cannot'',
       liti ''unauthorized'', liti ''non-'', liti ''ineligible'', Cat (liti ''lack'') (opt_of (liti ''s'')), liti ''lacking''],
     Edge]"

text \<open>Words with any amount of white space between them.\<close>

fun loose :: "string list \<Rightarrow> re" where
  "loose [] = Eps"
| "loose [w] = liti w"
| "loose (w # v # ws) = cats [liti w, spaces, loose (v # ws)]"

definition bound_at_most :: re where
  "bound_at_most = cats [Edge,
     any_of [loose [''at'', ''most''], loose [''up'', ''to''], loose [''less'', ''than''], liti ''under'',
       loose [''maximum'', ''of''], loose [''no'', ''more'', ''than'']],
     Edge]"

definition bound_at_least :: re where
  "bound_at_least = cats [Edge,
     any_of [loose [''at'', ''least''], loose [''more'', ''than''], liti ''over'', loose [''minimum'', ''of''],
       loose [''no'', ''less'', ''than'']],
     Edge]"

definition conditional_re :: re where
  "conditional_re = cats [Edge,
     any_of [loose [''subject'', ''to''], cats [liti ''conditional'', spaces, any_of [liti ''on'', liti ''upon'']],
       loose [''depending'', ''on''], loose [''if'', ''approved''], loose [''contingent'', ''on'']],
     Edge]"

definition found :: "re \<Rightarrow> string \<Rightarrow> bool" where
  "found e s \<longleftrightarrow> re_search e s \<noteq> None"

definition IDENTITY_SENSITIVE_PREDICATES :: "string list" where
  "IDENTITY_SENSITIVE_PREDICATES = [''employment.title'', ''employment.market_facing_title'',
     ''employment.organization'', ''certification.name'', ''certification.issuer'', ''work_authorization.status'',
     ''work_authorization.jurisdiction'']"

section \<open>The scope a record declares\<close>

definition meta :: "evidence_record \<Rightarrow> string \<Rightarrow> truth_value" where
  "meta r k = (case map_of (ev_metadata r) k of None \<Rightarrow> VNone | Some v \<Rightarrow> v)"

text \<open>\<open>a or b\<close>.\<close>

definition v_or :: "truth_value \<Rightarrow> truth_value \<Rightarrow> truth_value" where
  "v_or a b = (if truthy a then a else b)"

definition meta_subject :: "evidence_record \<Rightarrow> truth_value" where
  "meta_subject r = v_or (meta r ''subject_id'') (meta r ''subject'')"

definition out_of_scope :: "(real \<Rightarrow> string) \<Rightarrow> evidence_record \<Rightarrow> string \<Rightarrow> string \<Rightarrow> bool" where
  "out_of_scope fs r p s \<longleftrightarrow>
     (let rs = meta_subject r; rp = v_or (meta r ''predicate'') (meta r ''field'') in
      truthy rs \<and> s \<noteq> [] \<and> rs \<noteq> VText s
      \<or> truthy rp \<and> p \<noteq> [] \<and> rp \<noteq> VText p \<and> \<not> suffix (CHR ''.'' # value_str fs rp) p)"

section \<open>Text values\<close>

definition unauthorized_re :: re where
  "unauthorized_re = cats [Edge,
     any_of [cats [lit ''not'', spaces1, lit ''authorized''], lit ''unauthorized'',
       cats [lit ''not'', spaces1, lit ''eligible''], lit ''ineligible'', cats [lit ''no'', spaces1, lit ''authorization'']],
     Edge]"

definition negated_value_re :: "string \<Rightarrow> re" where
  "negated_value_re v = cats [Edge,
     any_of [lit ''not'', lit ''no'', lit ''never'', lit ''without'', lit ''unauthorized'', lit ''non-'', lit ''ineligible'',
       Cat (lit ''lack'') (opt_of (lit ''s'')), lit ''lacking''],
     spaces1, opt_of (Cat (plus_of (Ch py_isword)) spaces1), lit v, Edge]"

definition negated_in :: "string \<Rightarrow> string \<Rightarrow> bool" where
  "negated_in v c \<longleftrightarrow> found negative_markers c \<and>
     (v \<in> {''authorized'', ''valid'', ''eligible'', ''allowed''} \<and> found unauthorized_re c
      \<or> found (negated_value_re v) c)"

definition py_endswith :: "string \<Rightarrow> string \<Rightarrow> bool" where
  "py_endswith s e = suffix e s"

definition tokens_within :: "string \<Rightarrow> string \<Rightarrow> bool" where
  "tokens_within v c \<longleftrightarrow>
     (let t = words_minus (extract_tokens v) STOP_WORDS; e = extract_tokens c in t \<noteq> [] \<and> list_all (\<lambda>x. x \<in> set e) t)"

definition locator_matches :: "string \<Rightarrow> string \<Rightarrow> bool" where
  "locator_matches loc p \<longleftrightarrow>
     (let f = py_leaf p; ends = (\<lambda>e. py_endswith loc e) in
      loc = f \<or> ends (CHR ''.'' # f) \<or> ends (py_lower p)
      \<or> f = ''organization'' \<and> (loc \<in> {''org'', ''organization''} \<or> ends ''.org'' \<or> ends ''.organization'')
      \<or> f \<in> {''title'', ''market_facing_title''}
          \<and> (loc \<in> {''title'', ''market_facing_title''} \<or> ends ''.title'' \<or> ends ''.market_facing_title'')
      \<or> prefix ''work_authorization'' p
          \<and> (loc \<in> {''auth'', ''status'', ''jurisdiction'', ''work_authorization.status'', ''work_authorization.jurisdiction''}
             \<or> ends ''.status'' \<or> ends ''.jurisdiction'')
      \<or> prefix ''certification'' p
          \<and> (loc \<in> {''cert'', ''name'', ''issuer'', ''certification.name'', ''certification.issuer''}
             \<or> ends ''.name'' \<or> ends ''.issuer''))"

definition scoped_meta :: "evidence_record \<Rightarrow> string \<Rightarrow> truth_value" where
  "scoped_meta r p =
     v_or (meta r (py_leaf p))
       (v_or (if meta r ''predicate'' = VText p then meta r ''value'' else VNone)
         (if meta r ''field'' = VText (py_leaf p) then meta r ''value'' else VNone))"

definition sensitive_support :: "(real \<Rightarrow> string) \<Rightarrow> string \<Rightarrow> string \<Rightarrow> evidence_record \<Rightarrow> string \<Rightarrow> bool" where
  "sensitive_support fs v c r p \<longleftrightarrow>
     (let vl = py_lower (py_strip v); cl = py_lower c; m = scoped_meta r p in
      if py_lower (py_strip c) = vl then True
      else if ev_metadata r \<noteq> [] \<and> m \<noteq> VNone then py_lower (py_strip (value_str fs m)) = vl
      else ev_locator r \<noteq> [] \<and> locator_matches (py_lower (ev_locator r)) p
        \<and> (py_in vl cl \<or> tokens_within (py_strip v) c))"

definition state_words :: "(string \<times> re) list" where
  "state_words =
     [(''planned'', any_of [lit ''plan'', lit ''planning'', lit ''planned'', lit ''pursuing'', lit ''pursue'', lit ''candidate'',
         cats [lit ''in'', spaces, lit ''progress'']]),
      (''active'', any_of [lit ''active'', lit ''current'', lit ''certified'', lit ''completed'', lit ''passed'', lit ''licensed'',
         Cat (lit ''hold'') (opt_of (lit ''s'')), lit ''holder'', lit ''valid'']),
      (''expired'', any_of [lit ''expired'', lit ''inactive'', lit ''past'', lit ''former'', lit ''lapsed''])]"

definition state_support :: "string \<Rightarrow> string \<Rightarrow> bool" where
  "state_support v cl \<longleftrightarrow>
     (case map_of state_words v of None \<Rightarrow> False | Some e \<Rightarrow> found (cats [Edge, e, Edge]) cl)"

definition CANONICAL_SKILL_ALIASES :: "(string \<times> string) list" where
  "CANONICAL_SKILL_ALIASES = [(''amazon web services'', ''AWS''), (''aws'', ''AWS''), (''c sharp'', ''C#''), (''c#'', ''C#''),
     (''docker'', ''Docker''), (''gcp'', ''Google Cloud Platform''), (''google cloud'', ''Google Cloud Platform''),
     (''google cloud platform'', ''Google Cloud Platform''), (''javascript'', ''JavaScript''), (''js'', ''JavaScript''),
     (''k8s'', ''Kubernetes''), (''kubernetes'', ''Kubernetes''), (''node'', ''Node.js''), (''node.js'', ''Node.js''),
     (''postgres'', ''PostgreSQL''), (''postgresql'', ''PostgreSQL''), (''power bi'', ''Power BI''), (''python'', ''Python''),
     (''react'', ''React''), (''sql'', ''SQL''), (''typescript'', ''TypeScript''), (''ts'', ''TypeScript'')]"

definition alias_support :: "string \<Rightarrow> string \<Rightarrow> bool" where
  "alias_support vl c \<longleftrightarrow>
     (case map_of CANONICAL_SKILL_ALIASES vl of
        None \<Rightarrow> False
      | Some k \<Rightarrow> list_all (\<lambda>x. x \<in> set (extract_tokens c)) (words_minus (extract_tokens k) STOP_WORDS)
                  \<or> py_in (py_lower k) (py_lower c))"

definition plain_support :: "string \<Rightarrow> string \<Rightarrow> string \<Rightarrow> bool" where
  "plain_support v c p \<longleftrightarrow>
     (let vl = py_lower (py_strip v); cl = py_lower c in
      p = ''certification.state'' \<and> state_support vl cl
      \<or> py_in vl cl \<or> tokens_within (py_strip v) c \<or> alias_support vl c)"

definition text_support :: "(real \<Rightarrow> string) \<Rightarrow> string \<Rightarrow> string \<Rightarrow> evidence_record \<Rightarrow> string \<Rightarrow> bool" where
  "text_support fs v c r p \<longleftrightarrow>
     (let vl = py_lower (py_strip v) in
      if vl = [] then True
      else if negated_in vl (py_lower c) then False
      else if p \<in> set IDENTITY_SENSITIVE_PREDICATES then sensitive_support fs v c r p
      else plain_support v c p)"

section \<open>Numbers and dates\<close>

definition digit_or_dot :: "char \<Rightarrow> bool" where
  "digit_or_dot c \<longleftrightarrow> py_isdigit c \<or> c = CHR ''.''"

definition number_support :: "string \<Rightarrow> string \<Rightarrow> bool" where
  "number_support n c \<longleftrightarrow> found (cats [NotBehind digit_or_dot, lit n, NotAhead (Ch digit_or_dot)]) c"

definition month_names :: "string list" where
  "month_names = [[], ''january'', ''february'', ''march'', ''april'', ''may'', ''june'', ''july'', ''august'', ''september'',
     ''october'', ''november'', ''december'']"

definition month_abbr :: "string list" where
  "month_abbr = [[], ''jan'', ''feb'', ''mar'', ''apr'', ''may'', ''jun'', ''jul'', ''aug'', ''sep'', ''oct'', ''nov'', ''dec'']"

definition day_month_re :: "re \<Rightarrow> py_date \<Rightarrow> re" where
  "day_month_re m d =
     (let dd = lit (int_str (day d)); yy = lit (int_str (year d)) in
      Or (cats [Edge, m, spaces1, dd, opt_of (lit '',''), spaces1, yy, Edge])
        (cats [Edge, dd, spaces1, m, spaces1, yy, Edge]))"

definition month_boundary :: "string \<Rightarrow> py_date \<Rightarrow> bool" where
  "month_boundary p d \<longleftrightarrow>
     py_endswith p ''.start_date'' \<and> day d = 1
     \<or> py_endswith p ''.end_date'' \<and> day d = month_days (year d) (month d)"

definition date_support :: "string \<Rightarrow> py_date \<Rightarrow> string \<Rightarrow> bool" where
  "date_support c d p \<longleftrightarrow>
     (let name = liti (month_names ! nat (month d)); abbr = Cat (liti (month_abbr ! nat (month d))) (opt_of (lit ''.''))
      in py_in (date_iso d) c \<or> found (day_month_re name d) c \<or> found (day_month_re abbr d) c
         \<or> month_boundary p d \<and> found (cats [Edge, Or name abbr, spaces1, lit (int_str (year d)), Edge]) c)"

section \<open>One record and one value\<close>

definition whole_text :: "(real \<Rightarrow> string) \<Rightarrow> truth_value \<Rightarrow> string" where
  "whole_text fs v = (case v of VFloat r \<Rightarrow> num_text fs (Floating r) | _ \<Rightarrow> value_str fs v)"

fun content_support :: "(real \<Rightarrow> string) \<Rightarrow> truth_value \<Rightarrow> string \<Rightarrow> evidence_record \<Rightarrow> string \<Rightarrow> bool" where
  "content_support fs VNone c r p = True"
| "content_support fs (VText s) c r p = text_support fs s c r p"
| "content_support fs (VDate d) c r p = date_support c d p"
| "content_support fs (VItems vs) c r p = list_all (\<lambda>v. content_support fs v c r p) vs"
| "content_support fs v c r p = number_support (whole_text fs v) c"

definition single_record_supports_value ::
  "(real \<Rightarrow> string) \<Rightarrow> truth_value \<Rightarrow> evidence_record \<Rightarrow> string \<Rightarrow> string \<Rightarrow> bool" where
  "single_record_supports_value fs v r p s \<longleftrightarrow>
     v = VNone
     \<or> ev_status r \<noteq> EXPLICIT_NULL
       \<and> (case ev_content r of
            None \<Rightarrow> False
          | Some c \<Rightarrow> is_text c \<and> \<not> out_of_scope fs r p s \<and> content_support fs v c r p)"

definition is_value_supported_by_evidence ::
  "(real \<Rightarrow> string) \<Rightarrow> truth_value \<Rightarrow> evidence_record list \<Rightarrow> string \<Rightarrow> string \<Rightarrow> bool" where
  "is_value_supported_by_evidence fs v rs p s \<longleftrightarrow>
     (if v = VNone then True
      else if rs = [] then False
      else if list_all (\<lambda>r. ev_status r = EXPLICIT_NULL) rs then False
      else (let one = (\<lambda>w. list_ex (\<lambda>r. single_record_supports_value fs w r p s) rs) in
            case v of VItems vs \<Rightarrow> list_all one vs | _ \<Rightarrow> one v))"

section \<open>Metrics in a text\<close>

definition clause_split :: re where
  "clause_split = Or (Ch (\<lambda>c. c \<in> {CHR '','', CHR '';'', CHR ''.'', CHR 0x0A}))
     (cats [Edge, any_of [liti ''and'', liti ''while'', liti ''whereas'', liti ''but'', liti ''although''], Edge])"

definition clause_context :: "string \<Rightarrow> nat \<Rightarrow> nat \<Rightarrow> string" where
  "clause_context text a b =
     (let delims = re_finditer_at clause_split (take a text);
          start = (case rev delims of [] \<Rightarrow> 0 | (i, m, _) # _ \<Rightarrow> i + length m);
          stop = (case re_start clause_split (drop b text) of None \<Rightarrow> length text | Some k \<Rightarrow> b + k)
      in take (stop - start) (drop start text))"

definition unit_re :: re where
  "unit_re = any_of ([lit ''%'', Cat (liti ''x'') Edge]
     @ map (\<lambda>w. Cat (liti w) (opt_of (liti ''s'')))
         [''hour'', ''day'', ''week'', ''month'', ''user'', ''client'', ''project'', ''ticket'', ''engagement'', ''request'',
          ''second'', ''minute'']
     @ [liti ''USD'', liti ''EUR'', liti ''GBP''])"

definition digits1 :: re where "digits1 = plus_of (Ch py_isdigit)"

text \<open>The pattern has three groups; \<open>metric_pattern k\<close> captures the group of number \<open>k\<close> only.\<close>

definition metric_pattern :: "nat \<Rightarrow> re" where
  "metric_pattern k =
     (let cap = (\<lambda>i e. if i = k then Cap e else e) in
      cats [NotBehind (\<lambda>c. py_isword c \<or> c = CHR ''-''),
        opt_of (Cat (cap 0 (lit ''$'')) spaces),
        cap 1 (Cat digits1 (opt_of (Cat (Ch (\<lambda>c. c = CHR ''.'' \<or> c = CHR '','')) digits1))),
        opt_of (Cat (Many (Ch (\<lambda>c. c = CHR ''-'' \<or> py_isspace c))) (cap 2 unit_re))])"

record metric_match =
  mm_start :: nat
  mm_text :: string
  mm_curr :: string
  mm_val :: string
  mm_unit :: string

definition metric_matches :: "string \<Rightarrow> metric_match list" where
  "metric_matches text =
     (let group = (\<lambda>k. re_finditer_at (metric_pattern k) text) in
      map (\<lambda>((i, m, c), (_, _, v), (_, _, u)). \<lparr>mm_start = i, mm_text = m, mm_curr = c, mm_val = v, mm_unit = u\<rparr>)
        (zip (group 0) (zip (group 1) (group 2))))"

text \<open>\<open>float(s) if "." in s else int(s)\<close> for the digits and the dot that the pattern admits.\<close>

definition read_number :: "string \<Rightarrow> number" where
  "read_number s =
     (if CHR ''.'' \<in> set s
      then (let a = takeWhile (\<lambda>c. c \<noteq> CHR ''.'') s; b = tl (dropWhile (\<lambda>c. c \<noteq> CHR ''.'') s)
            in Floating (of_nat (digits_value a) + of_nat (digits_value b) / 10 ^ length b))
      else Whole (int (digits_value s)))"

definition match_number :: "metric_match \<Rightarrow> string" where
  "match_number m = filter (\<lambda>c. c \<noteq> CHR '','') (mm_val m)"

definition match_unit :: "metric_match \<Rightarrow> string" where
  "match_unit m = py_strip (py_or (mm_unit m) (py_or (mm_curr m) ''count''))"

definition year_like :: "string \<Rightarrow> bool" where
  "year_like ds \<longleftrightarrow> length ds = 4 \<and> take 2 ds \<in> {''19'', ''20''}"

definition parse_metrics_with_context :: "string \<Rightarrow> (number \<times> string \<times> string) list" where
  "parse_metrics_with_context text =
     List.map_filter (\<lambda>m.
       let u = py_lower (match_unit m) in
       if year_like (filter py_isdigit (match_number m)) \<and> u = ''count'' then None
       else Some (read_number (match_number m), u,
              clause_context text (mm_start m) (mm_start m + length (mm_text m))))
     (metric_matches text)"

section \<open>Units and contexts\<close>

definition UNIT_EQUIVALENCE_CLASSES :: "string list list" where
  "UNIT_EQUIVALENCE_CLASSES =
     [[''%'', ''percent'', ''percentage'', ''pct''], [''$'', ''usd'', ''dollar'', ''dollars''], [''eur'', ''euro'', ''euros''],
      [''gbp'', ''pound'', ''pounds''], [''h'', ''hr'', ''hrs'', ''hour'', ''hours''], [''d'', ''day'', ''days''],
      [''wk'', ''wks'', ''week'', ''weeks''], [''mo'', ''mos'', ''month'', ''months''], [''yr'', ''yrs'', ''year'', ''years''],
      [''min'', ''mins'', ''minute'', ''minutes''], [''s'', ''sec'', ''secs'', ''second'', ''seconds''], [''user'', ''users''],
      [''client'', ''clients''], [''project'', ''projects''], [''ticket'', ''tickets''], [''request'', ''requests''],
      [''engagement'', ''engagements''], [''engineer'', ''engineers''], [''member'', ''members''], [''team'', ''teams''],
      [''count'', ''item'', ''items'', ''unit'', ''units''], [''x'', ''times'', ''fold'']]"

definition class_with :: "string \<Rightarrow> string list option" where
  "class_with u = find (\<lambda>c. u \<in> set c) UNIT_EQUIVALENCE_CLASSES"

definition canonical_unit_class :: "string \<Rightarrow> string list" where
  "canonical_unit_class unit =
     (let u = py_lower (py_strip unit); singular = butlast u in
      case class_with u of
        Some c \<Rightarrow> c
      | None \<Rightarrow> if py_endswith u ''s'' \<and> length u > 3
                then (case class_with singular of Some c \<Rightarrow> c | None \<Rightarrow> [u, singular])
                else [u, u @ ''s''])"

definition units_compatible :: "string \<Rightarrow> string \<Rightarrow> bool" where
  "units_compatible a b \<longleftrightarrow>
     (let ua = py_lower (py_strip a); ub = py_lower (py_strip b) in
      ua = ub \<or> set (canonical_unit_class ua) = set (canonical_unit_class ub))"

definition INCREASE_WORDS :: "string list" where
  "INCREASE_WORDS = [''increased'', ''increase'', ''increasing'', ''growth'', ''grew'', ''boosted'', ''boost'', ''rose'', ''rise'', ''rising'']"

definition DECREASE_WORDS :: "string list" where
  "DECREASE_WORDS = [''decreased'', ''decrease'', ''decreasing'', ''fell'', ''fall'', ''fallen'', ''falling'', ''dropped'', ''drop'',
     ''dropping'', ''reduced'', ''reduce'', ''reducing'', ''reduction'', ''cut'', ''saved'', ''savings'']"

definition GENERIC_METRIC_FILLER :: "string list" where
  "GENERIC_METRIC_FILLER = [
     ''a'', ''an'', ''and'', ''or'', ''of'', ''in'', ''at'', ''to'', ''for'', ''with'', ''on'', ''by'', ''from'',
     ''the'', ''is'', ''was'', ''were'', ''as'', ''into'', ''onto'', ''via'', ''using'', ''that'', ''this'',
     ''these'', ''those'', ''over'', ''under'', ''than'', ''per'', ''about'', ''approximately'', ''nearly'',
     ''roughly'', ''around'', ''least'', ''most'', ''up'', ''such'',
     ''increased'', ''increase'', ''increasing'', ''decreased'', ''decrease'', ''decreasing'',
     ''fell'', ''fall'', ''fallen'', ''falling'', ''dropped'', ''drop'', ''dropping'',
     ''reduced'', ''reduce'', ''reducing'', ''reduction'', ''improved'', ''improve'', ''improving'', ''improvement'',
     ''grew'', ''grow'', ''growing'', ''growth'', ''cut'', ''cutting'', ''boosted'', ''boost'', ''boosting'',
     ''rose'', ''rise'', ''rising'', ''saved'', ''save'', ''saving'', ''savings'',
     ''built'', ''delivered'', ''processed'', ''managed'', ''generated'', ''achieved'', ''attained'',
     ''scaled'', ''handled'', ''led'', ''served'', ''earned'', ''made'', ''spent'',
     ''%'', ''percent'', ''percentage'', ''pct'', ''usd'', ''eur'', ''gbp'', ''count'', ''hour'', ''hours'',
     ''day'', ''days'', ''week'', ''weeks'', ''month'', ''months'', ''year'', ''years'']"

definition meets :: "string list \<Rightarrow> string list \<Rightarrow> bool" where
  "meets xs ys \<longleftrightarrow> list_ex (\<lambda>x. x \<in> set ys) xs"

text \<open>One side only increases and the other only decreases.\<close>

definition opposite :: "string list \<Rightarrow> string list \<Rightarrow> bool" where
  "opposite m e \<longleftrightarrow> meets m INCREASE_WORDS \<and> meets e DECREASE_WORDS \<and> \<not> (meets m DECREASE_WORDS \<or> meets e INCREASE_WORDS)"

definition substantive :: "string \<Rightarrow> string list \<Rightarrow> string list" where
  "substantive n ts = words_minus (words_minus ts GENERIC_METRIC_FILLER) [n]"

definition said_in :: "string list \<Rightarrow> string \<Rightarrow> bool" where
  "said_in e t \<longleftrightarrow> t \<in> set e \<or> list_ex (\<lambda>u. py_in t u \<or> py_in u t) e"

definition topics_agree :: "string \<Rightarrow> string list \<Rightarrow> string list \<Rightarrow> string list \<Rightarrow> string list \<Rightarrow> bool" where
  "topics_agree n m e m_sub e_sub \<longleftrightarrow>
     (if m_sub \<noteq> [] then list_all (said_in e) m_sub
      else if e_sub \<noteq> [] then False
      else meets (words_minus (words_minus m STOP_WORDS) [n]) (words_minus (words_minus e STOP_WORDS) [n]))"

definition tokens_compatible :: "string \<Rightarrow> string list \<Rightarrow> string list \<Rightarrow> bool" where
  "tokens_compatible n m e \<longleftrightarrow>
     \<not> opposite m e \<and> \<not> opposite e m \<and> topics_agree n m e (substantive n m) (substantive n e)"

definition metric_contexts_compatible :: "(real \<Rightarrow> string) \<Rightarrow> string \<Rightarrow> string \<Rightarrow> number \<Rightarrow> bool" where
  "metric_contexts_compatible fs ctx ev x \<longleftrightarrow>
     is_text ctx \<and> is_text ev
     \<and> tokens_compatible (py_lower (num_text fs x)) (extract_tokens ctx) (extract_tokens ev)"

section \<open>Numbers in metadata\<close>

text \<open>
  \<open>float(v)\<close>, with \<open>None\<close> where it raises \<open>ValueError\<close> or \<open>TypeError\<close>. Text that denotes an infinity
  or no number yields \<open>None\<close> too: it equals no finite number, so the callers answer the same.
\<close>

definition digit_group :: "string \<Rightarrow> bool" where
  "digit_group s \<longleftrightarrow> s \<noteq> [] \<and> list_all (\<lambda>c. py_isdigit c \<or> c = CHR ''_'') s \<and> py_isdigit (hd s) \<and> py_isdigit (last s)
     \<and> \<not> py_in ''__'' s"

definition group_value :: "string \<Rightarrow> nat" where
  "group_value s = digits_value (filter py_isdigit s)"

definition signed :: "string \<Rightarrow> bool \<times> string" where
  "signed s = (case s of c # cs \<Rightarrow> if c = CHR ''-'' then (True, cs) else if c = CHR ''+'' then (False, cs) else (False, s)
               | [] \<Rightarrow> (False, s))"

definition read_mantissa :: "string \<Rightarrow> real option" where
  "read_mantissa s =
     (let a = takeWhile (\<lambda>c. c \<noteq> CHR ''.'') s; b = tl (dropWhile (\<lambda>c. c \<noteq> CHR ''.'') s); ok = (\<lambda>g. g = [] \<or> digit_group g)
      in if ok a \<and> ok b \<and> (a \<noteq> [] \<or> b \<noteq> [])
         then Some (of_nat (group_value a) + of_nat (group_value b) / 10 ^ length (filter py_isdigit b))
         else None)"

definition read_exponent :: "string \<Rightarrow> int option" where
  "read_exponent s =
     (if s = [] then Some 0
      else (case signed (tl s) of (neg, e) \<Rightarrow>
              if digit_group e then Some (if neg then - int (group_value e) else int (group_value e)) else None))"

definition read_float :: "string \<Rightarrow> real option" where
  "read_float text =
     (case signed (py_strip text) of (neg, s) \<Rightarrow>
        let is_e = (\<lambda>c. c = CHR ''e'' \<or> c = CHR ''E'')
        in case (read_mantissa (takeWhile (\<lambda>c. \<not> is_e c) s), read_exponent (dropWhile (\<lambda>c. \<not> is_e c) s)) of
             (Some x, Some e) \<Rightarrow>
               (let y = if e \<ge> 0 then x * 10 ^ nat e else x / 10 ^ nat (- e) in Some (if neg then - y else y))
           | _ \<Rightarrow> None)"

fun value_float :: "truth_value \<Rightarrow> real option" where
  "value_float (VBool b) = Some (if b then 1 else 0)"
| "value_float (VInt i) = Some (of_int i)"
| "value_float (VFloat r) = Some r"
| "value_float (VText s) = read_float s"
| "value_float _ = None"

end
