(* ===== verification/Truth_Graph.thy ===== *)
theory Truth_Graph
  imports Truth_Support Grouping "HOL-Library.AList"
begin

text \<open>
  \<open>truth/graph.py\<close>, class \<open>TruthGraph\<close>: evidence, assertions, relations, metrics and profiles, the
  operations that add them, the projection of a profile into assertions, and the queries.
  Dictionaries are association lists in insertion order. An operation returns the graph it leaves
  behind and the exception it raised, if any: a profile is committed before it is projected, so an
  exception of the projection leaves a changed graph. The warning-free \<open>MappingProxyType\<close> views are the
  fields themselves.
\<close>

section \<open>State\<close>

record graph_state =
  g_evidence :: "(string \<times> evidence_record) list"
  g_assertions :: "(string \<times> assertion) list"
  g_relations :: "(string \<times> graph_relation) list"
  g_metrics :: "(string \<times> metric) list"
  g_profiles :: "(string \<times> entity) list"
  g_entities :: "(string \<times> entity) list"
  g_entity_evidence :: "(string \<times> string list) list"
  g_evidence_entities :: "(string \<times> string list) list"
  g_identity :: "identity option"
  g_phrases :: "(string \<times> approved_phrase) list"
  g_pending :: "graph_relation list"

definition empty_graph :: "graph_relation list \<Rightarrow> graph_state" where
  "empty_graph pending = \<lparr>g_evidence = [], g_assertions = [], g_relations = [], g_metrics = [], g_profiles = [],
     g_entities = [], g_entity_evidence = [], g_evidence_entities = [], g_identity = None, g_phrases = [],
     g_pending = pending\<rparr>"

definition has :: "(string \<times> 'a) list \<Rightarrow> string \<Rightarrow> bool" where
  "has d k \<longleftrightarrow> map_of d k \<noteq> None"

lemma has_iff: "has d k \<longleftrightarrow> k \<in> fst ` set d"
  by (metis has_def map_of_eq_None_iff)

definition records_of :: "graph_state \<Rightarrow> string list \<Rightarrow> evidence_record list" where
  "records_of g ids = List.map_filter (map_of (g_evidence g)) ids"

type_synonym step_result = "graph_state \<times> py_exn option"

definition error :: "string \<Rightarrow> graph_state \<Rightarrow> step_result" where
  "error m g = (g, Some (ValueError m))"

fun run_steps :: "('s \<Rightarrow> graph_state \<Rightarrow> step_result) \<Rightarrow> 's list \<Rightarrow> graph_state \<Rightarrow> step_result" where
  "run_steps f [] g = (g, None)"
| "run_steps f (s # ss) g = (case f s g of (g', None) \<Rightarrow> run_steps f ss g' | (g', Some e) \<Rightarrow> (g', Some e))"

definition taken :: "graph_state \<Rightarrow> string \<Rightarrow> bool" where
  "taken g i \<longleftrightarrow> has (g_evidence g) i \<or> has (g_entities g) i \<or> has (g_assertions g) i \<or> has (g_relations g) i
     \<or> has (g_metrics g) i"

definition duplicate_id :: "string \<Rightarrow> string" where
  "duplicate_id i = ''duplicate graph node id: '' @ i"

section \<open>Evidence and assertions\<close>

definition add_evidence :: "evidence_record \<Rightarrow> graph_state \<Rightarrow> step_result" where
  "add_evidence r g =
     (if taken g (ev_id r) then error (duplicate_id (ev_id r)) g
      else (g\<lparr>g_evidence := AList.update (ev_id r) r (g_evidence g),
              g_evidence_entities := (if has (g_evidence_entities g) (ev_id r) then g_evidence_entities g
                                      else g_evidence_entities g @ [(ev_id r, [])])\<rparr>, None))"

definition unknown_evidence :: "graph_state \<Rightarrow> string list \<Rightarrow> string option" where
  "unknown_evidence g ids = find (\<lambda>i. \<not> has (g_evidence g) i) ids"

definition any_status :: "VerificationStatus \<Rightarrow> evidence_record list \<Rightarrow> bool" where
  "any_status s rs = list_ex (\<lambda>r. ev_status r = s) rs"

definition ids_repr :: "string list \<Rightarrow> string" where
  "ids_repr ids = tuple_text (map py_repr ids)"

text \<open>The guards of \<open>add_assertion\<close> on the evidence, each with the message it raises.\<close>

definition assertion_guards :: "(real \<Rightarrow> string) \<Rightarrow> assertion \<Rightarrow> evidence_record list \<Rightarrow> check list" where
  "assertion_guards fs a rs =
     (let verified = as_status a = VERIFIED; direct = as_type a = DIRECT_FACT; m = (\<lambda>t. ''assertion '' @ as_id a @ t) in
      [(verified \<longrightarrow> rs \<noteq> [], m '' is VERIFIED but has no evidence''),
       (verified \<longrightarrow> \<not> any_status UNVERIFIED rs, m '' cannot be VERIFIED when supported by UNVERIFIED evidence''),
       (verified \<longrightarrow> \<not> any_status EXPLICIT_NULL rs, m '' cannot be VERIFIED when supported by EXPLICIT_NULL evidence''),
       (verified \<longrightarrow> any_status APPROXIMATE rs \<longrightarrow> as_modality a \<noteq> DEFINITE,
        m '' cannot have DEFINITE modality when evidence is APPROXIMATE''),
       (direct \<longrightarrow> rs \<noteq> [], m '' is DIRECT_FACT but has no evidence''),
       (direct \<longrightarrow> \<not> list_ex (\<lambda>r. ev_type r \<in> {USER_ASSERTION, DERIVED_CAPABILITY}) rs,
        m '' cannot be DIRECT_FACT when supported by user assertion or derived capability''),
       (as_value a = VNone \<or> rs = [] \<or> is_value_supported_by_evidence fs (as_value a) rs (as_predicate a) (as_subject a),
        m ('' value '' @ value_repr fs (as_value a) @ '' is not supported by evidence '' @ ids_repr (as_evidence a)))])"

definition put_assertion :: "assertion \<Rightarrow> graph_state \<Rightarrow> graph_state" where
  "put_assertion a g = g\<lparr>g_assertions := AList.update (as_id a) a (g_assertions g)\<rparr>"

definition add_assertion :: "(real \<Rightarrow> string) \<Rightarrow> assertion \<Rightarrow> graph_state \<Rightarrow> step_result" where
  "add_assertion fs a g =
     (if has (g_assertions g) (as_id a) then error (''duplicate assertion id: '' @ as_id a) g
      else if taken g (as_id a) then error (duplicate_id (as_id a)) g
      else (case unknown_evidence g (as_evidence a) of
              Some e \<Rightarrow> error (''assertion '' @ as_id a @ '' references unknown evidence: '' @ e) g
            | None \<Rightarrow>
                (case find (\<lambda>(ok, _). \<not> ok) (assertion_guards fs a (records_of g (as_evidence a))) of
                   Some (_, m) \<Rightarrow> error m g
                 | None \<Rightarrow> (put_assertion a g, None))))"

section \<open>Relations\<close>

definition valid_node :: "graph_state \<Rightarrow> string \<Rightarrow> bool" where
  "valid_node g i \<longleftrightarrow> has (g_entities g) i \<or> has (g_evidence g) i \<or> has (g_assertions g) i \<or> has (g_profiles g) i
     \<or> has (g_metrics g) i \<or> list_ex (\<lambda>(_, a). as_subject a = i) (g_assertions g)
     \<or> list_ex (\<lambda>(_, m). mt_subject m = i) (g_metrics g)"

definition put_relation :: "graph_relation \<Rightarrow> graph_state \<Rightarrow> graph_state" where
  "put_relation r g = g\<lparr>g_relations := AList.update (rel_id r) r (g_relations g)\<rparr>"

definition add_relation :: "graph_relation \<Rightarrow> graph_state \<Rightarrow> step_result" where
  "add_relation r g =
     (let m = (\<lambda>t. ''relation '' @ rel_id r @ t); rs = records_of g (rel_evidence r) in
      if has (g_relations g) (rel_id r) then error (''duplicate relation id: '' @ rel_id r) g
      else if taken g (rel_id r) then error (duplicate_id (rel_id r)) g
      else (case unknown_evidence g (rel_evidence r) of
              Some e \<Rightarrow> error (m ('' references unknown evidence: '' @ e)) g
            | None \<Rightarrow>
                if \<not> valid_node g (rel_source r) \<or> \<not> valid_node g (rel_target r)
                then error (m ('' references nonexistent source '' @ quoted (rel_source r) @ '' or target '' @ quoted (rel_target r))) g
                else if rel_status r = VERIFIED \<and> rs = [] then error (m '' is VERIFIED but has no evidence'') g
                else if rel_status r = VERIFIED \<and> any_status UNVERIFIED rs
                then error (m '' cannot be VERIFIED when supported by UNVERIFIED evidence'') g
                else (put_relation r g, None)))"

section \<open>Metrics\<close>

definition locator_names :: "evidence_record \<Rightarrow> string \<Rightarrow> bool" where
  "locator_names r s \<longleftrightarrow>
     (let loc = py_strip (ev_locator r) in
      loc = s \<or> prefix (s @ ''.'') loc \<or> suffix (CHR ''.'' # s) loc
      \<or> s \<in> set (py_split (CHR ''.'') loc))"

definition touches :: "string \<Rightarrow> string \<Rightarrow> graph_relation \<Rightarrow> bool" where
  "touches s e r \<longleftrightarrow> (rel_source r = s \<or> rel_target r = s) \<and> e \<in> set (rel_evidence r)"

definition is_subject_proven_for_metric :: "(real \<Rightarrow> string) \<Rightarrow> metric \<Rightarrow> evidence_record \<Rightarrow> graph_state \<Rightarrow> bool" where
  "is_subject_proven_for_metric fs m r g \<longleftrightarrow>
     (let s = mt_subject m; e = ev_id r in
      s = []
      \<or> ev_metadata r \<noteq> [] \<and> (truthy (meta_subject r) \<and> value_str fs (meta_subject r) = s \<or> has (ev_metadata r) s)
      \<or> ev_locator r \<noteq> [] \<and> locator_names r s
      \<or> (case map_of (g_entity_evidence g) s of None \<Rightarrow> False | Some es \<Rightarrow> e \<in> set es)
      \<or> (case map_of (g_entities g) s of None \<Rightarrow> False | Some n \<Rightarrow> e \<in> set (entity_evidence n))
      \<or> list_ex (\<lambda>(_, a). as_subject a = s \<and> e \<in> set (as_evidence a)) (g_assertions g)
      \<or> list_ex (\<lambda>(_, q). touches s e q) (g_relations g)
      \<or> list_ex (touches s e) (g_pending g))"

definition metadata_agrees :: "(real \<Rightarrow> string) \<Rightarrow> metric \<Rightarrow> evidence_record \<Rightarrow> string \<Rightarrow> bool" where
  "metadata_agrees fs m r c \<longleftrightarrow>
     (let v = v_or (meta r ''numeric_value'') (meta r ''value''); u = meta r ''unit''; x = meta r ''context'' in
      \<not> (truthy (meta_subject r) \<and> mt_subject m \<noteq> [] \<and> meta_subject r \<noteq> VText (mt_subject m))
      \<and> (v = VNone \<or> value_float v = Some (num_real (mt_value m)))
      \<and> (u = VNone \<or> units_compatible (mt_unit m) (value_str fs u))
      \<and> (x = VNone \<or> metric_contexts_compatible fs (mt_context m) (value_str fs x) (mt_value m)))"

definition metric_reading :: "(real \<Rightarrow> string) \<Rightarrow> metric \<Rightarrow> number \<times> string \<times> string \<Rightarrow> bool" where
  "metric_reading fs m = (\<lambda>(v, u, ctx).
     num_real v = num_real (mt_value m) \<and> units_compatible (mt_unit m) u
     \<and> metric_contexts_compatible fs (mt_context m) ctx (mt_value m)
     \<and> \<not> (found bound_at_most ctx \<and> mt_modality m \<in> {DEFINITE, AT_LEAST})
     \<and> \<not> (found conditional_re ctx \<and> mt_modality m = DEFINITE))"

definition single_record_supports_metric :: "(real \<Rightarrow> string) \<Rightarrow> metric \<Rightarrow> evidence_record \<Rightarrow> graph_state \<Rightarrow> bool" where
  "single_record_supports_metric fs m r g \<longleftrightarrow>
     ev_status r \<notin> {UNVERIFIED, EXPLICIT_NULL}
     \<and> \<not> (ev_status r = APPROXIMATE \<and> mt_modality m = DEFINITE)
     \<and> (case ev_content r of
          None \<Rightarrow> False
        | Some c \<Rightarrow> is_text c \<and> is_subject_proven_for_metric fs m r g
            \<and> (ev_metadata r \<noteq> [] \<longrightarrow> metadata_agrees fs m r c)
            \<and> list_ex (metric_reading fs m) (parse_metrics_with_context c))"

definition put_metric :: "metric \<Rightarrow> graph_state \<Rightarrow> graph_state" where
  "put_metric m g = g\<lparr>g_metrics := AList.update (mt_id m) m (g_metrics g)\<rparr>"

definition metric_id_clash :: "metric \<Rightarrow> graph_state \<Rightarrow> string option" where
  "metric_id_clash m g =
     (case map_of (g_metrics g) (mt_id m) of
        Some old \<Rightarrow> if mt_status old \<noteq> METRIC_UNAVAILABLE then Some (''duplicate metric assertion id: '' @ mt_id m) else None
      | None \<Rightarrow> if taken g (mt_id m) then Some (duplicate_id (mt_id m)) else None)"

definition number_repr :: "(real \<Rightarrow> string) \<Rightarrow> number \<Rightarrow> string" where
  "number_repr fs x = value_repr fs (num_value x)"

definition add_metric_assertion :: "(real \<Rightarrow> string) \<Rightarrow> metric \<Rightarrow> graph_state \<Rightarrow> step_result" where
  "add_metric_assertion fs m g =
     (let t = (\<lambda>x. ''metric assertion '' @ mt_id m @ x); rs = records_of g (mt_evidence m); verified = mt_status m = METRIC_VERIFIED in
      case metric_id_clash m g of
        Some msg \<Rightarrow> error msg g
      | None \<Rightarrow>
          (case unknown_evidence g (mt_evidence m) of
             Some e \<Rightarrow> error (t ('' references unknown evidence: '' @ e)) g
           | None \<Rightarrow>
               if verified \<and> rs = [] then error (t '' is VERIFIED but has no evidence'') g
               else if verified \<and> any_status UNVERIFIED rs
               then error (t '' cannot be VERIFIED when supported by UNVERIFIED evidence'') g
               else if verified \<and> \<not> list_ex (\<lambda>r. single_record_supports_metric fs m r g) rs
               then error (t ('' (value='' @ number_repr fs (mt_value m) @ '', unit='' @ mt_unit m @ '', context='' @ py_repr (mt_context m)
                              @ '') is not supported by evidence '' @ ids_repr (mt_evidence m))) g
               else (put_metric m g, None)))"

section \<open>Construction\<close>

definition new_graph ::
  "(real \<Rightarrow> string) \<Rightarrow> evidence_record list \<Rightarrow> assertion list \<Rightarrow> graph_relation list \<Rightarrow> metric list \<Rightarrow> graph_state result" where
  "new_graph fs evs as rels ms =
     (case run_steps add_evidence evs (empty_graph rels) of
        (_, Some e) \<Rightarrow> Inl e
      | (g1, None) \<Rightarrow>
     (case run_steps (add_assertion fs) as g1 of
        (_, Some e) \<Rightarrow> Inl e
      | (g2, None) \<Rightarrow>
     (case run_steps (add_metric_assertion fs) ms g2 of
        (_, Some e) \<Rightarrow> Inl e
      | (g3, None) \<Rightarrow>
     (case run_steps add_relation rels g3 of
        (_, Some e) \<Rightarrow> Inl e
      | (g4, None) \<Rightarrow> Inr (g4\<lparr>g_pending := []\<rparr>)))))"

section \<open>Walking a profile\<close>

definition walk_profile :: "entity \<Rightarrow> entity list" where
  "walk_profile p = p #
     (case p of
        Career c \<Rightarrow>
          concat (map (\<lambda>e. Employment e # map Achievement (emp_achievements e)) (cp_employment c))
          @ map Education (cp_education c) @ map Certification (cp_certifications c) @ map Skill (cp_skills c)
          @ map Language (cp_languages c) @ map Authorization (cp_authorizations c)
          @ map RedLine (cp_red_lines c) @ map NeverClaim (cp_never_claims c)
      | Capability c \<Rightarrow>
          map Service (bp_services c) @ map Portfolio (bp_portfolio c)
          @ (case bp_capacity c of None \<Rightarrow> [] | Some k \<Rightarrow> [Capacity k]) @ map Skill (bp_tools c)
          @ map RedLine (bp_red_lines c) @ map NeverClaim (bp_never_claims c)
      | _ \<Rightarrow> [])"

text \<open>
  Validation and projection visit the fields of the manifest in the same order, nested entities in
  place. \<open>steps_of\<close> lists what they do: a material field of an entity, the relation between an
  employment and an achievement after the achievement's own fields, the metrics in a text after all
  fields of its entity.
\<close>

datatype projection_step =
    FieldStep entity field_spec
  | RelationStep employment achievement
  | MetricStep string string "string list"

definition children_of :: "entity \<Rightarrow> field_spec \<Rightarrow> entity list" where
  "children_of e s = (case attribute_of e (fs_field s) of Some (Nodes ns) \<Rightarrow> ns | _ \<Rightarrow> [])"

definition wiring :: "entity \<Rightarrow> entity \<Rightarrow> projection_step list" where
  "wiring e c = (case (e, c) of (Employment x, Achievement y) \<Rightarrow> [RelationStep x y] | _ \<Rightarrow> [])"

definition metric_steps :: "entity \<Rightarrow> projection_step list" where
  "metric_steps e =
     (case e of
        Achievement a \<Rightarrow> [MetricStep (ach_id a) (ach_statement a) (ach_evidence a)]
      | Portfolio p \<Rightarrow>
          MetricStep (pf_id p) (pf_summary p) (pf_evidence p)
          # (case pf_outcome p of
               Some t \<Rightarrow> if t = [] then [] else [MetricStep (pf_id p) t (pf_evidence p)]
             | None \<Rightarrow> [])
      | _ \<Rightarrow> [])"

fun rank :: "entity \<Rightarrow> nat" where
  "rank (Career c) = 2"
| "rank (Capability c) = 2"
| "rank (Employment e) = 1"
| "rank e = 0"

lemma children_rank:
  assumes "c \<in> set (children_of e s)"
  shows "rank c < rank e"
proof -
  from assms obtain ns where n: "attribute_of e (fs_field s) = Some (Nodes ns)" "c \<in> set ns"
    by (cases "attribute_of e (fs_field s)") (auto simp: children_of_def split: attribute.splits)
  then have "(fs_field s, Nodes ns) \<in> set (attributes e)" by (simp add: attribute_of_def map_of_SomeD)
  with n(2) show ?thesis
    by (cases e) (auto simp: opt_text_def opt_date_def opt_number_def split: option.splits)
qed

function steps_of :: "entity \<Rightarrow> projection_step list" where
  "steps_of e =
     concat (map (\<lambda>s. if fs_nested s then concat (map (\<lambda>c. steps_of c @ wiring e c) (children_of e s))
                      else [FieldStep e s]) (specs_of e))
     @ metric_steps e"
  by pat_completeness auto
termination by (relation "measure rank") (auto dest: children_rank)

declare steps_of.simps [simp del]

definition material_fields :: "entity \<Rightarrow> (entity \<times> field_spec) list" where
  "material_fields e = List.map_filter (\<lambda>s. case s of FieldStep n f \<Rightarrow> Some (n, f) | _ \<Rightarrow> None) (steps_of e)"

section \<open>Validation of material fields\<close>

definition absent :: "attribute option \<Rightarrow> bool" where
  "absent a \<longleftrightarrow> a = Some (Scalar VNone) \<or> a = Some (Items [])"

definition field_values :: "field_spec \<Rightarrow> attribute option \<Rightarrow> truth_value list" where
  "field_values s a =
     (case a of
        Some (Scalar v) \<Rightarrow> [v]
      | Some (Items vs) \<Rightarrow> if fs_collection s then vs else [VItems vs]
      | _ \<Rightarrow> [])"

definition linked_records :: "(string \<times> string list) list \<Rightarrow> graph_state \<Rightarrow> entity \<Rightarrow> string list" where
  "linked_records links g e = (case map_of links (entity_id e) of None \<Rightarrow> [] | Some ids \<Rightarrow> if entity_id e = [] then [] else ids)"

definition field_error ::
  "(real \<Rightarrow> string) \<Rightarrow> (string \<times> string list) list \<Rightarrow> graph_state \<Rightarrow> entity \<times> field_spec \<Rightarrow> string option" where
  "field_error fs links g = (\<lambda>(e, s).
     let a = attribute_of e (fs_field s); ids = linked_records links g e; p = fs_predicate s in
     if absent a then (if fs_optional s then None else Some (''field '' @ p @ '' is required on '' @ entity_id e))
     else map_option (\<lambda>v. ''field '' @ p @ '' '' @ quoted (value_str fs v) @ '' is not supported by evidence: '' @ py_join '', '' ids)
            (find (\<lambda>v. \<not> is_value_supported_by_evidence fs v (records_of g ids) p (entity_id e)) (field_values s a)))"

definition validate_entity_manifest ::
  "(real \<Rightarrow> string) \<Rightarrow> (string \<times> string list) list \<Rightarrow> graph_state \<Rightarrow> entity \<Rightarrow> string option" where
  "validate_entity_manifest fs links g e =
     (case List.map_filter (field_error fs links g) (material_fields e) of [] \<Rightarrow> None | m # _ \<Rightarrow> Some m)"

section \<open>Epistemic status of projected assertions\<close>

fun type_priority :: "AssertionType \<Rightarrow> nat" where
  "type_priority PROHIBITED_CLAIM = 0"
| "type_priority UNSUPPORTED_CLAIM = 1"
| "type_priority USER_ASSERTION = 2"
| "type_priority DERIVED_CAPABILITY = 3"
| "type_priority NORMALIZED_FACT = 4"
| "type_priority DIRECT_FACT = 5"

definition weaker_type :: "AssertionType \<Rightarrow> evidence_record \<Rightarrow> AssertionType" where
  "weaker_type t r = (if type_priority (ev_type r) < type_priority t then ev_type r else t)"

definition weakest_status :: "evidence_record list \<Rightarrow> VerificationStatus" where
  "weakest_status rs =
     (if any_status EXPLICIT_NULL rs then EXPLICIT_NULL
      else if any_status UNVERIFIED rs then UNVERIFIED
      else if any_status APPROXIMATE rs then APPROXIMATE
      else VERIFIED)"

definition combined_text :: "evidence_record list \<Rightarrow> string" where
  "combined_text rs = py_join '' '' (map (\<lambda>r. case ev_content r of None \<Rightarrow> [] | Some c \<Rightarrow> c) rs)"

definition text_modality :: "string \<Rightarrow> VerificationStatus \<Rightarrow> Modality" where
  "text_modality t s =
     (if found bound_at_most t then AT_MOST
      else if found bound_at_least t then AT_LEAST
      else if found conditional_re t then CONDITIONAL
      else if s = APPROXIMATE then APPROXIMATE_MODALITY
      else DEFINITE)"

definition derive_epistemic_status ::
  "graph_state \<Rightarrow> string list \<Rightarrow> AssertionType \<Rightarrow> AssertionType \<times> VerificationStatus \<times> Polarity \<times> Modality" where
  "derive_epistemic_status g ids t0 =
     (let rs = records_of g ids; t = combined_text rs in
      if rs = [] then (UNSUPPORTED_CLAIM, UNVERIFIED, POSITIVE, DEFINITE)
      else (foldl weaker_type t0 rs, weakest_status rs,
            if found negative_markers t then NEGATIVE else POSITIVE, text_modality t (weakest_status rs)))"

section \<open>Projection\<close>

definition projected_id :: "(real \<Rightarrow> string) \<Rightarrow> string \<Rightarrow> string \<Rightarrow> truth_value \<Rightarrow> string" where
  "projected_id fs s p v =
     ''as_'' @ s @ ''_'' @ py_replace (CHR ''.'') (CHR ''_'') p @ ''_''
     @ take 32 (py_replace (CHR '' '') (CHR ''_'') (if v = VNone then ''null'' else value_str fs v))"

definition field_evidence :: "(real \<Rightarrow> string) \<Rightarrow> graph_state \<Rightarrow> string \<Rightarrow> string \<Rightarrow> truth_value \<Rightarrow> string list \<Rightarrow> string list" where
  "field_evidence fs g s p v ids =
     (let keep = (\<lambda>i. case map_of (g_evidence g) i of
                        None \<Rightarrow> False
                      | Some r \<Rightarrow> if v = VNone then ev_status r = EXPLICIT_NULL
                                  else single_record_supports_value fs v r p s);
          some = filter keep ids
      in if some = [] then ids else some)"

record projection =
  pr_default :: AssertionType
  pr_force :: "Modality option"
  pr_from :: "py_date option"
  pr_to :: "py_date option"

definition project_field_assertion ::
  "(real \<Rightarrow> string) \<Rightarrow> string \<Rightarrow> string \<Rightarrow> truth_value \<Rightarrow> string list \<Rightarrow> projection \<Rightarrow> graph_state \<Rightarrow> step_result" where
  "project_field_assertion fs s p v ids pr g =
     (let i = projected_id fs s p v; used = field_evidence fs g s p v ids in
      if has (g_assertions g) i then (g, None)
      else (case derive_epistemic_status g used (pr_default pr) of (t, st, po, mo) \<Rightarrow>
        (case validated assertion_checks
                \<lparr>as_id = i, as_subject = s, as_predicate = p, as_value = v, as_type = t, as_status = st, as_evidence = used,
                 as_polarity = po, as_modality = (case pr_force pr of None \<Rightarrow> mo | Some m \<Rightarrow> m), as_qualifiers = [],
                 as_from = pr_from pr, as_to = pr_to pr, as_supersedes = [], as_conflicts = []\<rparr> of
           Inl e \<Rightarrow> (g, Some e)
         | Inr a \<Rightarrow> (put_assertion a g, None))))"

definition date_attribute :: "entity \<Rightarrow> string list \<Rightarrow> py_date option" where
  "date_attribute e names =
     (case List.map_filter (\<lambda>f. case attribute_of e f of Some (Scalar (VDate d)) \<Rightarrow> Some d | _ \<Rightarrow> None) names of
        [] \<Rightarrow> None
      | d # _ \<Rightarrow> Some d)"

definition projection_of :: "entity \<Rightarrow> projection" where
  "projection_of e =
     \<lparr>pr_default = (if class_of e \<in> {CapabilityProfile, ServiceRecord} then DERIVED_CAPABILITY else DIRECT_FACT),
      pr_force = (case e of Certification c \<Rightarrow> Some (if cert_state c = CERT_PLANNED then PLANNED else DEFINITE) | _ \<Rightarrow> None),
      pr_from = date_attribute e [''start_date'', ''issued_date'', ''available_from''],
      pr_to = date_attribute e [''end_date'', ''expiry_date'']\<rparr>"

text \<open>\<open>predicate.replace("skill.", "tool.")\<close> for a skill listed as a tool; every predicate of a skill starts so.\<close>

definition projected_predicate :: "entity \<Rightarrow> field_spec \<Rightarrow> string" where
  "projected_predicate e s =
     (if class_of e = SkillRecord \<and> prefix ''tool'' (entity_id e) \<and> prefix ''skill.'' (fs_predicate s)
      then ''tool.'' @ drop 6 (fs_predicate s) else fs_predicate s)"

definition project_field :: "(real \<Rightarrow> string) \<Rightarrow> entity \<Rightarrow> field_spec \<Rightarrow> graph_state \<Rightarrow> step_result" where
  "project_field fs e s g =
     (let a = attribute_of e (fs_field s); ids = entity_evidence e; pr = projection_of e in
      if absent a
      then (if list_ex (\<lambda>i. case map_of (g_evidence g) i of None \<Rightarrow> False | Some r \<Rightarrow> ev_status r = EXPLICIT_NULL) ids
            then project_field_assertion fs (py_or (entity_id e) (fs_predicate s)) (fs_predicate s) VNone ids pr g
            else (g, None))
      else (let p = projected_predicate e s in
            run_steps (\<lambda>v. project_field_assertion fs (py_or (entity_id e) p) p v ids pr) (field_values s a) g))"

definition establishes :: "(real \<Rightarrow> string) \<Rightarrow> employment \<Rightarrow> achievement \<Rightarrow> graph_state \<Rightarrow> bool" where
  "establishes fs emp ach g \<longleftrightarrow>
     list_ex (\<lambda>r. single_record_supports_value fs (VText (emp_organization emp)) r ''employment.organization'' (emp_id emp))
       (records_of g (ach_evidence ach))
     \<or> meets (ach_evidence ach) (emp_evidence emp)"

definition wire_relation :: "(real \<Rightarrow> string) \<Rightarrow> employment \<Rightarrow> achievement \<Rightarrow> graph_state \<Rightarrow> step_result" where
  "wire_relation fs emp ach g =
     (let i = ''rel_'' @ emp_id emp @ ''_'' @ ach_id ach in
      if has (g_relations g) i then (g, None)
      else (case (if establishes fs emp ach g
                  then (case derive_epistemic_status g (ach_evidence ach) DIRECT_FACT of (t, st, _) \<Rightarrow> (t, st))
                  else (USER_ASSERTION, UNVERIFIED)) of (t, st) \<Rightarrow>
        (case validated relation_checks
                \<lparr>rel_id = i, rel_source = emp_id emp, rel_type = ACHIEVED_DURING, rel_target = ach_id ach,
                 rel_evidence = ach_evidence ach, rel_assertion_type = t, rel_status = st,
                 rel_from = Some (emp_start emp), rel_to = emp_end emp\<rparr> of
           Inl e \<Rightarrow> (g, Some e)
         | Inr r \<Rightarrow> (put_relation r g, None))))"

definition note_metric :: "string \<Rightarrow> string \<Rightarrow> string list \<Rightarrow> nat \<times> metric_match \<Rightarrow> graph_state \<Rightarrow> step_result" where
  "note_metric s text ids = (\<lambda>(n, m) g.
     let i = ''metric_'' @ s @ ''_'' @ nat_str n in
     if has (g_metrics g) i then (g, None)
     else (case validated metric_checks
                  \<lparr>mt_id = i, mt_subject = s, mt_value = read_number (match_number m), mt_unit = match_unit m,
                   mt_context = take 100 text, mt_modality = DEFINITE, mt_status = METRIC_UNAVAILABLE, mt_evidence = ids\<rparr> of
             Inl e \<Rightarrow> (g, Some e)
           | Inr x \<Rightarrow> (put_metric x g, None)))"

definition extract_metrics_from_text :: "string \<Rightarrow> string \<Rightarrow> string list \<Rightarrow> graph_state \<Rightarrow> step_result" where
  "extract_metrics_from_text s text ids =
     run_steps (note_metric s text ids) (zip [0..<length (metric_matches text)] (metric_matches text))"

fun project_step :: "(real \<Rightarrow> string) \<Rightarrow> projection_step \<Rightarrow> graph_state \<Rightarrow> step_result" where
  "project_step fs (FieldStep e s) = project_field fs e s"
| "project_step fs (RelationStep emp ach) = wire_relation fs emp ach"
| "project_step fs (MetricStep s text ids) = extract_metrics_from_text s text ids"

definition project_entity_manifest :: "(real \<Rightarrow> string) \<Rightarrow> entity \<Rightarrow> graph_state \<Rightarrow> step_result" where
  "project_entity_manifest fs e = run_steps (project_step fs) (steps_of e)"

section \<open>Adding profiles, the identity and phrases\<close>

definition missing_evidence :: "graph_state \<Rightarrow> string list \<Rightarrow> string list" where
  "missing_evidence g ids = sort (remdups (filter (\<lambda>i. \<not> has (g_evidence g) i) ids))"

definition commit_node :: "entity \<Rightarrow> graph_state \<Rightarrow> graph_state" where
  "commit_node e g = g\<lparr>
     g_entities := AList.update (entity_id e) e (g_entities g),
     g_entity_evidence := AList.update (entity_id e) (entity_evidence e) (g_entity_evidence g),
     g_evidence_entities := fold (\<lambda>i. append_to i (entity_id e)) (entity_evidence e) (g_evidence_entities g)\<rparr>"

definition put_profile :: "entity \<Rightarrow> graph_state \<Rightarrow> graph_state" where
  "put_profile p g = g\<lparr>g_profiles := AList.update (entity_id p) p (g_profiles g)\<rparr>"

definition node_links :: "entity list \<Rightarrow> (string \<times> string list) list" where
  "node_links ns = map (\<lambda>n. (entity_id n, entity_evidence n)) ns"

definition add_profile :: "(real \<Rightarrow> string) \<Rightarrow> entity \<Rightarrow> graph_state \<Rightarrow> step_result" where
  "add_profile fs p g =
     (let ns = walk_profile p; collisions = filter (taken g) (map entity_id ns) in
      if \<not> distinct (map entity_id ns) then error ''profile contains duplicate entity ids'' g
      else if collisions \<noteq> [] then error (duplicate_id (hd (sort collisions))) g
      else (case find (\<lambda>n. missing_evidence g (entity_evidence n) \<noteq> []) ns of
              Some n \<Rightarrow> error (''node '' @ entity_id n @ '' references unknown evidence: ''
                               @ py_join '', '' (missing_evidence g (entity_evidence n))) g
            | None \<Rightarrow>
                (case validate_entity_manifest fs (node_links ns) g p of
                   Some m \<Rightarrow> error m g
                 | None \<Rightarrow> project_entity_manifest fs p (fold commit_node ns (put_profile p g)))))"

definition add_career_profile :: "(real \<Rightarrow> string) \<Rightarrow> career_profile \<Rightarrow> graph_state \<Rightarrow> step_result" where
  "add_career_profile fs p = add_profile fs (Career p)"

definition add_capability_profile :: "(real \<Rightarrow> string) \<Rightarrow> capability_profile \<Rightarrow> graph_state \<Rightarrow> step_result" where
  "add_capability_profile fs p = add_profile fs (Capability p)"

definition add_single ::
  "(real \<Rightarrow> string) \<Rightarrow> string \<Rightarrow> entity \<Rightarrow> (graph_state \<Rightarrow> graph_state) \<Rightarrow> graph_state \<Rightarrow> step_result" where
  "add_single fs name e register g =
     (if taken g (entity_id e) then error (duplicate_id (entity_id e)) g
      else if missing_evidence g (entity_evidence e) \<noteq> []
      then error (name @ '' references unknown evidence: '' @ py_join '', '' (missing_evidence g (entity_evidence e))) g
      else (case validate_entity_manifest fs (node_links [e]) g e of
              Some m \<Rightarrow> error m g
            | None \<Rightarrow> (case project_entity_manifest fs e (commit_node e g) of
                         (g', Some x) \<Rightarrow> (g', Some x)
                       | (g', None) \<Rightarrow> (register g', None))))"

definition add_identity :: "(real \<Rightarrow> string) \<Rightarrow> identity \<Rightarrow> graph_state \<Rightarrow> step_result" where
  "add_identity fs i g =
     (if g_identity g \<noteq> None then error ''duplicate identity: only one identity section is permitted per pack'' g
      else add_single fs ''identity'' (IdentityBlock i) (\<lambda>g. g\<lparr>g_identity := Some i\<rparr>) g)"

definition add_approved_phrase :: "(real \<Rightarrow> string) \<Rightarrow> approved_phrase \<Rightarrow> graph_state \<Rightarrow> step_result" where
  "add_approved_phrase fs p g =
     (if has (g_phrases g) (ap_id p) then error (''duplicate approved_phrase id: '' @ ap_id p) g
      else add_single fs (''approved_phrase '' @ ap_id p) (Phrase p)
             (\<lambda>g. g\<lparr>g_phrases := AList.update (ap_id p) p (g_phrases g)\<rparr>) g)"

section \<open>Queries\<close>

definition entity_ids_for_evidence :: "graph_state \<Rightarrow> string \<Rightarrow> string list result" where
  "entity_ids_for_evidence g i =
     (if has (g_evidence g) i
      then Inr (firsts (case map_of (g_evidence_entities g) i of None \<Rightarrow> [] | Some es \<Rightarrow> es))
      else Inl (KeyError (''unknown evidence id: '' @ i)))"

definition entities_for_evidence :: "graph_state \<Rightarrow> string \<Rightarrow> entity list result" where
  "entities_for_evidence g i =
     bind (entity_ids_for_evidence g i) (\<lambda>ids. Inr (List.map_filter (map_of (g_entities g)) ids))"

definition entities_of :: "graph_state \<Rightarrow> string \<Rightarrow> string list" where
  "entities_of g i = (case map_of (g_evidence_entities g) i of None \<Rightarrow> [] | Some es \<Rightarrow> es)"

definition is_profile :: "entity \<Rightarrow> bool" where
  "is_profile e \<longleftrightarrow> class_of e \<in> {CareerProfile, CapabilityProfile}"

definition root_entity :: "graph_state \<Rightarrow> string \<Rightarrow> bool" where
  "root_entity g i = (case map_of (g_entities g) i of None \<Rightarrow> False | Some e \<Rightarrow> is_profile e)"

definition verified_edge :: "graph_state \<Rightarrow> string \<Rightarrow> string \<Rightarrow> bool" where
  "verified_edge g a b \<longleftrightarrow>
     list_ex (\<lambda>(_, r). rel_status r = VERIFIED
       \<and> (rel_source r \<in> set (entities_of g a) \<and> rel_target r \<in> set (entities_of g b)
          \<or> rel_source r \<in> set (entities_of g b) \<and> rel_target r \<in> set (entities_of g a))) (g_relations g)"

fun all_pairs :: "('a \<Rightarrow> 'a \<Rightarrow> bool) \<Rightarrow> 'a list \<Rightarrow> bool" where
  "all_pairs P [] = True"
| "all_pairs P (x # xs) = (list_all (P x) xs \<and> all_pairs P xs)"

definition are_relationally_linked :: "graph_state \<Rightarrow> string list \<Rightarrow> bool" where
  "are_relationally_linked g ids =
     (case firsts ids of
        [] \<Rightarrow> True
      | [i] \<Rightarrow> True
      | i # is' \<Rightarrow>
          list_ex (\<lambda>e. \<not> root_entity g e \<and> list_all (\<lambda>j. e \<in> set (entities_of g j)) is') (entities_of g i)
          \<or> all_pairs (verified_edge g) (i # is'))"

definition in_force :: "py_date option \<Rightarrow> py_date option \<Rightarrow> py_date option \<Rightarrow> bool" where
  "in_force from until as_of =
     (case as_of of
        None \<Rightarrow> True
      | Some d \<Rightarrow> (case from of None \<Rightarrow> True | Some f \<Rightarrow> \<not> date_before d f)
                  \<and> (case until of None \<Rightarrow> True | Some u \<Rightarrow> \<not> date_before u d))"

definition asserted :: "assertion \<Rightarrow> py_date option \<Rightarrow> bool" where
  "asserted a as_of = in_force (as_from a) (as_to a) as_of"

definition all_assertions :: "graph_state \<Rightarrow> assertion list" where
  "all_assertions g = map snd (g_assertions g)"

definition hidden_ids :: "graph_state \<Rightarrow> py_date option \<Rightarrow> string list" where
  "hidden_ids g as_of =
     concat (map (\<lambda>a. as_supersedes a @ (if as_conflicts a = [] then [] else as_id a # as_conflicts a))
       (filter (\<lambda>a. asserted a as_of) (all_assertions g)))"

definition active_assertions :: "graph_state \<Rightarrow> py_date option \<Rightarrow> assertion list" where
  "active_assertions g as_of =
     filter (\<lambda>a. as_id a \<notin> set (hidden_ids g as_of) \<and> asserted a as_of) (all_assertions g)"

definition graph_evidence :: "graph_state \<Rightarrow> string \<Rightarrow> evidence_record result" where
  "graph_evidence g i =
     (case map_of (g_evidence g) i of None \<Rightarrow> Inl (KeyError (''unknown evidence id: '' @ i)) | Some r \<Rightarrow> Inr r)"

definition graph_entity :: "graph_state \<Rightarrow> string \<Rightarrow> entity result" where
  "graph_entity g i =
     (case map_of (g_entities g) i of None \<Rightarrow> Inl (KeyError (''unknown entity id: '' @ i)) | Some e \<Rightarrow> Inr e)"

text \<open>\<open>self._entity_evidence[i]\<close> and \<open>self._evidence[i]\<close>, which raise \<open>KeyError\<close> on a missing key.\<close>

definition lookup :: "(string \<times> 'a) list \<Rightarrow> string \<Rightarrow> 'a result" where
  "lookup d i = (case map_of d i of None \<Rightarrow> Inl (KeyError i) | Some x \<Rightarrow> Inr x)"

definition evidence_for :: "graph_state \<Rightarrow> string \<Rightarrow> bool \<Rightarrow> evidence_record list result" where
  "evidence_for g i recursive =
     bind (graph_entity g i) (\<lambda>e.
     bind (lookup (g_entity_evidence g) i) (\<lambda>own.
     bind (if recursive \<and> is_profile e
           then collect (map (\<lambda>n. lookup (g_entity_evidence g) (entity_id n)) (walk_profile e)) else Inr []) (\<lambda>more_ids.
     collect (map (lookup (g_evidence g)) (firsts (own @ concat more_ids))))))"

definition provenance :: "graph_state \<Rightarrow> string \<Rightarrow> (string \<times> evidence_record) list result" where
  "provenance g i =
     bind (graph_entity g i) (\<lambda>e.
     bind (collect (map (\<lambda>n. bind (lookup (g_entity_evidence g) (entity_id n)) (\<lambda>ids.
              collect (map (\<lambda>j. bind (lookup (g_evidence g) j) (\<lambda>r. Inr (entity_id n, r))) ids)))
            (if is_profile e then walk_profile e else [e]))) (\<lambda>edges. Inr (concat edges)))"

definition records_by_assertion :: "graph_state \<Rightarrow> AssertionType set \<Rightarrow> evidence_record list" where
  "records_by_assertion g ts = filter (\<lambda>r. ev_type r \<in> ts) (map snd (g_evidence g))"

definition fact_records :: "graph_state \<Rightarrow> evidence_record list" where
  "fact_records g = records_by_assertion g {DIRECT_FACT, NORMALIZED_FACT}"

definition inference_records :: "graph_state \<Rightarrow> evidence_record list" where
  "inference_records g = records_by_assertion g {DERIVED_CAPABILITY, USER_ASSERTION}"

definition assertions_for_subject :: "graph_state \<Rightarrow> string \<Rightarrow> assertion list" where
  "assertions_for_subject g s = filter (\<lambda>a. as_subject a = s) (all_assertions g)"

definition assertion_for_field :: "graph_state \<Rightarrow> string \<Rightarrow> string \<Rightarrow> assertion option" where
  "assertion_for_field g s p = find (\<lambda>a. as_subject a = s \<and> as_predicate a = p) (all_assertions g)"

definition all_relations :: "graph_state \<Rightarrow> graph_relation list" where
  "all_relations g = map snd (g_relations g)"

definition relations_for_source :: "graph_state \<Rightarrow> string \<Rightarrow> graph_relation list" where
  "relations_for_source g s = filter (\<lambda>r. rel_source r = s) (all_relations g)"

definition relations_between :: "graph_state \<Rightarrow> string \<Rightarrow> string \<Rightarrow> graph_relation list" where
  "relations_between g s t = filter (\<lambda>r. rel_source r = s \<and> rel_target r = t) (all_relations g)"

definition has_relation :: "graph_state \<Rightarrow> string \<Rightarrow> RelationType \<Rightarrow> string \<Rightarrow> py_date option \<Rightarrow> bool" where
  "has_relation g s k t as_of =
     list_ex (\<lambda>r. rel_source r = s \<and> rel_target r = t \<and> rel_type r = k \<and> rel_status r \<noteq> UNVERIFIED
        \<and> in_force (rel_from r) (rel_to r) as_of) (all_relations g)"

definition metric_assertions_for_evidence :: "graph_state \<Rightarrow> string \<Rightarrow> metric list" where
  "metric_assertions_for_evidence g i = filter (\<lambda>m. i \<in> set (mt_evidence m)) (map snd (g_metrics g))"

definition metric_assertions_for_subject :: "graph_state \<Rightarrow> string \<Rightarrow> metric list" where
  "metric_assertions_for_subject g s = filter (\<lambda>m. mt_subject m = s) (map snd (g_metrics g))"

fun metric_verification_of :: "entity \<Rightarrow> MetricVerification option" where
  "metric_verification_of (Achievement a) = Some (ach_metric a)"
| "metric_verification_of (Portfolio p) = Some (pf_metric p)"
| "metric_verification_of _ = None"

definition metric_status_for_evidence :: "graph_state \<Rightarrow> string \<Rightarrow> MetricVerification list result" where
  "metric_status_for_evidence g i =
     bind (collect (map (\<lambda>(n, _). lookup (g_entities g) n) (filter (\<lambda>(_, ids). i \<in> set ids) (g_entity_evidence g))))
       (\<lambda>es. Inr (List.map_filter metric_verification_of es))"

definition certification_records :: "graph_state \<Rightarrow> certification list" where
  "certification_records g =
     concat (map (\<lambda>(_, p). case p of Career c \<Rightarrow> cp_certifications c | _ \<Rightarrow> []) (g_profiles g))"

definition graph_rules :: "graph_state \<Rightarrow> red_line list \<times> never_claim list" where
  "graph_rules g =
     (concat (map (\<lambda>(_, p). case p of Career c \<Rightarrow> cp_red_lines c | Capability c \<Rightarrow> bp_red_lines c | _ \<Rightarrow> []) (g_profiles g)),
      concat (map (\<lambda>(_, p). case p of Career c \<Rightarrow> cp_never_claims c | Capability c \<Rightarrow> bp_never_claims c | _ \<Rightarrow> []) (g_profiles g)))"

end
