(* ===== verification/Truth_Invariant.thy ===== *)
theory Truth_Invariant
  imports Truth_Graph
begin

text \<open>
  The invariant of the truth graph and its preservation by every operation, also by one that ends
  with an exception: what an assertion, a relation or a metric states is covered by the evidence it
  names, and the index from evidence to entities is the converse of the one from entities to
  evidence.
\<close>

section \<open>Dictionaries and runs of steps\<close>

definition keyed :: "('a \<Rightarrow> string) \<Rightarrow> (string \<times> 'a) list \<Rightarrow> bool" where
  "keyed f d \<longleftrightarrow> distinct (map fst d) \<and> (\<forall>(k, x)\<in>set d. f x = k)"

lemma in_update: "kx \<in> set (AList.update k v d) \<Longrightarrow> kx = (k, v) \<or> kx \<in> set d"
  by (induction d) (auto split: if_splits)

lemma keyed_update: "keyed f d \<Longrightarrow> f x = k \<Longrightarrow> keyed f (AList.update k x d)"
  by (auto simp: keyed_def distinct_update dest: in_update)

lemma set_update_fresh: "\<not> has d k \<Longrightarrow> set (AList.update k v d) = insert (k, v) (set d)"
  by (induction d) (auto simp: has_def split: if_splits)

lemma has_update [simp]: "has (AList.update k v d) j \<longleftrightarrow> j = k \<or> has d j"
  by (auto simp: has_def update_conv')

lemma fresh_map_le: "\<not> has d k \<Longrightarrow> map_of d \<subseteq>\<^sub>m map_of (AList.update k v d)"
  by (auto simp: map_le_def update_conv' has_def dom_def)

lemma has_mono: "map_of d \<subseteq>\<^sub>m map_of d' \<Longrightarrow> has d i \<Longrightarrow> has d' i"
  by (auto simp: has_def map_le_def dom_def)

text \<open>A property that every step keeps, holds after a run, however it ends.\<close>

lemma run_steps_rule:
  assumes "P g" and "\<And>s h. s \<in> set ss \<Longrightarrow> P h \<Longrightarrow> P (fst (f s h))"
  shows "P (fst (run_steps f ss g))"
  using assms
proof (induction ss arbitrary: g)
  case (Cons s ss)
  obtain h e where h: "f s g = (h, e)" by (cases "f s g")
  have "P h" using Cons.prems(2) [of s g] Cons.prems(1) h by simp
  then have "P (fst (run_steps f ss h))" using Cons.IH [of h] Cons.prems(2) by simp
  with \<open>P h\<close> h show ?case by (cases e) simp_all
qed simp

definition recs :: "(string \<times> evidence_record) list \<Rightarrow> string list \<Rightarrow> evidence_record list" where
  "recs E ids = List.map_filter (map_of E) ids"

lemma records_of_recs: "records_of g ids = recs (g_evidence g) ids"
  by (simp add: records_of_def recs_def)

definition known :: "(string \<times> evidence_record) list \<Rightarrow> string list \<Rightarrow> bool" where
  "known E ids \<longleftrightarrow> (\<forall>i\<in>set ids. has E i)"

lemma known_mono: "map_of E \<subseteq>\<^sub>m map_of E' \<Longrightarrow> known E ids \<Longrightarrow> known E' ids"
  by (auto simp: known_def intro: has_mono)

lemma recs_mono: "map_of E \<subseteq>\<^sub>m map_of E' \<Longrightarrow> known E ids \<Longrightarrow> recs E' ids = recs E ids"
proof (induction ids)
  case (Cons i ids)
  then obtain r where r: "map_of E i = Some r" by (auto simp: known_def has_def)
  with Cons.prems(1) have "map_of E' i = Some r" by (metis map_le_def domI)
  with r Cons show ?case by (simp add: recs_def known_def)
qed (simp add: recs_def)

lemma recs_empty_iff: "known E ids \<Longrightarrow> recs E ids = [] \<longleftrightarrow> ids = []"
  by (cases ids) (auto simp: recs_def known_def has_def)

lemma in_recs: "r \<in> set (recs E ids) \<longleftrightarrow> (\<exists>i\<in>set ids. map_of E i = Some r)"
proof (induction ids)
  case (Cons i ids)
  then show ?case by (cases "map_of E i") (auto simp: recs_def)
qed (simp add: recs_def)

lemma any_status_iff: "any_status s rs \<longleftrightarrow> (\<exists>r\<in>set rs. ev_status r = s)"
  by (simp add: any_status_def list_ex_iff)

section \<open>The invariant\<close>

definition sound_assertion :: "(real \<Rightarrow> string) \<Rightarrow> (string \<times> evidence_record) list \<Rightarrow> assertion \<Rightarrow> bool" where
  "sound_assertion fs E a \<longleftrightarrow>
     known E (as_evidence a)
     \<and> (let rs = recs E (as_evidence a); skill = drop 5 (as_predicate a) in
        (as_status a = VERIFIED \<longrightarrow> rs \<noteq> [] \<and> \<not> any_status UNVERIFIED rs \<and> \<not> any_status EXPLICIT_NULL rs
           \<and> (any_status APPROXIMATE rs \<longrightarrow> as_modality a \<noteq> DEFINITE))
        \<and> (as_type a = DIRECT_FACT \<longrightarrow> rs \<noteq> [] \<and> (\<forall>r\<in>set rs. ev_type r \<notin> {USER_ASSERTION, DERIVED_CAPABILITY}))
        \<and> (as_value a \<noteq> VNone \<longrightarrow> rs \<noteq> [] \<longrightarrow>
             is_value_supported_by_evidence fs (as_value a) rs (as_predicate a) (as_subject a)
             \<or> prefix ''tool.'' (as_predicate a)
               \<and> is_value_supported_by_evidence fs (as_value a) rs (''skill.'' @ skill) (as_subject a)))"

definition sound_relation :: "(string \<times> evidence_record) list \<Rightarrow> graph_relation \<Rightarrow> bool" where
  "sound_relation E r \<longleftrightarrow>
     known E (rel_evidence r)
     \<and> (rel_status r = VERIFIED \<longrightarrow> rel_evidence r \<noteq> [] \<and> \<not> any_status UNVERIFIED (recs E (rel_evidence r)))"

definition sound_metric :: "(real \<Rightarrow> string) \<Rightarrow> graph_state \<Rightarrow> metric \<Rightarrow> bool" where
  "sound_metric fs g m \<longleftrightarrow>
     known (g_evidence g) (mt_evidence m)
     \<and> (mt_status m = METRIC_VERIFIED \<longrightarrow>
          \<not> any_status UNVERIFIED (recs (g_evidence g) (mt_evidence m))
          \<and> (\<exists>r\<in>set (recs (g_evidence g) (mt_evidence m)). single_record_supports_metric fs m r g))"

definition indexed :: "graph_state \<Rightarrow> bool" where
  "indexed g \<longleftrightarrow>
     fst ` set (g_entities g) = fst ` set (g_entity_evidence g)
     \<and> (\<forall>k ids. map_of (g_entity_evidence g) k = Some ids \<longrightarrow> known (g_evidence g) ids)
     \<and> (\<forall>i k. k \<in> set (entities_of g i) \<longleftrightarrow> (\<exists>ids. map_of (g_entity_evidence g) k = Some ids \<and> i \<in> set ids))"

definition wf_graph :: "(real \<Rightarrow> string) \<Rightarrow> graph_state \<Rightarrow> bool" where
  "wf_graph fs g \<longleftrightarrow>
     keyed ev_id (g_evidence g) \<and> keyed as_id (g_assertions g) \<and> keyed rel_id (g_relations g) \<and> keyed mt_id (g_metrics g)
     \<and> indexed g
     \<and> (\<forall>a\<in>set (all_assertions g). sound_assertion fs (g_evidence g) a)
     \<and> (\<forall>r\<in>set (all_relations g). sound_relation (g_evidence g) r)
     \<and> (\<forall>(k, m)\<in>set (g_metrics g). sound_metric fs g m)"

text \<open>What an operation may add: nothing recorded is changed, apart from metrics.\<close>

definition grows :: "graph_state \<Rightarrow> graph_state \<Rightarrow> bool" where
  "grows g h \<longleftrightarrow>
     map_of (g_evidence g) \<subseteq>\<^sub>m map_of (g_evidence h)
     \<and> map_of (g_entities g) \<subseteq>\<^sub>m map_of (g_entities h)
     \<and> map_of (g_entity_evidence g) \<subseteq>\<^sub>m map_of (g_entity_evidence h)
     \<and> set (g_assertions g) \<subseteq> set (g_assertions h)
     \<and> set (g_relations g) \<subseteq> set (g_relations h)
     \<and> set (g_pending g) \<subseteq> set (g_pending h) \<union> set (all_relations h)"

lemma grows_refl [simp]: "grows g g"
  by (simp add: grows_def)

lemma grows_trans:
  assumes gh: "grows g h" and hk: "grows h k"
  shows "grows g k"
proof -
  from hk have "set (all_relations h) \<subseteq> set (all_relations k)" by (auto simp: grows_def all_relations_def)
  with gh hk show ?thesis
    unfolding grows_def by (intro conjI) (blast intro: map_le_trans)+
qed

lemma subject_proven_mono:
  assumes p: "is_subject_proven_for_metric fs m r g" and gr: "grows g h"
  shows "is_subject_proven_for_metric fs m r h"
proof -
  have lift: "map_of d' k = Some x" if "map_of d \<subseteq>\<^sub>m map_of d'" "map_of d k = Some x" for d d' :: "(string \<times> 'b) list" and k x
    using that by (metis domI map_le_def)
  from p consider
      (local) "mt_subject m = [] \<or> ev_metadata r \<noteq> [] \<and> (truthy (meta_subject r) \<and> value_str fs (meta_subject r) = mt_subject m
          \<or> has (ev_metadata r) (mt_subject m)) \<or> ev_locator r \<noteq> [] \<and> locator_names r (mt_subject m)"
    | (link) es where "map_of (g_entity_evidence g) (mt_subject m) = Some es" "ev_id r \<in> set es"
    | (node) n where "map_of (g_entities g) (mt_subject m) = Some n" "ev_id r \<in> set (entity_evidence n)"
    | (fact) k a where "(k, a) \<in> set (g_assertions g)" "as_subject a = mt_subject m" "ev_id r \<in> set (as_evidence a)"
    | (edge) k q where "(k, q) \<in> set (g_relations g)" "touches (mt_subject m) (ev_id r) q"
    | (pend) q where "q \<in> set (g_pending g)" "touches (mt_subject m) (ev_id r) q"
    by (auto simp: is_subject_proven_for_metric_def Let_def list_ex_iff split: option.splits)
  then show ?thesis
  proof cases
    case local
    then show ?thesis by (auto simp: is_subject_proven_for_metric_def Let_def)
  next
    case (link es)
    with gr have "map_of (g_entity_evidence h) (mt_subject m) = Some es" by (auto simp: grows_def intro: lift)
    with link(2) show ?thesis by (simp add: is_subject_proven_for_metric_def Let_def)
  next
    case (node n)
    with gr have "map_of (g_entities h) (mt_subject m) = Some n" by (auto simp: grows_def intro: lift)
    with node(2) show ?thesis by (simp add: is_subject_proven_for_metric_def Let_def)
  next
    case (fact k a)
    with gr have "(k, a) \<in> set (g_assertions h)" by (auto simp: grows_def)
    with fact(2,3) show ?thesis by (auto simp: is_subject_proven_for_metric_def Let_def list_ex_iff)
  next
    case (edge k q)
    with gr have "(k, q) \<in> set (g_relations h)" by (auto simp: grows_def)
    with edge(2) show ?thesis by (auto simp: is_subject_proven_for_metric_def Let_def list_ex_iff)
  next
    case (pend q)
    with gr have "q \<in> set (g_pending h) \<or> q \<in> set (all_relations h)" by (auto simp: grows_def)
    with pend(2) show ?thesis
      by (auto simp: is_subject_proven_for_metric_def Let_def list_ex_iff all_relations_def)
  qed
qed

lemma metric_support_mono:
  "single_record_supports_metric fs m r g \<Longrightarrow> grows g h \<Longrightarrow> single_record_supports_metric fs m r h"
  by (auto simp: single_record_supports_metric_def split: option.splits intro: subject_proven_mono)

lemma sound_metric_mono: "sound_metric fs g m \<Longrightarrow> grows g h \<Longrightarrow> sound_metric fs h m"
  unfolding sound_metric_def
  by (auto simp: grows_def recs_mono known_mono intro: metric_support_mono [unfolded grows_def])

lemma sound_assertion_mono:
  "sound_assertion fs E a \<Longrightarrow> map_of E \<subseteq>\<^sub>m map_of E' \<Longrightarrow> sound_assertion fs E' a"
  unfolding sound_assertion_def by (simp only: recs_mono known_mono)

lemma sound_relation_mono: "sound_relation E r \<Longrightarrow> map_of E \<subseteq>\<^sub>m map_of E' \<Longrightarrow> sound_relation E' r"
  by (auto simp: sound_relation_def recs_mono known_mono)

section \<open>Single additions\<close>

lemma wf_step:
  assumes wf: "wf_graph fs g" and gr: "grows g h"
    and keys: "keyed ev_id (g_evidence h)" "keyed as_id (g_assertions h)" "keyed rel_id (g_relations h)" "keyed mt_id (g_metrics h)"
    and ix: "indexed h"
    and as: "\<And>a. a \<in> set (all_assertions h) \<Longrightarrow> a \<in> set (all_assertions g) \<or> sound_assertion fs (g_evidence h) a"
    and rels: "\<And>r. r \<in> set (all_relations h) \<Longrightarrow> r \<in> set (all_relations g) \<or> sound_relation (g_evidence h) r"
    and ms: "\<And>k m. (k, m) \<in> set (g_metrics h) \<Longrightarrow> (k, m) \<in> set (g_metrics g) \<or> sound_metric fs h m"
  shows "wf_graph fs h"
proof -
  have le: "map_of (g_evidence g) \<subseteq>\<^sub>m map_of (g_evidence h)" using gr by (simp add: grows_def)
  have "sound_assertion fs (g_evidence h) a" if "a \<in> set (all_assertions h)" for a
    using as [OF that] wf le by (auto simp: wf_graph_def intro: sound_assertion_mono)
  moreover have "sound_relation (g_evidence h) r" if "r \<in> set (all_relations h)" for r
    using rels [OF that] wf le by (auto simp: wf_graph_def intro: sound_relation_mono)
  moreover have "sound_metric fs h m" if "(k, m) \<in> set (g_metrics h)" for k m
    using ms [OF that] wf gr by (auto simp: wf_graph_def intro: sound_metric_mono)
  ultimately show ?thesis using keys ix by (auto simp: wf_graph_def)
qed

lemma indexed_cong:
  assumes "indexed g" and "map_of (g_evidence g) \<subseteq>\<^sub>m map_of (g_evidence h)"
    and "g_entities h = g_entities g" and "g_entity_evidence h = g_entity_evidence g"
    and "g_evidence_entities h = g_evidence_entities g"
  shows "indexed h"
  using assms by (auto simp: indexed_def entities_of_def intro: known_mono)

lemma wf_same_tables:
  assumes "wf_graph fs g" and "grows g h" and "g_evidence h = g_evidence g" and "g_assertions h = g_assertions g"
    and "g_relations h = g_relations g" and "g_metrics h = g_metrics g" and "g_entities h = g_entities g"
    and "g_entity_evidence h = g_entity_evidence g" and "g_evidence_entities h = g_evidence_entities g"
  shows "wf_graph fs h"
  by (rule wf_step [OF assms(1,2)])
    (use assms in \<open>simp_all add: wf_graph_def all_assertions_def all_relations_def indexed_def entities_of_def\<close>)

lemma put_assertion_ok:
  assumes wf: "wf_graph fs g" and fresh: "\<not> has (g_assertions g) (as_id a)"
    and sound: "sound_assertion fs (g_evidence g) a"
  shows "wf_graph fs (put_assertion a g)" and "grows g (put_assertion a g)"
proof -
  have set_eq: "set (g_assertions (put_assertion a g)) = insert (as_id a, a) (set (g_assertions g))"
    using fresh by (simp add: put_assertion_def set_update_fresh)
  show gr: "grows g (put_assertion a g)" using set_eq by (simp add: grows_def) (auto simp: put_assertion_def)
  show "wf_graph fs (put_assertion a g)"
  proof (rule wf_step [OF wf gr])
    show "keyed as_id (g_assertions (put_assertion a g))"
      using wf by (simp add: wf_graph_def put_assertion_def keyed_update)
    show "indexed (put_assertion a g)"
      by (rule indexed_cong [of g]) (use wf in \<open>simp_all add: wf_graph_def put_assertion_def\<close>)
    fix b assume "b \<in> set (all_assertions (put_assertion a g))"
    with set_eq sound show "b \<in> set (all_assertions g) \<or> sound_assertion fs (g_evidence (put_assertion a g)) b"
      by (auto simp: all_assertions_def) (auto simp: put_assertion_def)
  qed (use wf in \<open>simp_all add: wf_graph_def put_assertion_def all_relations_def\<close>)
qed

lemma put_relation_ok:
  assumes wf: "wf_graph fs g" and fresh: "\<not> has (g_relations g) (rel_id r)" and sound: "sound_relation (g_evidence g) r"
  shows "wf_graph fs (put_relation r g)" and "grows g (put_relation r g)"
proof -
  have set_eq: "set (g_relations (put_relation r g)) = insert (rel_id r, r) (set (g_relations g))"
    using fresh by (simp add: put_relation_def set_update_fresh)
  show gr: "grows g (put_relation r g)" using set_eq by (simp add: grows_def) (auto simp: put_relation_def)
  show "wf_graph fs (put_relation r g)"
  proof (rule wf_step [OF wf gr])
    show "keyed rel_id (g_relations (put_relation r g))"
      using wf by (simp add: wf_graph_def put_relation_def keyed_update)
    show "indexed (put_relation r g)"
      by (rule indexed_cong [of g]) (use wf in \<open>simp_all add: wf_graph_def put_relation_def\<close>)
    fix q assume "q \<in> set (all_relations (put_relation r g))"
    with set_eq sound show "q \<in> set (all_relations g) \<or> sound_relation (g_evidence (put_relation r g)) q"
      by (auto simp: all_relations_def) (auto simp: put_relation_def)
  qed (use wf in \<open>simp_all add: wf_graph_def put_relation_def all_assertions_def\<close>)
qed

lemma put_metric_ok:
  assumes wf: "wf_graph fs g" and sound: "sound_metric fs g m"
  shows "wf_graph fs (put_metric m g)" and "grows g (put_metric m g)"
proof -
  show gr: "grows g (put_metric m g)" by (auto simp: grows_def put_metric_def)
  show "wf_graph fs (put_metric m g)"
  proof (rule wf_step [OF wf gr])
    show "keyed mt_id (g_metrics (put_metric m g))"
      using wf by (simp add: wf_graph_def put_metric_def keyed_update)
    show "indexed (put_metric m g)"
      by (rule indexed_cong [of g]) (use wf in \<open>simp_all add: wf_graph_def put_metric_def\<close>)
    fix k n assume "(k, n) \<in> set (g_metrics (put_metric m g))"
    then have "(k, n) \<in> set (g_metrics g) \<or> n = m" by (auto simp: put_metric_def dest: in_update)
    with sound gr show "(k, n) \<in> set (g_metrics g) \<or> sound_metric fs (put_metric m g) n"
      by (auto intro: sound_metric_mono)
  qed (use wf in \<open>simp_all add: wf_graph_def put_metric_def all_assertions_def all_relations_def\<close>)
qed

section \<open>Evidence and the explicit additions\<close>

lemma find_check: "find (\<lambda>(ok, _). \<not> ok) cs = None \<longleftrightarrow> (\<forall>c\<in>set cs. fst c)"
  by (induction cs) auto

lemma find_known: "unknown_evidence g ids = None \<longleftrightarrow> known (g_evidence g) ids"
  by (induction ids) (auto simp: unknown_evidence_def known_def)

lemma entities_of_snoc:
  "\<not> has d i \<Longrightarrow> (case map_of (d @ [(i, [])]) j of None \<Rightarrow> [] | Some es \<Rightarrow> es) = (case map_of d j of None \<Rightarrow> [] | Some es \<Rightarrow> es)"
  by (induction d) (auto simp: has_def split: if_splits)

lemma add_evidence_ok:
  assumes wf: "wf_graph fs g"
  shows "wf_graph fs (fst (add_evidence r g))" and "grows g (fst (add_evidence r g))"
proof -
  let ?h = "fst (add_evidence r g)"
  show gr: "grows g ?h"
    by (auto simp: add_evidence_def error_def grows_def taken_def all_relations_def intro: fresh_map_le)
  have ent: "entities_of ?h i = entities_of g i" for i
    using entities_of_snoc [of "g_evidence_entities g" "ev_id r" i]
    by (simp add: add_evidence_def error_def entities_of_def)
  show "wf_graph fs ?h"
  proof (rule wf_step [OF wf gr])
    have "map_of (g_evidence g) \<subseteq>\<^sub>m map_of (g_evidence ?h)" using gr by (simp add: grows_def)
    moreover have "indexed g" using wf by (simp add: wf_graph_def)
    ultimately show "indexed ?h"
      unfolding indexed_def ent by (auto simp: add_evidence_def error_def intro: known_mono)
  qed (use wf in \<open>auto simp: wf_graph_def add_evidence_def error_def all_assertions_def all_relations_def keyed_update\<close>)
qed

lemma add_assertion_ok:
  assumes wf: "wf_graph fs g"
  shows "wf_graph fs (fst (add_assertion fs a g)) \<and> grows g (fst (add_assertion fs a g))"
proof (cases "snd (add_assertion fs a g)")
  case None
  then have fresh: "\<not> has (g_assertions g) (as_id a)" and u: "unknown_evidence g (as_evidence a) = None"
    and f: "find (\<lambda>(ok, _). \<not> ok) (assertion_guards fs a (records_of g (as_evidence a))) = None"
    and r: "fst (add_assertion fs a g) = put_assertion a g"
    by (auto simp: add_assertion_def error_def split: if_splits option.splits)
  note k = u [unfolded find_known] and ok = f [unfolded find_check]
  have "sound_assertion fs (g_evidence g) a"
    using k ok by (auto simp: sound_assertion_def assertion_guards_def records_of_recs Let_def list_ex_iff)
  with wf fresh r show ?thesis by (simp add: put_assertion_ok)
next
  case (Some e)
  then have "fst (add_assertion fs a g) = g"
    by (auto simp: add_assertion_def error_def split: if_splits option.splits)
  with wf show ?thesis by simp
qed

lemma add_relation_ok:
  assumes wf: "wf_graph fs g"
  shows "wf_graph fs (fst (add_relation r g)) \<and> grows g (fst (add_relation r g))"
proof (cases "snd (add_relation r g)")
  case None
  then have fresh: "\<not> has (g_relations g) (rel_id r)" and u: "unknown_evidence g (rel_evidence r) = None"
    and ok: "rel_status r = VERIFIED \<longrightarrow> records_of g (rel_evidence r) \<noteq> [] \<and> \<not> any_status UNVERIFIED (records_of g (rel_evidence r))"
    and res: "fst (add_relation r g) = put_relation r g"
    by (auto simp: add_relation_def error_def Let_def split: if_splits option.splits)
  note k = u [unfolded find_known]
  have "sound_relation (g_evidence g) r"
    using k ok by (auto simp: sound_relation_def records_of_recs recs_def)
  with wf fresh res show ?thesis by (simp add: put_relation_ok)
next
  case (Some e)
  then have "fst (add_relation r g) = g"
    by (auto simp: add_relation_def error_def Let_def split: if_splits option.splits)
  with wf show ?thesis by simp
qed

lemma add_metric_ok:
  assumes wf: "wf_graph fs g"
  shows "wf_graph fs (fst (add_metric_assertion fs m g)) \<and> grows g (fst (add_metric_assertion fs m g))"
proof (cases "snd (add_metric_assertion fs m g)")
  case None
  then have u: "unknown_evidence g (mt_evidence m) = None"
    and ok: "mt_status m = METRIC_VERIFIED \<longrightarrow> \<not> any_status UNVERIFIED (records_of g (mt_evidence m))
        \<and> list_ex (\<lambda>r. single_record_supports_metric fs m r g) (records_of g (mt_evidence m))"
    and res: "fst (add_metric_assertion fs m g) = put_metric m g"
    by (auto simp: add_metric_assertion_def error_def Let_def split: if_splits option.splits)
  note k = u [unfolded find_known]
  have "sound_metric fs g m"
    using k ok by (auto simp: sound_metric_def records_of_recs list_ex_iff)
  with wf res show ?thesis by (simp add: put_metric_ok)
next
  case (Some e)
  then have "fst (add_metric_assertion fs m g) = g"
    by (auto simp: add_metric_assertion_def error_def Let_def split: if_splits option.splits)
  with wf show ?thesis by simp
qed

section \<open>Committing nodes\<close>

definition looked :: "(string \<times> string list) list \<Rightarrow> string \<Rightarrow> string list" where
  "looked d i = (case map_of d i of None \<Rightarrow> [] | Some es \<Rightarrow> es)"

lemma looked_append_to: "looked (append_to k x d) i = (if i = k then looked d i @ [x] else looked d i)"
  by (induction k x d rule: append_to.induct) (auto simp: looked_def)

lemma looked_fold:
  "set (looked (fold (\<lambda>i. append_to i x) ks d) i) = set (looked d i) \<union> (if i \<in> set ks then {x} else {})"
  by (induction ks arbitrary: d) (auto simp: looked_append_to)

lemma entities_of_looked: "entities_of g i = looked (g_evidence_entities g) i"
  by (simp add: entities_of_def looked_def)

lemma commit_node_fields [simp]:
  "g_evidence (commit_node e g) = g_evidence g" "g_assertions (commit_node e g) = g_assertions g"
  "g_relations (commit_node e g) = g_relations g" "g_metrics (commit_node e g) = g_metrics g"
  "g_pending (commit_node e g) = g_pending g" "g_profiles (commit_node e g) = g_profiles g"
  "has (g_entities (commit_node e g)) i \<longleftrightarrow> i = entity_id e \<or> has (g_entities g) i"
  "all_assertions (commit_node e g) = all_assertions g" "all_relations (commit_node e g) = all_relations g"
  by (simp_all add: commit_node_def all_assertions_def all_relations_def)

lemma commit_node_ok:
  assumes wf: "wf_graph fs g" and fresh: "\<not> has (g_entities g) (entity_id e)"
    and k: "known (g_evidence g) (entity_evidence e)"
  shows "wf_graph fs (commit_node e g) \<and> grows g (commit_node e g)"
proof -
  from wf have ix: "indexed g" by (simp add: wf_graph_def)
  then have same: "fst ` set (g_entities g) = fst ` set (g_entity_evidence g)" by (simp add: indexed_def)
  with fresh have fresh': "\<not> has (g_entity_evidence g) (entity_id e)" by (simp add: has_iff)
  then have none: "map_of (g_entity_evidence g) (entity_id e) = None" by (simp add: has_def)
  have gr: "grows g (commit_node e g)"
    using fresh fresh' by (simp add: grows_def) (simp add: commit_node_def fresh_map_le)
  have "indexed (commit_node e g)"
    unfolding indexed_def
  proof (intro conjI allI)
    show "fst ` set (g_entities (commit_node e g)) = fst ` set (g_entity_evidence (commit_node e g))"
      using same by (simp add: commit_node_def dom_update)
    show "map_of (g_entity_evidence (commit_node e g)) i = Some ids \<longrightarrow> known (g_evidence (commit_node e g)) ids" for i ids
      using ix k by (auto simp: commit_node_def update_conv' indexed_def)
    have all: "set (entities_of (commit_node e g) i) = set (entities_of g i) \<union> (if i \<in> set (entity_evidence e) then {entity_id e} else {})" for i
      unfolding entities_of_looked by (simp add: commit_node_def looked_fold)
    have old: "n \<in> set (entities_of g i) \<longleftrightarrow> (\<exists>ids. map_of (g_entity_evidence g) n = Some ids \<and> i \<in> set ids)" for i n
      using ix by (simp add: indexed_def)
    show "n \<in> set (entities_of (commit_node e g) i) \<longleftrightarrow>
        (\<exists>ids. map_of (g_entity_evidence (commit_node e g)) n = Some ids \<and> i \<in> set ids)" for i n
      unfolding all by (auto simp: old commit_node_def update_conv' none)
  qed
  with wf gr have "wf_graph fs (commit_node e g)"
    by (intro wf_step [OF wf gr]) (simp_all add: wf_graph_def)
  with gr show ?thesis by simp
qed

lemma commit_nodes_ok:
  assumes "wf_graph fs g" and "distinct (map entity_id ns)"
    and "\<And>n. n \<in> set ns \<Longrightarrow> \<not> has (g_entities g) (entity_id n) \<and> known (g_evidence g) (entity_evidence n)"
  shows "wf_graph fs (fold commit_node ns g) \<and> grows g (fold commit_node ns g) \<and> g_evidence (fold commit_node ns g) = g_evidence g"
  using assms
proof (induction ns arbitrary: g)
  case (Cons n ns)
  from Cons.prems(1) Cons.prems(3) [of n] have one: "wf_graph fs (commit_node n g) \<and> grows g (commit_node n g)"
    by (intro commit_node_ok) simp_all
  have "wf_graph fs (fold commit_node ns (commit_node n g)) \<and> grows (commit_node n g) (fold commit_node ns (commit_node n g))
      \<and> g_evidence (fold commit_node ns (commit_node n g)) = g_evidence (commit_node n g)"
  proof (rule Cons.IH)
    fix m assume m: "m \<in> set ns"
    with Cons.prems(2) have "entity_id m \<noteq> entity_id n" by (metis distinct.simps(2) image_eqI list.simps(9) set_map)
    with m Cons.prems(3) [of m] show "\<not> has (g_entities (commit_node n g)) (entity_id m) \<and> known (g_evidence (commit_node n g)) (entity_evidence m)"
      by simp
  qed (use one Cons.prems(2) in simp_all)
  with one show ?case by (auto intro: grows_trans)
qed simp

lemma put_profile_ok: "wf_graph fs g \<Longrightarrow> wf_graph fs (put_profile p g) \<and> grows g (put_profile p g)"
proof -
  assume wf: "wf_graph fs g"
  have gr: "grows g (put_profile p g)" by (auto simp: grows_def put_profile_def all_relations_def)
  moreover have "wf_graph fs (put_profile p g)"
    by (rule wf_same_tables [OF wf gr]) (simp_all add: put_profile_def)
  ultimately show ?thesis by simp
qed

section \<open>Projection\<close>

lemma type_priority_fold:
  "type_priority (foldl weaker_type t rs) = Min (insert (type_priority t) ((type_priority o ev_type) ` set rs))"
proof (induction rs arbitrary: t)
  case (Cons r rs)
  have "type_priority (weaker_type t r) = min (type_priority t) (type_priority (ev_type r))"
    by (simp add: weaker_type_def min_def)
  with Cons [of "weaker_type t r"] show ?case by (cases rs) (simp_all add: min.assoc min.left_commute)
qed simp

lemma weakest_verified: "weakest_status rs = VERIFIED \<longleftrightarrow> (\<forall>r\<in>set rs. ev_status r = VERIFIED)"
proof -
  have "ev_status r = VERIFIED \<longleftrightarrow> ev_status r \<noteq> EXPLICIT_NULL \<and> ev_status r \<noteq> UNVERIFIED \<and> ev_status r \<noteq> APPROXIMATE" for r
    by (cases "ev_status r") simp_all
  then show ?thesis by (auto simp: weakest_status_def any_status_iff)
qed

lemma single_supports_value:
  assumes "r \<in> set rs" and one: "single_record_supports_value fs v r p s" and v: "v \<noteq> VNone"
  shows "is_value_supported_by_evidence fs v rs p s"
proof -
  from one v have "ev_status r \<noteq> EXPLICIT_NULL" by (simp add: single_record_supports_value_def)
  with assms(1) have "rs \<noteq> []" "\<not> list_all (\<lambda>r. ev_status r = EXPLICIT_NULL) rs" by (auto simp: list_all_iff)
  moreover have "single_record_supports_value fs w r p s" if "v = VItems vs" "w \<in> set vs" for vs w
    using one that by (auto simp: single_record_supports_value_def list_all_iff split: option.splits)
  ultimately show ?thesis using assms(1) one v
    by (cases v) (auto simp: is_value_supported_by_evidence_def list_all_iff list_ex_iff)
qed

lemma supported_nonempty: "is_value_supported_by_evidence fs v [] p s \<longleftrightarrow> v = VNone"
  by (simp add: is_value_supported_by_evidence_def)

lemma field_evidence_known: "known E ids \<Longrightarrow> known E (field_evidence fs g s p v ids)"
  by (auto simp: known_def field_evidence_def Let_def)

definition backed :: "(real \<Rightarrow> string) \<Rightarrow> evidence_record list \<Rightarrow> truth_value \<Rightarrow> string \<Rightarrow> string \<Rightarrow> bool" where
  "backed fs rs v p s \<longleftrightarrow> v = VNone \<or> is_value_supported_by_evidence fs v rs p s
     \<or> prefix ''tool.'' p \<and> is_value_supported_by_evidence fs v rs (''skill.'' @ drop 5 p) s"

lemma field_evidence_backed:
  assumes b: "backed fs (recs (g_evidence g) ids) v p s"
  shows "backed fs (recs (g_evidence g) (field_evidence fs g s p v ids)) v p s"
proof (cases "v = VNone \<or> field_evidence fs g s p v ids = ids")
  case False
  let ?keep = "\<lambda>i. case map_of (g_evidence g) i of None \<Rightarrow> False | Some r \<Rightarrow> single_record_supports_value fs v r p s"
  from False have "v \<noteq> VNone" by simp
  then have eq: "field_evidence fs g s p v ids = (if filter ?keep ids = [] then ids else filter ?keep ids)"
    by (simp add: field_evidence_def Let_def cong: option.case_cong)
  with False have ne: "filter ?keep ids \<noteq> []" by auto
  then obtain i where "i \<in> set (filter ?keep ids)" by (meson last_in_set)
  with eq ne have i: "i \<in> set (field_evidence fs g s p v ids)" and keep: "?keep i" by simp_all
  from keep obtain r where r: "map_of (g_evidence g) i = Some r" "single_record_supports_value fs v r p s"
    by (auto split: option.splits)
  with i have "r \<in> set (recs (g_evidence g) (field_evidence fs g s p v ids))" by (auto simp: in_recs)
  with r(2) False have "is_value_supported_by_evidence fs v (recs (g_evidence g) (field_evidence fs g s p v ids)) p s"
    by (auto intro: single_supports_value)
  then show ?thesis by (simp add: backed_def)
qed (use b in \<open>auto simp: backed_def\<close>)

lemma derived_status:
  assumes "derive_epistemic_status g ids t0 = (t, st, po, mo)"
  shows "st = VERIFIED \<Longrightarrow> recs (g_evidence g) ids \<noteq> [] \<and> (\<forall>r\<in>set (recs (g_evidence g) ids). ev_status r = VERIFIED)"
    and "t = DIRECT_FACT \<Longrightarrow> recs (g_evidence g) ids \<noteq> [] \<and> (\<forall>r\<in>set (recs (g_evidence g) ids). ev_type r = DIRECT_FACT)"
proof -
  let ?rs = "recs (g_evidence g) ids"
  from assms have d: "t = (if ?rs = [] then UNSUPPORTED_CLAIM else foldl weaker_type t0 ?rs)"
      "st = (if ?rs = [] then UNVERIFIED else weakest_status ?rs)"
    by (auto simp: derive_epistemic_status_def records_of_recs Let_def split: if_splits)
  from d(2) show "st = VERIFIED \<Longrightarrow> ?rs \<noteq> [] \<and> (\<forall>r\<in>set ?rs. ev_status r = VERIFIED)"
    by (auto simp: weakest_verified split: if_splits)
  assume t: "t = DIRECT_FACT"
  with d(1) have ne: "?rs \<noteq> []" and f: "foldl weaker_type t0 ?rs = DIRECT_FACT" by (auto split: if_splits)
  have m: "Min (insert (type_priority t0) ((type_priority o ev_type) ` set ?rs)) = 5"
    using type_priority_fold [of t0 ?rs] f by simp
  have "ev_type r = DIRECT_FACT" if "r \<in> set ?rs" for r
  proof -
    have "Min (insert (type_priority t0) ((type_priority o ev_type) ` set ?rs)) \<le> type_priority (ev_type r)"
      using that by (intro Min_le) auto
    with m show ?thesis by (cases "ev_type r") simp_all
  qed
  with ne show "?rs \<noteq> [] \<and> (\<forall>r\<in>set ?rs. ev_type r = DIRECT_FACT)" by blast
qed

lemma validated_cases: "(\<exists>e. validated c x = Inl e) \<or> validated c x = Inr x"
proof (cases "validated c x")
  case (Inr y)
  then show ?thesis by (metis validated_Inr)
qed simp

lemma project_assertion_ok:
  assumes wf: "wf_graph fs g" and k: "known (g_evidence g) ids" and b: "backed fs (recs (g_evidence g) ids) v p s"
    and h: "h = fst (project_field_assertion fs s p v ids pr g)"
  shows "wf_graph fs h \<and> grows g h \<and> g_evidence h = g_evidence g"
proof -
  let ?i = "projected_id fs s p v" and ?used = "field_evidence fs g s p v ids"
  obtain t st po mo where d: "derive_epistemic_status g ?used (pr_default pr) = (t, st, po, mo)"
    by (cases "derive_epistemic_status g ?used (pr_default pr)") auto
  let ?a = "\<lparr>as_id = ?i, as_subject = s, as_predicate = p, as_value = v, as_type = t, as_status = st, as_evidence = ?used,
     as_polarity = po, as_modality = (case pr_force pr of None \<Rightarrow> mo | Some m \<Rightarrow> m), as_qualifiers = [],
     as_from = pr_from pr, as_to = pr_to pr, as_supersedes = [], as_conflicts = []\<rparr>"
  have "h = g \<or> \<not> has (g_assertions g) ?i \<and> h = put_assertion ?a g"
  proof (cases "has (g_assertions g) ?i")
    case True
    then show ?thesis by (simp add: h project_field_assertion_def)
  next
    case False
    then have "h = fst (case validated assertion_checks ?a of Inl e \<Rightarrow> (g, Some e) | Inr a \<Rightarrow> (put_assertion a g, None))"
      by (simp add: h project_field_assertion_def d)
    with False validated_cases [of assertion_checks ?a] show ?thesis by (auto simp del: validated_Inr)
  qed
  then consider "h = g" | "\<not> has (g_assertions g) ?i" "h = put_assertion ?a g" by blast
  then show ?thesis
  proof cases
    case 2
    have "backed fs (recs (g_evidence g) ?used) v p s" using b by (rule field_evidence_backed)
    moreover have "known (g_evidence g) ?used" using k by (rule field_evidence_known)
    ultimately have "sound_assertion fs (g_evidence g) ?a"
      using derived_status [OF d] by (auto simp: sound_assertion_def any_status_iff backed_def)
    then have "wf_graph fs (put_assertion ?a g)" "grows g (put_assertion ?a g)"
      using wf 2(1) by (simp_all add: put_assertion_ok)
    with 2(2) show ?thesis by (simp add: put_assertion_def)
  qed (use wf in simp)
qed

definition descend :: "entity \<Rightarrow> entity list" where
  "descend e = (case e of Employment x \<Rightarrow> Employment x # map Achievement (emp_achievements x) | _ \<Rightarrow> walk_profile e)"

lemma descend_self: "e \<in> set (descend e)"
  by (cases e) (simp_all add: descend_def walk_profile_def)

lemma children_descend:
  assumes "c \<in> set (children_of e s)"
  shows "set (descend c) \<subseteq> set (descend e)"
proof -
  from assms obtain ns where n: "attribute_of e (fs_field s) = Some (Nodes ns)" "c \<in> set ns"
    by (cases "attribute_of e (fs_field s)") (auto simp: children_of_def split: attribute.splits)
  then have "(fs_field s, Nodes ns) \<in> set (attributes e)" by (simp add: attribute_of_def map_of_SomeD)
  with n(2) show ?thesis
    by (cases e) (auto simp: descend_def walk_profile_def opt_text_def opt_date_def opt_number_def split: option.splits)
qed

fun step_within :: "entity \<Rightarrow> projection_step \<Rightarrow> bool" where
  "step_within e (FieldStep n s) \<longleftrightarrow> n \<in> set (descend e)"
| "step_within e (RelationStep x y) \<longleftrightarrow> Achievement y \<in> set (descend e)"
| "step_within e (MetricStep s t ids) \<longleftrightarrow> (\<exists>n\<in>set (descend e). entity_evidence n = ids)"

lemma step_within_mono: "step_within c st \<Longrightarrow> set (descend c) \<subseteq> set (descend e) \<Longrightarrow> step_within e st"
  by (cases st) auto

lemma steps_within: "st \<in> set (steps_of e) \<Longrightarrow> step_within e st"
proof (induction e rule: steps_of.induct)
  case (1 e)
  from "1.prems" [unfolded steps_of.simps [of e]] consider
      (nested) s c where "s \<in> set (specs_of e)" "fs_nested s" "c \<in> set (children_of e s)" "st \<in> set (steps_of c)"
    | (wire) s c where "c \<in> set (children_of e s)" "st \<in> set (wiring e c)"
    | (field) s where "st = FieldStep e s"
    | (metric) "st \<in> set (metric_steps e)"
    by (auto split: if_splits)
  then show ?case
  proof cases
    case (nested s c)
    then show ?thesis using "1.IH" [of s c] children_descend by (blast intro: step_within_mono)
  next
    case (wire s c)
    then have "c \<in> set (descend e)" using children_descend [of c e s] descend_self [of c] by blast
    with wire(2) show ?thesis by (auto simp: wiring_def split: entity.splits)
  next
    case (metric)
    then have "\<exists>s t. st = MetricStep s t (entity_evidence e)"
      by (cases e) (auto simp: metric_steps_def split: option.splits if_splits)
    then show ?thesis using descend_self [of e] by auto
  qed (simp add: descend_self)
qed

definition kept :: "(real \<Rightarrow> string) \<Rightarrow> graph_state \<Rightarrow> graph_state \<Rightarrow> bool" where
  "kept fs g h \<longleftrightarrow> wf_graph fs h \<and> grows g h \<and> g_evidence h = g_evidence g"

lemma keptD: "kept fs g h \<Longrightarrow> wf_graph fs h" "kept fs g h \<Longrightarrow> g_evidence h = g_evidence g"
  by (simp_all add: kept_def)

lemma kept_trans: "kept fs g h \<Longrightarrow> kept fs h k \<Longrightarrow> kept fs g k"
  by (auto simp: kept_def intro: grows_trans)

lemma kept_refl: "wf_graph fs g \<Longrightarrow> kept fs g g"
  by (simp add: kept_def)

lemma run_steps_kept:
  assumes "wf_graph fs g"
    and "\<And>s h. s \<in> set ss \<Longrightarrow> wf_graph fs h \<Longrightarrow> g_evidence h = g_evidence g \<Longrightarrow> kept fs h (fst (f s h))"
  shows "kept fs g (fst (run_steps f ss g))"
proof (rule run_steps_rule [where P = "kept fs g"])
  fix s h assume s: "s \<in> set ss" and h: "kept fs g h"
  from s keptD [OF h] have "kept fs h (fst (f s h))" by (rule assms(2))
  with h show "kept fs g (fst (f s h))" by (rule kept_trans)
qed (use assms(1) in \<open>simp add: kept_refl\<close>)

lemma project_field_ok:
  assumes wf: "wf_graph fs g" and k: "known (g_evidence g) (entity_evidence e)"
    and link: "map_of links (entity_id e) = Some (entity_evidence e)"
    and ev: "g_evidence base = g_evidence g" and ok: "field_error fs links base (e, s) = None"
  shows "kept fs g (fst (project_field fs e s g))"
proof (cases "absent (attribute_of e (fs_field s))")
  case True
  have "kept fs g (fst (project_field_assertion fs (py_or (entity_id e) (fs_predicate s)) (fs_predicate s) VNone
      (entity_evidence e) (projection_of e) g))"
    unfolding kept_def by (rule project_assertion_ok [OF wf k]) (simp_all add: backed_def)
  with True wf show ?thesis by (simp add: project_field_def Let_def kept_refl)
next
  case False
  let ?vs = "field_values s (attribute_of e (fs_field s))" and ?p = "projected_predicate e s"
  have good: "is_value_supported_by_evidence fs v (recs (g_evidence g) (linked_records links base e)) (fs_predicate s) (entity_id e)"
    if "v \<in> set ?vs" for v
    using ok False that by (auto simp: field_error_def Let_def find_None_iff records_of_recs ev)
  have covered: "backed fs (recs (g_evidence g) (entity_evidence e)) v ?p (py_or (entity_id e) ?p)" if v: "v \<in> set ?vs" for v
  proof (cases "v = VNone \<or> entity_id e = []")
    case True
    with good [OF v] show ?thesis by (auto simp: linked_records_def link recs_def supported_nonempty backed_def)
  next
    case False
    then have "is_value_supported_by_evidence fs v (recs (g_evidence g) (entity_evidence e)) (fs_predicate s) (entity_id e)"
      using good [OF v] by (simp add: linked_records_def link)
    moreover have "?p = fs_predicate s \<or> prefix ''tool.'' ?p \<and> ''skill.'' @ drop 5 ?p = fs_predicate s"
      by (auto simp: projected_predicate_def prefix_def)
    ultimately show ?thesis using False by (auto simp: backed_def py_or_def)
  qed
  have "kept fs g (fst (run_steps (\<lambda>v. project_field_assertion fs (py_or (entity_id e) ?p) ?p v (entity_evidence e) (projection_of e)) ?vs g))"
  proof (rule run_steps_kept [OF wf])
    fix v h assume "v \<in> set ?vs" "wf_graph fs h" and e: "g_evidence h = g_evidence g"
    then show "kept fs h (fst (project_field_assertion fs (py_or (entity_id e) ?p) ?p v (entity_evidence e) (projection_of e) h))"
      unfolding kept_def using k covered by (intro project_assertion_ok) simp_all
  qed
  with False show ?thesis by (simp add: project_field_def Let_def)
qed

lemma wire_relation_ok:
  assumes wf: "wf_graph fs g" and k: "known (g_evidence g) (ach_evidence ach)"
  shows "kept fs g (fst (wire_relation fs emp ach g))"
proof -
  let ?i = "''rel_'' @ emp_id emp @ ''_'' @ ach_id ach"
  obtain t st where d: "(if establishes fs emp ach g
        then (case derive_epistemic_status g (ach_evidence ach) DIRECT_FACT of (t, st, _) \<Rightarrow> (t, st))
        else (USER_ASSERTION, UNVERIFIED)) = (t, st)" by fastforce
  let ?r = "\<lparr>rel_id = ?i, rel_source = emp_id emp, rel_type = ACHIEVED_DURING, rel_target = ach_id ach,
     rel_evidence = ach_evidence ach, rel_assertion_type = t, rel_status = st,
     rel_from = Some (emp_start emp), rel_to = emp_end emp\<rparr>"
  have "st = VERIFIED \<Longrightarrow> recs (g_evidence g) (ach_evidence ach) \<noteq> [] \<and> (\<forall>r\<in>set (recs (g_evidence g) (ach_evidence ach)). ev_status r = VERIFIED)"
    using d derived_status(1) [of g "ach_evidence ach" DIRECT_FACT] by (auto split: if_splits prod.splits)
  with k have "sound_relation (g_evidence g) ?r"
    by (auto simp: sound_relation_def any_status_iff recs_empty_iff)
  show ?thesis
  proof (cases "has (g_relations g) ?i")
    case True
    then show ?thesis using wf by (simp add: wire_relation_def kept_refl)
  next
    case False
    then have r: "fst (wire_relation fs emp ach g) = fst (case validated relation_checks ?r of Inl e \<Rightarrow> (g, Some e) | Inr r \<Rightarrow> (put_relation r g, None))"
      by (simp add: wire_relation_def d)
    have "kept fs g (put_relation ?r g)"
      using wf False \<open>sound_relation (g_evidence g) ?r\<close> by (simp add: kept_def put_relation_ok) (simp add: put_relation_def)
    with r wf validated_cases [of relation_checks ?r] show ?thesis by (auto simp del: validated_Inr intro: kept_refl)
  qed
qed

lemma note_metric_ok:
  assumes wf: "wf_graph fs g" and k: "known (g_evidence g) ids"
  shows "kept fs g (fst (note_metric s text ids nm g))"
proof -
  obtain n m where nm: "nm = (n, m)" by (cases nm)
  let ?i = "''metric_'' @ s @ ''_'' @ nat_str n"
  let ?m = "\<lparr>mt_id = ?i, mt_subject = s, mt_value = read_number (match_number m), mt_unit = match_unit m,
     mt_context = take 100 text, mt_modality = DEFINITE, mt_status = METRIC_UNAVAILABLE, mt_evidence = ids\<rparr>"
  have "sound_metric fs g ?m" using k by (simp add: sound_metric_def)
  then have p: "kept fs g (put_metric ?m g)" using wf by (simp add: kept_def put_metric_ok) (simp add: put_metric_def)
  show ?thesis
  proof (cases "has (g_metrics g) ?i")
    case False
    then have "fst (note_metric s text ids nm g) = fst (case validated metric_checks ?m of Inl e \<Rightarrow> (g, Some e) | Inr m \<Rightarrow> (put_metric m g, None))"
      by (simp add: note_metric_def nm Let_def)
    with p wf validated_cases [of metric_checks ?m] show ?thesis by (auto simp del: validated_Inr intro: kept_refl)
  qed (use wf in \<open>simp add: note_metric_def nm Let_def kept_refl\<close>)
qed

lemma validated_field:
  assumes "validate_entity_manifest fs links g e = None" and "FieldStep n s \<in> set (steps_of e)"
  shows "field_error fs links g (n, s) = None"
proof -
  have "(n, s) \<in> set (material_fields e)"
    using assms(2) by (force simp: material_fields_def map_filter_def image_iff)
  with assms(1) show ?thesis
    by (auto simp: validate_entity_manifest_def map_filter_def filter_empty_conv split: list.splits)
qed

lemma project_step_ok:
  assumes wf: "wf_graph fs h" and k: "\<And>n. n \<in> set (descend e) \<Longrightarrow> known (g_evidence h) (entity_evidence n)"
    and link: "\<And>n. n \<in> set (descend e) \<Longrightarrow> map_of links (entity_id n) = Some (entity_evidence n)"
    and ev: "g_evidence base = g_evidence h" and ok: "validate_entity_manifest fs links base e = None"
    and st: "st \<in> set (steps_of e)"
  shows "kept fs h (fst (project_step fs st h))"
proof (cases st)
  case (FieldStep n s)
  then have n: "n \<in> set (descend e)" using steps_within [OF st] by simp
  have "field_error fs links base (n, s) = None" using validated_field ok st FieldStep by blast
  with wf k [OF n] link [OF n] ev have "kept fs h (fst (project_field fs n s h))" by (rule project_field_ok)
  with FieldStep show ?thesis by simp
next
  case (RelationStep x y)
  with steps_within [OF st] k [of "Achievement y"] wf show ?thesis by (auto intro: wire_relation_ok)
next
  case (MetricStep s t ids)
  with steps_within [OF st] k have ids: "known (g_evidence h) ids" by auto
  have "kept fs h (fst (run_steps (note_metric s t ids) (zip [0..<length (metric_matches t)] (metric_matches t)) h))"
    by (rule run_steps_kept [OF wf]) (use ids in \<open>simp add: note_metric_ok\<close>)
  with MetricStep show ?thesis by (simp add: extract_metrics_from_text_def)
qed

lemma project_manifest_ok:
  assumes wf: "wf_graph fs g" and k: "\<And>n. n \<in> set (descend e) \<Longrightarrow> known (g_evidence g) (entity_evidence n)"
    and link: "\<And>n. n \<in> set (descend e) \<Longrightarrow> map_of links (entity_id n) = Some (entity_evidence n)"
    and ev: "g_evidence base = g_evidence g" and ok: "validate_entity_manifest fs links base e = None"
  shows "kept fs g (fst (project_entity_manifest fs e g))"
  unfolding project_entity_manifest_def
  by (rule run_steps_kept [OF wf], rule project_step_ok [where base = base]) (use k link ev ok in simp_all)

section \<open>Profiles, the identity and phrases\<close>

lemma no_missing: "missing_evidence g ids = [] \<longleftrightarrow> known (g_evidence g) ids"
proof -
  have "missing_evidence g ids = [] \<longleftrightarrow> set (missing_evidence g ids) = {}" by simp
  also have "\<dots> \<longleftrightarrow> known (g_evidence g) ids" by (auto simp: missing_evidence_def known_def)
  finally show ?thesis .
qed

lemma node_links_lookup:
  "distinct (map entity_id ns) \<Longrightarrow> n \<in> set ns \<Longrightarrow> map_of (node_links ns) (entity_id n) = Some (entity_evidence n)"
  by (rule map_of_is_SomeI) (auto simp: node_links_def o_def)

lemma descend_walk: "is_profile p \<Longrightarrow> set (descend p) = set (walk_profile p)"
  by (cases p) (simp_all add: is_profile_def descend_def)

lemma add_profile_ok:
  assumes wf: "wf_graph fs g" and p: "is_profile p"
  shows "wf_graph fs (fst (add_profile fs p g)) \<and> grows g (fst (add_profile fs p g))"
proof (cases "fst (add_profile fs p g) = g")
  case True
  with wf show ?thesis by simp
next
  case False
  let ?ns = "walk_profile p" and ?h = "fold commit_node (walk_profile p) (put_profile p g)"
  from False have d: "distinct (map entity_id ?ns)"
    and c: "filter (taken g) (map entity_id ?ns) = []"
    and m: "find (\<lambda>n. missing_evidence g (entity_evidence n) \<noteq> []) ?ns = None"
    and v: "validate_entity_manifest fs (node_links ?ns) g p = None"
    and r: "fst (add_profile fs p g) = fst (project_entity_manifest fs p ?h)"
    by (auto simp: add_profile_def error_def Let_def split: if_splits option.splits)
  have k: "known (g_evidence g) (entity_evidence n)" if "n \<in> set ?ns" for n
    using m that by (auto simp: find_None_iff no_missing)
  have "\<not> has (g_entities g) (entity_id n)" if "n \<in> set ?ns" for n
    using c that by (auto simp: filter_empty_conv taken_def)
  moreover have pp: "wf_graph fs (put_profile p g) \<and> grows g (put_profile p g)" using wf by (rule put_profile_ok)
  ultimately have h: "wf_graph fs ?h \<and> grows (put_profile p g) ?h \<and> g_evidence ?h = g_evidence (put_profile p g)"
    using d k by (intro commit_nodes_ok) (simp_all add: put_profile_def)
  then have e: "g_evidence ?h = g_evidence g" by (simp add: put_profile_def)
  have "kept fs ?h (fst (project_entity_manifest fs p ?h))"
    by (rule project_manifest_ok [OF _ _ _ _ v]) (use h e k d p in \<open>simp_all add: descend_walk node_links_lookup\<close>)
  with h pp r show ?thesis by (auto simp: kept_def intro: grows_trans)
qed

lemma add_single_ok:
  assumes wf: "wf_graph fs g" and one: "descend e = [e]"
    and reg: "\<And>h. wf_graph fs h \<Longrightarrow> wf_graph fs (register h) \<and> grows h (register h)"
  shows "wf_graph fs (fst (add_single fs name e register g)) \<and> grows g (fst (add_single fs name e register g))"
proof (cases "fst (add_single fs name e register g) = g")
  case False
  let ?h = "commit_node e g" and ?p = "fst (project_entity_manifest fs e (commit_node e g))"
  from False have c: "\<not> taken g (entity_id e)" and m: "missing_evidence g (entity_evidence e) = []"
    and v: "validate_entity_manifest fs (node_links [e]) g e = None"
    and r: "fst (add_single fs name e register g) \<in> {?p, register ?p}"
    by (auto simp: add_single_def error_def split: if_splits option.splits prod.splits)
  from m have k: "known (g_evidence g) (entity_evidence e)" by (simp add: no_missing)
  with wf c have h: "wf_graph fs ?h \<and> grows g ?h" by (intro commit_node_ok) (simp_all add: taken_def)
  have "kept fs ?h ?p"
    by (rule project_manifest_ok [OF _ _ _ _ v]) (use h k one in \<open>simp_all add: node_links_def\<close>)
  with h have p: "wf_graph fs ?p \<and> grows g ?p" by (auto simp: kept_def intro: grows_trans)
  with reg [of ?p] r show ?thesis by (auto intro: grows_trans)
qed (use wf in simp)

lemma register_ok:
  assumes "wf_graph fs h"
  shows "wf_graph fs (h\<lparr>g_identity := i\<rparr>) \<and> grows h (h\<lparr>g_identity := i\<rparr>)"
    and "wf_graph fs (h\<lparr>g_phrases := ps\<rparr>) \<and> grows h (h\<lparr>g_phrases := ps\<rparr>)"
proof -
  have "grows h (h\<lparr>g_identity := i\<rparr>)" "grows h (h\<lparr>g_phrases := ps\<rparr>)"
    by (auto simp: grows_def)
  then show "wf_graph fs (h\<lparr>g_identity := i\<rparr>) \<and> grows h (h\<lparr>g_identity := i\<rparr>)"
    and "wf_graph fs (h\<lparr>g_phrases := ps\<rparr>) \<and> grows h (h\<lparr>g_phrases := ps\<rparr>)"
    by (auto intro: wf_same_tables [OF assms])
qed

lemma add_identity_ok:
  "wf_graph fs g \<Longrightarrow> wf_graph fs (fst (add_identity fs i g)) \<and> grows g (fst (add_identity fs i g))"
  using add_single_ok [of fs g "IdentityBlock i" "\<lambda>g. g\<lparr>g_identity := Some i\<rparr>" "''identity''"]
  by (auto simp: add_identity_def error_def descend_def walk_profile_def register_ok)

lemma add_approved_phrase_ok:
  "wf_graph fs g \<Longrightarrow> wf_graph fs (fst (add_approved_phrase fs p g)) \<and> grows g (fst (add_approved_phrase fs p g))"
  using add_single_ok [of fs g "Phrase p" "\<lambda>g. g\<lparr>g_phrases := AList.update (ap_id p) p (g_phrases g)\<rparr>" "''approved_phrase '' @ ap_id p"]
  by (auto simp: add_approved_phrase_def error_def descend_def walk_profile_def register_ok)

section \<open>Every reachable graph\<close>

datatype graph_op =
    AddEvidence evidence_record
  | AddAssertion assertion
  | AddRelation graph_relation
  | AddMetric metric
  | AddCareer career_profile
  | AddCapability capability_profile
  | AddIdentity identity
  | AddPhrase approved_phrase

fun apply_op :: "(real \<Rightarrow> string) \<Rightarrow> graph_op \<Rightarrow> graph_state \<Rightarrow> step_result" where
  "apply_op fs (AddEvidence r) = add_evidence r"
| "apply_op fs (AddAssertion a) = add_assertion fs a"
| "apply_op fs (AddRelation r) = add_relation r"
| "apply_op fs (AddMetric m) = add_metric_assertion fs m"
| "apply_op fs (AddCareer p) = add_career_profile fs p"
| "apply_op fs (AddCapability p) = add_capability_profile fs p"
| "apply_op fs (AddIdentity i) = add_identity fs i"
| "apply_op fs (AddPhrase p) = add_approved_phrase fs p"

lemma apply_op_ok: "wf_graph fs g \<Longrightarrow> wf_graph fs (fst (apply_op fs c g)) \<and> grows g (fst (apply_op fs c g))"
proof (cases c)
  case (AddCareer p)
  assume "wf_graph fs g"
  with AddCareer show ?thesis using add_profile_ok [of fs g "Career p"] by (simp add: add_career_profile_def is_profile_def)
next
  case (AddCapability p)
  assume "wf_graph fs g"
  with AddCapability show ?thesis
    using add_profile_ok [of fs g "Capability p"] by (simp add: add_capability_profile_def is_profile_def)
qed (simp_all add: add_evidence_ok add_assertion_ok add_relation_ok add_metric_ok add_identity_ok add_approved_phrase_ok)

text \<open>A graph of the constructor, then any operations; one that raises leaves what it leaves.\<close>

inductive reachable :: "(real \<Rightarrow> string) \<Rightarrow> graph_state \<Rightarrow> bool" for fs where
  built: "new_graph fs evs as rels ms = Inr g \<Longrightarrow> reachable fs g"
| step: "reachable fs g \<Longrightarrow> reachable fs (fst (apply_op fs c g))"

lemma empty_graph_ok: "wf_graph fs (empty_graph rels)"
  by (simp add: wf_graph_def empty_graph_def keyed_def indexed_def entities_of_def all_assertions_def all_relations_def)

definition good :: "(real \<Rightarrow> string) \<Rightarrow> graph_state \<Rightarrow> graph_state \<Rightarrow> bool" where
  "good fs g h \<longleftrightarrow> wf_graph fs h \<and> grows g h"

lemma run_good:
  assumes "wf_graph fs g" and "\<And>s h. wf_graph fs h \<Longrightarrow> wf_graph fs (fst (f s h)) \<and> grows h (fst (f s h))"
  shows "good fs g (fst (run_steps f ss g))"
  by (rule run_steps_rule [where P = "good fs g"]) (use assms in \<open>auto simp: good_def intro: grows_trans\<close>)

lemma relations_added:
  assumes "run_steps add_relation rels g = (h, None)"
  shows "set rels \<subseteq> set (all_relations h)"
proof -
  have "set rels \<subseteq> set (all_relations h) \<and> set (g_relations g) \<subseteq> set (g_relations h)" using assms
  proof (induction rels arbitrary: g)
    case (Cons r rels)
    from Cons.prems obtain g1 where g1: "add_relation r g = (g1, None)" "run_steps add_relation rels g1 = (h, None)"
      by (auto split: prod.splits option.splits)
    then have "g1 = put_relation r g" and fresh: "\<not> has (g_relations g) (rel_id r)"
      by (auto simp: add_relation_def error_def Let_def split: if_splits option.splits)
    then have "set (g_relations g1) = insert (rel_id r, r) (set (g_relations g))"
      by (simp add: put_relation_def set_update_fresh)
    with Cons.IH [OF g1(2)] show ?case by (auto simp: all_relations_def image_iff intro: bexI [of _ "(rel_id r, r)"])
  qed simp
  then show ?thesis ..
qed

lemma drop_pending:
  assumes wf: "wf_graph fs g" and p: "set (g_pending g) \<subseteq> set (all_relations g)"
  shows "wf_graph fs (g\<lparr>g_pending := []\<rparr>)"
proof -
  have "grows g (g\<lparr>g_pending := []\<rparr>)" using p by (auto simp: grows_def all_relations_def)
  then show ?thesis
    by (rule wf_same_tables [OF wf]) simp_all
qed

lemma new_graph_ok:
  assumes "new_graph fs evs as rels ms = Inr g"
  shows "wf_graph fs g"
proof -
  let ?g0 = "empty_graph rels"
  from assms obtain g1 g2 g3 g4 where
    g: "run_steps add_evidence evs ?g0 = (g1, None)" "run_steps (add_assertion fs) as g1 = (g2, None)"
      "run_steps (add_metric_assertion fs) ms g2 = (g3, None)" "run_steps add_relation rels g3 = (g4, None)"
      "g = g4\<lparr>g_pending := []\<rparr>"
    by (auto simp: new_graph_def split: prod.splits option.splits)
  have "good fs ?g0 g1" using run_good [of fs ?g0 add_evidence evs] g(1) empty_graph_ok by (simp add: add_evidence_ok)
  moreover from this have "good fs g1 g2"
    using run_good [of fs g1 "add_assertion fs" as] g(2) by (simp add: add_assertion_ok good_def)
  moreover from this have "good fs g2 g3"
    using run_good [of fs g2 "add_metric_assertion fs" ms] g(3) by (simp add: add_metric_ok good_def)
  moreover from this have "good fs g3 g4"
    using run_good [of fs g3 add_relation rels] g(4) by (simp add: add_relation_ok good_def)
  ultimately have w: "wf_graph fs g4" and gr: "grows ?g0 g4" by (auto simp: good_def intro: grows_trans)
  have same: "g_pending h = g_pending g" if "run_steps f ss g = (h, None)"
      "\<And>s g. g_pending (fst (f s g)) = g_pending g" for f :: "'x \<Rightarrow> graph_state \<Rightarrow> step_result" and ss g h
    using run_steps_rule [of "\<lambda>k. g_pending k = g_pending g" g ss f] that by simp
  note add_defs = add_evidence_def add_assertion_def add_metric_assertion_def add_relation_def error_def put_assertion_def
    put_metric_def put_relation_def Let_def
  have "g_pending g1 = rels" using same [OF g(1)] by (simp add: add_defs empty_graph_def)
  then have "g_pending g2 = rels" using same [OF g(2)] by (simp add: add_defs split: option.splits)
  then have "g_pending g3 = rels" using same [OF g(3)] by (simp add: add_defs split: option.splits)
  then have "g_pending g4 = rels" using same [OF g(4)] by (simp add: add_defs split: option.splits)
  then have "set (g_pending g4) \<subseteq> set (all_relations g4)" using relations_added [OF g(4)] by simp
  with w g(5) show ?thesis by (simp add: drop_pending)
qed

lemma reachable_ok: "reachable fs g \<Longrightarrow> wf_graph fs g"
  by (induction rule: reachable.induct) (simp_all add: new_graph_ok apply_op_ok)

end
