(* ===== verification/Truth_Properties.thy ===== *)
theory Truth_Properties
  imports Truth_Invariant
begin

text \<open>
  What the truth graph promises: nothing counts as a fact that its evidence does not carry, a status
  is never stronger than its weakest record, nothing recorded is rewritten, superseded and
  contested assertions are not active, and evidence is linked only by one entity or verified edges.
  Then the places where the code departs from this.
\<close>

section \<open>A small graph\<close>

definition no_float :: "real \<Rightarrow> string" where "no_float r = []"

definition cv_record :: "string \<Rightarrow> string \<Rightarrow> string \<Rightarrow> evidence_record" where
  "cv_record i text loc = \<lparr>ev_id = i, ev_content = Some text, ev_source = ''cv'', ev_locator = loc, ev_type = DIRECT_FACT,
     ev_status = VERIFIED, ev_observed_at = None, ev_metadata = []\<rparr>"

definition fact_about :: "string \<Rightarrow> string \<Rightarrow> string \<Rightarrow> truth_value \<Rightarrow> string list \<Rightarrow> assertion" where
  "fact_about i s p v ids = \<lparr>as_id = i, as_subject = s, as_predicate = p, as_value = v, as_type = DIRECT_FACT,
     as_status = VERIFIED, as_evidence = ids, as_polarity = POSITIVE, as_modality = DEFINITE, as_qualifiers = [],
     as_from = None, as_to = None, as_supersedes = [], as_conflicts = []\<rparr>"

definition graph_or_empty :: "graph_state result \<Rightarrow> graph_state" where
  "graph_or_empty r = (case r of Inl _ \<Rightarrow> empty_graph [] | Inr g \<Rightarrow> g)"

definition python_fact :: assertion where
  "python_fact = fact_about ''a1'' ''skill_python'' ''skill.name'' (VText ''Python'') [''e1'']"

definition users_metric :: metric where
  "users_metric = \<lparr>mt_id = ''m1'', mt_subject = ''skill_python'', mt_value = Whole 40, mt_unit = ''users'',
     mt_context = ''served users'', mt_modality = DEFINITE, mt_status = METRIC_VERIFIED, mt_evidence = [''e1'']\<rparr>"

definition demo_new :: "graph_state result" where
  "demo_new = new_graph no_float [cv_record ''e1'' ''Python services that served 40 users'' ''skills'', cv_record ''e2'' ''Led a team'' ''work'']
     [python_fact] [] [users_metric]"

definition demo_graph :: graph_state where "demo_graph = graph_or_empty demo_new"

definition built_ok :: "graph_state result \<Rightarrow> bool" where
  "built_ok r = (case r of Inl _ \<Rightarrow> False | Inr _ \<Rightarrow> True)"

lemma built_graph: "built_ok (new_graph fs evs as rels ms) \<Longrightarrow> reachable fs (graph_or_empty (new_graph fs evs as rels ms))"
  by (cases "new_graph fs evs as rels ms") (auto simp: built_ok_def graph_or_empty_def intro: reachable.built)

text \<open>The value of the graph, computed once; the runs below evaluate with it.\<close>

lemma demo_graph_value [code]:
  "demo_graph = \<lparr>g_evidence = [(''e1'', cv_record ''e1'' ''Python services that served 40 users'' ''skills''),
       (''e2'', cv_record ''e2'' ''Led a team'' ''work'')],
     g_assertions = [(''a1'', python_fact)], g_relations = [], g_metrics = [(''m1'', users_metric)], g_profiles = [], g_entities = [],
     g_entity_evidence = [], g_evidence_entities = [(''e1'', []), (''e2'', [])], g_identity = None, g_phrases = [], g_pending = []\<rparr>"
  by code_simp

lemma demo_built: "built_ok demo_new"
proof (cases demo_new)
  case (Inl e)
  have "demo_graph = empty_graph []" unfolding demo_graph_def graph_or_empty_def Inl by simp
  then show ?thesis by (simp add: demo_graph_value empty_graph_def)
next
  case (Inr g)
  show ?thesis unfolding built_ok_def Inr by simp
qed

lemma demo_reachable: "reachable no_float demo_graph"
  using demo_built unfolding demo_graph_def demo_new_def by (rule built_graph)

section \<open>Nothing counts as a fact without evidence\<close>

lemma reachable_sound:
  "reachable fs g \<Longrightarrow> a \<in> set (all_assertions g) \<Longrightarrow> sound_assertion fs (g_evidence g) a"
  using reachable_ok [of fs g] by (simp add: wf_graph_def)

lemma known_length: "known E ids \<Longrightarrow> length (recs E ids) = length ids"
  by (induction ids) (auto simp: recs_def known_def has_def)

text \<open>C8: The text of the evidence carries every value: each record that an assertion of a reachable graph cites exists, and its value (for a tuple, every item) is supported by the content of a single record, for the predicate it is asserted under; a tool is asserted under the predicate of the skill it was checked as.\<close>

theorem every_value_is_evidenced:
  assumes "reachable fs g" and "a \<in> set (all_assertions g)" and "as_value a \<noteq> VNone" and "as_evidence a \<noteq> []"
  shows "length (records_of g (as_evidence a)) = length (as_evidence a)
    \<and> (\<exists>p. (as_predicate a = p \<or> as_predicate a = ''tool.'' @ drop 6 p \<and> prefix ''skill.'' p)
          \<and> is_value_supported_by_evidence fs (as_value a) (records_of g (as_evidence a)) p (as_subject a))"
proof -
  from reachable_sound [OF assms(1,2)] have s: "sound_assertion fs (g_evidence g) a" .
  then have k: "known (g_evidence g) (as_evidence a)" by (simp add: sound_assertion_def)
  let ?rs = "recs (g_evidence g) (as_evidence a)" and ?skill = "''skill.'' @ drop 5 (as_predicate a)"
  have "?rs \<noteq> []" using k assms(4) by (simp add: recs_empty_iff)
  with s assms(3) consider "is_value_supported_by_evidence fs (as_value a) ?rs (as_predicate a) (as_subject a)"
    | "prefix ''tool.'' (as_predicate a)" "is_value_supported_by_evidence fs (as_value a) ?rs ?skill (as_subject a)"
    by (auto simp: sound_assertion_def Let_def)
  then have "\<exists>p. (as_predicate a = p \<or> as_predicate a = ''tool.'' @ drop 6 p \<and> prefix ''skill.'' p)
      \<and> is_value_supported_by_evidence fs (as_value a) ?rs p (as_subject a)"
  proof cases
    case 2
    then have "as_predicate a = ''tool.'' @ drop 6 ?skill" "prefix ''skill.'' ?skill" by (auto simp: prefix_def)
    with 2(2) show ?thesis by blast
  qed blast
  with known_length [OF k] show ?thesis by (simp add: records_of_recs)
qed

lemma demo_assertion: "python_fact \<in> set (all_assertions demo_graph)" by code_simp

theorem every_value_is_evidenced_witness:
  "length (records_of demo_graph [''e1'']) = 1
    \<and> (\<exists>p. (''skill.name'' = p \<or> ''skill.name'' = ''tool.'' @ drop 6 p \<and> prefix ''skill.'' p)
          \<and> is_value_supported_by_evidence no_float (VText ''Python'') (records_of demo_graph [''e1'']) p ''skill_python'')"
  using every_value_is_evidenced [OF demo_reachable demo_assertion]
  by (simp add: python_fact_def fact_about_def)

lemma lookup_known:
  assumes "known E ids" and "i \<in> set ids"
  obtains r where "map_of E i = Some r" and "r \<in> set (recs E ids)"
proof -
  from assms obtain r where r: "map_of E i = Some r" by (auto simp: known_def has_def)
  with assms(2) have "r \<in> set (recs E ids)" by (auto simp: in_recs)
  with r show thesis by (rule that)
qed

definition rests_on_evidence :: "graph_state \<Rightarrow> string list \<Rightarrow> (evidence_record \<Rightarrow> bool) \<Rightarrow> bool" where
  "rests_on_evidence g ids P \<longleftrightarrow> ids \<noteq> [] \<and> (\<forall>i\<in>set ids. case map_of (g_evidence g) i of None \<Rightarrow> False | Some r \<Rightarrow> P r)"

lemma rests_onI:
  assumes k: "known (g_evidence g) ids" and "ids \<noteq> []" and p: "\<And>r. r \<in> set (recs (g_evidence g) ids) \<Longrightarrow> P r"
  shows "rests_on_evidence g ids P"
  using assms(2) by (auto simp: rests_on_evidence_def p elim!: lookup_known [OF k])

lemma verified_assertion:
  assumes s: "sound_assertion fs (g_evidence g) a" and v: "as_status a = VERIFIED"
  shows "rests_on_evidence g (as_evidence a)
    (\<lambda>r. ev_status r = VERIFIED \<or> ev_status r = APPROXIMATE \<and> as_modality a \<noteq> DEFINITE)"
proof (rule rests_onI)
  show "known (g_evidence g) (as_evidence a)" using s by (simp add: sound_assertion_def)
  show "as_evidence a \<noteq> []" using s v by (auto simp: sound_assertion_def Let_def recs_def)
  fix r assume "r \<in> set (recs (g_evidence g) (as_evidence a))"
  with s v show "ev_status r = VERIFIED \<or> ev_status r = APPROXIMATE \<and> as_modality a \<noteq> DEFINITE"
    by (cases "ev_status r") (auto simp: sound_assertion_def Let_def any_status_iff)
qed

lemma verified_relation:
  assumes "sound_relation (g_evidence g) r" and "rel_status r = VERIFIED"
  shows "rests_on_evidence g (rel_evidence r) (\<lambda>e. ev_status e \<noteq> UNVERIFIED)"
  by (rule rests_onI) (use assms in \<open>auto simp: sound_relation_def any_status_iff\<close>)

lemma verified_metric:
  assumes "sound_metric fs g m" and "mt_status m = METRIC_VERIFIED"
  shows "list_ex (\<lambda>r. single_record_supports_metric fs m r g) (records_of g (mt_evidence m))"
  using assms by (auto simp: sound_metric_def records_of_recs list_ex_iff)

text \<open>C7: A verified claim rests on verified evidence: behind a verified assertion there is at least one record, each one exists and is verified, or approximate when the assertion does not claim to be definite; behind a verified relation no record is unverified; and behind a verified metric stands a single record whose own text states that number, in that unit and context, about that subject.\<close>

theorem verified_rests_on_evidence:
  assumes "reachable fs g"
  shows "(\<forall>a\<in>set (all_assertions g). as_status a = VERIFIED \<longrightarrow> rests_on_evidence g (as_evidence a)
        (\<lambda>r. ev_status r = VERIFIED \<or> ev_status r = APPROXIMATE \<and> as_modality a \<noteq> DEFINITE))
    \<and> (\<forall>r\<in>set (all_relations g). rel_status r = VERIFIED \<longrightarrow> rests_on_evidence g (rel_evidence r) (\<lambda>e. ev_status e \<noteq> UNVERIFIED))
    \<and> (\<forall>m\<in>set (map snd (g_metrics g)). mt_status m = METRIC_VERIFIED \<longrightarrow>
        list_ex (\<lambda>r. single_record_supports_metric fs m r g) (records_of g (mt_evidence m)))"
proof (intro conjI ballI impI)
  fix m assume "m \<in> set (map snd (g_metrics g))"
  with reachable_ok [OF assms] have "sound_metric fs g m" by (auto simp: wf_graph_def)
  moreover assume "mt_status m = METRIC_VERIFIED"
  ultimately show "list_ex (\<lambda>r. single_record_supports_metric fs m r g) (records_of g (mt_evidence m))"
    by (rule verified_metric)
qed (use reachable_ok [OF assms] in \<open>auto simp: wf_graph_def intro: verified_assertion verified_relation\<close>)

lemma demo_metric: "users_metric \<in> set (map snd (g_metrics demo_graph))" by code_simp

theorem verified_rests_on_evidence_witness:
  "rests_on_evidence demo_graph [''e1''] (\<lambda>r. ev_status r = VERIFIED)
   \<and> list_ex (\<lambda>r. single_record_supports_metric no_float users_metric r demo_graph) (records_of demo_graph [''e1''])"
  using bspec [OF conjunct1 [OF verified_rests_on_evidence [OF demo_reachable]] demo_assertion]
    bspec [OF conjunct2 [OF conjunct2 [OF verified_rests_on_evidence [OF demo_reachable]]] demo_metric]
  by (simp add: python_fact_def fact_about_def users_metric_def)

section \<open>What an operation leaves alone\<close>

text \<open>A metric with a status of its own is final; only an unavailable one may be replaced.\<close>

definition settled :: "graph_state \<Rightarrow> graph_state \<Rightarrow> bool" where
  "settled g h \<longleftrightarrow> (\<forall>k m. map_of (g_metrics g) k = Some m \<longrightarrow> mt_status m \<noteq> METRIC_UNAVAILABLE
     \<longrightarrow> map_of (g_metrics h) k = Some m)"

lemma settled_same: "g_metrics h = g_metrics g \<Longrightarrow> settled g h"
  by (simp add: settled_def)

lemma settled_trans: "settled g h \<Longrightarrow> settled h k \<Longrightarrow> settled g k"
  by (simp add: settled_def)

lemma put_metric_settled:
  "\<not> has (g_metrics g) (mt_id m) \<or> (\<exists>n. map_of (g_metrics g) (mt_id m) = Some n \<and> mt_status n = METRIC_UNAVAILABLE)
   \<Longrightarrow> settled g (put_metric m g)"
  by (auto simp: settled_def put_metric_def update_conv' has_def)

text \<open>What the projection of an entity changes: assertions, relations, and metrics not yet settled.\<close>

definition only_projects :: "graph_state \<Rightarrow> graph_state \<Rightarrow> bool" where
  "only_projects g h \<longleftrightarrow> settled g h \<and> g_entities h = g_entities g"

lemma only_projects_trans: "only_projects g h \<Longrightarrow> only_projects h k \<Longrightarrow> only_projects g k"
  by (auto simp: only_projects_def intro: settled_trans)

lemma project_assertion_only: "only_projects g (fst (project_field_assertion fs s p v ids pr g))"
  by (auto simp: project_field_assertion_def Let_def only_projects_def settled_same put_assertion_def split: prod.splits sum.splits)

lemma wire_relation_only: "only_projects g (fst (wire_relation fs emp ach g))"
  by (auto simp: wire_relation_def Let_def only_projects_def settled_same put_relation_def split: prod.splits sum.splits)

lemma note_metric_only: "only_projects g (fst (note_metric s t ids nm g))"
proof -
  have "only_projects g (put_metric m g)" if "\<not> has (g_metrics g) (mt_id m)" for m
    using that by (simp add: only_projects_def put_metric_settled) (simp add: put_metric_def)
  moreover have "only_projects g g" by (simp add: only_projects_def settled_same)
  ultimately show ?thesis
    by (auto simp: note_metric_def Let_def split: prod.splits sum.splits)
qed

lemma run_steps_only:
  assumes "\<And>s h. only_projects h (fst (f s h))"
  shows "only_projects g (fst (run_steps f ss g))"
proof (rule run_steps_rule [where P = "only_projects g"])
  show "only_projects g g" by (simp add: only_projects_def settled_same)
qed (use assms in \<open>blast intro: only_projects_trans\<close>)

lemma project_only: "only_projects g (fst (project_entity_manifest fs e g))"
proof -
  have "only_projects h (fst (project_step fs s h))" for s h
  proof (cases s)
    case (FieldStep n x)
    have "only_projects h h" by (simp add: only_projects_def settled_same)
    with FieldStep show ?thesis
      by (auto simp: project_field_def Let_def project_assertion_only intro: run_steps_only)
  qed (simp_all add: wire_relation_only extract_metrics_from_text_def run_steps_only note_metric_only)
  then show ?thesis unfolding project_entity_manifest_def by (rule run_steps_only)
qed

lemma fold_commit_fields [simp]:
  "g_metrics (fold commit_node ns g) = g_metrics g"
  "has (g_entities (fold commit_node ns g)) i \<longleftrightarrow> i \<in> entity_id ` set ns \<or> has (g_entities g) i"
  by (induction ns arbitrary: g) auto

lemma walk_self: "p \<in> set (walk_profile p)"
  by (simp add: walk_profile_def)

text \<open>An addition that projects either changes nothing or records its entity.\<close>

definition recorded :: "entity \<Rightarrow> graph_state \<Rightarrow> graph_state \<Rightarrow> bool" where
  "recorded e g h \<longleftrightarrow> h = g \<or> settled g h \<and> has (g_entities h) (entity_id e)"

lemma add_profile_recorded: "recorded p g (fst (add_profile fs p g))"
proof (cases "fst (add_profile fs p g) = g")
  case False
  let ?h = "fold commit_node (walk_profile p) (put_profile p g)"
  from False have "fst (add_profile fs p g) = fst (project_entity_manifest fs p ?h)"
    by (auto simp: add_profile_def error_def Let_def split: if_splits option.splits)
  moreover have "has (g_entities ?h) (entity_id p)" "settled g ?h"
    using walk_self [of p] by (auto simp: put_profile_def intro: settled_same)
  ultimately show ?thesis using project_only [of ?h fs p] by (auto simp: recorded_def only_projects_def intro: settled_trans)
qed (simp add: recorded_def)

lemma add_single_recorded:
  assumes "\<And>h. g_entities (register h) = g_entities h" and "\<And>h. g_metrics (register h) = g_metrics h"
  shows "recorded e g (fst (add_single fs name e register g))"
proof (cases "fst (add_single fs name e register g) = g")
  case False
  let ?p = "fst (project_entity_manifest fs e (commit_node e g))"
  from False have "fst (add_single fs name e register g) \<in> {?p, register ?p}"
    by (auto simp: add_single_def error_def split: if_splits option.splits prod.splits)
  moreover have "has (g_entities (commit_node e g)) (entity_id e)" "settled g (commit_node e g)"
    by (simp_all add: settled_same)
  moreover have "settled h (register h)" for h by (simp add: settled_same assms)
  ultimately show ?thesis using project_only [of "commit_node e g" fs e]
    by (auto simp: recorded_def only_projects_def assms intro: settled_trans)
qed (simp add: recorded_def)

text \<open>The entity that an operation records.\<close>

fun op_entity :: "graph_op \<Rightarrow> entity option" where
  "op_entity (AddCareer p) = Some (Career p)"
| "op_entity (AddCapability p) = Some (Capability p)"
| "op_entity (AddIdentity i) = Some (IdentityBlock i)"
| "op_entity (AddPhrase p) = Some (Phrase p)"
| "op_entity _ = None"

lemma apply_op_recorded: "op_entity c = Some e \<Longrightarrow> recorded e g (fst (apply_op fs c g))"
proof (cases c)
  case (AddIdentity i)
  assume "op_entity c = Some e"
  with AddIdentity add_single_recorded [of "\<lambda>g. g\<lparr>g_identity := Some i\<rparr>" e g fs "''identity''"] show ?thesis
    by (auto simp: add_identity_def error_def recorded_def)
next
  case (AddPhrase p)
  assume "op_entity c = Some e"
  with AddPhrase add_single_recorded [of "\<lambda>g. g\<lparr>g_phrases := AList.update (ap_id p) p (g_phrases g)\<rparr>" e g fs "''approved_phrase '' @ ap_id p"]
  show ?thesis by (auto simp: add_approved_phrase_def error_def recorded_def)
qed (auto simp: add_career_profile_def add_capability_profile_def add_profile_recorded)

lemma plain_op_failed: "op_entity c = None \<Longrightarrow> snd (apply_op fs c g) \<noteq> None \<Longrightarrow> fst (apply_op fs c g) = g"
  by (cases c) (auto simp: add_evidence_def add_assertion_def add_relation_def add_metric_assertion_def error_def Let_def
      split: option.splits if_splits)

lemma apply_op_settled: "settled g (fst (apply_op fs c g))"
proof (cases "op_entity c")
  case (Some e)
  then show ?thesis using apply_op_recorded [OF Some, of g fs] by (auto simp: recorded_def settled_same)
next
  case None
  have "settled g (fst (add_metric_assertion fs m g))" for m
  proof (cases "metric_id_clash m g")
    case None
    then have "settled g (put_metric m g)"
      by (intro put_metric_settled) (auto simp: metric_id_clash_def taken_def split: option.splits if_splits)
    with None show ?thesis by (auto simp: add_metric_assertion_def error_def Let_def settled_same split: option.splits)
  qed (simp add: add_metric_assertion_def error_def Let_def settled_same)
  with None show ?thesis
    by (cases c) (auto simp: add_evidence_def add_assertion_def add_relation_def error_def Let_def put_assertion_def put_relation_def
        settled_same split: option.splits)
qed

text \<open>C18: Nothing recorded is rewritten: whatever is added to a graph of the constructor, and however the addition ends, every evidence record and entity stays what it was, every assertion and relation stays in the graph, and a metric that is verified or approximate keeps its number, context and evidence; only a metric that is still unavailable is replaced.\<close>

theorem recorded_facts_stay:
  assumes "reachable fs g" and "h = fst (apply_op fs c g)"
  shows "map_of (g_evidence g) \<subseteq>\<^sub>m map_of (g_evidence h) \<and> map_of (g_entities g) \<subseteq>\<^sub>m map_of (g_entities h)
    \<and> set (g_assertions g) \<subseteq> set (g_assertions h) \<and> set (g_relations g) \<subseteq> set (g_relations h)
    \<and> (\<forall>k m. map_of (g_metrics g) k = Some m \<longrightarrow> mt_status m \<noteq> METRIC_UNAVAILABLE \<longrightarrow> map_of (g_metrics h) k = Some m)"
  using apply_op_ok [OF reachable_ok [OF assms(1)], of c] apply_op_settled [of g fs c]
  by (simp add: assms(2) grows_def settled_def)

theorem recorded_facts_stay_witness:
  "map_of (g_metrics (fst (apply_op no_float (AddEvidence (cv_record ''e3'' ''More'' ''cv'')) demo_graph))) ''m1'' = Some users_metric"
proof -
  have "map_of (g_metrics demo_graph) ''m1'' = Some users_metric" by code_simp
  moreover have "mt_status users_metric \<noteq> METRIC_UNAVAILABLE" by (simp add: users_metric_def)
  ultimately show ?thesis using recorded_facts_stay [OF demo_reachable refl] by blast
qed

text \<open>C22: An addition that raises leaves the graph as it was, except that a profile, an identity block or a phrase that passed every check of its evidence may fail in the projection of its fields, and then its entity is already recorded.\<close>

theorem failed_addition:
  assumes "snd (apply_op fs c g) \<noteq> None" and "fst (apply_op fs c g) \<noteq> g"
  shows "\<exists>e. op_entity c = Some e \<and> has (g_entities (fst (apply_op fs c g))) (entity_id e)"
  using assms plain_op_failed [of c fs g] apply_op_recorded [of c _ g fs]
  by (cases "op_entity c") (auto simp: recorded_def)

definition split_phrase :: approved_phrase where
  "split_phrase = \<lparr>ap_id = ''ph1'', ap_text = ''Led'' @ [CHR 0x0A] @ ''a team'', ap_evidence = [''e1''], ap_tags = []\<rparr>"

definition split_graph :: graph_state where
  "split_graph = graph_or_empty (new_graph no_float [cv_record ''e1'' (''Led'' @ [CHR 0x0A] @ ''a team'') ''work''] [] [] [])"

definition phrase_run :: "graph_state \<Rightarrow> bool \<times> bool \<times> bool \<times> bool \<times> py_exn option" where
  "phrase_run g = (case add_approved_phrase no_float split_phrase g of (h, e) \<Rightarrow>
     (e \<noteq> None, has (g_entities h) ''ph1'', has (g_phrases h) ''ph1'', g_assertions h = g_assertions g,
      snd (add_approved_phrase no_float split_phrase h)))"

theorem phrase_half_committed:
  "validated approved_phrase_checks split_phrase = Inr split_phrase
   \<and> phrase_run split_graph = (True, True, False, True, Some (ValueError ''duplicate graph node id: ph1''))"
  by code_simp

theorem failed_addition_witness:
  "\<exists>e. op_entity (AddPhrase split_phrase) = Some e
      \<and> has (g_entities (fst (apply_op no_float (AddPhrase split_phrase) split_graph))) (entity_id e)"
proof (rule failed_addition)
  show "snd (apply_op no_float (AddPhrase split_phrase) split_graph) \<noteq> None" by code_simp
  have "g_entities (fst (apply_op no_float (AddPhrase split_phrase) split_graph)) \<noteq> []" by code_simp
  moreover have "g_entities split_graph = []" by code_simp
  ultimately show "fst (apply_op no_float (AddPhrase split_phrase) split_graph) \<noteq> split_graph" by metis
qed

section \<open>Linked evidence\<close>

lemma verified_edge_sym: "verified_edge g a b = verified_edge g b a"
  by (auto simp: verified_edge_def intro!: arg_cong [where f = "\<lambda>p. list_ex p (g_relations g)"])

lemma all_pairs_iff:
  "(\<And>a b. P a b = P b a) \<Longrightarrow> distinct xs \<Longrightarrow>
   all_pairs P xs \<longleftrightarrow> (\<forall>a\<in>set xs. \<forall>b\<in>set xs. a \<noteq> b \<longrightarrow> P a b)"
  by (induction xs) (auto simp: list_all_iff)

text \<open>One entity that is not a profile cites all of the records.\<close>

definition share_entity :: "graph_state \<Rightarrow> string list \<Rightarrow> bool" where
  "share_entity g ids \<longleftrightarrow> list_ex (\<lambda>(k, ev). map_of (g_entity_evidence g) k = Some ev \<and> \<not> root_entity g k \<and> set ids \<subseteq> set ev)
     (g_entity_evidence g)"

lemma share_entity_iff:
  assumes "indexed g" and "ids \<noteq> []"
  shows "share_entity g ids \<longleftrightarrow> (\<exists>k. \<not> root_entity g k \<and> (\<forall>i\<in>set ids. k \<in> set (entities_of g i)))"
proof
  assume "share_entity g ids"
  with assms(1) show "\<exists>k. \<not> root_entity g k \<and> (\<forall>i\<in>set ids. k \<in> set (entities_of g i))"
    by (fastforce simp: share_entity_def list_ex_iff indexed_def)
next
  assume "\<exists>k. \<not> root_entity g k \<and> (\<forall>i\<in>set ids. k \<in> set (entities_of g i))"
  then obtain k where k: "\<not> root_entity g k" "\<And>i. i \<in> set ids \<Longrightarrow> k \<in> set (entities_of g i)" by blast
  from assms(2) have "hd ids \<in> set ids" by simp
  with k(2) have "k \<in> set (entities_of g (hd ids))" by blast
  with assms(1) obtain ev where ev: "map_of (g_entity_evidence g) k = Some ev" by (auto simp: indexed_def)
  with k(2) assms(1) have "set ids \<subseteq> set ev" by (fastforce simp: indexed_def)
  with k(1) ev map_of_SomeD [OF ev] show "share_entity g ids"
    by (auto simp: share_entity_def list_ex_iff intro!: bexI [of _ "(k, ev)"])
qed

text \<open>C19: Evidence is linked exactly when it is a single record, when one entity that is not a profile cites all of it, or when every two of its records are joined by a verified relation between entities that cite them; the profile as a whole links nothing.\<close>

theorem linked_iff:
  assumes "reachable fs g"
  shows "are_relationally_linked g ids \<longleftrightarrow> card (set ids) \<le> 1 \<or> share_entity g ids
    \<or> (\<forall>i\<in>set ids. \<forall>j\<in>set ids. i \<noteq> j \<longrightarrow> verified_edge g i j)"
proof (cases "firsts ids")
  case Nil
  then have "set ids = {}" by (metis set_firsts list.set(1))
  with Nil show ?thesis by (simp add: are_relationally_linked_def)
next
  case (Cons i rest)
  then have ids: "set ids = set (i # rest)" and d: "distinct (i # rest)" by (metis set_firsts, metis distinct_firsts)
  from ids have "ids \<noteq> []" by auto
  from reachable_ok [OF assms] have "indexed g" by (simp add: wf_graph_def)
  note share = share_entity_iff [OF this \<open>ids \<noteq> []\<close>]
  have card: "card (set ids) = Suc (length rest)" using ids d by (simp add: distinct_card)
  have pairs: "all_pairs (verified_edge g) (i # rest) \<longleftrightarrow> (\<forall>a\<in>set ids. \<forall>b\<in>set ids. a \<noteq> b \<longrightarrow> verified_edge g a b)"
    using all_pairs_iff [OF verified_edge_sym d] by (simp only: ids)
  have common: "list_ex (\<lambda>e. \<not> root_entity g e \<and> list_all (\<lambda>j. e \<in> set (entities_of g j)) rest) (entities_of g i)
      \<longleftrightarrow> share_entity g ids"
    unfolding share ids by (auto simp: list_ex_iff list_all_iff)
  show ?thesis
  proof (cases rest)
    case Nil
    with Cons card show ?thesis by (simp add: are_relationally_linked_def)
  next
    case (Cons j js)
    then have "are_relationally_linked g ids \<longleftrightarrow>
        list_ex (\<lambda>e. \<not> root_entity g e \<and> list_all (\<lambda>j. e \<in> set (entities_of g j)) rest) (entities_of g i)
        \<or> all_pairs (verified_edge g) (i # rest)"
      using \<open>firsts ids = i # rest\<close> by (simp add: are_relationally_linked_def)
    with card Cons show ?thesis unfolding common pairs by simp
  qed
qed

theorem linked_iff_witness: "\<not> are_relationally_linked demo_graph [''e1'', ''e2'']"
proof -
  have "\<not> share_entity demo_graph [''e1'', ''e2'']" "\<not> verified_edge demo_graph ''e1'' ''e2''" by code_simp+
  with linked_iff [OF demo_reachable, of "[''e1'', ''e2'']"] show ?thesis by simp
qed

section \<open>Active assertions\<close>

text \<open>C20: An assertion is active exactly when it is recorded and in force at the given day, contests nothing, and no assertion in force at that day supersedes or contests it.\<close>

theorem active_iff:
  assumes "reachable fs g"
  shows "a \<in> set (active_assertions g d) \<longleftrightarrow>
    a \<in> set (all_assertions g) \<and> asserted a d \<and> as_conflicts a = []
    \<and> (\<forall>b\<in>set (all_assertions g). asserted b d \<longrightarrow> as_id a \<notin> set (as_supersedes b) \<union> set (as_conflicts b))"
proof -
  from reachable_ok [OF assms] have k: "keyed as_id (g_assertions g)" by (simp add: wf_graph_def)
  then have same: "b = c" if "b \<in> set (all_assertions g)" "c \<in> set (all_assertions g)" "as_id b = as_id c" for b c
    using that by (auto simp: keyed_def all_assertions_def) (metis case_prodD map_of_is_SomeI option.inject)
  have "as_id a \<in> set (hidden_ids g d) \<longleftrightarrow> (\<exists>b\<in>set (all_assertions g). asserted b d \<and>
      (as_id a \<in> set (as_supersedes b) \<union> set (as_conflicts b) \<or> as_conflicts b \<noteq> [] \<and> as_id a = as_id b))"
    by (auto simp: hidden_ids_def split: if_splits)
  with same [of a] show ?thesis by (auto simp: active_assertions_def)
qed

theorem active_iff_witness: "python_fact \<in> set (active_assertions demo_graph None)"
proof -
  have "all_assertions demo_graph = [python_fact]" by code_simp
  then show ?thesis
    unfolding active_iff [OF demo_reachable] by (simp add: asserted_def in_force_def python_fact_def fact_about_def)
qed

section \<open>The weakest record decides\<close>

fun strength :: "VerificationStatus \<Rightarrow> nat" where
  "strength EXPLICIT_NULL = 0"
| "strength UNVERIFIED = 1"
| "strength APPROXIMATE = 2"
| "strength VERIFIED = 3"

lemma weakest_strength: "rs \<noteq> [] \<Longrightarrow> strength (weakest_status rs) = Min ((strength \<circ> ev_status) ` set rs)"
proof (rule sym, rule Min_eqI)
  fix n assume "n \<in> (strength \<circ> ev_status) ` set rs"
  then obtain r where r: "r \<in> set rs" "n = strength (ev_status r)" by auto
  then show "strength (weakest_status rs) \<le> n"
    by (cases "ev_status r") (auto simp: weakest_status_def any_status_iff)
next
  assume "rs \<noteq> []"
  then have "last rs \<in> set rs" by simp
  have "\<exists>r\<in>set rs. ev_status r = weakest_status rs"
  proof (cases "weakest_status rs = VERIFIED")
    case True
    with \<open>last rs \<in> set rs\<close> weakest_verified [of rs] show ?thesis by metis
  next
    case False
    then show ?thesis by (auto simp: weakest_status_def any_status_iff split: if_splits)
  qed
  then show "strength (weakest_status rs) \<in> (strength \<circ> ev_status) ` set rs" by (metis comp_apply imageI)
qed simp

text \<open>C21: A projected assertion is as strong as its weakest record: its status is the weakest status among its evidence, its type the least assertive of its own default and the types of its evidence, and without evidence it is an unsupported, unverified claim.\<close>

theorem weakest_link:
  assumes "derive_epistemic_status g ids t0 = (t, st, po, mo)"
  shows "if records_of g ids = [] then t = UNSUPPORTED_CLAIM \<and> st = UNVERIFIED
    else strength st = Min ((strength \<circ> ev_status) ` set (records_of g ids))
      \<and> type_priority t = Min (insert (type_priority t0) ((type_priority \<circ> ev_type) ` set (records_of g ids)))"
  using assms weakest_strength [of "records_of g ids"] type_priority_fold [of t0 "records_of g ids"]
  by (auto simp: derive_epistemic_status_def Let_def split: if_splits)

theorem weakest_link_witness: "strength VERIFIED = Min ((strength \<circ> ev_status) ` set (records_of demo_graph [''e1'', ''e2'']))"
proof -
  have "derive_epistemic_status demo_graph [''e1'', ''e2''] DIRECT_FACT = (DIRECT_FACT, VERIFIED, POSITIVE, DEFINITE)"
    and "records_of demo_graph [''e1'', ''e2''] \<noteq> []" by code_simp+
  with weakest_link show ?thesis by force
qed

end
