(* ===== verification/Truth_Findings.thy ===== *)
theory Truth_Findings
  imports Truth_Properties
begin

text \<open>
  Runs of the truth graph where it departs from what it promises, each on a small concrete graph.
\<close>

section \<open>Two values, one assertion\<close>

definition summary_profile :: career_profile where
  "summary_profile = \<lparr>cp_id = ''p1'', cp_evidence = [''e1''], cp_employment = [], cp_education = [], cp_certifications = [],
     cp_skills = [], cp_languages = [], cp_authorizations = [],
     cp_summaries = [''Led a team that built the payments platform'', ''Led a team that built the payments service''],
     cp_red_lines = [], cp_never_claims = []\<rparr>"

definition summary_graph :: graph_state where
  "summary_graph = graph_or_empty (new_graph no_float
     [cv_record ''e1'' ''Led a team that built the payments platform. Led a team that built the payments service.'' ''summary''] [] [] [])"

definition summaries_after :: "truth_value list \<times> py_exn option" where
  "summaries_after = (case add_career_profile no_float summary_profile summary_graph of (h, e) \<Rightarrow> (map as_value (all_assertions h), e))"

theorem long_values_collide:
  "summaries_after = ([VText ''Led a team that built the payments platform''], None)"
  by code_simp

section \<open>Numbers\<close>

definition numbers_in :: "string \<Rightarrow> (int \<times> string) list" where
  "numbers_in t = map (\<lambda>(v, u, _). (case v of Whole i \<Rightarrow> i | Floating _ \<Rightarrow> -1, u)) (parse_metrics_with_context t)"

theorem thousands_are_split: "numbers_in ''Served 1,234,567 users'' = [(1234, ''count''), (567, ''users'')]"
  by code_simp

theorem full_stop_hides_number: "number_support ''40'' ''Available: 40 hours.'' \<and> \<not> number_support ''40'' ''Hours available: 40.''"
  by code_simp

section \<open>Words\<close>

theorem java_in_javascript: "plain_support ''Java'' ''Five years of JavaScript'' ''skill.name''"
  by code_simp

definition polarity_of :: "string \<Rightarrow> Polarity result" where
  "polarity_of t = (case new_graph no_float [cv_record ''e1'' t ''skills''] [] [] [] of
     Inl e \<Rightarrow> Inl e
   | Inr g \<Rightarrow> (case derive_epistemic_status g [''e1''] DIRECT_FACT of (_, _, p, _) \<Rightarrow> Inr p))"

theorem any_no_negates: "polarity_of ''Python services. Works with no supervision'' = Inr NEGATIVE"
  by code_simp

section \<open>An unverified assertion retires a verified one\<close>

definition doubt :: assertion where
  "doubt = (fact_about ''a2'' ''skill_python'' ''skill.name'' (VText ''Python'') [])
     \<lparr>as_type := USER_ASSERTION, as_status := UNVERIFIED, as_supersedes := [''a1'']\<rparr>"

definition active_after :: "assertion \<Rightarrow> graph_state \<Rightarrow> string list \<times> py_exn option" where
  "active_after a g = (case add_assertion no_float a g of (h, e) \<Rightarrow> (map as_id (active_assertions h None), e))"

theorem unverified_supersedes:
  "validated assertion_checks doubt = Inr doubt \<and> active_after doubt demo_graph = ([''a2''], None)"
  by code_simp

section \<open>The outcome of a portfolio item\<close>

definition portfolio_profile :: capability_profile where
  "portfolio_profile = \<lparr>bp_id = ''b1'', bp_evidence = [''e1''], bp_services = [],
     bp_portfolio = [\<lparr>pf_id = ''w1'', pf_title = ''Portal'', pf_summary = ''Portal for 12 clients'', pf_evidence = [''e1''],
        pf_outcome = Some ''Portal for 900 users'', pf_metric = METRIC_UNAVAILABLE, pf_url = None\<rparr>],
     bp_capacity = None, bp_industries = [], bp_excluded = [], bp_languages = [], bp_tools = [], bp_red_lines = [], bp_never_claims = []\<rparr>"

definition portfolio_graph :: graph_state where
  "portfolio_graph = graph_or_empty (new_graph no_float [cv_record ''e1'' ''Portal for 12 clients. Portal for 900 users'' ''work''] [] [] [])"

definition metrics_after :: "(string \<times> string) list \<times> py_exn option" where
  "metrics_after = (case add_capability_profile no_float portfolio_profile portfolio_graph of (h, e) \<Rightarrow>
     (map (\<lambda>(k, m). (k, mt_context m)) (g_metrics h), e))"

theorem outcome_metric_lost: "metrics_after = ([(''metric_w1_0'', ''Portal for 12 clients'')], None)"
  by code_simp

end
