(* ===== verification/Claim_Validator.thy ===== *)
theory Claim_Validator
  imports Truth_Graph
begin

text \<open>
  \<open>truth/validator.py\<close>: whether a sentence about the founder may be used. \<open>ClaimValidator\<close> holds a
  truth graph, which is an argument here. Sets of words are lists without order; text is ASCII, where
  \<open>casefold\<close> is \<open>lower\<close>. \<open>re.search\<close> with the pattern of a rule, which a truth pack supplies as text,
  is the argument \<open>srch\<close>: the text of the error it raises, or whether it finds a match.
\<close>

section \<open>Words, markers and metrics of a claim\<close>

definition NON_MATERIAL_WORDS :: "string list" where
  "NON_MATERIAL_WORDS = [
     ''a'', ''an'', ''and'', ''or'', ''the'', ''is'', ''was'', ''were'', ''are'', ''be'', ''been'', ''being'',
     ''have'', ''has'', ''had'', ''do'', ''does'', ''did'', ''as'', ''at'', ''by'', ''for'', ''from'', ''in'',
     ''into'', ''of'', ''on'', ''onto'', ''to'', ''with'', ''uses'', ''used'', ''using'', ''that'', ''this'',
     ''these'', ''those'', ''approximately'', ''about'', ''around'', ''nearly'', ''roughly'', ''such'',
     ''over'', ''under'', ''more'', ''less'', ''than'', ''per'', ''we'', ''i'', ''he'', ''she'', ''they'', ''our'',
     ''served'', ''serves'', ''serving'', ''works'', ''worked'', ''working'', ''offers'', ''offered'', ''offering'']"

text \<open>
  The lines of the file beside the module: blank lines and comments are skipped; a file that cannot be
  read counts as empty. \<open>splitlines\<close> also splits at the other line separators; the empty line it does
  not see between a carriage return and a line feed is blank.
\<close>

definition line_break :: "char \<Rightarrow> bool" where
  "line_break c \<longleftrightarrow> c \<in> {CHR 0x0A, CHR 0x0B, CHR 0x0C, CHR 0x0D, CHR 0x1C, CHR 0x1D, CHR 0x1E}"

definition load_connective_terms :: "string option \<Rightarrow> string list" where
  "load_connective_terms raw =
     (case raw of
        None \<Rightarrow> []
      | Some t \<Rightarrow> map py_lower (filter (\<lambda>l. l \<noteq> [] \<and> \<not> prefix ''#'' l)
                    (map py_strip (py_split (CHR 0x0A) (map (\<lambda>c. if line_break c then CHR 0x0A else c) t)))))"

definition CONNECTIVE_TERMS :: "string list" where
  "CONNECTIVE_TERMS = [''dear'', ''sincerely'', ''regards'', ''faithfully'', ''yours'', ''truly'', ''warmly'', ''respectfully'',
     ''hello'', ''hi'', ''background'']"

definition approximation_re :: re where
  "approximation_re = cats [Edge,
     any_of [liti ''about'', liti ''approximately'', Cat (liti ''approx'') (opt_of (lit ''.'')), liti ''around'', liti ''roughly'',
       liti ''nearly'', liti ''circa''],
     Edge]"

definition planning_re :: re where
  "planning_re = cats [Edge,
     any_of [Cat (liti ''plan'') (opt_of (Or (liti ''ned'') (liti ''ning''))), Cat (liti ''pursu'') (Or (liti ''e'') (liti ''ing'')),
       Cat (liti ''intend'') (opt_of (Or (liti ''ed'') (liti ''ing''))), Cat (liti ''prepar'') (Or (liti ''e'') (liti ''ing'')),
       Cat (liti ''aspir'') (Or (liti ''e'') (liti ''ing'')), liti ''candidate''],
     Edge]"

definition held_re :: re where
  "held_re = cats [Edge,
     any_of [liti ''certified'', liti ''credentialed'', Cat (liti ''hold'') (opt_of (Or (liti ''s'') (liti ''ing''))),
       liti ''earned'', liti ''obtained'', liti ''completed'', liti ''awarded''],
     Edge]"

definition exact_re :: re where
  "exact_re = cats [Edge, any_of [liti ''exactly'', liti ''strictly'', liti ''precisely''], Edge]"

text \<open>\<open>_SPACE.sub(" ", s.strip())\<close>.\<close>

definition squeeze :: "string \<Rightarrow> string" where
  "squeeze s = py_join '' '' (py_words s)"

definition normalize :: "string \<Rightarrow> string" where
  "normalize s = squeeze (py_lower s)"

definition claim_tokens :: "string \<Rightarrow> string list" where
  "claim_tokens s = map (\<lambda>(m, _). py_lower m) (re_finditer word_pattern s)"

definition material :: "string list \<Rightarrow> string list" where
  "material ts = words_minus ts NON_MATERIAL_WORDS"

definition clean_text :: "string \<Rightarrow> string" where
  "clean_text s = squeeze (py_lower (map (\<lambda>c. if py_isword c \<or> py_isspace c then c else CHR '' '') s))"

definition phone_char :: "char \<Rightarrow> bool" where
  "phone_char c \<longleftrightarrow> py_isdigit c \<or> py_isspace c \<or> c \<in> {CHR ''-'', CHR ''.'', CHR ''('', CHR '')''}"

definition phone_re :: re where
  "phone_re = cats [Or Edge (lit ''+''), Ch py_isdigit, times_of 5 (Ch phone_char), Many (Ch phone_char), Ch py_isdigit, Edge]"

definition part_of_phone :: "string \<Rightarrow> metric_match \<Rightarrow> bool" where
  "part_of_phone text m \<longleftrightarrow>
     list_ex (\<lambda>(i, p, _). i \<le> mm_start m \<and> mm_start m + length (mm_text m) \<le> i + length p \<and> 7 \<le> length (filter py_isdigit p))
       (re_finditer_at phone_re text)"

definition claim_metrics :: "string \<Rightarrow> (number \<times> string \<times> string) list" where
  "claim_metrics text =
     List.map_filter (\<lambda>m.
       let u = py_lower (match_unit m) in
       if u = ''count'' \<and> (year_like (filter py_isdigit (match_number m)) \<or> part_of_phone text m) then None
       else Some (read_number (match_number m), u,
              py_strip (clause_context text (mm_start m) (mm_start m + length (mm_text m)))))
     (metric_matches text)"

section \<open>Candidates and results\<close>

record claim_candidate =
  cc_text :: string
  cc_assertions :: "string list"
  cc_concepts :: "ProhibitedConceptCategory list"
  cc_evidence :: "string list"
  cc_as_of :: "py_date option"

definition candidate_checks :: "claim_candidate \<Rightarrow> check list" where
  "candidate_checks c = [require_text (cc_text c) ''text'']"

record claim_result =
  cr_claim :: string
  cr_allowed :: bool
  cr_type :: AssertionType
  cr_status :: VerificationStatus
  cr_evidence :: "string list"
  cr_reasons :: "string list"

definition result_checks :: "claim_result \<Rightarrow> check list" where
  "result_checks r =
     require_text (cr_claim r) ''claim'' # evidence_id_checks True (cr_evidence r)
     @ [(cr_allowed r \<longrightarrow> cr_type r \<notin> {UNSUPPORTED_CLAIM, PROHIBITED_CLAIM}, ''unsupported or prohibited claims cannot be allowed'')]"

definition result_of ::
  "string \<Rightarrow> bool \<Rightarrow> AssertionType \<Rightarrow> VerificationStatus \<Rightarrow> string list \<Rightarrow> string list \<Rightarrow> claim_result result" where
  "result_of c ok t s ids why =
     validated result_checks
       \<lparr>cr_claim = c, cr_allowed = ok, cr_type = t, cr_status = s, cr_evidence = ids, cr_reasons = why\<rparr>"

definition refuse :: "string \<Rightarrow> AssertionType \<Rightarrow> string list \<Rightarrow> string list \<Rightarrow> claim_result result" where
  "refuse c t ids why = result_of c False t UNVERIFIED ids why"

fun concept_value :: "ProhibitedConceptCategory \<Rightarrow> string" where
  "concept_value GUARANTEED_OUTCOME = ''guaranteed_outcome''"
| "concept_value FORTUNE_500_PRESTIGE = ''fortune_500_prestige''"
| "concept_value UNAUTHORIZED_LEGAL_PRACTICE = ''unauthorized_legal_practice''"
| "concept_value UNAUTHORIZED_MEDICAL_PRACTICE = ''unauthorized_medical_practice''"
| "concept_value SECURITY_CLEARANCE = ''security_clearance''"
| "concept_value IP_EXCLUSIVITY_WARRANTY = ''ip_exclusivity_warranty''"
| "concept_value FEE_CIRCUMVENTION = ''fee_circumvention''"
| "concept_value UNHELD_CREDENTIAL = ''unheld_credential''"
| "concept_value UNBACKED_COMMERCIAL_CAPACITY = ''unbacked_commercial_capacity''"

section \<open>Rules and credentials\<close>

type_synonym rule_search = "string \<Rightarrow> string \<Rightarrow> string + bool"

fun red_line_reasons :: "rule_search \<Rightarrow> string \<Rightarrow> red_line list \<Rightarrow> string list result" where
  "red_line_reasons srch c [] = Inr []"
| "red_line_reasons srch c (r # rs) =
     (case srch (rl_pattern r) c of
        Inl e \<Rightarrow> Inl (ValueError (''invalid red-line pattern '' @ rl_id r @ '': '' @ e))
      | Inr hit \<Rightarrow> bind (red_line_reasons srch c rs)
          (\<lambda>ms. Inr (if hit then (''red line '' @ rl_id r @ '': '' @ rl_reason r) # ms else ms)))"

definition phrase_hit :: "string \<Rightarrow> never_claim \<Rightarrow> bool" where
  "phrase_hit c n \<longleftrightarrow> list_ex (\<lambda>p. clean_text p \<noteq> [] \<and> py_in (clean_text p) (clean_text c)) (nc_phrases n)"

fun never_claim_reasons :: "rule_search \<Rightarrow> string \<Rightarrow> never_claim list \<Rightarrow> string list result" where
  "never_claim_reasons srch c [] = Inr []"
| "never_claim_reasons srch c (n # ns) =
     (case (if nc_pattern n = [] then Inr False else srch (nc_pattern n) c) of
        Inl e \<Rightarrow> Inl (ValueError (''invalid never-claim pattern '' @ nc_id n @ '': '' @ e))
      | Inr hit \<Rightarrow> bind (never_claim_reasons srch c ns)
          (\<lambda>ms. Inr (if hit \<or> phrase_hit c n
                     then (''never-claim '' @ nc_id n @ '' ['' @ concept_value (nc_concept n) @ '']: '' @ nc_description n) # ms
                     else ms)))"

definition prohibited_reasons :: "rule_search \<Rightarrow> graph_state \<Rightarrow> string \<Rightarrow> string list result" where
  "prohibited_reasons srch g c =
     bind (red_line_reasons srch c (fst (graph_rules g)))
       (\<lambda>a. bind (never_claim_reasons srch c (snd (graph_rules g))) (\<lambda>b. Inr (a @ b)))"

definition names_certification :: "string \<Rightarrow> certification \<Rightarrow> bool" where
  "names_certification c cert \<longleftrightarrow> py_in (normalize (cert_name cert)) (normalize c)"

definition planned_credential_reasons :: "graph_state \<Rightarrow> string \<Rightarrow> string list" where
  "planned_credential_reasons g c =
     map (\<lambda>cert. ''planned certification '' @ cert_id cert @ '' cannot be represented as held'')
       (filter (\<lambda>cert. cert_state cert = CERT_PLANNED \<and> names_certification c cert \<and> (found held_re c \<or> \<not> found planning_re c))
         (certification_records g))"

section \<open>Evidence for a claim\<close>

text \<open>Step 4: a claim must not be stronger than a record that is considered for it.\<close>

definition strengthens :: "string \<Rightarrow> string \<Rightarrow> string option" where
  "strengthens content c =
     (if found negative_markers content \<and> \<not> found negative_markers c
      then Some ''claim inverts negative evidence polarity into a positive assertion''
      else if found bound_at_most content \<and> (found bound_at_least c \<or> found exact_re c)
      then Some ''claim strengthens upper-bound modality to exact or lower-bound''
      else if found conditional_re content \<and> \<not> found conditional_re c
      then Some ''claim strengthens conditional evidence to unconditional assertion''
      else None)"

definition content_of :: "evidence_record \<Rightarrow> string" where
  "content_of r = (case ev_content r of None \<Rightarrow> [] | Some t \<Rightarrow> t)"

definition strengthened :: "string \<Rightarrow> evidence_record list \<Rightarrow> (string \<times> string) option" where
  "strengthened c rs =
     (case List.map_filter (\<lambda>r. if content_of r = [] then None else map_option (\<lambda>m. (ev_id r, m)) (strengthens (content_of r) c)) rs of
        [] \<Rightarrow> None
      | x # _ \<Rightarrow> Some x)"

definition included :: "string list \<Rightarrow> string list \<Rightarrow> bool" where
  "included xs ys \<longleftrightarrow> list_all (\<lambda>x. x \<in> set ys) xs"

definition covers :: "string \<Rightarrow> evidence_record \<Rightarrow> bool" where
  "covers c r \<longleftrightarrow> content_of r \<noteq> [] \<and> material (claim_tokens c) \<noteq> [] \<and> included (material (claim_tokens c)) (claim_tokens (content_of r))"

definition text_supports :: "string option \<Rightarrow> string \<Rightarrow> bool" where
  "text_supports content c \<longleftrightarrow>
     (case content of
        None \<Rightarrow> False
      | Some t \<Rightarrow>
          let nt = normalize t; nc = normalize c; ct = material (claim_tokens nc); et = material (claim_tokens nt) in
          nt = nc \<or> 4 \<le> length nt \<and> py_in nt nc \<or> et \<noteq> [] \<and> included et ct \<or> meets et ct)"

definition supporting :: "string \<Rightarrow> evidence_record list \<Rightarrow> evidence_record list" where
  "supporting c rs = (if filter (covers c) rs \<noteq> [] then filter (covers c) rs else filter (\<lambda>r. text_supports (ev_content r) c) rs)"

definition temporal_reason :: "graph_state \<Rightarrow> string \<Rightarrow> py_date \<Rightarrow> string option" where
  "temporal_reason g c d =
     (case List.map_filter (\<lambda>cert. case cert_expiry cert of
              None \<Rightarrow> None
            | Some x \<Rightarrow> if date_before x d \<and> names_certification c cert \<and> found held_re c
                        then Some (''certification '' @ cert_id cert @ '' expired on '' @ date_iso x @ '' as of '' @ date_iso d) else None)
           (certification_records g) of
        [] \<Rightarrow> None
      | m # _ \<Rightarrow> Some m)"

definition uncovered_terms :: "string \<Rightarrow> evidence_record list \<Rightarrow> string list" where
  "uncovered_terms c rs =
     sort (remdups (words_minus (material (words_minus (claim_tokens c) (concat (map (\<lambda>r. claim_tokens (content_of r)) rs))))
       CONNECTIVE_TERMS))"

definition resolve_verification_status :: "evidence_record list \<Rightarrow> string \<Rightarrow> VerificationStatus option" where
  "resolve_verification_status rs c =
     (if any_status EXPLICIT_NULL rs \<or> any_status UNVERIFIED rs then None
      else if any_status APPROXIMATE rs then (if found approximation_re c then Some APPROXIMATE else None)
      else Some VERIFIED)"

definition metric_states :: "(real \<Rightarrow> string) \<Rightarrow> string list option \<Rightarrow> number \<times> string \<times> string \<Rightarrow> metric \<Rightarrow> bool" where
  "metric_states fs subjects = (\<lambda>(x, u, ctx) m.
     mt_status m = METRIC_VERIFIED
     \<and> (case subjects of None \<Rightarrow> True | Some ss \<Rightarrow> mt_subject m \<in> set ss)
     \<and> num_real (mt_value m) = num_real x \<and> units_compatible u (mt_unit m)
     \<and> metric_contexts_compatible fs (mt_context m) ctx x)"

definition metric_proven ::
  "(real \<Rightarrow> string) \<Rightarrow> graph_state \<Rightarrow> string list option \<Rightarrow> evidence_record list \<Rightarrow> number \<times> string \<times> string \<Rightarrow> bool" where
  "metric_proven fs g subjects rs q \<longleftrightarrow>
     list_ex (\<lambda>r. content_of r \<noteq> [] \<and> list_ex (metric_states fs subjects q) (metric_assertions_for_evidence g (ev_id r))) rs"

definition metric_provenance ::
  "(real \<Rightarrow> string) \<Rightarrow> graph_state \<Rightarrow> string list option \<Rightarrow> evidence_record list \<Rightarrow> string \<Rightarrow> string option" where
  "metric_provenance fs g subjects rs c =
     map_option (\<lambda>(x, u, _). ''claim metric '' @ quoted (number_repr fs x @ '' '' @ u) @ '' lacks an exact verified metric provenance node'')
       (find (\<lambda>q. \<not> metric_proven fs g subjects rs q) (claim_metrics c))"

definition has_type :: "AssertionType \<Rightarrow> evidence_record list \<Rightarrow> bool" where
  "has_type t rs \<longleftrightarrow> list_ex (\<lambda>r. ev_type r = t) rs"

definition resolve_assertion_type :: "evidence_record list \<Rightarrow> AssertionType" where
  "resolve_assertion_type rs =
     (if rs = [] then UNSUPPORTED_CLAIM
      else if has_type PROHIBITED_CLAIM rs then PROHIBITED_CLAIM
      else if has_type UNSUPPORTED_CLAIM rs then UNSUPPORTED_CLAIM
      else if has_type USER_ASSERTION rs then USER_ASSERTION
      else if has_type DERIVED_CAPABILITY rs then DERIVED_CAPABILITY
      else if has_type NORMALIZED_FACT rs then NORMALIZED_FACT
      else DIRECT_FACT)"

section \<open>Validation of a claim\<close>

text \<open>Steps 6 to 12, once the supporting records are found.\<close>

definition judge_supported ::
  "(real \<Rightarrow> string) \<Rightarrow> graph_state \<Rightarrow> string \<Rightarrow> py_date option \<Rightarrow> string list option \<Rightarrow> evidence_record list \<Rightarrow> claim_result result" where
  "judge_supported fs g c as_of subjects rs =
     (let ids = map ev_id rs; no = (\<lambda>t why. refuse c t ids [why]) in
      case (case as_of of None \<Rightarrow> None | Some d \<Rightarrow> temporal_reason g c d) of
        Some why \<Rightarrow> no UNSUPPORTED_CLAIM why
      | None \<Rightarrow>
          if length rs > 1 \<and> \<not> are_relationally_linked g ids
          then no UNSUPPORTED_CLAIM ''composite claim combines independent evidence records without an establishing graph relation''
          else if uncovered_terms c rs \<noteq> []
          then no UNSUPPORTED_CLAIM (''claim contains material terms absent from evidence: '' @ py_join '', '' (uncovered_terms c rs))
          else (case resolve_verification_status rs c of
                  None \<Rightarrow> no UNSUPPORTED_CLAIM ''supporting evidence is unverified, explicit-null, or approximate without qualification''
                | Some s \<Rightarrow>
                    (case metric_provenance fs g subjects rs c of
                       Some why \<Rightarrow> no UNSUPPORTED_CLAIM why
                     | None \<Rightarrow>
                         if resolve_assertion_type rs \<in> {UNSUPPORTED_CLAIM, PROHIBITED_CLAIM}
                         then no (resolve_assertion_type rs) ''claim resolves to unsupported or prohibited assertion type''
                         else result_of c True (resolve_assertion_type rs) s ids [''claim is traceable to supporting evidence''])))"

definition considered :: "graph_state \<Rightarrow> string list \<Rightarrow> evidence_record list" where
  "considered g requested = (if requested = [] then map snd (g_evidence g) else records_of g requested)"

text \<open>Steps 3 to 5.\<close>

definition judge_evidence ::
  "(real \<Rightarrow> string) \<Rightarrow> graph_state \<Rightarrow> string \<Rightarrow> string list \<Rightarrow> py_date option \<Rightarrow> string list option \<Rightarrow> claim_result result" where
  "judge_evidence fs g c requested as_of subjects =
     (let unknown = filter (\<lambda>i. \<not> has (g_evidence g) i) requested; rs = considered g requested in
      if unknown \<noteq> [] then refuse c UNSUPPORTED_CLAIM [] [''unknown evidence: '' @ py_join '', '' unknown]
      else (case strengthened c rs of
              Some (i, why) \<Rightarrow> refuse c UNSUPPORTED_CLAIM (if requested = [] then [i] else requested) [why]
            | None \<Rightarrow>
                if supporting c rs = [] then refuse c UNSUPPORTED_CLAIM [] [''no evidence record supports the material claim'']
                else judge_supported fs g c as_of subjects (supporting c rs)))"

definition judge_text ::
  "(real \<Rightarrow> string) \<Rightarrow> rule_search \<Rightarrow> graph_state \<Rightarrow> string \<Rightarrow> string list \<Rightarrow> py_date option \<Rightarrow> string list option \<Rightarrow> claim_result result" where
  "judge_text fs srch g c ids as_of subjects =
     bind (prohibited_reasons srch g c) (\<lambda>why.
       if why \<noteq> [] then refuse c PROHIBITED_CLAIM [] why
       else if planned_credential_reasons g c \<noteq> [] then refuse c PROHIBITED_CLAIM [] (planned_credential_reasons g c)
       else judge_evidence fs g c (firsts ids) as_of subjects)"

definition validate_claim ::
  "(real \<Rightarrow> string) \<Rightarrow> rule_search \<Rightarrow> graph_state \<Rightarrow> string \<Rightarrow> string list \<Rightarrow> py_date option \<Rightarrow> string list option \<Rightarrow> claim_result result" where
  "validate_claim fs srch g claim ids as_of subjects =
     (if \<not> is_text claim then Inl (ValueError ''claim must be a non-empty string'')
      else judge_text fs srch g (squeeze claim) ids as_of subjects)"

section \<open>Narrative segments\<close>

definition validate_narrative ::
  "rule_search \<Rightarrow> graph_state \<Rightarrow> string \<Rightarrow> string list \<Rightarrow> string list \<Rightarrow> string \<Rightarrow> claim_result result" where
  "validate_narrative srch g text as_ids ev_ids val =
     (let c = squeeze text in
      if \<not> is_text text then Inl (ValueError ''narrative text must be a non-empty string'')
      else if as_ids \<noteq> [] \<or> ev_ids \<noteq> [] \<or> val \<noteq> []
      then refuse c UNSUPPORTED_CLAIM [] [''a NARRATIVE segment must not carry assertion_ids, evidence_ids, or an authorized_value -- those mark a claim as an evidence-backed founder fact, which narrative text is not validated as one'']
      else if claim_metrics c \<noteq> []
      then refuse c UNSUPPORTED_CLAIM [] [''a NARRATIVE segment must not contain a parseable metric -- a quantified fact belongs in an evidence-checked, metric-provenance-verified claim'']
      else bind (prohibited_reasons srch g c) (\<lambda>why.
        if why \<noteq> [] then refuse c PROHIBITED_CLAIM [] why
        else if planned_credential_reasons g c \<noteq> [] then refuse c PROHIBITED_CLAIM [] (planned_credential_reasons g c)
        else result_of c True USER_ASSERTION UNVERIFIED [] [''narrative segment: connective text only, not an evidence-checked founder claim'']))"

section \<open>Structured candidates\<close>

definition as_of_text :: "py_date option \<Rightarrow> string" where
  "as_of_text d = (case d of None \<Rightarrow> ''None'' | Some x \<Rightarrow> date_iso x)"

definition inactive_reason :: "assertion \<Rightarrow> py_date option \<Rightarrow> string" where
  "inactive_reason a as_of =
     (let m = (\<lambda>t. ''assertion '' @ as_id a @ t); gone = m ('' is inactive / superseded as of '' @ as_of_text as_of) in
      if as_conflicts a \<noteq> [] then m ('' has unresolved conflicts: '' @ py_join '', '' (as_conflicts a))
      else (case (as_of, as_to a) of
              (Some d, Some e) \<Rightarrow> if date_before e d then m ('' expired on '' @ date_iso e @ '' as of '' @ date_iso d) else gone
            | _ \<Rightarrow> gone))"

text \<open>What the polarity and the modality of an assertion require of the text.\<close>

definition wording_refusal :: "assertion \<Rightarrow> string \<Rightarrow> (AssertionType \<times> string) option" where
  "wording_refusal a t =
     (let m = (\<lambda>x. ''assertion '' @ as_id a @ x) in
      if as_polarity a = NEGATIVE \<and> \<not> found negative_markers t
      then Some (UNSUPPORTED_CLAIM, m '' has negative polarity but candidate text is positive'')
      else if as_modality a = AT_MOST \<and> (\<not> found bound_at_most t \<or> found exact_re t \<or> found bound_at_least t)
      then Some (UNSUPPORTED_CLAIM, m '' has AT_MOST modality and candidate text cannot strengthen it to exact or lower bound'')
      else if as_modality a = APPROXIMATE_MODALITY \<and> (found exact_re t \<or> \<not> found approximation_re t)
      then Some (UNSUPPORTED_CLAIM, m '' has APPROXIMATE modality and candidate text cannot claim exact value'')
      else if as_modality a = CONDITIONAL \<and> \<not> found conditional_re t
      then Some (UNSUPPORTED_CLAIM, m '' has CONDITIONAL modality and candidate text cannot claim unconditional fact'')
      else if as_modality a = PLANNED \<and> (found held_re t \<or> \<not> found planning_re t)
      then Some (PROHIBITED_CLAIM, m '' has planned modality and cannot be represented as held'')
      else None)"

definition assertion_refusal :: "graph_state \<Rightarrow> string \<Rightarrow> py_date option \<Rightarrow> string \<Rightarrow> (AssertionType \<times> string) option" where
  "assertion_refusal g t as_of i =
     (case map_of (g_assertions g) i of
        None \<Rightarrow> Some (UNSUPPORTED_CLAIM, ''unknown atomic assertion: '' @ i)
      | Some a \<Rightarrow>
          if \<not> list_ex (\<lambda>b. as_id b = as_id a) (active_assertions g as_of) then Some (UNSUPPORTED_CLAIM, inactive_reason a as_of)
          else wording_refusal a t)"

definition chosen :: "graph_state \<Rightarrow> string list \<Rightarrow> assertion list" where
  "chosen g ids = List.map_filter (map_of (g_assertions g)) ids"

definition assertion_words :: "(real \<Rightarrow> string) \<Rightarrow> assertion \<Rightarrow> string list" where
  "assertion_words fs a =
     (let words = (\<lambda>t. material (claim_tokens (normalize t))) in
      (if as_value a = VNone then [] else words (value_str fs (as_value a)))
      @ words (as_predicate a) @ words (as_subject a) @ concat (map words (as_qualifiers a))
      @ (if prefix ''skill.'' (as_predicate a) \<or> prefix ''tool.'' (as_predicate a)
         then (case map_of CANONICAL_SKILL_ALIASES (py_lower (value_str fs (as_value a))) of None \<Rightarrow> [] | Some k \<Rightarrow> words k)
         else []))"

definition unauthorized_terms :: "(real \<Rightarrow> string) \<Rightarrow> assertion list \<Rightarrow> string \<Rightarrow> string list" where
  "unauthorized_terms fs as t =
     sort (remdups (words_minus (material (claim_tokens (normalize t))) (concat (map (assertion_words fs) as))))"

definition first_refusal :: "('a \<Rightarrow> 'b option) \<Rightarrow> 'a list \<Rightarrow> 'b option" where
  "first_refusal f xs = (case List.map_filter f xs of [] \<Rightarrow> None | r # _ \<Rightarrow> Some r)"

definition validate_candidate ::
  "(real \<Rightarrow> string) \<Rightarrow> rule_search \<Rightarrow> graph_state \<Rightarrow> claim_candidate \<Rightarrow> claim_result result" where
  "validate_candidate fs srch g cand =
     (let t = cc_text cand; no = (\<lambda>k why. refuse t k (cc_evidence cand) [why]);
          banned = sort (remdups (map concept_value (filter (\<lambda>c. c \<in> nc_concept ` set (snd (graph_rules g))) (cc_concepts cand))));
          as = chosen g (cc_assertions cand); cited = concat (map as_evidence as);
          strange = sort (remdups (words_minus (cc_evidence cand) cited)) in
      if banned \<noteq> [] then no PROHIBITED_CLAIM (''candidate asserts prohibited concept category: '' @ py_join '', '' banned)
      else if cc_assertions cand = [] then no UNSUPPORTED_CLAIM ''autonomous claim candidate must specify material_assertion_ids''
      else (case first_refusal (assertion_refusal g t (cc_as_of cand)) (cc_assertions cand) of
              Some (k, why) \<Rightarrow> no k why
            | None \<Rightarrow>
                if strange \<noteq> []
                then no UNSUPPORTED_CLAIM (''requested evidence '' @ quoted (py_join '', '' strange)
                       @ '' is not authorized by the selected material assertions'')
                else if unauthorized_terms fs as t \<noteq> []
                then no UNSUPPORTED_CLAIM (''candidate text contains facts not authorized by the selected material assertions: ''
                       @ py_join '', '' (unauthorized_terms fs as t))
                else validate_claim fs srch g t (if cc_evidence cand = [] then firsts cited else cc_evidence cand) (cc_as_of cand)
                       (Some (map as_subject as))))"

section \<open>Several claims\<close>

definition validate_claims ::
  "(real \<Rightarrow> string) \<Rightarrow> rule_search \<Rightarrow> graph_state \<Rightarrow> (string \<times> string list) list \<Rightarrow> claim_result list result" where
  "validate_claims fs srch g items = collect (map (\<lambda>(c, ids). validate_claim fs srch g c ids None None) items)"

definition require_valid ::
  "(real \<Rightarrow> string) \<Rightarrow> rule_search \<Rightarrow> graph_state \<Rightarrow> (string \<times> string list) list \<Rightarrow> claim_result list result" where
  "require_valid fs srch g items =
     bind (validate_claims fs srch g items) (\<lambda>rs.
       let rejected = map cr_claim (filter (\<lambda>r. \<not> cr_allowed r) rs) in
       if rejected \<noteq> [] then Inl (ValueError (''rejected claims: '' @ py_join ''; '' rejected)) else Inr rs)"

end
