(* ===== verification/Claim_Properties.thy ===== *)
theory Claim_Properties
  imports Claim_Validator Truth_Properties
begin

text \<open>
  What an allowed claim guarantees: no rule forbids it, it rests on records of the graph that are
  verified and linked, each of its words stands in them, each of its numbers is a verified metric.
  Then what a structured candidate and a narrative segment guarantee, and when validation raises.
\<close>

section \<open>Results\<close>

lemma result_of_Inr:
  "result_of c ok t s ids why = Inr r \<Longrightarrow>
   r = \<lparr>cr_claim = c, cr_allowed = ok, cr_type = t, cr_status = s, cr_evidence = ids, cr_reasons = why\<rparr>"
  by (simp add: result_of_def)

lemma refused: "refuse c t ids why = Inr r \<Longrightarrow> \<not> cr_allowed r \<and> cr_type r = t \<and> cr_evidence r = ids"
  by (auto simp: refuse_def dest!: result_of_Inr)

text \<open>The judgement of the supporting records, when it allows.\<close>

lemma judge_supported_allowed:
  assumes "judge_supported fs g c as_of subjects rs = Inr r" and "cr_allowed r"
  shows "(length rs > 1 \<longrightarrow> are_relationally_linked g (map ev_id rs)) \<and> uncovered_terms c rs = []
    \<and> resolve_verification_status rs c = Some (cr_status r) \<and> metric_provenance fs g subjects rs c = None
    \<and> cr_type r = resolve_assertion_type rs \<and> cr_type r \<notin> {UNSUPPORTED_CLAIM, PROHIBITED_CLAIM}
    \<and> cr_evidence r = map ev_id rs \<and> cr_claim r = c"
  using assms
  by (auto simp: judge_supported_def Let_def dest: refused result_of_Inr split: option.splits if_splits)

lemma judge_evidence_allowed:
  assumes "judge_evidence fs g c requested as_of subjects = Inr r" and "cr_allowed r"
  shows "list_all (has (g_evidence g)) requested \<and> strengthened c (considered g requested) = None
    \<and> supporting c (considered g requested) \<noteq> []
    \<and> judge_supported fs g c as_of subjects (supporting c (considered g requested)) = Inr r"
  using assms
  by (auto simp: judge_evidence_def Let_def list_all_iff filter_empty_conv dest: refused split: option.splits if_splits)

lemma judge_text_allowed:
  assumes "judge_text fs srch g c ids as_of subjects = Inr r" and "cr_allowed r"
  shows "prohibited_reasons srch g c = Inr [] \<and> planned_credential_reasons g c = []
    \<and> judge_evidence fs g c (firsts ids) as_of subjects = Inr r"
  using assms by (cases "prohibited_reasons srch g c") (auto simp: judge_text_def dest: refused split: if_splits)

lemma validate_claim_allowed:
  assumes "validate_claim fs srch g claim ids as_of subjects = Inr r" and "cr_allowed r"
  shows "prohibited_reasons srch g (squeeze claim) = Inr [] \<and> planned_credential_reasons g (squeeze claim) = []
    \<and> judge_evidence fs g (squeeze claim) (firsts ids) as_of subjects = Inr r"
  using assms judge_text_allowed by (auto simp: validate_claim_def split: if_splits)

section \<open>Allowed claims are grounded\<close>

lemma supporting_subset: "r \<in> set (supporting c rs) \<Longrightarrow> r \<in> set rs"
  by (auto simp: supporting_def split: if_splits)

lemma considered_recorded:
  assumes "reachable fs g" and "r \<in> set (considered g requested)"
  shows "map_of (g_evidence g) (ev_id r) = Some r" and "requested \<noteq> [] \<Longrightarrow> ev_id r \<in> set requested"
proof -
  from reachable_ok [OF assms(1)] have k: "keyed ev_id (g_evidence g)" by (simp add: wf_graph_def)
  then have at_key: "ev_id r = i" if "map_of (g_evidence g) i = Some r" for i
    using map_of_SomeD [OF that] by (auto simp: keyed_def)
  have rec: "requested \<noteq> [] \<Longrightarrow> \<exists>i\<in>set requested. map_of (g_evidence g) i = Some r"
    using assms(2) by (simp add: considered_def records_of_recs in_recs)
  then show "requested \<noteq> [] \<Longrightarrow> ev_id r \<in> set requested" using at_key by blast
  show "map_of (g_evidence g) (ev_id r) = Some r"
  proof (cases "requested = []")
    case True
    with assms(2) obtain i where "(i, r) \<in> set (g_evidence g)" by (auto simp: considered_def)
    with k show ?thesis by (auto simp: keyed_def)
  next
    case False
    with rec at_key show ?thesis by auto
  qed
qed

lemma covered_words:
  assumes "uncovered_terms c rs = []" and "w \<in> set (claim_tokens c)"
  shows "w \<in> set NON_MATERIAL_WORDS \<or> w \<in> set CONNECTIVE_TERMS \<or> (\<exists>r\<in>set rs. w \<in> set (claim_tokens (content_of r)))"
proof -
  from assms(1) have "set (uncovered_terms c rs) = {}" by simp
  with assms(2) show ?thesis by (auto simp: uncovered_terms_def words_minus_def material_def)
qed

lemma resolved_status:
  assumes "resolve_verification_status rs c = Some s" and "r \<in> set rs"
  shows "ev_status r = VERIFIED \<or> ev_status r = APPROXIMATE \<and> s = APPROXIMATE \<and> found approximation_re c"
  using assms by (cases "ev_status r") (auto simp: resolve_verification_status_def any_status_iff split: if_splits)

lemma resolved_type:
  assumes "resolve_assertion_type rs \<notin> {UNSUPPORTED_CLAIM, PROHIBITED_CLAIM}" and "r \<in> set rs"
  shows "type_priority (resolve_assertion_type rs) \<le> type_priority (ev_type r)"
  using assms by (cases "ev_type r") (auto simp: resolve_assertion_type_def has_type_def list_ex_iff)

lemma proven_metric:
  assumes "metric_provenance fs g subjects rs c = None" and "q \<in> set (claim_metrics c)"
  shows "\<exists>r\<in>set rs. \<exists>m\<in>set (map snd (g_metrics g)). ev_id r \<in> set (mt_evidence m) \<and> metric_states fs subjects q m"
proof -
  from assms have "metric_proven fs g subjects rs q"
    by (simp add: metric_provenance_def find_None_iff) (metis case_prodI2' prod.collapse)
  then show ?thesis by (auto simp: metric_proven_def list_ex_iff metric_assertions_for_evidence_def)
qed

text \<open>The metric behind a number of the claim, and the record that states it.\<close>

definition number_grounded :: "(real \<Rightarrow> string) \<Rightarrow> graph_state \<Rightarrow> string list option \<Rightarrow> number \<times> string \<times> string \<Rightarrow> bool" where
  "number_grounded fs g subjects q \<longleftrightarrow>
     list_ex (\<lambda>(_, m). metric_states fs subjects q m
        \<and> list_ex (\<lambda>r. single_record_supports_metric fs m r g) (records_of g (mt_evidence m))) (g_metrics g)"

lemma proven_number_grounded:
  assumes "reachable fs g" and "metric_provenance fs g subjects rs c = None" and "q \<in> set (claim_metrics c)"
  shows "number_grounded fs g subjects q"
proof -
  from proven_metric [OF assms(2,3)] obtain k m where m: "(k, m) \<in> set (g_metrics g)" "metric_states fs subjects q m" by auto
  with reachable_ok [OF assms(1)] have "sound_metric fs g m" by (auto simp: wf_graph_def)
  moreover have "mt_status m = METRIC_VERIFIED" using m(2) by (cases q) (simp add: metric_states_def)
  ultimately have "list_ex (\<lambda>r. single_record_supports_metric fs m r g) (records_of g (mt_evidence m))" by (rule verified_metric)
  with m show ?thesis unfolding number_grounded_def list_ex_iff by blast
qed

text \<open>The records a claim is allowed on.\<close>

definition grounds :: "graph_state \<Rightarrow> string \<Rightarrow> claim_result \<Rightarrow> evidence_record list \<Rightarrow> bool" where
  "grounds g c r rs \<longleftrightarrow>
     rs \<noteq> [] \<and> cr_evidence r = map ev_id rs
     \<and> list_all (\<lambda>e. map_of (g_evidence g) (ev_id e) = Some e
          \<and> (ev_status e = VERIFIED \<or> ev_status e = APPROXIMATE \<and> cr_status r = APPROXIMATE \<and> found approximation_re c)
          \<and> type_priority (cr_type r) \<le> type_priority (ev_type e)) rs
     \<and> list_all (\<lambda>w. w \<in> set NON_MATERIAL_WORDS \<or> w \<in> set CONNECTIVE_TERMS
          \<or> list_ex (\<lambda>e. w \<in> set (claim_tokens (content_of e))) rs) (claim_tokens c)"

lemma allowed_evidence:
  assumes "reachable fs g" and "validate_claim fs srch g claim ids as_of subjects = Inr r" and "cr_allowed r"
  shows "\<exists>rs. cr_evidence r = map ev_id rs \<and> rs \<noteq> []
    \<and> (\<forall>e\<in>set rs. map_of (g_evidence g) (ev_id e) = Some e \<and> (ids \<noteq> [] \<longrightarrow> ev_id e \<in> set ids))
    \<and> judge_supported fs g (squeeze claim) as_of subjects rs = Inr r"
proof -
  let ?rs = "supporting (squeeze claim) (considered g (firsts ids))"
  note e = judge_evidence_allowed [OF validate_claim_allowed [OF assms(2,3), THEN conjunct2, THEN conjunct2] assms(3)]
  then have "?rs \<noteq> []" and j: "judge_supported fs g (squeeze claim) as_of subjects ?rs = Inr r" by simp_all
  moreover have "cr_evidence r = map ev_id ?rs" using judge_supported_allowed [OF j assms(3)] by simp
  moreover have "map_of (g_evidence g) (ev_id e) = Some e" "ids \<noteq> [] \<Longrightarrow> ev_id e \<in> set ids" if "e \<in> set ?rs" for e
    using considered_recorded [OF assms(1) supporting_subset [OF that]] by (auto simp: firsts_def)
  ultimately show ?thesis by blast
qed

lemma allowed_claim_grounds:
  assumes "reachable fs g" and "validate_claim fs srch g claim ids as_of subjects = Inr r" and "cr_allowed r"
  shows "(\<exists>rs. grounds g (squeeze claim) r rs)
    \<and> (ids \<noteq> [] \<longrightarrow> set (cr_evidence r) \<subseteq> set ids)
    \<and> (length (cr_evidence r) > 1 \<longrightarrow> are_relationally_linked g (cr_evidence r))
    \<and> list_all (number_grounded fs g subjects) (claim_metrics (squeeze claim))"
proof -
  from allowed_evidence [OF assms] obtain rs where rs: "cr_evidence r = map ev_id rs" "rs \<noteq> []"
      "\<forall>e\<in>set rs. map_of (g_evidence g) (ev_id e) = Some e \<and> (ids \<noteq> [] \<longrightarrow> ev_id e \<in> set ids)"
    and j: "judge_supported fs g (squeeze claim) as_of subjects rs = Inr r" by blast
  note s = judge_supported_allowed [OF j assms(3)]
  have "grounds g (squeeze claim) r rs"
    unfolding grounds_def list_all_iff list_ex_iff
    using rs s covered_words [of "squeeze claim" rs] resolved_status [of rs "squeeze claim" "cr_status r"] resolved_type [of rs] by auto
  moreover have "set (cr_evidence r) \<subseteq> set ids" if "ids \<noteq> []" using rs(1,3) that by auto
  moreover have "list_all (number_grounded fs g subjects) (claim_metrics (squeeze claim))"
    using s proven_number_grounded [OF assms(1)] by (auto simp: list_all_iff)
  moreover have "length (cr_evidence r) > 1 \<longrightarrow> are_relationally_linked g (cr_evidence r)" using s by simp
  ultimately show ?thesis by blast
qed

text \<open>C3: An allowed claim is grounded: it rests on records of the graph, taken from those the caller names if it names any, all of them verified, or approximate under a claim that says so, and none of a weaker kind than the verdict; every word of the claim that is not filler stands in one of them; if there are several, the graph links them; and every number in it is a verified metric that a single record of the graph states in that unit and context.\<close>

theorem allowed_claims_are_grounded:
  assumes "reachable fs g" and "validate_claim fs srch g claim ids as_of subjects = Inr r" and "cr_allowed r"
  shows "(\<exists>rs. grounds g (squeeze claim) r rs)
    \<and> (ids \<noteq> [] \<longrightarrow> set (cr_evidence r) \<subseteq> set ids)
    \<and> (length (cr_evidence r) > 1 \<longrightarrow> are_relationally_linked g (cr_evidence r))
    \<and> list_all (number_grounded fs g subjects) (claim_metrics (squeeze claim))"
  using assms by (rule allowed_claim_grounds)

definition no_rules :: rule_search where "no_rules p c = Inr False"

definition allowed_in :: "claim_result result \<Rightarrow> bool" where
  "allowed_in v = (case v of Inl _ \<Rightarrow> False | Inr r \<Rightarrow> cr_allowed r)"

lemma allowed_inE:
  assumes "allowed_in v"
  obtains r where "v = Inr r" and "cr_allowed r"
  using assms by (cases v) (auto simp: allowed_in_def)

definition demo_claim :: string where "demo_claim = ''Python services for 40 users''"

lemma demo_claim_allowed: "allowed_in (validate_claim no_float no_rules demo_graph demo_claim [''e1''] None None)"
  by code_simp

theorem allowed_claims_are_grounded_witness:
  "number_grounded no_float demo_graph None (Whole 40, ''users'', ''Python services for 40 users'')"
proof -
  obtain r where r: "validate_claim no_float no_rules demo_graph demo_claim [''e1''] None None = Inr r" "cr_allowed r"
    using demo_claim_allowed by (rule allowed_inE)
  have m: "claim_metrics (squeeze demo_claim) = [(Whole 40, ''users'', ''Python services for 40 users'')]" by code_simp
  from allowed_claims_are_grounded [OF demo_reachable r] show ?thesis by (simp add: m)
qed

section \<open>Rules\<close>

text \<open>A rule of the graph that the text breaks.\<close>

definition breaks_rule :: "rule_search \<Rightarrow> graph_state \<Rightarrow> string \<Rightarrow> bool" where
  "breaks_rule srch g c \<longleftrightarrow>
     list_ex (\<lambda>r. srch (rl_pattern r) c = Inr True) (fst (graph_rules g))
     \<or> list_ex (\<lambda>n. nc_pattern n \<noteq> [] \<and> srch (nc_pattern n) c = Inr True \<or> phrase_hit c n) (snd (graph_rules g))"

lemma red_line_reasons_empty:
  "red_line_reasons srch c rs = Inr [] \<Longrightarrow> r \<in> set rs \<Longrightarrow> srch (rl_pattern r) c = Inr False"
proof (induction rs)
  case (Cons x xs)
  then show ?case
    by (cases "srch (rl_pattern x) c"; cases "red_line_reasons srch c xs") (auto split: if_splits)
qed simp

lemma never_claim_reasons_empty:
  "never_claim_reasons srch c ns = Inr [] \<Longrightarrow> n \<in> set ns \<Longrightarrow>
   (nc_pattern n = [] \<or> srch (nc_pattern n) c = Inr False) \<and> \<not> phrase_hit c n"
proof (induction ns)
  case (Cons x xs)
  then show ?case
    by (cases "if nc_pattern x = [] then Inr False else srch (nc_pattern x) c"; cases "never_claim_reasons srch c xs")
      (auto split: if_splits)
qed simp

lemma no_reason_no_breach:
  assumes "prohibited_reasons srch g c = Inr []"
  shows "\<not> breaks_rule srch g c"
proof -
  from assms have "red_line_reasons srch c (fst (graph_rules g)) = Inr []" "never_claim_reasons srch c (snd (graph_rules g)) = Inr []"
    by (cases "red_line_reasons srch c (fst (graph_rules g))"; cases "never_claim_reasons srch c (snd (graph_rules g))";
        auto simp: prohibited_reasons_def)+
  then show ?thesis
    using red_line_reasons_empty never_claim_reasons_empty by (fastforce simp: breaks_rule_def list_ex_iff)
qed

text \<open>C9: Rules come first: a claim that a red line or a never-claim rule forbids is prohibited whatever evidence stands behind it, cites none, and no narrative segment with such a text is allowed.\<close>

theorem forbidden_claims_never_pass:
  assumes "breaks_rule srch g (squeeze t)"
  shows "(\<forall>r. validate_claim fs srch g t ids as_of subjects = Inr r \<longrightarrow>
      \<not> cr_allowed r \<and> cr_type r = PROHIBITED_CLAIM \<and> cr_evidence r = [])
    \<and> (\<forall>r. validate_narrative srch g t as_ids ev_ids val = Inr r \<longrightarrow> \<not> cr_allowed r)"
proof (intro conjI allI impI)
  have why: "prohibited_reasons srch g (squeeze t) \<noteq> Inr []" using assms no_reason_no_breach by blast
  { fix r assume "validate_claim fs srch g t ids as_of subjects = Inr r"
    with why have "\<exists>why. refuse (squeeze t) PROHIBITED_CLAIM [] why = Inr r"
      by (cases "prohibited_reasons srch g (squeeze t)") (auto simp: validate_claim_def judge_text_def split: if_splits)
    then show "\<not> cr_allowed r" "cr_type r = PROHIBITED_CLAIM" "cr_evidence r = []" by (auto dest: refused) }
  fix r assume "validate_narrative srch g t as_ids ev_ids val = Inr r"
  with why show "\<not> cr_allowed r"
    by (cases "prohibited_reasons srch g (squeeze t)") (auto simp: validate_narrative_def Let_def dest: refused split: if_splits)
qed

definition guarantee_rule :: never_claim where
  "guarantee_rule = \<lparr>nc_id = ''nc1'', nc_concept = GUARANTEED_OUTCOME, nc_description = ''no guarantees'',
     nc_pattern = ''guarantee'', nc_phrases = [''Python services'']\<rparr>"

definition ruled_graph :: graph_state where
  "ruled_graph = fst (add_career_profile no_float
     \<lparr>cp_id = ''p1'', cp_evidence = [], cp_employment = [], cp_education = [], cp_certifications = [], cp_skills = [], cp_languages = [],
      cp_authorizations = [], cp_summaries = [], cp_red_lines = [], cp_never_claims = [guarantee_rule]\<rparr> demo_graph)"

theorem forbidden_claims_never_pass_witness:
  "\<not> allowed_in (validate_claim no_float no_rules ruled_graph demo_claim [''e1''] None None)"
proof -
  have "list_ex (phrase_hit (squeeze demo_claim)) (snd (graph_rules ruled_graph))" by code_simp
  then have "breaks_rule no_rules ruled_graph (squeeze demo_claim)" by (auto simp: breaks_rule_def list_ex_iff)
  from forbidden_claims_never_pass [OF this] show ?thesis by (auto simp: allowed_in_def split: sum.splits)
qed

section \<open>Candidates\<close>

lemma first_refusal_None: "first_refusal f xs = None \<longleftrightarrow> (\<forall>x\<in>set xs. f x = None)"
  by (induction xs) (auto simp: first_refusal_def List.map_filter_def split: list.splits)

lemma in_chosen: "a \<in> set (chosen g ids) \<longleftrightarrow> (\<exists>i\<in>set ids. map_of (g_assertions g) i = Some a)"
  by (induction ids) (auto simp: chosen_def List.map_filter_def)

lemma validate_candidate_allowed:
  assumes "validate_candidate fs srch g cand = Inr r" and "cr_allowed r"
  shows "cc_assertions cand \<noteq> [] \<and> (\<forall>i\<in>set (cc_assertions cand). assertion_refusal g (cc_text cand) (cc_as_of cand) i = None)
    \<and> set (cc_evidence cand) \<subseteq> set (concat (map as_evidence (chosen g (cc_assertions cand))))
    \<and> unauthorized_terms fs (chosen g (cc_assertions cand)) (cc_text cand) = []
    \<and> set (cc_concepts cand) \<inter> nc_concept ` set (snd (graph_rules g)) = {}
    \<and> validate_claim fs srch g (cc_text cand)
        (if cc_evidence cand = [] then firsts (concat (map as_evidence (chosen g (cc_assertions cand)))) else cc_evidence cand)
        (cc_as_of cand) (Some (map as_subject (chosen g (cc_assertions cand)))) = Inr r"
proof -
  have none: "sort (remdups xs) = [] \<longleftrightarrow> set xs = {}" for xs :: "string list"
    by (metis set_empty set_remdups set_sort)
  show ?thesis using assms
    by (auto simp: validate_candidate_def Let_def none words_minus_def first_refusal_None dest: refused split: option.splits if_splits)
qed

text \<open>C10: An allowed candidate asserts only what it cites: it cites at least one assertion, each of them recorded, active at the given day and worded no stronger than its polarity and modality admit; every word that is not filler stands in a cited assertion; it touches no prohibited concept; and, when a cited assertion has evidence at all, the records the verdict rests on are evidence of the cited assertions.\<close>

theorem allowed_candidates_cite_assertions:
  assumes "reachable fs g" and "validate_candidate fs srch g cand = Inr r" and "cr_allowed r"
  shows "cc_assertions cand \<noteq> []
    \<and> (\<forall>i\<in>set (cc_assertions cand). \<exists>a. map_of (g_assertions g) i = Some a
        \<and> as_id a \<in> as_id ` set (active_assertions g (cc_as_of cand)) \<and> wording_refusal a (cc_text cand) = None)
    \<and> set (material (claim_tokens (normalize (cc_text cand)))) \<subseteq> (\<Union>a\<in>set (chosen g (cc_assertions cand)). set (assertion_words fs a))
    \<and> (\<forall>c\<in>set (cc_concepts cand). c \<notin> nc_concept ` set (snd (graph_rules g)))
    \<and> ((\<Union>a\<in>set (chosen g (cc_assertions cand)). set (as_evidence a)) \<noteq> {} \<longrightarrow>
        set (cr_evidence r) \<subseteq> (\<Union>a\<in>set (chosen g (cc_assertions cand)). set (as_evidence a)))"
proof -
  let ?as = "chosen g (cc_assertions cand)" and ?t = "cc_text cand"
  let ?cited = "concat (map as_evidence ?as)"
  let ?ids = "if cc_evidence cand = [] then firsts ?cited else cc_evidence cand"
  note a = validate_candidate_allowed [OF assms(2,3)]
  have "\<exists>a. map_of (g_assertions g) i = Some a \<and> as_id a \<in> as_id ` set (active_assertions g (cc_as_of cand))
      \<and> wording_refusal a ?t = None" if "i \<in> set (cc_assertions cand)" for i
  proof -
    from a that have n: "assertion_refusal g ?t (cc_as_of cand) i = None" by blast
    then obtain b where b: "map_of (g_assertions g) i = Some b" by (cases "map_of (g_assertions g) i") (auto simp: assertion_refusal_def)
    with n have "list_ex (\<lambda>c. as_id c = as_id b) (active_assertions g (cc_as_of cand))" "wording_refusal b ?t = None"
      by (auto simp: assertion_refusal_def split: if_splits)
    then obtain c where "c \<in> set (active_assertions g (cc_as_of cand))" "as_id b = as_id c" by (auto simp: list_ex_iff)
    with b \<open>wording_refusal b ?t = None\<close> show ?thesis by blast
  qed
  moreover have "set (material (claim_tokens (normalize ?t))) \<subseteq> (\<Union>a\<in>set ?as. set (assertion_words fs a))"
  proof -
    from a have "set (unauthorized_terms fs ?as ?t) = {}" by simp
    then show ?thesis by (auto simp: unauthorized_terms_def words_minus_def)
  qed
  moreover have "set (cr_evidence r) \<subseteq> set ?cited" if "set ?cited \<noteq> {}"
  proof -
    from a have v: "validate_claim fs srch g ?t ?ids (cc_as_of cand) (Some (map as_subject ?as)) = Inr r" by blast
    have "?ids \<noteq> []" using that by (metis set_firsts set_empty)
    then have "set (cr_evidence r) \<subseteq> set ?ids" using allowed_evidence [OF assms(1) v assms(3)] by auto
    with a show ?thesis by (auto split: if_splits)
  qed
  ultimately show ?thesis using a by auto
qed

definition demo_candidate :: claim_candidate where
  "demo_candidate = \<lparr>cc_text = ''Python'', cc_assertions = [''a1''], cc_concepts = [], cc_evidence = [], cc_as_of = None\<rparr>"

theorem allowed_candidates_cite_assertions_witness:
  "\<exists>r. validate_candidate no_float no_rules demo_graph demo_candidate = Inr r \<and> set (cr_evidence r) \<subseteq> {''e1''}"
proof -
  have "allowed_in (validate_candidate no_float no_rules demo_graph demo_candidate)" by code_simp
  then obtain r where r: "validate_candidate no_float no_rules demo_graph demo_candidate = Inr r" "cr_allowed r"
    by (rule allowed_inE)
  have e: "map as_evidence (chosen demo_graph (cc_assertions demo_candidate)) = [[''e1'']]" by code_simp
  have u: "(\<Union>a\<in>set as. set (as_evidence a)) = set (concat (map as_evidence as))" for as by simp
  have "(\<Union>a\<in>set (chosen demo_graph (cc_assertions demo_candidate)). set (as_evidence a)) = {''e1''}"
    unfolding u e by simp
  with allowed_candidates_cite_assertions [OF demo_reachable r] r(1) show ?thesis by auto
qed

section \<open>Narrative\<close>

text \<open>Narrative text that is allowed asserts nothing about the founder: it carries no assertion, no evidence and no value, no number that reads as a metric, breaks no rule, and its verdict is an unverified assertion of the user without evidence.\<close>

theorem narrative_asserts_nothing:
  assumes "validate_narrative srch g t as_ids ev_ids val = Inr r" and "cr_allowed r"
  shows "as_ids = [] \<and> ev_ids = [] \<and> val = [] \<and> claim_metrics (squeeze t) = [] \<and> \<not> breaks_rule srch g (squeeze t)
    \<and> cr_evidence r = [] \<and> cr_type r = USER_ASSERTION \<and> cr_status r = UNVERIFIED"
proof -
  from assms have "prohibited_reasons srch g (squeeze t) = Inr []"
    by (cases "prohibited_reasons srch g (squeeze t)") (auto simp: validate_narrative_def Let_def dest: refused split: if_splits)
  with assms no_reason_no_breach show ?thesis
    by (auto simp: validate_narrative_def Let_def dest: refused result_of_Inr split: if_splits)
qed

theorem narrative_asserts_nothing_witness: "claim_metrics (squeeze ''Dear Sir or Madam'') = []"
proof -
  have "allowed_in (validate_narrative no_rules demo_graph ''Dear Sir or Madam'' [] [] [])" by code_simp
  then obtain r where "validate_narrative no_rules demo_graph ''Dear Sir or Madam'' [] [] [] = Inr r" "cr_allowed r"
    by (rule allowed_inE)
  from narrative_asserts_nothing [OF this] show ?thesis by blast
qed

section \<open>When validation raises\<close>

lemma words_cover: "c \<in> set s \<or> c \<in> set acc \<Longrightarrow> \<not> py_isspace c \<Longrightarrow> c \<in> set (concat (py_words_aux acc s))"
  by (induction acc s rule: py_words_aux.induct) auto

lemma set_py_join: "set (concat ws) \<subseteq> set (py_join sep ws)"
  by (induction sep ws rule: py_join.induct) auto

lemma strip_nonempty_iff: "py_strip s \<noteq> [] \<longleftrightarrow> (\<exists>c\<in>set s. \<not> py_isspace c)"
proof -
  have "dropWhile py_isspace s = [] \<longleftrightarrow> (\<forall>c\<in>set s. py_isspace c)" for s
    by simp
  moreover have "(\<exists>c\<in>set (dropWhile py_isspace s). \<not> py_isspace c) \<longleftrightarrow> (\<exists>c\<in>set s. \<not> py_isspace c)" for s
    by (induction s) auto
  ultimately show ?thesis by (simp add: py_strip_def)
qed

lemma squeeze_text: "is_text s \<Longrightarrow> is_text (squeeze s)"
proof -
  assume "is_text s"
  then obtain c where c: "c \<in> set s" "\<not> py_isspace c" by (auto simp: is_text_def strip_nonempty_iff)
  then have "c \<in> set (squeeze s)"
    using words_cover [of c s "[]"] set_py_join [of "py_words s" "'' ''"] by (auto simp: squeeze_def py_words_def)
  with c(2) show ?thesis by (auto simp: is_text_def strip_nonempty_iff)
qed

definition raises :: "'a result \<Rightarrow> bool" where
  "raises v = (case v of Inl _ \<Rightarrow> True | Inr _ \<Rightarrow> False)"

lemma raises_simps [simp]: "\<not> raises (Inr x)" "raises (Inl e)"
  by (simp_all add: raises_def)

lemma result_of_returns:
  "is_text c \<Longrightarrow> distinct ids \<Longrightarrow> list_all is_identifier ids \<Longrightarrow> ok \<longrightarrow> t \<notin> {UNSUPPORTED_CLAIM, PROHIBITED_CLAIM} \<Longrightarrow>
   \<not> raises (result_of c ok t s ids why)"
proof -
  let ?r = "\<lparr>cr_claim = c, cr_allowed = ok, cr_type = t, cr_status = s, cr_evidence = ids, cr_reasons = why\<rparr>"
  assume "is_text c" "distinct ids" "list_all is_identifier ids" "ok \<longrightarrow> t \<notin> {UNSUPPORTED_CLAIM, PROHIBITED_CLAIM}"
  then have "\<forall>x\<in>set (result_checks ?r). fst x"
    by (auto simp: result_checks_def require_text_def evidence_id_checks_def require_identifier_def list_all_iff)
  then have "result_of c ok t s ids why = Inr ?r" by (simp add: result_of_def)
  then show ?thesis by simp
qed

lemma refuse_returns: "is_text c \<Longrightarrow> distinct ids \<Longrightarrow> list_all is_identifier ids \<Longrightarrow> \<not> raises (refuse c t ids why)"
  by (simp add: refuse_def result_of_returns)

lemma judge_supported_returns:
  assumes "is_text c" and "distinct (map ev_id rs)" and "list_all is_identifier (map ev_id rs)"
  shows "\<not> raises (judge_supported fs g c as_of subjects rs)"
  using assms
  by (auto simp: judge_supported_def Let_def refuse_returns result_of_returns split: option.splits)

lemma considered_ids:
  assumes "reachable fs g" and "distinct requested" and "list_all (has (g_evidence g)) requested"
  shows "distinct (map ev_id (considered g requested))"
    and "set (map ev_id (considered g requested)) \<subseteq> fst ` set (g_evidence g)"
proof -
  from reachable_ok [OF assms(1)] have k: "keyed ev_id (g_evidence g)" by (simp add: wf_graph_def)
  then have whole: "map ev_id (map snd (g_evidence g)) = map fst (g_evidence g)" by (auto simp: keyed_def)
  have some: "map ev_id (recs (g_evidence g) requested) = requested"
    using assms(3)
  proof (induction requested)
    case (Cons i ids)
    then obtain r where r: "map_of (g_evidence g) i = Some r" by (auto simp: has_def)
    with k have "ev_id r = i" using map_of_SomeD [OF r] by (auto simp: keyed_def)
    with r Cons show ?case by (simp add: recs_def)
  qed (simp add: recs_def)
  show "distinct (map ev_id (considered g requested))"
    using k whole some assms(2) by (simp add: considered_def records_of_recs keyed_def del: map_map)
  show "set (map ev_id (considered g requested)) \<subseteq> fst ` set (g_evidence g)"
  proof (cases "requested = []")
    case True
    then have "map ev_id (considered g requested) = map fst (g_evidence g)" using whole by (simp add: considered_def del: map_map)
    then show ?thesis by simp
  next
    case False
    then have "set (map ev_id (considered g requested)) = set requested" by (simp only: considered_def records_of_recs some if_False)
    with assms(3) show ?thesis by (auto simp: has_iff list_all_iff)
  qed
qed

lemma supporting_ids:
  assumes "distinct (map ev_id rs)"
  shows "distinct (map ev_id (supporting c rs))" and "set (map ev_id (supporting c rs)) \<subseteq> set (map ev_id rs)"
  using assms by (auto simp: supporting_def distinct_map_filter)

lemma strengthened_id: "strengthened c rs = Some (i, why) \<Longrightarrow> i \<in> ev_id ` set rs"
  by (induction rs) (auto simp: strengthened_def List.map_filter_def split: if_splits option.splits)

lemma judge_evidence_returns:
  assumes "reachable fs g" and "is_text c" and "distinct requested" and "list_all is_identifier (map fst (g_evidence g))"
  shows "\<not> raises (judge_evidence fs g c requested as_of subjects)"
proof (cases "list_all (has (g_evidence g)) requested")
  case False
  then show ?thesis using assms(2) by (auto simp: judge_evidence_def Let_def list_all_iff filter_empty_conv refuse_returns)
next
  case True
  let ?rs = "considered g requested"
  note ids = considered_ids [OF assms(1,3) True]
  have good: "list_all is_identifier is'" if "set is' \<subseteq> fst ` set (g_evidence g)" for is'
    using that assms(4) by (auto simp: list_all_iff)
  have "list_all is_identifier [i]" if "strengthened c ?rs = Some (i, why)" for i why
    using ids(2) strengthened_id [OF that] by (intro good) auto
  moreover have "list_all is_identifier requested" using True by (intro good) (auto simp: list_all_iff has_iff)
  moreover have "\<not> raises (judge_supported fs g c as_of subjects (supporting c ?rs))"
    using assms(2) supporting_ids [OF ids(1), of c] ids(2) by (intro judge_supported_returns good) auto
  ultimately show ?thesis
    using assms(2,3) True
    by (auto simp: judge_evidence_def Let_def list_all_iff filter_empty_conv refuse_returns split: option.splits)
qed

text \<open>C40: Validation raises in two cases only: the claim is blank, or the pattern of a rule does not compile. On a graph whose records have identifiers, every other claim gets a verdict.\<close>

theorem validation_raises_iff:
  assumes "reachable fs g" and "list_all is_identifier (map fst (g_evidence g))"
  shows "raises (validate_claim fs srch g claim ids as_of subjects) \<longleftrightarrow>
    \<not> is_text claim \<or> raises (prohibited_reasons srch g (squeeze claim))"
proof (cases "is_text claim")
  case True
  then have t: "is_text (squeeze claim)" by (rule squeeze_text)
  then have "\<not> raises (judge_evidence fs g (squeeze claim) (firsts ids) as_of subjects)"
    by (intro judge_evidence_returns assms) simp_all
  with True t show ?thesis
    by (cases "prohibited_reasons srch g (squeeze claim)") (auto simp: validate_claim_def judge_text_def refuse_returns)
qed (simp add: validate_claim_def)

theorem validation_raises_iff_witness: "\<not> raises (validate_claim no_float no_rules demo_graph demo_claim [''e9''] None None)"
proof -
  have "list_all is_identifier (map fst (g_evidence demo_graph))" "is_text demo_claim"
    "\<not> raises (prohibited_reasons no_rules demo_graph (squeeze demo_claim))" by code_simp+
  then show ?thesis using validation_raises_iff [OF demo_reachable] by simp
qed

end
