(* ===== verification/Claim_Findings.thy ===== *)
theory Claim_Findings
  imports Claim_Properties
begin

text \<open>Runs of the claim validator where it departs from what it promises, each on a small concrete graph.\<close>

definition graph_with :: "evidence_record list \<Rightarrow> assertion list \<Rightarrow> graph_state" where
  "graph_with rs as = graph_or_empty (new_graph no_float rs as [] [])"

definition verdict :: "graph_state \<Rightarrow> string \<Rightarrow> string list \<Rightarrow> bool \<times> string list" where
  "verdict g c ids =
     (case validate_claim no_float no_rules g c ids None None of Inl _ \<Rightarrow> (False, [''raised'']) | Inr r \<Rightarrow> (cr_allowed r, cr_reasons r))"

definition speaks_once :: graph_state where
  "speaks_once = graph_with [cv_record ''e1'' ''Led the payments migration'' ''work''] []"

definition speaks_twice :: graph_state where
  "speaks_twice = graph_with [cv_record ''e1'' ''Led the payments migration'' ''work'', cv_record ''e2'' ''Led the payments migration'' ''letter''] []"

text \<open>A second record that says the same makes the claim a composite of unlinked records.\<close>

theorem corroboration_rejects:
  "fst (verdict speaks_once ''Led the payments migration'' []) \<and> \<not> fst (verdict speaks_twice ''Led the payments migration'' [])"
  by code_simp

text \<open>A negation in a record that has nothing to do with the claim refuses it.\<close>

theorem unrelated_negation_rejects:
  "verdict (graph_with [cv_record ''e1'' ''Led the payments migration'' ''work'', cv_record ''e2'' ''Works without supervision'' ''letter''] [])
     ''Led the payments migration'' [] = (False, [''claim inverts negative evidence polarity into a positive assertion''])"
  by code_simp

text \<open>Words are compared as a set: a claim may take a part of a record, in any order.\<close>

theorem fragment_is_allowed:
  "fst (verdict (graph_with [cv_record ''e1'' ''Reported to the director of engineering at Acme'' ''work''] [])
     ''Director of engineering at Acme'' [''e1''])"
  by code_simp

text \<open>A candidate that cites an assertion without evidence is checked against the whole graph.\<close>

definition bare_fact :: assertion where
  "bare_fact = (fact_about ''a1'' ''s1'' ''profile.note'' (VText ''Led the payments migration'') [])
     \<lparr>as_type := USER_ASSERTION, as_status := UNVERIFIED\<rparr>"

definition candidate_run :: "bool \<times> string list" where
  "candidate_run =
     (case validate_candidate no_float no_rules (graph_with [cv_record ''e1'' ''Led the payments migration'' ''work''] [bare_fact])
             \<lparr>cc_text = ''Led the payments migration'', cc_assertions = [''a1''], cc_concepts = [], cc_evidence = [], cc_as_of = None\<rparr> of
        Inl _ \<Rightarrow> (False, []) | Inr r \<Rightarrow> (cr_allowed r, cr_evidence r))"

theorem uncited_evidence_is_used: "candidate_run = (True, [''e1''])"
  by code_simp

text \<open>A duplicate in the requested evidence raises instead of refusing.\<close>

theorem duplicate_request_raises:
  "raises (validate_candidate no_float no_rules speaks_once
     \<lparr>cc_text = ''Led the payments migration'', cc_assertions = [], cc_concepts = [], cc_evidence = [''e1'', ''e1''], cc_as_of = None\<rparr>)"
  by code_simp

end
