(* ===== verification/Artifact_Claims.thy ===== *)
theory Artifact_Claims
  imports Claim_Validator
begin

text \<open>
  \<open>matching/artifact_validation.py\<close> and \<open>matching/validator.py\<close>: whether a generated document may be
  sent. Every claim of the document is checked against the assertions it cites, then given to the
  claim validator. SHA-256 of the canonical JSON text (\<open>digest\<close>), the text of a Python set
  (\<open>set_text\<close>), \<open>format(x, "g")\<close> (\<open>fmt_g\<close>) and the attributes of the policy object are arguments.
\<close>

section \<open>Documents\<close>

datatype CommitmentStatus = RESOLVED | UNRESOLVED

fun commitment_value :: "CommitmentStatus \<Rightarrow> string" where
  "commitment_value RESOLVED = ''resolved''"
| "commitment_value UNRESOLVED = ''unresolved''"

record generated_claim =
  gc_id :: string
  gc_text :: string
  gc_section :: string
  gc_assertions :: "string list"
  gc_evidence :: "string list"
  gc_predicate :: string
  gc_value :: string
  gc_forward :: bool
  gc_status :: CommitmentStatus
  gc_source :: string

record forward_commitment =
  fc_type :: string
  fc_description :: string
  fc_status :: CommitmentStatus
  fc_value :: string
  fc_source :: string

record artifact_section =
  sec_id :: string
  sec_heading :: string
  sec_content :: string
  sec_items :: "string list"
  sec_assertions :: "string list"
  sec_evidence :: "string list"

record document =
  doc_opportunity :: string
  doc_opportunity_hash :: string
  doc_type :: ArtifactType
  doc_template :: string
  doc_policy :: string
  doc_sections :: "artifact_section list"
  doc_claims :: "generated_claim list"
  doc_commitments :: "forward_commitment list"
  doc_hash :: string

definition strs :: "string list \<Rightarrow> json" where
  "strs xs = JArr (map JStr xs)"

definition artifact_payload :: "document \<Rightarrow> json" where
  "artifact_payload d = JObj [
     (''claims'', JArr (map (\<lambda>c. JArr [JStr (gc_id c), JStr (gc_text c), JStr (gc_section c), strs (gc_assertions c),
        strs (gc_evidence c), JStr (gc_predicate c), JStr (gc_value c), JBool (gc_forward c), JStr (commitment_value (gc_status c)),
        JStr (gc_source c)]) (doc_claims d))),
     (''commitments'', JArr (map (\<lambda>f. JArr [JStr (fc_type f), JStr (fc_description f), JStr (commitment_value (fc_status f)),
        JStr (fc_value f), JStr (fc_source f)]) (doc_commitments d))),
     (''opp_hash'', JStr (doc_opportunity_hash d)), (''opp_id'', JStr (doc_opportunity d)),
     (''policy_version'', JStr (doc_policy d)),
     (''sections'', JArr (map (\<lambda>s. JArr [JStr (sec_id s), JStr (sec_heading s), JStr (sec_content s), strs (sec_items s),
        strs (sec_assertions s), strs (sec_evidence s)]) (doc_sections d))),
     (''template_version'', JStr (doc_template d)), (''type'', JStr (artifact_type_value (doc_type d)))]"

definition compute_artifact_hash :: "(json \<Rightarrow> string) \<Rightarrow> document \<Rightarrow> string" where
  "compute_artifact_hash digest d = digest (artifact_payload d)"

text \<open>The constructor fills an empty hash.\<close>

definition TailoredArtifact :: "(json \<Rightarrow> string) \<Rightarrow> document \<Rightarrow> document" where
  "TailoredArtifact digest d = (if doc_hash d = [] then d\<lparr>doc_hash := compute_artifact_hash digest d\<rparr> else d)"

section \<open>The dispatch of claims to the validator\<close>

definition dispatch_claim :: "(real \<Rightarrow> string) \<Rightarrow> rule_search \<Rightarrow> graph_state \<Rightarrow> generated_claim \<Rightarrow> claim_result result" where
  "dispatch_claim fs srch g c =
     (if gc_source c = ''NARRATIVE'' then validate_narrative srch g (gc_text c) (gc_assertions c) (gc_evidence c) (gc_value c)
      else validate_claim fs srch g (gc_text c) (gc_evidence c) None None)"

text \<open>The claims that are not allowed, with the reasons.\<close>

definition validate_artifact_claims ::
  "(real \<Rightarrow> string) \<Rightarrow> rule_search \<Rightarrow> graph_state \<Rightarrow> generated_claim list \<Rightarrow> (generated_claim \<times> claim_result) list result" where
  "validate_artifact_claims fs srch g cs =
     bind (collect (map (\<lambda>c. bind (dispatch_claim fs srch g c) (\<lambda>r. Inr (c, r))) cs))
       (\<lambda>rs. Inr (filter (\<lambda>(_, r). \<not> cr_allowed r) rs))"

section \<open>Cited assertions\<close>

datatype cited = CitedAssertion assertion | CitedMetric metric

definition cited_node :: "graph_state \<Rightarrow> string \<Rightarrow> cited option" where
  "cited_node g i =
     (case map_of (g_assertions g) i of
        Some a \<Rightarrow> Some (CitedAssertion a)
      | None \<Rightarrow> map_option CitedMetric (map_of (g_metrics g) i))"

fun metric_status_value :: "MetricVerification \<Rightarrow> string" where
  "metric_status_value METRIC_VERIFIED = ''verified''"
| "metric_status_value METRIC_APPROXIMATE = ''approximate''"
| "metric_status_value METRIC_UNAVAILABLE = ''unavailable''"

fun verification_text :: "VerificationStatus \<Rightarrow> string" where
  "verification_text VERIFIED = ''verified''"
| "verification_text APPROXIMATE = ''approximate''"
| "verification_text UNVERIFIED = ''unverified''"
| "verification_text EXPLICIT_NULL = ''explicit_null''"

fun cited_status :: "cited \<Rightarrow> string" where
  "cited_status (CitedAssertion a) = verification_text (as_status a)"
| "cited_status (CitedMetric m) = metric_status_value (mt_status m)"

fun cited_evidence :: "cited \<Rightarrow> string list" where
  "cited_evidence (CitedAssertion a) = as_evidence a"
| "cited_evidence (CitedMetric m) = mt_evidence m"

fun cited_subject :: "cited \<Rightarrow> string" where
  "cited_subject (CitedAssertion a) = as_subject a"
| "cited_subject (CitedMetric m) = mt_subject m"

text \<open>A metric has neither a predicate nor a value of its own.\<close>

fun cited_predicate :: "cited \<Rightarrow> string" where
  "cited_predicate (CitedAssertion a) = as_predicate a"
| "cited_predicate (CitedMetric m) = []"

fun cited_value :: "cited \<Rightarrow> truth_value" where
  "cited_value (CitedAssertion a) = as_value a"
| "cited_value (CitedMetric m) = VNone"

definition same_text :: "string \<Rightarrow> string" where
  "same_text s = py_lower (py_strip s)"

definition contains_value :: "(real \<Rightarrow> string) \<Rightarrow> string \<Rightarrow> truth_value \<Rightarrow> bool" where
  "contains_value fs t v \<longleftrightarrow> py_in (same_text (value_str fs v)) (same_text t)"

definition metric_value_in_text :: "(real \<Rightarrow> string) \<Rightarrow> string \<Rightarrow> number \<Rightarrow> bool" where
  "metric_value_in_text fmt_g t x \<longleftrightarrow> number_support (case x of Whole i \<Rightarrow> int_str i | Floating r \<Rightarrow> fmt_g r) t"

definition EXACT_VALUE_PREDICATES :: "string list" where
  "EXACT_VALUE_PREDICATES = [''skill.name'', ''service.name'', ''portfolio.item'']"

definition RECORD_PREDICATES :: "string list" where
  "RECORD_PREDICATES = [''employment.record'', ''education.record'', ''certification.record'', ''portfolio.record'',
     ''language.record'', ''identity.location'']"

definition SCALAR_PREDICATES :: "string list" where
  "SCALAR_PREDICATES = [''skill.name'', ''employment.title'', ''service.name'', ''portfolio.item'', ''metric'', ''summary'',
     ''employment.responsibility'', ''achievement.statement'', ''profile.approved_summary'', ''approved_phrase.text'',
     ''credential.status'', ''certification.state'', ''identity.name'', ''identity.headline'', ''identity.email'', ''identity.phone'',
     ''identity.linkedin'', ''identity.github'', ''identity.website'', ''identity.location_city'', ''identity.location_country'']"

section \<open>One claim\<close>

text \<open>What the loop adds for a claim: errors, warnings, whether it counts as unverified or as an unresolved commitment, whether it goes on to the claim validator.\<close>

datatype fate = Canonical | Skipped | Unverified | Unresolved

type_synonym outcome_of_claim = "string list \<times> string list \<times> fate"

definition claim_error :: "string \<Rightarrow> generated_claim \<Rightarrow> string \<Rightarrow> string" where
  "claim_error kind c t = kind @ '' '' @ quoted (gc_id c) @ t"

definition node_errors :: "graph_state \<Rightarrow> generated_claim \<Rightarrow> string \<Rightarrow> string list" where
  "node_errors g c i =
     (case cited_node g i of
        None \<Rightarrow> [claim_error ''Claim'' c ('' references non-existent assertion ID '' @ quoted i)]
      | Some n \<Rightarrow>
          (if cited_status n \<noteq> ''verified''
           then [claim_error ''Claim'' c ('' references unverified assertion '' @ quoted i @ '' with status '' @ cited_status n)] else [])
          @ (if cited_evidence n = [] then [claim_error ''Claim'' c ('' references assertion '' @ quoted i @ '' which has empty evidence_ids'')]
             else []))"

definition cited_nodes :: "graph_state \<Rightarrow> generated_claim \<Rightarrow> cited list" where
  "cited_nodes g c = List.map_filter (cited_node g) (gc_assertions c)"

definition structural_errors :: "graph_state \<Rightarrow> generated_claim \<Rightarrow> string list" where
  "structural_errors g c =
     concat (map (node_errors g c) (gc_assertions c))
     @ (if included (gc_evidence c) (concat (map cited_evidence (cited_nodes g c))) then []
        else [claim_error ''Claim'' c '' evidence_ids contains unbacked evidence IDs''])"

definition metric_errors ::
  "(real \<Rightarrow> string) \<Rightarrow> (real \<Rightarrow> string) \<Rightarrow> graph_state \<Rightarrow> generated_claim \<Rightarrow> string list" where
  "metric_errors fs fmt_g g c =
     (let cited = List.map_filter (map_of (g_metrics g)) (gc_assertions c);
          wrong = filter (\<lambda>(x, u, ctx). \<not> list_ex (\<lambda>m. num_real (mt_value m) = num_real x \<and> units_compatible u (mt_unit m)
                    \<and> metric_contexts_compatible fs (mt_context m) ctx x \<and> metric_value_in_text fmt_g (gc_value c) (mt_value m)) cited)
                  (claim_metrics (gc_text c)) in
      if \<not> list_all (has (g_metrics g)) (gc_assertions c) then [claim_error ''Metric claim'' c '' references a non-metric assertion'']
      else if gc_value c = [] then [claim_error ''Metric claim'' c '' has no authorized_value bound to cited metric assertions'']
      else if wrong \<noteq> []
      then [claim_error ''Metric claim'' c ('' contains values not authorized by its cited metric IDs: ''
              @ py_join '', '' (map (\<lambda>(x, u, _). number_repr fs x @ '' '' @ u) wrong))]
      else [])"

definition after_dot :: "string \<Rightarrow> string" where
  "after_dot p = (if CHR ''.'' \<in> set p then tl (dropWhile (\<lambda>c. c \<noteq> CHR ''.'') p) else p)"

definition record_errors :: "(real \<Rightarrow> string) \<Rightarrow> (string list \<Rightarrow> string) \<Rightarrow> generated_claim \<Rightarrow> cited list \<Rightarrow> string list" where
  "record_errors fs set_text c ns =
     (let domain = py_split_head (CHR ''.'') (gc_predicate c) @ ''.''; subjects = firsts (map cited_subject ns) in
      if length subjects \<noteq> 1 \<or> \<not> list_all (\<lambda>n. prefix domain (cited_predicate n)) ns
      then [claim_error ''Record claim'' c ('' cites cross-subject or mismatched-domain assertions: '' @ set_text subjects),
            claim_error ''Record claim'' c '' does not match cited title or cited organization'']
      else if gc_value c = [] then [claim_error ''Record claim'' c '' has no authorized_value bound to cited assertions'']
      else concat (map (\<lambda>n.
        let v = cited_value n; field = after_dot (cited_predicate n) in
        (if v \<noteq> VNone \<and> \<not> contains_value fs (gc_value c) v
         then [claim_error ''Record claim'' c ('' authorized_value does not contain cited '' @ field @ '' '' @ quoted (value_str fs v))] else [])
        @ (if field \<in> {''title'', ''organization'', ''institution'', ''qualification'', ''name'', ''issuer'', ''language''}
              \<and> \<not> contains_value fs (gc_text c) v
           then [claim_error ''Record claim'' c ('' text does not match cited '' @ field @ '' '' @ quoted (value_str fs v))] else [])) ns))"

definition unbound :: "(real \<Rightarrow> string) \<Rightarrow> generated_claim \<Rightarrow> truth_value \<Rightarrow> bool" where
  "unbound fs c v \<longleftrightarrow> v \<noteq> VNone
     \<and> (if gc_predicate c \<in> set EXACT_VALUE_PREDICATES then same_text (gc_value c) \<noteq> same_text (value_str fs v)
        else \<not> contains_value fs (gc_value c) v)"

definition scalar_errors :: "(real \<Rightarrow> string) \<Rightarrow> generated_claim \<Rightarrow> cited list \<Rightarrow> string list" where
  "scalar_errors fs c ns =
     (let same = filter (\<lambda>n. if gc_predicate c = ''identity.location'' then prefix ''identity.location_'' (cited_predicate n)
                             else cited_predicate n = gc_predicate c) ns;
          skill = (if gc_predicate c = ''skill.name'' then [claim_error ''Claim'' c '' is not authorized by cited assertions''] else []);
          loose = filter (\<lambda>n. unbound fs c (cited_value n)) same in
      if gc_value c = [] then [claim_error ''Claim'' c '' has no authorized_value bound to cited assertions'']
      else if same = []
      then claim_error ''Claim'' c ('' predicate '' @ quoted (gc_predicate c) @ '' is not bound to cited assertions'')
           # skill @ (if gc_predicate c = ''summary'' then [claim_error ''Summary claim'' c '' lacks supporting employment.title''] else [])
      else if loose \<noteq> []
      then map (\<lambda>n. claim_error ''Claim'' c ('' authorized_value does not contain cited '' @ cited_predicate n @ '' value ''
             @ quoted (value_str fs (cited_value n)))) loose @ skill
      else [])"

definition binding_errors ::
  "(real \<Rightarrow> string) \<Rightarrow> (real \<Rightarrow> string) \<Rightarrow> (string list \<Rightarrow> string) \<Rightarrow> graph_state \<Rightarrow> generated_claim \<Rightarrow> string list" where
  "binding_errors fs fmt_g set_text g c =
     (if gc_predicate c = ''metric'' then metric_errors fs fmt_g g c
      else if gc_predicate c \<in> set RECORD_PREDICATES then record_errors fs set_text c (cited_nodes g c)
      else scalar_errors fs c (cited_nodes g c))"

definition HEADER_SECTIONS :: "string list" where
  "HEADER_SECTIONS = [''scope_understanding'', ''commitments'', ''introduction'', ''alignment'']"

text \<open>The checks of a claim that cites assertions, up to the first group that reports.\<close>

definition backed_outcome ::
  "(real \<Rightarrow> string) \<Rightarrow> (real \<Rightarrow> string) \<Rightarrow> (string list \<Rightarrow> string) \<Rightarrow> graph_state \<Rightarrow> generated_claim \<Rightarrow> outcome_of_claim" where
  "backed_outcome fs fmt_g set_text g c =
     (if structural_errors g c \<noteq> [] then (structural_errors g c, [], Unverified)
      else if gc_evidence c = []
      then ([claim_error ''Material claim'' c '' must cite explicit evidence_ids; graph-wide evidence fallback is prohibited''], [], Unverified)
      else if binding_errors fs fmt_g set_text g c \<noteq> [] then (binding_errors fs fmt_g set_text g c, [], Unverified)
      else ([], [], Canonical))"

definition claim_outcome ::
  "(real \<Rightarrow> string) \<Rightarrow> (real \<Rightarrow> string) \<Rightarrow> (string list \<Rightarrow> string) \<Rightarrow> graph_state \<Rightarrow> generated_claim \<Rightarrow> outcome_of_claim" where
  "claim_outcome fs fmt_g set_text g c =
     (if gc_forward c
      then (if gc_status c = UNRESOLVED then ([], [''Unresolved forward commitment: '' @ quoted (gc_text c)], Unresolved) else ([], [], Skipped))
      else if gc_source c = ''NARRATIVE'' then ([], [], Canonical)
      else if gc_assertions c = [] \<and> gc_section c \<in> set HEADER_SECTIONS
      then (if gc_predicate c = [] then [] else [''Unbacked header claim '' @ quoted (gc_id c) @ '' in section '' @ quoted (gc_section c)
              @ '' must have empty predicate''], [], Skipped)
      else if gc_assertions c = []
      then ([''Material claim '' @ quoted (take 60 (gc_text c)) @ '' in section '' @ quoted (gc_section c)
               @ '' has zero supporting assertion IDs''], [], Unverified)
      else if gc_predicate c = [] \<or> py_strip (gc_predicate c) = []
      then ([claim_error ''Material claim'' c ('' citing assertion IDs '' @ ids_repr (gc_assertions c) @ '' has empty predicate'')], [], Unverified)
      else if gc_predicate c \<notin> set SCALAR_PREDICATES \<and> gc_predicate c \<notin> set RECORD_PREDICATES
      then (if suffix ''.record'' (gc_predicate c)
            then [claim_error ''Record claim'' c ('' uses unsupported record predicate '' @ quoted (gc_predicate c))]
            else [''Unknown or unauthorized claim predicate '' @ quoted (gc_predicate c) @ '' in claim '' @ quoted (gc_id c)], [], Unverified)
      else backed_outcome fs fmt_g set_text g c)"

section \<open>Commitments and credentials\<close>

text \<open>The attributes of a policy object: nothing where there is no such attribute.\<close>

type_synonym policy_attributes = "string \<Rightarrow> truth_value option"

text \<open>The configured policy field a resolved commitment must name; \<open>subject\<close> and \<open>role\<close> phrase the error.\<close>

definition policy_errors :: "policy_attributes option \<Rightarrow> string \<Rightarrow> string \<Rightarrow> string \<Rightarrow> string \<Rightarrow> string list" where
  "policy_errors policy source unnamed needed role =
     (if \<not> prefix ''TailoringPolicy.'' source then [unnamed]
      else (case policy of
              None \<Rightarrow> [needed]
            | Some attr \<Rightarrow>
                (case attr (drop (length ''TailoringPolicy.'') source) of
                   None \<Rightarrow> [role @ '' cites non-existent policy field '' @ quoted source]
                 | Some v \<Rightarrow> if v = VNone \<or> v = VText [] then [role @ '' cites policy field '' @ quoted source @ '' which is unconfigured in policy'']
                            else [])))"

definition resolved_claim_errors :: "policy_attributes option \<Rightarrow> generated_claim \<Rightarrow> string list" where
  "resolved_claim_errors policy c =
     (if \<not> gc_forward c \<or> gc_status c \<noteq> RESOLVED then []
      else (let r = claim_error ''Resolved forward commitment claim'' c [] in
            policy_errors policy (gc_source c) (r @ '' lacks specific approved policy source (got '' @ quoted (gc_source c) @ '')'')
              (''TailoringPolicy object is required to validate resolved forward commitment claim '' @ quoted (gc_id c)) r))"

definition commitment_errors :: "policy_attributes option \<Rightarrow> forward_commitment \<Rightarrow> string list" where
  "commitment_errors policy f =
     (let r = ''Forward commitment '' @ quoted (fc_type f) in
      case fc_status f of
        RESOLVED \<Rightarrow> policy_errors policy (fc_source f) (r @ '' marked RESOLVED without specific approved policy source'')
          (''TailoringPolicy object is required to validate resolved forward commitment '' @ quoted (fc_type f)) r
      | UNRESOLVED \<Rightarrow> if py_in ''UNRESOLVED'' (fc_value f) then []
                     else [''Unresolved forward commitment '' @ quoted (fc_type f) @ '' must be explicitly marked UNRESOLVED (RED)''])"

definition document_text :: "document \<Rightarrow> string" where
  "document_text d = py_lower (py_join '' '' (map sec_content (doc_sections d)))"

definition credential_errors :: "(real \<Rightarrow> string) \<Rightarrow> string \<Rightarrow> assertion \<Rightarrow> string list" where
  "credential_errors fs t a =
     (let v = py_lower (value_str fs (as_value a)) in
      if as_predicate a \<in> {''credential.status'', ''certification.state''} \<and> (as_modality a = PLANNED \<or> v = ''planned'')
         \<and> py_in v t \<and> (py_in (''completed '' @ v) t \<or> py_in (''certified in '' @ v) t \<or> py_in (''holds '' @ v) t)
      then [''Planned credential '' @ quoted v @ '' is falsely presented as completed in artifact text''] else [])"

section \<open>The document\<close>

record artifact_verdict =
  av_valid :: bool
  av_errors :: "string list"
  av_warnings :: "string list"
  av_total :: int
  av_verified :: int
  av_unverified :: int
  av_unresolved :: int

definition binding_to_opportunity :: "(string \<times> string) option \<Rightarrow> document \<Rightarrow> string list" where
  "binding_to_opportunity opp d =
     (case opp of
        None \<Rightarrow> [''Opportunity binding is mandatory: target Opportunity was not supplied to validator'']
      | Some (i, h) \<Rightarrow>
          (if doc_opportunity d \<noteq> i
           then [''Opportunity ID mismatch: artifact opportunity_id '' @ quoted (doc_opportunity d) @ '' != target opportunity id '' @ quoted i]
           else [])
          @ (if doc_opportunity_hash d \<noteq> h
             then [''Opportunity content hash mismatch: artifact hash '' @ quoted (doc_opportunity_hash d)
                   @ '' != target opportunity hash '' @ quoted h] else []))"

definition hash_errors :: "(json \<Rightarrow> string) \<Rightarrow> document \<Rightarrow> string list" where
  "hash_errors digest d =
     (if doc_hash d \<noteq> compute_artifact_hash digest d
      then [''Artifact hash mismatch: artifact content, claims, or commitments were modified after compilation''] else [])"

text \<open>The wording added for callers of the former validator; \<open>claims_by_id\<close> keeps the last claim of an id.\<close>

definition legacy_reason :: "generated_claim list \<Rightarrow> string \<Rightarrow> string option" where
  "legacy_reason cs i =
     (case find (\<lambda>c. gc_id c = i) (rev cs) of
        None \<Rightarrow> None
      | Some c \<Rightarrow>
          if gc_predicate c = ''skill.name'' then Some ''claim is not authorized by cited assertions''
          else if gc_predicate c = ''summary'' then Some ''summary claim lacks supporting employment.title or does not contain cited title''
          else if suffix ''.record'' (gc_predicate c) then Some ''record claim does not match cited title or cited organization''
          else None)"

definition rejection_errors :: "generated_claim list \<Rightarrow> (generated_claim \<times> claim_result) list \<Rightarrow> string list" where
  "rejection_errors cs refused_claims =
     (let line = (\<lambda>i why. ''Canonical claim validator rejected '' @ quoted i @ '': '' @ why) in
      concat (map (\<lambda>(c, r). map (line (gc_id c)) (cr_reasons r)) refused_claims)
      @ List.map_filter (\<lambda>(c, _). map_option (line (gc_id c)) (legacy_reason cs (gc_id c))) refused_claims)"

definition outcomes ::
  "(real \<Rightarrow> string) \<Rightarrow> (real \<Rightarrow> string) \<Rightarrow> (string list \<Rightarrow> string) \<Rightarrow> graph_state \<Rightarrow> document \<Rightarrow> (generated_claim \<times> outcome_of_claim) list" where
  "outcomes fs fmt_g set_text g d = map (\<lambda>c. (c, claim_outcome fs fmt_g set_text g c)) (doc_claims d)"

definition fated :: "fate \<Rightarrow> (generated_claim \<times> outcome_of_claim) list \<Rightarrow> generated_claim list" where
  "fated k os = map fst (filter (\<lambda>(_, _, _, f). f = k) os)"

definition own_errors ::
  "(real \<Rightarrow> string) \<Rightarrow> (json \<Rightarrow> string) \<Rightarrow> graph_state \<Rightarrow> (string \<times> string) option \<Rightarrow> policy_attributes option \<Rightarrow> document
     \<Rightarrow> (generated_claim \<times> outcome_of_claim) list \<Rightarrow> string list" where
  "own_errors fs digest g opp policy d os =
     binding_to_opportunity opp d @ hash_errors digest d @ concat (map (\<lambda>(_, e, _, _). e) os)
     @ concat (map (resolved_claim_errors policy) (doc_claims d))
     @ concat (map (credential_errors fs (document_text d)) (all_assertions g))
     @ concat (map (commitment_errors policy) (doc_commitments d))"

definition conclude ::
  "document \<Rightarrow> string list \<Rightarrow> (generated_claim \<times> outcome_of_claim) list \<Rightarrow> (generated_claim \<times> claim_result) list \<Rightarrow> artifact_verdict" where
  "conclude d errs os refused_claims =
     (let all_errors = errs @ rejection_errors (fated Canonical os) refused_claims in
      \<lparr>av_valid = (all_errors = []), av_errors = all_errors, av_warnings = concat (map (\<lambda>(_, _, w, _). w) os),
       av_total = int (length (doc_claims d)),
       av_verified = int (length (fated Canonical os)) - int (length refused_claims),
       av_unverified = int (length (fated Unverified os)) + int (length refused_claims),
       av_unresolved = int (length (fated Unresolved os))
         + int (length (filter (\<lambda>f. fc_status f = UNRESOLVED) (doc_commitments d)))\<rparr>)"

definition validate_artifact ::
  "(real \<Rightarrow> string) \<Rightarrow> (real \<Rightarrow> string) \<Rightarrow> (string list \<Rightarrow> string) \<Rightarrow> (json \<Rightarrow> string) \<Rightarrow> rule_search
     \<Rightarrow> graph_state \<Rightarrow> document \<Rightarrow> (string \<times> string) option \<Rightarrow> policy_attributes option \<Rightarrow> artifact_verdict result" where
  "validate_artifact fs fmt_g set_text digest srch g d opp policy =
     (let os = outcomes fs fmt_g set_text g d in
      bind (validate_artifact_claims fs srch g (fated Canonical os))
        (\<lambda>refused_claims. Inr (conclude d (own_errors fs digest g opp policy d os) os refused_claims)))"

end
