(* ===== verification/Artifact_Claims_Properties.thy ===== *)
theory Artifact_Claims_Properties
  imports Artifact_Claims Claim_Properties
begin

text \<open>
  A document that validates is bound to its opportunity and unchanged, and each of its claims is a
  configured commitment, a bare header, narrative, or backed by cited assertions and allowed on the
  evidence it names. The counts of the verdict add up. Then two runs that show what a header may say.
\<close>

section \<open>The dispatch\<close>

lemma refuse_reasons: "refuse c t ids why = Inr r \<Longrightarrow> cr_reasons r = why"
  by (auto simp: refuse_def dest!: result_of_Inr)

lemma result_reasons: "result_of c ok t s ids why = Inr r \<Longrightarrow> cr_reasons r = why"
  by (auto dest!: result_of_Inr)

lemma judge_supported_reasons: "judge_supported fs g c as_of subjects rs = Inr r \<Longrightarrow> cr_reasons r \<noteq> []"
  by (auto simp: judge_supported_def Let_def dest!: refuse_reasons result_reasons split: option.splits if_splits)

lemma judge_evidence_reasons: "judge_evidence fs g c ids as_of subjects = Inr r \<Longrightarrow> cr_reasons r \<noteq> []"
  by (auto simp: judge_evidence_def Let_def dest!: refuse_reasons dest: judge_supported_reasons split: option.splits if_splits)

lemma dispatch_reasons: "dispatch_claim fs srch g c = Inr r \<Longrightarrow> cr_reasons r \<noteq> []"
  by (cases "prohibited_reasons srch g (squeeze (gc_text c))")
    (auto simp: dispatch_claim_def validate_claim_def judge_text_def validate_narrative_def Let_def
      dest!: refuse_reasons result_reasons dest: judge_evidence_reasons split: if_splits)

lemma collect_dispatch:
  assumes "collect (map (\<lambda>c. bind (f c) (\<lambda>r. Inr (c, r))) cs) = Inr rs"
  shows "length rs = length cs \<and> map fst rs = cs \<and> (\<forall>(c, r)\<in>set rs. f c = Inr r)"
  using assms
proof (induction cs arbitrary: rs)
  case (Cons c cs)
  from Cons.prems obtain r rest where "f c = Inr r" and rest: "collect (map (\<lambda>c. bind (f c) (\<lambda>r. Inr (c, r))) cs) = Inr rest"
    and "rs = (c, r) # rest"
    by (cases "f c"; cases "collect (map (\<lambda>c. bind (f c) (\<lambda>r. Inr (c, r))) cs)") auto
  with Cons.IH [OF rest] show ?case by auto
qed simp

lemma dispatched:
  assumes "validate_artifact_claims fs srch g cs = Inr bad"
  shows "length bad \<le> length cs" and "bad = [] \<Longrightarrow> c \<in> set cs \<Longrightarrow> \<exists>r. dispatch_claim fs srch g c = Inr r \<and> cr_allowed r"
    and "(c, r) \<in> set bad \<Longrightarrow> dispatch_claim fs srch g c = Inr r"
proof -
  from assms obtain rs where rs: "collect (map (\<lambda>c. bind (dispatch_claim fs srch g c) (\<lambda>r. Inr (c, r))) cs) = Inr rs"
    and bad: "bad = filter (\<lambda>(_, r). \<not> cr_allowed r) rs"
    by (cases "collect (map (\<lambda>c. bind (dispatch_claim fs srch g c) (\<lambda>r. Inr (c, r))) cs)") (auto simp: validate_artifact_claims_def)
  note all = collect_dispatch [OF rs]
  show "length bad \<le> length cs" using all bad by (metis length_filter_le)
  show "(c, r) \<in> set bad \<Longrightarrow> dispatch_claim fs srch g c = Inr r" using all bad by auto
  assume "bad = []" and "c \<in> set cs"
  with all obtain r where "(c, r) \<in> set rs" by auto
  moreover have "(c, r) \<notin> set bad" using \<open>bad = []\<close> by simp
  ultimately show "\<exists>r. dispatch_claim fs srch g c = Inr r \<and> cr_allowed r" using all bad by auto
qed

section \<open>Valid documents\<close>

definition configured :: "policy_attributes option \<Rightarrow> string \<Rightarrow> bool" where
  "configured policy source \<longleftrightarrow> prefix ''TailoringPolicy.'' source
     \<and> (case policy of None \<Rightarrow> False
        | Some attr \<Rightarrow> (case attr (drop (length ''TailoringPolicy.'') source) of None \<Rightarrow> False | Some v \<Rightarrow> v \<noteq> VNone \<and> v \<noteq> VText []))"

lemma policy_errors_none: "policy_errors policy source a b c = [] \<Longrightarrow> configured policy source"
  by (auto simp: policy_errors_def configured_def split: option.splits if_splits)

text \<open>Every cited node exists, is verified and has evidence, and the evidence of the claim is theirs.\<close>

definition cites_verified :: "graph_state \<Rightarrow> generated_claim \<Rightarrow> bool" where
  "cites_verified g c \<longleftrightarrow> gc_assertions c \<noteq> [] \<and> gc_evidence c \<noteq> []
     \<and> list_all (\<lambda>i. case cited_node g i of None \<Rightarrow> False | Some n \<Rightarrow> cited_status n = ''verified'' \<and> cited_evidence n \<noteq> []) (gc_assertions c)
     \<and> included (gc_evidence c) (concat (map cited_evidence (cited_nodes g c)))"

lemma canonical_claim:
  assumes "claim_outcome fs fmt_g set_text g c = ([], w, f)"
  shows "f = Canonical \<and> (gc_source c = ''NARRATIVE'' \<or> gc_source c \<noteq> ''NARRATIVE'' \<and> cites_verified g c)
    \<or> f \<noteq> Canonical \<and> (gc_forward c \<or> gc_assertions c = [] \<and> gc_section c \<in> set HEADER_SECTIONS \<and> gc_predicate c = [])"
proof -
  have "cites_verified g c" if "backed_outcome fs fmt_g set_text g c = ([], w, f)" "gc_assertions c \<noteq> []"
    using that
    by (auto simp: backed_outcome_def structural_errors_def node_errors_def cites_verified_def list_all_iff split: if_splits option.splits)
  moreover have "f = Canonical" if "backed_outcome fs fmt_g set_text g c = ([], w, f)"
    using that by (auto simp: backed_outcome_def split: if_splits)
  ultimately show ?thesis using assms by (auto simp: claim_outcome_def split: if_splits)
qed

lemma no_rejection:
  assumes "rejection_errors cs bad = []" and "\<And>c r. (c, r) \<in> set bad \<Longrightarrow> cr_reasons r \<noteq> []"
  shows "bad = []"
proof (cases bad)
  case (Cons x xs)
  obtain c r where x: "x = (c, r)" by (cases x)
  with Cons assms(2) [of c r] have "cr_reasons r \<noteq> []" by simp
  with assms(1) Cons x show ?thesis by (simp add: rejection_errors_def Let_def)
qed simp

text \<open>What \<open>validate_artifact\<close> found when its verdict is valid.\<close>

lemma valid_document:
  assumes "validate_artifact fs fmt_g set_text digest srch g d opp policy = Inr v" and "av_valid v"
  shows "opp = Some (doc_opportunity d, doc_opportunity_hash d)" and "doc_hash d = compute_artifact_hash digest d"
    and "c \<in> set (doc_claims d) \<Longrightarrow> fst (claim_outcome fs fmt_g set_text g c) = [] \<and> resolved_claim_errors policy c = []"
    and "f \<in> set (doc_commitments d) \<Longrightarrow> commitment_errors policy f = []"
    and "c \<in> set (doc_claims d) \<Longrightarrow> snd (snd (claim_outcome fs fmt_g set_text g c)) = Canonical \<Longrightarrow>
      \<exists>r. dispatch_claim fs srch g c = Inr r \<and> cr_allowed r"
proof -
  let ?os = "outcomes fs fmt_g set_text g d"
  from assms(1) obtain bad where bad: "validate_artifact_claims fs srch g (fated Canonical ?os) = Inr bad"
    and v: "v = conclude d (own_errors fs digest g opp policy d ?os) ?os bad"
    by (cases "validate_artifact_claims fs srch g (fated Canonical ?os)") (auto simp: validate_artifact_def Let_def)
  from v assms(2) have own: "own_errors fs digest g opp policy d ?os = []" and rej: "rejection_errors (fated Canonical ?os) bad = []"
    by (auto simp: conclude_def Let_def)
  from own have b: "binding_to_opportunity opp d = []" and h: "hash_errors digest d = []" by (simp_all add: own_errors_def)
  from b show "opp = Some (doc_opportunity d, doc_opportunity_hash d)"
    by (auto simp: binding_to_opportunity_def split: option.splits if_splits)
  from h show "doc_hash d = compute_artifact_hash digest d" by (simp add: hash_errors_def split: if_splits)
  show "c \<in> set (doc_claims d) \<Longrightarrow> fst (claim_outcome fs fmt_g set_text g c) = [] \<and> resolved_claim_errors policy c = []"
    using own by (auto simp: own_errors_def outcomes_def case_prod_beta)
  show "f \<in> set (doc_commitments d) \<Longrightarrow> commitment_errors policy f = []"
    using own by (simp add: own_errors_def)
  have "bad = []" by (rule no_rejection [OF rej]) (use dispatched(3) [OF bad] dispatch_reasons in blast)
  moreover assume "c \<in> set (doc_claims d)" "snd (snd (claim_outcome fs fmt_g set_text g c)) = Canonical"
  then have "c \<in> set (fated Canonical ?os)" by (force simp: fated_def outcomes_def image_iff case_prod_beta)
  ultimately show "\<exists>r. dispatch_claim fs srch g c = Inr r \<and> cr_allowed r" using dispatched(2) [OF bad] by blast
qed

lemma narrative_dispatch:
  assumes "dispatch_claim fs srch g c = Inr r" and "cr_allowed r" and "gc_source c = ''NARRATIVE''"
  shows "gc_assertions c = [] \<and> gc_evidence c = [] \<and> gc_value c = [] \<and> claim_metrics (squeeze (gc_text c)) = []
    \<and> \<not> breaks_rule srch g (squeeze (gc_text c))"
proof -
  have "prohibited_reasons srch g (squeeze (gc_text c)) = Inr []"
    using assms by (cases "prohibited_reasons srch g (squeeze (gc_text c))")
      (auto simp: dispatch_claim_def validate_narrative_def Let_def dest: refused split: if_splits)
  with assms show ?thesis
    by (auto simp: dispatch_claim_def validate_narrative_def Let_def dest: refused no_reason_no_breach split: if_splits)
qed

text \<open>A claim of a valid document that is neither a commitment nor a header.\<close>

definition backed_claim :: "rule_search \<Rightarrow> graph_state \<Rightarrow> generated_claim \<Rightarrow> bool" where
  "backed_claim srch g c \<longleftrightarrow>
     \<not> breaks_rule srch g (squeeze (gc_text c))
     \<and> (if gc_source c = ''NARRATIVE''
        then gc_assertions c = [] \<and> gc_evidence c = [] \<and> gc_value c = [] \<and> claim_metrics (squeeze (gc_text c)) = []
        else cites_verified g c \<and> (\<exists>r rs. grounds g (squeeze (gc_text c)) r rs \<and> set (cr_evidence r) \<subseteq> set (gc_evidence c)))"

lemma allowed_backed:
  assumes "reachable fs g" and "dispatch_claim fs srch g c = Inr r" and "cr_allowed r"
    and "gc_source c = ''NARRATIVE'' \<or> gc_source c \<noteq> ''NARRATIVE'' \<and> cites_verified g c"
  shows "backed_claim srch g c"
proof (cases "gc_source c = ''NARRATIVE''")
  case True
  with narrative_dispatch [OF assms(2,3)] show ?thesis by (simp add: backed_claim_def)
next
  case False
  then have v: "validate_claim fs srch g (gc_text c) (gc_evidence c) None None = Inr r" using assms(2) by (simp add: dispatch_claim_def)
  have "\<not> breaks_rule srch g (squeeze (gc_text c))"
    using validate_claim_allowed [OF v assms(3)] no_reason_no_breach by blast
  moreover have "gc_evidence c \<noteq> []" using False assms(4) by (simp add: cites_verified_def)
  ultimately show ?thesis
    using False assms(4) allowed_claim_grounds [OF assms(1) v assms(3)] by (auto simp: backed_claim_def)
qed

text \<open>C4: A document whose verdict is valid is bound to the given opportunity at its current content, carries the hash of its own content, and each of its claims is a commitment whose policy field is configured (or still open), a header without predicate or assertions, or a backed claim: narrative that asserts nothing, or a text that breaks no rule, cites verified assertions, and is allowed on records of the graph among the evidence it names. Each resolved commitment of its checklist names a configured policy field.\<close>

theorem valid_documents_are_backed:
  assumes "reachable fs g" and "validate_artifact fs fmt_g set_text digest srch g d opp policy = Inr v" and "av_valid v"
  shows "opp = Some (doc_opportunity d, doc_opportunity_hash d) \<and> doc_hash d = compute_artifact_hash digest d
    \<and> (\<forall>c\<in>set (doc_claims d).
        gc_forward c \<and> (gc_status c = RESOLVED \<longrightarrow> configured policy (gc_source c))
        \<or> gc_assertions c = [] \<and> gc_section c \<in> set HEADER_SECTIONS \<and> gc_predicate c = []
        \<or> backed_claim srch g c)
    \<and> (\<forall>f\<in>set (doc_commitments d). fc_status f = RESOLVED \<longrightarrow> configured policy (fc_source f))"
proof (intro conjI ballI impI)
  note ok = valid_document [OF assms(2,3)]
  show "opp = Some (doc_opportunity d, doc_opportunity_hash d)" "doc_hash d = compute_artifact_hash digest d" by (fact ok(1,2))+
  fix f assume "f \<in> set (doc_commitments d)" and "fc_status f = RESOLVED"
  with ok(4) [of f] show "configured policy (fc_source f)" by (auto simp: commitment_errors_def Let_def dest: policy_errors_none)
next
  note ok = valid_document [OF assms(2,3)]
  fix c assume c: "c \<in> set (doc_claims d)"
  obtain e w k where o: "claim_outcome fs fmt_g set_text g c = (e, w, k)" by (cases "claim_outcome fs fmt_g set_text g c") auto
  with ok(3) [OF c] have e: "e = []" and res: "resolved_claim_errors policy c = []" by auto
  from res have conf: "gc_forward c \<Longrightarrow> gc_status c = RESOLVED \<Longrightarrow> configured policy (gc_source c)"
    by (auto simp: resolved_claim_errors_def Let_def dest: policy_errors_none)
  from canonical_claim [OF o [unfolded e]] consider
      "k = Canonical" "gc_source c = ''NARRATIVE'' \<or> gc_source c \<noteq> ''NARRATIVE'' \<and> cites_verified g c"
    | "gc_forward c" | "gc_assertions c = []" "gc_section c \<in> set HEADER_SECTIONS" "gc_predicate c = []" by blast
  then show "gc_forward c \<and> (gc_status c = RESOLVED \<longrightarrow> configured policy (gc_source c))
      \<or> gc_assertions c = [] \<and> gc_section c \<in> set HEADER_SECTIONS \<and> gc_predicate c = [] \<or> backed_claim srch g c"
  proof cases
    case 1
    with ok(5) [OF c] o obtain r where "dispatch_claim fs srch g c = Inr r" "cr_allowed r" by auto
    with assms(1) 1(2) have "backed_claim srch g c" by (intro allowed_backed)
    then show ?thesis by blast
  qed (use conf in blast)+
qed

section \<open>Counts\<close>

lemma fated_partition:
  "length (fated Canonical os) + length (fated Skipped os) + length (fated Unverified os) + length (fated Unresolved os) = length os"
proof (induction os)
  case (Cons x os)
  obtain c e w k where "x = (c, e, w, k)" by (cases x)
  with Cons show ?case by (cases k) (simp_all add: fated_def)
qed (simp add: fated_def)

text \<open>The counts of a verdict add up: no claim is counted twice, verified ones are never negative, and those counted as neither verified nor unverified are headers and commitments.\<close>

theorem verdict_counts:
  assumes "validate_artifact fs fmt_g set_text digest srch g d opp policy = Inr v"
  shows "0 \<le> av_verified v \<and> 0 \<le> av_unverified v
    \<and> av_verified v + av_unverified v \<le> av_total v
    \<and> av_total v - av_verified v - av_unverified v = int (length (filter (\<lambda>c.
        snd (snd (claim_outcome fs fmt_g set_text g c)) \<in> {Skipped, Unresolved}) (doc_claims d)))"
proof -
  let ?os = "outcomes fs fmt_g set_text g d"
  from assms obtain bad where bad: "validate_artifact_claims fs srch g (fated Canonical ?os) = Inr bad"
    and v: "v = conclude d (own_errors fs digest g opp policy d ?os) ?os bad"
    by (cases "validate_artifact_claims fs srch g (fated Canonical ?os)") (auto simp: validate_artifact_def Let_def)
  have le: "length bad \<le> length (fated Canonical ?os)" by (rule dispatched(1) [OF bad])
  have n: "length ?os = length (doc_claims d)" by (simp add: outcomes_def)
  have "length (fated Skipped (map (\<lambda>c. (c, F c)) cs)) + length (fated Unresolved (map (\<lambda>c. (c, F c)) cs))
      = length (filter (\<lambda>c. snd (snd (F c)) \<in> {Skipped, Unresolved}) cs)" for F :: "generated_claim \<Rightarrow> outcome_of_claim" and cs
    by (induction cs) (auto simp: fated_def case_prod_beta)
  from this [of "claim_outcome fs fmt_g set_text g" "doc_claims d"]
  have "length (fated Skipped ?os) + length (fated Unresolved ?os)
      = length (filter (\<lambda>c. snd (snd (claim_outcome fs fmt_g set_text g c)) \<in> {Skipped, Unresolved}) (doc_claims d))"
    by (simp add: outcomes_def)
  with fated_partition [of ?os] n le v show ?thesis by (auto simp: conclude_def Let_def)
qed

section \<open>A document\<close>

definition plain_claim :: "string \<Rightarrow> string \<Rightarrow> string \<Rightarrow> generated_claim" where
  "plain_claim i s t = \<lparr>gc_id = i, gc_text = t, gc_section = s, gc_assertions = [], gc_evidence = [], gc_predicate = [],
     gc_value = [], gc_forward = False, gc_status = RESOLVED, gc_source = []\<rparr>"

definition skill_claim :: generated_claim where
  "skill_claim = (plain_claim ''c1'' ''skills'' ''Python'')
     \<lparr>gc_assertions := [''a1''], gc_evidence := [''e1''], gc_predicate := ''skill.name'', gc_value := ''Python''\<rparr>"

definition letter :: "generated_claim list \<Rightarrow> document" where
  "letter cs = \<lparr>doc_opportunity = ''o1'', doc_opportunity_hash = ''h1'', doc_type = COVER_LETTER, doc_template = ''1'', doc_policy = ''1'',
     doc_sections = [], doc_claims = cs, doc_commitments = [], doc_hash = ''sum''\<rparr>"

definition some_digest :: "json \<Rightarrow> string" where "some_digest j = ''sum''"

definition some_set :: "string list \<Rightarrow> string" where "some_set xs = py_join '', '' xs"

definition check_letter :: "graph_state \<Rightarrow> generated_claim list \<Rightarrow> artifact_verdict result" where
  "check_letter g cs = validate_artifact no_float no_float some_set some_digest no_rules g (letter cs) (Some (''o1'', ''h1'')) None"

definition valid_letter :: "graph_state \<Rightarrow> generated_claim list \<Rightarrow> bool" where
  "valid_letter g cs = (case check_letter g cs of Inl _ \<Rightarrow> False | Inr v \<Rightarrow> av_valid v)"

lemma valid_letterE:
  assumes "valid_letter g cs"
  obtains v where "check_letter g cs = Inr v" and "av_valid v"
  using assms by (cases "check_letter g cs") (auto simp: valid_letter_def)

lemma skill_letter_valid: "valid_letter demo_graph [skill_claim]"
  by code_simp

theorem valid_documents_are_backed_witness: "backed_claim no_rules demo_graph skill_claim"
proof -
  obtain v where "check_letter demo_graph [skill_claim] = Inr v" "av_valid v" using skill_letter_valid by (rule valid_letterE)
  from valid_documents_are_backed [OF demo_reachable this [unfolded check_letter_def]] show ?thesis
    by (simp add: letter_def skill_claim_def plain_claim_def)
qed

theorem verdict_counts_witness:
  "\<exists>v. check_letter demo_graph [skill_claim] = Inr v \<and> av_verified v + av_unverified v \<le> av_total v"
proof -
  obtain v where v: "check_letter demo_graph [skill_claim] = Inr v" using skill_letter_valid by (rule valid_letterE)
  from verdict_counts [OF v [unfolded check_letter_def]] v show ?thesis by blast
qed

text \<open>A header is not shown to the claim validator: it may break a rule of the graph, which a backed claim with the same words may not.\<close>

theorem headers_are_unchecked:
  "valid_letter ruled_graph [plain_claim ''c1'' ''introduction'' demo_claim]
   \<and> \<not> valid_letter ruled_graph [(plain_claim ''c1'' ''introduction'' demo_claim)\<lparr>gc_source := ''NARRATIVE''\<rparr>]
   \<and> phrase_hit (squeeze demo_claim) guarantee_rule"
  by code_simp

text \<open>The check of planned credentials looks for the state, "planned", where the name of the credential would stand.\<close>

definition planned_state :: assertion where
  "planned_state = (fact_about ''a3'' ''cert_aws'' ''certification.state'' (VText ''planned'') [''e1''])\<lparr>as_modality := PLANNED\<rparr>"

theorem planned_credential_missed:
  "credential_errors no_float ''i am certified in aws solutions architecture'' planned_state = []
   \<and> credential_errors no_float ''i am certified in planned'' planned_state \<noteq> []"
  by code_simp

end
