(* ===== verification/Scoring.thy ===== *)
theory Scoring
  imports Qualification Truth_Graph
begin

text \<open>
  \<open>matching/scorer.py\<close>: stated preferences, the scores of a tender, and the assembly of dimension
  scores into an evaluation. Floats are reals, printed by the argument \<open>fs\<close>; the dimensions of an
  employment posting, the confidence factors and the outcome of qualification are arguments of the
  assembly. A founder value is what the truth graph holds, so never a mapping.
\<close>

section \<open>Postings and scores\<close>

datatype CompensationInterval = HOURLY | DAILY | WEEKLY | MONTHLY | YEARLY | PROJECT | INTERVAL_UNSPECIFIED

fun interval_value :: "CompensationInterval \<Rightarrow> string" where
  "interval_value HOURLY = ''hourly''"
| "interval_value DAILY = ''daily''"
| "interval_value WEEKLY = ''weekly''"
| "interval_value MONTHLY = ''monthly''"
| "interval_value YEARLY = ''yearly''"
| "interval_value PROJECT = ''project''"
| "interval_value INTERVAL_UNSPECIFIED = ''unspecified''"

definition interval_values :: "string list" where
  "interval_values = map interval_value [HOURLY, DAILY, WEEKLY, MONTHLY, YEARLY, PROJECT, INTERVAL_UNSPECIFIED]"

record compensation =
  comp_min :: "real option"
  comp_max :: "real option"
  comp_currency :: "string option"
  comp_interval :: CompensationInterval

record scored_posting = posting +
  post_compensation :: "compensation option"
  post_organization :: string
  employment_type_value :: string
  location_region :: string
  location_city :: string
  extra_attributes :: "(string \<times> string) list"

record dimension_score =
  ds_name :: string
  ds_raw :: real
  ds_weight :: real
  ds_weighted :: real
  ds_explanation :: string
  ds_strengths :: "string list"
  ds_gaps :: "string list"
  ds_unknowns :: "string list"
  ds_evidence :: "string list"
  ds_fields :: "string list"
  ds_tags :: "string list"

definition dimension_checks :: "(real \<Rightarrow> string) \<Rightarrow> dimension_score \<Rightarrow> check list" where
  "dimension_checks fs d =
     [(0 \<le> ds_raw d \<and> ds_raw d \<le> 1, ''raw_score must be in [0.0, 1.0], got '' @ fs (ds_raw d)),
      (0 \<le> ds_weight d \<and> ds_weight d \<le> 1, ''weight must be in [0.0, 1.0], got '' @ fs (ds_weight d))]"

record match_policy = scoring_policy +
  sp_version :: string
  sp_auto_rejection :: bool
  sp_target :: "real option"
  sp_yearly_target :: "real option"
  sp_budget_target :: "real option"
  sp_daily_target :: "real option"
  sp_hourly_target :: "real option"
  sp_weights :: "(string \<times> real) list"

text \<open>A score with its findings: strengths, gaps and unknowns.\<close>

type_synonym finding = "real \<times> string list \<times> string list \<times> string list"

definition dimension ::
  "string \<Rightarrow> real \<Rightarrow> string \<Rightarrow> finding \<Rightarrow> string list \<Rightarrow> string list \<Rightarrow> dimension_score" where
  "dimension name w why f refs flds = (case f of (raw, strengths, gaps, unknowns) \<Rightarrow>
     \<lparr>ds_name = name, ds_raw = raw, ds_weight = w, ds_weighted = raw * w, ds_explanation = why, ds_strengths = strengths,
      ds_gaps = gaps, ds_unknowns = unknowns, ds_evidence = refs, ds_fields = flds, ds_tags = []\<rparr>)"

definition strong :: "real \<Rightarrow> string list \<Rightarrow> finding" where "strong x s = (x, s, [], [])"
definition lacking :: "real \<Rightarrow> string list \<Rightarrow> finding" where "lacking x s = (x, [], s, [])"
definition open_question :: "real \<Rightarrow> string list \<Rightarrow> finding" where "open_question x s = (x, [], [], s)"

section \<open>Stated preferences\<close>

definition normalize_preference :: "string \<Rightarrow> string" where
  "normalize_preference t = py_join '' '' (py_words (py_lower t))"

definition normalize_relocation :: "string \<Rightarrow> string" where
  "normalize_relocation t =
     (let n = py_replace (CHR ''_'') (CHR '' '') (normalize_preference t) in
      if n \<in> {''true'', ''yes'', ''required'', ''willing'', ''willing to relocate'', ''open to relocation'', ''open to relocate''} then ''yes''
      else if n \<in> {''false'', ''no'', ''not required'', ''no relocation'', ''unwilling'', ''unwilling to relocate'', ''not willing to relocate''}
      then ''no'' else n)"

text \<open>\<open>(?::?(\d{2}))?\<close> at the end of an offset: the minutes, or nothing where the text does not match.\<close>

definition offset_minutes :: "string \<Rightarrow> string option" where
  "offset_minutes r =
     (let m = (case r of c # cs \<Rightarrow> if c = CHR '':'' then cs else r | [] \<Rightarrow> r) in
      if r = [] then Some ''00'' else if length m = 2 \<and> list_all py_isdigit m then Some m else None)"

definition two_digits :: "nat \<Rightarrow> string" where
  "two_digits n = (if n < 10 then CHR ''0'' # nat_str n else nat_str n)"

definition utc_offset :: "string \<Rightarrow> string option" where
  "utc_offset t =
     (let sign = take 1 (drop 3 t); r = drop 4 t;
          with_hours = (\<lambda>k. if length r < k \<or> \<not> list_all py_isdigit (take k r) then None
                            else map_option (\<lambda>m. ''utc'' @ sign @ two_digits (digits_value (take k r)) @ '':'' @ m) (offset_minutes (drop k r))) in
      if take 3 t \<in> {''utc'', ''gmt''} \<and> sign \<in> {''+'', ''-''}
      then (case with_hours 2 of Some x \<Rightarrow> Some x | None \<Rightarrow> with_hours 1) else None)"

definition normalize_time_zone :: "string \<Rightarrow> string" where
  "normalize_time_zone t =
     (let n = filter (\<lambda>c. c \<noteq> CHR '' '') (normalize_preference t) in case utc_offset n of Some z \<Rightarrow> z | None \<Rightarrow> n)"

definition normalize_geography :: "string \<Rightarrow> string" where
  "normalize_geography t =
     (let n = normalize_preference t in py_lower (case map_of COUNTRY_ALIASES n of Some c \<Rightarrow> c | None \<Rightarrow> n))"

definition normalize_track :: "string \<Rightarrow> string" where
  "normalize_track t = (let n = normalize_preference t in if n \<in> {''independent'', ''procurement''} then ''independent'' else n)"

definition normalizer_of :: "string \<Rightarrow> string \<Rightarrow> string" where
  "normalizer_of name =
     (if name = ''preference_relocation'' then normalize_relocation
      else if name = ''preference_time_zone'' then normalize_time_zone
      else if name = ''preference_geography'' then normalize_geography
      else if name = ''preference_track'' then normalize_track
      else normalize_preference)"

definition verified_positive :: "graph_state \<Rightarrow> string \<Rightarrow> assertion list" where
  "verified_positive g p =
     filter (\<lambda>a. as_predicate a = p \<and> as_status a = VERIFIED \<and> as_polarity a = POSITIVE) (all_assertions g)"

record preference_category =
  pc_name :: string
  pc_label :: string
  pc_predicate :: string
  pc_values :: "string list"
  pc_fields :: "string list"
  pc_worldwide :: bool

definition preference_dimension ::
  "(real \<Rightarrow> string) \<Rightarrow> preference_category \<Rightarrow> assertion list \<Rightarrow> dimension_score option" where
  "preference_dimension fs c as =
     (let norm = normalizer_of (pc_name c); low = py_lower (pc_label c);
          founder = filter (\<lambda>v. v \<noteq> []) (map (\<lambda>a. norm (value_str fs (as_value a))) (filter (\<lambda>a. as_value a \<noteq> VNone) as));
          job = map norm (filter (\<lambda>v. v \<noteq> []) (pc_values c));
          result = (\<lambda>why f. Some (dimension (pc_name c) 0 why f (map as_id as) (pc_fields c))) in
      if as = [] then None
      else if founder = []
      then result (pc_label c @ '' preference assertion has no comparable value.'')
             (open_question (1/2) [''Verified '' @ low @ '' preference has no comparable value''])
      else if job = []
      then result (pc_label c @ '' preference cannot be compared because the structured job field is unstated.'')
             (open_question (1/2) [''Structured opportunity '' @ low @ '' is unstated''])
      else if meets founder job \<or> pc_worldwide c \<and> ''worldwide'' \<in> set job \<or> ''worldwide'' \<in> set founder
      then result (''Structured opportunity '' @ low @ '' matches a verified Founder preference.'')
             (strong 1 [pc_label c @ '' preference match''])
      else result (''Structured opportunity '' @ low @ '' does not match a verified Founder preference.'')
             (lacking (2/10) [pc_label c @ '' preference mismatch'']))"

text \<open>Later attributes replace earlier ones with the same key.\<close>

definition structured_attributes :: "scored_posting \<Rightarrow> (string \<times> string) list" where
  "structured_attributes opp =
     fold (\<lambda>(k, v) d. if py_strip k = [] \<or> py_strip v = [] then d else AList.update (py_strip (py_lower k)) (py_strip v) d)
       (extra_attributes opp) []"

definition values_for :: "scored_posting \<Rightarrow> string list \<Rightarrow> string list" where
  "values_for opp keys =
     filter (\<lambda>v. v \<noteq> []) (List.map_filter (\<lambda>k. map_of (structured_attributes opp) (py_lower k)) keys)"

definition unless_unspecified :: "string \<Rightarrow> string list" where
  "unless_unspecified t = (if normalize_preference t = ''unspecified'' then [] else [normalize_preference t])"

definition categories :: "scored_posting \<Rightarrow> preference_category list" where
  "categories opp =
     (let worldwide = normalize_preference (remote_scope_value (remote_scope opp)) = ''worldwide'';
          cat = (\<lambda>n l vs flds w. \<lparr>pc_name = ''preference_'' @ n, pc_label = l, pc_predicate = ''preference.'' @ n, pc_values = vs,
                  pc_fields = flds, pc_worldwide = w\<rparr>) in
      [cat ''track'' ''Opportunity track'' [if opp_track opp = PROCUREMENT then ''independent'' else ''employment''] [''track''] False,
       cat ''work_mode'' ''Work mode'' (unless_unspecified (work_mode_value (work_mode opp))) [''work_mode''] False,
       cat ''employment_type'' ''Employment type'' (unless_unspecified (employment_type_value opp)) [''employment_type''] False,
       cat ''geography'' ''Geography''
         (filter (\<lambda>v. v \<noteq> []) ([location_country opp, location_region opp, location_city opp] @ remote_scope_regions opp
            @ [if worldwide then ''worldwide'' else []]))
         [''location_country'', ''location_region'', ''location_city'', ''remote_scope_regions''] worldwide,
       cat ''relocation'' ''Relocation'' (values_for opp [''relocation_required'', ''relocation''])
         [''extra_attributes.relocation_required'', ''extra_attributes.relocation''] False,
       cat ''industry'' ''Industry'' (values_for opp [''industry'']) [''extra_attributes.industry''] False,
       cat ''company'' ''Company'' (filter (\<lambda>v. v \<noteq> []) (post_organization opp # values_for opp [''company'', ''company_name'']))
         [''organization'', ''extra_attributes.company''] False,
       cat ''time_zone'' ''Time-zone'' (values_for opp [''time_zone'', ''timezone'', ''time_zone_overlap''])
         [''extra_attributes.time_zone'', ''extra_attributes.time_zone_overlap''] False,
       cat ''travel'' ''Travel'' (values_for opp [''travel_expectation'', ''travel_required'', ''travel''])
         [''extra_attributes.travel_expectation'', ''extra_attributes.travel_required''] False])"

definition category_assertions :: "(real \<Rightarrow> string) \<Rightarrow> graph_state \<Rightarrow> preference_category \<Rightarrow> assertion list" where
  "category_assertions fs g c =
     (let as = verified_positive g (pc_predicate c) in
      if pc_name c = ''preference_track''
      then filter (\<lambda>a. normalize_track (value_str fs (as_value a)) \<in> {''employment'', ''independent''}) as else as)"

definition asserted_preferences :: "(real \<Rightarrow> string) \<Rightarrow> scored_posting \<Rightarrow> graph_state \<Rightarrow> dimension_score list" where
  "asserted_preferences fs opp g =
     List.map_filter (\<lambda>c. preference_dimension fs c (category_assertions fs g c)) (categories opp)"

section \<open>The compensation preference\<close>

text \<open>\<open>re.fullmatch\<close> of the amount, three letters and an interval with white space between them.\<close>

definition amount_shape :: "string \<Rightarrow> bool" where
  "amount_shape t \<longleftrightarrow>
     (let whole = takeWhile (\<lambda>c. c \<noteq> CHR ''.'') t; rest = dropWhile (\<lambda>c. c \<noteq> CHR ''.'') t in
      whole \<noteq> [] \<and> list_all (\<lambda>c. py_isdigit c \<or> c = CHR '','') whole
      \<and> (rest = [] \<or> tl rest \<noteq> [] \<and> list_all py_isdigit (tl rest)))"

definition parse_compensation_preference :: "(real \<Rightarrow> string) \<Rightarrow> truth_value \<Rightarrow> (real \<times> string \<times> string) option" where
  "parse_compensation_preference fs v =
     (case py_words (value_str fs v) of
        [amount, currency, interval] \<Rightarrow>
          let i = (if py_lower interval = ''annual'' then ''yearly'' else py_lower interval) in
          if amount_shape amount \<and> length currency = 3 \<and> list_all py_isalpha currency
             \<and> py_lower interval \<in> {''hourly'', ''daily'', ''weekly'', ''monthly'', ''yearly'', ''annual'', ''project''} \<and> i \<in> set interval_values
          then map_option (\<lambda>x. (x, py_upper currency, i)) (read_float (filter (\<lambda>c. c \<noteq> CHR '','') amount)) else None
      | _ \<Rightarrow> None)"

text \<open>The explanation, the finding and the assertions it rests on; first for a posting that states its pay.\<close>

type_synonym reading = "string \<times> finding \<times> assertion list"

definition compare_pay :: "compensation \<Rightarrow> real \<Rightarrow> (assertion \<times> real \<times> string \<times> string) list \<Rightarrow> reading" where
  "compare_pay c low comparable =
     (let top = (case comp_max c of None \<Rightarrow> low | Some x \<Rightarrow> x); met = filter (\<lambda>(_, x, _, _). x \<le> top) comparable in
      if met \<noteq> []
      then (''Opportunity compensation meets a verified minimum Founder preference.'', strong 1 [''Compensation preference met''], map fst met)
      else (''Opportunity compensation is below every comparable verified minimum Founder preference.'',
            lacking (2/10) [''Compensation preference not met''], map fst comparable))"

definition comparable_pay :: "compensation \<Rightarrow> assertion \<times> real \<times> string \<times> string \<Rightarrow> bool" where
  "comparable_pay c x =
     (case x of (_, _, k, i) \<Rightarrow> k = py_strip (py_upper (case comp_currency c of None \<Rightarrow> [] | Some x \<Rightarrow> x))
        \<and> i = normalize_preference (interval_value (comp_interval c)))"

definition read_pay :: "(real \<Rightarrow> string) \<Rightarrow> compensation option \<Rightarrow> assertion list \<Rightarrow> reading" where
  "read_pay fs pay as =
     (let usable = List.map_filter (\<lambda>a. map_option (\<lambda>p. (a, p)) (parse_compensation_preference fs (as_value a))) as in
      case Option.bind pay (\<lambda>c. map_option (\<lambda>low. (c, low)) (comp_min c)) of
        None \<Rightarrow> (''Founder compensation preference cannot be compared because the posting omits compensation.'',
                 open_question (1/2) [''Opportunity compensation is unstated''], as)
      | Some (c, low) \<Rightarrow>
          if usable = []
          then (''Founder compensation preference has no supported amount/currency/interval value.'',
                open_question (1/2) [''Compensation preference is not in the comparable amount/currency/interval form''], as)
          else if filter (comparable_pay c) usable = []
          then (''Founder compensation preference and posting use different currencies or intervals.'',
                open_question (1/2) [''Compensation preference and opportunity are not currency/interval comparable''], as)
          else compare_pay c low (filter (comparable_pay c) usable))"

definition compensation_preference ::
  "(real \<Rightarrow> string) \<Rightarrow> scored_posting \<Rightarrow> graph_state \<Rightarrow> dimension_score option" where
  "compensation_preference fs opp g =
     (let as = verified_positive g ''preference.compensation'' in
      if as = [] then None
      else (case read_pay fs (post_compensation opp) as of
              (why, f, refs) \<Rightarrow> Some (dimension ''preference_compensation'' 0 why f (map as_id refs) [''compensation''])))"

section \<open>Tenders\<close>

definition weight_of :: "match_policy \<Rightarrow> string \<Rightarrow> real \<Rightarrow> real" where
  "weight_of pol k d = (case map_of (sp_weights pol) k of None \<Rightarrow> d | Some w \<Rightarrow> w)"

definition verified_with :: "graph_state \<Rightarrow> string \<Rightarrow> assertion list" where
  "verified_with g p = filter (\<lambda>a. as_predicate a = p \<and> as_status a = VERIFIED) (all_assertions g)"

text \<open>The offered services by their name in lower case; a later assertion of the same name replaces an earlier one.\<close>

definition founder_services :: "(real \<Rightarrow> string) \<Rightarrow> graph_state \<Rightarrow> (string \<times> assertion) list" where
  "founder_services fs g = fold (\<lambda>a. AList.update (py_lower (value_str fs (as_value a))) a) (verified_with g ''service.name'') []"

definition services_dimension :: "(real \<Rightarrow> string) \<Rightarrow> match_policy \<Rightarrow> scored_posting \<Rightarrow> graph_state \<Rightarrow> dimension_score \<times> real" where
  "services_dimension fs pol opp g =
     (let offered = founder_services fs g; hits = filter (\<lambda>(s, _). py_in s (py_lower (post_title opp @ '' '' @ description opp))) offered;
          result = (\<lambda>f refs u. (dimension ''service_capabilities'' (weight_of pol ''services'' (35/100))
            (''Consulting scope evaluated against '' @ nat_str (length offered) @ '' verified service offering(s).'') f refs
            [''title'', ''description'', ''procurement_metadata''], u)) in
      if offered = []
      then result (0, [], [''No verified consulting service offerings in truth graph''], [''Founder service offerings unasserted'']) [] (4/10)
      else if hits \<noteq> []
      then result (strong (95/100) (map (\<lambda>(s, _). ''Direct verified capability match: '' @ py_title s) hits)) (map (\<lambda>(_, a). as_id a) hits) 0
      else result (lacking (30/100) [''No direct match between RFP terms and verified service offerings'']) [] (15/100))"

definition team_re :: re where
  "team_re = cats [Cap digits1, spaces,
     any_of [cats [opt_of (Ch (\<lambda>c. c = CHR ''-'' \<or> c = CHR ''+'')), spaces, liti ''person''],
       Cat (liti ''consultant'') (opt_of (liti ''s'')), Cat (liti ''engineer'') (opt_of (liti ''s'')),
       cats [liti ''team'', spaces, liti ''member'', opt_of (liti ''s'')], Cat (liti ''specialist'') (opt_of (liti ''s'')), liti ''staff'',
       cats [liti ''delivery'', spaces, liti ''team'']]]"

definition team_required :: "scored_posting \<Rightarrow> nat option" where
  "team_required opp =
     map_option (\<lambda>(_, n). digits_value n) (re_search team_re (description opp @ '' '' @ py_join '' '' (requirements opp)))"

text \<open>\<open>int(v)\<close>, with \<open>None\<close> where it raises \<open>ValueError\<close> or \<open>TypeError\<close>.\<close>

fun value_int :: "truth_value \<Rightarrow> int option" where
  "value_int (VBool b) = Some (if b then 1 else 0)"
| "value_int (VInt i) = Some i"
| "value_int (VFloat r) = Some (if r \<ge> 0 then \<lfloor>r\<rfloor> else \<lceil>r\<rceil>)"
| "value_int (VText t) = (case signed (py_strip t) of (neg, s) \<Rightarrow>
     if digit_group s then Some (if neg then - int (group_value s) else int (group_value s)) else None)"
| "value_int _ = None"

definition turnover_needed :: "scored_posting \<Rightarrow> real option" where
  "turnover_needed opp =
     (case procurement_metadata opp of
        None \<Rightarrow> None
      | Some pm \<Rightarrow> (case turnover_required pm of None \<Rightarrow> None | Some x \<Rightarrow> if x > 0 then Some x else None))"

definition team_finding :: "assertion list \<Rightarrow> nat \<Rightarrow> finding \<times> string list \<times> real" where
  "team_finding teams n =
     (case teams of
        [] \<Rightarrow> (open_question (50/100) [''Opportunity requires delivery team of '' @ nat_str n @ ''; founder team size unasserted in truth graph''], [], 20/100)
      | a # _ \<Rightarrow>
          (let k = (case value_int (as_value a) of None \<Rightarrow> 1 | Some k \<Rightarrow> k) in
           (if k \<ge> int n
            then strong (85/100) [''Founder delivery team size ('' @ int_str k @ '') meets opportunity requirement ('' @ nat_str n @ '' staff)'']
            else lacking (15/100) [''Opportunity requires delivery team of '' @ nat_str n @ '' staff, exceeding founder team size ('' @ int_str k @ '')''],
            [as_id a], 0)))"

definition turnover_finding :: "(real \<Rightarrow> string) \<Rightarrow> assertion list \<Rightarrow> real \<Rightarrow> finding \<times> string list \<times> real" where
  "turnover_finding fs facts need =
     (case facts of
        [] \<Rightarrow> (open_question (50/100) [''Opportunity requires annual turnover ('' @ fs need @ ''); founder turnover unasserted''], [], 20/100)
      | a # _ \<Rightarrow>
          (let t = (case value_float (as_value a) of None \<Rightarrow> 0 | Some t \<Rightarrow> t) in
           (if t \<ge> need
            then strong (85/100) [''Founder annual turnover ('' @ fs t @ '') meets opportunity requirement ('' @ fs need @ '')'']
            else lacking (15/100) [''Opportunity requires annual turnover ('' @ fs need @ ''), exceeding founder turnover ('' @ fs t @ '')''],
            [as_id a], 0)))"

definition scope_dimension :: "(real \<Rightarrow> string) \<Rightarrow> match_policy \<Rightarrow> scored_posting \<Rightarrow> graph_state \<Rightarrow> dimension_score \<times> real" where
  "scope_dimension fs pol opp g =
     (case (case team_required opp of
              Some n \<Rightarrow> team_finding (verified_with g ''capacity.team_size'') n
            | None \<Rightarrow>
                (case turnover_needed opp of
                   Some x \<Rightarrow> turnover_finding fs (verified_with g ''capacity.annual_turnover_usd'') x
                 | None \<Rightarrow> (open_question (50/100) [''Opportunity terms do not specify explicit team/capacity thresholds for comparison''], [], 10/100))) of
        (f, refs, u) \<Rightarrow>
          (dimension ''scope_complexity'' (weight_of pol ''scope'' (20/100)) ''RFP terms of reference evaluated against founder delivery capacity.''
             f refs [''description''], u))"

definition portfolio_dimension :: "match_policy \<Rightarrow> graph_state \<Rightarrow> dimension_score \<times> real" where
  "portfolio_dimension pol g =
     (let as = verified_with g ''portfolio.title''; w = weight_of pol ''portfolio'' (20/100) in
      if as = []
      then (dimension ''portfolio_evidence'' w ''No verified case studies.''
              (lacking 0 [''No verified portfolio/case studies in truth graph'']) [] [], 30/100)
      else (dimension ''portfolio_evidence'' w ''Verified case studies and client delivery records available for tender response.''
              (strong (90/100) [''Verified portfolio and client case studies available in truth graph ('' @ nat_str (length as) @ '' items)''])
              (map as_id as) [], 0))"

definition budget_target :: "match_policy \<Rightarrow> CompensationInterval \<Rightarrow> real option" where
  "budget_target pol i =
     (case i of
        PROJECT \<Rightarrow> sp_budget_target pol
      | DAILY \<Rightarrow> sp_daily_target pol
      | HOURLY \<Rightarrow> sp_hourly_target pol
      | YEARLY \<Rightarrow> (case sp_yearly_target pol of Some x \<Rightarrow> if x = 0 then sp_target pol else Some x | None \<Rightarrow> sp_target pol)
      | _ \<Rightarrow> None)"

text \<open>\<open>x or ''\<close> of an optional amount.\<close>

definition amount_or_blank :: "(real \<Rightarrow> string) \<Rightarrow> real option \<Rightarrow> string" where
  "amount_or_blank fs x = (case x of None \<Rightarrow> [] | Some r \<Rightarrow> if r = 0 then [] else fs r)"

definition budget_finding :: "(real \<Rightarrow> string) \<Rightarrow> match_policy \<Rightarrow> compensation option \<Rightarrow> finding" where
  "budget_finding fs pol pay =
     (case pay of
        None \<Rightarrow> open_question (50/100) [''Procurement budget unstated in notice metadata'']
      | Some c \<Rightarrow>
          (case comp_min c of
             None \<Rightarrow> open_question (50/100) [''Procurement budget unstated in notice metadata'']
           | Some low \<Rightarrow>
               let i = interval_value (comp_interval c); cur = (case comp_currency c of None \<Rightarrow> [] | Some x \<Rightarrow> x);
                   top = (case comp_max c of None \<Rightarrow> low | Some x \<Rightarrow> x) in
               (case budget_target pol (comp_interval c) of
                  None \<Rightarrow> open_question (50/100) [''Procurement budget stated ('' @ fs low @ '' '' @ cur @ '' '' @ i @ ''); compatible founder ''
                            @ i @ '' target economics unconfigured in policy'']
                | Some t \<Rightarrow>
                    if top \<ge> t
                    then strong 1 [''Procurement compensation ('' @ fs low @ ''-'' @ amount_or_blank fs (comp_max c) @ '' '' @ cur @ '' '' @ i
                           @ '') meets founder target ('' @ fs t @ '')'']
                    else lacking (20/100) [''Procurement compensation ('' @ fs top @ '' '' @ i @ '') below founder target ('' @ fs t @ '')''])))"

definition budget_dimension :: "(real \<Rightarrow> string) \<Rightarrow> match_policy \<Rightarrow> scored_posting \<Rightarrow> dimension_score" where
  "budget_dimension fs pol opp =
     dimension ''budget_fit'' (weight_of pol ''budget'' (10/100)) ''Procurement budget evaluated against founder economic policy.''
       (budget_finding fs pol (post_compensation opp)) [] [''compensation'', ''procurement_metadata'']"

definition delivery_finding :: "match_policy \<Rightarrow> string \<Rightarrow> finding" where
  "delivery_finding pol buyer =
     (let named = list_ex (\<lambda>p. py_in (py_lower p) (py_lower buyer)); m = ''Buyer country '' @ quoted buyer in
      if buyer = [] then open_question (50/100) [''Buyer country unspecified in notice metadata'']
      else if named (prohibited_jurisdictions pol) then lacking 0 [m @ '' is in prohibited jurisdictions policy'']
      else if named (approved_delivery_jurisdictions pol) then strong 1 [m @ '' is on approved delivery list'']
      else open_question (60/100) [m @ '' delivery compliance unconfirmed''])"

definition delivery_dimension :: "match_policy \<Rightarrow> scored_posting \<Rightarrow> dimension_score" where
  "delivery_dimension pol opp =
     (let buyer = (case procurement_metadata opp of None \<Rightarrow> [] | Some pm \<Rightarrow> buyer_country pm) in
      dimension ''delivery_jurisdiction'' (weight_of pol ''delivery'' (10/100)) (''Buyer country: '' @ quoted (py_or buyer ''Unspecified'') @ ''.'')
        (delivery_finding pol buyer) [] [''procurement_metadata.buyer_country''])"

definition verified_nodes :: "graph_state \<Rightarrow> nat" where
  "verified_nodes g =
     length (filter (\<lambda>a. as_status a = VERIFIED) (all_assertions g))
     + length (filter (\<lambda>(_, m). mt_status m = METRIC_VERIFIED) (g_metrics g))"

definition evidence_finding :: "nat \<Rightarrow> finding" where
  "evidence_finding n =
     (if n = 0 then lacking 0 [''Zero verified assertions in truth graph to substantiate proposal'']
      else if n < 3 then open_question (40/100) [''Sparse verified assertions in truth graph'']
      else strong (min 1 (60/100 + real n * (5/100))) [nat_str n @ '' verified truth graph assertions available for proposal substantiation''])"

definition evidence_dimension :: "match_policy \<Rightarrow> graph_state \<Rightarrow> dimension_score" where
  "evidence_dimension pol g =
     dimension ''evidence_sufficiency'' (weight_of pol ''evidence_sufficiency'' (5/100))
       (''Evaluated proposal substantiation against '' @ nat_str (verified_nodes g) @ '' verified graph nodes.'')
       (evidence_finding (verified_nodes g)) [] []"

definition score_independent ::
  "(real \<Rightarrow> string) \<Rightarrow> match_policy \<Rightarrow> scored_posting \<Rightarrow> graph_state \<Rightarrow> dimension_score list \<times> real" where
  "score_independent fs pol opp g =
     (case (services_dimension fs pol opp g, scope_dimension fs pol opp g, portfolio_dimension pol g) of
        ((a, u), (b, v), (c, w)) \<Rightarrow>
          ([a, b, c, budget_dimension fs pol opp, delivery_dimension pol opp, evidence_dimension pol g], u + v + w))"

section \<open>The evaluation\<close>

text \<open>\<open>round(x, k)\<close>: to the nearest, and to the even digit in between.\<close>

definition round_even :: "real \<Rightarrow> int" where
  "round_even x =
     (let f = \<lfloor>x\<rfloor>; d = x - of_int f in
      if d < 1/2 then f else if d > 1/2 then f + 1 else if even f then f else f + 1)"

definition py_round :: "nat \<Rightarrow> real \<Rightarrow> real" where
  "py_round k x = of_int (round_even (x * 10 ^ k)) / 10 ^ k"

definition capability_dimensions :: "Track \<Rightarrow> string list" where
  "capability_dimensions t =
     (if t = PROCUREMENT then [''service_capabilities'', ''scope_complexity'', ''portfolio_evidence'']
      else [''core_skills'', ''experience_fit'', ''seniority_fit'', ''responsibility_scope'', ''domain_fit'', ''title_family_fit'',
            ''education_certification_fit''])"

definition active_capability :: "Track \<Rightarrow> dimension_score list \<Rightarrow> dimension_score list" where
  "active_capability t ds = filter (\<lambda>d. ds_name d \<in> set (capability_dimensions t) \<and> ds_weight d > 0) ds"

definition capability_fit :: "Track \<Rightarrow> dimension_score list \<Rightarrow> real" where
  "capability_fit t ds =
     (let active = active_capability t ds; w = sum_list (map ds_weight active) in
      if w > 0 then sum_list (map ds_weighted active) / w else 1/2)"

definition fit_score :: "Track \<Rightarrow> dimension_score list \<Rightarrow> real" where
  "fit_score t ds = max 0 (min 100 (capability_fit t ds * 100))"

definition capped :: "match_policy \<Rightarrow> QualificationDecision \<Rightarrow> real \<Rightarrow> real" where
  "capped pol q x = (if q = INELIGIBLE then (if sp_auto_rejection pol then 0 else min x 40) else x)"

definition comparable_preference :: "dimension_score \<Rightarrow> bool" where
  "comparable_preference d \<longleftrightarrow> ds_evidence d \<noteq> [] \<and> (ds_strengths d \<noteq> [] \<or> ds_gaps d \<noteq> [])"

definition preference_components :: "bool \<Rightarrow> dimension_score list \<Rightarrow> dimension_score list" where
  "preference_components asserted_pay ds =
     filter (\<lambda>d. ds_name d = ''target_role_family_preference'' \<and> comparable_preference d) ds
     @ filter (\<lambda>d. ds_name d = ''compensation_fit'' \<and> \<not> asserted_pay \<and> comparable_preference d) ds
     @ filter (\<lambda>d. prefix ''preference_'' (ds_name d) \<and> comparable_preference d) ds"

definition mean :: "real list \<Rightarrow> real" where
  "mean xs = sum_list xs / real (length xs)"

type_synonym confidence_factor = "string \<times> real \<times> string"

record evaluation =
  ev_opportunity :: string
  ev_track :: Track
  ev_decision :: QualificationDecision
  ev_fit :: real
  ev_constraints :: "constraint_result list"
  ev_dimensions :: "dimension_score list"
  ev_strengths :: "string list"
  ev_gaps :: "string list"
  ev_unknowns :: "string list"
  ev_uncertainty :: real
  ev_explanation :: string
  ev_policy_version :: string
  ev_evaluated_at :: string
  ev_breakdown :: "(string \<times> real) list"
  ev_preference :: "real option"
  ev_confidence :: real
  ev_factors :: "confidence_factor list"

definition explain_score ::
  "(real \<Rightarrow> string) \<Rightarrow> QualificationDecision \<Rightarrow> constraint_result list \<Rightarrow> real \<Rightarrow> real option \<Rightarrow> real \<Rightarrow> nat \<Rightarrow> nat \<Rightarrow> nat \<Rightarrow> string" where
  "explain_score fs q hard fit pref conf n_strong n_gaps n_unknown =
     (let failed = filter (\<lambda>h. passed h = Some False) hard in
      py_join '' ''
        ([''Qualification: '' @ py_upper (qualification_value q) @ ''.'', ''Overall Fit Score: '' @ fs (py_round 1 fit) @ ''/100.'',
          (case pref of Some p \<Rightarrow> ''Preference Score: '' @ fs (py_round 1 p) @ ''/100.''
                      | None \<Rightarrow> ''Preference Score: no comparable stated preferences.''),
          ''Confidence Score: '' @ fs conf @ ''/100 (interim heuristic; not gold-set calibrated).'',
          ''Strengths: '' @ nat_str n_strong @ '' identified.'', ''Gaps: '' @ nat_str n_gaps @ '' identified.'',
          ''Unknowns: '' @ nat_str n_unknown @ '' identified.'']
         @ (if failed = [] then [] else [''Hard constraints failed: '' @ py_join '', '' (map constraint_name failed) @ ''.''])))"

text \<open>\<open>evaluate\<close> once the dimensions are scored; \<open>asserted_pay\<close> tells whether a compensation preference is asserted.\<close>

definition assemble ::
  "(real \<Rightarrow> string) \<Rightarrow> match_policy \<Rightarrow> scored_posting \<Rightarrow> QualificationDecision \<times> constraint_result list
     \<Rightarrow> (dimension_score list \<Rightarrow> confidence_factor list) \<Rightarrow> string \<Rightarrow> real \<Rightarrow> bool \<Rightarrow> dimension_score list \<Rightarrow> evaluation" where
  "assemble fs pol opp qual factors at_time uncertainty asserted_pay ds =
     (let q = fst qual; fit = capped pol q (fit_score (opp_track opp) ds); prefs = preference_components asserted_pay ds;
          pref = (if prefs = [] then None else Some (py_round 2 (mean (map ds_raw prefs) * 100)));
          conf = (if factors ds = [] then 0 else py_round 2 (mean (map (\<lambda>(_, x, _). x) (factors ds))));
          strengths = concat (map ds_strengths ds); gaps = concat (map ds_gaps ds); unknowns = concat (map ds_unknowns ds) in
      \<lparr>ev_opportunity = opp_id opp, ev_track = opp_track opp, ev_decision = q, ev_fit = py_round 2 fit, ev_constraints = snd qual,
       ev_dimensions = ds, ev_strengths = strengths, ev_gaps = gaps, ev_unknowns = unknowns, ev_uncertainty = py_round 3 uncertainty,
       ev_explanation = explain_score fs q (snd qual) fit pref conf (length strengths) (length gaps) (length unknowns),
       ev_policy_version = sp_version pol, ev_evaluated_at = at_time,
       ev_breakdown = map (\<lambda>d. (ds_name d, py_round 2 (ds_weighted d * 100))) ds, ev_preference = pref, ev_confidence = conf,
       ev_factors = factors ds\<rparr>)"

definition option_list :: "'a option \<Rightarrow> 'a list" where
  "option_list x = (case x of None \<Rightarrow> [] | Some y \<Rightarrow> [y])"

text \<open>\<open>evaluate\<close> with the scores of the track, which come from the constructor and may raise.\<close>

definition evaluate_with ::
  "(real \<Rightarrow> string) \<Rightarrow> match_policy \<Rightarrow> scored_posting \<Rightarrow> graph_state \<Rightarrow> QualificationDecision \<times> constraint_result list
     \<Rightarrow> (dimension_score list \<Rightarrow> confidence_factor list) \<Rightarrow> string \<Rightarrow> dimension_score list \<times> real \<Rightarrow> evaluation result" where
  "evaluate_with fs pol opp g qual factors at_time scored =
     bind (collect (map (validated (dimension_checks fs)) (fst scored))) (\<lambda>ds.
       Inr (assemble fs pol opp qual factors at_time (snd scored) (compensation_preference fs opp g \<noteq> None)
              (ds @ asserted_preferences fs opp g @ option_list (compensation_preference fs opp g))))"

text \<open>The assertions as qualification reads them; \<open>isinstance(value, (int, float))\<close> holds of a bool.\<close>

fun value_number :: "truth_value \<Rightarrow> real option" where
  "value_number (VBool b) = Some (if b then 1 else 0)"
| "value_number (VInt i) = Some (of_int i)"
| "value_number (VFloat r) = Some r"
| "value_number _ = None"

definition graph_facts :: "(real \<Rightarrow> string) \<Rightarrow> graph_state \<Rightarrow> graph_assertion list" where
  "graph_facts fs g =
     map (\<lambda>a. \<lparr>assertion_id = as_id a, predicate = as_predicate a, assertion_value = value_str fs (as_value a),
                verification_status = as_status a, polarity = as_polarity a, assertion_number = value_number (as_value a)\<rparr>)
       (all_assertions g)"

definition evaluate_tender ::
  "(real \<Rightarrow> string) \<Rightarrow> match_policy \<Rightarrow> scored_posting \<Rightarrow> graph_state
     \<Rightarrow> (dimension_score list \<Rightarrow> confidence_factor list) \<Rightarrow> string \<Rightarrow> evaluation result" where
  "evaluate_tender fs pol opp g factors at_time =
     bind (evaluate fs (scoring_policy.truncate pol) (posting.truncate opp) (graph_facts fs g)) (\<lambda>qual.
       evaluate_with fs pol opp g qual factors at_time (score_independent fs pol opp g))"

end
