(* ===== verification/Scoring_Properties.thy ===== *)
theory Scoring_Properties
  imports Scoring Truth_Properties Qualification_Properties
begin

text \<open>
  What scoring promises: the scores stay in their ranges, the fit is a weighted mean of the
  capability dimensions alone, a tender is scored whenever its weights are weights, and stated
  preferences rest on verified assertions. Then where the fit departs from the note beside it.
\<close>

section \<open>Rounding\<close>

lemma round_even_ge: "of_int a \<le> x \<Longrightarrow> a \<le> round_even x"
  by (simp add: round_even_def Let_def le_floor_iff) linarith

lemma round_even_le: "x \<le> of_int b \<Longrightarrow> round_even x \<le> b"
proof -
  assume x: "x \<le> of_int b"
  show ?thesis
  proof (cases "x = of_int b")
    case True
    then show ?thesis by (simp add: round_even_def)
  next
    case False
    then have "\<lfloor>x\<rfloor> < b" using x by (simp add: floor_less_iff)
    then show ?thesis by (simp add: round_even_def Let_def)
  qed
qed

lemma py_round_ge:
  assumes "of_int a \<le> x" shows "of_int a \<le> py_round k x"
proof -
  have "of_int (a * 10 ^ k) \<le> x * 10 ^ k" using assms by (simp add: mult_right_mono)
  then have "a * 10 ^ k \<le> round_even (x * 10 ^ k)" by (rule round_even_ge)
  then have "of_int (a * 10 ^ k) \<le> (of_int (round_even (x * 10 ^ k)) :: real)" by (simp only: of_int_le_iff)
  then show ?thesis by (simp add: py_round_def pos_le_divide_eq)
qed

lemma py_round_le:
  assumes "x \<le> of_int b" shows "py_round k x \<le> of_int b"
proof -
  have "x * 10 ^ k \<le> of_int (b * 10 ^ k)" using assms by (simp add: mult_right_mono)
  then have "round_even (x * 10 ^ k) \<le> b * 10 ^ k" by (rule round_even_le)
  then have "(of_int (round_even (x * 10 ^ k)) :: real) \<le> of_int (b * 10 ^ k)" by (simp only: of_int_le_iff)
  then show ?thesis by (simp add: py_round_def pos_divide_le_eq)
qed

lemma py_round_between: "0 \<le> x \<Longrightarrow> x \<le> 100 \<Longrightarrow> 0 \<le> py_round k x \<and> py_round k x \<le> 100"
  using py_round_ge [of 0 x k] py_round_le [of x 100 k] by simp

lemma sum_list_bounds:
  fixes f :: "'a \<Rightarrow> real"
  shows "(\<And>x. x \<in> set xs \<Longrightarrow> lo * g x \<le> f x \<and> f x \<le> hi * g x)
     \<Longrightarrow> lo * sum_list (map g xs) \<le> sum_list (map f xs) \<and> sum_list (map f xs) \<le> hi * sum_list (map g xs)"
proof (induction xs)
  case (Cons x xs)
  have "lo * g x \<le> f x \<and> f x \<le> hi * g x" using Cons.prems by simp
  moreover have "lo * sum_list (map g xs) \<le> sum_list (map f xs) \<and> sum_list (map f xs) \<le> hi * sum_list (map g xs)"
    using Cons.prems by (intro Cons.IH) simp
  ultimately show ?case by (simp add: distrib_left)
qed simp

lemma mean_between:
  assumes "xs \<noteq> []" "\<And>x. x \<in> set xs \<Longrightarrow> lo \<le> x \<and> x \<le> hi"
  shows "lo \<le> mean xs \<and> mean xs \<le> hi"
proof -
  have "lo * sum_list (map (\<lambda>_. 1) xs) \<le> sum_list (map id xs) \<and> sum_list (map id xs) \<le> hi * sum_list (map (\<lambda>_. 1) xs)"
    using assms(2) by (intro sum_list_bounds) simp
  then have "lo * real (length xs) \<le> sum_list xs \<and> sum_list xs \<le> hi * real (length xs)" by (simp add: sum_list_triv mult.commute)
  then show ?thesis using assms(1) by (simp add: mean_def pos_le_divide_eq pos_divide_le_eq)
qed

section \<open>The dimensions of the stated preferences\<close>

definition preferences :: "(real \<Rightarrow> string) \<Rightarrow> scored_posting \<Rightarrow> graph_state \<Rightarrow> dimension_score list" where
  "preferences fs opp g = asserted_preferences fs opp g @ option_list (compensation_preference fs opp g)"

text \<open>A dimension of a stated preference: its name, no weight, a raw score, and the assertions it cites.\<close>

definition preference_like :: "graph_state \<Rightarrow> dimension_score \<Rightarrow> bool" where
  "preference_like g d \<longleftrightarrow>
     prefix ''preference_'' (ds_name d) \<and> ds_weight d = 0 \<and> ds_raw d \<in> {1/2, 1, 2/10} \<and> ds_evidence d \<noteq> []
     \<and> set (ds_evidence d) \<subseteq> as_id ` {a \<in> set (all_assertions g). as_status a = VERIFIED \<and> as_polarity a = POSITIVE}"

lemmas finding_defs = dimension_def strong_def lacking_def open_question_def

lemma category_name: "c \<in> set (categories opp) \<Longrightarrow> prefix ''preference_'' (pc_name c)"
  by (auto simp: categories_def Let_def)

lemma category_verified:
  "set (category_assertions fs g c) \<subseteq> {a \<in> set (all_assertions g). as_status a = VERIFIED \<and> as_polarity a = POSITIVE}"
  by (auto simp: category_assertions_def verified_positive_def Let_def)

lemma preference_dimension_like:
  assumes d: "preference_dimension fs c as = Some d" and n: "prefix ''preference_'' (pc_name c)"
    and v: "set as \<subseteq> {a \<in> set (all_assertions g). as_status a = VERIFIED \<and> as_polarity a = POSITIVE}"
  shows "preference_like g d"
  using d n image_mono [OF v, of as_id]
  by (auto simp: preference_dimension_def preference_like_def finding_defs Let_def split: if_splits)

lemma dimension_like:
  "refs \<noteq> [] \<Longrightarrow> set refs \<subseteq> {a \<in> set (all_assertions g). as_status a = VERIFIED \<and> as_polarity a = POSITIVE}
     \<Longrightarrow> fst f \<in> {1/2, 1, 2/10} \<Longrightarrow> preference_like g (dimension ''preference_compensation'' 0 why f (map as_id refs) flds)"
  by (cases f) (auto simp: preference_like_def dimension_def)

lemma finding_scores [simp]:
  "fst (strong x s) = x" "fst (lacking x s) = x" "fst (open_question x s) = x"
  by (simp_all add: strong_def lacking_def open_question_def)

text \<open>A reading is sound when it scores as a preference does and rests on some of the assertions \<open>A\<close>.\<close>

definition sound_reading :: "assertion set \<Rightarrow> reading \<Rightarrow> bool" where
  "sound_reading A r = (case r of (why, f, refs) \<Rightarrow> fst f \<in> {1/2, 1, 2/10} \<and> refs \<noteq> [] \<and> set refs \<subseteq> A)"

lemma usable_verified:
  "set xs \<subseteq> A \<Longrightarrow> fst ` set (List.map_filter (\<lambda>a. map_option (\<lambda>p. (a, p)) (f a)) xs) \<subseteq> A"
  by (auto simp: map_filter_def)

lemma filter_verified: "fst ` set ys \<subseteq> A \<Longrightarrow> fst ` set (filter P ys) \<subseteq> A"
  by auto

lemma compare_pay_sound: "fst ` set ys \<subseteq> A \<Longrightarrow> ys \<noteq> [] \<Longrightarrow> sound_reading A (compare_pay c low ys)"
  using filter_verified [of ys A "\<lambda>(_, x, _, _). x \<le> (case comp_max c of None \<Rightarrow> low | Some x \<Rightarrow> x)"]
  by (simp add: compare_pay_def sound_reading_def Let_def)

lemma read_pay_sound:
  assumes as: "as \<noteq> []" "set as \<subseteq> A" shows "sound_reading A (read_pay fs pay as)"
proof -
  note compare_pay_sound [OF filter_verified [OF usable_verified [OF as(2)]]]
  then show ?thesis using as by (simp add: read_pay_def Let_def sound_reading_def split: option.split)
qed

lemma verified_positive_subset:
  "set (verified_positive g p) \<subseteq> {a \<in> set (all_assertions g). as_status a = VERIFIED \<and> as_polarity a = POSITIVE}"
  by (auto simp: verified_positive_def)

lemma compensation_dimension_like:
  assumes d: "compensation_preference fs opp g = Some d" shows "preference_like g d"
proof -
  obtain why f refs where r: "read_pay fs (post_compensation opp) (verified_positive g ''preference.compensation'') = (why, f, refs)"
    by (metis prod_cases3)
  moreover have "verified_positive g ''preference.compensation'' \<noteq> []"
    using d by (auto simp: compensation_preference_def)
  ultimately show ?thesis
    using d read_pay_sound [OF _ verified_positive_subset, of g "''preference.compensation''" fs "post_compensation opp"] dimension_like
    by (simp add: compensation_preference_def sound_reading_def) blast
qed

lemma preferences_like: "d \<in> set (preferences fs opp g) \<Longrightarrow> preference_like g d"
  by (auto simp: preferences_def asserted_preferences_def map_filter_def option_list_def
      intro: preference_dimension_like [OF _ category_name category_verified] compensation_dimension_like split: option.splits)

section \<open>Small examples\<close>

definition scored_tender :: "string \<Rightarrow> scored_posting" where
  "scored_tender t = \<lparr>opp_id = ''o-1'', opp_track = PROCUREMENT, opp_source = ''manual'', content_hash = ''h'',
     post_title = ''Consulting services'', description = t, requirements = [], post_skills = [], location_raw = [],
     work_mode = REMOTE, location_country = [], remote_scope = WORLDWIDE, remote_scope_regions = [],
     procurement_metadata = None, provenance_raw_pointer = None, raw_record_pointer = ''jobs[0]'', field_provenances = [],
     post_compensation = None, post_organization = ''Ministry'', employment_type_value = ''unspecified'', location_region = [],
     location_city = [], extra_attributes = []\<rparr>"

definition usual_policy :: match_policy where
  "usual_policy = \<lparr>prohibited_jurisdictions = [], approved_delivery_jurisdictions = [], sp_version = ''1.0.0'',
     sp_auto_rejection = False, sp_target = None, sp_yearly_target = None, sp_budget_target = None, sp_daily_target = None,
     sp_hourly_target = None, sp_weights = []\<rparr>"

lemma scored_tender_traceable: "traceable (posting.truncate (scored_tender t))"
  by (simp add: traceable_def posting.truncate_def scored_tender_def record_pointer_def py_or_def addressable_def py_strip_def
      py_isspace_def)

text \<open>every dimension of a stated preference cites assertions of the graph, at least one, all verified
  and positive; it has no weight, and scores a match, a mismatch or an open question.
\<close>

theorem preferences_rest_on_assertions: "list_all (preference_like g) (preferences fs opp g)"
  using preferences_like by (auto simp: list_all_iff)

section \<open>The fit\<close>

lemma preference_raw: "preference_like g d \<Longrightarrow> 0 \<le> ds_raw d \<and> ds_raw d \<le> 1"
  by (auto simp: preference_like_def)

lemma preference_names: "preference_like g d \<Longrightarrow> ds_name d \<notin> set (capability_dimensions t)"
  by (auto simp: preference_like_def capability_dimensions_def)

lemma preferences_inactive: "active_capability t (ds @ preferences fs opp g) = active_capability t ds"
  using preferences_like [of _ fs opp g] by (auto simp: active_capability_def filter_empty_conv dest!: preference_names)

lemma fit_of_preferences: "fit_score t (ds @ preferences fs opp g) = fit_score t ds"
  by (simp add: fit_score_def capability_fit_def preferences_inactive)

lemma collect_validated: "collect (map (validated c) xs) = Inr ys \<longleftrightarrow> ys = xs \<and> (\<forall>x\<in>set xs. \<forall>k\<in>set (c x). fst k)"
  by (auto simp: collect_Inr list_eq_iff_nth_eq all_set_conv_all_nth)

lemma evaluate_with_Inr:
  "evaluate_with fs pol opp g qual factors at_time scored = Inr ev \<longleftrightarrow>
     (\<forall>d\<in>set (fst scored). 0 \<le> ds_raw d \<and> ds_raw d \<le> 1 \<and> 0 \<le> ds_weight d \<and> ds_weight d \<le> 1)
     \<and> ev = assemble fs pol opp qual factors at_time (snd scored) (compensation_preference fs opp g \<noteq> None)
              (fst scored @ preferences fs opp g)"
proof -
  have "collect (map (validated (dimension_checks fs)) (fst scored)) = Inr ys \<longleftrightarrow>
      ys = fst scored \<and> (\<forall>d\<in>set (fst scored). 0 \<le> ds_raw d \<and> ds_raw d \<le> 1 \<and> 0 \<le> ds_weight d \<and> ds_weight d \<le> 1)" for ys
    by (simp add: collect_validated dimension_checks_def)
  then show ?thesis
    unfolding evaluate_with_def bind_Inr_iff preferences_def by (simp only: sum.inject) blast
qed


lemma capped_between: "0 \<le> x \<Longrightarrow> x \<le> 100 \<Longrightarrow> 0 \<le> capped pol q x \<and> capped pol q x \<le> 100"
  by (auto simp: capped_def)

lemma fit_between: "0 \<le> fit_score t ds \<and> fit_score t ds \<le> 100"
  by (simp add: fit_score_def)

lemma preference_score_between:
  assumes "\<forall>d\<in>set ds. 0 \<le> ds_raw d \<and> ds_raw d \<le> 1" "preference_components b ds \<noteq> []"
  shows "0 \<le> py_round 2 (mean (map ds_raw (preference_components b ds)) * 100)
     \<and> py_round 2 (mean (map ds_raw (preference_components b ds)) * 100) \<le> 100"
proof -
  have "0 \<le> mean (map ds_raw (preference_components b ds)) \<and> mean (map ds_raw (preference_components b ds)) \<le> 1"
    using assms by (intro mean_between) (auto simp: preference_components_def)
  then show ?thesis by (intro py_round_between) auto
qed

text \<open>The scores of an evaluation are in range, and an ineligible posting scores at most 40, or nothing.\<close>

definition scores_in_range :: "match_policy \<Rightarrow> evaluation \<Rightarrow> bool" where
  "scores_in_range pol ev \<longleftrightarrow>
     0 \<le> ev_fit ev \<and> ev_fit ev \<le> (if ev_decision ev \<noteq> INELIGIBLE then 100 else if sp_auto_rejection pol then 0 else 40)
     \<and> (case ev_preference ev of None \<Rightarrow> True | Some p \<Rightarrow> 0 \<le> p \<and> p \<le> 100)"

lemma capped_in_range:
  "0 \<le> x \<Longrightarrow> x \<le> 100 \<Longrightarrow> 0 \<le> py_round 2 (capped pol q x)
     \<and> py_round 2 (capped pol q x) \<le> (if q \<noteq> INELIGIBLE then 100 else if sp_auto_rejection pol then 0 else 40)"
  using py_round_ge [of 0 "capped pol q x" 2] py_round_le [of "capped pol q x" 100 2] py_round_le [of "capped pol q x" 40 2]
    py_round_le [of "capped pol q x" 0 2]
  by (auto simp: capped_def)

text \<open>C35: whatever the dimensions of the track, an evaluation that is returned keeps its scores in range.
\<close>

theorem evaluation_in_range:
  assumes "evaluate_with fs pol opp g qual factors at_time scored = Inr ev"
  shows "scores_in_range pol ev"
proof -
  have "\<forall>d\<in>set (fst scored @ preferences fs opp g). 0 \<le> ds_raw d \<and> ds_raw d \<le> 1"
    using assms preference_raw [OF preferences_like] by (auto simp: evaluate_with_Inr)
  then show ?thesis
    using assms capped_in_range [OF conjunct1 conjunct2, OF fit_between fit_between] preference_score_between
    by (auto simp: scores_in_range_def evaluate_with_Inr assemble_def Let_def)
qed

section \<open>Tenders\<close>

definition tender_weights :: "match_policy \<Rightarrow> real list" where
  "tender_weights pol =
     [weight_of pol ''services'' (35/100), weight_of pol ''scope'' (20/100), weight_of pol ''portfolio'' (20/100),
      weight_of pol ''budget'' (10/100), weight_of pol ''delivery'' (10/100), weight_of pol ''evidence_sufficiency'' (5/100)]"

lemma dimension_fields [simp]:
  "ds_name (dimension n w why f refs flds) = n" "ds_weight (dimension n w why f refs flds) = w"
  "ds_raw (dimension n w why f refs flds) = fst f" "ds_weighted (dimension n w why f refs flds) = fst f * w"
  by (simp_all add: dimension_def split: prod.split)

lemma team_raw: "team_finding ts n = (f, r) \<Longrightarrow> fst f \<in> {15/100, 50/100, 85/100}"
  by (auto simp: team_finding_def Let_def split: list.splits if_splits)

lemma turnover_raw: "turnover_finding fs ts n = (f, r) \<Longrightarrow> fst f \<in> {15/100, 50/100, 85/100}"
  by (auto simp: turnover_finding_def Let_def split: list.splits if_splits)

text \<open>The six dimensions of a tender: names, weights in the order of the policy, and scores between 0 and 1.\<close>

lemma services_score:
  "\<exists>d. fst (services_dimension fs pol opp g) = d \<and> ds_name d = ''service_capabilities'' \<and> ds_weight d = weight_of pol ''services'' (35/100)
     \<and> ds_weighted d = ds_raw d * ds_weight d \<and> 0 \<le> ds_raw d \<and> ds_raw d \<le> 1 \<and> (founder_services fs g = [] \<longrightarrow> ds_raw d = 0)"
  by (simp add: services_dimension_def Let_def)

lemma scope_score:
  "\<exists>d. fst (scope_dimension fs pol opp g) = d \<and> ds_name d = ''scope_complexity'' \<and> ds_weight d = weight_of pol ''scope'' (20/100)
     \<and> ds_weighted d = ds_raw d * ds_weight d \<and> 0 \<le> ds_raw d \<and> ds_raw d \<le> 85/100"
  by (auto simp: scope_dimension_def split: option.splits prod.splits dest: team_raw turnover_raw)

lemma portfolio_score:
  "\<exists>d. fst (portfolio_dimension pol g) = d \<and> ds_name d = ''portfolio_evidence'' \<and> ds_weight d = weight_of pol ''portfolio'' (20/100)
     \<and> ds_weighted d = ds_raw d * ds_weight d \<and> 0 \<le> ds_raw d \<and> ds_raw d \<le> 90/100"
  by (simp add: portfolio_dimension_def Let_def)

lemma budget_score:
  "ds_name (budget_dimension fs pol opp) = ''budget_fit'' \<and> ds_weight (budget_dimension fs pol opp) = weight_of pol ''budget'' (10/100)
     \<and> 0 \<le> ds_raw (budget_dimension fs pol opp) \<and> ds_raw (budget_dimension fs pol opp) \<le> 1"
  by (simp add: budget_dimension_def budget_finding_def Let_def split: option.split)

lemma delivery_score:
  "ds_name (delivery_dimension pol opp) = ''delivery_jurisdiction'' \<and> ds_weight (delivery_dimension pol opp) = weight_of pol ''delivery'' (10/100)
     \<and> 0 \<le> ds_raw (delivery_dimension pol opp) \<and> ds_raw (delivery_dimension pol opp) \<le> 1"
  by (simp add: delivery_dimension_def delivery_finding_def Let_def)

lemma evidence_score:
  "ds_name (evidence_dimension pol g) = ''evidence_sufficiency'' \<and> ds_weight (evidence_dimension pol g) = weight_of pol ''evidence_sufficiency'' (5/100)
     \<and> 0 \<le> ds_raw (evidence_dimension pol g) \<and> ds_raw (evidence_dimension pol g) \<le> 1"
  by (simp add: evidence_dimension_def evidence_finding_def)

lemma tender_dimensions:
  "fst (score_independent fs pol opp g) =
     [fst (services_dimension fs pol opp g), fst (scope_dimension fs pol opp g), fst (portfolio_dimension pol g),
      budget_dimension fs pol opp, delivery_dimension pol opp, evidence_dimension pol g]"
  by (simp add: score_independent_def split: prod.split)

lemma tender_valid:
  "(\<forall>d\<in>set (fst (score_independent fs pol opp g)). 0 \<le> ds_raw d \<and> ds_raw d \<le> 1 \<and> 0 \<le> ds_weight d \<and> ds_weight d \<le> 1)
     \<longleftrightarrow> (\<forall>w\<in>set (tender_weights pol). 0 \<le> w \<and> w \<le> 1)"
  using services_score [of fs pol opp g] scope_score [of fs pol opp g] portfolio_score [of pol g] budget_score [of fs pol opp]
    delivery_score [of pol opp] evidence_score [of pol g]
  by (auto simp: tender_dimensions tender_weights_def)

text \<open>C36: a tender is scored exactly when its weights are weights: for a posting whose pointers are
  addressable no exception is possible but that of a weight outside the unit interval.
\<close>

theorem tenders_are_scored:
  assumes "traceable (posting.truncate opp)"
  shows "(\<exists>ev. evaluate_tender fs pol opp g factors at_time = Inr ev) = list_all (\<lambda>w. 0 \<le> w \<and> w \<le> 1) (tender_weights pol)"
  using evaluate_total [OF assms, of fs "scoring_policy.truncate pol" "graph_facts fs g"]
  by (auto simp: evaluate_tender_def evaluate_with_Inr tender_valid list_all_iff)

lemma weighted_mean:
  assumes w: "\<forall>d\<in>set ds. ds_weighted d = ds_raw d * ds_weight d"
    and b: "\<forall>d\<in>set (active_capability t ds). lo \<le> ds_raw d \<and> ds_raw d \<le> hi" and a: "active_capability t ds \<noteq> []"
  shows "lo \<le> capability_fit t ds \<and> capability_fit t ds \<le> hi"
proof -
  let ?as = "active_capability t ds"
  have pos: "ds_weight d > 0 \<and> ds_weighted d = ds_raw d * ds_weight d" if "d \<in> set ?as" for d
    using that w by (auto simp: active_capability_def)
  have "lo * ds_weight d \<le> ds_weighted d \<and> ds_weighted d \<le> hi * ds_weight d" if "d \<in> set ?as" for d
    using pos [OF that] b that by (simp add: mult_right_mono)
  then have sums: "lo * sum_list (map ds_weight ?as) \<le> sum_list (map ds_weighted ?as)
      \<and> sum_list (map ds_weighted ?as) \<le> hi * sum_list (map ds_weight ?as)" by (rule sum_list_bounds)
  obtain d as where das: "?as = d # as" using a by (cases ?as) auto
  have "0 \<le> sum_list (map ds_weight as)" using pos unfolding das by (intro sum_list_nonneg) (auto intro: less_imp_le)
  then have "0 < sum_list (map ds_weight ?as)" using pos [of d] unfolding das by simp
  then show ?thesis using sums by (simp add: capability_fit_def Let_def pos_le_divide_eq pos_divide_le_eq)
qed

text \<open>the fit is a weighted mean: for dimensions that weigh their own scores it lies between the
  lowest and the highest score of the capability dimensions that weigh anything.
\<close>

theorem fit_is_weighted_mean:
  assumes "\<forall>d\<in>set ds. ds_weighted d = ds_raw d * ds_weight d" "active_capability t ds \<noteq> []"
    and "\<forall>d\<in>set (active_capability t ds). lo \<le> ds_raw d \<and> ds_raw d \<le> hi" "0 \<le> lo" "hi \<le> 1"
  shows "100 * lo \<le> fit_score t ds \<and> fit_score t ds \<le> 100 * hi"
  using weighted_mean [OF assms(1,3,2)] assms(4,5) by (auto simp: fit_score_def)

definition two_scores :: "dimension_score list" where
  "two_scores = [dimension ''core_skills'' (1/2) [] (strong (1/4) []) [] [], dimension ''domain_fit'' (1/4) [] (strong 1 []) [] [],
     dimension ''compensation_fit'' 1 [] (lacking 0 []) [] []]"

theorem fit_is_weighted_mean_witness: "25 \<le> fit_score EMPLOYMENT two_scores \<and> fit_score EMPLOYMENT two_scores \<le> 100"
  using fit_is_weighted_mean [of two_scores EMPLOYMENT "1/4" 1]
  by (simp add: two_scores_def active_capability_def capability_dimensions_def)

text \<open>The evaluation of a tender by the usual policy, with a fixed outcome of qualification.\<close>

abbreviation demo_evaluation :: "QualificationDecision \<Rightarrow> evaluation result" where
  "demo_evaluation q \<equiv> evaluate_with no_print usual_policy (scored_tender ''Data audit'') demo_graph (q, []) (\<lambda>_. []) ''2026-08-30''
     (score_independent no_print usual_policy (scored_tender ''Data audit'') demo_graph)"

lemma usual_weights: "\<forall>w\<in>set (tender_weights usual_policy). 0 \<le> w \<and> w \<le> 1"
  by (simp add: tender_weights_def weight_of_def usual_policy_def)

lemma demo_evaluated: "\<exists>ev. demo_evaluation q = Inr ev \<and> ev_decision ev = q"
  by (simp add: evaluate_with_Inr tender_valid usual_weights assemble_def Let_def)


theorem evaluation_in_range_witness:
  "\<exists>ev. demo_evaluation INELIGIBLE = Inr ev \<and> scores_in_range usual_policy ev \<and> ev_fit ev \<le> 40"
proof -
  obtain ev where ev: "demo_evaluation INELIGIBLE = Inr ev" "ev_decision ev = INELIGIBLE" using demo_evaluated by blast
  have "scores_in_range usual_policy ev" using evaluation_in_range [OF ev(1)] .
  then show ?thesis using ev by (auto simp: scores_in_range_def usual_policy_def)
qed

theorem tenders_are_scored_witness:
  "\<exists>ev. evaluate_tender no_print usual_policy (scored_tender ''Data audit'') demo_graph (\<lambda>_. []) ''2026-08-30'' = Inr ev"
  using tenders_are_scored [OF scored_tender_traceable, of no_print usual_policy "''Data audit''" demo_graph] usual_weights
  by (simp add: list_all_iff)

section \<open>Where scoring departs from its notes\<close>

text \<open>
  Beside the fit the code says that unknown evidence is no assumed capability shortfall. Services
  that the graph does not assert are an unknown, and they score zero: by the usual weights such a
  tender never reaches 47 of 100, whatever else is known.
\<close>

theorem unasserted_services_lower_the_fit:
  assumes "founder_services fs g = []" "sp_weights pol = []"
  shows "fit_score PROCUREMENT (fst (score_independent fs pol opp g)) < 47"
proof -
  let ?a = "fst (services_dimension fs pol opp g)" and ?b = "fst (scope_dimension fs pol opp g)" and ?c = "fst (portfolio_dimension pol g)"
  have "\<forall>k x. weight_of pol k x = x" by (simp add: weight_of_def assms(2))
  then have a: "ds_name ?a = ''service_capabilities''" "ds_weight ?a = 35/100" "ds_weighted ?a = 0"
    and b: "ds_name ?b = ''scope_complexity''" "ds_weight ?b = 20/100" "ds_weighted ?b = ds_raw ?b * (20/100)" "ds_raw ?b \<le> 85/100"
    and c: "ds_name ?c = ''portfolio_evidence''" "ds_weight ?c = 20/100" "ds_weighted ?c = ds_raw ?c * (20/100)" "ds_raw ?c \<le> 90/100"
    using services_score [of fs pol opp g] scope_score [of fs pol opp g] portfolio_score [of pol g] assms(1) by simp_all
  have "capability_fit PROCUREMENT (fst (score_independent fs pol opp g)) = (ds_raw ?b * (20/100) + ds_raw ?c * (20/100)) / (75/100)"
    using budget_score [of fs pol opp] delivery_score [of pol opp] evidence_score [of pol g]
    by (simp add: capability_fit_def active_capability_def capability_dimensions_def tender_dimensions a b c)
  then show ?thesis using b(4) c(4) by (simp add: fit_score_def min_less_iff_disj)
qed

theorem unasserted_services_lower_the_fit_witness:
  "fit_score PROCUREMENT (fst (score_independent no_print usual_policy (scored_tender ''Data audit'') demo_graph)) < 47"
proof (rule unasserted_services_lower_the_fit)
  show "founder_services no_print demo_graph = []" by code_simp
qed (simp add: usual_policy_def)

text \<open>The team size is read off a year before \<open>staffing\<close>, or a phase before \<open>engineering\<close>.\<close>

theorem team_size_from_a_year:
  "map (\<lambda>t. team_required (scored_tender t)) [''2026 staffing'', ''2 engineering studies'', ''team of 4'']
     = [Some 2026, Some 2, None]"
  by code_simp

end
