(* ===== verification/Skills.thy ===== *)
theory Skills
  imports Truth_Models Grouping Py_Regex
begin

text \<open>
  \<open>matching/requirements.py\<close> and \<open>matching/skills.py\<close>: the priority a posting gives to a text, the verified
  skills of the founder with their proficiency, the priority of each skill a posting mentions, and
  the comparison of both with its written reason. The header rules of the YAML file are an argument;
  text is ASCII, so that normal forms of Unicode leave it alone.
\<close>

section \<open>Priorities\<close>

datatype RequirementPriority = MANDATORY | STRONGLY_PREFERRED | NICE_TO_HAVE | CONTEXTUAL | PRIORITY_UNKNOWN

text \<open>Words with white space between them, and any of several such phrases between word boundaries.\<close>

fun spaced_phrase :: "string list \<Rightarrow> re" where
  "spaced_phrase [] = Eps"
| "spaced_phrase [w] = liti w"
| "spaced_phrase (w # v # ws) = Cat (liti w) (Cat spaces1 (spaced_phrase (v # ws)))"

definition bounded :: "re list \<Rightarrow> re" where
  "bounded es = cats [Edge, any_of es, Edge]"

definition dashes1 :: re where
  "dashes1 = plus_of (Ch (\<lambda>c. c = CHR ''-'' \<or> py_isspace c))"

definition strongly_preferred_re :: re where
  "strongly_preferred_re = bounded [cats [any_of (map liti [''strongly'', ''highly'', ''particularly'']), spaces1, liti ''preferred'']]"

definition nice_to_have_re :: re where
  "nice_to_have_re =
     bounded [cats [liti ''nice'', dashes1, liti ''to'', dashes1, liti ''have''], spaced_phrase [''good'', ''to'', ''have''],
       cats [liti ''bonus'', opt_of (cats [spaces1, liti ''point'', opt_of (liti ''s'')])], liti ''preferred'']"

definition not_mandatory_re :: re where
  "not_mandatory_re =
     bounded [spaced_phrase [''not'', ''required''], spaced_phrase [''not'', ''necessary''], spaced_phrase [''not'', ''mandatory''], liti ''optional'']"

definition direct_mandatory_re :: re where
  "direct_mandatory_re =
     Or (bounded [cats [liti ''must'', dashes1, liti ''have''],
          cats [liti ''must'', spaces1, any_of (map liti [''be'', ''have'', ''possess'', ''speak'', ''hold'', ''demonstrate''])],
          spaced_phrase [''candidate'', ''must''],
          cats [liti ''you'', spaces1, any_of [liti ''must'', spaced_phrase [''need'', ''to'']]],
          cats [liti ''required'', spaces1, any_of (map liti [''skill'', ''qualification'', ''experience'', ''certification'', ''language''])],
          cats [liti ''minimum'', spaces1, any_of (map liti [''qualification'', ''requirement'', ''experience''])],
          spaced_phrase [''experience'', ''required'']])
        (cats [Edge, liti ''required'', spaces, liti '':''])"

definition generic_required_re :: re where
  "generic_required_re = bounded [liti ''required'']"

definition company_context_re :: re where
  "company_context_re =
     bounded [cats [liti ''our'', spaces1, any_of [liti ''company'', liti ''product'', liti ''platform'', liti ''business'', liti ''technology'',
          spaced_phrase [''tech'', ''stack''], spaced_phrase [''engineering'', ''team'']]],
        cats [liti ''we'', spaces1, any_of [liti ''use'', liti ''build'', liti ''develop'', liti ''maintain'', liti ''operate'', spaced_phrase [''work'', ''with'']]],
        spaced_phrase [''built'', ''with''], spaced_phrase [''powered'', ''by''], spaced_phrase [''technology'', ''stack'']]"

definition finds :: "re \<Rightarrow> string \<Rightarrow> bool" where
  "finds e s \<longleftrightarrow> re_search e s \<noteq> None"

datatype source_section = NoSection | Named string | Stated RequirementPriority

definition section_priority :: "string \<Rightarrow> RequirementPriority option" where
  "section_priority s =
     (let k = py_replace (CHR ''-'') (CHR ''_'') (py_lower (py_strip s)) in
      if k \<in> {''requirement'', ''requirements'', ''required'', ''mandatory'', ''minimum_qualifications''} then Some MANDATORY
      else if k \<in> {''strongly_preferred'', ''highly_preferred''} then Some STRONGLY_PREFERRED
      else if k \<in> {''preferred'', ''nice_to_have'', ''bonus''} then Some NICE_TO_HAVE
      else if k \<in> {''responsibility'', ''responsibilities'', ''about'', ''company'', ''contextual''} then Some CONTEXTUAL
      else None)"

definition opening_priority :: "string \<Rightarrow> RequirementPriority" where
  "opening_priority lower =
     (if list_ex (\<lambda>p. prefix p lower) [''must have'', ''must be'', ''required:'', ''required ''] then MANDATORY else PRIORITY_UNKNOWN)"

definition classify_requirement_text :: "string \<Rightarrow> source_section \<Rightarrow> RequirementPriority" where
  "classify_requirement_text t sec =
     (let v = py_join '' '' (py_words t); named = (\<lambda>s. case section_priority s of Some p \<Rightarrow> p | None \<Rightarrow> opening_priority (py_lower v)) in
      if py_strip t = [] then PRIORITY_UNKNOWN
      else if finds not_mandatory_re v then NICE_TO_HAVE
      else if finds strongly_preferred_re v then STRONGLY_PREFERRED
      else if finds nice_to_have_re v then NICE_TO_HAVE
      else if finds direct_mandatory_re v then MANDATORY
      else if finds company_context_re v then CONTEXTUAL
      else if finds generic_required_re v then MANDATORY
      else (case sec of Stated p \<Rightarrow> p | Named s \<Rightarrow> named s | NoSection \<Rightarrow> named []))"

section \<open>Proficiency\<close>

definition PROFICIENCY_TIERS :: "string list" where
  "PROFICIENCY_TIERS = [''basic'', ''foundations'', ''working'', ''advanced'', ''expert'']"

definition tier_rank :: "string \<Rightarrow> nat" where
  "tier_rank t = length (takeWhile (\<lambda>x. x \<noteq> t) PROFICIENCY_TIERS)"

text \<open>The text of a value, where \<open>isinstance(value, str)\<close>.\<close>

fun value_text :: "truth_value \<Rightarrow> string option" where
  "value_text (VText t) = Some t"
| "value_text _ = None"

definition normalize_proficiency :: "string option \<Rightarrow> string option" where
  "normalize_proficiency raw =
     (case raw of None \<Rightarrow> None
      | Some t \<Rightarrow> (let c = py_lower (py_strip t) in if c \<in> set PROFICIENCY_TIERS then Some c else None))"

definition is_partial_proficiency :: "string option \<Rightarrow> bool" where
  "is_partial_proficiency raw =
     (case normalize_proficiency raw of None \<Rightarrow> True | Some t \<Rightarrow> tier_rank t < tier_rank ''working'')"

definition meets_strength_floor :: "string option \<Rightarrow> bool" where
  "meets_strength_floor raw \<longleftrightarrow> \<not> is_partial_proficiency raw"

definition normalize_skill_label :: "string \<Rightarrow> string" where
  "normalize_skill_label t = py_lower (py_join '' '' (py_words t))"

section \<open>The verified skills of the founder\<close>

definition proven :: "assertion \<Rightarrow> bool" where
  "proven a \<longleftrightarrow> as_status a = VERIFIED \<and> as_polarity a = POSITIVE"

definition skill_label :: "assertion \<Rightarrow> string" where
  "skill_label a = (case value_text (as_value a) of None \<Rightarrow> [] | Some t \<Rightarrow> normalize_skill_label t)"

text \<open>The assertions that name a skill, and the tiers asserted of a subject, in the order of the graph.\<close>

definition name_rows :: "assertion list \<Rightarrow> assertion list" where
  "name_rows as = filter (\<lambda>a. proven a \<and> as_predicate a = ''skill.name'' \<and> skill_label a \<noteq> []) as"

definition tiers_of :: "assertion list \<Rightarrow> string \<Rightarrow> (string option \<times> string list) list" where
  "tiers_of as s =
     map (\<lambda>a. (normalize_proficiency (value_text (as_value a)), as_evidence a))
       (filter (\<lambda>a. proven a \<and> as_predicate a = ''skill.proficiency'' \<and> as_subject a = s) as)"

definition observed_tiers :: "assertion list \<Rightarrow> string \<Rightarrow> (string option \<times> string list) list" where
  "observed_tiers as k = concat (map (tiers_of as) (firsts (map as_subject (filter (\<lambda>a. skill_label a = k) (name_rows as)))))"

definition skill_entry :: "assertion list \<Rightarrow> string \<Rightarrow> string option \<times> string list" where
  "skill_entry as k =
     (let refs = concat (map as_evidence (filter (\<lambda>a. skill_label a = k) (name_rows as))); seen = observed_tiers as k in
      case remdups (map fst seen) of
        [Some t] \<Rightarrow> (Some t, firsts (refs @ concat (map snd seen)))
      | _ \<Rightarrow> (None, firsts refs))"

definition build_verified_skill_index :: "assertion list \<Rightarrow> (string \<times> string option \<times> string list) list" where
  "build_verified_skill_index as = map (\<lambda>k. (k, skill_entry as k)) (firsts (map skill_label (name_rows as)))"

section \<open>The priority of a skill\<close>

record header_rules =
  hr_required :: "re list"
  hr_nice :: "re list"
  hr_strong :: "re list"
  hr_context :: "re list"

text \<open>\<open>re.sub\<close> of a pattern that matches no empty text.\<close>

fun rebuild :: "nat \<Rightarrow> string \<Rightarrow> (nat \<times> string \<times> string) list \<Rightarrow> string \<Rightarrow> string" where
  "rebuild n rep [] s = drop n s"
| "rebuild n rep ((i, m, _) # ms) s = take (i - n) (drop n s) @ rep @ rebuild (i + length m) rep ms s"

definition re_sub :: "re \<Rightarrow> string \<Rightarrow> string \<Rightarrow> string" where
  "re_sub e rep s = rebuild 0 rep (re_finditer_at e s) s"

definition block_break_re :: re where
  "block_break_re =
     Or (cats [lit ''</'', any_of [liti ''li'', liti ''p'', Cat (liti ''h'') (Ch (\<lambda>c. c \<in> {CHR ''1'', CHR ''2'', CHR ''3'', CHR ''4'', CHR ''5'', CHR ''6''})),
           liti ''div'', liti ''br''], spaces, lit ''>''])
        (cats [lit ''<'', liti ''br'', spaces, opt_of (lit ''/''), lit ''>''])"

definition tag_re :: re where
  "tag_re = cats [lit ''<'', plus_of (Ch (\<lambda>c. c \<noteq> CHR ''>'')), lit ''>'']"

text \<open>
  \<open>splitlines\<close>, but for an empty line between the two characters of a line break of two; lines
  without words are skipped by every caller.
\<close>

definition ends_line :: "char \<Rightarrow> bool" where
  "ends_line c \<longleftrightarrow> c \<in> {CHR 0x0A, CHR 0x0B, CHR 0x0C, CHR 0x0D, CHR 0x1C, CHR 0x1D, CHR 0x1E}"

definition text_lines :: "string \<Rightarrow> string list" where
  "text_lines s = py_split (CHR 0x0A) (map (\<lambda>c. if ends_line c then CHR 0x0A else c) s)"

definition description_to_lines :: "string \<Rightarrow> string list" where
  "description_to_lines t = text_lines (re_sub tag_re [] (re_sub block_break_re [CHR 0x0A] t))"

definition header_of :: "header_rules \<Rightarrow> string \<Rightarrow> RequirementPriority option" where
  "header_of hr probe =
     (let hit = list_ex (\<lambda>e. finds e probe) in
      if hit (hr_strong hr) then Some STRONGLY_PREFERRED
      else if hit (hr_required hr) then Some MANDATORY
      else if hit (hr_nice hr) then Some NICE_TO_HAVE
      else if hit (hr_context hr) then Some CONTEXTUAL
      else None)"

definition line_header :: "header_rules \<Rightarrow> string \<Rightarrow> RequirementPriority option" where
  "line_header hr raw =
     header_of hr (normalize_skill_label (if CHR '':'' \<in> set raw then takeWhile (\<lambda>c. c \<noteq> CHR '':'') raw else raw))"

definition rest_of_header :: "string \<Rightarrow> string" where
  "rest_of_header raw = (if CHR '':'' \<in> set raw then normalize_skill_label (tl (dropWhile (\<lambda>c. c \<noteq> CHR '':'') raw)) else [])"

fun priority_rank :: "RequirementPriority \<Rightarrow> nat" where
  "priority_rank PRIORITY_UNKNOWN = 0"
| "priority_rank CONTEXTUAL = 1"
| "priority_rank NICE_TO_HAVE = 2"
| "priority_rank STRONGLY_PREFERRED = 3"
| "priority_rank MANDATORY = 4"

definition joins_word :: "char \<Rightarrow> bool" where
  "joins_word c \<longleftrightarrow> py_isword c \<or> c = CHR ''-''"

definition mentions :: "string \<Rightarrow> string \<Rightarrow> bool" where
  "mentions skill line = finds (cats [NotBehind joins_word, liti skill, NotAhead (Ch joins_word)]) line"

definition raise_to :: "RequirementPriority \<Rightarrow> string \<Rightarrow> string \<times> RequirementPriority \<Rightarrow> string \<times> RequirementPriority" where
  "raise_to p line e =
     (case e of (s, q) \<Rightarrow> if mentions s line \<and> priority_rank p > priority_rank q then (s, p) else (s, q))"

text \<open>One line: the section it leaves open and the priorities of the skills.\<close>

definition line_step ::
  "header_rules \<Rightarrow> string \<Rightarrow> RequirementPriority \<times> (string \<times> RequirementPriority) list
     \<Rightarrow> RequirementPriority \<times> (string \<times> RequirementPriority) list" where
  "line_step hr raw st =
     (let h = line_header hr raw; now = (case h of None \<Rightarrow> fst st | Some p \<Rightarrow> p);
          line = (case h of None \<Rightarrow> normalize_skill_label raw | Some _ \<Rightarrow> rest_of_header raw);
          c = classify_requirement_text raw NoSection; p = (if c = PRIORITY_UNKNOWN then now else c) in
      if normalize_skill_label raw = [] then st
      else if line = [] then (now, snd st)
      else (now, map (raise_to p line) (snd st)))"

definition skill_pool :: "string list \<Rightarrow> string list" where
  "skill_pool skills = firsts (filter (\<lambda>s. s \<noteq> []) (map normalize_skill_label skills))"

definition classify_skill_priorities :: "header_rules \<Rightarrow> string \<Rightarrow> string list \<Rightarrow> (string \<times> RequirementPriority) list" where
  "classify_skill_priorities hr t skills =
     snd (fold (line_step hr) (description_to_lines t) (PRIORITY_UNKNOWN, map (\<lambda>s. (s, PRIORITY_UNKNOWN)) (skill_pool skills)))"

text \<open>The older split in two sets: whether the required section is open, and the skills seen there.\<close>

definition split_step :: "header_rules \<Rightarrow> string list \<Rightarrow> string \<Rightarrow> bool \<times> string list \<Rightarrow> bool \<times> string list" where
  "split_step hr pool raw st =
     (let line = normalize_skill_label raw; hit = list_ex (\<lambda>e. finds e line) in
      if line = [] then st
      else if hit (hr_required hr) then (True, snd st)
      else if hit (hr_nice hr) then (False, snd st)
      else if fst st then (True, snd st @ filter (\<lambda>s. mentions s line \<and> s \<notin> set (snd st)) pool)
      else st)"

definition split_required_and_nice_to_have :: "header_rules \<Rightarrow> string \<Rightarrow> string list \<Rightarrow> string list \<times> string list" where
  "split_required_and_nice_to_have hr t skills =
     (let pool = skill_pool skills; req = snd (fold (split_step hr pool) (description_to_lines t) (False, [])) in
      (req, filter (\<lambda>s. s \<notin> set req) pool))"

section \<open>The comparison\<close>

record skill_match =
  sm_name :: string
  sm_required :: bool
  sm_found :: bool
  sm_proficiency :: "string option"
  sm_count :: nat
  sm_refs :: "string list"
  sm_priority :: RequirementPriority

definition is_strength :: "skill_match \<Rightarrow> bool" where
  "is_strength m \<longleftrightarrow> sm_required m \<and> sm_found m \<and> meets_strength_floor (sm_proficiency m)"

definition is_gap :: "skill_match \<Rightarrow> bool" where
  "is_gap m \<longleftrightarrow> \<not> sm_found m"

definition is_partial :: "skill_match \<Rightarrow> bool" where
  "is_partial m \<longleftrightarrow> sm_found m \<and> \<not> is_strength m"

definition skill_priority :: "string list \<Rightarrow> (string \<times> RequirementPriority) list option \<Rightarrow> string \<Rightarrow> RequirementPriority" where
  "skill_priority req prios n =
     (let usual = (if n \<in> set req then MANDATORY else NICE_TO_HAVE) in
      case prios of None \<Rightarrow> usual | Some ps \<Rightarrow> (case map_of ps n of Some p \<Rightarrow> p | None \<Rightarrow> usual))"

definition match_of ::
  "string list \<Rightarrow> (string \<times> string option \<times> string list) list \<Rightarrow> (string \<times> RequirementPriority) list option \<Rightarrow> string \<Rightarrow> skill_match" where
  "match_of req index prios n =
     (let p = skill_priority req prios n; b = (p = MANDATORY) in
      case map_of index n of
        None \<Rightarrow> \<lparr>sm_name = n, sm_required = b, sm_found = False, sm_proficiency = None, sm_count = 0, sm_refs = [], sm_priority = p\<rparr>
      | Some (tier, refs) \<Rightarrow>
          \<lparr>sm_name = n, sm_required = b, sm_found = True, sm_proficiency = tier, sm_count = length refs, sm_refs = refs, sm_priority = p\<rparr>)"

fun match_skills :: "(string \<Rightarrow> skill_match) \<Rightarrow> string list \<Rightarrow> string list \<Rightarrow> skill_match list" where
  "match_skills f seen [] = []"
| "match_skills f seen (raw # raws) =
     (let n = normalize_skill_label raw in
      if n = [] \<or> n \<in> set seen then match_skills f seen raws else f n # match_skills f (n # seen) raws)"

definition evaluate_skill_matches ::
  "string list \<Rightarrow> string list \<Rightarrow> (string \<times> string option \<times> string list) list \<Rightarrow> (string \<times> RequirementPriority) list option
     \<Rightarrow> skill_match list" where
  "evaluate_skill_matches skills req index prios = match_skills (match_of req index prios) [] skills"

section \<open>The written reason\<close>

definition records_phrase :: "nat \<Rightarrow> string" where
  "records_phrase n = nat_str n @ '' record'' @ (if n = 1 then [] else ''s'')"

definition evidence_phrase :: "skill_match \<Rightarrow> string" where
  "evidence_phrase m =
     (let t = (case sm_proficiency m of None \<Rightarrow> [] | Some t \<Rightarrow> t) in
      if t = ''expert'' then ''expert-evidence: '' @ records_phrase (sm_count m)
      else py_or t ''unknown-proficiency'' @ '', '' @ records_phrase (sm_count m))"

definition titles :: "skill_match list \<Rightarrow> string" where
  "titles ms = py_join '', '' (map (\<lambda>m. py_title (sm_name m)) ms)"

definition held :: "skill_match list \<Rightarrow> string" where
  "held ms = py_join ''; '' (map (\<lambda>m. py_title (sm_name m) @ '' ('' @ evidence_phrase m @ '')'') ms)"

definition missing_clause :: "skill_match list \<Rightarrow> string" where
  "missing_clause ms = (if ms = [] then [] else ''; '' @ titles ms @ '' not in your pack'')"

definition required_clause :: "skill_match list \<Rightarrow> string list" where
  "required_clause ms =
     (if ms = [] then []
      else [''Required: '' @ titles ms @ '' -> you have '' @ py_or (held (filter sm_found ms)) ''none''
              @ missing_clause (filter (\<lambda>m. \<not> sm_found m) ms) @ ''.''])"

definition strong_clause :: "skill_match list \<Rightarrow> string list" where
  "strong_clause ms =
     (if ms = [] then []
      else [''Strongly preferred: '' @ titles ms
              @ (if filter sm_found ms = [] then [] else '' -> you have '' @ held (filter sm_found ms))
              @ missing_clause (filter (\<lambda>m. \<not> sm_found m) ms) @ ''.''])"

definition nice_clause :: "skill_match list \<Rightarrow> string list" where
  "nice_clause ms =
     (let have_it = filter sm_found ms; lack = filter (\<lambda>m. \<not> sm_found m) ms;
          bits = (if have_it = [] then [] else [''you have '' @ held have_it]) @ (if lack = [] then [] else [titles lack @ '' not in your pack'']) in
      if bits = [] then [] else [''Nice-to-have: '' @ py_join ''; '' bits @ ''.''])"

definition render_reason :: "skill_match list \<Rightarrow> string" where
  "render_reason ms =
     (let having = (\<lambda>p. filter (\<lambda>m. sm_priority m = p) ms);
          parts = required_clause (having MANDATORY) @ strong_clause (having STRONGLY_PREFERRED) @ nice_clause (having NICE_TO_HAVE) in
      if parts = [] then ''No explicit skills specified in posting.'' else py_join '' '' parts)"

end
