(* ===== verification/Skills_Properties.thy ===== *)
theory Skills_Properties
  imports Skills
begin

text \<open>
  What the comparison of skills promises: it is never optimistic about the founder, it treats each
  skill once, and a skill counts as its strongest cue in the posting. Then a text that shows where
  the strongest cue is lost.
\<close>

section \<open>Dictionaries by first occurrence\<close>

lemma firsts_Cons: "firsts (x # xs) = x # filter (\<lambda>y. y \<noteq> x) (firsts xs)"
proof (induction xs rule: rev_induct)
  case Nil
  show ?case by (simp add: firsts_def)
next
  case (snoc y ys)
  have "firsts (x # ys @ [y]) = (if y \<in> set (x # ys) then firsts (x # ys) else firsts (x # ys) @ [y])"
    using firsts_snoc [of "x # ys" y] by simp
  then show ?case by (auto simp: snoc firsts_snoc)
qed

lemma map_of_entries: "map_of (map (\<lambda>k. (k, f k)) ks) n = (if n \<in> set ks then Some (f n) else None)"
  by (induction ks) auto

section \<open>The index of verified skills\<close>

text \<open>The tiers that verified assertions give to the subjects that bear a name.\<close>

definition proficiencies :: "assertion list \<Rightarrow> string \<Rightarrow> string option set" where
  "proficiencies as n =
     {normalize_proficiency (value_text (as_value b)) | a b. a \<in> set (name_rows as) \<and> skill_label a = n \<and> b \<in> set as \<and> proven b
        \<and> as_predicate b = ''skill.proficiency'' \<and> as_subject b = as_subject a}"

lemma observed_proficiencies: "fst ` set (observed_tiers as n) = proficiencies as n"
  by (auto simp: observed_tiers_def proficiencies_def tiers_of_def image_iff) blast+

lemma remdups_single: "remdups xs = [x] \<longleftrightarrow> set xs = {x}"
proof
  assume "set xs = {x}"
  then have "set (remdups xs) = {x}" "length (remdups xs) = 1" by (simp_all add: length_remdups_card_conv)
  then show "remdups xs = [x]" by (cases "remdups xs") auto
next
  assume "remdups xs = [x]"
  then show "set xs = {x}" by (metis set_remdups list.simps(15) empty_set)
qed

lemma entry_tier: "fst (skill_entry as n) = Some t \<longleftrightarrow> proficiencies as n = {Some t}"
proof -
  have "fst (skill_entry as n) = Some t \<longleftrightarrow> remdups (map fst (observed_tiers as n)) = [Some t]"
    by (auto simp: skill_entry_def Let_def split: list.split option.split)
  also have "\<dots> \<longleftrightarrow> proficiencies as n = {Some t}"
    by (simp add: remdups_single observed_proficiencies)
  finally show ?thesis .
qed

lemma index_entry:
  "map_of (build_verified_skill_index as) n =
     (if \<exists>a\<in>set (name_rows as). skill_label a = n then Some (skill_entry as n) else None)"
  by (auto simp: build_verified_skill_index_def map_of_entries)

lemma normal_tier: "normalize_proficiency raw = Some t \<Longrightarrow> t \<in> set PROFICIENCY_TIERS"
  by (auto simp: normalize_proficiency_def Let_def split: option.splits if_splits)

lemma tier_normal: "t \<in> set PROFICIENCY_TIERS \<Longrightarrow> normalize_proficiency (Some t) = Some t"
  by (auto simp: PROFICIENCY_TIERS_def normalize_proficiency_def py_lower_def py_lower_char_def py_strip_def py_isspace_def)

section \<open>Matches\<close>

lemma match_name [simp]: "sm_name (match_of req index prios n) = n"
  by (simp add: match_of_def Let_def split: option.split prod.split)

lemma match_skills_names:
  "(\<And>n. sm_name (f n) = n) \<Longrightarrow>
   map sm_name (match_skills f seen raws) = filter (\<lambda>n. n \<notin> set seen) (firsts (filter (\<lambda>s. s \<noteq> []) (map normalize_skill_label raws)))"
proof (induction raws arbitrary: seen)
  case Nil
  show ?case by (simp add: firsts_def)
next
  case (Cons raw raws)
  then show ?case by (auto simp: Let_def firsts_Cons filter_id_conv intro!: filter_cong)
qed

lemma match_skills_of: "m \<in> set (match_skills f seen raws) \<Longrightarrow> \<exists>n. n \<noteq> [] \<and> m = f n"
  by (induction raws arbitrary: seen) (auto simp: Let_def split: if_splits)

text \<open>Each skill of the posting is compared once, in the order of its first mention.\<close>

theorem each_skill_once: "map sm_name (evaluate_skill_matches skills req index prios) = skill_pool skills"
  by (simp add: evaluate_skill_matches_def match_skills_names skill_pool_def)

definition proven_skill :: "assertion list \<Rightarrow> skill_match \<Rightarrow> bool" where
  "proven_skill as m \<longleftrightarrow>
     sm_priority m = MANDATORY \<and> (\<exists>a\<in>set as. proven a \<and> as_predicate a = ''skill.name'' \<and> skill_label a = sm_name m)
     \<and> (\<exists>t\<in>{''working'', ''advanced'', ''expert''}. proficiencies as (sm_name m) = {Some t})"

lemma tier_ranks: "tier_rank ''basic'' = 0" "tier_rank ''foundations'' = 1" "tier_rank ''working'' = 2"
  by code_simp+

lemma tier_names: "t \<in> set PROFICIENCY_TIERS \<longleftrightarrow> t = ''basic'' \<or> t = ''foundations'' \<or> t \<in> {''working'', ''advanced'', ''expert''}"
  by (simp only: PROFICIENCY_TIERS_def list.set insert_iff empty_iff HOL.simp_thms)

lemma strong_tier:
  assumes "meets_strength_floor (Some t)" "t \<in> set PROFICIENCY_TIERS"
  shows "t \<in> {''working'', ''advanced'', ''expert''}"
proof -
  have "\<not> tier_rank t < 2"
    using assms(1) unfolding meets_strength_floor_def is_partial_proficiency_def tier_normal [OF assms(2)] by (simp add: tier_ranks)
  then have "t \<noteq> ''basic''" "t \<noteq> ''foundations''" using tier_ranks by fastforce+
  then show ?thesis using assms(2) by (simp only: tier_names simp_thms)
qed

text \<open>C37: 
  The comparison is never optimistic: a strength is a mandatory skill that a verified, positive
  assertion names, and all verified tiers of the subjects of that name agree on one that is at
  least working proficiency.
\<close>

theorem strengths_are_proven:
  assumes "m \<in> set (evaluate_skill_matches skills req (build_verified_skill_index as) prios)" "is_strength m"
  shows "proven_skill as m"
proof -
  obtain n where m: "m = match_of req (build_verified_skill_index as) prios n"
    using match_skills_of assms(1) unfolding evaluate_skill_matches_def by blast
  have s: "sm_required m" "sm_found m" "meets_strength_floor (sm_proficiency m)" using assms(2) by (auto simp: is_strength_def)
  have e: "map_of (build_verified_skill_index as) n = Some (skill_entry as n)" "\<exists>a\<in>set (name_rows as). skill_label a = n"
    using s(2) unfolding m by (auto simp: match_of_def Let_def index_entry split: if_splits)
  have p: "sm_priority m = MANDATORY" "sm_proficiency m = fst (skill_entry as n)" "sm_name m = n"
    using s(1) unfolding m by (auto simp: match_of_def Let_def e(1) split: prod.splits option.splits)
  obtain t where t: "fst (skill_entry as n) = Some t"
    using s(3) unfolding p(2)
    by (cases "fst (skill_entry as n)") (auto simp: meets_strength_floor_def is_partial_proficiency_def normalize_proficiency_def)
  have u: "proficiencies as n = {Some t}" using t by (simp add: entry_tier)
  then have "Some t \<in> proficiencies as n" by simp
  then obtain b :: assertion where "Some t = normalize_proficiency (value_text (as_value b))" unfolding proficiencies_def by blast
  note raw = this [symmetric]
  have "t \<in> {''working'', ''advanced'', ''expert''}"
    using s(3) strong_tier [OF _ normal_tier [OF raw]] unfolding p(2) t by blast
  then show ?thesis using p u e(2) by (auto simp: proven_skill_def name_rows_def)
qed

section \<open>The strongest cue\<close>

text \<open>The lines of a posting with the priority each gives to the skills it mentions.\<close>

fun cues :: "header_rules \<Rightarrow> RequirementPriority \<Rightarrow> string list \<Rightarrow> (string \<times> RequirementPriority) list" where
  "cues hr s [] = []"
| "cues hr s (raw # raws) =
     (let h = line_header hr raw; now = (case h of None \<Rightarrow> s | Some p \<Rightarrow> p);
          line = (case h of None \<Rightarrow> normalize_skill_label raw | Some _ \<Rightarrow> rest_of_header raw);
          c = classify_requirement_text raw NoSection in
      if normalize_skill_label raw = [] then cues hr s raws
      else if line = [] then cues hr now raws
      else (line, if c = PRIORITY_UNKNOWN then now else c) # cues hr now raws)"

definition stronger :: "RequirementPriority \<Rightarrow> RequirementPriority \<Rightarrow> RequirementPriority" where
  "stronger p q = (if priority_rank p > priority_rank q then p else q)"

definition cue_priorities :: "header_rules \<Rightarrow> string \<Rightarrow> string \<Rightarrow> RequirementPriority list" where
  "cue_priorities hr t skill = map snd (filter (\<lambda>(l, _). mentions skill l) (cues hr PRIORITY_UNKNOWN (description_to_lines t)))"

text \<open>A line without a cue keeps the table, any other raises the entries of the skills it mentions.\<close>

lemma line_step_cue:
  "line_step hr raw (s, tab) =
     (case cues hr s [raw] of
        [] \<Rightarrow> (fst (line_step hr raw (s, tab)), tab)
      | (l, p) # _ \<Rightarrow> (fst (line_step hr raw (s, tab)), map (raise_to p l) tab))"
  by (simp add: line_step_def Let_def cong: option.case_cong)

lemma cues_Cons: "cues hr s (raw # raws) = cues hr s [raw] @ cues hr (fst (line_step hr raw (s, tab))) raws"
  by (simp add: line_step_def Let_def cong: option.case_cong)

lemma cues_single: "cues hr s [raw] = [] \<or> (\<exists>l p. cues hr s [raw] = [(l, p)])"
  by (simp add: Let_def)

lemma raise_stronger: "raise_to p l = (\<lambda>(k, q). (k, if mentions k l then stronger p q else q))"
  by (auto simp: raise_to_def stronger_def fun_eq_iff)

lemma fold_lines:
  "snd (fold (line_step hr) ls (s, tab)) =
     map (\<lambda>(k, q). (k, fold stronger (map snd (filter (\<lambda>(l, _). mentions k l) (cues hr s ls))) q)) tab"
proof (induction ls arbitrary: s tab)
  case Nil
  show ?case by (simp add: case_prod_unfold)
next
  case (Cons raw ls)
  define now where "now = fst (line_step hr raw (s, tab))"
  from cues_single [of hr s raw] show ?case
  proof (elim disjE exE)
    assume e: "cues hr s [raw] = []"
    then have n: "line_step hr raw (s, tab) = (now, tab)" using line_step_cue [of hr raw s tab] by (simp add: now_def del: cues.simps)
    show ?case using cues_Cons [of hr s raw ls tab] unfolding fold.simps comp_apply n e by (simp add: Cons.IH)
  next
    fix l p assume e: "cues hr s [raw] = [(l, p)]"
    then have n: "line_step hr raw (s, tab) = (now, map (raise_to p l) tab)"
      using line_step_cue [of hr raw s tab] by (simp add: now_def del: cues.simps)
    show ?case using cues_Cons [of hr s raw ls tab] unfolding fold.simps comp_apply n e by (simp add: Cons.IH raise_stronger case_prod_unfold)
  qed
qed

lemma rank_stronger: "priority_rank (stronger p q) = max (priority_rank p) (priority_rank q)"
  by (simp add: stronger_def)

lemma rank_fold: "priority_rank (fold stronger ps q) = Max (insert (priority_rank q) (priority_rank ` set ps))"
proof (induction ps arbitrary: q)
  case (Cons p ps)
  then show ?case by (cases "ps = []") (simp_all add: rank_stronger insert_commute max.left_commute max.commute)
qed simp

text \<open>C38: 
  A skill of the posting counts as the strongest priority that a line gives which mentions it; without
  such a line it is unknown.
\<close>

theorem strongest_cue_wins:
  "map_of (classify_skill_priorities hr t skills) skill =
     (if skill \<in> set (skill_pool skills) then Some (fold stronger (cue_priorities hr t skill) PRIORITY_UNKNOWN) else None)
   \<and> priority_rank (fold stronger (cue_priorities hr t skill) PRIORITY_UNKNOWN)
     = Max (insert 0 (priority_rank ` set (cue_priorities hr t skill)))"
  by (simp add: classify_skill_priorities_def fold_lines rank_fold cue_priorities_def comp_def map_of_entries)

section \<open>The older split\<close>

lemma split_within:
  "set (snd st) \<subseteq> set pool \<Longrightarrow> set (snd (fold (split_step hr pool) ls st)) \<subseteq> set pool"
proof (induction ls arbitrary: st)
  case (Cons l ls)
  have "set (snd (split_step hr pool l st)) \<subseteq> set pool" using Cons.prems by (auto simp: split_step_def Let_def)
  then show ?case using Cons.IH by simp
qed simp

text \<open>The older split divides the skills of the posting in two.\<close>

theorem split_divides:
  "set (fst (split_required_and_nice_to_have hr t skills)) \<union> set (snd (split_required_and_nice_to_have hr t skills)) = set (skill_pool skills)
   \<and> set (fst (split_required_and_nice_to_have hr t skills)) \<inter> set (snd (split_required_and_nice_to_have hr t skills)) = {}"
  using split_within [of "(False, [])" "skill_pool skills" hr "description_to_lines t"]
  by (auto simp: split_required_and_nice_to_have_def Let_def)

section \<open>Runs\<close>

definition skill_fact :: "string \<Rightarrow> string \<Rightarrow> string \<Rightarrow> string \<Rightarrow> assertion" where
  "skill_fact i s p v = \<lparr>as_id = i, as_subject = s, as_predicate = p, as_value = VText v, as_type = DIRECT_FACT,
     as_status = VERIFIED, as_evidence = [''e1''], as_polarity = POSITIVE, as_modality = DEFINITE, as_qualifiers = [],
     as_from = None, as_to = None, as_supersedes = [], as_conflicts = []\<rparr>"

definition founder_facts :: "assertion list" where
  "founder_facts = [skill_fact ''a1'' ''s1'' ''skill.name'' ''Python'', skill_fact ''a2'' ''s1'' ''skill.proficiency'' ''expert'',
     skill_fact ''a3'' ''s2'' ''skill.name'' ''JavaScript'', skill_fact ''a4'' ''s2'' ''skill.proficiency'' ''basic'']"

definition demo_matches :: "skill_match list" where
  "demo_matches = evaluate_skill_matches [''JavaScript'', ''Python'', ''Rust'', ''python''] [''python'', ''javascript'']
     (build_verified_skill_index founder_facts) None"

text \<open>Both skills are required; the expert one is a strength, the basic one is not.\<close>

theorem basic_is_no_strength:
  "map (\<lambda>m. (sm_name m, is_strength m, is_partial m)) demo_matches
     = [(''javascript'', False, True), (''python'', True, False), (''rust'', False, False)]"
  by code_simp

theorem strengths_are_proven_witness: "proven_skill founder_facts (demo_matches ! 1)"
proof -
  have "demo_matches ! 1 \<in> set demo_matches" "is_strength (demo_matches ! 1)" by code_simp+
  then show ?thesis using strengths_are_proven unfolding demo_matches_def by blast
qed

definition plain_headers :: header_rules where
  "plain_headers = \<lparr>hr_required = [cats [NotBehind (\<lambda>_. True), liti ''requirements'', AtEnd]], hr_nice = [], hr_strong = [], hr_context = []\<rparr>"

text \<open>
  Of a line with two cues the weaker one is read: an optional degree makes the required skill beside
  it nice to have.
\<close>

theorem optional_degree_demotes_skill:
  "map (\<lambda>t. map_of (classify_skill_priorities plain_headers t [''Python'']) ''python'')
     [''Python is required.'', ''Python is required, a degree is optional.'', ''Requirements: Python'', ''Python.'']
   = [Some MANDATORY, Some NICE_TO_HAVE, Some MANDATORY, Some PRIORITY_UNKNOWN]"
  by code_simp

end
