(* ===== verification/Spec2Isabelle.thy ===== *)
theory Spec2Isabelle
  imports Queue_Properties Scheduler_Properties Engine_Properties Inbox_Properties
    Qualification_Properties Seniority_Properties Dedupe_Properties Clustering_Properties Truth_Findings
    Claim_Findings Artifact_Claims_Properties Scoring_Properties Skills_Properties
begin

text \<open>
  A verification library for OpportunityOS, a Python system that polls job boards, prepares
  applications, under strict conditions submits them, and reads the replies. It covers the parts
  in which an error does damage: the background work (\<open>worker/\<close>), the outbound submission of
  applications (\<open>outbound/\<close>) and the processing of inbound mail (\<open>inbox/\<close>), the facts about the founder
  (\<open>truth/\<close>) and the screening of postings (\<open>matching/\<close>, \<open>opportunity/\<close>).

  \<^bold>\<open>Parts and theories.\<close>

  \<^item> \<open>Prelude\<close>, \<open>Json\<close>: Python strings on ASCII text, exceptions as a sum type, table updates,
    JSON documents and texts.
  \<^item> \<open>Capacity\<close> (\<open>scripts/db_capacity_guard.py\<close>): thresholds of the database size, the snapshot
    and the guard against heavy work. Scheduler, queue and runner ask it.
  \<^item> \<open>Job_Queue\<close> (\<open>worker/queue.py\<close>, \<open>BackgroundWorkerQueue\<close>): the table \<open>worker_jobs\<close> as a list
    of records; enqueue, claim with the sweep of stale leases, release, complete, fail.
  \<^item> \<open>Runner\<close> (\<open>worker/runner.py\<close>, \<open>WorkerRunner\<close>): capacity probe, lease fence, heartbeat, one
    dispatch and the polling loop. Handlers are an argument.
  \<^item> \<open>Queue_System\<close>, \<open>Queue_Properties\<close>: any number of workers on one table as a step relation;
    invariants by rule induction; what each operation does.
  \<^item> \<open>Scheduler\<close>, \<open>Scheduler_Properties\<close> (\<open>worker/scheduler.py\<close>): durable schedules, the due tick
    in its three request forms, the supervised catch-up wave.
  \<^item> \<open>Outbound_Models\<close>, \<open>Outbound_Registry\<close>, \<open>Ontology\<close>, \<open>Artifact_Selector\<close>, \<open>Answer_Engine\<close>,
    \<open>Authority\<close>: the files of the same names under \<open>outbound/\<close>: data with validating
    constructors, source policies and adapter graduation, classification of form fields, the
    artifact bound to an opportunity, answers from asserted facts, the eleven gates.
  \<^item> \<open>Ledger\<close> (\<open>outbound/idempotency.py\<close>), \<open>Pg_Ledger\<close> (\<open>outbound/postgres_idempotency.py\<close>): the
    two ledgers. \<open>Submission_Contract\<close> states what both promise: a locale \<open>submission_ledger\<close>, a
    protocol of reserve, send and move steps, and that a key is sent at most once. Both ledgers
    interpret it; \<open>Ledger_Properties\<close> holds the consequences.
  \<^item> \<open>Browser_Driver\<close> (\<open>outbound/mock_harness.py\<close>, the driver classes of
    \<open>outbound/browser_engine.py\<close>): the interface as a locale \<open>form_driver\<close>, interpreted by the mock.
  \<^item> \<open>Browser_Engine\<close> (\<open>outbound/browser_engine.py\<close>): \<open>prepare_manifest\<close> and
    \<open>execute_application\<close>, cut into the phases of the code (\<open>exec_open\<close> to \<open>exec_submit\<close>), with a
    change of the world by other threads between any two of them. \<open>Engine_Contract\<close> proves the
    engine correct over every driver and ledger that keep their contracts (locale
    \<open>submission_engine\<close>); \<open>Engine_Properties\<close> interprets it for both ledgers.

  \<^item> \<open>Inbox_Models\<close>, \<open>Inbox_Classifier\<close>, \<open>Inbox_Correlation\<close>, \<open>Inbox_Pipeline\<close>, \<open>Inbox_Analytics\<close>:
    the files of these names under \<open>inbox/\<close> (and \<open>learning.py\<close>); \<open>Py_Regex\<close> models the part of
    Python's regular expressions the classifier uses, as a backtracking matcher.
  \<^item> \<open>Inbox_Cycle\<close> (\<open>notifications.py\<close>, \<open>ingestion.py\<close>, \<open>orchestrator.py\<close>): the processing cycle over
    a store given as a record of its operations; \<open>Inbox_Gmail\<close> the Gmail transport.
  \<^item> \<open>Inbox_Contract\<close>: the abstract view of a store and the abstract cycle, with crash safety proved
    on it. \<open>Inbox_Refinement\<close>: the contract of a store as a locale \<open>inbox_store_contract\<close> and the
    proof that over any store that keeps it the orchestrator refines the abstract cycle.
    \<open>Inbox_Tables\<close> holds the rows of both stores, \<open>Inbox_Store\<close> (\<open>persistence.py\<close>) and
    \<open>Pg_Inbox_Store\<close> (\<open>postgres_persistence.py\<close>) interpret the contract; \<open>Inbox_Properties\<close> holds the
    consequences.

  \<^item> \<open>Postings\<close> (\<open>opportunity/models.py\<close>, \<open>matching/models.py\<close> and the country names of
    \<open>opportunity/normalization.py\<close>), \<open>Qualification\<close> (\<open>matching/qualification.py\<close>): the hard
    constraints of a posting against the founder's verified facts; \<open>Qualification_Properties\<close> shows
    that a rejection is grounded, that missing facts never reject, and where the engine departs from
    its rules.
  \<^item> \<open>Seniority\<close> (\<open>matching/seniority.py\<close>): employment spans from verified assertions, tenure as merged
    month ranges, leadership, the verdict on a level; \<open>Seniority_Properties\<close> identifies tenure with the
    size of a set of months.
  \<^item> \<open>Grouping\<close>, \<open>Url\<close>: dictionaries of lists and the functions of \<open>urllib.parse\<close>. \<open>Dedupe\<close>
    (\<open>opportunity/dedupe.py\<close>): the two layers of deduplication; \<open>Dedupe_Properties\<close>: nothing lost,
    nothing merged without proof, a second run changes nothing. \<open>Clustering\<close>
    (\<open>matching/title_family.py\<close>, \<open>opportunity/clustering.py\<close>): titles to families and levels, family
    cards; \<open>Clustering_Properties\<close>: a partition that no order of arrival changes, with honest cards.

  \<^item> \<open>Truth_Base\<close>, \<open>Truth_Models\<close> (\<open>truth/models.py\<close>): dates, enumerations, the evidence, assertion,
    relation, metric and profile records with the checks of their constructors, and the manifest of
    material fields. \<open>Truth_Support\<close> and \<open>Truth_Graph\<close> (\<open>truth/graph.py\<close>): when the text of a record
    supports a value or a metric; the graph, the operations that add to it, the projection of
    profiles into assertions, the queries. \<open>Truth_Invariant\<close>: the invariant of the graph, kept by every
    operation however it ends, and the reachable graphs. \<open>Truth_Properties\<close>, \<open>Truth_Findings\<close>: what
    follows from it, and runs that show where the code falls short.
  \<^item> \<open>Claim_Validator\<close> (\<open>truth/validator.py\<close>): which sentences about the founder the graph allows, in the
    order of the code's guards (\<open>judge_text\<close>, \<open>judge_evidence\<close>, \<open>judge_supported\<close>); narrative segments and
    structured candidates. \<open>Claim_Properties\<close>: an allowed claim is grounded in verified, linked records
    of any reachable graph, rules come first, when validation raises. \<open>Claim_Findings\<close>: runs.
  \<^item> \<open>Artifact_Claims\<close> (\<open>matching/artifact_validation.py\<close>, \<open>matching/validator.py\<close>): the check of a whole
    document before it is sent; \<open>Artifact_Claims_Properties\<close>: what a valid verdict guarantees for every claim.
  \<^item> \<open>Scoring\<close> (\<open>matching/scorer.py\<close>): the stated preferences, the six dimensions of a tender, the assembly of
    an evaluation from the outcome of \<open>Qualification\<close> and the dimension scores; \<open>Scoring_Properties\<close>: ranges,
    independence of fit and preferences, when a tender is scored. The dimensions of an employment posting and
    the confidence factors are arguments.
  \<^item> \<open>Skills\<close> (\<open>matching/skills.py\<close>, \<open>matching/requirements.py\<close>): the priority of a text and of each skill a
    posting mentions, the verified skills with their proficiency, the comparison and its reason;
    \<open>Skills_Properties\<close>: a strength is proven at working proficiency, the strongest cue counts.

  \<^bold>\<open>State and errors.\<close> Tables and registries are explicit state that operations take and return. An
  exception is a value \<open>Inl e\<close>; an operation that rolls back returns the state it was given.
  Clocks, fresh identifiers, row locks held by other sessions, capacity readings, evidence files
  and what other sessions commit are arguments. Times are microseconds as integers, Python
  integers are \<open>int\<close>, floats in records are \<open>real\<close> and only compared or passed on.

  \<^bold>\<open>What is shown.\<close> For the queue: the invariant of leases and retries, that no job runs more often
  than its retry limit allows, that a lost lease writes nothing, claim order, that due work is
  claimed, and that the loop stops. For the scheduler: at most one active poll for a source, one
  poll in the warning band, none under a pause, every due source served, schedules that survive a
  restart, an all-or-nothing wave. For submission: a form is sent only after every gate was passed
  and passed again after the reservation; a batch of executions sends at most one form for a key,
  over either ledger and under interference; dry and assisted runs send nothing; an answer is an
  asserted fact, a configured policy or a pause. Error behaviour is stated where the code raises.
  For the inbox: a cycle interrupted after any write and run again leaves what one run would have
  left, on SQLite for every mail and on PostgreSQL for mail its columns and the date parser accept
  (and mail they refuse is lost, which is stated too); links rest on one unique match; signals quote
  the mail; derived states do not depend on the order of writing; metrics count each action once.
  For qualification: hard failures rest on verified conflicting facts, unknown is never ineligible,
  and the decision is a function of the results. For the truth graph: every value is carried by
  evidence that exists, verified claims rest on verified records, nothing recorded is rewritten, a
  projected assertion is as strong as its weakest record, and linked and active are characterised.
  For claims: an allowed sentence stands word by word in verified records that the graph links, its
  numbers are verified metrics, no rule forbids it; a valid document holds only such claims, narrative,
  headers and configured commitments. For scoring: the fit is a weighted mean of the capability dimensions
  alone, no score leaves its range, preferences and strengths of skill rest on verified assertions.

  \<^bold>\<open>Loops and bounds.\<close> The claim loop terminates because every pass that goes round removes a running
  row; form loops are bounded by the code's own ten steps (\<open>MAX_STEPS\<close>); the regular expression matcher
  terminates because a repetition that consumes nothing is not repeated; \<open>run_forever\<close> may run for
  ever and is a partial function into \<open>option\<close>, shown to return once the stop event is set.

  \<^bold>\<open>Parameters.\<close> SHA-256, the families of titles read from YAML, the digest of a canonical JSON text, the
  search with a pattern that a truth pack supplies, the attributes of a policy object, \<open>datetime.fromisoformat\<close> and
  \<open>isoformat\<close>, the Gmail client, number formatting, the
  artifact claim validator and the job handlers are arguments of the definitions. The only
  assumption on a hash is that it does not collide where a statement says so.

  \<^bold>\<open>Not modelled.\<close> Text outside ASCII, telemetry, signal handlers, the text of configuration files,
  connection management, the order in which a database returns rows that no query orders (the
  table's order stands for it), and the packages \<open>api\<close>, \<open>matching\<close>, \<open>opportunity\<close>, \<open>truth\<close>,
  \<open>storage\<close> and \<open>scripts\<close> beyond what is named above.
\<close>

end
